(* ===== verification/Prelude.thy ===== *)
theory Prelude
  imports Complex_Main "HOL-Library.Multiset" "HOL-Library.Product_Lexorder" "HOL-Library.List_Lexorder"
    "HOL-Library.Char_ord"
begin

text \<open>
  Shared vocabulary of the development.

  \<^item> Values: \<open>uuid\<close> (an opaque 128 bit number with Python's textual form \<open>uuid_str\<close>),
    \<open>time\<close> (microseconds since the epoch, UTC), \<open>datetime\<close> (a Python datetime, which may be
    naive), \<open>decimal\<close> (a Python Decimal, which may be non-finite) and \<open>json\<close> (the payload
    dictionaries).
  \<^item> Errors: every exception of the modelled code is a value of \<open>error\<close>; a fallible operation
    returns \<open>'a result = error + 'a\<close>. A request runs in one database transaction that is rolled
    back by any exception, so an operation that fails returns no new state.
    The human readable message of an \<open>AppError\<close> is display text and is not kept.
  \<^item> Tables: a table is the list of its rows, in insertion order; \<open>update_where\<close> is an UPDATE
    (or the mutation of a loaded row) and \<open>sum_where\<close> an aggregate over the selected rows.
\<close>

section \<open>Values\<close>

type_synonym uuid = nat
type_synonym time = int

definition hex_digit :: "nat \<Rightarrow> char" where
  "hex_digit d = (if d < 10 then char_of (48 + d) else char_of (87 + d))"

fun hex_digits :: "nat \<Rightarrow> nat \<Rightarrow> string" where
  "hex_digits 0 n = []"
| "hex_digits (Suc k) n = hex_digits k (n div 16) @ [hex_digit (n mod 16)]"

definition uuid_str :: "uuid \<Rightarrow> string" where
  "uuid_str u =
     (let h = hex_digits 32 u
      in take 8 h @ ''-'' @ take 4 (drop 8 h) @ ''-'' @ take 4 (drop 12 h) @ ''-''
         @ take 4 (drop 16 h) @ ''-'' @ drop 20 h)"

lemma length_hex_digits [simp]: "length (hex_digits k n) = k"
  by (induction k arbitrary: n) auto

lemma length_uuid_str [simp]: "length (uuid_str u) = 36"
  by (simp add: uuid_str_def Let_def)

text \<open>A Python datetime: aware (an instant) or naive (a wall clock reading with no zone).\<close>

datatype datetime = Aware time | Naive time

primrec tz_none :: "datetime \<Rightarrow> bool" where
  "tz_none (Aware t) = False"
| "tz_none (Naive t) = True"

primrec clock_of :: "datetime \<Rightarrow> time" where
  "clock_of (Aware t) = t"
| "clock_of (Naive t) = t"

datatype decimal = Finite rat | PosInfinity | NegInfinity | NaN

datatype json =
    JNull
  | JBool bool
  | JInt int
  | JDec rat
  | JStr string
  | JUuid uuid
  | JTime time
  | JList "json list"
  | JDict "(string \<times> json) list"

section \<open>Errors and results\<close>

datatype error =
    AppError (err_code: string) (err_status: int) (err_fields: "(string \<times> string) list")
      (err_remediation: "json option")
  | ValueError string
  | RuntimeError string
  | KeyError
  | TypeError
  | IntegrityError string
  | DataError string
  | DecimalException

type_synonym 'a result = "error + 'a"

abbreviation app_error :: "string \<Rightarrow> int \<Rightarrow> error" where
  "app_error c s \<equiv> AppError c s [] None"

definition bind_result :: "'a result \<Rightarrow> ('a \<Rightarrow> 'b result) \<Rightarrow> 'b result" where
  "bind_result m f = (case m of Inl e \<Rightarrow> Inl e | Inr x \<Rightarrow> f x)"

definition ensure :: "bool \<Rightarrow> error \<Rightarrow> unit result" where
  "ensure b e = (if b then Inr () else Inl e)"

definition is_ok :: "'a result \<Rightarrow> bool" where
  "is_ok r = (case r of Inl _ \<Rightarrow> False | Inr _ \<Rightarrow> True)"

named_theorems result_simps "evaluation and inversion of fallible computations"
named_theorems table_simps "effect of table updates on lookups and aggregates"

lemma bind_result_Inl [simp]: "bind_result (Inl e) f = Inl e"
  by (simp add: bind_result_def)

lemma bind_result_Inr [simp]: "bind_result (Inr x) f = f x"
  by (simp add: bind_result_def)

lemma bind_result_eq_Inr [result_simps]:
  "bind_result m f = Inr y \<longleftrightarrow> (\<exists>x. m = Inr x \<and> f x = Inr y)"
  by (cases m) auto

lemma bind_result_eq_Inl [result_simps]:
  "bind_result m f = Inl e \<longleftrightarrow> m = Inl e \<or> (\<exists>x. m = Inr x \<and> f x = Inl e)"
  by (cases m) auto

lemma ensure_eq_Inr [simp]: "ensure b e = Inr u \<longleftrightarrow> b"
  by (simp add: ensure_def)

lemma ensure_eq_Inl [simp]: "ensure b e = Inl e' \<longleftrightarrow> \<not> b \<and> e' = e"
  by (auto simp: ensure_def)

lemma is_ok_simps [simp]: "is_ok (Inl e) = False" "is_ok (Inr x) = True"
  by (simp_all add: is_ok_def)

lemma is_ok_iff: "is_ok r \<longleftrightarrow> (\<exists>x. r = Inr x)"
  by (cases r) auto

lemma bind_ensure [simp]: "bind_result (ensure b e) f = (if b then f () else Inl e)"
  by (simp add: ensure_def)

section \<open>Tables\<close>

definition update_where :: "('a \<Rightarrow> bool) \<Rightarrow> ('a \<Rightarrow> 'a) \<Rightarrow> 'a list \<Rightarrow> 'a list" where
  "update_where P f xs = map (\<lambda>x. if P x then f x else x) xs"

definition sum_where :: "('a \<Rightarrow> bool) \<Rightarrow> ('a \<Rightarrow> 'b::comm_monoid_add) \<Rightarrow> 'a list \<Rightarrow> 'b" where
  "sum_where P f xs = sum_list (map f (filter P xs))"

lemma update_where_simps [simp]:
  "update_where P f [] = []"
  "update_where P f (x # xs) = (if P x then f x else x) # update_where P f xs"
  "update_where P f (xs @ ys) = update_where P f xs @ update_where P f ys"
  "length (update_where P f xs) = length xs"
  by (simp_all add: update_where_def)

lemma set_update_where: "set (update_where P f xs) = (\<lambda>x. if P x then f x else x) ` set xs"
  by (simp add: update_where_def)

lemma update_where_none [table_simps]: "(\<And>x. x \<in> set xs \<Longrightarrow> \<not> P x) \<Longrightarrow> update_where P f xs = xs"
  by (induction xs) auto

lemma map_update_where [table_simps]:
  "(\<And>x. P x \<Longrightarrow> k (f x) = k x) \<Longrightarrow> map k (update_where P f xs) = map k xs"
  by (simp add: update_where_def)

lemma sum_where_simps [simp]:
  "sum_where P f [] = 0"
  "sum_where P f (x # xs) = (if P x then f x + sum_where P f xs else sum_where P f xs)"
  by (simp_all add: sum_where_def)

lemma sum_where_append [simp]: "sum_where P f (xs @ ys) = sum_where P f xs + sum_where P f ys"
  by (simp add: sum_where_def)

lemma sum_where_cong:
  "(\<And>x. x \<in> set xs \<Longrightarrow> P x = Q x) \<Longrightarrow> (\<And>x. x \<in> set xs \<Longrightarrow> P x \<Longrightarrow> f x = g x) \<Longrightarrow>
   sum_where P f xs = sum_where Q g xs"
  by (induction xs) auto

lemma sum_where_none [table_simps]: "(\<And>x. x \<in> set xs \<Longrightarrow> \<not> P x) \<Longrightarrow> sum_where P f xs = 0"
  by (induction xs) auto

lemma sum_where_nonneg:
  "(\<And>x. x \<in> set xs \<Longrightarrow> P x \<Longrightarrow> (0::'b::ordered_comm_monoid_add) \<le> f x) \<Longrightarrow> 0 \<le> sum_where P f xs"
  by (induction xs) (auto intro: add_nonneg_nonneg)

text \<open>
  Updating the one row with a given key changes an aggregate by the change of that row: the
  fact every ledger proof rests on.
\<close>

lemma sum_where_update_key:
  fixes f :: "'a \<Rightarrow> 'b::ab_group_add"
  assumes "distinct (map k xs)" and "x \<in> set xs" and "k x = i"
    and "\<And>y. k (u y) = k y" and "P (u x) = P x"
  shows "sum_where P f (update_where (\<lambda>y. k y = i) u xs)
         = sum_where P f xs + (if P x then f (u x) - f x else 0)"
  using assms(1,2)
proof (induction xs)
  case Nil
  then show ?case by simp
next
  case (Cons y ys)
  show ?case
  proof (cases "k y = i")
    case True
    with Cons.prems assms(3) have "y = x" and rest: "\<And>z. z \<in> set ys \<Longrightarrow> k z \<noteq> i"
      by (auto simp: image_iff)
    moreover from rest have "update_where (\<lambda>y. k y = i) u ys = ys"
      by (intro update_where_none) auto
    ultimately show ?thesis using True assms(5) by (auto simp: algebra_simps)
  next
    case False
    with Cons.prems assms(3) have "x \<in> set ys" by auto
    with False Cons show ?thesis by (auto simp: algebra_simps)
  qed
qed

lemma sum_where_if: "sum_where P f xs = sum_where (\<lambda>_. True) (\<lambda>x. if P x then f x else 0) xs"
  by (induction xs) auto

lemma sum_where_update_row:
  fixes f :: "'a \<Rightarrow> 'b::ab_group_add"
  assumes "distinct (map k xs)" and "x \<in> set xs" and "k x = i" and "\<And>y. k (u y) = k y"
  shows "sum_where P f (update_where (\<lambda>y. k y = i) u xs)
         = sum_where P f xs + ((if P (u x) then f (u x) else 0) - (if P x then f x else 0))"
  using sum_where_update_key [OF assms, of "\<lambda>_. True" "\<lambda>x. if P x then f x else 0"]
  by (subst (1 2) sum_where_if) simp

lemma find_SomeD: "List.find P xs = Some x \<Longrightarrow> x \<in> set xs \<and> P x"
  by (auto simp: find_Some_iff)

lemma find_NoneD: "List.find P xs = None \<Longrightarrow> x \<in> set xs \<Longrightarrow> \<not> P x"
  by (auto simp: find_None_iff)

lemma find_append:
  "List.find P (xs @ ys) = (case List.find P xs of None \<Rightarrow> List.find P ys | Some x \<Rightarrow> Some x)"
  by (induction xs) auto

lemma find_update_where:
  "(\<And>x. P (f x) = P x) \<Longrightarrow>
   List.find P (update_where Q f xs) = map_option (\<lambda>x. if Q x then f x else x) (List.find P xs)"
  by (induction xs) auto

lemma find_key:
  "distinct (map k xs) \<Longrightarrow> x \<in> set xs \<Longrightarrow> k x = i \<Longrightarrow> List.find (\<lambda>y. k y = i) xs = Some x"
  by (induction xs) (auto simp: image_iff)

lemma distinct_key_eq: "distinct (map k xs) \<Longrightarrow> x \<in> set xs \<Longrightarrow> y \<in> set xs \<Longrightarrow> k x = k y \<Longrightarrow> x = y"
  by (simp add: distinct_map inj_on_def)

section \<open>Dictionaries\<close>

text \<open>\<open>dict.fromkeys\<close>: the distinct elements in the order of their first occurrence.\<close>

definition dict_fromkeys :: "'a list \<Rightarrow> 'a list" where
  "dict_fromkeys xs = rev (remdups (rev xs))"

lemma set_dict_fromkeys [simp]: "set (dict_fromkeys xs) = set xs"
  by (simp add: dict_fromkeys_def)

lemma distinct_dict_fromkeys [simp]: "distinct (dict_fromkeys xs)"
  by (simp add: dict_fromkeys_def)

text \<open>\<open>d.get(k)\<close> on a JSON object given as the list of its members; a missing key reads as
  null (None).\<close>

definition dict_get :: "(string \<times> json) list \<Rightarrow> string \<Rightarrow> json" where
  "dict_get d k = (case map_of d k of None \<Rightarrow> JNull | Some v \<Rightarrow> v)"

text \<open>Item assignment: an existing key keeps its place, a new one goes to the end.\<close>

definition dict_set :: "string \<Rightarrow> json \<Rightarrow> (string \<times> json) list \<Rightarrow> (string \<times> json) list" where
  "dict_set k v d =
     (if k \<in> set (map fst d) then map (\<lambda>e. if fst e = k then (k, v) else e) d else d @ [(k, v)])"

lemma map_of_replace:
  "map_of (map (\<lambda>e. if fst e = k then (k, v) else e) d) j
   = (if j = k \<and> k \<in> set (map fst d) then Some v else map_of d j)"
proof (induction d)
  case (Cons e d)
  then show ?case by (cases "j = k"; cases e) simp_all
qed simp

lemma map_of_dict_set [simp]: "map_of (dict_set k v d) j = (if j = k then Some v else map_of d j)"
proof (cases "k \<in> set (map fst d)")
  case True
  then show ?thesis by (simp add: dict_set_def map_of_replace)
next
  case False
  then have "map_of d k = None" by (simp add: map_of_eq_None_iff)
  with False show ?thesis by (auto simp: dict_set_def map_add_def split: option.splits)
qed

lemma dict_get_set [simp]: "dict_get (dict_set k v d) j = (if j = k then v else dict_get d j)"
  by (simp add: dict_get_def)

text \<open>Truth value and equality of JSON values as Python has them: booleans compare as numbers.\<close>

fun py_truthy :: "json \<Rightarrow> bool" where
  "py_truthy JNull = False"
| "py_truthy (JBool b) = b"
| "py_truthy (JInt i) = (i \<noteq> 0)"
| "py_truthy (JDec r) = (r \<noteq> 0)"
| "py_truthy (JStr s) = (s \<noteq> [])"
| "py_truthy (JUuid u) = True"
| "py_truthy (JTime t) = True"
| "py_truthy (JList xs) = (xs \<noteq> [])"
| "py_truthy (JDict d) = (d \<noteq> [])"

fun py_number :: "json \<Rightarrow> rat option" where
  "py_number (JBool b) = Some (if b then 1 else 0)"
| "py_number (JInt i) = Some (of_int i)"
| "py_number (JDec r) = Some r"
| "py_number _ = None"

fun hashable :: "json \<Rightarrow> bool" where
  "hashable (JList _) = False"
| "hashable (JDict _) = False"
| "hashable _ = True"

text \<open>Equality of hashable values, and \<open>x in s\<close> for a set \<open>s\<close> of them: a list or a dict as \<open>x\<close>
  raises.\<close>

definition py_eq :: "json \<Rightarrow> json \<Rightarrow> bool" where
  "py_eq a b \<longleftrightarrow> (if py_number a \<noteq> None then py_number a = py_number b else a = b)"

definition py_in_set :: "json \<Rightarrow> json list \<Rightarrow> bool result" where
  "py_in_set x s = (if hashable x then Inr (list_ex (py_eq x) s) else Inl TypeError)"

text \<open>\<open>set(v)\<close> of a JSON value: the elements of a list, the characters of a string, the keys of an
  object; other values are not iterable.\<close>

fun py_set :: "json \<Rightarrow> json list result" where
  "py_set (JList xs) = (if list_all hashable xs then Inr xs else Inl TypeError)"
| "py_set (JStr s) = Inr (map (\<lambda>c. JStr [c]) s)"
| "py_set (JDict d) = Inr (map (\<lambda>(k, v). JStr k) d)"
| "py_set _ = Inl TypeError"

section \<open>Sorted listings\<close>

lemma sum_list_sort_key [simp]:
  "sum_list (map f (sort_key k xs)) = (sum_list (map f xs) :: 'b::comm_monoid_add)"
  by (metis mset_map mset_sort sum_mset_sum_list)

lemma distinct_map_sort_key [simp]: "distinct (map f (sort_key k xs)) = distinct (map f xs)"
  by (metis mset_map mset_sort mset_eq_imp_distinct_iff)

end
