(* ===== verification/Foundation.thy ===== *)
theory Foundation
  imports Prelude
begin

text \<open>
  The durable primitives every domain service uses: the authenticated principal and permission
  checks (\<^verbatim>\<open>core/context.py\<close>, \<^verbatim>\<open>core/permissions.py\<close>, \<^verbatim>\<open>db/session.py\<close>), the append-only audit log,
  the transactional outbox and the idempotency records (\<^verbatim>\<open>services/\<close>, \<^verbatim>\<open>db/models/foundation.py\<close>) and
  the retry delay (\<^verbatim>\<open>core/retries.py\<close>).

  A database session is the record \<open>session_db\<close>; each domain extends it with its own tables.
  \<open>uuid_supply\<close> is the source of \<open>uuid4\<close>: identifiers are handed out in increasing order, so
  fresh ones never collide with those in use. The clock reading of a call is an argument \<open>now\<close>.
\<close>

section \<open>Principals and permissions\<close>

datatype PrincipalKind = UNKNOWN | USER_SESSION | API_KEY

record principal =
  subject_id :: uuid
  workspace_id :: uuid
  session_id :: "uuid option"
  permissions :: "string list"
  authentication_method :: string
  kind :: PrincipalKind
  mfa_verified_at :: "time option"

definition has_platform_assurance :: "principal \<Rightarrow> bool" where
  "has_platform_assurance p \<longleftrightarrow>
     kind p = PrincipalKind.USER_SESSION \<and> session_id p \<noteq> None \<and> mfa_verified_at p \<noteq> None"

text \<open>\<open>require_permission_value\<close> and \<open>require_permissions\<close>; the principal of the request is
  \<open>None\<close> when the authentication layer bound none.\<close>

definition get_principal :: "principal option \<Rightarrow> principal result" where
  "get_principal r =
     (case r of None \<Rightarrow> Inl (app_error ''AUTHENTICATION_REQUIRED'' 401) | Some p \<Rightarrow> Inr p)"

definition require_permission_value :: "string \<Rightarrow> principal option \<Rightarrow> principal result" where
  "require_permission_value v r =
     bind_result (get_principal r) (\<lambda>p.
       if v \<notin> set (permissions p) then Inl (app_error ''PERMISSION_DENIED'' 403) else Inr p)"

text \<open>\<open>missing\<close> is sorted by code points; the fields of the error list it in that order.\<close>

definition require_permissions :: "string list \<Rightarrow> principal option \<Rightarrow> principal result" where
  "require_permissions required r =
     bind_result (get_principal r) (\<lambda>p.
       let missing = sort (filter (\<lambda>v. v \<notin> set (permissions p)) (remdups required))
       in if missing \<noteq> []
          then Inl (AppError ''PERMISSION_DENIED'' 403
                 (map (\<lambda>v. (''permissions'', v)) missing) None)
          else Inr p)"

definition PLATFORM_SESSION_PERMISSIONS :: "string list" where
  "PLATFORM_SESSION_PERMISSIONS = [''platform:operate'', ''platform:approve'']"

definition has_platform_permission :: "principal \<Rightarrow> bool" where
  "has_platform_permission p \<longleftrightarrow>
     list_ex (\<lambda>v. v \<in> set (permissions p)) PLATFORM_SESSION_PERMISSIONS"

definition ensure_platform_session_assurance :: "principal \<Rightarrow> unit result" where
  "ensure_platform_session_assurance p =
     (if \<not> has_platform_permission p then Inl (app_error ''PERMISSION_DENIED'' 403)
      else if kind p = PrincipalKind.API_KEY then Inl (app_error ''PLATFORM_API_KEY_FORBIDDEN'' 403)
      else if kind p \<noteq> PrincipalKind.USER_SESSION \<or> session_id p = None
        then Inl (app_error ''PLATFORM_USER_SESSION_REQUIRED'' 403)
      else if \<not> has_platform_assurance p then Inl (app_error ''PLATFORM_MFA_REQUIRED'' 403)
      else Inr ())"

text \<open>The two transaction-local settings row level security reads, and the session openers that
  bind them.\<close>

record rls_scope =
  current_workspace_id :: "uuid option"
  current_platform_operator_id :: "uuid option"

definition empty_scope :: rls_scope where
  "empty_scope = \<lparr>current_workspace_id = None, current_platform_operator_id = None\<rparr>"

definition apply_workspace_scope :: "uuid \<Rightarrow> rls_scope \<Rightarrow> rls_scope" where
  "apply_workspace_scope ws s = s\<lparr>current_workspace_id := Some ws\<rparr>"

definition apply_platform_scope :: "uuid \<Rightarrow> rls_scope \<Rightarrow> rls_scope" where
  "apply_platform_scope op s = s\<lparr>current_platform_operator_id := Some op\<rparr>"

definition get_tenant_session :: "principal \<Rightarrow> rls_scope result" where
  "get_tenant_session p = Inr (apply_workspace_scope (workspace_id p) empty_scope)"

definition get_platform_session :: "principal \<Rightarrow> rls_scope result" where
  "get_platform_session p =
     bind_result (ensure_platform_session_assurance p) (\<lambda>_.
       Inr (apply_platform_scope (subject_id p) empty_scope))"

definition get_job_session :: "principal \<Rightarrow> rls_scope result" where
  "get_job_session p =
     bind_result (if has_platform_permission p then ensure_platform_session_assurance p else Inr ())
       (\<lambda>_. let s = apply_workspace_scope (workspace_id p) empty_scope
            in Inr (if has_platform_permission p then apply_platform_scope (subject_id p) s else s))"

lemma ensure_platform_ok_iff:
  "ensure_platform_session_assurance p = Inr u \<longleftrightarrow>
   has_platform_permission p \<and> has_platform_assurance p"
  by (auto simp: ensure_platform_session_assurance_def has_platform_assurance_def)

section \<open>Tables of the foundation\<close>

record audit_log =
  au_id :: uuid
  au_workspace_id :: "uuid option"
  au_actor_id :: "uuid option"
  au_action :: string
  au_target_type :: string
  au_target_id :: string
  au_details :: json
  au_request_id :: "string option"
  au_ip_hash :: "string option"
  au_occurred_at :: time

record outbox_event =
  oe_id :: uuid
  oe_workspace_id :: "uuid option"
  oe_aggregate_type :: string
  oe_aggregate_id :: string
  oe_event_type :: string
  oe_schema_version :: string
  oe_payload :: json
  oe_occurred_at :: time
  oe_published_at :: "time option"
  oe_attempt_count :: nat
  oe_next_attempt_at :: time
  oe_locked_at :: "time option"
  oe_last_error :: "string option"

datatype IdempotencyStatus = PROCESSING | COMPLETED | FAILED

record idempotency_record =
  ir_id :: uuid
  ir_workspace_id :: "uuid option"
  ir_actor_id :: "uuid option"
  ir_namespace :: string
  ir_operation :: string
  ir_key :: string
  ir_request_hash :: string
  ir_status :: IdempotencyStatus
  ir_response_status :: "int option"
  ir_response_body :: "json option"
  ir_locked_until :: time
  ir_expires_at :: time

record session_db =
  uuid_supply :: uuid
  request_id_context :: "string option"
  audit_logs :: "audit_log list"
  outbox_events :: "outbox_event list"
  idempotency_records :: "idempotency_record list"

definition uuid4 :: "'a session_db_scheme \<Rightarrow> uuid \<times> 'a session_db_scheme" where
  "uuid4 s = (uuid_supply s, s\<lparr>uuid_supply := Suc (uuid_supply s)\<rparr>)"

definition append_audit_log ::
  "uuid option \<Rightarrow> uuid option \<Rightarrow> string \<Rightarrow> string \<Rightarrow> string \<Rightarrow> json option \<Rightarrow> string option \<Rightarrow> time
   \<Rightarrow> 'a session_db_scheme \<Rightarrow> 'a session_db_scheme" where
  "append_audit_log ws actor action ttype tid details ip now s =
     (let (i, s) = uuid4 s;
          entry = \<lparr>au_id = i, au_workspace_id = ws, au_actor_id = actor, au_action = action,
                   au_target_type = ttype, au_target_id = tid,
                   au_details = (case details of None \<Rightarrow> JDict [] | Some d \<Rightarrow> d),
                   au_request_id = request_id_context s, au_ip_hash = ip, au_occurred_at = now\<rparr>
      in s\<lparr>audit_logs := audit_logs s @ [entry]\<rparr>)"

definition add_outbox_event ::
  "uuid option \<Rightarrow> string \<Rightarrow> string \<Rightarrow> string \<Rightarrow> string \<Rightarrow> json \<Rightarrow> time
   \<Rightarrow> 'a session_db_scheme \<Rightarrow> 'a session_db_scheme" where
  "add_outbox_event ws atype aid etype ver payload now s =
     (let (i, s) = uuid4 s;
          event = \<lparr>oe_id = i, oe_workspace_id = ws, oe_aggregate_type = atype,
                   oe_aggregate_id = aid, oe_event_type = etype, oe_schema_version = ver,
                   oe_payload = payload, oe_occurred_at = now, oe_published_at = None,
                   oe_attempt_count = 0, oe_next_attempt_at = now, oe_locked_at = None,
                   oe_last_error = None\<rparr>
      in s\<lparr>outbox_events := outbox_events s @ [event]\<rparr>)"

text \<open>
  \<open>claim_outbox_batch\<close> takes the rows no other open transaction has locked
  (\<^verbatim>\<open>FOR UPDATE SKIP LOCKED\<close>: the set \<open>locked\<close>), in order of occurrence.
\<close>

definition outbox_due :: "time \<Rightarrow> (uuid \<Rightarrow> bool) \<Rightarrow> outbox_event list \<Rightarrow> outbox_event list" where
  "outbox_due now locked rows =
     sort_key (\<lambda>e. (oe_occurred_at e, oe_id e))
       (filter (\<lambda>e. oe_published_at e = None \<and> oe_next_attempt_at e \<le> now \<and> \<not> locked (oe_id e)) rows)"

definition claim_outbox_batch ::
  "nat \<Rightarrow> time \<Rightarrow> (uuid \<Rightarrow> bool) \<Rightarrow> 'a session_db_scheme \<Rightarrow> outbox_event list \<times> 'a session_db_scheme"
  where
  "claim_outbox_batch limit now locked s =
     (let claim = (\<lambda>e. e\<lparr>oe_locked_at := Some now, oe_attempt_count := oe_attempt_count e + 1\<rparr>);
          batch = take limit (outbox_due now locked (outbox_events s));
          ids = map oe_id batch
      in (map claim batch,
          s\<lparr>outbox_events := update_where (\<lambda>e. oe_id e \<in> set ids) claim (outbox_events s)\<rparr>))"

section \<open>Idempotency records\<close>

datatype ReservationKind = RESERVED | REPLAY

record reservation =
  rv_kind :: ReservationKind
  rv_record_id :: uuid
  rv_response_status :: "int option"
  rv_response_body :: "json option"

record idempotency_settings =
  idempotency_lock_seconds :: int
  idempotency_ttl_seconds :: int

definition seconds :: "int \<Rightarrow> time" where
  "seconds n = n * 1000000"

text \<open>The unique constraint \<open>idempotency_identity\<close> treats NULL columns as equal
  (\<^verbatim>\<open>NULLS NOT DISTINCT\<close>), as HOL equality on \<open>option\<close> does.\<close>

definition same_identity ::
  "uuid option \<Rightarrow> uuid option \<Rightarrow> string \<Rightarrow> string \<Rightarrow> string \<Rightarrow> idempotency_record \<Rightarrow> bool" where
  "same_identity ws actor ns op key r \<longleftrightarrow>
     ir_workspace_id r = ws \<and> ir_actor_id r = actor \<and> ir_namespace r = ns
     \<and> ir_operation r = op \<and> ir_key r = key"

definition reserve ::
  "idempotency_settings \<Rightarrow> time \<Rightarrow> string \<Rightarrow> string \<Rightarrow> string \<Rightarrow> string \<Rightarrow> uuid option \<Rightarrow> uuid option
   \<Rightarrow> 'a session_db_scheme \<Rightarrow> (reservation \<times> 'a session_db_scheme) result" where
  "reserve cfg now ns op key hash ws actor s =
     (let (candidate_id, s) = uuid4 s;
          same = same_identity ws actor ns op key;
          lock = now + seconds (idempotency_lock_seconds cfg);
          ttl = now + seconds (idempotency_ttl_seconds cfg);
          row = \<lparr>ir_id = candidate_id, ir_workspace_id = ws, ir_actor_id = actor,
                 ir_namespace = ns, ir_operation = op, ir_key = key, ir_request_hash = hash,
                 ir_status = IdempotencyStatus.PROCESSING, ir_response_status = None,
                 ir_response_body = None, ir_locked_until = lock, ir_expires_at = ttl\<rparr>;
          s = (if list_ex same (idempotency_records s) then s
               else s\<lparr>idempotency_records := idempotency_records s @ [row]\<rparr>)
      in case List.find same (idempotency_records s) of
           None \<Rightarrow> Inl (RuntimeError ''idempotency reservation disappeared inside its transaction'')
         | Some r \<Rightarrow>
             if ir_request_hash r \<noteq> hash then Inl (app_error ''IDEMPOTENCY_KEY_REUSED'' 409)
             else if ir_id r = candidate_id
             then Inr (\<lparr>rv_kind = ReservationKind.RESERVED, rv_record_id = ir_id r,
                        rv_response_status = None, rv_response_body = None\<rparr>, s)
             else if ir_status r = IdempotencyStatus.COMPLETED
             then Inr (\<lparr>rv_kind = ReservationKind.REPLAY, rv_record_id = ir_id r,
                        rv_response_status = ir_response_status r,
                        rv_response_body = ir_response_body r\<rparr>, s)
             else if ir_locked_until r > now
             then Inl (app_error ''IDEMPOTENT_REQUEST_IN_PROGRESS'' 409)
             else Inr (\<lparr>rv_kind = ReservationKind.RESERVED, rv_record_id = ir_id r,
                        rv_response_status = None, rv_response_body = None\<rparr>,
                    s\<lparr>idempotency_records := update_where (\<lambda>x. ir_id x = ir_id r)
                        (\<lambda>x. x\<lparr>ir_status := IdempotencyStatus.PROCESSING, ir_locked_until := lock,
                               ir_expires_at := ttl, ir_response_status := None,
                               ir_response_body := None\<rparr>) (idempotency_records s)\<rparr>))"

definition complete ::
  "uuid \<Rightarrow> int \<Rightarrow> json \<Rightarrow> 'a session_db_scheme \<Rightarrow> 'a session_db_scheme result" where
  "complete record_id status body s =
     (case List.find (\<lambda>r. ir_id r = record_id) (idempotency_records s) of
        None \<Rightarrow> Inl (RuntimeError ''unknown idempotency record'')
      | Some r \<Rightarrow> Inr (s\<lparr>idempotency_records := update_where (\<lambda>x. ir_id x = record_id)
                     (\<lambda>x. x\<lparr>ir_status := IdempotencyStatus.COMPLETED,
                            ir_response_status := Some status,
                            ir_response_body := Some body\<rparr>) (idempotency_records s)\<rparr>))"

definition fail :: "uuid \<Rightarrow> time \<Rightarrow> 'a session_db_scheme \<Rightarrow> 'a session_db_scheme" where
  "fail record_id now s =
     (case List.find (\<lambda>r. ir_id r = record_id) (idempotency_records s) of
        None \<Rightarrow> s
      | Some r \<Rightarrow> if ir_status r = IdempotencyStatus.COMPLETED then s
                  else s\<lparr>idempotency_records := update_where (\<lambda>x. ir_id x = record_id)
                     (\<lambda>x. x\<lparr>ir_status := IdempotencyStatus.FAILED, ir_locked_until := now\<rparr>)
                     (idempotency_records s)\<rparr>)"

section \<open>Retry delay\<close>

definition capped_exponential_delay :: "int \<Rightarrow> int \<Rightarrow> int \<Rightarrow> int" where
  "capped_exponential_delay base_seconds maximum_seconds exponent =
     min maximum_seconds (base_seconds * 2 ^ nat (max 0 exponent))"

end
