(* ===== verification/Decimal28.thy ===== *)
theory Decimal28
  imports Prelude
begin

text \<open>
  Python's \<open>decimal\<close> arithmetic in its default context: results are rounded to 28 significant
  digits, half to even, and \<open>quantize\<close> raises \<open>InvalidOperation\<close> when its result would need more
  than 28 digits. Decimals are rationals here; \<open>dec_round\<close> is the rounding of the context. The
  exponent limits of the context (about \<open>10 ^ 999999\<close>) are out of reach of the modelled code.
\<close>

section \<open>Rounding modes\<close>

definition round_half_even :: "rat \<Rightarrow> int" where
  "round_half_even x =
     (let f = \<lfloor>x\<rfloor>; r = x - of_int f
      in if r < 1/2 then f else if r > 1/2 then f + 1 else if even f then f else f + 1)"

definition round_half_up :: "rat \<Rightarrow> int" where
  "round_half_up x = (if x \<ge> 0 then \<lfloor>x + 1/2\<rfloor> else - \<lfloor>1/2 - x\<rfloor>)"

fun num_digits :: "nat \<Rightarrow> nat" where
  "num_digits n = (if n < 10 then 1 else Suc (num_digits (n div 10)))"

declare num_digits.simps [simp del]

text \<open>The exponent of the last kept digit of a non-zero number.\<close>

definition dec_exp :: "rat \<Rightarrow> int" where
  "dec_exp x =
     (let (n, d) = quotient_of \<bar>x\<bar>;
          k = int (num_digits (nat n)) - int (num_digits (nat d))
      in if 10 powi k \<le> \<bar>x\<bar> then k - 27 else k - 28)"

definition dec_round :: "rat \<Rightarrow> rat" where
  "dec_round x =
     (if x = 0 then 0
      else let e = dec_exp x in of_int (round_half_even (x / 10 powi e)) * 10 powi e)"

definition dec_mult :: "rat \<Rightarrow> rat \<Rightarrow> rat" where
  "dec_mult x y = dec_round (x * y)"

text \<open>Division by zero raises \<open>DivisionByZero\<close> or \<open>InvalidOperation\<close>, both \<open>DecimalException\<close>s.\<close>

definition dec_div :: "rat \<Rightarrow> rat \<Rightarrow> rat option" where
  "dec_div x y = (if y = 0 then None else Some (dec_round (x / y)))"

text \<open>\<open>quantize\<close> to \<open>places\<close> decimal places with the rounding \<open>rnd\<close>.\<close>

definition dec_quantize :: "(rat \<Rightarrow> int) \<Rightarrow> nat \<Rightarrow> rat \<Rightarrow> rat option" where
  "dec_quantize rnd places x =
     (let m = rnd (x * 10 ^ places)
      in if \<bar>m\<bar> < 10 ^ 28 then Some (of_int m / 10 ^ places) else None)"

section \<open>Facts\<close>

lemma round_half_even_error: "\<bar>of_int (round_half_even x) - x\<bar> \<le> 1/2"
  unfolding round_half_even_def Let_def
  using floor_correct [of x] by (auto simp: abs_le_iff split: if_splits)

lemma round_half_even_of_int [simp]: "round_half_even (of_int m) = m"
  by (simp add: round_half_even_def)

lemma num_digits_bounds: "0 < n \<Longrightarrow> 10 ^ (num_digits n - 1) \<le> n \<and> n < 10 ^ num_digits n \<and> 0 < num_digits n"
proof (induction n rule: num_digits.induct)
  case (1 n)
  show ?case
  proof (cases "n < 10")
    case True
    with 1 show ?thesis by (simp add: num_digits.simps [of n])
  next
    case False
    let ?m = "n div 10"
    from False have "0 < ?m" by simp
    with 1 False have IH: "10 ^ (num_digits ?m - 1) \<le> ?m" "?m < 10 ^ num_digits ?m" "0 < num_digits ?m"
      by auto
    then obtain j where j: "num_digits ?m = Suc j" by (cases "num_digits ?m") auto
    with IH have "10 ^ j \<le> ?m" and "Suc ?m \<le> 10 ^ Suc j" by auto
    then have "10 * 10 ^ j \<le> n" and "10 * Suc ?m \<le> 10 * 10 ^ Suc j" by auto
    moreover have "n < 10 * Suc ?m" by simp
    ultimately show ?thesis using False j by (simp add: num_digits.simps [of n])
  qed
qed

lemma num_digits_rat:
  assumes "0 < n"
  shows "10 powi (int (num_digits n) - 1) \<le> (of_nat n :: rat)"
    and "(of_nat n :: rat) < 10 powi int (num_digits n)"
proof -
  from num_digits_bounds [OF assms] obtain j where j: "num_digits n = Suc j"
    and b: "10 ^ j \<le> n" "n < 10 ^ Suc j"
    by (cases "num_digits n") auto
  from b have "of_nat (10 ^ j) \<le> (of_nat n :: rat)" "(of_nat n :: rat) < of_nat (10 ^ Suc j)"
    by (simp_all only: of_nat_le_iff of_nat_less_iff)
  then show "10 powi (int (num_digits n) - 1) \<le> (of_nat n :: rat)"
    and "(of_nat n :: rat) < 10 powi int (num_digits n)"
    by (simp_all add: j power_int_def nat_add_distrib)
qed

lemma dec_exp_bounds:
  assumes "x \<noteq> 0"
  shows "10 powi (dec_exp x + 27) \<le> \<bar>x\<bar>" and "\<bar>x\<bar> < 10 powi (dec_exp x + 28)"
proof -
  obtain n d where nd: "quotient_of \<bar>x\<bar> = (n, d)" by fastforce
  then have d: "0 < d" and x: "\<bar>x\<bar> = of_int n / of_int d"
    by (auto simp: quotient_of_denom_pos quotient_of_div)
  from x assms d have n: "0 < n"
    by (metis abs_le_zero_iff divide_le_0_iff not_less of_int_0_le_iff of_int_le_0_iff order_less_imp_le
        zero_less_abs_iff)
  define a b where "a = num_digits (nat n)" and "b = num_digits (nat d)"
  from n num_digits_rat [of "nat n"] have N: "10 powi (int a - 1) \<le> (of_int n :: rat)"
      "(of_int n :: rat) < 10 powi int a"
    by (simp_all add: a_def)
  from d num_digits_rat [of "nat d"] have D: "10 powi (int b - 1) \<le> (of_int d :: rat)"
      "(of_int d :: rat) < 10 powi int b"
    by (simp_all add: b_def)
  have d': "(0::rat) < of_int d" using d by simp
  have up: "\<bar>x\<bar> < 10 powi (int a - int b + 1)"
  proof -
    have "(of_int n :: rat) < 10 powi int a" by (rule N)
    also have "\<dots> = 10 powi (int a - int b + 1) * 10 powi (int b - 1)"
      by (simp flip: power_int_add)
    also have "\<dots> \<le> 10 powi (int a - int b + 1) * of_int d"
      using D(1) by (intro mult_left_mono) auto
    finally show ?thesis by (simp add: x pos_divide_less_eq [OF d'])
  qed
  have lo: "10 powi (int a - int b - 1) \<le> \<bar>x\<bar>"
  proof -
    have "10 powi (int a - int b - 1) * of_int d \<le> (10 :: rat) powi (int a - int b - 1) * 10 powi int b"
      using D(2) by (intro mult_left_mono) auto
    also have "\<dots> = 10 powi (int a - 1)"
      by (simp flip: power_int_add del: power_int_of_nat)
    also have "\<dots> \<le> of_int n" by (rule N)
    finally show ?thesis by (simp add: x pos_le_divide_eq [OF d'])
  qed
  have e: "dec_exp x = (if 10 powi (int a - int b) \<le> \<bar>x\<bar> then int a - int b - 27 else int a - int b - 28)"
    by (simp add: dec_exp_def nd a_def b_def)
  show "10 powi (dec_exp x + 27) \<le> \<bar>x\<bar>" and "\<bar>x\<bar> < 10 powi (dec_exp x + 28)"
    using up lo by (simp_all add: e algebra_simps)
qed

text \<open>The relative error of one rounding is at most half a unit in the 28th digit.\<close>

lemma dec_round_error: "\<bar>dec_round x - x\<bar> \<le> \<bar>x\<bar> / (2 * 10 ^ 27)"
proof (cases "x = 0")
  case True
  then show ?thesis by (simp add: dec_round_def)
next
  case False
  let ?u = "10 powi dec_exp x :: rat"
  have u: "0 < ?u" by simp
  have "dec_round x - x = (of_int (round_half_even (x / ?u)) - x / ?u) * ?u"
    using False u by (simp add: dec_round_def Let_def left_diff_distrib)
  then have "\<bar>dec_round x - x\<bar> = \<bar>of_int (round_half_even (x / ?u)) - x / ?u\<bar> * ?u"
    by (simp add: abs_mult)
  also have "\<dots> \<le> 1/2 * ?u"
    using round_half_even_error u by (intro mult_right_mono) auto
  also have "\<dots> \<le> \<bar>x\<bar> / (2 * 10 ^ 27)"
  proof -
    have "?u * 10 ^ 27 = 10 powi (dec_exp x + 27)" by (simp add: power_int_add)
    with dec_exp_bounds(1) [OF False] show ?thesis by (simp add: field_simps)
  qed
  finally show ?thesis .
qed

text \<open>A number with at most 28 significant digits is not changed.\<close>

lemma dec_round_exact:
  assumes "x = of_int m * 10 powi e" and "\<bar>m\<bar> < 10 ^ 28"
  shows "dec_round x = x"
proof (cases "x = 0")
  case True
  then show ?thesis by (simp add: dec_round_def)
next
  case False
  have "\<bar>x\<bar> < 10 powi (e + 28)"
  proof -
    have "\<bar>x\<bar> = of_int \<bar>m\<bar> * 10 powi e" by (simp add: assms(1) abs_mult)
    also have "\<dots> < 10 ^ 28 * 10 powi e"
      using assms(2) by (intro mult_strict_right_mono) (auto simp flip: of_int_less_iff [where 'a = rat])
    finally show ?thesis by (simp add: power_int_add algebra_simps)
  qed
  with dec_exp_bounds(1) [OF False] have "10 powi (dec_exp x + 27) < (10 :: rat) powi (e + 28)"
    by linarith
  then have "dec_exp x + 27 < e + 28"
    using power_int_increasing [of "e + 28" "dec_exp x + 27" "10 :: rat"] by (cases "e + 28 \<le> dec_exp x + 27") auto
  then have le: "dec_exp x \<le> e" by simp
  have "x / 10 powi dec_exp x = of_int (m * 10 ^ nat (e - dec_exp x))"
  proof -
    have "x / 10 powi dec_exp x = of_int m * (10 powi e / 10 powi dec_exp x)"
      by (simp add: assms(1))
    also have "(10 :: rat) powi e / 10 powi dec_exp x = 10 powi (e - dec_exp x)"
      by (simp add: power_int_diff)
    also have "(10 :: rat) powi (e - dec_exp x) = 10 ^ nat (e - dec_exp x)"
      using le by (simp add: power_int_def)
    finally show ?thesis by simp
  qed
  then have "round_half_even (x / 10 powi dec_exp x) = m * 10 ^ nat (e - dec_exp x)"
    by (simp only: round_half_even_of_int)
  with \<open>x / 10 powi dec_exp x = _\<close> False show ?thesis
    by (simp add: dec_round_def Let_def) (metis nonzero_eq_divide_eq power_int_not_zero zero_neq_numeral)
qed

end
