(* ===== verification/Billing_Rules.thy ===== *)
theory Billing_Rules
  imports Prelude Decimal28
begin

text \<open>
  The billing vocabulary and the pure billing rules: \<^verbatim>\<open>domain/billing/enums.py\<close> and
  \<^verbatim>\<open>domain/billing/rules.py\<close>. Amounts arrive as Python Decimals (\<open>decimal\<close>, which may be
  infinite or NaN); once validated they are rationals. Sums and differences are exact: ledger
  columns are \<open>NUMERIC(19,6)\<close>, and \<open>numeric_add_exact\<close> and \<open>numeric_diff_exact\<close> show that the
  rounding of the decimal context does not change them. Quotients and products do round.
\<close>

section \<open>Vocabulary\<close>

datatype BillingCycle = MONTHLY | ANNUAL | CONTRACT

datatype SubscriptionState =
    PENDING_PROVIDER | TRIALING | ACTIVE | PAST_DUE | GRACE_PERIOD | CANCELLATION_SCHEDULED
  | CANCELLED | SUSPENDED

datatype PaymentCommandState =
    PENDING_PROVIDER | PROVIDER_ACCEPTED | PROVIDER_REJECTED | FAILED

datatype LedgerDirection = DEBIT | CREDIT

datatype CreditBucketKind =
    MONTHLY | PURCHASED | PROMOTIONAL | AGENCY_ALLOCATION | ADMIN_ADJUSTMENT

datatype CreditEntryKind =
    GRANT | HOLD | CONSUME | RELEASE | EXPIRE | RECLAIM | ADJUSTMENT | REVERSAL

datatype CreditHoldState = HELD | FINALIZED | RELEASED

datatype UsageRecordState = ESTIMATED | FINAL | REVERSED

datatype OveragePolicy = BLOCK | USE_CREDITS | POSTPAID

datatype PricingVersionState = DRAFT | ACTIVE | RETIRED

section \<open>Amounts\<close>

definition amount_error :: "string \<Rightarrow> string \<Rightarrow> error" where
  "amount_error field reason = AppError ''BILLING_AMOUNT_INVALID'' 422 [(field, reason)] None"

definition require_positive_amount :: "string \<Rightarrow> decimal \<Rightarrow> rat result" where
  "require_positive_amount field value =
     (case value of
        Finite x \<Rightarrow> if x \<le> 0 then Inl (amount_error field ''positive finite value required'')
                    else Inr x
      | _ \<Rightarrow> Inl (amount_error field ''positive finite value required''))"

definition require_nonnegative_amount :: "string \<Rightarrow> decimal \<Rightarrow> rat result" where
  "require_nonnegative_amount field value =
     (case value of
        Finite x \<Rightarrow> if x < 0 then Inl (amount_error field ''non-negative finite value required'')
                    else Inr x
      | _ \<Rightarrow> Inl (amount_error field ''non-negative finite value required''))"

definition signed_amount :: "LedgerDirection \<Rightarrow> decimal \<Rightarrow> rat result" where
  "signed_amount direction amount =
     bind_result (require_positive_amount ''amount'' amount) (\<lambda>a.
       Inr (if direction = LedgerDirection.CREDIT then a else - a))"

record hold_finalization =
  hf_consumed :: rat
  hf_released :: rat
  hf_replay :: bool

definition finalize_hold_amounts ::
  "CreditHoldState \<Rightarrow> decimal \<Rightarrow> decimal \<Rightarrow> rat option \<Rightarrow> hold_finalization result" where
  "finalize_hold_amounts state maximum_amount actual_amount finalized_amount =
     bind_result (require_positive_amount ''maximum_amount'' maximum_amount) (\<lambda>maximum.
     bind_result (require_nonnegative_amount ''actual_amount'' actual_amount) (\<lambda>actual.
       if state = CreditHoldState.FINALIZED then
         (if finalized_amount = Some actual
          then Inr \<lparr>hf_consumed = actual, hf_released = maximum - actual, hf_replay = True\<rparr>
          else Inl (app_error ''CREDIT_HOLD_ALREADY_FINALIZED'' 409))
       else if state \<noteq> CreditHoldState.HELD then Inl (app_error ''CREDIT_HOLD_NOT_ACTIVE'' 409)
       else if actual > maximum
         then Inl (AppError ''CREDIT_HOLD_MAXIMUM_EXCEEDED'' 409 []
                (Some (JDict [(''action'', JStr ''request_additional_budget'')])))
       else Inr \<lparr>hf_consumed = actual, hf_released = maximum - actual, hf_replay = False\<rparr>))"

definition ensure_balance_transition :: "rat \<Rightarrow> rat \<Rightarrow> rat \<Rightarrow> rat \<Rightarrow> unit result" where
  "ensure_balance_transition available_before held_before available_after held_after =
     bind_result (require_nonnegative_amount ''available_before'' (Finite available_before)) (\<lambda>_.
     bind_result (require_nonnegative_amount ''held_before'' (Finite held_before)) (\<lambda>_.
     bind_result (require_nonnegative_amount ''available_after'' (Finite available_after)) (\<lambda>_.
     bind_result (require_nonnegative_amount ''held_after'' (Finite held_after)) (\<lambda>_. Inr ()))))"

section \<open>Usage limits\<close>

record usage_limit_decision =
  ul_allowed :: bool
  ul_remaining :: rat
  ul_overage :: rat
  ul_policy :: OveragePolicy

definition evaluate_usage_limit ::
  "decimal \<Rightarrow> decimal \<Rightarrow> decimal \<Rightarrow> OveragePolicy \<Rightarrow> usage_limit_decision result" where
  "evaluate_usage_limit used requested limit policy =
     bind_result (require_nonnegative_amount ''used'' used) (\<lambda>u.
     bind_result (require_positive_amount ''requested'' requested) (\<lambda>r.
     bind_result (require_nonnegative_amount ''limit'' limit) (\<lambda>l.
       let projected = u + r; overage = max 0 (projected - l)
       in Inr \<lparr>ul_allowed = (overage = 0 \<or> policy \<noteq> OveragePolicy.BLOCK),
               ul_remaining = max 0 (l - projected), ul_overage = overage, ul_policy = policy\<rparr>)))"

definition due_usage_thresholds ::
  "decimal \<Rightarrow> decimal \<Rightarrow> decimal \<Rightarrow> int list \<Rightarrow> int list result" where
  "due_usage_thresholds used_before used_after limit thresholds =
     bind_result (require_nonnegative_amount ''used_before'' used_before) (\<lambda>ub.
     bind_result (require_nonnegative_amount ''used_after'' used_after) (\<lambda>ua.
     bind_result (require_positive_amount ''limit'' limit) (\<lambda>l.
       if ua < ub then Inl (app_error ''USAGE_COUNTER_REGRESSION'' 409)
       else if thresholds = [] \<or> list_ex (\<lambda>v. v \<le> 0) thresholds
         then Inl (app_error ''USAGE_THRESHOLD_CONFIG_MISSING'' 503)
       else let before_percent = dec_round (dec_mult ub 100 / l);
                after_percent = dec_round (dec_mult ua 100 / l)
            in Inr (sort (filter (\<lambda>v. before_percent < of_int v \<and> of_int v \<le> after_percent)
                          (remdups thresholds))))))"

section \<open>Pricing windows and reversals\<close>

definition pricing_is_effective ::
  "PricingVersionState \<Rightarrow> datetime \<Rightarrow> datetime option \<Rightarrow> datetime \<Rightarrow> bool result" where
  "pricing_is_effective state effective_at retired_at moment =
     (if tz_none moment \<or> tz_none effective_at \<or> (\<exists>r \<in> set_option retired_at. tz_none r)
      then Inl (app_error ''PRICING_TIME_INVALID'' 500)
      else Inr (state = PricingVersionState.ACTIVE \<and> clock_of effective_at \<le> clock_of moment
                \<and> (case retired_at of None \<Rightarrow> True | Some r \<Rightarrow> clock_of moment < clock_of r)))"

definition validate_reversal :: "uuid option \<Rightarrow> uuid option \<Rightarrow> decimal \<Rightarrow> unit result" where
  "validate_reversal original_entry_id reversal_of_entry_id amount =
     bind_result (require_positive_amount ''amount'' amount) (\<lambda>_.
       if original_entry_id \<noteq> None \<or> reversal_of_entry_id = None
       then Inl (app_error ''LEDGER_REVERSAL_INVALID'' 422)
       else Inr ())"

section \<open>Facts about the rules\<close>

text \<open>The range of a \<open>NUMERIC(19,6)\<close> column, and a value such a column holds exactly.\<close>

definition fits_19_6 :: "rat \<Rightarrow> bool" where
  "fits_19_6 x \<longleftrightarrow> \<bar>x\<bar> < 10 ^ 13"

definition numeric_19_6 :: "rat \<Rightarrow> bool" where
  "numeric_19_6 x \<longleftrightarrow> x * 10 ^ 6 \<in> \<int> \<and> \<bar>x\<bar> < 10 ^ 13"

lemma numeric_19_6_micro:
  assumes "numeric_19_6 x"
  obtains m where "x = of_int m / 10 ^ 6" and "\<bar>m\<bar> < 10 ^ 19"
proof -
  from assms obtain m where m: "x * 10 ^ 6 = of_int m"
    by (auto simp: numeric_19_6_def elim: Ints_cases)
  then have x: "x = of_int m / 10 ^ 6" by (simp add: field_simps)
  with assms have "\<bar>of_int m :: rat\<bar> < 10 ^ 19" by (simp add: numeric_19_6_def)
  then have "(of_int \<bar>m\<bar> :: rat) < of_int (10 ^ 19)" by simp
  then have "\<bar>m\<bar> < 10 ^ 19" by (simp only: of_int_less_iff)
  with x show ?thesis by (rule that)
qed

lemma micro_exact: "\<bar>m\<bar> < 10 ^ 28 \<Longrightarrow> dec_round (of_int m / 10 ^ 6) = of_int m / 10 ^ 6"
  by (rule dec_round_exact [of _ m "-6"]) (simp_all add: power_int_def field_simps)

lemma numeric_add_exact:
  assumes "numeric_19_6 x" and "numeric_19_6 y"
  shows "dec_round (x + y) = x + y"
proof -
  obtain m n where "x = of_int m / 10 ^ 6" "y = of_int n / 10 ^ 6" "\<bar>m\<bar> < 10 ^ 19" "\<bar>n\<bar> < 10 ^ 19"
    using assms by (meson numeric_19_6_micro)
  then have "x + y = of_int (m + n) / 10 ^ 6" and "\<bar>m + n\<bar> < 10 ^ 28"
    by (auto simp: add_divide_distrib)
  then show ?thesis by (simp only: micro_exact)
qed

lemma numeric_diff_exact:
  assumes "numeric_19_6 x" and "numeric_19_6 y"
  shows "dec_round (x - y) = x - y"
proof -
  obtain m n where "x = of_int m / 10 ^ 6" "y = of_int n / 10 ^ 6" "\<bar>m\<bar> < 10 ^ 19" "\<bar>n\<bar> < 10 ^ 19"
    using assms by (meson numeric_19_6_micro)
  then have "x - y = of_int (m - n) / 10 ^ 6" and "\<bar>m - n\<bar> < 10 ^ 28"
    by (auto simp: diff_divide_distrib)
  then show ?thesis by (simp only: micro_exact)
qed

lemma require_positive_amount_eq_Inr [simp]:
  "require_positive_amount f v = Inr x \<longleftrightarrow> v = Finite x \<and> 0 < x"
  by (auto simp: require_positive_amount_def split: decimal.splits)

lemma require_nonnegative_amount_eq_Inr [simp]:
  "require_nonnegative_amount f v = Inr x \<longleftrightarrow> v = Finite x \<and> 0 \<le> x"
  by (auto simp: require_nonnegative_amount_def split: decimal.splits)

lemma ensure_balance_transition_eq_Inr [simp]:
  "ensure_balance_transition a h a' h' = Inr u \<longleftrightarrow> 0 \<le> a \<and> 0 \<le> h \<and> 0 \<le> a' \<and> 0 \<le> h'"
  by (auto simp: ensure_balance_transition_def result_simps)

lemma finalize_hold_amounts_fresh:
  "finalize_hold_amounts st mx ac fin = Inr r \<Longrightarrow> \<not> hf_replay r \<Longrightarrow>
   st = CreditHoldState.HELD \<and> (\<exists>m a. mx = Finite m \<and> ac = Finite a \<and> 0 < m \<and> 0 \<le> a \<and> a \<le> m
     \<and> hf_consumed r = a \<and> hf_released r = m - a)"
  by (auto simp: finalize_hold_amounts_def result_simps split: if_splits)

lemma finalize_hold_amounts_replay:
  "finalize_hold_amounts st mx ac fin = Inr r \<Longrightarrow> hf_replay r \<Longrightarrow>
   st = CreditHoldState.FINALIZED \<and> (\<exists>a. ac = Finite a \<and> fin = Some a)"
  by (auto simp: finalize_hold_amounts_def result_simps split: if_splits)

end
