(* ===== verification/Text_Util.thy ===== *)
theory Text_Util
  imports Prelude
begin

text \<open>
  The string operations of the Python standard library the sources use, on strings of 8-bit
  characters: \<open>str.strip\<close>, \<open>str.lower\<close>, \<open>str.split\<close>, \<open>str.partition\<close>, \<open>str.replace\<close> and
  \<^verbatim>\<open>urllib.parse.urlsplit\<close> with the accessors of its result. Case mapping is the ASCII one.
\<close>

section \<open>Characters\<close>

definition char_code :: "char \<Rightarrow> nat" where
  "char_code c = of_char c"

definition py_isspace :: "char \<Rightarrow> bool" where
  "py_isspace c \<longleftrightarrow> (let n = char_code c in 9 \<le> n \<and> n \<le> 13 \<or> 28 \<le> n \<and> n \<le> 32 \<or> n = 133 \<or> n = 160)"

definition is_upper :: "char \<Rightarrow> bool" where
  "is_upper c \<longleftrightarrow> 65 \<le> char_code c \<and> char_code c \<le> 90"

definition is_lower :: "char \<Rightarrow> bool" where
  "is_lower c \<longleftrightarrow> 97 \<le> char_code c \<and> char_code c \<le> 122"

definition is_digit :: "char \<Rightarrow> bool" where
  "is_digit c \<longleftrightarrow> 48 \<le> char_code c \<and> char_code c \<le> 57"

definition is_alpha :: "char \<Rightarrow> bool" where
  "is_alpha c \<longleftrightarrow> is_upper c \<or> is_lower c"

definition lower_char :: "char \<Rightarrow> char" where
  "lower_char c = (if is_upper c then char_of (char_code c + 32) else c)"

definition lower :: "string \<Rightarrow> string" where
  "lower s = map lower_char s"

section \<open>Stripping, splitting, replacing\<close>

definition lstrip :: "(char \<Rightarrow> bool) \<Rightarrow> string \<Rightarrow> string" where
  "lstrip P s = dropWhile P s"

definition rstrip :: "(char \<Rightarrow> bool) \<Rightarrow> string \<Rightarrow> string" where
  "rstrip P s = rev (dropWhile P (rev s))"

definition strip :: "string \<Rightarrow> string" where
  "strip s = rstrip py_isspace (lstrip py_isspace s)"

definition replace_char :: "char \<Rightarrow> char \<Rightarrow> string \<Rightarrow> string" where
  "replace_char a b s = map (\<lambda>c. if c = a then b else c) s"

fun split_on :: "char \<Rightarrow> string \<Rightarrow> string list" where
  "split_on d [] = [[]]"
| "split_on d (c # s) =
     (if c = d then [] # split_on d s
      else case split_on d s of [] \<Rightarrow> [[c]] | x # xs \<Rightarrow> (c # x) # xs)"

text \<open>\<open>s.partition(d)\<close>: the text before the separator, whether it occurs, and the text after it.\<close>

definition partition_on :: "char \<Rightarrow> string \<Rightarrow> string \<times> bool \<times> string" where
  "partition_on d s = (takeWhile (\<lambda>c. c \<noteq> d) s, d \<in> set s, drop 1 (dropWhile (\<lambda>c. c \<noteq> d) s))"

definition rpartition_on :: "char \<Rightarrow> string \<Rightarrow> string \<times> bool \<times> string" where
  "rpartition_on d s =
     (if d \<in> set s
      then (rev (drop 1 (dropWhile (\<lambda>c. c \<noteq> d) (rev s))), True, rev (takeWhile (\<lambda>c. c \<noteq> d) (rev s)))
      else ([], False, s))"

fun join_with :: "string \<Rightarrow> string list \<Rightarrow> string" where
  "join_with sep [] = []"
| "join_with sep [s] = s"
| "join_with sep (s # ss) = s @ sep @ join_with sep ss"

fun nat_str :: "nat \<Rightarrow> string" where
  "nat_str n = (if n < 10 then [char_of (48 + n)] else nat_str (n div 10) @ [char_of (48 + n mod 10)])"

declare nat_str.simps [simp del]

definition int_str :: "int \<Rightarrow> string" where
  "int_str n = (if n < 0 then ''-'' @ nat_str (nat (- n)) else nat_str (nat n))"

lemma split_on_ne [simp]: "split_on d s \<noteq> []"
  by (induction s) (auto split: list.splits)

lemma split_on_join: "join_with [d] (split_on d s) = s"
proof (induction s)
  case (Cons c s)
  then show ?case
    by (cases "split_on d s" rule: list.exhaust; cases "tl (split_on d s)") auto
qed simp

lemma split_on_no_sep: "x \<in> set (split_on d s) \<Longrightarrow> d \<notin> set x"
  by (induction s arbitrary: x) (auto split: if_splits list.splits)

lemma strip_idem [simp]: "strip (strip s) = strip s"
proof -
  define u where "u = dropWhile py_isspace s"
  define v where "v = dropWhile py_isspace (rev u)"
  have v: "v = [] \<or> \<not> py_isspace (hd v)" using hd_dropWhile v_def by blast
  have "dropWhile py_isspace (rev v) = rev v"
  proof (cases "v = []")
    case False
    then obtain w where w: "rev u = w @ v" unfolding v_def by (metis takeWhile_dropWhile_id)
    then have "u = rev v @ rev w" by (metis rev_append rev_rev_ident)
    moreover have "u \<noteq> [] \<Longrightarrow> \<not> py_isspace (hd u)" using hd_dropWhile u_def by blast
    ultimately have "\<not> py_isspace (hd (rev v))" using False by simp
    then show ?thesis using False by (metis dropWhile.simps(2) list.collapse rev_is_Nil_conv)
  qed simp
  moreover have "dropWhile py_isspace v = v"
    using v by (metis dropWhile.simps list.collapse)
  ultimately show ?thesis
    by (simp add: strip_def lstrip_def rstrip_def u_def [symmetric] v_def [symmetric])
qed

section \<open>URLs\<close>

record url_parts =
  url_scheme :: string
  url_netloc :: string
  url_path :: string
  url_fragment :: string

definition is_scheme_char :: "char \<Rightarrow> bool" where
  "is_scheme_char c \<longleftrightarrow> is_alpha c \<or> is_digit c \<or> c \<in> {CHR ''+'', CHR ''-'', CHR ''.''}"

definition split_scheme :: "string \<Rightarrow> string \<times> string" where
  "split_scheme u =
     (let (s, found, rest) = partition_on CHR '':'' u
      in if found \<and> s \<noteq> [] \<and> is_alpha (hd s) \<and> list_all is_scheme_char s then (lower s, rest) else ([], u))"

definition split_netloc :: "string \<Rightarrow> string \<times> string" where
  "split_netloc u =
     (if take 2 u = ''//'' then
        (let delim = (\<lambda>c. c \<in> {CHR ''/'', CHR ''?'', CHR ''#''}); r = drop 2 u
         in (takeWhile (\<lambda>c. \<not> delim c) r, dropWhile (\<lambda>c. \<not> delim c) r))
      else ([], u))"

text \<open>\<open>bracket_ok\<close> is the verdict of \<^verbatim>\<open>ipaddress\<close> on a bracketed host. The query stays in
  \<open>url_path\<close>: no source reads it.\<close>

definition urlsplit :: "(string \<Rightarrow> bool) \<Rightarrow> string \<Rightarrow> url_parts result" where
  "urlsplit bracket_ok u =
     (let u = lstrip (\<lambda>c. char_code c \<le> 32) u;
          u = filter (\<lambda>c. char_code c \<notin> {9, 10, 13}) u;
          (scheme, u) = split_scheme u;
          (netloc, u) = split_netloc u;
          (path, _, fragment) = partition_on CHR ''#'' u
      in if (CHR ''['' \<in> set netloc) \<noteq> (CHR '']'' \<in> set netloc) then Inl (ValueError ''Invalid IPv6 URL'')
         else if CHR ''['' \<in> set netloc \<and> \<not> bracket_ok netloc then Inl (ValueError ''Invalid IPv6 URL'')
         else Inr \<lparr>url_scheme = scheme, url_netloc = netloc, url_path = path, url_fragment = fragment\<rparr>)"

definition url_hostname :: "url_parts \<Rightarrow> string option" where
  "url_hostname p =
     (let (_, _, hostinfo) = rpartition_on CHR ''@'' (url_netloc p);
          (_, br, bracketed) = partition_on CHR ''['' hostinfo;
          host = (if br then fst (partition_on CHR '']'' bracketed) else fst (partition_on CHR '':'' hostinfo))
      in if host = [] then None else Some (lower host))"

definition url_username :: "url_parts \<Rightarrow> string option" where
  "url_username p =
     (let (userinfo, found, _) = rpartition_on CHR ''@'' (url_netloc p)
      in if found then Some (fst (partition_on CHR '':'' userinfo)) else None)"

definition url_password :: "url_parts \<Rightarrow> string option" where
  "url_password p =
     (let (userinfo, found, _) = rpartition_on CHR ''@'' (url_netloc p);
          (_, colon, pw) = partition_on CHR '':'' userinfo
      in if found \<and> colon then Some pw else None)"

text \<open>An absolute HTTPS URL without credentials or fragment.\<close>

definition safe_https :: "url_parts \<Rightarrow> bool" where
  "safe_https p \<longleftrightarrow> url_scheme p = ''https'' \<and> url_hostname p \<noteq> None \<and> url_username p = None
     \<and> url_password p = None \<and> url_fragment p = []"

section \<open>Numbers and JSON values as text\<close>

text \<open>\<^verbatim>\<open>f"{n:0wd}"\<close>: at least \<open>w\<close> digits.\<close>

definition zero_pad :: "nat \<Rightarrow> nat \<Rightarrow> string" where
  "zero_pad w n = (let s = nat_str n in replicate (w - length s) CHR ''0'' @ s)"

text \<open>Reading a digit string back; it shows that the text determines the number.\<close>

definition digits_val :: "string \<Rightarrow> nat" where
  "digits_val = foldl (\<lambda>a c. 10 * a + (of_char c - 48)) 0"

lemma digits_val_nat_str [simp]: "digits_val (nat_str n) = n"
proof (induction n rule: nat_str.induct)
  case (1 n)
  then show ?case
    by (cases "n < 10"; subst nat_str.simps) (simp_all add: digits_val_def of_char_of)
qed

lemma nat_str_inject [simp]: "nat_str m = nat_str n \<longleftrightarrow> m = n"
  by (metis digits_val_nat_str)

lemma nat_str_digits: "c \<in> set (nat_str n) \<Longrightarrow> is_digit c"
proof (induction n rule: nat_str.induct)
  case (1 n)
  have digit: "is_digit (char_of (48 + d))" if "d < 10" for d :: nat
    using that by (simp add: is_digit_def char_code_def of_char_of)
  from 1 show ?case
    by (cases "n < 10"; subst (asm) (2) nat_str.simps) (auto simp: digit)
qed

text \<open>
  \<open>str(v)\<close> of a JSON value. Inside a container the text is \<open>repr\<close>: a string is quoted. How a float or
  a timestamp is written is left to the argument \<open>other\<close>.
\<close>

definition repr_char :: "char \<Rightarrow> char \<Rightarrow> string" where
  "repr_char quo c =
     (let n = char_code c in
      if c = quo \<or> n = 92 then [char_of (92::nat), c]
      else if n = 10 then [char_of (92::nat), CHR ''n'']
      else if n = 13 then [char_of (92::nat), CHR ''r'']
      else if n = 9 then [char_of (92::nat), CHR ''t'']
      else if n < 32 \<or> 127 \<le> n \<and> n \<le> 160 \<or> n = 173
      then [char_of (92::nat), CHR ''x'', hex_digit (n div 16), hex_digit (n mod 16)]
      else [c])"

definition repr_str :: "string \<Rightarrow> string" where
  "repr_str s =
     (let single = char_of (39::nat); double = char_of (34::nat);
          quo = (if single \<in> set s \<and> double \<notin> set s then double else single)
      in [quo] @ concat (map (repr_char quo) s) @ [quo])"

fun py_repr :: "(json \<Rightarrow> string) \<Rightarrow> json \<Rightarrow> string"
  and py_repr_items :: "(json \<Rightarrow> string) \<Rightarrow> json list \<Rightarrow> string list"
  and py_repr_members :: "(json \<Rightarrow> string) \<Rightarrow> (string \<times> json) list \<Rightarrow> string list" where
  "py_repr other JNull = ''None''"
| "py_repr other (JBool b) = (if b then ''True'' else ''False'')"
| "py_repr other (JInt i) = int_str i"
| "py_repr other (JStr s) = repr_str s"
| "py_repr other (JUuid u) = ''UUID('' @ repr_str (uuid_str u) @ '')''"
| "py_repr other (JList xs) = ''['' @ join_with '', '' (py_repr_items other xs) @ '']''"
| "py_repr other (JDict d) = ''{'' @ join_with '', '' (py_repr_members other d) @ ''}''"
| "py_repr other (JDec r) = other (JDec r)"
| "py_repr other (JTime t) = other (JTime t)"
| "py_repr_items other [] = []"
| "py_repr_items other (x # xs) = py_repr other x # py_repr_items other xs"
| "py_repr_members other [] = []"
| "py_repr_members other (kv # d) =
     (repr_str (fst kv) @ '': '' @ py_repr other (snd kv)) # py_repr_members other d"

definition py_str :: "(json \<Rightarrow> string) \<Rightarrow> json \<Rightarrow> string" where
  "py_str other v =
     (case v of JStr s \<Rightarrow> s | JUuid u \<Rightarrow> uuid_str u | _ \<Rightarrow> py_repr other v)"

end
