(* ===== verification/Billing_Models.thy ===== *)
theory Billing_Models
  imports Foundation Billing_Rules Text_Util
begin

text \<open>
  The rows of the billing tables (\<^verbatim>\<open>domain/billing/models.py\<close>) and the request objects of the
  service (\<^verbatim>\<open>domain/billing/schemas.py\<close>). Columns keep their names behind a prefix per table. Not
  kept: the server-side \<open>created_at\<close>/\<open>updated_at\<close> stamps and the optimistic \<open>lock_version\<close>
  counters, which no modelled branch reads. State columns hold members of their enumerations.
\<close>

section \<open>Catalogue\<close>

record billing_plan_version =
  pl_id :: uuid
  pl_catalog_scope :: string
  pl_workspace_id :: "uuid option"
  pl_plan_key :: string
  pl_version :: int
  pl_state :: PricingVersionState
  pl_currency :: string
  pl_monthly_price :: rat
  pl_annual_price :: rat
  pl_credit_policy :: json
  pl_entitlement_policy :: json
  pl_api_rate_policy :: json
  pl_usage_thresholds :: "int list"
  pl_policy_hash :: string
  pl_effective_at :: time
  pl_retired_at :: "time option"
  pl_created_by :: uuid

record billing_price_version =
  pv_id :: uuid
  pv_catalog_scope :: string
  pv_workspace_id :: "uuid option"
  pv_metric_key :: string
  pv_vendor :: string
  pv_vendor_sku :: string
  pv_version :: int
  pv_state :: PricingVersionState
  pv_unit_name :: string
  pv_unit_size :: rat
  pv_credit_unit_price :: rat
  pv_internal_unit_cost :: rat
  pv_cost_currency :: string
  pv_pricing_metadata :: "(string \<times> json) list"
  pv_pricing_hash :: string
  pv_effective_at :: time
  pv_retired_at :: "time option"
  pv_created_by :: uuid

section \<open>Credit ledger\<close>

record credit_account =
  ca_id :: uuid
  ca_workspace_id :: uuid
  ca_available_balance :: rat
  ca_held_balance :: rat

record credit_grant =
  cg_id :: uuid
  cg_workspace_id :: uuid
  cg_account_id :: uuid
  cg_bucket_kind :: CreditBucketKind
  cg_original_amount :: rat
  cg_available_amount :: rat
  cg_held_amount :: rat
  cg_source_type :: string
  cg_source_id :: string
  cg_granted_at :: time
  cg_expires_at :: "time option"
  cg_grant_policy_snapshot :: "(string \<times> json) list"

record credit_hold =
  ch_id :: uuid
  ch_workspace_id :: uuid
  ch_account_id :: uuid
  ch_subject_type :: string
  ch_subject_id :: string
  ch_operation :: string
  ch_idempotency_key :: string
  ch_request_hash :: string
  ch_price_version_id :: uuid
  ch_pricing_snapshot :: json
  ch_maximum_amount :: rat
  ch_actual_amount :: "rat option"
  ch_released_amount :: "rat option"
  ch_state :: CreditHoldState
  ch_finalization_event_id :: "string option"
  ch_failure_class :: "string option"
  ch_expires_at :: time
  ch_finalized_at :: "time option"
  ch_requested_by :: uuid

record credit_hold_allocation =
  ha_id :: uuid
  ha_workspace_id :: uuid
  ha_hold_id :: uuid
  ha_grant_id :: uuid
  ha_allocation_order :: nat
  ha_held_amount :: rat
  ha_consumed_amount :: rat
  ha_released_amount :: rat

record credit_ledger_entry =
  le_id :: uuid
  le_workspace_id :: uuid
  le_account_id :: uuid
  le_grant_id :: "uuid option"
  le_hold_id :: "uuid option"
  le_kind :: CreditEntryKind
  le_direction :: LedgerDirection
  le_amount :: rat
  le_available_delta :: rat
  le_held_delta :: rat
  le_available_after :: rat
  le_held_after :: rat
  le_transaction_group_id :: uuid
  le_reversal_of_id :: "uuid option"
  le_idempotency_key :: string
  le_source_type :: string
  le_source_id :: string
  le_reason_code :: string
  le_pricing_snapshot :: "json option"
  le_actor_id :: "uuid option"
  le_posted_at :: time

section \<open>Usage, payments\<close>

record usage_record =
  ur_id :: uuid
  ur_workspace_id :: uuid
  ur_source_event_id :: string
  ur_subject_type :: string
  ur_subject_id :: string
  ur_metric_key :: string
  ur_quantity :: rat
  ur_unit_name :: string
  ur_state :: UsageRecordState
  ur_price_version_id :: uuid
  ur_pricing_snapshot :: json
  ur_credit_amount :: rat
  ur_internal_cost :: rat
  ur_cost_currency :: string
  ur_api_key_id :: "uuid option"
  ur_endpoint :: "string option"
  ur_occurred_at :: time
  ur_finalized_at :: "time option"
  ur_metadata_json :: json

record payment_command =
  pc_id :: uuid
  pc_workspace_id :: uuid
  pc_requested_by :: uuid
  pc_operation :: string
  pc_idempotency_key :: string
  pc_request_hash :: string
  pc_request_snapshot :: "(string \<times> json) list"
  pc_provider :: string
  pc_provider_request_ref :: "string option"
  pc_state :: PaymentCommandState
  pc_checkout_url :: "string option"
  pc_expires_at :: "time option"
  pc_error_code :: "string option"

record payment_provider_event =
  pe_id :: uuid
  pe_workspace_id :: uuid
  pe_provider :: string
  pe_provider_event_id :: string
  pe_event_type :: string
  pe_signature_key_version :: string
  pe_raw_payload_hash :: string
  pe_raw_payload_ref :: string
  pe_normalized_payload :: json
  pe_occurred_at :: time
  pe_received_at :: time

section \<open>The billing database and the request objects\<close>

record billing_db = session_db +
  plan_versions :: "billing_plan_version list"
  price_versions :: "billing_price_version list"
  credit_accounts :: "credit_account list"
  credit_grants :: "credit_grant list"
  credit_holds :: "credit_hold list"
  hold_allocations :: "credit_hold_allocation list"
  credit_ledger :: "credit_ledger_entry list"
  usage_records :: "usage_record list"
  payment_commands :: "payment_command list"
  provider_events :: "payment_provider_event list"

record credit_grant_create =
  gc_bucket_kind :: CreditBucketKind
  gc_amount :: rat
  gc_source_type :: string
  gc_source_id :: string
  gc_expires_at :: "time option"
  gc_grant_policy_snapshot :: "(string \<times> json) list"
  gc_reason_code :: string

record credit_hold_create =
  hc_subject_type :: string
  hc_subject_id :: string
  hc_operation :: string
  hc_price_version_id :: uuid
  hc_maximum_amount :: rat
  hc_idempotency_key :: string
  hc_expires_at :: time

record credit_hold_finalize =
  hz_finalization_event_id :: string
  hz_actual_amount :: rat
  hz_failure_class :: "string option"
  hz_reason_code :: "string option"

record credit_hold_release =
  hr_release_event_id :: string
  hr_failure_class :: string
  hr_reason_code :: string

record usage_record_create =
  uc_source_event_id :: string
  uc_subject_type :: string
  uc_subject_id :: string
  uc_metric_key :: string
  uc_quantity :: rat
  uc_price_version_id :: uuid
  uc_api_key_id :: "uuid option"
  uc_endpoint :: "string option"
  uc_occurred_at :: time
  uc_metadata :: json

record payment_intent_create =
  pi_operation :: string
  pi_provider :: string
  pi_plan_version_id :: "uuid option"
  pi_billing_cycle :: "BillingCycle option"
  pi_purchase_sku :: "string option"
  pi_idempotency_key :: string
  pi_return_url :: string

text \<open>The field constraints of the request models (pydantic \<open>Field\<close> and the model validator).\<close>

definition valid_grant_create :: "credit_grant_create \<Rightarrow> bool" where
  "valid_grant_create d \<longleftrightarrow>
     0 < gc_amount d \<and> numeric_19_6 (gc_amount d)
     \<and> 1 \<le> length (gc_source_type d) \<and> length (gc_source_type d) \<le> 80
     \<and> 1 \<le> length (gc_source_id d) \<and> length (gc_source_id d) \<le> 500
     \<and> 3 \<le> length (gc_reason_code d) \<and> length (gc_reason_code d) \<le> 120"

definition valid_hold_create :: "credit_hold_create \<Rightarrow> bool" where
  "valid_hold_create d \<longleftrightarrow>
     1 \<le> length (hc_subject_type d) \<and> length (hc_subject_type d) \<le> 80
     \<and> 1 \<le> length (hc_subject_id d) \<and> length (hc_subject_id d) \<le> 500
     \<and> 1 \<le> length (hc_operation d) \<and> length (hc_operation d) \<le> 120
     \<and> 0 < hc_maximum_amount d \<and> numeric_19_6 (hc_maximum_amount d)
     \<and> 8 \<le> length (hc_idempotency_key d) \<and> length (hc_idempotency_key d) \<le> 255"

definition valid_hold_finalize :: "credit_hold_finalize \<Rightarrow> bool" where
  "valid_hold_finalize d \<longleftrightarrow>
     8 \<le> length (hz_finalization_event_id d) \<and> length (hz_finalization_event_id d) \<le> 500
     \<and> 0 \<le> hz_actual_amount d \<and> numeric_19_6 (hz_actual_amount d)
     \<and> (hz_failure_class d = None \<longleftrightarrow> hz_reason_code d = None)
     \<and> (\<forall>s \<in> set_option (hz_failure_class d). 2 \<le> length s \<and> length s \<le> 80)
     \<and> (\<forall>s \<in> set_option (hz_reason_code d). 3 \<le> length s \<and> length s \<le> 120)"

definition valid_hold_release :: "credit_hold_release \<Rightarrow> bool" where
  "valid_hold_release d \<longleftrightarrow>
     8 \<le> length (hr_release_event_id d) \<and> length (hr_release_event_id d) \<le> 500
     \<and> 2 \<le> length (hr_failure_class d) \<and> length (hr_failure_class d) \<le> 80
     \<and> 3 \<le> length (hr_reason_code d) \<and> length (hr_reason_code d) \<le> 120"

definition valid_usage_create :: "usage_record_create \<Rightarrow> bool" where
  "valid_usage_create d \<longleftrightarrow>
     8 \<le> length (uc_source_event_id d) \<and> length (uc_source_event_id d) \<le> 500
     \<and> 1 \<le> length (uc_subject_type d) \<and> length (uc_subject_type d) \<le> 80
     \<and> 1 \<le> length (uc_subject_id d) \<and> length (uc_subject_id d) \<le> 500
     \<and> 1 \<le> length (uc_metric_key d) \<and> length (uc_metric_key d) \<le> 160
     \<and> 0 < uc_quantity d \<and> numeric_19_6 (uc_quantity d)
     \<and> (\<forall>s \<in> set_option (uc_endpoint d). length s \<le> 500)"

definition https_return_url :: "(string \<Rightarrow> bool) \<Rightarrow> string \<Rightarrow> string result" where
  "https_return_url bracket_ok value =
     bind_result (urlsplit bracket_ok value) (\<lambda>parsed.
       if value \<noteq> strip value \<or> \<not> safe_https parsed
       then Inl (ValueError ''return_url must be an absolute HTTPS URL without credentials or fragment'')
       else Inr value)"

definition valid_payment_intent :: "(string \<Rightarrow> bool) \<Rightarrow> payment_intent_create \<Rightarrow> bool" where
  "valid_payment_intent bracket_ok d \<longleftrightarrow>
     pi_operation d \<in> {''SUBSCRIBE'', ''CHANGE_PLAN'', ''PURCHASE_CREDITS''}
     \<and> 1 \<le> length (pi_provider d) \<and> length (pi_provider d) \<le> 80
     \<and> (\<forall>s \<in> set_option (pi_purchase_sku d). length s \<le> 200)
     \<and> 8 \<le> length (pi_idempotency_key d) \<and> length (pi_idempotency_key d) \<le> 255
     \<and> 8 \<le> length (pi_return_url d) \<and> length (pi_return_url d) \<le> 2048
     \<and> is_ok (https_return_url bracket_ok (pi_return_url d))
     \<and> (pi_plan_version_id d = None) \<noteq> (pi_purchase_sku d = None)
     \<and> (pi_plan_version_id d \<noteq> None \<longrightarrow> pi_billing_cycle d \<noteq> None)
     \<and> (pi_operation d = ''PURCHASE_CREDITS'' \<longrightarrow> pi_purchase_sku d \<noteq> None)
     \<and> (pi_operation d \<noteq> ''PURCHASE_CREDITS'' \<longrightarrow> pi_plan_version_id d \<noteq> None)"

end
