(* ===== verification/Billing_Ledger.thy ===== *)
theory Billing_Ledger
  imports Billing_Models
begin

text \<open>
  The credit ledger operations of \<open>BillingService\<close> (\<^verbatim>\<open>domain/billing/service.py\<close>): pricing,
  account creation, grants, max-cost holds with their allocation to grants, finalization,
  release, usage recording and reversal of debits. Each operation is the whole handler, from the
  tenant scope to the audit and outbox records; it returns the row the code returns and the new
  database. \<open>H\<close> is the canonical JSON digest (\<^verbatim>\<open>core/serialization.py\<close>), \<open>now\<close> the clock.

  Database constraints that a handler can run into are part of the model: unique keys, the length
  of the ledger's key column and the range of the amount columns raise \<open>IntegrityError\<close> and \<open>DataError\<close> at the flush. The
  CHECK constraints on amounts are not repeated here; the invariant shows no operation trips them.
\<close>

type_synonym hasher = "json \<Rightarrow> string"

section \<open>Audit trail of the service\<close>

definition SCHEMA_VERSION :: string where
  "SCHEMA_VERSION = ''1.0''"

definition bill_record ::
  "principal \<Rightarrow> time \<Rightarrow> string \<Rightarrow> string \<Rightarrow> uuid \<Rightarrow> (string \<times> json) list \<Rightarrow> billing_db \<Rightarrow> billing_db" where
  "bill_record p now action target_type target_id details db =
     add_outbox_event (Some (workspace_id p)) target_type (uuid_str target_id) action SCHEMA_VERSION
       (JDict ([(''workspace_id'', JUuid (workspace_id p)), (''actor_id'', JUuid (subject_id p)),
                (''aggregate_id'', JUuid target_id)] @ details)) now
     (append_audit_log (Some (workspace_id p)) (Some (subject_id p)) action target_type
       (uuid_str target_id) (Some (JDict details)) None now db)"

section \<open>Lookups\<close>

definition get_account :: "uuid \<Rightarrow> billing_db \<Rightarrow> credit_account result" where
  "get_account ws db =
     (case List.find (\<lambda>a. ca_workspace_id a = ws) (credit_accounts db) of
        None \<Rightarrow> Inl (app_error ''CREDIT_ACCOUNT_NOT_CONFIGURED'' 409)
      | Some a \<Rightarrow> Inr a)"

definition get_price :: "uuid \<Rightarrow> uuid \<Rightarrow> time \<Rightarrow> billing_db \<Rightarrow> billing_price_version result" where
  "get_price ws price_id moment db =
     (case List.find (\<lambda>v. pv_id v = price_id) (price_versions db) of
        None \<Rightarrow> Inl (app_error ''PRICING_VERSION_NOT_FOUND'' 404)
      | Some v \<Rightarrow>
          if pv_workspace_id v \<noteq> None \<and> pv_workspace_id v \<noteq> Some ws
          then Inl (app_error ''PRICING_VERSION_NOT_FOUND'' 404)
          else bind_result
            (pricing_is_effective (pv_state v) (Aware (pv_effective_at v))
               (map_option Aware (pv_retired_at v)) (Aware moment))
            (\<lambda>ok. if \<not> ok then Inl (app_error ''PRICING_VERSION_INACTIVE'' 409) else Inr v))"

definition get_plan :: "uuid \<Rightarrow> uuid \<Rightarrow> time \<Rightarrow> billing_db \<Rightarrow> billing_plan_version result" where
  "get_plan ws plan_id moment db =
     (case List.find (\<lambda>v. pl_id v = plan_id) (plan_versions db) of
        None \<Rightarrow> Inl (app_error ''BILLING_PLAN_NOT_FOUND'' 404)
      | Some v \<Rightarrow>
          if pl_workspace_id v \<noteq> None \<and> pl_workspace_id v \<noteq> Some ws
          then Inl (app_error ''BILLING_PLAN_NOT_FOUND'' 404)
          else bind_result
            (pricing_is_effective (pl_state v) (Aware (pl_effective_at v))
               (map_option Aware (pl_retired_at v)) (Aware moment))
            (\<lambda>ok. if \<not> ok then Inl (app_error ''BILLING_PLAN_INACTIVE'' 409) else Inr v))"

section \<open>Pricing\<close>

definition metadata_get :: "(string \<times> json) list \<Rightarrow> string \<Rightarrow> json" where
  "metadata_get m k = (case map_of m k of None \<Rightarrow> JNull | Some v \<Rightarrow> v)"

definition price_snapshot :: "billing_price_version \<Rightarrow> json" where
  "price_snapshot v = JDict
     [(''price_version_id'', JUuid (pv_id v)), (''metric_key'', JStr (pv_metric_key v)),
      (''vendor'', JStr (pv_vendor v)), (''vendor_sku'', JStr (pv_vendor_sku v)),
      (''version'', JInt (pv_version v)), (''unit_name'', JStr (pv_unit_name v)),
      (''unit_size'', JDec (pv_unit_size v)),
      (''credit_unit_price'', JDec (pv_credit_unit_price v)),
      (''internal_unit_cost'', JDec (pv_internal_unit_cost v)),
      (''cost_currency'', JStr (pv_cost_currency v)), (''pricing_hash'', JStr (pv_pricing_hash v)),
      (''rounding'', metadata_get (pv_pricing_metadata v) ''rounding'')]"

definition priced_quantity :: "billing_price_version \<Rightarrow> rat \<Rightarrow> rat result" where
  "priced_quantity v quantity =
     (let rounding = metadata_get (pv_pricing_metadata v) ''rounding''
      in if rounding = JStr ''PROPORTIONAL'' then
           (case dec_div quantity (pv_unit_size v) of None \<Rightarrow> Inl DecimalException | Some q \<Rightarrow> Inr q)
         else if rounding = JStr ''CEILING_UNIT'' then
           (case dec_div quantity (pv_unit_size v) of
              None \<Rightarrow> Inl DecimalException | Some q \<Rightarrow> Inr (of_int \<lceil>q\<rceil>))
         else Inl (app_error ''PRICING_ROUNDING_CONFIG_MISSING'' 503))"

definition price_credit_amount :: "billing_price_version \<Rightarrow> rat \<Rightarrow> rat result" where
  "price_credit_amount v quantity =
     (case bind_result (priced_quantity v quantity) (\<lambda>q.
             case dec_quantize ceiling 6 (dec_mult q (pv_credit_unit_price v)) of
               None \<Rightarrow> Inl DecimalException | Some a \<Rightarrow> Inr a) of
        Inl DecimalException \<Rightarrow> Inl (app_error ''PRICING_CONVERSION_INVALID'' 503)
      | r \<Rightarrow> r)"

section \<open>Row changes\<close>

definition update_account :: "uuid \<Rightarrow> (credit_account \<Rightarrow> credit_account) \<Rightarrow> billing_db \<Rightarrow> billing_db" where
  "update_account i f db = db\<lparr>credit_accounts := update_where (\<lambda>a. ca_id a = i) f (credit_accounts db)\<rparr>"

definition update_grant :: "uuid \<Rightarrow> (credit_grant \<Rightarrow> credit_grant) \<Rightarrow> billing_db \<Rightarrow> billing_db" where
  "update_grant i f db = db\<lparr>credit_grants := update_where (\<lambda>g. cg_id g = i) f (credit_grants db)\<rparr>"

definition update_hold :: "uuid \<Rightarrow> (credit_hold \<Rightarrow> credit_hold) \<Rightarrow> billing_db \<Rightarrow> billing_db" where
  "update_hold i f db = db\<lparr>credit_holds := update_where (\<lambda>h. ch_id h = i) f (credit_holds db)\<rparr>"

definition update_allocation ::
  "uuid \<Rightarrow> (credit_hold_allocation \<Rightarrow> credit_hold_allocation) \<Rightarrow> billing_db \<Rightarrow> billing_db" where
  "update_allocation i f db =
     db\<lparr>hold_allocations := update_where (\<lambda>a. ha_id a = i) f (hold_allocations db)\<rparr>"

definition set_balances :: "credit_account \<Rightarrow> rat \<Rightarrow> rat \<Rightarrow> billing_db \<Rightarrow> billing_db" where
  "set_balances account avail held db =
     update_account (ca_id account)
       (\<lambda>a. a\<lparr>ca_held_balance := held, ca_available_balance := avail\<rparr>) db"

text \<open>INSERT of a grant: unique per (workspace, source type, source id).\<close>

definition insert_grant :: "credit_grant \<Rightarrow> billing_db \<Rightarrow> billing_db result" where
  "insert_grant g db =
     (if list_ex (\<lambda>x. cg_workspace_id x = cg_workspace_id g \<and> cg_source_type x = cg_source_type g
                      \<and> cg_source_id x = cg_source_id g) (credit_grants db)
      then Inl (IntegrityError ''billing_credit_grant_source'')
      else Inr (db\<lparr>credit_grants := credit_grants db @ [g]\<rparr>))"

text \<open>INSERT of a ledger entry: the key column is VARCHAR(255), unique per workspace, and an entry
  is reversed at most once. The amounts are NUMERIC(19,6). The account columns that
  \<open>set_balances\<close> and the grant and reversal handlers assign have the same type, and every such
  assignment is flushed with an entry whose after-balances are the two new balances, so a balance
  that overflows its column is refused here.\<close>

definition entry_fits :: "credit_ledger_entry \<Rightarrow> bool" where
  "entry_fits e \<longleftrightarrow> list_all fits_19_6
     [le_amount e, le_available_delta e, le_held_delta e, le_available_after e, le_held_after e]"

definition insert_entry :: "credit_ledger_entry \<Rightarrow> billing_db \<Rightarrow> billing_db result" where
  "insert_entry e db =
     (if 255 < length (le_idempotency_key e) then Inl (DataError ''idempotency_key'')
      else if \<not> entry_fits e then Inl (DataError ''numeric field overflow'')
      else if list_ex (\<lambda>x. le_workspace_id x = le_workspace_id e
                           \<and> le_idempotency_key x = le_idempotency_key e) (credit_ledger db)
      then Inl (IntegrityError ''billing_credit_entry_idempotency'')
      else if le_reversal_of_id e \<noteq> None
              \<and> list_ex (\<lambda>x. le_reversal_of_id x = le_reversal_of_id e) (credit_ledger db)
      then Inl (IntegrityError ''billing_credit_reversal_once'')
      else Inr (db\<lparr>credit_ledger := credit_ledger db @ [e]\<rparr>))"

text \<open>UPDATE of a hold that sets its terminal event: unique per workspace.\<close>

definition flush_hold :: "uuid \<Rightarrow> string \<Rightarrow> uuid \<Rightarrow> billing_db \<Rightarrow> billing_db result" where
  "flush_hold ws event hid db =
     (if list_ex (\<lambda>h. ch_workspace_id h = ws \<and> ch_finalization_event_id h = Some event
                      \<and> ch_id h \<noteq> hid) (credit_holds db)
      then Inl (IntegrityError ''billing_credit_finalize_once'')
      else Inr db)"

section \<open>Accounts and grants\<close>

definition create_credit_account ::
  "time \<Rightarrow> principal \<Rightarrow> billing_db \<Rightarrow> (credit_account \<times> billing_db) result" where
  "create_credit_account now p db =
     (case List.find (\<lambda>a. ca_workspace_id a = workspace_id p) (credit_accounts db) of
        Some a \<Rightarrow> Inr (a, db)
      | None \<Rightarrow>
          let (i, db) = uuid4 db;
              a = \<lparr>ca_id = i, ca_workspace_id = workspace_id p, ca_available_balance = 0,
                   ca_held_balance = 0\<rparr>;
              db = db\<lparr>credit_accounts := credit_accounts db @ [a]\<rparr>
          in Inr (a, bill_record p now ''billing.credit_account.created'' ''credit_account'' i [] db))"

definition get_credit_account :: "principal \<Rightarrow> billing_db \<Rightarrow> credit_account result" where
  "get_credit_account p db = get_account (workspace_id p) db"

definition grant_credits ::
  "time \<Rightarrow> principal \<Rightarrow> credit_grant_create \<Rightarrow> billing_db \<Rightarrow> (credit_grant \<times> billing_db) result" where
  "grant_credits now p d db =
     bind_result (get_account (workspace_id p) db) (\<lambda>account.
     case List.find (\<lambda>g. cg_workspace_id g = workspace_id p \<and> cg_source_type g = gc_source_type d
                         \<and> cg_source_id g = gc_source_id d) (credit_grants db) of
       Some g \<Rightarrow>
         if cg_original_amount g \<noteq> gc_amount d \<or> cg_bucket_kind g \<noteq> gc_bucket_kind d
         then Inl (app_error ''CREDIT_GRANT_SOURCE_REUSED'' 409)
         else Inr (g, db)
     | None \<Rightarrow>
         if (case gc_expires_at d of None \<Rightarrow> False | Some t \<Rightarrow> t \<le> now)
         then Inl (app_error ''CREDIT_GRANT_ALREADY_EXPIRED'' 422)
         else
           let (i, db) = uuid4 db;
               g = \<lparr>cg_id = i, cg_workspace_id = workspace_id p, cg_account_id = ca_id account,
                    cg_bucket_kind = gc_bucket_kind d, cg_original_amount = gc_amount d,
                    cg_available_amount = gc_amount d, cg_held_amount = 0,
                    cg_source_type = gc_source_type d, cg_source_id = gc_source_id d,
                    cg_granted_at = now, cg_expires_at = gc_expires_at d,
                    cg_grant_policy_snapshot = gc_grant_policy_snapshot d\<rparr>;
               avail = ca_available_balance account + gc_amount d
           in bind_result (insert_grant g db) (\<lambda>db.
              let db = update_account (ca_id account) (\<lambda>a. a\<lparr>ca_available_balance := avail\<rparr>) db;
                  (ei, db) = uuid4 db;
                  (gi, db) = uuid4 db;
                  e = \<lparr>le_id = ei, le_workspace_id = workspace_id p, le_account_id = ca_id account,
                       le_grant_id = Some i, le_hold_id = None, le_kind = CreditEntryKind.GRANT,
                       le_direction = LedgerDirection.CREDIT, le_amount = gc_amount d,
                       le_available_delta = gc_amount d, le_held_delta = 0,
                       le_available_after = avail, le_held_after = ca_held_balance account,
                       le_transaction_group_id = gi, le_reversal_of_id = None,
                       le_idempotency_key = ''grant:'' @ gc_source_type d @ '':'' @ gc_source_id d,
                       le_source_type = gc_source_type d, le_source_id = gc_source_id d,
                       le_reason_code = gc_reason_code d, le_pricing_snapshot = None,
                       le_actor_id = Some (subject_id p), le_posted_at = now\<rparr>
              in bind_result (insert_entry e db) (\<lambda>db.
                 Inr (g, bill_record p now ''billing.credit.granted'' ''credit_grant'' i
                       [(''amount'', JDec (gc_amount d)),
                        (''bucket_kind'', JStr (case gc_bucket_kind d of
                            CreditBucketKind.MONTHLY \<Rightarrow> ''MONTHLY''
                          | CreditBucketKind.PURCHASED \<Rightarrow> ''PURCHASED''
                          | CreditBucketKind.PROMOTIONAL \<Rightarrow> ''PROMOTIONAL''
                          | CreditBucketKind.AGENCY_ALLOCATION \<Rightarrow> ''AGENCY_ALLOCATION''
                          | CreditBucketKind.ADMIN_ADJUSTMENT \<Rightarrow> ''ADMIN_ADJUSTMENT''))] db))))"

section \<open>Holds\<close>

definition hold_create_json :: "credit_hold_create \<Rightarrow> json" where
  "hold_create_json d = JDict
     [(''subject_type'', JStr (hc_subject_type d)), (''subject_id'', JStr (hc_subject_id d)),
      (''operation'', JStr (hc_operation d)), (''price_version_id'', JUuid (hc_price_version_id d)),
      (''maximum_amount'', JDec (hc_maximum_amount d)),
      (''idempotency_key'', JStr (hc_idempotency_key d)), (''expires_at'', JTime (hc_expires_at d))]"

text \<open>ORDER BY expires_at ASC NULLS LAST, granted_at, id.\<close>

definition grant_order :: "credit_grant \<Rightarrow> (nat \<times> time) \<times> time \<times> uuid" where
  "grant_order g =
     ((case cg_expires_at g of None \<Rightarrow> (1, 0) | Some t \<Rightarrow> (0, t)), cg_granted_at g, cg_id g)"

definition eligible_grants :: "uuid \<Rightarrow> uuid \<Rightarrow> time \<Rightarrow> billing_db \<Rightarrow> credit_grant list" where
  "eligible_grants ws account_id now db =
     sort_key grant_order
       (filter (\<lambda>g. cg_workspace_id g = ws \<and> cg_account_id g = account_id
                    \<and> cg_available_amount g > 0
                    \<and> (case cg_expires_at g of None \<Rightarrow> True | Some t \<Rightarrow> t > now)) (credit_grants db))"

text \<open>The allocation loop of \<open>create_hold\<close>: draw from each grant in order until nothing remains.\<close>

fun allocate_loop ::
  "uuid \<Rightarrow> uuid \<Rightarrow> nat \<Rightarrow> rat \<Rightarrow> credit_grant list \<Rightarrow> billing_db \<Rightarrow> rat \<times> billing_db" where
  "allocate_loop ws hold_id order remaining [] db = (remaining, db)"
| "allocate_loop ws hold_id order remaining (g # gs) db =
     (if remaining = 0 then (remaining, db)
      else let amount = min (cg_available_amount g) remaining;
               db = update_grant (cg_id g)
                      (\<lambda>x. x\<lparr>cg_available_amount := cg_available_amount x - amount,
                             cg_held_amount := cg_held_amount x + amount\<rparr>) db;
               (i, db) = uuid4 db;
               a = \<lparr>ha_id = i, ha_workspace_id = ws, ha_hold_id = hold_id, ha_grant_id = cg_id g,
                    ha_allocation_order = order + 1, ha_held_amount = amount,
                    ha_consumed_amount = 0, ha_released_amount = 0\<rparr>;
               db = db\<lparr>hold_allocations := hold_allocations db @ [a]\<rparr>
           in allocate_loop ws hold_id (order + 1) (remaining - amount) gs db)"

definition hold_row ::
  "principal \<Rightarrow> credit_hold_create \<Rightarrow> billing_price_version \<Rightarrow> credit_account \<Rightarrow> string \<Rightarrow> uuid \<Rightarrow> credit_hold"
  where
  "hold_row p d price account request_hash i =
     \<lparr>ch_id = i, ch_workspace_id = workspace_id p, ch_account_id = ca_id account,
      ch_subject_type = hc_subject_type d, ch_subject_id = hc_subject_id d,
      ch_operation = hc_operation d, ch_idempotency_key = hc_idempotency_key d,
      ch_request_hash = request_hash, ch_price_version_id = pv_id price,
      ch_pricing_snapshot = price_snapshot price, ch_maximum_amount = hc_maximum_amount d,
      ch_actual_amount = None, ch_released_amount = None, ch_state = CreditHoldState.HELD,
      ch_finalization_event_id = None, ch_failure_class = None, ch_expires_at = hc_expires_at d,
      ch_finalized_at = None, ch_requested_by = subject_id p\<rparr>"

definition hold_entry ::
  "time \<Rightarrow> principal \<Rightarrow> credit_hold_create \<Rightarrow> billing_price_version \<Rightarrow> credit_account \<Rightarrow> uuid
   \<Rightarrow> rat \<Rightarrow> rat \<Rightarrow> uuid \<Rightarrow> uuid \<Rightarrow> credit_ledger_entry" where
  "hold_entry now p d price account i avail held ei gi =
     \<lparr>le_id = ei, le_workspace_id = workspace_id p, le_account_id = ca_id account,
      le_grant_id = None, le_hold_id = Some i, le_kind = CreditEntryKind.HOLD,
      le_direction = LedgerDirection.DEBIT, le_amount = hc_maximum_amount d,
      le_available_delta = - hc_maximum_amount d, le_held_delta = hc_maximum_amount d,
      le_available_after = avail, le_held_after = held, le_transaction_group_id = gi,
      le_reversal_of_id = None, le_idempotency_key = ''hold:'' @ uuid_str i,
      le_source_type = hc_subject_type d, le_source_id = hc_subject_id d,
      le_reason_code = ''MAX_COST_RESERVATION'', le_pricing_snapshot = Some (price_snapshot price),
      le_actor_id = Some (subject_id p), le_posted_at = now\<rparr>"

text \<open>From the balance update to the audit record.\<close>

definition hold_commit ::
  "time \<Rightarrow> principal \<Rightarrow> credit_hold_create \<Rightarrow> billing_price_version \<Rightarrow> credit_account \<Rightarrow> credit_hold
   \<Rightarrow> billing_db \<Rightarrow> (credit_hold \<times> billing_db) result" where
  "hold_commit now p d price account h db =
     (let avail = ca_available_balance account - hc_maximum_amount d;
          held = ca_held_balance account + hc_maximum_amount d;
          db = set_balances account avail held db
      in bind_result
           (ensure_balance_transition (ca_available_balance account) (ca_held_balance account) avail held)
           (\<lambda>_. let (ei, db) = uuid4 db; (gi, db) = uuid4 db
           in bind_result (insert_entry (hold_entry now p d price account (ch_id h) avail held ei gi) db)
           (\<lambda>db. Inr (h, bill_record p now ''billing.credit.held'' ''credit_hold'' (ch_id h)
                          [(''maximum_amount'', JDec (hc_maximum_amount d)),
                           (''price_version_id'', JUuid (pv_id price))] db))))"

definition create_hold ::
  "hasher \<Rightarrow> time \<Rightarrow> principal \<Rightarrow> credit_hold_create \<Rightarrow> billing_db \<Rightarrow> (credit_hold \<times> billing_db) result"
  where
  "create_hold H now p d db =
     (if hc_expires_at d \<le> now then Inl (app_error ''CREDIT_HOLD_EXPIRY_INVALID'' 422)
      else let request_hash = H (hold_create_json d) in
      case List.find (\<lambda>h. ch_workspace_id h = workspace_id p \<and> ch_subject_type h = hc_subject_type d
                          \<and> ch_subject_id h = hc_subject_id d
                          \<and> ch_idempotency_key h = hc_idempotency_key d) (credit_holds db) of
        Some h \<Rightarrow>
          if ch_request_hash h \<noteq> request_hash then Inl (app_error ''IDEMPOTENCY_KEY_REUSED'' 409)
          else Inr (h, db)
      | None \<Rightarrow>
          bind_result (get_price (workspace_id p) (hc_price_version_id d) now db) (\<lambda>price.
          bind_result (get_account (workspace_id p) db) (\<lambda>account.
          if ca_available_balance account < hc_maximum_amount d
          then Inl (AppError ''CREDIT_BALANCE_INSUFFICIENT'' 402 []
                 (Some (JDict [(''required'', JDec (hc_maximum_amount d)),
                               (''available'', JDec (ca_available_balance account))])))
          else
            let grants = eligible_grants (workspace_id p) (ca_id account) now db in
            if sum_list (map cg_available_amount grants) < hc_maximum_amount d
            then Inl (app_error ''CREDIT_BUCKETS_INSUFFICIENT'' 409)
            else
              let (i, db) = uuid4 db;
                  h = hold_row p d price account request_hash i;
                  db = db\<lparr>credit_holds := credit_holds db @ [h]\<rparr>;
                  (_, db) = allocate_loop (workspace_id p) i 0 (hc_maximum_amount d) grants db
              in hold_commit now p d price account h db)))"

definition get_hold :: "principal \<Rightarrow> uuid \<Rightarrow> billing_db \<Rightarrow> credit_hold result" where
  "get_hold p hold_id db =
     (case List.find (\<lambda>h. ch_workspace_id h = workspace_id p \<and> ch_id h = hold_id) (credit_holds db) of
        None \<Rightarrow> Inl (app_error ''CREDIT_HOLD_NOT_FOUND'' 404)
      | Some h \<Rightarrow> Inr h)"

end
