(* ===== verification/Billing_Settlement.thy ===== *)
theory Billing_Settlement
  imports Billing_Ledger
begin

text \<open>
  Settlement of holds and metering, \<open>BillingService.finalize_hold\<close>, \<open>release_hold\<close>,
  \<open>record_usage\<close>, \<open>reverse_credit_debit\<close> and the list endpoints.
\<close>

section \<open>Finalization\<close>

text \<open>
  The settlement loop: consume the allocations in order, return the rest of each to its grant.
  The dictionary lookup \<open>grants[allocation.grant_id]\<close> raises \<open>KeyError\<close> if the row is missing.
\<close>

fun finalize_loop ::
  "rat \<Rightarrow> credit_hold_allocation list \<Rightarrow> billing_db \<Rightarrow> (rat \<times> billing_db) result" where
  "finalize_loop remaining [] db = Inr (remaining, db)"
| "finalize_loop remaining (a # as) db =
     (let consumed = min (ha_held_amount a) remaining;
          released = ha_held_amount a - consumed;
          db = update_allocation (ha_id a)
                 (\<lambda>x. x\<lparr>ha_consumed_amount := consumed, ha_released_amount := released\<rparr>) db
      in case List.find (\<lambda>g. cg_id g = ha_grant_id a) (credit_grants db) of
           None \<Rightarrow> Inl KeyError
         | Some g \<Rightarrow>
             finalize_loop (remaining - consumed) as
               (update_grant (ha_grant_id a)
                  (\<lambda>x. x\<lparr>cg_held_amount := cg_held_amount x - ha_held_amount a,
                         cg_available_amount := cg_available_amount x + released\<rparr>) db))"

definition allocations_of :: "uuid \<Rightarrow> uuid \<Rightarrow> billing_db \<Rightarrow> credit_hold_allocation list" where
  "allocations_of ws hold_id db =
     filter (\<lambda>a. ha_workspace_id a = ws \<and> ha_hold_id a = hold_id) (hold_allocations db)"

definition settle_entry ::
  "principal \<Rightarrow> time \<Rightarrow> credit_account \<Rightarrow> credit_hold \<Rightarrow> CreditEntryKind \<Rightarrow> LedgerDirection \<Rightarrow> rat \<Rightarrow> rat
   \<Rightarrow> rat \<Rightarrow> rat \<Rightarrow> rat \<Rightarrow> uuid \<Rightarrow> string \<Rightarrow> string \<Rightarrow> uuid \<Rightarrow> credit_ledger_entry" where
  "settle_entry p now account h k dir amount adelta hdelta avail held grp key reason ei =
     \<lparr>le_id = ei, le_workspace_id = workspace_id p, le_account_id = ca_id account,
      le_grant_id = None, le_hold_id = Some (ch_id h), le_kind = k, le_direction = dir,
      le_amount = amount, le_available_delta = adelta, le_held_delta = hdelta,
      le_available_after = avail, le_held_after = held, le_transaction_group_id = grp,
      le_reversal_of_id = None, le_idempotency_key = key, le_source_type = ch_subject_type h,
      le_source_id = ch_subject_id h, le_reason_code = reason,
      le_pricing_snapshot = Some (ch_pricing_snapshot h), le_actor_id = Some (subject_id p),
      le_posted_at = now\<rparr>"

definition insert_entry_if ::
  "bool \<Rightarrow> (uuid \<Rightarrow> credit_ledger_entry) \<Rightarrow> billing_db \<Rightarrow> billing_db result" where
  "insert_entry_if c mk db =
     (if c then (let (ei, db) = uuid4 db in insert_entry (mk ei) db) else Inr db)"

definition opt_str :: "string option \<Rightarrow> json" where
  "opt_str s = (case s of None \<Rightarrow> JNull | Some x \<Rightarrow> JStr x)"

definition settled_hold ::
  "rat \<Rightarrow> rat \<Rightarrow> string \<Rightarrow> string option \<Rightarrow> CreditHoldState \<Rightarrow> time \<Rightarrow> credit_hold \<Rightarrow> credit_hold" where
  "settled_hold c r event fc st now h =
     h\<lparr>ch_actual_amount := Some c, ch_released_amount := Some r, ch_finalization_event_id := Some event,
       ch_failure_class := fc, ch_state := st, ch_finalized_at := Some now\<rparr>"

text \<open>The CONSUME and RELEASE entries of a finalization, under one transaction group.\<close>

definition finalize_entries ::
  "time \<Rightarrow> principal \<Rightarrow> credit_hold \<Rightarrow> credit_hold_finalize \<Rightarrow> hold_finalization \<Rightarrow> credit_account
   \<Rightarrow> rat \<Rightarrow> rat \<Rightarrow> billing_db \<Rightarrow> billing_db result" where
  "finalize_entries now p hold d result account avail held db =
     (let (grp, db) = uuid4 db
      in bind_result
           (insert_entry_if (0 < hf_consumed result)
              (settle_entry p now account hold CreditEntryKind.CONSUME LedgerDirection.DEBIT
                 (hf_consumed result) 0 (- hf_consumed result) avail held grp
                 (''finalize:'' @ hz_finalization_event_id d @ '':consume'')
                 (case hz_reason_code d of None \<Rightarrow> ''ACTUAL_COST''
                  | Some r \<Rightarrow> if r = '''' then ''ACTUAL_COST'' else r)) db)
           (insert_entry_if (0 < hf_released result)
              (settle_entry p now account hold CreditEntryKind.RELEASE LedgerDirection.CREDIT
                 (hf_released result) (hf_released result) (- hf_released result) avail held grp
                 (''finalize:'' @ hz_finalization_event_id d @ '':release'') ''MAX_COST_DIFFERENCE'')))"

text \<open>From the balance update to the audit record.\<close>

definition finalize_commit ::
  "time \<Rightarrow> principal \<Rightarrow> credit_hold \<Rightarrow> credit_hold_finalize \<Rightarrow> hold_finalization \<Rightarrow> credit_account
   \<Rightarrow> billing_db \<Rightarrow> (credit_hold \<times> billing_db) result" where
  "finalize_commit now p hold d result account db =
     (let held = ca_held_balance account - ch_maximum_amount hold;
          avail = ca_available_balance account + hf_released result;
          settle = settled_hold (hf_consumed result) (hf_released result) (hz_finalization_event_id d)
                     (hz_failure_class d) CreditHoldState.FINALIZED now
      in bind_result
           (ensure_balance_transition (ca_available_balance account) (ca_held_balance account) avail held)
           (\<lambda>_. bind_result
             (finalize_entries now p hold d result account avail held
               (update_hold (ch_id hold) settle (set_balances account avail held db)))
           (\<lambda>db. bind_result (flush_hold (workspace_id p) (hz_finalization_event_id d) (ch_id hold) db)
           (\<lambda>db. Inr (settle hold,
              bill_record p now ''billing.credit.finalized'' ''credit_hold'' (ch_id hold)
                [(''actual_amount'', JDec (hf_consumed result)),
                 (''released_amount'', JDec (hf_released result)),
                 (''finalization_event_id'', JStr (hz_finalization_event_id d)),
                 (''failure_class'', opt_str (hz_failure_class d)),
                 (''reason_code'', opt_str (hz_reason_code d))] db)))))"

definition finalize_hold ::
  "time \<Rightarrow> principal \<Rightarrow> uuid \<Rightarrow> credit_hold_finalize \<Rightarrow> billing_db \<Rightarrow> (credit_hold \<times> billing_db) result"
  where
  "finalize_hold now p hold_id d db =
     (case List.find (\<lambda>h. ch_workspace_id h = workspace_id p \<and> ch_id h = hold_id) (credit_holds db) of
        None \<Rightarrow> Inl (app_error ''CREDIT_HOLD_NOT_FOUND'' 404)
      | Some hold \<Rightarrow>
          bind_result (finalize_hold_amounts (ch_state hold) (Finite (ch_maximum_amount hold))
                         (Finite (hz_actual_amount d)) (ch_actual_amount hold)) (\<lambda>result.
          if hf_replay result then
            (if ch_finalization_event_id hold \<noteq> Some (hz_finalization_event_id d)
                \<or> ch_failure_class hold \<noteq> hz_failure_class d
             then Inl (app_error ''CREDIT_HOLD_FINALIZATION_CONFLICT'' 409)
             else Inr (hold, db))
          else
            bind_result (get_account (workspace_id p) db) (\<lambda>account.
            bind_result
              (finalize_loop (hf_consumed result)
                 (sort_key ha_allocation_order (allocations_of (workspace_id p) (ch_id hold) db)) db)
              (\<lambda>(remaining, db).
                 if remaining \<noteq> 0 then Inl (app_error ''CREDIT_ALLOCATION_CORRUPT'' 500)
                 else finalize_commit now p hold d result account db))))"

section \<open>Release\<close>

fun release_loop :: "credit_hold_allocation list \<Rightarrow> billing_db \<Rightarrow> billing_db result" where
  "release_loop [] db = Inr db"
| "release_loop (a # as) db =
     (let db = update_allocation (ha_id a) (\<lambda>x. x\<lparr>ha_released_amount := ha_held_amount x\<rparr>) db
      in case List.find (\<lambda>g. cg_id g = ha_grant_id a) (credit_grants db) of
           None \<Rightarrow> Inl KeyError
         | Some g \<Rightarrow>
             release_loop as
               (update_grant (ha_grant_id a)
                  (\<lambda>x. x\<lparr>cg_held_amount := cg_held_amount x - ha_held_amount a,
                         cg_available_amount := cg_available_amount x + ha_held_amount a\<rparr>) db))"

definition release_commit ::
  "time \<Rightarrow> principal \<Rightarrow> credit_hold \<Rightarrow> credit_hold_release \<Rightarrow> credit_account
   \<Rightarrow> billing_db \<Rightarrow> (credit_hold \<times> billing_db) result" where
  "release_commit now p hold d account db =
     (let held = ca_held_balance account - ch_maximum_amount hold;
          avail = ca_available_balance account + ch_maximum_amount hold;
          settle = settled_hold 0 (ch_maximum_amount hold) (hr_release_event_id d)
                     (Some (hr_failure_class d)) CreditHoldState.RELEASED now
      in bind_result
           (ensure_balance_transition (avail - ch_maximum_amount hold) (held + ch_maximum_amount hold)
              avail held)
           (\<lambda>_. let (grp, db) = uuid4 (update_hold (ch_id hold) settle (set_balances account avail held db))
           in bind_result
             (insert_entry_if True
               (settle_entry p now account hold CreditEntryKind.RELEASE LedgerDirection.CREDIT
                  (ch_maximum_amount hold) (ch_maximum_amount hold) (- ch_maximum_amount hold) avail held
                  grp (''release:'' @ hr_release_event_id d) (hr_reason_code d)) db)
           (\<lambda>db. bind_result (flush_hold (workspace_id p) (hr_release_event_id d) (ch_id hold) db)
           (\<lambda>db. Inr (settle hold,
              bill_record p now ''billing.credit.released'' ''credit_hold'' (ch_id hold)
                [(''release_event_id'', JStr (hr_release_event_id d)),
                 (''failure_class'', JStr (hr_failure_class d))] db)))))"

definition release_hold ::
  "time \<Rightarrow> principal \<Rightarrow> uuid \<Rightarrow> credit_hold_release \<Rightarrow> billing_db \<Rightarrow> (credit_hold \<times> billing_db) result"
  where
  "release_hold now p hold_id d db =
     (case List.find (\<lambda>h. ch_workspace_id h = workspace_id p \<and> ch_id h = hold_id) (credit_holds db) of
        None \<Rightarrow> Inl (app_error ''CREDIT_HOLD_NOT_FOUND'' 404)
      | Some hold \<Rightarrow>
          if ch_state hold = CreditHoldState.RELEASED then
            (if ch_finalization_event_id hold \<noteq> Some (hr_release_event_id d)
                \<or> ch_failure_class hold \<noteq> Some (hr_failure_class d)
             then Inl (app_error ''CREDIT_HOLD_RELEASE_CONFLICT'' 409)
             else Inr (hold, db))
          else if ch_state hold \<noteq> CreditHoldState.HELD
          then Inl (app_error ''CREDIT_HOLD_NOT_ACTIVE'' 409)
          else
            bind_result (get_account (workspace_id p) db) (\<lambda>account.
            bind_result (release_loop (allocations_of (workspace_id p) (ch_id hold) db) db)
              (release_commit now p hold d account)))"

section \<open>Usage\<close>

text \<open>The cost columns are NUMERIC(19,6): the credit amount is already a multiple of a millionth,
  the internal cost is rounded to one by the column (half away from zero) before its range is
  checked.\<close>

definition record_usage ::
  "time \<Rightarrow> principal \<Rightarrow> usage_record_create \<Rightarrow> billing_db \<Rightarrow> (usage_record \<times> billing_db) result" where
  "record_usage now p d db =
     (case List.find (\<lambda>u. ur_workspace_id u = workspace_id p
                          \<and> ur_source_event_id u = uc_source_event_id d) (usage_records db) of
        Some u \<Rightarrow>
          if ur_quantity u \<noteq> uc_quantity d \<or> ur_metric_key u \<noteq> uc_metric_key d
             \<or> ur_price_version_id u \<noteq> uc_price_version_id d
             \<or> ur_subject_type u \<noteq> uc_subject_type d \<or> ur_subject_id u \<noteq> uc_subject_id d
          then Inl (app_error ''USAGE_EVENT_REUSED'' 409)
          else Inr (u, db)
      | None \<Rightarrow>
          bind_result (get_price (workspace_id p) (uc_price_version_id d) (uc_occurred_at d) db)
          (\<lambda>price.
          if pv_metric_key price \<noteq> uc_metric_key d
          then Inl (app_error ''USAGE_PRICE_METRIC_MISMATCH'' 422)
          else
            bind_result (priced_quantity price (uc_quantity d)) (\<lambda>units.
            bind_result (price_credit_amount price (uc_quantity d)) (\<lambda>credit.
            let cost = dec_mult units (pv_internal_unit_cost price)
            in if \<not> fits_19_6 credit \<or> \<not> fits_19_6 (\<bar>cost\<bar> + 1 / 2000000)
            then Inl (DataError ''numeric field overflow'')
            else let (i, db) = uuid4 db;
                u = \<lparr>ur_id = i, ur_workspace_id = workspace_id p,
                     ur_source_event_id = uc_source_event_id d,
                     ur_subject_type = uc_subject_type d, ur_subject_id = uc_subject_id d,
                     ur_metric_key = uc_metric_key d, ur_quantity = uc_quantity d,
                     ur_unit_name = pv_unit_name price, ur_state = UsageRecordState.FINAL,
                     ur_price_version_id = pv_id price,
                     ur_pricing_snapshot = price_snapshot price, ur_credit_amount = credit,
                     ur_internal_cost = cost,
                     ur_cost_currency = pv_cost_currency price, ur_api_key_id = uc_api_key_id d,
                     ur_endpoint = uc_endpoint d, ur_occurred_at = uc_occurred_at d,
                     ur_finalized_at = Some now, ur_metadata_json = uc_metadata d\<rparr>;
                db = db\<lparr>usage_records := usage_records db @ [u]\<rparr>
            in Inr (u, bill_record p now ''billing.usage.recorded'' ''usage_record'' i
                     [(''source_event_id'', JStr (uc_source_event_id d)),
                      (''metric_key'', JStr (uc_metric_key d)),
                      (''quantity'', JDec (uc_quantity d))] db)))))"

section \<open>Reversal\<close>

definition reversible :: "credit_ledger_entry \<Rightarrow> bool" where
  "reversible e \<longleftrightarrow>
     le_kind e \<in> {CreditEntryKind.CONSUME, CreditEntryKind.EXPIRE, CreditEntryKind.RECLAIM}
     \<and> le_direction e = LedgerDirection.DEBIT"

definition reverse_credit_debit ::
  "time \<Rightarrow> principal \<Rightarrow> uuid \<Rightarrow> string \<Rightarrow> string \<Rightarrow> CreditBucketKind \<Rightarrow> time option
   \<Rightarrow> (string \<times> json) list \<Rightarrow> billing_db \<Rightarrow> (credit_ledger_entry \<times> billing_db) result" where
  "reverse_credit_debit now p entry_id key reason bucket expires policy db =
     (case List.find (\<lambda>e. le_workspace_id e = workspace_id p \<and> le_id e = entry_id) (credit_ledger db) of
        None \<Rightarrow> Inl (app_error ''CREDIT_ENTRY_NOT_FOUND'' 404)
      | Some original \<Rightarrow>
     (case List.find (\<lambda>e. le_workspace_id e = workspace_id p
                          \<and> le_reversal_of_id e = Some (le_id original)) (credit_ledger db) of
        Some existing \<Rightarrow>
          if le_idempotency_key existing \<noteq> key
          then Inl (app_error ''CREDIT_ENTRY_ALREADY_REVERSED'' 409)
          else Inr (existing, db)
      | None \<Rightarrow>
          if \<not> reversible original then Inl (app_error ''CREDIT_ENTRY_NOT_REVERSIBLE'' 409)
          else bind_result (get_account (workspace_id p) db) (\<lambda>account.
          if (case expires of None \<Rightarrow> False | Some t \<Rightarrow> t \<le> now)
          then Inl (app_error ''CREDIT_REVERSAL_POLICY_INVALID'' 422)
          else
            let (i, db) = uuid4 db;
                g = \<lparr>cg_id = i, cg_workspace_id = workspace_id p, cg_account_id = ca_id account,
                     cg_bucket_kind = bucket, cg_original_amount = le_amount original,
                     cg_available_amount = le_amount original, cg_held_amount = 0,
                     cg_source_type = ''LEDGER_REVERSAL'', cg_source_id = uuid_str (le_id original),
                     cg_granted_at = now, cg_expires_at = expires,
                     cg_grant_policy_snapshot =
                       [(''reversal_of_entry_id'', JUuid (le_id original)),
                        (''reason_code'', JStr reason)] @ policy\<rparr>;
                avail = ca_available_balance account + le_amount original
            in bind_result (insert_grant g db) (\<lambda>db.
               let db = update_account (ca_id account) (\<lambda>a. a\<lparr>ca_available_balance := avail\<rparr>) db;
                   (ei, db) = uuid4 db;
                   e = \<lparr>le_id = ei, le_workspace_id = workspace_id p, le_account_id = ca_id account,
                        le_grant_id = Some i, le_hold_id = None, le_kind = CreditEntryKind.REVERSAL,
                        le_direction = LedgerDirection.CREDIT, le_amount = le_amount original,
                        le_available_delta = le_amount original, le_held_delta = 0,
                        le_available_after = avail, le_held_after = ca_held_balance account,
                        le_transaction_group_id = le_transaction_group_id original,
                        le_reversal_of_id = Some (le_id original), le_idempotency_key = key,
                        le_source_type = ''LEDGER_REVERSAL'',
                        le_source_id = uuid_str (le_id original), le_reason_code = reason,
                        le_pricing_snapshot = le_pricing_snapshot original,
                        le_actor_id = Some (subject_id p), le_posted_at = now\<rparr>
               in bind_result (insert_entry e db) (\<lambda>db.
                  Inr (e, bill_record p now ''billing.credit.reversed'' ''credit_ledger_entry'' ei
                        [(''reversal_of_id'', JUuid (le_id original)),
                         (''amount'', JDec (le_amount original))] db))))))"

section \<open>Listings\<close>

text \<open>Newest first: ORDER BY posted_at DESC, id DESC with LIMIT and OFFSET.\<close>

definition list_credit_entries ::
  "principal \<Rightarrow> nat \<Rightarrow> nat \<Rightarrow> billing_db \<Rightarrow> credit_ledger_entry list" where
  "list_credit_entries p limit offset db =
     take limit (drop offset
       (rev (sort_key (\<lambda>e. (le_posted_at e, le_id e))
         (filter (\<lambda>e. le_workspace_id e = workspace_id p) (credit_ledger db)))))"

definition list_usage :: "principal \<Rightarrow> nat \<Rightarrow> nat \<Rightarrow> billing_db \<Rightarrow> usage_record list" where
  "list_usage p limit offset db =
     take limit (drop offset
       (rev (sort_key (\<lambda>u. (ur_occurred_at u, ur_id u))
         (filter (\<lambda>u. ur_workspace_id u = workspace_id p) (usage_records db)))))"

end
