(* ===== verification/Billing_Invariant.thy ===== *)
theory Billing_Invariant
  imports Billing_Settlement
begin

text \<open>
  The accounting invariant of the credit ledger and the effect of the allocation and settlement
  loops on it. The structural part (\<open>keys_ok\<close>: unique identifiers, foreign keys) depends only on
  the key columns, which the loops never change; the numeric part relates accounts, grants, holds,
  allocations and ledger entries by sums.
\<close>

section \<open>Keys\<close>

definition ckey :: "credit_account \<Rightarrow> uuid \<times> uuid" where
  "ckey a = (ca_id a, ca_workspace_id a)"

definition gkey :: "credit_grant \<Rightarrow> uuid \<times> uuid \<times> uuid" where
  "gkey g = (cg_id g, cg_workspace_id g, cg_account_id g)"

definition hkey :: "credit_hold \<Rightarrow> uuid \<times> uuid \<times> uuid" where
  "hkey h = (ch_id h, ch_workspace_id h, ch_account_id h)"

definition akey :: "credit_hold_allocation \<Rightarrow> uuid \<times> uuid \<times> uuid \<times> uuid" where
  "akey a = (ha_id a, ha_workspace_id a, ha_hold_id a, ha_grant_id a)"

definition lkey :: "credit_ledger_entry \<Rightarrow> uuid \<times> uuid \<times> uuid" where
  "lkey e = (le_id e, le_workspace_id e, le_account_id e)"

definition keys_ok ::
  "uuid \<Rightarrow> (uuid \<times> uuid) list \<Rightarrow> (uuid \<times> uuid \<times> uuid) list \<Rightarrow> (uuid \<times> uuid \<times> uuid) list
   \<Rightarrow> (uuid \<times> uuid \<times> uuid \<times> uuid) list \<Rightarrow> (uuid \<times> uuid \<times> uuid) list \<Rightarrow> bool" where
  "keys_ok n C G B A L \<longleftrightarrow>
     distinct (map fst C) \<and> distinct (map snd C) \<and> distinct (map fst G) \<and> distinct (map fst B)
     \<and> distinct (map fst A) \<and> distinct (map fst L)
     \<and> (\<forall>(i, w) \<in> set C. i < n)
     \<and> (\<forall>(i, w, c) \<in> set G. i < n \<and> (c, w) \<in> set C)
     \<and> (\<forall>(i, w, c) \<in> set B. i < n \<and> (c, w) \<in> set C)
     \<and> (\<forall>(i, w, h, g) \<in> set A. i < n \<and> (\<exists>c. (h, w, c) \<in> set B \<and> (g, w, c) \<in> set G))
     \<and> (\<forall>(i, w, c) \<in> set L. i < n \<and> (c, w) \<in> set C)"

abbreviation db_keys :: "billing_db \<Rightarrow> bool" where
  "db_keys db \<equiv> keys_ok (uuid_supply db) (map ckey (credit_accounts db)) (map gkey (credit_grants db))
     (map hkey (credit_holds db)) (map akey (hold_allocations db)) (map lkey (credit_ledger db))"

lemmas key_defs = ckey_def gkey_def hkey_def akey_def lkey_def

lemma keys_ok_mono: "keys_ok n C G B A L \<Longrightarrow> n \<le> m \<Longrightarrow> keys_ok m C G B A L"
  unfolding keys_ok_def by (fastforce dest: less_le_trans)

text \<open>New rows with a fresh identifier and valid references.\<close>

lemma keys_unused:
  assumes "keys_ok n C G B A L" and "n \<le> i"
  shows "i \<notin> fst ` set C" "i \<notin> fst ` set G" "i \<notin> fst ` set B" "i \<notin> fst ` set A" "i \<notin> fst ` set L"
  using assms by (fastforce simp: keys_ok_def)+

lemma keys_ok_account:
  assumes "keys_ok n C G B A L" and "n \<le> i" "i < m" "w \<notin> snd ` set C"
  shows "keys_ok m (C @ [(i, w)]) G B A L"
proof -
  have "keys_ok m C G B A L" using assms(1) by (rule keys_ok_mono) (use assms in simp)
  then show ?thesis
    using assms(3,4) keys_unused [OF assms(1,2)]
    unfolding keys_ok_def Ball_def split_paired_All by auto
qed

lemma keys_ok_grant:
  assumes "keys_ok n C G B A L" and "n \<le> i" "i < m" "(c, w) \<in> set C"
  shows "keys_ok m C (G @ [(i, w, c)]) B A L"
proof -
  have "keys_ok m C G B A L" using assms(1) by (rule keys_ok_mono) (use assms in simp)
  then show ?thesis
    using assms(3,4) keys_unused [OF assms(1,2)]
    unfolding keys_ok_def Ball_def split_paired_All by (auto, blast)
qed

lemma keys_ok_hold:
  assumes "keys_ok n C G B A L" and "n \<le> i" "i < m" "(c, w) \<in> set C"
  shows "keys_ok m C G (B @ [(i, w, c)]) A L"
proof -
  have "keys_ok m C G B A L" using assms(1) by (rule keys_ok_mono) (use assms in simp)
  then show ?thesis
    using assms(3,4) keys_unused [OF assms(1,2)]
    unfolding keys_ok_def Ball_def split_paired_All by (auto, blast)
qed

lemma keys_distinct:
  assumes "db_keys db"
  shows "distinct (map ca_id (credit_accounts db))" "distinct (map ca_workspace_id (credit_accounts db))"
    "distinct (map cg_id (credit_grants db))" "distinct (map ch_id (credit_holds db))"
    "distinct (map ha_id (hold_allocations db))" "distinct (map le_id (credit_ledger db))"
  using assms by (simp_all add: keys_ok_def key_defs comp_def)

lemma keys_fresh:
  assumes "db_keys db"
  shows "a \<in> set (credit_accounts db) \<Longrightarrow> ca_id a < uuid_supply db"
    "g \<in> set (credit_grants db) \<Longrightarrow> cg_id g < uuid_supply db"
    "h \<in> set (credit_holds db) \<Longrightarrow> ch_id h < uuid_supply db"
    "l \<in> set (hold_allocations db) \<Longrightarrow> ha_id l < uuid_supply db"
    "e \<in> set (credit_ledger db) \<Longrightarrow> le_id e < uuid_supply db"
  using assms by (auto simp: keys_ok_def key_defs)

lemma keys_account_fresh:
  assumes "db_keys db"
  shows "g \<in> set (credit_grants db) \<Longrightarrow> cg_account_id g < uuid_supply db"
    "h \<in> set (credit_holds db) \<Longrightarrow> ch_account_id h < uuid_supply db"
    "e \<in> set (credit_ledger db) \<Longrightarrow> le_account_id e < uuid_supply db"
proof -
  have C: "(i, w) \<in> set (map ckey (credit_accounts db)) \<Longrightarrow> i < uuid_supply db" for i w
    using assms by (auto simp: keys_ok_def)
  show "g \<in> set (credit_grants db) \<Longrightarrow> cg_account_id g < uuid_supply db"
    using assms C [of "cg_account_id g" "cg_workspace_id g"] by (auto simp: keys_ok_def gkey_def)
  show "h \<in> set (credit_holds db) \<Longrightarrow> ch_account_id h < uuid_supply db"
    using assms C [of "ch_account_id h" "ch_workspace_id h"] by (auto simp: keys_ok_def hkey_def)
  show "e \<in> set (credit_ledger db) \<Longrightarrow> le_account_id e < uuid_supply db"
    using assms C [of "le_account_id e" "le_workspace_id e"] by (auto simp: keys_ok_def lkey_def)
qed

section \<open>Balances\<close>

definition outstanding :: "credit_hold_allocation \<Rightarrow> rat" where
  "outstanding a = ha_held_amount a - ha_consumed_amount a - ha_released_amount a"

definition of_grant :: "(credit_hold_allocation \<Rightarrow> rat) \<Rightarrow> uuid \<Rightarrow> billing_db \<Rightarrow> rat" where
  "of_grant f g db = sum_where (\<lambda>a. ha_grant_id a = g) f (hold_allocations db)"

definition of_hold :: "(credit_hold_allocation \<Rightarrow> rat) \<Rightarrow> uuid \<Rightarrow> billing_db \<Rightarrow> rat" where
  "of_hold f h db = sum_where (\<lambda>a. ha_hold_id a = h) f (hold_allocations db)"

definition grant_total :: "(credit_grant \<Rightarrow> rat) \<Rightarrow> uuid \<Rightarrow> billing_db \<Rightarrow> rat" where
  "grant_total f c db = sum_where (\<lambda>g. cg_account_id g = c) f (credit_grants db)"

definition active_holds :: "uuid \<Rightarrow> billing_db \<Rightarrow> rat" where
  "active_holds c db = sum_where (\<lambda>h. ch_account_id h = c \<and> ch_state h = CreditHoldState.HELD)
     ch_maximum_amount (credit_holds db)"

definition ledger_total :: "(credit_ledger_entry \<Rightarrow> rat) \<Rightarrow> uuid \<Rightarrow> billing_db \<Rightarrow> rat" where
  "ledger_total f c db = sum_where (\<lambda>e. le_account_id e = c) f (credit_ledger db)"

definition alloc_ok :: "credit_hold_allocation \<Rightarrow> bool" where
  "alloc_ok a \<longleftrightarrow> 0 < ha_held_amount a \<and> 0 \<le> ha_consumed_amount a \<and> 0 \<le> ha_released_amount a
     \<and> ha_consumed_amount a + ha_released_amount a \<le> ha_held_amount a"

definition grant_ok :: "billing_db \<Rightarrow> credit_grant \<Rightarrow> bool" where
  "grant_ok db g \<longleftrightarrow> 0 \<le> cg_available_amount g
     \<and> cg_held_amount g = of_grant outstanding (cg_id g) db
     \<and> cg_original_amount g
       = cg_available_amount g + cg_held_amount g + of_grant ha_consumed_amount (cg_id g) db"

definition hold_ok :: "billing_db \<Rightarrow> credit_hold \<Rightarrow> bool" where
  "hold_ok db h \<longleftrightarrow> 0 < ch_maximum_amount h
     \<and> of_hold ha_held_amount (ch_id h) db = ch_maximum_amount h
     \<and> (if ch_state h = CreditHoldState.HELD
        then ch_actual_amount h = None \<and> ch_released_amount h = None
          \<and> of_hold ha_consumed_amount (ch_id h) db = 0 \<and> of_hold ha_released_amount (ch_id h) db = 0
        else ch_actual_amount h = Some (of_hold ha_consumed_amount (ch_id h) db)
          \<and> ch_released_amount h = Some (of_hold ha_released_amount (ch_id h) db)
          \<and> of_hold outstanding (ch_id h) db = 0)"

definition account_ok :: "billing_db \<Rightarrow> credit_account \<Rightarrow> bool" where
  "account_ok db a \<longleftrightarrow>
     ca_available_balance a = grant_total cg_available_amount (ca_id a) db
     \<and> ca_held_balance a = grant_total cg_held_amount (ca_id a) db
     \<and> ca_held_balance a = active_holds (ca_id a) db
     \<and> ca_available_balance a = ledger_total le_available_delta (ca_id a) db
     \<and> ca_held_balance a = ledger_total le_held_delta (ca_id a) db"

text \<open>Each kind of entry moves the two balances in its own way.\<close>

definition entry_ok :: "credit_ledger_entry \<Rightarrow> bool" where
  "entry_ok e \<longleftrightarrow> 0 < le_amount e \<and>
     (case le_kind e of
        CreditEntryKind.GRANT \<Rightarrow> le_direction e = LedgerDirection.CREDIT
          \<and> le_available_delta e = le_amount e \<and> le_held_delta e = 0
      | CreditEntryKind.REVERSAL \<Rightarrow> le_direction e = LedgerDirection.CREDIT
          \<and> le_available_delta e = le_amount e \<and> le_held_delta e = 0
      | CreditEntryKind.HOLD \<Rightarrow> le_direction e = LedgerDirection.DEBIT
          \<and> le_available_delta e = - le_amount e \<and> le_held_delta e = le_amount e
      | CreditEntryKind.CONSUME \<Rightarrow> le_direction e = LedgerDirection.DEBIT
          \<and> le_available_delta e = 0 \<and> le_held_delta e = - le_amount e
      | CreditEntryKind.RELEASE \<Rightarrow> le_direction e = LedgerDirection.CREDIT
          \<and> le_available_delta e = le_amount e \<and> le_held_delta e = - le_amount e
      | _ \<Rightarrow> False)"

definition reversals_once :: "billing_db \<Rightarrow> bool" where
  "reversals_once db \<longleftrightarrow>
     distinct (filter (\<lambda>r. r \<noteq> None) (map le_reversal_of_id (credit_ledger db)))"

text \<open>The part the loops work on, and the whole.\<close>

definition books :: "billing_db \<Rightarrow> bool" where
  "books db \<longleftrightarrow> (\<forall>a \<in> set (hold_allocations db). alloc_ok a) \<and> (\<forall>g \<in> set (credit_grants db). grant_ok db g)"

definition ledger_inv :: "billing_db \<Rightarrow> bool" where
  "ledger_inv db \<longleftrightarrow> db_keys db \<and> books db
     \<and> (\<forall>h \<in> set (credit_holds db). hold_ok db h)
     \<and> (\<forall>a \<in> set (credit_accounts db). account_ok db a)
     \<and> (\<forall>e \<in> set (credit_ledger db). entry_ok e) \<and> reversals_once db"

lemmas total_defs = of_grant_def of_hold_def grant_total_def active_holds_def ledger_total_def


lemma sum_outstanding:
  "sum_where P outstanding xs
   = sum_where P ha_held_amount xs - sum_where P ha_consumed_amount xs - sum_where P ha_released_amount xs"
  by (induction xs) (auto simp: outstanding_def)

lemma of_hold_outstanding:
  "of_hold outstanding j db
   = of_hold ha_held_amount j db - of_hold ha_consumed_amount j db - of_hold ha_released_amount j db"
  by (simp add: of_hold_def sum_outstanding)

section \<open>One settlement step\<close>

definition settled :: "rat \<Rightarrow> credit_hold_allocation \<Rightarrow> credit_hold_allocation" where
  "settled c a = a\<lparr>ha_consumed_amount := c, ha_released_amount := ha_held_amount a - c\<rparr>"

definition settle_step :: "credit_hold_allocation \<Rightarrow> rat \<Rightarrow> billing_db \<Rightarrow> billing_db" where
  "settle_step a c db =
     update_grant (ha_grant_id a)
       (\<lambda>x. x\<lparr>cg_held_amount := cg_held_amount x - ha_held_amount a,
              cg_available_amount := cg_available_amount x + (ha_held_amount a - c)\<rparr>)
     (update_allocation (ha_id a)
       (\<lambda>x. x\<lparr>ha_consumed_amount := c, ha_released_amount := ha_held_amount a - c\<rparr>) db)"

definition unsettled :: "credit_hold_allocation \<Rightarrow> bool" where
  "unsettled a \<longleftrightarrow> ha_consumed_amount a = 0 \<and> ha_released_amount a = 0"

lemmas row_update_defs = update_account_def update_grant_def update_hold_def update_allocation_def

lemma settle_step_frame [simp]:
  "credit_accounts (settle_step a c db) = credit_accounts db"
  "credit_holds (settle_step a c db) = credit_holds db"
  "credit_ledger (settle_step a c db) = credit_ledger db"
  "uuid_supply (settle_step a c db) = uuid_supply db"
  "map gkey (credit_grants (settle_step a c db)) = map gkey (credit_grants db)"
  "map akey (hold_allocations (settle_step a c db)) = map akey (hold_allocations db)"
  by (simp_all add: settle_step_def row_update_defs map_update_where key_defs)

lemma sum_allocs_settle:
  fixes f :: "credit_hold_allocation \<Rightarrow> rat"
  assumes "db_keys db" and "a \<in> set (hold_allocations db)" and "P (settled c a) = P a"
  shows "sum_where P f (hold_allocations (settle_step a c db))
         = sum_where P f (hold_allocations db) + (if P a then f (settled c a) - f a else 0)"
  using sum_where_update_key [of ha_id "hold_allocations db" a "ha_id a"
      "\<lambda>x. x\<lparr>ha_consumed_amount := c, ha_released_amount := ha_held_amount a - c\<rparr>" P f]
    assms keys_distinct(5) [OF assms(1)]
  by (simp add: settle_step_def row_update_defs settled_def)

lemma sum_grants_settle:
  fixes f :: "credit_grant \<Rightarrow> rat"
  assumes "db_keys db" and "g \<in> set (credit_grants db)" and "cg_id g = ha_grant_id a"
    and "g' = g\<lparr>cg_held_amount := cg_held_amount g - ha_held_amount a,
              cg_available_amount := cg_available_amount g + (ha_held_amount a - c)\<rparr>"
    and "P g' = P g"
  shows "sum_where P f (credit_grants (settle_step a c db))
         = sum_where P f (credit_grants db) + (if P g then f g' - f g else 0)"
  using sum_where_update_key [of cg_id "credit_grants db" g "ha_grant_id a"
      "\<lambda>x. x\<lparr>cg_held_amount := cg_held_amount x - ha_held_amount a,
             cg_available_amount := cg_available_amount x + (ha_held_amount a - c)\<rparr>" P f]
    assms keys_distinct(3) [OF assms(1)]
  by (simp add: settle_step_def row_update_defs)

lemma alloc_grant:
  assumes "db_keys db" and "a \<in> set (hold_allocations db)"
  obtains g where "g \<in> set (credit_grants db)" and "cg_id g = ha_grant_id a"
    and "\<And>h. h \<in> set (credit_holds db) \<Longrightarrow> ch_id h = ha_hold_id a \<Longrightarrow> cg_account_id g = ch_account_id h"
proof -
  from assms obtain c where h: "(ha_hold_id a, ha_workspace_id a, c) \<in> set (map hkey (credit_holds db))"
    and g: "(ha_grant_id a, ha_workspace_id a, c) \<in> set (map gkey (credit_grants db))"
    by (fastforce simp: keys_ok_def akey_def)
  from g obtain g where "g \<in> set (credit_grants db)" "cg_id g = ha_grant_id a" "cg_account_id g = c"
    by (auto simp: gkey_def)
  moreover from h obtain k where "k \<in> set (credit_holds db)" "ch_id k = ha_hold_id a"
      "ch_account_id k = c"
    by (auto simp: hkey_def)
  ultimately show thesis
    using that keys_distinct(4) [OF assms(1)] by (metis distinct_key_eq)
qed

lemma alloc_hold:
  assumes "db_keys db" and "a \<in> set (hold_allocations db)"
  obtains h where "h \<in> set (credit_holds db)" and "ch_id h = ha_hold_id a"
proof -
  have "akey a \<in> set (map akey (hold_allocations db))" using assms(2) by simp
  then obtain c where "(ha_hold_id a, ha_workspace_id a, c) \<in> set (map hkey (credit_holds db))"
    using assms(1) by (fastforce simp: keys_ok_def akey_def)
  then show thesis using that by (auto simp: hkey_def)
qed

lemma settle_step_totals:
  assumes "db_keys db" and "a \<in> set (hold_allocations db)" and "unsettled a"
    and "h \<in> set (credit_holds db)" and "ch_id h = ha_hold_id a"
  shows "of_hold ha_held_amount j (settle_step a c db) = of_hold ha_held_amount j db"
    "of_hold ha_consumed_amount j (settle_step a c db)
     = of_hold ha_consumed_amount j db + (if j = ha_hold_id a then c else 0)"
    "of_hold ha_released_amount j (settle_step a c db)
     = of_hold ha_released_amount j db + (if j = ha_hold_id a then ha_held_amount a - c else 0)"
    "grant_total cg_available_amount k (settle_step a c db)
     = grant_total cg_available_amount k db + (if k = ch_account_id h then ha_held_amount a - c else 0)"
    "grant_total cg_held_amount k (settle_step a c db)
     = grant_total cg_held_amount k db - (if k = ch_account_id h then ha_held_amount a else 0)"
proof -
  have P: "(ha_hold_id (settled c a) = j) = (ha_hold_id a = j)" by (simp add: settled_def)
  show "of_hold ha_held_amount j (settle_step a c db) = of_hold ha_held_amount j db"
    "of_hold ha_consumed_amount j (settle_step a c db)
     = of_hold ha_consumed_amount j db + (if j = ha_hold_id a then c else 0)"
    "of_hold ha_released_amount j (settle_step a c db)
     = of_hold ha_released_amount j db + (if j = ha_hold_id a then ha_held_amount a - c else 0)"
    using assms(3)
    by (auto simp: of_hold_def sum_allocs_settle [OF assms(1,2) P] settled_def unsettled_def)
next
  obtain g where g: "g \<in> set (credit_grants db)" "cg_id g = ha_grant_id a"
      and acc: "cg_account_id g = ch_account_id h"
    using assms by (metis alloc_grant)
  let ?g = "g\<lparr>cg_held_amount := cg_held_amount g - ha_held_amount a,
              cg_available_amount := cg_available_amount g + (ha_held_amount a - c)\<rparr>"
  have P: "(cg_account_id ?g = k) = (cg_account_id g = k)" by simp
  show "grant_total cg_available_amount k (settle_step a c db)
     = grant_total cg_available_amount k db + (if k = ch_account_id h then ha_held_amount a - c else 0)"
    "grant_total cg_held_amount k (settle_step a c db)
     = grant_total cg_held_amount k db - (if k = ch_account_id h then ha_held_amount a else 0)"
    using acc by (auto simp: grant_total_def sum_grants_settle [OF assms(1) g refl P])
qed

lemma settle_step_books:
  assumes keys: "db_keys db" and "books db" and a: "a \<in> set (hold_allocations db)" and "unsettled a"
    and c: "0 \<le> c" "c \<le> ha_held_amount a"
  shows "books (settle_step a c db)"
  unfolding books_def
proof (intro conjI ballI)
  fix b assume "b \<in> set (hold_allocations (settle_step a c db))"
  then obtain x where x: "x \<in> set (hold_allocations db)"
    and b: "b = (if ha_id x = ha_id a then x\<lparr>ha_consumed_amount := c,
                   ha_released_amount := ha_held_amount a - c\<rparr> else x)"
    by (auto simp: settle_step_def row_update_defs set_update_where)
  have "ha_id x = ha_id a \<Longrightarrow> x = a"
    using distinct_key_eq [OF keys_distinct(5) [OF keys] x a] .
  moreover have "alloc_ok x" "alloc_ok a" using assms(2) x a by (auto simp: books_def)
  ultimately show "alloc_ok b" using b c by (auto simp: alloc_ok_def)
next
  fix g' assume "g' \<in> set (credit_grants (settle_step a c db))"
  then obtain g where g: "g \<in> set (credit_grants db)"
    and g': "g' = (if cg_id g = ha_grant_id a
                   then g\<lparr>cg_held_amount := cg_held_amount g - ha_held_amount a,
                     cg_available_amount := cg_available_amount g + (ha_held_amount a - c)\<rparr> else g)"
    by (auto simp: settle_step_def row_update_defs set_update_where)
  have ok: "grant_ok db g" using assms(2) g by (auto simp: books_def)
  have P: "(ha_grant_id (settled c a) = cg_id g) = (ha_grant_id a = cg_id g)"
    by (simp add: settled_def)
  have "of_grant outstanding (cg_id g) (settle_step a c db)
        = of_grant outstanding (cg_id g) db - (if cg_id g = ha_grant_id a then ha_held_amount a else 0)"
    "of_grant ha_consumed_amount (cg_id g) (settle_step a c db)
        = of_grant ha_consumed_amount (cg_id g) db + (if cg_id g = ha_grant_id a then c else 0)"
    using assms(4)
    by (auto simp: of_grant_def sum_allocs_settle [OF keys a P] settled_def unsettled_def outstanding_def)
  then show "grant_ok (settle_step a c db) g'"
    using ok g' c by (auto simp: grant_ok_def split: if_splits)
qed

section \<open>The settlement loops\<close>

text \<open>
  \<open>settles h tot c db db'\<close>: from \<open>db\<close> to \<open>db'\<close> allocations of hold \<open>h\<close> worth \<open>tot\<close> were settled,
  \<open>c\<close> of it consumed and the rest returned to the grants; nothing else moved.
\<close>

definition settles :: "credit_hold \<Rightarrow> rat \<Rightarrow> rat \<Rightarrow> billing_db \<Rightarrow> billing_db \<Rightarrow> bool" where
  "settles h tot c db db' \<longleftrightarrow>
     credit_accounts db' = credit_accounts db \<and> credit_holds db' = credit_holds db
     \<and> credit_ledger db' = credit_ledger db \<and> uuid_supply db' = uuid_supply db
     \<and> map gkey (credit_grants db') = map gkey (credit_grants db)
     \<and> map akey (hold_allocations db') = map akey (hold_allocations db)
     \<and> (\<forall>j. of_hold ha_held_amount j db' = of_hold ha_held_amount j db
          \<and> of_hold ha_consumed_amount j db'
            = of_hold ha_consumed_amount j db + (if j = ch_id h then c else 0)
          \<and> of_hold ha_released_amount j db'
            = of_hold ha_released_amount j db + (if j = ch_id h then tot - c else 0))
     \<and> (\<forall>k. grant_total cg_available_amount k db'
            = grant_total cg_available_amount k db + (if k = ch_account_id h then tot - c else 0)
          \<and> grant_total cg_held_amount k db'
            = grant_total cg_held_amount k db - (if k = ch_account_id h then tot else 0))"

lemma settles_refl: "settles h 0 0 db db"
  by (simp add: settles_def)

lemma settles_trans:
  "settles h t c db db' \<Longrightarrow> settles h u d db' db'' \<Longrightarrow> settles h (t + u) (c + d) db db''"
  by (simp add: settles_def)

lemma settles_step:
  assumes "db_keys db" and "a \<in> set (hold_allocations db)" and "unsettled a"
    and "h \<in> set (credit_holds db)" and "ch_id h = ha_hold_id a"
  shows "settles h (ha_held_amount a) c db (settle_step a c db)"
  using assms by (simp add: settles_def settle_step_totals [OF assms])

lemma settle_step_others:
  assumes "b \<in> set (hold_allocations db)" and "ha_id b \<noteq> ha_id a"
  shows "b \<in> set (hold_allocations (settle_step a c db))"
  using assms by (force simp: settle_step_def row_update_defs set_update_where)

lemma settle_step_rest:
  assumes "distinct (map ha_id (a # as))" and "set (a # as) \<subseteq> set (hold_allocations db)"
  shows "set as \<subseteq> set (hold_allocations (settle_step a c db))"
  using assms settle_step_others by (fastforce simp: image_iff)

lemma finalize_loop_Cons:
  assumes "db_keys db" and "a \<in> set (hold_allocations db)"
  shows "finalize_loop r (a # as) db
         = finalize_loop (r - min (ha_held_amount a) r) as (settle_step a (min (ha_held_amount a) r) db)"
proof -
  obtain g where "g \<in> set (credit_grants db)" "cg_id g = ha_grant_id a"
    using alloc_grant [OF assms] by metis
  then have "List.find (\<lambda>g. cg_id g = ha_grant_id a) (credit_grants db) = Some g"
    using keys_distinct(3) [OF assms(1)] by (rule find_key [rotated])
  then show ?thesis by (simp add: settle_step_def row_update_defs Let_def)
qed

lemma finalize_loop_ok:
  assumes "db_keys db" and "books db" and "h \<in> set (credit_holds db)" and "0 \<le> r"
    and "distinct (map ha_id as)" and "set as \<subseteq> set (hold_allocations db)"
    and "\<forall>a \<in> set as. unsettled a \<and> ha_hold_id a = ch_id h"
  shows "\<exists>db'. let tot = sum_list (map ha_held_amount as); c = min tot r
         in finalize_loop r as db = Inr (r - c, db') \<and> books db' \<and> settles h tot c db db'"
  using assms
proof (induction as arbitrary: r db)
  case Nil
  then show ?case by (simp add: settles_refl)
next
  case (Cons a as)
  let ?c = "min (ha_held_amount a) r" and ?tot = "sum_list (map ha_held_amount as)"
  let ?db = "settle_step a ?c db"
  have a: "a \<in> set (hold_allocations db)" "unsettled a" "ch_id h = ha_hold_id a"
    using Cons.prems by auto
  have ok: "alloc_ok b" if "b \<in> set (a # as)" for b
    using that Cons.prems by (auto simp: books_def)
  from ok [of a] have pos: "0 < ha_held_amount a" by (simp add: alloc_ok_def)
  with Cons.prems(4) have c: "0 \<le> ?c" "?c \<le> ha_held_amount a" by auto
  have "0 \<le> ?tot"
    using ok by (intro sum_list_nonneg) (auto simp: alloc_ok_def less_imp_le)
  then have mins: "?c + min ?tot (r - ?c) = min (ha_held_amount a + ?tot) r"
    using Cons.prems(4) pos by (auto simp: min_def)
  have rest: "set as \<subseteq> set (hold_allocations ?db)"
    using Cons.prems by (intro settle_step_rest)
  have "\<exists>db'. let tot = ?tot; c = min tot (r - ?c)
         in finalize_loop (r - ?c) as ?db = Inr (r - ?c - c, db') \<and> books db' \<and> settles h tot c ?db db'"
    using Cons.prems rest settle_step_books [OF Cons.prems(1,2) a(1,2) c]
    by (intro Cons.IH) (auto simp del: map_map)
  then obtain db' where db': "finalize_loop (r - ?c) as ?db = Inr (r - ?c - min ?tot (r - ?c), db')"
      "books db'" "settles h ?tot (min ?tot (r - ?c)) ?db db'"
    by (auto simp: Let_def)
  have "settles h (ha_held_amount a + ?tot) (min (ha_held_amount a + ?tot) r) db db'"
    using settles_trans [OF settles_step [OF Cons.prems(1) a(1,2) Cons.prems(3) a(3)] db'(3)] mins
    by simp
  moreover have "finalize_loop r (a # as) db = Inr (r - min (ha_held_amount a + ?tot) r, db')"
    using db'(1) mins unfolding finalize_loop_Cons [OF Cons.prems(1) a(1)] by (simp add: algebra_simps)
  ultimately show ?case
    using db'(2) by (intro exI [of _ db']) (simp add: Let_def del: finalize_loop.simps)
qed

text \<open>Releasing a hold settles it at a cost of zero.\<close>

lemma release_loop_finalize:
  assumes "db_keys db" and "distinct (map ha_id as)" and "set as \<subseteq> set (hold_allocations db)"
    and "\<forall>a \<in> set as. unsettled a \<and> 0 < ha_held_amount a"
  shows "release_loop as db = bind_result (finalize_loop 0 as db) (\<lambda>(_, db). Inr db)"
  using assms
proof (induction as arbitrary: db)
  case Nil
  then show ?case by simp
next
  case (Cons a as)
  have a: "a \<in> set (hold_allocations db)" "unsettled a" "0 < ha_held_amount a" using Cons.prems by auto
  have row: "a\<lparr>ha_released_amount := ha_held_amount a\<rparr>
             = a\<lparr>ha_consumed_amount := 0, ha_released_amount := ha_held_amount a\<rparr>"
    using a(2) by (cases a) (simp add: unsettled_def)
  have "update_where (\<lambda>x. ha_id x = ha_id a) (\<lambda>x. x\<lparr>ha_released_amount := ha_held_amount x\<rparr>)
          (hold_allocations db)
        = update_where (\<lambda>x. ha_id x = ha_id a)
          (\<lambda>x. x\<lparr>ha_consumed_amount := 0, ha_released_amount := ha_held_amount a - 0\<rparr>) (hold_allocations db)"
    unfolding update_where_def
    using distinct_key_eq [OF keys_distinct(5) [OF Cons.prems(1)] _ a(1)] row
    by (intro map_cong refl) (metis diff_zero)
  moreover obtain g where "g \<in> set (credit_grants db)" "cg_id g = ha_grant_id a"
    using alloc_grant [OF Cons.prems(1) a(1)] by metis
  then have "List.find (\<lambda>g. cg_id g = ha_grant_id a) (credit_grants db) = Some g"
    using keys_distinct(3) [OF Cons.prems(1)] by (rule find_key [rotated])
  ultimately have "release_loop (a # as) db = release_loop as (settle_step a 0 db)"
    by (simp add: settle_step_def row_update_defs Let_def)
  also have "\<dots> = bind_result (finalize_loop 0 as (settle_step a 0 db)) (\<lambda>(_, db). Inr db)"
    using Cons.prems settle_step_rest [OF Cons.prems(2,3)] by (intro Cons.IH) (auto simp del: map_map)
  also have "\<dots> = bind_result (finalize_loop 0 (a # as) db) (\<lambda>(_, db). Inr db)"
    using a(3) by (simp only: finalize_loop_Cons [OF Cons.prems(1) a(1)]) simp
  finally show ?case .
qed

section \<open>The allocation loop\<close>

definition drawn :: "rat \<Rightarrow> credit_grant \<Rightarrow> credit_grant" where
  "drawn amount x = x\<lparr>cg_available_amount := cg_available_amount x - amount,
                      cg_held_amount := cg_held_amount x + amount\<rparr>"

definition new_alloc :: "uuid \<Rightarrow> uuid \<Rightarrow> uuid \<Rightarrow> uuid \<Rightarrow> nat \<Rightarrow> rat \<Rightarrow> credit_hold_allocation" where
  "new_alloc i ws hid gid order amount =
     \<lparr>ha_id = i, ha_workspace_id = ws, ha_hold_id = hid, ha_grant_id = gid,
      ha_allocation_order = order, ha_held_amount = amount, ha_consumed_amount = 0,
      ha_released_amount = 0\<rparr>"

definition draw_step :: "uuid \<Rightarrow> uuid \<Rightarrow> nat \<Rightarrow> rat \<Rightarrow> credit_grant \<Rightarrow> billing_db \<Rightarrow> billing_db" where
  "draw_step ws hid order amount g db =
     db\<lparr>credit_grants := update_where (\<lambda>x. cg_id x = cg_id g) (drawn amount) (credit_grants db),
        uuid_supply := Suc (uuid_supply db),
        hold_allocations := hold_allocations db
          @ [new_alloc (uuid_supply db) ws hid (cg_id g) order amount]\<rparr>"

lemma allocate_loop_Cons:
  "allocate_loop ws hid n r (g # gs) db =
   (if r = 0 then (r, db)
    else allocate_loop ws hid (n + 1) (r - min (cg_available_amount g) r) gs
           (draw_step ws hid (n + 1) (min (cg_available_amount g) r) g db))"
  by (simp add: draw_step_def drawn_def [abs_def] new_alloc_def row_update_defs uuid4_def Let_def)

text \<open>\<open>draws hid acc t db db'\<close>: hold \<open>hid\<close> drew \<open>t\<close> from grants of account \<open>acc\<close>.\<close>

definition draws :: "uuid \<Rightarrow> uuid \<Rightarrow> rat \<Rightarrow> billing_db \<Rightarrow> billing_db \<Rightarrow> bool" where
  "draws hid acc t db db' \<longleftrightarrow>
     credit_accounts db' = credit_accounts db \<and> credit_holds db' = credit_holds db
     \<and> credit_ledger db' = credit_ledger db \<and> uuid_supply db \<le> uuid_supply db'
     \<and> map gkey (credit_grants db') = map gkey (credit_grants db)
     \<and> (\<forall>j. of_hold ha_held_amount j db' = of_hold ha_held_amount j db + (if j = hid then t else 0)
          \<and> of_hold ha_consumed_amount j db' = of_hold ha_consumed_amount j db
          \<and> of_hold ha_released_amount j db' = of_hold ha_released_amount j db)
     \<and> (\<forall>k. grant_total cg_available_amount k db'
            = grant_total cg_available_amount k db - (if k = acc then t else 0)
          \<and> grant_total cg_held_amount k db'
            = grant_total cg_held_amount k db + (if k = acc then t else 0))"

lemma draws_refl: "draws hid acc 0 db db"
  by (simp add: draws_def)

lemma draws_trans: "draws hid acc t db db' \<Longrightarrow> draws hid acc u db' db'' \<Longrightarrow> draws hid acc (t + u) db db''"
  by (simp add: draws_def)

lemma draw_step_draws:
  assumes "db_keys db" and g: "g \<in> set (credit_grants db)"
  shows "draws hid (cg_account_id g) amount db (draw_step ws hid n amount g db)"
proof -
  have P: "(cg_account_id (drawn amount g) = k) = (cg_account_id g = k)" for k
    by (simp add: drawn_def)
  have id: "\<And>x. cg_id (drawn amount x) = cg_id x" by (simp add: drawn_def)
  have upd: "sum_where (\<lambda>x. cg_account_id x = k) f
        (update_where (\<lambda>x. cg_id x = cg_id g) (drawn amount) (credit_grants db))
      = sum_where (\<lambda>x. cg_account_id x = k) f (credit_grants db)
        + (if cg_account_id g = k then f (drawn amount g) - f g else 0)" for f :: "credit_grant \<Rightarrow> rat" and k
    by (rule sum_where_update_key [where k = cg_id, OF keys_distinct(3) [OF assms(1)] g refl id P])
  show ?thesis
    by (auto simp: draws_def draw_step_def of_hold_def grant_total_def upd drawn_def new_alloc_def
        map_update_where gkey_def)
qed

lemma draw_step_keys:
  assumes "db_keys db" and g: "g \<in> set (credit_grants db)"
    and ws: "cg_workspace_id g = ws" and "(hid, ws, cg_account_id g) \<in> set (map hkey (credit_holds db))"
  shows "db_keys (draw_step ws hid n amount g db)"
proof -
  have keys: "keys_ok (Suc (uuid_supply db)) (map ckey (credit_accounts db)) (map gkey (credit_grants db))
    (map hkey (credit_holds db)) (map akey (hold_allocations db)) (map lkey (credit_ledger db))"
    using assms(1) by (rule keys_ok_mono) simp
  have "gkey g \<in> set (map gkey (credit_grants db))" using g by simp
  moreover have "uuid_supply db \<notin> ha_id ` set (hold_allocations db)"
    using keys_fresh(4) [OF assms(1)] by fastforce
  ultimately show ?thesis
    using keys assms(3,4)
    by (auto simp: draw_step_def keys_ok_def map_update_where drawn_def gkey_def new_alloc_def akey_def
        image_comp comp_def)
qed

lemma draw_step_books:
  assumes keys: "db_keys db" and "books db" and g: "g \<in> set (credit_grants db)"
    and amount: "0 < amount" "amount \<le> cg_available_amount g"
  shows "books (draw_step ws hid n amount g db)"
  unfolding books_def
proof (intro conjI ballI)
  fix a assume "a \<in> set (hold_allocations (draw_step ws hid n amount g db))"
  then show "alloc_ok a"
    using assms(2) amount by (auto simp: draw_step_def books_def alloc_ok_def new_alloc_def)
next
  fix x' assume "x' \<in> set (credit_grants (draw_step ws hid n amount g db))"
  then obtain x where x: "x \<in> set (credit_grants db)"
    and x': "x' = (if cg_id x = cg_id g then drawn amount x else x)"
    by (auto simp: draw_step_def set_update_where)
  have "cg_id x = cg_id g \<Longrightarrow> x = g"
    using distinct_key_eq [OF keys_distinct(3) [OF keys] x g] .
  moreover have "grant_ok db x" using assms(2) x by (auto simp: books_def)
  ultimately show "grant_ok (draw_step ws hid n amount g db) x'"
    using amount x'
    by (auto simp: grant_ok_def of_grant_def draw_step_def new_alloc_def drawn_def outstanding_def)
qed

lemma draw_step_rest:
  assumes "distinct (map cg_id (g # gs))" and "set (g # gs) \<subseteq> set (credit_grants db)"
  shows "set gs \<subseteq> set (credit_grants (draw_step ws hid n amount g db))"
  using assms by (force simp: draw_step_def set_update_where image_iff)

lemma draw_step_holds [simp]: "credit_holds (draw_step ws hid n amount g db) = credit_holds db"
  by (simp add: draw_step_def)

lemma allocate_loop_ok:
  assumes "db_keys db" and "books db" and "(hid, ws, acc) \<in> set (map hkey (credit_holds db))"
    and "distinct (map cg_id gs)" and "set gs \<subseteq> set (credit_grants db)"
    and "\<forall>g \<in> set gs. 0 < cg_available_amount g \<and> cg_workspace_id g = ws \<and> cg_account_id g = acc"
    and "0 \<le> r" and "r \<le> sum_list (map cg_available_amount gs)"
  shows "\<exists>db'. allocate_loop ws hid n r gs db = (0, db') \<and> db_keys db' \<and> books db' \<and> draws hid acc r db db'"
  using assms
proof (induction gs arbitrary: n r db)
  case Nil
  then show ?case by (simp add: draws_refl)
next
  case (Cons g gs)
  show ?case
  proof (cases "r = 0")
    case True
    with Cons.prems show ?thesis by (simp add: draws_refl)
  next
    case False
    let ?m = "min (cg_available_amount g) r"
    let ?db = "draw_step ws hid (n + 1) ?m g db"
    have g: "g \<in> set (credit_grants db)" "cg_workspace_id g = ws" "cg_account_id g = acc"
      and m: "0 < ?m" "?m \<le> cg_available_amount g" using Cons.prems False by auto
    have keys: "db_keys ?db"
      using Cons.prems g by (intro draw_step_keys) auto
    have "0 \<le> sum_list (map cg_available_amount gs)"
      using Cons.prems(6) by (intro sum_list_nonneg) (auto intro: less_imp_le)
    with Cons.prems(7,8) have rest: "0 \<le> r - ?m" "r - ?m \<le> sum_list (map cg_available_amount gs)"
      by (auto simp: min_def)
    have "\<exists>db'. allocate_loop ws hid (n + 1) (r - ?m) gs ?db = (0, db') \<and> db_keys db' \<and> books db'
             \<and> draws hid acc (r - ?m) ?db db'"
      using Cons.prems keys rest draw_step_books [OF Cons.prems(1,2) g(1) m]
        draw_step_rest [OF Cons.prems(4,5)]
      by (intro Cons.IH) auto
    moreover have "draws hid acc ?m db ?db"
      using draw_step_draws [OF Cons.prems(1) g(1)] g(3) by metis
    ultimately show ?thesis
      unfolding allocate_loop_Cons using False draws_trans [of hid acc ?m db ?db "r - ?m"] by auto
  qed
qed

end
