(* ===== verification/Billing_Safety.thy ===== *)
theory Billing_Safety
  imports Billing_Invariant
begin

text \<open>
  Every ledger operation preserves the accounting invariant, settlement of an active hold never
  runs into a corrupt allocation, and the invariant holds in every reachable state.
\<close>

section \<open>Frame facts\<close>

lemma bill_record_frame [simp]:
  "credit_accounts (bill_record p now act tt ti ds db) = credit_accounts db"
  "credit_grants (bill_record p now act tt ti ds db) = credit_grants db"
  "credit_holds (bill_record p now act tt ti ds db) = credit_holds db"
  "hold_allocations (bill_record p now act tt ti ds db) = hold_allocations db"
  "credit_ledger (bill_record p now act tt ti ds db) = credit_ledger db"
  "usage_records (bill_record p now act tt ti ds db) = usage_records db"
  "payment_commands (bill_record p now act tt ti ds db) = payment_commands db"
  "provider_events (bill_record p now act tt ti ds db) = provider_events db"
  "price_versions (bill_record p now act tt ti ds db) = price_versions db"
  "plan_versions (bill_record p now act tt ti ds db) = plan_versions db"
  "uuid_supply (bill_record p now act tt ti ds db) = uuid_supply db + 2"
  by (simp_all add: bill_record_def append_audit_log_def add_outbox_event_def uuid4_def Let_def)

lemma insert_entry_Inr:
  "insert_entry e db = Inr db' \<longleftrightarrow>
   length (le_idempotency_key e) \<le> 255 \<and> entry_fits e
   \<and> (\<forall>x \<in> set (credit_ledger db). le_workspace_id x = le_workspace_id e \<longrightarrow>
        le_idempotency_key x \<noteq> le_idempotency_key e)
   \<and> (le_reversal_of_id e \<noteq> None \<longrightarrow>
        (\<forall>x \<in> set (credit_ledger db). le_reversal_of_id x \<noteq> le_reversal_of_id e))
   \<and> db' = db\<lparr>credit_ledger := credit_ledger db @ [e]\<rparr>"
  by (auto simp: insert_entry_def list_ex_iff)

lemma insert_grant_Inr:
  "insert_grant g db = Inr db' \<longleftrightarrow>
   (\<forall>x \<in> set (credit_grants db). cg_workspace_id x = cg_workspace_id g \<longrightarrow>
      cg_source_type x = cg_source_type g \<longrightarrow> cg_source_id x \<noteq> cg_source_id g)
   \<and> db' = db\<lparr>credit_grants := credit_grants db @ [g]\<rparr>"
  by (auto simp: insert_grant_def list_ex_iff)

lemma insert_entry_if_Inr:
  assumes "insert_entry_if c mk db = Inr db'"
  shows "db' = db\<lparr>uuid_supply := (if c then Suc (uuid_supply db) else uuid_supply db),
                  credit_ledger := credit_ledger db @ (if c then [mk (uuid_supply db)] else [])\<rparr>"
  using assms by (auto simp: insert_entry_if_def insert_entry_Inr uuid4_def split: if_splits)

lemma flush_hold_Inr:
  "flush_hold ws ev hid db = Inr db' \<longleftrightarrow> db' = db \<and>
   (\<forall>h \<in> set (credit_holds db). ch_workspace_id h = ws \<longrightarrow> ch_finalization_event_id h = Some ev
      \<longrightarrow> ch_id h = hid)"
  by (auto simp: flush_hold_def list_ex_iff)

lemma get_account_Inr:
  "get_account ws db = Inr a \<Longrightarrow> a \<in> set (credit_accounts db) \<and> ca_workspace_id a = ws"
  by (auto simp: get_account_def dest!: find_SomeD split: option.splits)

section \<open>Accounts follow the totals\<close>

lemma account_ok_shift:
  assumes "\<forall>a \<in> set (credit_accounts db). account_ok db a" and keys: "db_keys db"
    and acc: "account \<in> set (credit_accounts db)"
    and "credit_accounts db' = update_where (\<lambda>a. ca_id a = ca_id account) u (credit_accounts db)"
    and u: "ca_id (u account) = ca_id account" "ca_held_balance (u account) = ca_held_balance account + dh"
      "ca_available_balance (u account) = ca_available_balance account + da"
    and "\<And>k. grant_total cg_available_amount k db'
           = grant_total cg_available_amount k db + (if k = ca_id account then da else 0)"
    and "\<And>k. grant_total cg_held_amount k db'
           = grant_total cg_held_amount k db + (if k = ca_id account then dh else 0)"
    and "\<And>k. active_holds k db' = active_holds k db + (if k = ca_id account then dh else 0)"
    and "\<And>k. ledger_total le_available_delta k db'
           = ledger_total le_available_delta k db + (if k = ca_id account then da else 0)"
    and "\<And>k. ledger_total le_held_delta k db'
           = ledger_total le_held_delta k db + (if k = ca_id account then dh else 0)"
  shows "\<forall>a \<in> set (credit_accounts db'). account_ok db' a"
proof
  fix a' assume "a' \<in> set (credit_accounts db')"
  then obtain a where a: "a \<in> set (credit_accounts db)"
    and a': "a' = (if ca_id a = ca_id account then u a else a)"
    using assms(4) by (auto simp: set_update_where)
  have "ca_id a = ca_id account \<Longrightarrow> a = account"
    using distinct_key_eq [OF keys_distinct(1) [OF keys] a acc] .
  moreover have "account_ok db a" using assms(1) a by blast
  ultimately show "account_ok db' a'"
    using a' assms(5-) by (auto simp: account_ok_def)
qed

lemma hold_account:
  assumes "db_keys db" and "h \<in> set (credit_holds db)" and "a \<in> set (credit_accounts db)"
    and "ca_workspace_id a = ch_workspace_id h"
  shows "ch_account_id h = ca_id a"
proof -
  have "hkey h \<in> set (map hkey (credit_holds db))" using assms(2) by simp
  then obtain b where "b \<in> set (credit_accounts db)" "ca_id b = ch_account_id h"
      "ca_workspace_id b = ch_workspace_id h"
    using assms(1) by (fastforce simp: keys_ok_def hkey_def ckey_def)
  then show ?thesis
    using distinct_key_eq [OF keys_distinct(2) [OF assms(1)]] assms(3,4) by metis
qed

lemma ledger_total_append:
  "credit_ledger db' = credit_ledger db @ es \<Longrightarrow> \<forall>e \<in> set es. le_account_id e = acc \<Longrightarrow>
   ledger_total f k db' = ledger_total f k db + (if k = acc then sum_list (map f es) else 0)"
  by (induction es arbitrary: db') (auto simp: ledger_total_def sum_where_def filter_empty_conv)

text \<open>Appending entries with fresh identifiers keeps the key structure.\<close>

lemma keys_ok_entries:
  assumes "keys_ok n C G B A L" and "n \<le> m" and "distinct (map fst E)"
    and "\<forall>(i, w, c) \<in> set E. n \<le> i \<and> i < m \<and> (c, w) \<in> set C"
  shows "keys_ok m C G B A (L @ E)"
proof -
  have "keys_ok m C G B A L" using assms(1,2) by (rule keys_ok_mono)
  moreover have "set (map fst L) \<inter> set (map fst E) = {}"
    using assms(1,4) by (fastforce simp: keys_ok_def)
  ultimately show ?thesis using assms(3,4) by (auto simp: keys_ok_def)
qed

lemma account_key: "a \<in> set (credit_accounts db) \<Longrightarrow> (ca_id a, ca_workspace_id a) \<in> set (map ckey (credit_accounts db))"
  by (force simp: ckey_def)

section \<open>Settlement preserves the invariant\<close>

definition new_entries :: "billing_db \<Rightarrow> credit_account \<Rightarrow> uuid \<Rightarrow> credit_ledger_entry list \<Rightarrow> bool" where
  "new_entries db account m es \<longleftrightarrow> uuid_supply db \<le> m \<and> distinct (map le_id es) \<and>
     (\<forall>e \<in> set es. uuid_supply db \<le> le_id e \<and> le_id e < m \<and> le_workspace_id e = ca_workspace_id account
        \<and> le_account_id e = ca_id account \<and> entry_ok e \<and> le_reversal_of_id e = None)"

lemma new_entries_keys:
  assumes "db_keys db" and "new_entries db account m es" and "account \<in> set (credit_accounts db)"
  shows "keys_ok m (map ckey (credit_accounts db)) (map gkey (credit_grants db))
    (map hkey (credit_holds db)) (map akey (hold_allocations db)) (map lkey (credit_ledger db @ es))"
  using assms account_key [OF assms(3)]
  by (auto simp: new_entries_def lkey_def comp_def intro!: keys_ok_entries)

lemma new_entries_reversals:
  assumes "reversals_once db" and "new_entries db account m es" and "credit_ledger db' = credit_ledger db @ es"
  shows "reversals_once db'"
proof -
  have "filter (\<lambda>r. r \<noteq> None) (map le_reversal_of_id es) = []"
    using assms(2) by (auto simp: new_entries_def filter_empty_conv)
  then show ?thesis using assms(1,3) by (simp add: reversals_once_def)
qed

lemma settled_hold_simps [simp]:
  "hkey (settled_hold c r ev fc st now h) = hkey h"
  "ch_maximum_amount (settled_hold c r ev fc st now h) = ch_maximum_amount h"
  "ch_state (settled_hold c r ev fc st now h) = st"
  "ch_actual_amount (settled_hold c r ev fc st now h) = Some c"
  "ch_released_amount (settled_hold c r ev fc st now h) = Some r"
  "ch_finalization_event_id (settled_hold c r ev fc st now h) = Some ev"
  "ch_failure_class (settled_hold c r ev fc st now h) = fc"
  by (simp_all add: settled_hold_def hkey_def)

lemma settlement_preserves:
  assumes inv: "ledger_inv db" and h: "h \<in> set (credit_holds db)" "ch_state h = CreditHoldState.HELD"
    and acc: "account \<in> set (credit_accounts db)" "ca_workspace_id account = ch_workspace_id h"
    and st: "settles h (ch_maximum_amount h) c db db1" "books db1"
    and A: "credit_accounts db' = update_where (\<lambda>a. ca_id a = ca_id account)
        (\<lambda>a. a\<lparr>ca_held_balance := ca_held_balance account - ch_maximum_amount h,
               ca_available_balance := ca_available_balance account + (ch_maximum_amount h - c)\<rparr>)
        (credit_accounts db1)"
    and G: "credit_grants db' = credit_grants db1" and L: "hold_allocations db' = hold_allocations db1"
    and B: "credit_holds db' = update_where (\<lambda>x. ch_id x = ch_id h)
        (settled_hold c (ch_maximum_amount h - c) ev fc st now) (credit_holds db1)"
    and st': "st \<noteq> CreditHoldState.HELD"
    and E: "credit_ledger db' = credit_ledger db1 @ es" "new_entries db account (uuid_supply db') es"
      "sum_list (map le_available_delta es) = ch_maximum_amount h - c"
      "sum_list (map le_held_delta es) = - ch_maximum_amount h"
  shows "ledger_inv db'"
  unfolding ledger_inv_def
proof (intro conjI ballI)
  define f where "f = settled_hold c (ch_maximum_amount h - c) ev fc st now"
  have f: "\<And>x. hkey (f x) = hkey x \<and> ch_maximum_amount (f x) = ch_maximum_amount x
               \<and> ch_state (f x) \<noteq> CreditHoldState.HELD" "ch_actual_amount (f h) = Some c"
      "ch_released_amount (f h) = Some (ch_maximum_amount h - c)"
    using st' by (simp_all add: f_def)
  note B = B [folded f_def]
  have keys: "db_keys db" and holds: "\<forall>h \<in> set (credit_holds db). hold_ok db h"
    using inv by (auto simp: ledger_inv_def)
  note tables = st(1) [unfolded settles_def]
  have same: "map ckey (credit_accounts db') = map ckey (credit_accounts db)"
    "map hkey (credit_holds db') = map hkey (credit_holds db)"
    using A B f(1) tables by (simp_all add: map_update_where ckey_def)
  show "db_keys db'"
    using new_entries_keys [OF keys E(2) acc(1)] same tables E(1) G L by simp
  show "books db'"
    using st(2) G L by (simp add: books_def grant_ok_def of_grant_def)
  show "reversals_once db'"
    using inv new_entries_reversals [OF _ E(2), of db'] E(1) tables by (simp add: ledger_inv_def)
  show "entry_ok e" if "e \<in> set (credit_ledger db')" for e
    using that inv E(1,2) tables by (auto simp: ledger_inv_def new_entries_def)
  show "hold_ok db' x" if x: "x \<in> set (credit_holds db')" for x
  proof -
    from x obtain y where y: "y \<in> set (credit_holds db)" "x = (if ch_id y = ch_id h then f y else y)"
      using B tables by (auto simp: set_update_where)
    have "ch_id (f y) = ch_id y" using f(1) [of y] by (simp add: hkey_def)
    moreover have "ch_id y = ch_id h \<Longrightarrow> y = h"
      using distinct_key_eq [OF keys_distinct(4) [OF keys] y(1) h(1)] .
    moreover have "hold_ok db y" "hold_ok db h" using holds y h by auto
    ultimately show ?thesis
      using y f h tables L by (auto simp: hold_ok_def of_hold_outstanding of_hold_def sum_outstanding split: if_splits)
  qed
  have hacc: "ch_account_id h = ca_id account"
    using hold_account [OF keys h(1) acc] .
  have fid: "\<And>x. ch_id (f x) = ch_id x" "\<And>x. ch_account_id (f x) = ch_account_id x"
    using f(1) by (simp_all add: hkey_def)
  have "\<forall>a \<in> set (credit_accounts db'). account_ok db' a"
  proof (rule account_ok_shift [OF _ keys acc(1)])
    show "active_holds k db' = active_holds k db + (if k = ca_id account then - ch_maximum_amount h else 0)" for k
      using sum_where_update_row [where k = ch_id and u = f and f = ch_maximum_amount
            and P = "\<lambda>h. ch_account_id h = k \<and> ch_state h = CreditHoldState.HELD", OF keys_distinct(4) [OF keys] h(1) refl fid(1)]
        B tables f(1) [of h] h(2) hacc
      by (auto simp: active_holds_def hkey_def)
    show "ledger_total le_available_delta k db'
        = ledger_total le_available_delta k db + (if k = ca_id account then ch_maximum_amount h - c else 0)"
      "ledger_total le_held_delta k db'
        = ledger_total le_held_delta k db + (if k = ca_id account then - ch_maximum_amount h else 0)" for k
      using E tables by (auto simp: new_entries_def ledger_total_append [of db' db es "ca_id account"])
    show "credit_accounts db' = update_where (\<lambda>a. ca_id a = ca_id account)
        (\<lambda>a. a\<lparr>ca_held_balance := ca_held_balance account - ch_maximum_amount h,
               ca_available_balance := ca_available_balance account + (ch_maximum_amount h - c)\<rparr>)
        (credit_accounts db)"
      using A tables by simp
  qed (use inv tables G hacc in \<open>auto simp: ledger_inv_def grant_total_def\<close>)
  then show "account_ok db' a" if "a \<in> set (credit_accounts db')" for a using that by blast
qed

lemma held_allocations:
  assumes inv: "ledger_inv db" and h: "h \<in> set (credit_holds db)" "ch_state h = CreditHoldState.HELD"
  defines "as \<equiv> allocations_of (ch_workspace_id h) (ch_id h) db"
  shows "distinct (map ha_id as)" "set as \<subseteq> set (hold_allocations db)"
    "\<forall>a \<in> set as. unsettled a \<and> ha_hold_id a = ch_id h" "sum_list (map ha_held_amount as) = ch_maximum_amount h"
    "\<forall>a \<in> set as. 0 < ha_held_amount a"
proof -
  have keys: "db_keys db" and books: "\<forall>a \<in> set (hold_allocations db). alloc_ok a" and ok: "hold_ok db h"
    using inv h by (auto simp: ledger_inv_def books_def)
  have "ha_workspace_id a = ch_workspace_id h"
    if a: "a \<in> set (hold_allocations db)" "ha_hold_id a = ch_id h" for a
  proof -
    have "akey a \<in> set (map akey (hold_allocations db))" using a(1) by simp
    then obtain k where "k \<in> set (credit_holds db)" "ch_id k = ch_id h" "ch_workspace_id k = ha_workspace_id a"
      using keys a(2) by (fastforce simp: keys_ok_def akey_def hkey_def)
    then show ?thesis using distinct_key_eq [OF keys_distinct(4) [OF keys] _ h(1)] by metis
  qed
  then have as: "as = filter (\<lambda>a. ha_hold_id a = ch_id h) (hold_allocations db)"
    unfolding as_def allocations_of_def by (intro filter_cong refl) auto
  show "distinct (map ha_id as)" "set as \<subseteq> set (hold_allocations db)"
    using keys_distinct(5) [OF keys] by (auto simp: as distinct_map inj_on_def)
  show "sum_list (map ha_held_amount as) = ch_maximum_amount h" "\<forall>a \<in> set as. 0 < ha_held_amount a"
    using ok books by (auto simp: as hold_ok_def of_hold_def sum_where_def alloc_ok_def)
  have "sum_list (map ha_consumed_amount as) = 0" "sum_list (map ha_released_amount as) = 0"
    using ok h(2) by (simp_all add: as hold_ok_def of_hold_def sum_where_def)
  moreover have "\<forall>x \<in> set (map ha_consumed_amount as). 0 \<le> x" "\<forall>x \<in> set (map ha_released_amount as). 0 \<le> x"
    using books by (auto simp: as alloc_ok_def)
  ultimately have "\<forall>x \<in> set (map ha_consumed_amount as). x = 0" "\<forall>x \<in> set (map ha_released_amount as). x = 0"
    using sum_list_nonneg_eq_0_iff [of "map ha_consumed_amount as"]
      sum_list_nonneg_eq_0_iff [of "map ha_released_amount as"] by blast+
  then show "\<forall>a \<in> set as. unsettled a \<and> ha_hold_id a = ch_id h"
    by (auto simp: unsettled_def as)
qed

text \<open>The settlement loop of an active hold always completes with nothing left over.\<close>

lemma finalize_loop_active:
  assumes inv: "ledger_inv db" and h: "h \<in> set (credit_holds db)" "ch_state h = CreditHoldState.HELD"
    and c: "0 \<le> c" "c \<le> ch_maximum_amount h"
  obtains db1 where
    "finalize_loop c (sort_key ha_allocation_order (allocations_of (ch_workspace_id h) (ch_id h) db)) db
     = Inr (0, db1)" "books db1" "settles h (ch_maximum_amount h) c db db1"
proof -
  note as = held_allocations [OF inv h]
  have "min (ch_maximum_amount h) c = c" using c(2) by simp
  then show thesis
    using finalize_loop_ok [of db h c "sort_key ha_allocation_order (allocations_of (ch_workspace_id h) (ch_id h) db)"]
      inv h as c that by (auto simp: ledger_inv_def Let_def)
qed

lemma release_loop_active:
  assumes inv: "ledger_inv db" and h: "h \<in> set (credit_holds db)" "ch_state h = CreditHoldState.HELD"
  obtains db1 where "release_loop (allocations_of (ch_workspace_id h) (ch_id h) db) db = Inr db1"
    "books db1" "settles h (ch_maximum_amount h) 0 db db1"
proof -
  note as = held_allocations [OF inv h]
  have max: "0 < ch_maximum_amount h" using inv h by (auto simp: ledger_inv_def hold_ok_def)
  have "release_loop (allocations_of (ch_workspace_id h) (ch_id h) db) db
        = bind_result (finalize_loop 0 (allocations_of (ch_workspace_id h) (ch_id h) db) db) (\<lambda>(_, db). Inr db)"
    using inv as by (intro release_loop_finalize) (auto simp: ledger_inv_def)
  then show thesis
    using finalize_loop_ok [of db h 0 "allocations_of (ch_workspace_id h) (ch_id h) db"]
      inv h as max that by (auto simp: ledger_inv_def Let_def min_def)
qed

lemma hold_found:
  assumes "List.find (\<lambda>h. ch_workspace_id h = ws \<and> ch_id h = i) (credit_holds db) = Some h"
  shows "h \<in> set (credit_holds db)" "ch_workspace_id h = ws" "ch_id h = i"
  using find_SomeD [OF assms] by auto

definition settle_entries ::
  "bool \<Rightarrow> (uuid \<Rightarrow> credit_ledger_entry) \<Rightarrow> bool \<Rightarrow> (uuid \<Rightarrow> credit_ledger_entry) \<Rightarrow> uuid
   \<Rightarrow> credit_ledger_entry list" where
  "settle_entries b1 mk1 b2 mk2 n =
     (if b1 then [mk1 n] else []) @ (if b2 then [mk2 (if b1 then Suc n else n)] else [])"

lemma two_entries_Inr:
  assumes "insert_entry_if b1 mk1 db = Inr db1" and "insert_entry_if b2 mk2 db1 = Inr db2"
  shows "\<exists>m. uuid_supply db \<le> m \<and>
           db2 = db\<lparr>uuid_supply := m,
                    credit_ledger := credit_ledger db @ settle_entries b1 mk1 b2 mk2 (uuid_supply db)\<rparr>"
  using assms [THEN insert_entry_if_Inr]
  by (intro exI [of _ "uuid_supply db2"]) (auto simp: settle_entries_def)

lemma settle_entries_new:
  assumes "es = settle_entries (0 < c)
      (settle_entry p now account h CreditEntryKind.CONSUME LedgerDirection.DEBIT c 0 (- c) av he grp k1 r1)
      (0 < r)
      (settle_entry p now account h CreditEntryKind.RELEASE LedgerDirection.CREDIT r r (- r) av he grp k2 r2) n"
    and "0 \<le> c" "0 \<le> r" "workspace_id p = ca_workspace_id account" "uuid_supply db \<le> n" "n + 2 \<le> m"
  shows "new_entries db account m es" "sum_list (map le_available_delta es) = r"
    "sum_list (map le_held_delta es) = - (c + r)"
  using assms by (auto simp: settle_entries_def new_entries_def settle_entry_def entry_ok_def)

text \<open>What the commit step writes, read off the handlers.\<close>

lemma finalize_commit_db:
  assumes "finalize_commit now p h d r account db = Inr (h', db')"
  obtains m grp av he k1 r1 k2 r2 ds where
    "uuid_supply db < m"
    "db' = bill_record p now ''billing.credit.finalized'' ''credit_hold'' (ch_id h) ds
       ((update_hold (ch_id h)
          (settled_hold (hf_consumed r) (hf_released r) (hz_finalization_event_id d) (hz_failure_class d)
             CreditHoldState.FINALIZED now)
          (set_balances account (ca_available_balance account + hf_released r)
             (ca_held_balance account - ch_maximum_amount h) db))
        \<lparr>uuid_supply := m, credit_ledger := credit_ledger db @ settle_entries (0 < hf_consumed r)
          (settle_entry p now account h CreditEntryKind.CONSUME LedgerDirection.DEBIT (hf_consumed r) 0
            (- hf_consumed r) av he grp k1 r1) (0 < hf_released r)
          (settle_entry p now account h CreditEntryKind.RELEASE LedgerDirection.CREDIT (hf_released r)
            (hf_released r) (- hf_released r) av he grp k2 r2) (Suc (uuid_supply db))\<rparr>)"
proof -
  let ?db = "update_hold (ch_id h)
          (settled_hold (hf_consumed r) (hf_released r) (hz_finalization_event_id d) (hz_failure_class d)
             CreditHoldState.FINALIZED now)
          (set_balances account (ca_available_balance account + hf_released r)
             (ca_held_balance account - ch_maximum_amount h) db)"
  from assms obtain db2 ds where db2: "finalize_entries now p h d r account
      (ca_available_balance account + hf_released r) (ca_held_balance account - ch_maximum_amount h) ?db = Inr db2"
    and db': "db' = bill_record p now ''billing.credit.finalized'' ''credit_hold'' (ch_id h) ds db2"
    by (auto simp: finalize_commit_def Let_def result_simps flush_hold_Inr)
  have same: "uuid_supply ?db = uuid_supply db" "credit_ledger ?db = credit_ledger db"
    by (simp_all add: row_update_defs set_balances_def)
  let ?e1 = "settle_entry p now account h CreditEntryKind.CONSUME LedgerDirection.DEBIT (hf_consumed r) 0
      (- hf_consumed r) (ca_available_balance account + hf_released r)
      (ca_held_balance account - ch_maximum_amount h) (uuid_supply db)
      (''finalize:'' @ hz_finalization_event_id d @ '':consume'')
      (case hz_reason_code d of None \<Rightarrow> ''ACTUAL_COST''
       | Some r \<Rightarrow> if r = '''' then ''ACTUAL_COST'' else r)"
  let ?e2 = "settle_entry p now account h CreditEntryKind.RELEASE LedgerDirection.CREDIT (hf_released r)
      (hf_released r) (- hf_released r) (ca_available_balance account + hf_released r)
      (ca_held_balance account - ch_maximum_amount h) (uuid_supply db)
      (''finalize:'' @ hz_finalization_event_id d @ '':release'') ''MAX_COST_DIFFERENCE''"
  from db2 obtain db3 where "insert_entry_if (0 < hf_consumed r) ?e1 (?db\<lparr>uuid_supply := Suc (uuid_supply db)\<rparr>) = Inr db3"
    "insert_entry_if (0 < hf_released r) ?e2 db3 = Inr db2"
    by (auto simp: finalize_entries_def uuid4_def same bind_result_eq_Inr)
  from two_entries_Inr [OF this] obtain m where m: "uuid_supply db < m"
    and db2': "db2 = ?db\<lparr>uuid_supply := m, credit_ledger := credit_ledger db
        @ settle_entries (0 < hf_consumed r) ?e1 (0 < hf_released r) ?e2 (Suc (uuid_supply db))\<rparr>"
    by (simp add: same Suc_le_eq) blast
  show thesis by (rule that [OF m db' [unfolded db2']])
qed

lemma finalize_hold_preserves:
  assumes inv: "ledger_inv db" and ok: "finalize_hold now p i d db = Inr (h', db')"
  shows "ledger_inv db'"
proof -
  from ok obtain h where found:
      "List.find (\<lambda>h. ch_workspace_id h = workspace_id p \<and> ch_id h = i) (credit_holds db) = Some h"
    by (auto simp: finalize_hold_def split: option.splits)
  note h = hold_found [OF found]
  from ok found obtain r where r: "finalize_hold_amounts (ch_state h) (Finite (ch_maximum_amount h))
      (Finite (hz_actual_amount d)) (ch_actual_amount h) = Inr r"
    by (auto simp: finalize_hold_def result_simps)
  show ?thesis
  proof (cases "hf_replay r")
    case True
    then show ?thesis using ok found r inv by (auto simp: finalize_hold_def split: if_splits)
  next
    case False
    from finalize_hold_amounts_fresh [OF r False]
    have held: "ch_state h = CreditHoldState.HELD"
      and c: "0 \<le> hf_consumed r" "hf_consumed r \<le> ch_maximum_amount h"
      and rel: "hf_released r = ch_maximum_amount h - hf_consumed r" by auto
    obtain db1 where db1: "finalize_loop (hf_consumed r) (sort_key ha_allocation_order
        (allocations_of (ch_workspace_id h) (ch_id h) db)) db = Inr (0, db1)" "books db1"
        "settles h (ch_maximum_amount h) (hf_consumed r) db db1"
      using finalize_loop_active [OF inv h(1) held c] .
    have n: "uuid_supply db1 = uuid_supply db" using db1(3) by (simp add: settles_def)
    from ok found r False obtain account where acc: "get_account (workspace_id p) db = Inr account"
      by (auto simp: finalize_hold_def result_simps)
    note account = get_account_Inr [OF acc]
    have "finalize_commit now p h d r account db1 = Inr (h', db')"
      using ok found r False acc db1(1) h by (simp add: finalize_hold_def)
    then show ?thesis
    proof (rule finalize_commit_db)
      fix m grp av he k1 r1 k2 r2 ds
      let ?es = "settle_entries (0 < hf_consumed r)
          (settle_entry p now account h CreditEntryKind.CONSUME LedgerDirection.DEBIT (hf_consumed r) 0
            (- hf_consumed r) av he grp k1 r1) (0 < hf_released r)
          (settle_entry p now account h CreditEntryKind.RELEASE LedgerDirection.CREDIT (hf_released r)
            (hf_released r) (- hf_released r) av he grp k2 r2) (Suc (uuid_supply db1))"
      assume m: "uuid_supply db1 < m" and db': "db' = bill_record p now ''billing.credit.finalized'' ''credit_hold'' (ch_id h) ds
       ((update_hold (ch_id h)
          (settled_hold (hf_consumed r) (hf_released r) (hz_finalization_event_id d) (hz_failure_class d)
             CreditHoldState.FINALIZED now)
          (set_balances account (ca_available_balance account + hf_released r)
             (ca_held_balance account - ch_maximum_amount h) db1))
        \<lparr>uuid_supply := m, credit_ledger := credit_ledger db1 @ ?es\<rparr>)"
      have es: "new_entries db account (uuid_supply db') ?es"
        "sum_list (map le_available_delta ?es) = hf_released r"
        "sum_list (map le_held_delta ?es) = - (hf_consumed r + hf_released r)"
        using settle_entries_new [OF refl, of "hf_consumed r" "hf_released r" p account db
            "Suc (uuid_supply db1)" "uuid_supply db'"] c rel account n m by (auto simp: db')
      show ?thesis
        by (rule settlement_preserves [where st = CreditHoldState.FINALIZED,
              OF inv h(1) held _ _ db1(3,2) _ _ _ _ _ _ es(1)])
          (use account h es rel db' in \<open>simp_all add: row_update_defs set_balances_def\<close>)
    qed
  qed
qed

lemma release_commit_db:
  assumes "release_commit now p h d account db = Inr (h', db')"
  obtains av he grp k1 r1 ds where
    "db' = bill_record p now ''billing.credit.released'' ''credit_hold'' (ch_id h) ds
       ((update_hold (ch_id h)
          (settled_hold 0 (ch_maximum_amount h) (hr_release_event_id d) (Some (hr_failure_class d))
             CreditHoldState.RELEASED now)
          (set_balances account (ca_available_balance account + ch_maximum_amount h)
             (ca_held_balance account - ch_maximum_amount h) db))
        \<lparr>uuid_supply := uuid_supply db + 2, credit_ledger := credit_ledger db @
          [settle_entry p now account h CreditEntryKind.RELEASE LedgerDirection.CREDIT (ch_maximum_amount h)
            (ch_maximum_amount h) (- ch_maximum_amount h) av he grp k1 r1 (Suc (uuid_supply db))]\<rparr>)"
proof -
  let ?db = "update_hold (ch_id h)
          (settled_hold 0 (ch_maximum_amount h) (hr_release_event_id d) (Some (hr_failure_class d))
             CreditHoldState.RELEASED now)
          (set_balances account (ca_available_balance account + ch_maximum_amount h)
             (ca_held_balance account - ch_maximum_amount h) db)"
  let ?e = "settle_entry p now account h CreditEntryKind.RELEASE LedgerDirection.CREDIT (ch_maximum_amount h)
      (ch_maximum_amount h) (- ch_maximum_amount h) (ca_available_balance account + ch_maximum_amount h)
      (ca_held_balance account - ch_maximum_amount h) (uuid_supply db)
      (''release:'' @ hr_release_event_id d) (hr_reason_code d)"
  have same: "uuid_supply ?db = uuid_supply db" "credit_ledger ?db = credit_ledger db"
    by (simp_all add: row_update_defs set_balances_def)
  from assms obtain db2 ds where
      db2: "insert_entry_if True ?e (?db\<lparr>uuid_supply := Suc (uuid_supply db)\<rparr>) = Inr db2"
    and db': "db' = bill_record p now ''billing.credit.released'' ''credit_hold'' (ch_id h) ds db2"
    by (auto simp: release_commit_def Let_def uuid4_def same result_simps flush_hold_Inr)
  have "db2 = ?db\<lparr>uuid_supply := uuid_supply db + 2, credit_ledger := credit_ledger db @ [?e (Suc (uuid_supply db))]\<rparr>"
    using insert_entry_if_Inr [OF db2] same by simp
  then show thesis using that db' by blast
qed

lemma release_hold_preserves:
  assumes inv: "ledger_inv db" and ok: "release_hold now p i d db = Inr (h', db')"
  shows "ledger_inv db'"
proof -
  from ok obtain h where found:
      "List.find (\<lambda>h. ch_workspace_id h = workspace_id p \<and> ch_id h = i) (credit_holds db) = Some h"
    by (auto simp: release_hold_def split: option.splits)
  note h = hold_found [OF found]
  show ?thesis
  proof (cases "ch_state h = CreditHoldState.HELD")
    case False
    then show ?thesis using ok found inv by (auto simp: release_hold_def split: if_splits)
  next
    case held: True
    obtain db1 where db1: "release_loop (allocations_of (ch_workspace_id h) (ch_id h) db) db = Inr db1"
        "books db1" "settles h (ch_maximum_amount h) 0 db db1"
      using release_loop_active [OF inv h(1) held] .
    have n: "uuid_supply db1 = uuid_supply db" using db1(3) by (simp add: settles_def)
    have max: "0 < ch_maximum_amount h" using inv h by (auto simp: ledger_inv_def hold_ok_def)
    from ok found held obtain account where acc: "get_account (workspace_id p) db = Inr account"
      by (auto simp: release_hold_def result_simps)
    note account = get_account_Inr [OF acc]
    have "release_commit now p h d account db1 = Inr (h', db')"
      using ok found held acc db1(1) h by (simp add: release_hold_def)
    then show ?thesis
    proof (rule release_commit_db)
      fix av he grp k1 r1 ds
      let ?es = "[settle_entry p now account h CreditEntryKind.RELEASE LedgerDirection.CREDIT
        (ch_maximum_amount h) (ch_maximum_amount h) (- ch_maximum_amount h) av he grp k1 r1 (Suc (uuid_supply db1))]"
      assume db': "db' = bill_record p now ''billing.credit.released'' ''credit_hold'' (ch_id h) ds
       ((update_hold (ch_id h)
          (settled_hold 0 (ch_maximum_amount h) (hr_release_event_id d) (Some (hr_failure_class d))
             CreditHoldState.RELEASED now)
          (set_balances account (ca_available_balance account + ch_maximum_amount h)
             (ca_held_balance account - ch_maximum_amount h) db1))
        \<lparr>uuid_supply := uuid_supply db1 + 2, credit_ledger := credit_ledger db1 @ ?es\<rparr>)"
      have es: "new_entries db account (uuid_supply db') ?es"
        using account n max by (simp add: db' new_entries_def settle_entry_def entry_ok_def)
      show ?thesis
        by (rule settlement_preserves [where st = CreditHoldState.RELEASED,
              OF inv h(1) held _ _ db1(3,2) _ _ _ _ _ _ es])
          (use account h db' in \<open>simp_all add: row_update_defs set_balances_def settle_entry_def\<close>)
    qed
  qed
qed

section \<open>Accounts, grants and reversals preserve the invariant\<close>

lemma create_credit_account_preserves:
  assumes inv: "ledger_inv db" and ok: "create_credit_account now p db = Inr (a, db')"
  shows "ledger_inv db'"
proof (cases "List.find (\<lambda>a. ca_workspace_id a = workspace_id p) (credit_accounts db)")
  case Some
  then show ?thesis using inv ok by (simp add: create_credit_account_def)
next
  case None
  let ?n = "uuid_supply db"
  have keys: "db_keys db" using inv by (simp add: ledger_inv_def)
  have new: "credit_accounts db' = credit_accounts db
      @ [\<lparr>ca_id = ?n, ca_workspace_id = workspace_id p, ca_available_balance = 0, ca_held_balance = 0\<rparr>]"
    and same: "credit_grants db' = credit_grants db" "credit_holds db' = credit_holds db"
      "hold_allocations db' = hold_allocations db" "credit_ledger db' = credit_ledger db"
    and n: "?n < uuid_supply db'"
    using ok None by (auto simp: create_credit_account_def uuid4_def Let_def)
  have unused: "g \<in> set (credit_grants db) \<Longrightarrow> cg_account_id g \<noteq> ?n"
    "h \<in> set (credit_holds db) \<Longrightarrow> ch_account_id h \<noteq> ?n" "e \<in> set (credit_ledger db) \<Longrightarrow> le_account_id e \<noteq> ?n"
    for g h e
    using keys_account_fresh [OF keys] less_irrefl by metis+
  have "workspace_id p \<notin> snd ` set (map ckey (credit_accounts db))"
    using find_NoneD [OF None] by (force simp: ckey_def)
  then have "db_keys db'"
    using keys_ok_account [OF keys order_refl n] by (simp add: new same ckey_def)
  moreover have "account_ok db' x" if "x \<in> set (credit_accounts db')" for x
    using that inv unused
    by (auto simp: new same ledger_inv_def account_ok_def total_defs sum_where_none)
  moreover have "hold_ok db' = hold_ok db" "grant_ok db' = grant_ok db"
    by (simp_all add: fun_eq_iff hold_ok_def grant_ok_def of_hold_def of_grant_def same)
  ultimately show ?thesis
    using inv by (simp add: ledger_inv_def books_def reversals_once_def same)
qed

text \<open>A new grant with its GRANT or REVERSAL entry.\<close>

lemma new_grant_preserves:
  assumes inv: "ledger_inv db" and acc: "account \<in> set (credit_accounts db)"
    and ledger: "credit_ledger db' = credit_ledger db @ [e]" and grants: "credit_grants db' = credit_grants db @ [g]"
    and g: "cg_workspace_id g = ca_workspace_id account" "cg_account_id g = ca_id account"
      "cg_original_amount g = cg_available_amount g" "cg_held_amount g = 0" "0 < cg_available_amount g"
      "cg_id g = uuid_supply db"
    and e: "le_workspace_id e = ca_workspace_id account" "le_account_id e = ca_id account"
      "entry_ok e" "le_available_delta e = cg_available_amount g" "le_held_delta e = 0"
      "uuid_supply db < le_id e" "le_id e < uuid_supply db'"
      "le_reversal_of_id e = None
       \<or> (\<forall>x \<in> set (credit_ledger db). le_reversal_of_id x \<noteq> le_reversal_of_id e)"
    and tables: "credit_accounts db' = update_where (\<lambda>a. ca_id a = ca_id account)
        (\<lambda>a. a\<lparr>ca_available_balance := ca_available_balance account + cg_available_amount g\<rparr>) (credit_accounts db)"
      "credit_holds db' = credit_holds db"
      "hold_allocations db' = hold_allocations db"
  shows "ledger_inv db'"
  unfolding ledger_inv_def
proof (intro conjI ballI)
  have keys: "db_keys db" using inv by (simp add: ledger_inv_def)
  have "keys_ok (Suc (uuid_supply db)) (map ckey (credit_accounts db)) (map gkey (credit_grants db @ [g]))
      (map hkey (credit_holds db)) (map akey (hold_allocations db)) (map lkey (credit_ledger db))"
    using keys_ok_grant [OF keys order_refl lessI account_key [OF acc]] g by (simp add: gkey_def)
  from keys_ok_entries [OF this, of "uuid_supply db'" "[lkey e]"]
  have "keys_ok (uuid_supply db') (map ckey (credit_accounts db)) (map gkey (credit_grants db @ [g]))
      (map hkey (credit_holds db)) (map akey (hold_allocations db)) (map lkey (credit_ledger db @ [e]))"
    using account_key [OF acc] e by (simp add: lkey_def)
  moreover have "map ckey (credit_accounts db') = map ckey (credit_accounts db)"
    by (simp add: tables map_update_where ckey_def)
  ultimately show "db_keys db'" by (simp add: tables grants ledger)
  have unused: "ha_grant_id a \<noteq> uuid_supply db" if "a \<in> set (hold_allocations db)" for a
    using alloc_grant [OF keys that] keys_fresh(2) [OF keys] by (metis less_irrefl)
  show "books db'"
    using inv g unused
    by (auto simp: books_def ledger_inv_def grant_ok_def of_grant_def tables grants ledger sum_where_none)
  show "hold_ok db' h" if "h \<in> set (credit_holds db')" for h
    using inv that by (auto simp: ledger_inv_def hold_ok_def of_hold_def tables grants ledger)
  show "entry_ok x" if "x \<in> set (credit_ledger db')" for x
    using inv e(3) that by (auto simp: ledger_inv_def tables grants ledger)
  show "reversals_once db'"
    using inv e(8) by (auto simp: ledger_inv_def reversals_once_def tables grants ledger)
  have "\<forall>a \<in> set (credit_accounts db'). account_ok db' a"
    by (rule account_ok_shift [OF _ keys acc tables(1), where da = "cg_available_amount g" and dh = 0])
      (use inv g e in \<open>auto simp: ledger_inv_def total_defs tables grants ledger\<close>)
  then show "account_ok db' a" if "a \<in> set (credit_accounts db')" for a using that by blast
qed

lemma grant_credits_preserves:
  assumes inv: "ledger_inv db" and d: "valid_grant_create d" and ok: "grant_credits now p d db = Inr (g, db')"
  shows "ledger_inv db'"
proof -
  from ok obtain account where acc: "get_account (workspace_id p) db = Inr account"
    by (auto simp: grant_credits_def result_simps)
  note account = get_account_Inr [OF acc]
  show ?thesis
  proof (cases "List.find (\<lambda>g. cg_workspace_id g = workspace_id p \<and> cg_source_type g = gc_source_type d
                         \<and> cg_source_id g = gc_source_id d) (credit_grants db)")
    case Some
    then show ?thesis using ok acc inv by (auto simp: grant_credits_def split: if_splits)
  next
    case None
    show ?thesis
      using ok acc None d account
      by (auto simp: grant_credits_def result_simps uuid4_def Let_def insert_grant_Inr insert_entry_Inr
          update_account_def valid_grant_create_def entry_ok_def
          intro!: new_grant_preserves [OF inv, of account] split: if_splits)
  qed
qed

lemma reverse_credit_debit_preserves:
  assumes inv: "ledger_inv db" and ok: "reverse_credit_debit now p i key reason bucket ex pol db = Inr (e, db')"
  shows "ledger_inv db'"
proof -
  from ok obtain original where
      "List.find (\<lambda>e. le_workspace_id e = workspace_id p \<and> le_id e = i) (credit_ledger db) = Some original"
    by (auto simp: reverse_credit_debit_def split: option.splits)
  note original = this find_SomeD [OF this]
  have pos: "0 < le_amount original"
    using original(2) inv by (auto simp: ledger_inv_def entry_ok_def)
  show ?thesis
  proof (cases "List.find (\<lambda>e. le_workspace_id e = workspace_id p
                          \<and> le_reversal_of_id e = Some (le_id original)) (credit_ledger db)")
    case Some
    then show ?thesis using ok original inv by (auto simp: reverse_credit_debit_def split: if_splits)
  next
    case None
    with ok original obtain account where acc: "get_account (workspace_id p) db = Inr account"
      by (auto simp: reverse_credit_debit_def result_simps split: if_splits)
    show ?thesis
      using ok original None acc get_account_Inr [OF acc] pos
      by (auto simp: reverse_credit_debit_def result_simps uuid4_def Let_def insert_grant_Inr insert_entry_Inr
          update_account_def entry_ok_def
          intro!: new_grant_preserves [OF inv, of account] split: if_splits)
  qed
qed

lemma ledger_inv_supply:
  assumes "ledger_inv db" and "uuid_supply db \<le> uuid_supply db'"
    and "credit_accounts db' = credit_accounts db" "credit_grants db' = credit_grants db"
      "credit_holds db' = credit_holds db" "hold_allocations db' = hold_allocations db"
      "credit_ledger db' = credit_ledger db"
  shows "ledger_inv db'"
proof -
  have "hold_ok db' = hold_ok db" "grant_ok db' = grant_ok db" "account_ok db' = account_ok db"
    using assms(3-) by (simp_all add: fun_eq_iff hold_ok_def grant_ok_def account_ok_def total_defs)
  then show ?thesis
    using assms keys_ok_mono by (auto simp: ledger_inv_def books_def reversals_once_def)
qed

lemma record_usage_preserves:
  assumes "ledger_inv db" and "record_usage now p d db = Inr (u, db')"
  shows "ledger_inv db'"
  using assms
  by (auto simp: record_usage_def result_simps uuid4_def Let_def
      intro!: ledger_inv_supply [of db] split: option.splits if_splits)

section \<open>Holds preserve the invariant\<close>

lemma eligible_grants_facts:
  assumes "db_keys db" and "gs = eligible_grants ws acc now db"
  shows "distinct (map cg_id gs)" "set gs \<subseteq> set (credit_grants db)"
    "\<forall>g \<in> set gs. 0 < cg_available_amount g \<and> cg_workspace_id g = ws \<and> cg_account_id g = acc"
  using keys_distinct(3) [OF assms(1)]
  by (auto simp: assms(2) eligible_grants_def distinct_map inj_on_def)

lemma hold_commit_db:
  assumes "hold_commit now p d price account h db = Inr (h', db')"
  shows "h' = h \<and> 0 \<le> ca_available_balance account - hc_maximum_amount d \<and>
    (\<exists>ds. db' = bill_record p now ''billing.credit.held'' ''credit_hold'' (ch_id h) ds
      ((set_balances account (ca_available_balance account - hc_maximum_amount d)
          (ca_held_balance account + hc_maximum_amount d) db)
       \<lparr>uuid_supply := uuid_supply db + 2, credit_ledger := credit_ledger db
          @ [hold_entry now p d price account (ch_id h) (ca_available_balance account - hc_maximum_amount d)
              (ca_held_balance account + hc_maximum_amount d) (uuid_supply db) (Suc (uuid_supply db))]\<rparr>))"
  using assms
  by (auto simp: hold_commit_def Let_def uuid4_def result_simps insert_entry_Inr set_balances_def update_account_def)

text \<open>A new hold, its allocations and its HOLD entry.\<close>

lemma new_hold_preserves:
  assumes inv: "ledger_inv db" and acc: "account \<in> set (credit_accounts db)"
    and h: "hkey h = (uuid_supply db, ca_workspace_id account, ca_id account)" "0 < ch_maximum_amount h"
      "ch_state h = CreditHoldState.HELD" "ch_actual_amount h = None" "ch_released_amount h = None"
    and db1: "db1 = db\<lparr>uuid_supply := Suc (uuid_supply db), credit_holds := credit_holds db @ [h]\<rparr>"
    and db2: "db_keys db2" "books db2" "draws (uuid_supply db) (ca_id account) (ch_maximum_amount h) db1 db2"
    and e: "lkey e = (uuid_supply db2, ca_workspace_id account, ca_id account)" "entry_ok e"
      "le_reversal_of_id e = None" "le_available_delta e = - ch_maximum_amount h"
      "le_held_delta e = ch_maximum_amount h"
    and tables: "credit_accounts db' = update_where (\<lambda>a. ca_id a = ca_id account)
        (\<lambda>a. a\<lparr>ca_held_balance := ca_held_balance account + ch_maximum_amount h,
               ca_available_balance := ca_available_balance account - ch_maximum_amount h\<rparr>) (credit_accounts db2)"
      "credit_grants db' = credit_grants db2" "credit_holds db' = credit_holds db2"
      "hold_allocations db' = hold_allocations db2" "credit_ledger db' = credit_ledger db2 @ [e]"
      "uuid_supply db2 < uuid_supply db'"
  shows "ledger_inv db'"
  unfolding ledger_inv_def
proof (intro conjI ballI)
  have keys: "db_keys db" using inv by (simp add: ledger_inv_def)
  note eff = db2(3) [unfolded draws_def db1, simplified]
  have acc2: "account \<in> set (credit_accounts db2)" using acc eff by simp
  have "new_entries db2 account (uuid_supply db') [e]"
    using e tables(6) by (simp add: new_entries_def lkey_def)
  moreover have "map ckey (credit_accounts db') = map ckey (credit_accounts db2)"
    by (simp add: tables map_update_where ckey_def)
  ultimately show "db_keys db'"
    using new_entries_keys [OF db2(1) _ acc2, of "uuid_supply db'" "[e]"] by (simp add: tables)
  show "books db'" using db2(2) by (simp add: books_def grant_ok_def of_grant_def tables)
  show "entry_ok x" if "x \<in> set (credit_ledger db')" for x
    using inv e(2) that eff by (auto simp: ledger_inv_def tables)
  show "reversals_once db'"
    using inv e(3) eff by (simp add: ledger_inv_def reversals_once_def tables)
  have unused: "of_hold f (uuid_supply db) db = 0" for f
    unfolding of_hold_def using alloc_hold [OF keys] keys_fresh(3) [OF keys]
    by (intro sum_where_none) (metis less_irrefl)
  show "hold_ok db' x" if "x \<in> set (credit_holds db')" for x
  proof (cases "x = h")
    case True
    then show ?thesis
      using h eff unused by (simp add: hold_ok_def of_hold_def tables hkey_def)
  next
    case False
    then have x: "x \<in> set (credit_holds db)" using that eff by (simp add: tables)
    then have "hold_ok db x" "ch_id x \<noteq> uuid_supply db"
      using inv keys_fresh(3) [OF keys x] by (auto simp: ledger_inv_def)
    then show ?thesis
      using eff by (auto simp: hold_ok_def of_hold_outstanding of_hold_def sum_outstanding tables split: if_splits)
  qed
  have "\<forall>a \<in> set (credit_accounts db'). account_ok db' a"
    by (rule account_ok_shift [OF _ keys acc, where da = "- ch_maximum_amount h" and dh = "ch_maximum_amount h"
        and u = "\<lambda>a. a\<lparr>ca_held_balance := ca_held_balance account + ch_maximum_amount h,
               ca_available_balance := ca_available_balance account - ch_maximum_amount h\<rparr>"])
      (use inv h e eff in \<open>auto simp: ledger_inv_def total_defs tables hkey_def lkey_def\<close>)
  then show "account_ok db' a" if "a \<in> set (credit_accounts db')" for a using that by blast
qed

lemma create_hold_preserves:
  assumes inv: "ledger_inv db" and d: "valid_hold_create d" and ok: "create_hold H now p d db = Inr (h', db')"
  shows "ledger_inv db'"
proof (cases "List.find (\<lambda>h. ch_workspace_id h = workspace_id p \<and> ch_subject_type h = hc_subject_type d
                          \<and> ch_subject_id h = hc_subject_id d
                          \<and> ch_idempotency_key h = hc_idempotency_key d) (credit_holds db)")
  case Some
  then show ?thesis using ok inv by (auto simp: create_hold_def Let_def split: if_splits)
next
  case None
  have keys: "db_keys db" and books: "books db" using inv by (auto simp: ledger_inv_def)
  from ok None obtain price account where acc: "get_account (workspace_id p) db = Inr account"
    and price: "get_price (workspace_id p) (hc_price_version_id d) now db = Inr price"
    by (auto simp: create_hold_def result_simps Let_def split: if_splits)
  note account = get_account_Inr [OF acc]
  define h where "h = hold_row p d price account (H (hold_create_json d)) (uuid_supply db)"
  define db1 where "db1 = db\<lparr>uuid_supply := Suc (uuid_supply db), credit_holds := credit_holds db @ [h]\<rparr>"
  define gs where "gs = eligible_grants (workspace_id p) (ca_id account) now db"
  note gs = eligible_grants_facts [OF keys gs_def]
  have max: "0 < hc_maximum_amount d" using d by (simp add: valid_hold_create_def)
  have enough: "hc_maximum_amount d \<le> sum_list (map cg_available_amount gs)"
    using ok None acc price by (auto simp: create_hold_def Let_def gs_def split: if_splits)
  have hk: "hkey h = (uuid_supply db, workspace_id p, ca_id account)"
    by (simp add: h_def hold_row_def hkey_def)
  have keys1: "db_keys db1"
    using keys_ok_hold [OF keys order_refl lessI account_key [of account db]] account hk
    by (simp add: db1_def)
  have "books db1" using books by (simp add: books_def grant_ok_def of_grant_def db1_def)
  then obtain db2 where db2: "allocate_loop (workspace_id p) (uuid_supply db) 0 (hc_maximum_amount d) gs db1 = (0, db2)"
      "db_keys db2" "books db2" "draws (uuid_supply db) (ca_id account) (hc_maximum_amount d) db1 db2"
    using allocate_loop_ok [OF keys1 _ _ gs(1), of "uuid_supply db" "workspace_id p" "ca_id account"
        "hc_maximum_amount d" 0] gs enough max hk by (auto simp: db1_def)
  have "hold_commit now p d price account h db2 = Inr (h', db')"
    using ok None acc price db2(1)
    by (auto simp: create_hold_def Let_def uuid4_def gs_def h_def db1_def split: if_splits)
  from hold_commit_db [OF this] obtain ds where
    db': "db' = bill_record p now ''billing.credit.held'' ''credit_hold'' (ch_id h) ds
      ((set_balances account (ca_available_balance account - hc_maximum_amount d)
          (ca_held_balance account + hc_maximum_amount d) db2)
       \<lparr>uuid_supply := uuid_supply db2 + 2, credit_ledger := credit_ledger db2
          @ [hold_entry now p d price account (ch_id h) (ca_available_balance account - hc_maximum_amount d)
              (ca_held_balance account + hc_maximum_amount d) (uuid_supply db2) (Suc (uuid_supply db2))]\<rparr>)"
    by blast
  have "ch_maximum_amount h = hc_maximum_amount d" by (simp add: h_def hold_row_def)
  then show ?thesis
    using inv account max hk db2
    by (intro new_hold_preserves [OF inv _ _ _ _ _ _ db1_def db2(2,3), where account = account and
          e = "hold_entry now p d price account (ch_id h) (ca_available_balance account - hc_maximum_amount d)
              (ca_held_balance account + hc_maximum_amount d) (uuid_supply db2) (Suc (uuid_supply db2))"])
      (simp_all add: db' set_balances_def update_account_def h_def hold_row_def hold_entry_def lkey_def entry_ok_def)
qed

end
