(* ===== verification/Billing_Payments.thy ===== *)
theory Billing_Payments
  imports Billing_Ledger
begin

text \<open>
  Payment commands and provider events of \<open>BillingService\<close>: the intent a member queues, its
  execution and failure by the worker (\<^verbatim>\<open>domain/billing/tasks.py\<close>) and the ingestion of verified
  provider events. The gateway, the payload archive and the digest are parameters; all may raise.

  Both tables are under forced row level security, so a lookup sees the rows of the scoped
  workspace only, while the unique constraints on \<open>provider_request_ref\<close> and on
  (\<open>provider\<close>, \<open>provider_event_id\<close>) range over all tenants.
\<close>

section \<open>Provider ports\<close>

record provider_checkout_request =
  cr_command_id :: uuid
  cr_workspace_id :: uuid
  cr_operation :: string
  cr_request_snapshot :: "(string \<times> json) list"
  cr_idempotency_key :: string
  cr_return_url :: string

record provider_checkout_result =
  cx_provider_request_ref :: string
  cx_checkout_url :: string
  cx_expires_at :: datetime

record verified_payment_event =
  ve_provider_event_id :: string
  ve_event_type :: string
  ve_workspace_id :: uuid
  ve_occurred_at :: time
  ve_normalized_payload :: json
  ve_signature_key_version :: string

type_synonym checkout_gateway = "provider_checkout_request \<Rightarrow> provider_checkout_result result"
type_synonym gateway_registry = "string \<Rightarrow> checkout_gateway option"

definition resolve_gateway :: "gateway_registry \<Rightarrow> string \<Rightarrow> checkout_gateway result" where
  "resolve_gateway gateways provider =
     (case gateways provider of
        None \<Rightarrow> Inl (app_error ''PAYMENT_PROVIDER_UNAVAILABLE'' 503) | Some g \<Rightarrow> Inr g)"

section \<open>Intents\<close>

definition opt_json :: "('a \<Rightarrow> json) \<Rightarrow> 'a option \<Rightarrow> json" where
  "opt_json f x = (case x of None \<Rightarrow> JNull | Some v \<Rightarrow> f v)"

definition billing_cycle_value :: "BillingCycle \<Rightarrow> string" where
  "billing_cycle_value c = (case c of
     BillingCycle.MONTHLY \<Rightarrow> ''MONTHLY'' | BillingCycle.ANNUAL \<Rightarrow> ''ANNUAL'' | BillingCycle.CONTRACT \<Rightarrow> ''CONTRACT'')"

definition payment_intent_json :: "payment_intent_create \<Rightarrow> (string \<times> json) list" where
  "payment_intent_json d =
     [(''operation'', JStr (pi_operation d)), (''provider'', JStr (pi_provider d)),
      (''plan_version_id'', opt_json JUuid (pi_plan_version_id d)),
      (''billing_cycle'', opt_json (\<lambda>c. JStr (billing_cycle_value c)) (pi_billing_cycle d)),
      (''purchase_sku'', opt_json JStr (pi_purchase_sku d)),
      (''idempotency_key'', JStr (pi_idempotency_key d)), (''return_url'', JStr (pi_return_url d))]"

definition queue_payment_intent ::
  "hasher \<Rightarrow> time \<Rightarrow> principal \<Rightarrow> payment_intent_create \<Rightarrow> billing_db \<Rightarrow> (payment_command \<times> billing_db) result"
  where
  "queue_payment_intent H now p d db =
     (let payload = payment_intent_json d; request_hash = H (JDict payload) in
      case List.find (\<lambda>c. pc_workspace_id c = workspace_id p \<and> pc_requested_by c = subject_id p
                          \<and> pc_operation c = pi_operation d
                          \<and> pc_idempotency_key c = pi_idempotency_key d) (payment_commands db) of
        Some c \<Rightarrow>
          if pc_request_hash c \<noteq> request_hash then Inl (app_error ''IDEMPOTENCY_KEY_REUSED'' 409)
          else Inr (c, db)
      | None \<Rightarrow>
          bind_result
            (case pi_plan_version_id d of
               None \<Rightarrow> Inr ()
             | Some plan \<Rightarrow> bind_result (get_plan (workspace_id p) plan now db) (\<lambda>_. Inr ())) (\<lambda>_.
          let (i, db) = uuid4 db;
              c = \<lparr>pc_id = i, pc_workspace_id = workspace_id p, pc_requested_by = subject_id p,
                   pc_operation = pi_operation d, pc_idempotency_key = pi_idempotency_key d,
                   pc_request_hash = request_hash, pc_request_snapshot = payload,
                   pc_provider = pi_provider d, pc_provider_request_ref = None,
                   pc_state = PaymentCommandState.PENDING_PROVIDER, pc_checkout_url = None,
                   pc_expires_at = None, pc_error_code = None\<rparr>;
              db = db\<lparr>payment_commands := payment_commands db @ [c]\<rparr>
          in Inr (c, bill_record p now ''billing.payment_intent.queued'' ''payment_command'' i
                   [(''operation'', JStr (pi_operation d)), (''provider'', JStr (pi_provider d))] db)))"

definition update_command :: "uuid \<Rightarrow> (payment_command \<Rightarrow> payment_command) \<Rightarrow> billing_db \<Rightarrow> billing_db" where
  "update_command i f db = db\<lparr>payment_commands := update_where (\<lambda>c. pc_id c = i) f (payment_commands db)\<rparr>"

text \<open>The checks on the answer of the provider.\<close>

definition checkout_ok :: "time \<Rightarrow> url_parts \<Rightarrow> provider_checkout_result \<Rightarrow> bool" where
  "checkout_ok now parsed r \<longleftrightarrow>
     (let ref = cx_provider_request_ref r; url = cx_checkout_url r
      in strip ref \<noteq> [] \<and> strip ref = ref \<and> length (strip ref) \<le> 500
         \<and> strip url \<noteq> [] \<and> strip url = url \<and> length (strip url) \<le> 2048 \<and> safe_https parsed
         \<and> \<not> tz_none (cx_expires_at r) \<and> clock_of (cx_expires_at r) > now)"

definition accept_checkout ::
  "uuid \<Rightarrow> time \<Rightarrow> payment_command \<Rightarrow> provider_checkout_result \<Rightarrow> billing_db
   \<Rightarrow> (payment_command \<times> billing_db) result" where
  "accept_checkout ws now command r db =
     (let ref = strip (cx_provider_request_ref r);
          accept = (\<lambda>c. c\<lparr>pc_provider_request_ref := Some ref,
                         pc_checkout_url := Some (strip (cx_checkout_url r)),
                         pc_expires_at := Some (clock_of (cx_expires_at r)), pc_error_code := None,
                         pc_state := PaymentCommandState.PROVIDER_ACCEPTED\<rparr>);
          taken = (\<lambda>c. pc_provider_request_ref c = Some ref \<and> pc_id c \<noteq> pc_id command)
      in if list_ex (\<lambda>c. pc_workspace_id c = ws \<and> taken c) (payment_commands db)
         then Inl (app_error ''PAYMENT_PROVIDER_REF_REUSED'' 503)
         else if list_ex taken (payment_commands db)
         then Inl (IntegrityError ''uq_billing_payment_commands_provider_request_ref'')
         else Inr (accept command,
                add_outbox_event (Some ws) ''payment_command'' (uuid_str (pc_id command))
                  ''billing.payment_intent.provider_accepted'' SCHEMA_VERSION
                  (JDict [(''workspace_id'', JUuid ws), (''payment_command_id'', JUuid (pc_id command)),
                          (''provider'', JStr (pc_provider command)), (''provider_request_ref'', JStr ref)])
                  now (update_command (pc_id command) accept db)))"

definition command_settled :: "payment_command \<Rightarrow> bool" where
  "command_settled c \<longleftrightarrow> pc_state c \<in> {PaymentCommandState.PROVIDER_ACCEPTED,
     PaymentCommandState.PROVIDER_REJECTED, PaymentCommandState.FAILED}"

definition execute_payment_intent ::
  "(string \<Rightarrow> bool) \<Rightarrow> gateway_registry \<Rightarrow> time \<Rightarrow> uuid \<Rightarrow> uuid \<Rightarrow> billing_db
   \<Rightarrow> (payment_command \<times> billing_db) result" where
  "execute_payment_intent bracket_ok gateways now ws command_id db =
     (case List.find (\<lambda>c. pc_workspace_id c = ws \<and> pc_id c = command_id) (payment_commands db) of
        None \<Rightarrow> Inl (app_error ''PAYMENT_COMMAND_NOT_FOUND'' 404)
      | Some command \<Rightarrow>
          if command_settled command then Inr (command, db)
          else if pc_state command \<noteq> PaymentCommandState.PENDING_PROVIDER
          then Inl (app_error ''PAYMENT_COMMAND_NOT_PENDING'' 409)
          else
            (case metadata_get (pc_request_snapshot command) ''return_url'' of
               JStr return_url \<Rightarrow>
                 if return_url = [] then Inl (app_error ''PAYMENT_COMMAND_SNAPSHOT_INVALID'' 503)
                 else
                   bind_result (resolve_gateway gateways (pc_provider command)) (\<lambda>gateway.
                   bind_result (gateway \<lparr>cr_command_id = pc_id command, cr_workspace_id = ws,
                       cr_operation = pc_operation command,
                       cr_request_snapshot = pc_request_snapshot command,
                       cr_idempotency_key = ''payment-command:'' @ uuid_str (pc_id command),
                       cr_return_url = return_url\<rparr>) (\<lambda>r.
                   bind_result (urlsplit bracket_ok (strip (cx_checkout_url r))) (\<lambda>parsed.
                     if \<not> checkout_ok now parsed r
                     then Inl (app_error ''PAYMENT_PROVIDER_RESULT_INVALID'' 503)
                     else accept_checkout ws now command r db)))
             | _ \<Rightarrow> Inl (app_error ''PAYMENT_COMMAND_SNAPSHOT_INVALID'' 503)))"

definition payment_state_value :: "PaymentCommandState \<Rightarrow> string" where
  "payment_state_value s = (case s of
     PaymentCommandState.PENDING_PROVIDER \<Rightarrow> ''PENDING_PROVIDER''
   | PaymentCommandState.PROVIDER_ACCEPTED \<Rightarrow> ''PROVIDER_ACCEPTED''
   | PaymentCommandState.PROVIDER_REJECTED \<Rightarrow> ''PROVIDER_REJECTED''
   | PaymentCommandState.FAILED \<Rightarrow> ''FAILED'')"

definition fail_payment_intent ::
  "time \<Rightarrow> uuid \<Rightarrow> uuid \<Rightarrow> string \<Rightarrow> bool \<Rightarrow> billing_db \<Rightarrow> (payment_command \<times> billing_db) result" where
  "fail_payment_intent now ws command_id error_code provider_rejected db =
     (case List.find (\<lambda>c. pc_workspace_id c = ws \<and> pc_id c = command_id) (payment_commands db) of
        None \<Rightarrow> Inl (app_error ''PAYMENT_COMMAND_NOT_FOUND'' 404)
      | Some command \<Rightarrow>
          if command_settled command then Inr (command, db)
          else if pc_state command \<noteq> PaymentCommandState.PENDING_PROVIDER
          then Inl (app_error ''PAYMENT_COMMAND_NOT_PENDING'' 409)
          else
            let safe_code = (if error_code \<noteq> [] then take 120 error_code else ''PAYMENT_CHECKOUT_FAILED'');
                st = (if provider_rejected then PaymentCommandState.PROVIDER_REJECTED
                      else PaymentCommandState.FAILED);
                f = (\<lambda>c. c\<lparr>pc_state := st, pc_error_code := Some safe_code\<rparr>)
            in Inr (f command,
                 add_outbox_event (Some ws) ''payment_command'' (uuid_str (pc_id command))
                   ''billing.payment_intent.failed'' SCHEMA_VERSION
                   (JDict [(''workspace_id'', JUuid ws), (''payment_command_id'', JUuid (pc_id command)),
                           (''state'', JStr (payment_state_value st)), (''error_code'', JStr safe_code)])
                   now (update_command (pc_id command) f db)))"

section \<open>The worker\<close>

definition provider_rejected :: "error \<Rightarrow> bool" where
  "provider_rejected e \<longleftrightarrow> 400 \<le> err_status e \<and> err_status e < 500 \<and> err_status e \<notin> {408, 429}"

text \<open>
  Every exception of the execution becomes a terminal failure, except that of a failed flush: it
  leaves the session without a usable transaction, and the failure handler's query raises.
\<close>

definition run_payment_intent ::
  "(string \<Rightarrow> bool) \<Rightarrow> gateway_registry \<Rightarrow> time \<Rightarrow> uuid \<Rightarrow> uuid \<Rightarrow> billing_db
   \<Rightarrow> (PaymentCommandState \<times> billing_db) result" where
  "run_payment_intent bracket_ok gateways now ws command_id db =
     (case execute_payment_intent bracket_ok gateways now ws command_id db of
        Inr (c, db) \<Rightarrow> Inr (pc_state c, db)
      | Inl e \<Rightarrow>
          (case e of
             IntegrityError _ \<Rightarrow> Inl (RuntimeError ''PendingRollbackError'')
           | AppError code _ _ _ \<Rightarrow>
               bind_result (fail_payment_intent now ws command_id code (provider_rejected e) db)
                 (\<lambda>(c, db). Inr (pc_state c, db))
           | _ \<Rightarrow>
               bind_result
                 (fail_payment_intent now ws command_id ''PAYMENT_CHECKOUT_EXECUTION_FAILED'' False db)
                 (\<lambda>(c, db). Inr (pc_state c, db))))"

section \<open>Provider events\<close>

definition PAYMENT_SENSITIVE_KEYS :: "string list" where
  "PAYMENT_SENSITIVE_KEYS =
     [''card'', ''pan'', ''cvc'', ''cvv'', ''secret'', ''token'', ''password'', ''email'', ''phone'']"

definition sensitive_key :: "string \<Rightarrow> bool" where
  "sensitive_key key \<longleftrightarrow>
     list_ex (\<lambda>w. w \<in> set PAYMENT_SENSITIVE_KEYS)
       (split_on CHR ''_'' (replace_char CHR ''.'' CHR ''_'' (replace_char CHR ''-'' CHR ''_'' (lower key))))"

fun payment_sensitive_paths :: "json \<Rightarrow> string \<Rightarrow> string list"
  and sensitive_items :: "(string \<times> json) list \<Rightarrow> string \<Rightarrow> string list"
  and sensitive_elems :: "json list \<Rightarrow> nat \<Rightarrow> string \<Rightarrow> string list" where
  "payment_sensitive_paths (JDict kvs) path = sensitive_items kvs path"
| "payment_sensitive_paths (JList vs) path = sensitive_elems vs 0 path"
| "payment_sensitive_paths _ path = []"
| "sensitive_items [] path = []"
| "sensitive_items ((key, nested) # kvs) path =
     (let current = path @ ''.'' @ key
      in (if sensitive_key key then [current] else payment_sensitive_paths nested current)
         @ sensitive_items kvs path)"
| "sensitive_elems [] n path = []"
| "sensitive_elems (nested # vs) n path =
     payment_sensitive_paths nested (path @ ''['' @ nat_str n @ '']'') @ sensitive_elems vs (Suc n) path"

definition ingest_payment_event ::
  "(string \<Rightarrow> string) \<Rightarrow> verified_payment_event result \<Rightarrow> (string \<Rightarrow> string \<Rightarrow> string \<Rightarrow> string result) \<Rightarrow> time
   \<Rightarrow> string \<Rightarrow> string \<Rightarrow> billing_db \<Rightarrow> (payment_provider_event \<times> billing_db) result" where
  "ingest_payment_event sha256 verdict store now provider body db =
     bind_result verdict (\<lambda>v.
     if ve_workspace_id v = 0 \<or> ve_provider_event_id v = [] then Inl (app_error ''PAYMENT_EVENT_INVALID'' 422)
     else let paths = payment_sensitive_paths (ve_normalized_payload v) ''payload'' in
     if paths \<noteq> []
     then Inl (AppError ''PAYMENT_EVENT_NORMALIZATION_UNSAFE'' 503
            (map (\<lambda>p. (p, ''store only opaque references'')) paths) None)
     else let raw_hash = sha256 body;
              same = (\<lambda>e. pe_provider e = provider \<and> pe_provider_event_id e = ve_provider_event_id v) in
     case List.find (\<lambda>e. pe_workspace_id e = ve_workspace_id v \<and> same e) (provider_events db) of
       Some e \<Rightarrow>
         if pe_raw_payload_hash e \<noteq> raw_hash then Inl (app_error ''PAYMENT_EVENT_REPLAY_CONFLICT'' 409)
         else Inr (e, db)
     | None \<Rightarrow>
         bind_result (store provider (ve_provider_event_id v) body) (\<lambda>raw_ref.
         if raw_ref = [] then Inl (app_error ''PAYMENT_PAYLOAD_ARCHIVE_FAILED'' 503)
         else if list_ex same (provider_events db) then Inl (IntegrityError ''billing_provider_event_once'')
         else
           let (i, db) = uuid4 db;
               e = \<lparr>pe_id = i, pe_workspace_id = ve_workspace_id v, pe_provider = provider,
                    pe_provider_event_id = ve_provider_event_id v, pe_event_type = ve_event_type v,
                    pe_signature_key_version = ve_signature_key_version v,
                    pe_raw_payload_hash = raw_hash, pe_raw_payload_ref = raw_ref,
                    pe_normalized_payload = ve_normalized_payload v,
                    pe_occurred_at = ve_occurred_at v, pe_received_at = now\<rparr>
           in Inr (e, add_outbox_event (Some (ve_workspace_id v)) ''payment_provider_event'' (uuid_str i)
                ''billing.payment_provider_event.verified'' SCHEMA_VERSION
                (JDict [(''workspace_id'', JUuid (ve_workspace_id v)), (''payment_provider_event_id'', JUuid i),
                        (''provider'', JStr provider), (''provider_event_id'', JStr (ve_provider_event_id v)),
                        (''event_type'', JStr (ve_event_type v))]) now
                (db\<lparr>provider_events := provider_events db @ [e]\<rparr>))))"

end
