(* ===== verification/Billing_Reach.thy ===== *)
theory Billing_Reach
  imports Billing_Safety Billing_Payments
begin

text \<open>
  Committed billing transactions as a step relation, its reachable states, and what holds in all
  of them. An operation that raises is rolled back, so it is no step. Requests satisfy the field
  constraints of their schemas; clock readings, principals and provider answers are arbitrary.
\<close>

section \<open>Steps\<close>

inductive billing_step :: "hasher \<Rightarrow> billing_db \<Rightarrow> billing_db \<Rightarrow> bool" for H where
  open_account: "create_credit_account now p db = Inr (a, db') \<Longrightarrow> billing_step H db db'"
| grant: "valid_grant_create d \<Longrightarrow> grant_credits now p d db = Inr (g, db') \<Longrightarrow> billing_step H db db'"
| hold: "valid_hold_create d \<Longrightarrow> create_hold H now p d db = Inr (h, db') \<Longrightarrow> billing_step H db db'"
| finalize: "valid_hold_finalize d \<Longrightarrow> finalize_hold now p i d db = Inr (h, db') \<Longrightarrow> billing_step H db db'"
| release: "valid_hold_release d \<Longrightarrow> release_hold now p i d db = Inr (h, db') \<Longrightarrow> billing_step H db db'"
| usage: "valid_usage_create d \<Longrightarrow> record_usage now p d db = Inr (u, db') \<Longrightarrow> billing_step H db db'"
| reverse: "reverse_credit_debit now p i key reason bucket ex pol db = Inr (e, db') \<Longrightarrow> billing_step H db db'"
| queue: "valid_payment_intent bok d \<Longrightarrow> queue_payment_intent H now p d db = Inr (c, db')
    \<Longrightarrow> billing_step H db db'"
| work: "run_payment_intent bok gateways now ws i db = Inr (s, db') \<Longrightarrow> billing_step H db db'"
| ingest: "ingest_payment_event sha verdict store now provider body db = Inr (ev, db') \<Longrightarrow> billing_step H db db'"

definition empty_ledger :: "billing_db \<Rightarrow> bool" where
  "empty_ledger db \<longleftrightarrow> credit_accounts db = [] \<and> credit_grants db = [] \<and> credit_holds db = []
     \<and> hold_allocations db = [] \<and> credit_ledger db = []"

inductive billing_reachable :: "hasher \<Rightarrow> billing_db \<Rightarrow> bool" for H where
  init: "empty_ledger db \<Longrightarrow> billing_reachable H db"
| step: "billing_reachable H db \<Longrightarrow> billing_step H db db' \<Longrightarrow> billing_reachable H db'"

inductive_cases billing_stepE: "billing_step H db db'"

section \<open>The invariant\<close>

lemma outbox_frame [simp]:
  "credit_accounts (add_outbox_event w ty ai et v pl now db) = credit_accounts db"
  "credit_grants (add_outbox_event w ty ai et v pl now db) = credit_grants db"
  "credit_holds (add_outbox_event w ty ai et v pl now db) = credit_holds db"
  "hold_allocations (add_outbox_event w ty ai et v pl now db) = hold_allocations db"
  "credit_ledger (add_outbox_event w ty ai et v pl now db) = credit_ledger db"
  "usage_records (add_outbox_event w ty ai et v pl now db) = usage_records db"
  "payment_commands (add_outbox_event w ty ai et v pl now db) = payment_commands db"
  "provider_events (add_outbox_event w ty ai et v pl now db) = provider_events db"
  "uuid_supply (add_outbox_event w ty ai et v pl now db) = Suc (uuid_supply db)"
  by (simp_all add: add_outbox_event_def uuid4_def Let_def)

text \<open>\<open>same_ledger\<close>: the ledger tables are as before.\<close>

definition same_ledger :: "billing_db \<Rightarrow> billing_db \<Rightarrow> bool" where
  "same_ledger db db' \<longleftrightarrow> uuid_supply db \<le> uuid_supply db'
     \<and> credit_accounts db' = credit_accounts db \<and> credit_grants db' = credit_grants db
     \<and> credit_holds db' = credit_holds db \<and> hold_allocations db' = hold_allocations db
     \<and> credit_ledger db' = credit_ledger db"

lemma same_ledger_refl [simp]: "same_ledger db db"
  by (simp add: same_ledger_def)

lemma queue_same_ledger:
  "queue_payment_intent H now p d db = Inr (c, db') \<Longrightarrow> same_ledger db db'"
  by (auto simp: queue_payment_intent_def same_ledger_def Let_def uuid4_def result_simps
      split: option.splits if_splits)

lemma accept_same_ledger: "accept_checkout ws now c r db = Inr (c', db') \<Longrightarrow> same_ledger db db'"
  by (auto simp: accept_checkout_def same_ledger_def Let_def update_command_def split: if_splits)

lemma execute_same_ledger:
  "execute_payment_intent bok gs now ws i db = Inr (c, db') \<Longrightarrow> same_ledger db db'"
  by (auto simp: execute_payment_intent_def result_simps
      dest: accept_same_ledger split: option.splits if_splits json.splits)

lemma fail_same_ledger: "fail_payment_intent now ws i code rej db = Inr (c, db') \<Longrightarrow> same_ledger db db'"
  by (auto simp: fail_payment_intent_def same_ledger_def Let_def update_command_def
      split: option.splits if_splits)

lemma run_same_ledger: "run_payment_intent bok gs now ws i db = Inr (s, db') \<Longrightarrow> same_ledger db db'"
  by (auto simp: run_payment_intent_def result_simps dest: execute_same_ledger fail_same_ledger
      split: sum.splits error.splits)

lemma ingest_same_ledger:
  "ingest_payment_event sha v st now pr body db = Inr (e, db') \<Longrightarrow> same_ledger db db'"
  by (auto simp: ingest_payment_event_def result_simps same_ledger_def Let_def uuid4_def
      split: option.splits if_splits)

lemma usage_same_ledger: "record_usage now p d db = Inr (u, db') \<Longrightarrow> same_ledger db db'"
  by (auto simp: record_usage_def result_simps uuid4_def Let_def same_ledger_def split: option.splits if_splits)

lemmas same_ledger_ops = queue_same_ledger run_same_ledger ingest_same_ledger usage_same_ledger

lemma same_ledger_inv: "ledger_inv db \<Longrightarrow> same_ledger db db' \<Longrightarrow> ledger_inv db'"
  by (rule ledger_inv_supply) (auto simp: same_ledger_def)

lemmas ledger_preserves = create_credit_account_preserves grant_credits_preserves create_hold_preserves
  finalize_hold_preserves release_hold_preserves reverse_credit_debit_preserves

lemma step_ledger_inv:
  assumes "billing_step H db db'" and "ledger_inv db"
  shows "ledger_inv db'"
  using assms by (cases rule: billing_step.cases) (blast intro: ledger_preserves same_ledger_inv same_ledger_ops)+

lemma empty_ledger_inv: "empty_ledger db \<Longrightarrow> ledger_inv db"
  by (simp add: empty_ledger_def ledger_inv_def keys_ok_def books_def reversals_once_def)

lemma reachable_inv: "billing_reachable H db \<Longrightarrow> ledger_inv db"
  by (induction rule: billing_reachable.induct) (auto intro: empty_ledger_inv step_ledger_inv)

end
