(* ===== verification/Billing_Replay.thy ===== *)
theory Billing_Replay
  imports Billing_Reach
begin

text \<open>
  Idempotence of the billing commands. Workers and clients deliver requests at least once; the
  interface \<open>idempotent_command\<close> states when that is as good as exactly once, and the commands of
  the service implement it.
\<close>

section \<open>The interface\<close>

text \<open>\<open>deliver run r ts db\<close>: the request arrives once per clock reading in \<open>ts\<close>.\<close>

fun deliver :: "(time \<Rightarrow> 'req \<Rightarrow> 'db \<Rightarrow> ('row \<times> 'db) result) \<Rightarrow> 'req \<Rightarrow> time list \<Rightarrow> 'db \<Rightarrow> ('row list \<times> 'db) result"
  where
  "deliver run r [] db = Inr ([], db)"
| "deliver run r (t # ts) db =
     bind_result (run t r db) (\<lambda>(x, db). bind_result (deliver run r ts db) (\<lambda>(xs, db). Inr (x # xs, db)))"

locale idempotent_command =
  fixes run :: "time \<Rightarrow> 'req \<Rightarrow> 'db \<Rightarrow> ('row \<times> 'db) result"
    and inv :: "'db \<Rightarrow> bool"
    and fresh :: "time \<Rightarrow> 'req \<Rightarrow> bool"
    and wf :: "'req \<Rightarrow> bool"
  assumes run_inv: "inv db \<Longrightarrow> wf r \<Longrightarrow> run t r db = Inr (x, db') \<Longrightarrow> inv db'"
    and run_again: "inv db \<Longrightarrow> wf r \<Longrightarrow> run t r db = Inr (x, db') \<Longrightarrow> fresh t' r \<Longrightarrow> run t' r db' = Inr (x, db')"
begin

lemma redeliver:
  assumes "inv db" and "wf r" and "run t r db = Inr (x, db')" and "\<forall>t' \<in> set ts. fresh t' r"
  shows "deliver run r ts db' = Inr (replicate (length ts) x, db')"
  using assms(4) run_again [OF assms(1-3)] by (induction ts) auto

lemma exactly_once:
  assumes "inv db" and "wf r" and "run t r db = Inr (x, db')" and "\<forall>t' \<in> set ts. fresh t' r"
  shows "deliver run r (t # ts) db = Inr (replicate (Suc (length ts)) x, db')"
  using assms(3) redeliver [OF assms] by simp

end

section \<open>The commands\<close>

lemma settled_hold_ids [simp]:
  "ch_id (settled_hold c r ev fc st now h) = ch_id h"
  "ch_workspace_id (settled_hold c r ev fc st now h) = ch_workspace_id h"
  by (simp_all add: settled_hold_def)

lemma find_hold_settled:
  assumes "List.find (\<lambda>h. ch_workspace_id h = ws \<and> ch_id h = i) hs = Some h"
  shows "List.find (\<lambda>h. ch_workspace_id h = ws \<and> ch_id h = i)
           (update_where (\<lambda>x. ch_id x = i) (settled_hold c r ev fc st now) hs)
         = Some (settled_hold c r ev fc st now h)"
  using assms find_SomeD [OF assms]
  by (simp add: find_update_where)

lemma finalize_commit_hold:
  assumes "finalize_commit now p h d r account db = Inr (h', db')"
  shows "h' = settled_hold (hf_consumed r) (hf_released r) (hz_finalization_event_id d) (hz_failure_class d)
           CreditHoldState.FINALIZED now h"
    "credit_holds db' = update_where (\<lambda>x. ch_id x = ch_id h)
       (settled_hold (hf_consumed r) (hf_released r) (hz_finalization_event_id d) (hz_failure_class d)
          CreditHoldState.FINALIZED now) (credit_holds db)"
proof -
  show "h' = settled_hold (hf_consumed r) (hf_released r) (hz_finalization_event_id d) (hz_failure_class d)
           CreditHoldState.FINALIZED now h"
    using assms by (auto simp: finalize_commit_def Let_def result_simps)
  show "credit_holds db' = update_where (\<lambda>x. ch_id x = ch_id h)
       (settled_hold (hf_consumed r) (hf_released r) (hz_finalization_event_id d) (hz_failure_class d)
          CreditHoldState.FINALIZED now) (credit_holds db)"
    using assms by (rule finalize_commit_db) (simp add: row_update_defs set_balances_def)
qed

text \<open>A finalization that committed, with the hold it found and what it did.\<close>

lemma finalize_hold_cases:
  assumes inv: "ledger_inv db" and ok: "finalize_hold now p i d db = Inr (h', db')"
  obtains (replay) "List.find (\<lambda>h. ch_workspace_id h = workspace_id p \<and> ch_id h = i) (credit_holds db) = Some h'"
      "ch_state h' = CreditHoldState.FINALIZED" "ch_actual_amount h' = Some (hz_actual_amount d)"
      "ch_finalization_event_id h' = Some (hz_finalization_event_id d)" "ch_failure_class h' = hz_failure_class d"
      "db' = db"
  | (fresh) h account db1 where
      "List.find (\<lambda>h. ch_workspace_id h = workspace_id p \<and> ch_id h = i) (credit_holds db) = Some h"
      "ch_state h = CreditHoldState.HELD" "0 \<le> hz_actual_amount d" "hz_actual_amount d \<le> ch_maximum_amount h"
      "get_account (workspace_id p) db = Inr account"
      "settles h (ch_maximum_amount h) (hz_actual_amount d) db db1"
      "finalize_commit now p h d \<lparr>hf_consumed = hz_actual_amount d,
          hf_released = ch_maximum_amount h - hz_actual_amount d, hf_replay = False\<rparr> account db1 = Inr (h', db')"
proof -
  from ok obtain h where found:
      "List.find (\<lambda>h. ch_workspace_id h = workspace_id p \<and> ch_id h = i) (credit_holds db) = Some h"
    by (auto simp: finalize_hold_def split: option.splits)
  note h = hold_found [OF found]
  from ok found obtain r where r: "finalize_hold_amounts (ch_state h) (Finite (ch_maximum_amount h))
      (Finite (hz_actual_amount d)) (ch_actual_amount h) = Inr r"
    by (auto simp: finalize_hold_def result_simps)
  show thesis
  proof (cases "hf_replay r")
    case True
    then show thesis
      using ok found r finalize_hold_amounts_replay [OF r True] replay
      by (auto simp: finalize_hold_def split: if_splits)
  next
    case False
    from finalize_hold_amounts_fresh [OF r False]
    have held: "ch_state h = CreditHoldState.HELD"
      and c: "0 \<le> hz_actual_amount d" "hz_actual_amount d \<le> ch_maximum_amount h"
      and rr: "r = \<lparr>hf_consumed = hz_actual_amount d, hf_released = ch_maximum_amount h - hz_actual_amount d,
                hf_replay = False\<rparr>"
      using False by (cases r; auto)+
    obtain db1 where db1: "finalize_loop (hz_actual_amount d) (sort_key ha_allocation_order
        (allocations_of (ch_workspace_id h) (ch_id h) db)) db = Inr (0, db1)"
        "settles h (ch_maximum_amount h) (hz_actual_amount d) db db1"
      using finalize_loop_active [OF inv h(1) held c] .
    from ok found r False obtain account where acc: "get_account (workspace_id p) db = Inr account"
      by (auto simp: finalize_hold_def result_simps)
    have "finalize_commit now p h d r account db1 = Inr (h', db')"
      using ok found r False acc db1(1) h by (simp add: finalize_hold_def rr)
    then show thesis using fresh [OF found held c acc db1(2)] rr by simp
  qed
qed

lemma finalize_again:
  assumes inv: "ledger_inv db" and ok: "finalize_hold now p i d db = Inr (h', db')"
  shows "finalize_hold now' p i d db' = Inr (h', db')"
proof (rule finalize_hold_cases [OF inv ok])
  assume *: "List.find (\<lambda>h. ch_workspace_id h = workspace_id p \<and> ch_id h = i) (credit_holds db) = Some h'"
    "ch_state h' = CreditHoldState.FINALIZED" "ch_actual_amount h' = Some (hz_actual_amount d)"
    "ch_finalization_event_id h' = Some (hz_finalization_event_id d)" "ch_failure_class h' = hz_failure_class d"
    "db' = db"
  then obtain r where "finalize_hold_amounts (ch_state h') (Finite (ch_maximum_amount h'))
      (Finite (hz_actual_amount d)) (ch_actual_amount h') = Inr r"
    using ok by (auto simp: finalize_hold_def result_simps)
  moreover from this have "hf_replay r"
    using finalize_hold_amounts_fresh *(2) by fastforce
  ultimately show ?thesis using * by (simp add: finalize_hold_def)
next
  fix h account db1
  assume f: "List.find (\<lambda>h. ch_workspace_id h = workspace_id p \<and> ch_id h = i) (credit_holds db) = Some h"
    and c: "0 \<le> hz_actual_amount d" and st: "settles h (ch_maximum_amount h) (hz_actual_amount d) db db1"
    and commit: "finalize_commit now p h d \<lparr>hf_consumed = hz_actual_amount d,
          hf_released = ch_maximum_amount h - hz_actual_amount d, hf_replay = False\<rparr> account db1 = Inr (h', db')"
  note h = hold_found [OF f]
  have "0 < ch_maximum_amount h" using inv h by (auto simp: ledger_inv_def hold_ok_def)
  moreover have "List.find (\<lambda>h. ch_workspace_id h = workspace_id p \<and> ch_id h = i) (credit_holds db') = Some h'"
    using finalize_commit_hold [OF commit] find_hold_settled [OF f] st h by (simp add: settles_def)
  moreover note finalize_commit_hold(1) [OF commit]
  ultimately show ?thesis
    using c by (simp add: finalize_hold_def finalize_hold_amounts_def require_positive_amount_def
        require_nonnegative_amount_def)
qed

lemma release_again:
  assumes inv: "ledger_inv db" and ok: "release_hold now p i d db = Inr (h', db')"
  shows "release_hold now' p i d db' = Inr (h', db')"
proof -
  from ok obtain h where found:
      "List.find (\<lambda>h. ch_workspace_id h = workspace_id p \<and> ch_id h = i) (credit_holds db) = Some h"
    by (auto simp: release_hold_def split: option.splits)
  note h = hold_found [OF found]
  show ?thesis
  proof (cases "ch_state h = CreditHoldState.HELD")
    case False
    then show ?thesis using ok found by (auto simp: release_hold_def split: if_splits)
  next
    case held: True
    obtain db1 where db1: "release_loop (allocations_of (ch_workspace_id h) (ch_id h) db) db = Inr db1"
        "settles h (ch_maximum_amount h) 0 db db1"
      using release_loop_active [OF inv h(1) held] .
    from ok found held obtain account where acc: "get_account (workspace_id p) db = Inr account"
      by (auto simp: release_hold_def result_simps)
    have commit: "release_commit now p h d account db1 = Inr (h', db')"
      using ok found held acc db1(1) h by (simp add: release_hold_def)
    define f where "f = settled_hold 0 (ch_maximum_amount h) (hr_release_event_id d)
      (Some (hr_failure_class d)) CreditHoldState.RELEASED now"
    have h': "h' = f h"
      using commit by (auto simp: release_commit_def Let_def result_simps uuid4_def f_def)
    have "credit_holds db' = update_where (\<lambda>x. ch_id x = ch_id h) f (credit_holds db1)"
      using commit by (rule release_commit_db) (simp add: row_update_defs set_balances_def f_def)
    then have "List.find (\<lambda>h. ch_workspace_id h = workspace_id p \<and> ch_id h = i) (credit_holds db') = Some h'"
      using find_hold_settled [OF found] db1(2) h h' by (simp add: settles_def f_def)
    then show ?thesis using h' by (simp add: release_hold_def f_def)
  qed
qed

lemma open_account_again:
  "create_credit_account now p db = Inr (a, db') \<Longrightarrow> create_credit_account now' p db' = Inr (a, db')"
  by (auto simp: create_credit_account_def uuid4_def Let_def find_append split: option.splits)

lemma grant_again:
  assumes "grant_credits now p d db = Inr (g, db')"
  shows "grant_credits now' p d db' = Inr (g, db')"
proof -
  from assms obtain account where acc: "get_account (workspace_id p) db = Inr account"
    by (auto simp: grant_credits_def result_simps)
  show ?thesis
  proof (cases "List.find (\<lambda>g. cg_workspace_id g = workspace_id p \<and> cg_source_type g = gc_source_type d
                         \<and> cg_source_id g = gc_source_id d) (credit_grants db)")
    case Some
    then show ?thesis using assms acc by (auto simp: grant_credits_def split: if_splits)
  next
    case None
    with assms acc have "credit_grants db' = credit_grants db @ [g]"
        "cg_workspace_id g = workspace_id p" "cg_source_type g = gc_source_type d" "cg_source_id g = gc_source_id d"
        "cg_original_amount g = gc_amount d" "cg_bucket_kind g = gc_bucket_kind d"
      and acc': "credit_accounts db' = update_where (\<lambda>a. ca_id a = ca_id account)
          (\<lambda>a. a\<lparr>ca_available_balance := ca_available_balance account + gc_amount d\<rparr>) (credit_accounts db)"
      by (auto simp: grant_credits_def result_simps uuid4_def Let_def insert_grant_Inr insert_entry_Inr
          update_account_def split: if_splits)
    moreover have "is_ok (get_account (workspace_id p) db')"
      using acc by (auto simp: get_account_def acc' find_update_where split: option.splits)
    ultimately show ?thesis
      using None by (auto simp: grant_credits_def is_ok_iff find_append)
  qed
qed

lemma usage_again:
  assumes "record_usage now p d db = Inr (u, db')"
  shows "record_usage now' p d db' = Inr (u, db')"
proof (cases "List.find (\<lambda>u. ur_workspace_id u = workspace_id p
    \<and> ur_source_event_id u = uc_source_event_id d) (usage_records db)")
  case Some
  then show ?thesis using assms by (auto simp: record_usage_def split: if_splits)
next
  case None
  with assms have "usage_records db' = usage_records db @ [u]" "ur_workspace_id u = workspace_id p"
      "ur_source_event_id u = uc_source_event_id d" "ur_quantity u = uc_quantity d"
      "ur_metric_key u = uc_metric_key d" "ur_price_version_id u = uc_price_version_id d"
      "ur_subject_type u = uc_subject_type d" "ur_subject_id u = uc_subject_id d"
    by (auto simp: record_usage_def result_simps uuid4_def Let_def get_price_def
        dest!: find_SomeD split: if_splits option.splits)
  with None show ?thesis by (simp add: record_usage_def find_append)
qed

lemma queue_again:
  assumes "queue_payment_intent H now p d db = Inr (c, db')"
  shows "queue_payment_intent H now' p d db' = Inr (c, db')"
proof (cases "List.find (\<lambda>c. pc_workspace_id c = workspace_id p \<and> pc_requested_by c = subject_id p
    \<and> pc_operation c = pi_operation d \<and> pc_idempotency_key c = pi_idempotency_key d) (payment_commands db)")
  case Some
  then show ?thesis using assms by (auto simp: queue_payment_intent_def Let_def split: if_splits)
next
  case None
  with assms have "payment_commands db' = payment_commands db @ [c]" "pc_workspace_id c = workspace_id p"
      "pc_requested_by c = subject_id p" "pc_operation c = pi_operation d"
      "pc_idempotency_key c = pi_idempotency_key d" "pc_request_hash c = H (JDict (payment_intent_json d))"
    by (auto simp: queue_payment_intent_def result_simps uuid4_def Let_def)
  with None show ?thesis by (simp add: queue_payment_intent_def Let_def find_append)
qed

lemma reverse_again:
  assumes "reverse_credit_debit now p i key reason bucket ex pol db = Inr (e, db')"
  shows "reverse_credit_debit now' p i key reason bucket ex pol db' = Inr (e, db')"
proof -
  from assms obtain original where found:
      "List.find (\<lambda>e. le_workspace_id e = workspace_id p \<and> le_id e = i) (credit_ledger db) = Some original"
    by (auto simp: reverse_credit_debit_def split: option.splits)
  show ?thesis
  proof (cases "List.find (\<lambda>e. le_workspace_id e = workspace_id p
                          \<and> le_reversal_of_id e = Some (le_id original)) (credit_ledger db)")
    case Some
    then show ?thesis using assms found by (auto simp: reverse_credit_debit_def split: if_splits)
  next
    case None
    with assms found have "credit_ledger db' = credit_ledger db @ [e]" "le_workspace_id e = workspace_id p"
        "le_reversal_of_id e = Some (le_id original)" "le_idempotency_key e = key"
      by (auto simp: reverse_credit_debit_def result_simps uuid4_def Let_def insert_grant_Inr insert_entry_Inr
          update_account_def split: if_splits)
    with None found show ?thesis by (simp add: reverse_credit_debit_def find_append)
  qed
qed

lemma allocate_loop_holds: "credit_holds (snd (allocate_loop ws i n r gs db)) = credit_holds db"
  by (induction gs arbitrary: n r db) (auto simp: allocate_loop_Cons simp del: allocate_loop.simps(2))

lemma hold_again:
  assumes "create_hold H now p d db = Inr (h, db')" and "now' < hc_expires_at d"
  shows "create_hold H now' p d db' = Inr (h, db')"
proof (cases "List.find (\<lambda>h. ch_workspace_id h = workspace_id p \<and> ch_subject_type h = hc_subject_type d
    \<and> ch_subject_id h = hc_subject_id d \<and> ch_idempotency_key h = hc_idempotency_key d) (credit_holds db)")
  case Some
  then show ?thesis using assms by (auto simp: create_hold_def Let_def split: if_splits)
next
  case None
  from assms(1) None obtain price account where acc: "get_account (workspace_id p) db = Inr account"
    and price: "get_price (workspace_id p) (hc_price_version_id d) now db = Inr price"
    by (auto simp: create_hold_def result_simps Let_def split: if_splits)
  define row where "row = hold_row p d price account (H (hold_create_json d)) (uuid_supply db)"
  define db2 where "db2 = snd (allocate_loop (workspace_id p) (uuid_supply db) 0 (hc_maximum_amount d)
    (eligible_grants (workspace_id p) (ca_id account) now db)
    (db\<lparr>uuid_supply := Suc (uuid_supply db), credit_holds := credit_holds db @ [row]\<rparr>))"
  have "hold_commit now p d price account row db2 = Inr (h, db')"
    using assms(1) None acc price
    by (auto simp: create_hold_def Let_def uuid4_def row_def db2_def split_beta split: if_splits)
  from hold_commit_db [OF this] have "h = row" "credit_holds db' = credit_holds db2"
    by (auto simp: set_balances_def update_account_def)
  then have "credit_holds db' = credit_holds db @ [h]"
    by (simp add: db2_def allocate_loop_holds)
  with None assms(2) \<open>h = row\<close> show ?thesis
    by (simp add: create_hold_def Let_def find_append row_def hold_row_def)
qed

section \<open>The commands implement the interface\<close>

interpretation finalize_cmd: idempotent_command
  "\<lambda>now (p, i, d). finalize_hold now p i d" ledger_inv "\<lambda>_ _. True" "\<lambda>_. True"
  by unfold_locales (auto intro: finalize_hold_preserves finalize_again)

interpretation release_cmd: idempotent_command
  "\<lambda>now (p, i, d). release_hold now p i d" ledger_inv "\<lambda>_ _. True" "\<lambda>_. True"
  by unfold_locales (auto intro: release_hold_preserves release_again)

interpretation hold_cmd: idempotent_command
  "\<lambda>now (H, p, d). create_hold H now p d" ledger_inv "\<lambda>now (H, p, d). now < hc_expires_at d"
  "\<lambda>(H, p, d). valid_hold_create d"
  by unfold_locales (auto intro: create_hold_preserves hold_again)

interpretation grant_cmd: idempotent_command
  "\<lambda>now (p, d). grant_credits now p d" ledger_inv "\<lambda>_ _. True" "\<lambda>(p, d). valid_grant_create d"
  by unfold_locales (auto intro: grant_credits_preserves grant_again)

interpretation usage_cmd: idempotent_command
  "\<lambda>now (p, d). record_usage now p d" ledger_inv "\<lambda>_ _. True" "\<lambda>_. True"
  by unfold_locales (auto intro: record_usage_preserves usage_again)

interpretation account_cmd: idempotent_command
  create_credit_account ledger_inv "\<lambda>_ _. True" "\<lambda>_. True"
  by unfold_locales (auto intro: create_credit_account_preserves open_account_again)

interpretation queue_cmd: idempotent_command
  "\<lambda>now (H, p, d). queue_payment_intent H now p d" ledger_inv "\<lambda>_ _. True" "\<lambda>_. True"
  by unfold_locales (auto intro: same_ledger_inv queue_same_ledger queue_again)

interpretation reverse_cmd: idempotent_command
  "\<lambda>now (p, i, key, reason, bucket, ex, pol). reverse_credit_debit now p i key reason bucket ex pol"
  ledger_inv "\<lambda>_ _. True" "\<lambda>_. True"
  by unfold_locales (auto intro: reverse_credit_debit_preserves reverse_again)

end
