(* ===== verification/Billing_Demo.thy ===== *)
theory Billing_Demo
  imports Billing_Replay
begin

text \<open>
  A concrete run of the billing service, evaluated by the simplifier: a workspace opens its credit
  account, receives two grants, holds credits, finalizes one hold and releases another. The
  witnesses of the billing properties apply them along this run.
\<close>

definition demo_principal :: principal where
  "demo_principal = \<lparr>subject_id = 1, workspace_id = 2, session_id = Some 3, permissions = [],
     authentication_method = ''session'', kind = PrincipalKind.USER_SESSION, mfa_verified_at = None\<rparr>"

definition demo_price :: billing_price_version where
  "demo_price = \<lparr>pv_id = 9, pv_catalog_scope = ''GLOBAL'', pv_workspace_id = None,
     pv_metric_key = ''tokens'', pv_vendor = ''v'', pv_vendor_sku = ''s'', pv_version = 1,
     pv_state = PricingVersionState.ACTIVE, pv_unit_name = ''1k'', pv_unit_size = 1000,
     pv_credit_unit_price = 3 / 2, pv_internal_unit_cost = 1, pv_cost_currency = ''USD'',
     pv_pricing_metadata = [(''rounding'', JStr ''CEILING_UNIT'')], pv_pricing_hash = [],
     pv_effective_at = 0, pv_retired_at = None, pv_created_by = 1\<rparr>"

definition demo_db0 :: billing_db where
  "demo_db0 = \<lparr>uuid_supply = 100, request_id_context = None, audit_logs = [], outbox_events = [],
     idempotency_records = [], plan_versions = [], price_versions = [demo_price],
     credit_accounts = [], credit_grants = [], credit_holds = [], hold_allocations = [],
     credit_ledger = [], usage_records = [], payment_commands = [], provider_events = []\<rparr>"

definition demo_hash :: hasher where
  "demo_hash j = ''h''"

definition demo_grant :: "string \<Rightarrow> rat \<Rightarrow> time option \<Rightarrow> credit_grant_create" where
  "demo_grant src amount ex = \<lparr>gc_bucket_kind = CreditBucketKind.MONTHLY, gc_amount = amount,
     gc_source_type = ''plan'', gc_source_id = src, gc_expires_at = ex, gc_grant_policy_snapshot = [],
     gc_reason_code = ''MONTHLY''\<rparr>"

definition demo_hold :: "string \<Rightarrow> rat \<Rightarrow> credit_hold_create" where
  "demo_hold key amount = \<lparr>hc_subject_type = ''job'', hc_subject_id = ''j1'', hc_operation = ''generate'',
     hc_price_version_id = 9, hc_maximum_amount = amount, hc_idempotency_key = key, hc_expires_at = 1000\<rparr>"

definition demo_finalize :: "rat \<Rightarrow> credit_hold_finalize" where
  "demo_finalize amount = \<lparr>hz_finalization_event_id = ''evt-0001'', hz_actual_amount = amount,
     hz_failure_class = None, hz_reason_code = None\<rparr>"

definition demo_release :: credit_hold_release where
  "demo_release = \<lparr>hr_release_event_id = ''evt-0002'', hr_failure_class = ''TIMEOUT'', hr_reason_code = ''FAILED''\<rparr>"

definition db_of :: "('a \<times> billing_db) result \<Rightarrow> billing_db" where
  "db_of r = (case r of Inl _ \<Rightarrow> demo_db0 | Inr (_, db) \<Rightarrow> db)"

definition demo_db1 :: billing_db where
  "demo_db1 = db_of (create_credit_account 10 demo_principal demo_db0)"

definition demo_db2 :: billing_db where
  "demo_db2 = db_of (grant_credits 11 demo_principal (demo_grant ''a'' 5 (Some 500)) demo_db1)"

definition demo_db3 :: billing_db where
  "demo_db3 = db_of (grant_credits 12 demo_principal (demo_grant ''b'' 10 None) demo_db2)"

definition demo_db4 :: billing_db where
  "demo_db4 = db_of (create_hold demo_hash 13 demo_principal (demo_hold ''key-0001'' 8) demo_db3)"

lemmas demo_defs = demo_principal_def demo_price_def demo_hash_def demo_grant_def demo_hold_def
  demo_finalize_def demo_release_def db_of_def

lemmas op_defs = get_account_def get_price_def pricing_is_effective_def uuid4_def Let_def insert_grant_def
  insert_entry_def entry_fits_def fits_19_6_def row_update_defs update_where_def set_balances_def

lemma demo_tables0:
  "uuid_supply demo_db0 = 100" "credit_accounts demo_db0 = []" "credit_grants demo_db0 = []"
  "credit_holds demo_db0 = []" "hold_allocations demo_db0 = []" "credit_ledger demo_db0 = []"
  "price_versions demo_db0 = [demo_price]"
  by (simp_all add: demo_db0_def)

lemma demo_step1: "create_credit_account 10 demo_principal demo_db0 = Inr (\<lparr>ca_id = 100, ca_workspace_id = 2,
    ca_available_balance = 0, ca_held_balance = 0\<rparr>, demo_db1)"
  by (simp add: demo_db1_def create_credit_account_def demo_tables0 demo_defs op_defs)

lemma demo_tables1:
  "uuid_supply demo_db1 = 103" "credit_grants demo_db1 = []"
  "credit_accounts demo_db1 = [\<lparr>ca_id = 100, ca_workspace_id = 2, ca_available_balance = 0, ca_held_balance = 0\<rparr>]"
  "credit_holds demo_db1 = []" "hold_allocations demo_db1 = []" "credit_ledger demo_db1 = []"
  "price_versions demo_db1 = [demo_price]"
  by (simp_all add: demo_db1_def create_credit_account_def demo_tables0 demo_defs op_defs)

lemma demo_step2:
  "\<exists>g. grant_credits 11 demo_principal (demo_grant ''a'' 5 (Some 500)) demo_db1 = Inr (g, demo_db2)"
  by (simp add: demo_db2_def grant_credits_def demo_tables1 demo_defs op_defs)

definition demo_row :: "uuid \<Rightarrow> string \<Rightarrow> rat \<Rightarrow> rat \<Rightarrow> rat \<Rightarrow> time \<Rightarrow> time option \<Rightarrow> credit_grant" where
  "demo_row i src orig av he t ex = \<lparr>cg_id = i, cg_workspace_id = 2, cg_account_id = 100,
     cg_bucket_kind = CreditBucketKind.MONTHLY, cg_original_amount = orig, cg_available_amount = av,
     cg_held_amount = he, cg_source_type = ''plan'', cg_source_id = src, cg_granted_at = t,
     cg_expires_at = ex, cg_grant_policy_snapshot = []\<rparr>"

definition demo_entry :: "uuid \<Rightarrow> uuid \<Rightarrow> string \<Rightarrow> rat \<Rightarrow> rat \<Rightarrow> time \<Rightarrow> credit_ledger_entry" where
  "demo_entry i g src amount av t = \<lparr>le_id = i, le_workspace_id = 2, le_account_id = 100,
     le_grant_id = Some g, le_hold_id = None, le_kind = CreditEntryKind.GRANT,
     le_direction = LedgerDirection.CREDIT, le_amount = amount, le_available_delta = amount,
     le_held_delta = 0, le_available_after = av, le_held_after = 0, le_transaction_group_id = i + 1,
     le_reversal_of_id = None, le_idempotency_key = ''grant:plan:'' @ src, le_source_type = ''plan'',
     le_source_id = src, le_reason_code = ''MONTHLY'', le_pricing_snapshot = None, le_actor_id = Some 1,
     le_posted_at = t\<rparr>"

lemma demo_tables2:
  "uuid_supply demo_db2 = 108" "credit_grants demo_db2 = [demo_row 103 ''a'' 5 5 0 11 (Some 500)]"
  "credit_accounts demo_db2 = [\<lparr>ca_id = 100, ca_workspace_id = 2, ca_available_balance = 5, ca_held_balance = 0\<rparr>]"
  "credit_holds demo_db2 = []" "hold_allocations demo_db2 = []"
  "price_versions demo_db2 = [demo_price]" "credit_ledger demo_db2 = [demo_entry 104 103 ''a'' 5 5 11]"
  by (simp_all add: demo_db2_def grant_credits_def demo_tables1 demo_defs op_defs demo_row_def demo_entry_def)

lemma demo_step3:
  "\<exists>g. grant_credits 12 demo_principal (demo_grant ''b'' 10 None) demo_db2 = Inr (g, demo_db3)"
  by (simp add: demo_db3_def grant_credits_def demo_tables2 demo_defs op_defs demo_row_def demo_entry_def)

lemma demo_tables3:
  "uuid_supply demo_db3 = 113"
  "credit_grants demo_db3 = [demo_row 103 ''a'' 5 5 0 11 (Some 500), demo_row 108 ''b'' 10 10 0 12 None]"
  "credit_accounts demo_db3 = [\<lparr>ca_id = 100, ca_workspace_id = 2, ca_available_balance = 15, ca_held_balance = 0\<rparr>]"
  "credit_holds demo_db3 = []" "hold_allocations demo_db3 = []"
  "price_versions demo_db3 = [demo_price]"
  "credit_ledger demo_db3 = [demo_entry 104 103 ''a'' 5 5 11, demo_entry 109 108 ''b'' 10 15 12]"
  by (simp_all add: demo_db3_def grant_credits_def demo_tables2 demo_defs op_defs demo_row_def demo_entry_def)

definition demo_alloc :: "uuid \<Rightarrow> uuid \<Rightarrow> uuid \<Rightarrow> nat \<Rightarrow> rat \<Rightarrow> credit_hold_allocation" where
  "demo_alloc i h g n amount = new_alloc i 2 h g n amount"

lemma demo_eligible:
  "eligible_grants 2 100 13 demo_db3 = [demo_row 103 ''a'' 5 5 0 11 (Some 500), demo_row 108 ''b'' 10 10 0 12 None]"
  by (simp add: eligible_grants_def demo_tables3 demo_row_def grant_order_def)

lemma demo_step4:
  "create_hold demo_hash 13 demo_principal (demo_hold ''key-0001'' 8) demo_db3
   = Inr (hold_row demo_principal (demo_hold ''key-0001'' 8) demo_price
        \<lparr>ca_id = 100, ca_workspace_id = 2, ca_available_balance = 15, ca_held_balance = 0\<rparr> ''h'' 113, demo_db4)"
  by (simp add: demo_db4_def create_hold_def hold_commit_def hold_entry_def hold_row_def demo_tables3 demo_eligible
      demo_defs op_defs demo_row_def demo_entry_def ensure_balance_transition_def require_nonnegative_amount_def)

lemma demo_tables4:
  "uuid_supply demo_db4 = 120"
  "credit_grants demo_db4 = [demo_row 103 ''a'' 5 0 5 11 (Some 500), demo_row 108 ''b'' 10 7 3 12 None]"
  "credit_accounts demo_db4 = [\<lparr>ca_id = 100, ca_workspace_id = 2, ca_available_balance = 7, ca_held_balance = 8\<rparr>]"
  "hold_allocations demo_db4 = [demo_alloc 114 113 103 1 5, demo_alloc 115 113 108 2 3]"
  "credit_holds demo_db4 = [hold_row demo_principal (demo_hold ''key-0001'' 8) demo_price
        \<lparr>ca_id = 100, ca_workspace_id = 2, ca_available_balance = 15, ca_held_balance = 0\<rparr> ''h'' 113]"
  "credit_ledger demo_db4 = credit_ledger demo_db3 @ [hold_entry 13 demo_principal (demo_hold ''key-0001'' 8) demo_price
        \<lparr>ca_id = 100, ca_workspace_id = 2, ca_available_balance = 15, ca_held_balance = 0\<rparr> 113 7 8 116 117]"
  by (simp_all add: demo_db4_def create_hold_def hold_commit_def hold_entry_def hold_row_def demo_tables3 demo_eligible
      demo_defs op_defs demo_row_def demo_entry_def ensure_balance_transition_def require_nonnegative_amount_def
      demo_alloc_def new_alloc_def)

lemma demo_reachable2: "billing_reachable demo_hash demo_db2"
proof -
  have "billing_reachable demo_hash demo_db0"
    by (rule billing_reachable.init) (simp add: empty_ledger_def demo_tables0)
  then have "billing_reachable demo_hash demo_db1"
    by (rule billing_reachable.step) (rule billing_step.open_account [OF demo_step1])
  moreover have "valid_grant_create (demo_grant ''a'' 5 (Some 500))"
    by (simp add: valid_grant_create_def demo_grant_def numeric_19_6_def)
  ultimately show ?thesis
    using demo_step2 by (metis billing_reachable.step billing_step.grant)
qed

lemma demo_reachable3: "billing_reachable demo_hash demo_db3"
proof -
  have "valid_grant_create (demo_grant ''b'' 10 None)"
    by (simp add: valid_grant_create_def demo_grant_def numeric_19_6_def)
  then show ?thesis
    using demo_reachable2 demo_step3 by (metis billing_reachable.step billing_step.grant)
qed

lemma demo_reachable: "billing_reachable demo_hash demo_db4"
proof -
  have "valid_hold_create (demo_hold ''key-0001'' 8)"
    by (simp add: valid_hold_create_def demo_hold_def numeric_19_6_def)
  then show ?thesis
    using demo_reachable3 demo_step4 by (metis billing_reachable.step billing_step.hold)
qed

definition demo_db5 :: billing_db where
  "demo_db5 = db_of (finalize_hold 14 demo_principal 113 (demo_finalize 6) demo_db4)"

lemmas settle_defs = finalize_hold_def finalize_hold_amounts_def finalize_commit_def finalize_entries_def
  release_hold_def release_commit_def settle_entry_def settled_hold_def allocations_of_def
  insert_entry_if_def flush_hold_def ensure_balance_transition_def require_nonnegative_amount_def
  require_positive_amount_def opt_str_def

lemma demo_step5: "\<exists>h. finalize_hold 14 demo_principal 113 (demo_finalize 6) demo_db4 = Inr (h, demo_db5)
    \<and> ch_actual_amount h = Some 6 \<and> ch_released_amount h = Some 2"
  by (simp add: demo_db5_def settle_defs demo_tables4 demo_tables3 hold_row_def hold_entry_def
      demo_defs op_defs demo_row_def demo_entry_def demo_alloc_def new_alloc_def)

lemma demo_tables5:
  "credit_grants demo_db5 = [demo_row 103 ''a'' 5 0 0 11 (Some 500), demo_row 108 ''b'' 10 9 0 12 None]"
  "credit_accounts demo_db5 = [\<lparr>ca_id = 100, ca_workspace_id = 2, ca_available_balance = 9, ca_held_balance = 0\<rparr>]"
  by (simp_all add: demo_db5_def settle_defs demo_tables4 demo_tables3 hold_row_def hold_entry_def
      demo_defs op_defs demo_row_def demo_entry_def demo_alloc_def new_alloc_def)

lemma demo_reachable5: "billing_reachable demo_hash demo_db5"
proof -
  have "valid_hold_finalize (demo_finalize 6)"
    by (simp add: valid_hold_finalize_def demo_finalize_def numeric_19_6_def)
  then show ?thesis
    using demo_reachable demo_step5 by (metis billing_reachable.step billing_step.finalize)
qed

lemma demo_release_ok: "\<exists>h db'. release_hold 14 demo_principal 113 demo_release demo_db4 = Inr (h, db')"
  by (simp add: settle_defs demo_tables4 demo_tables3 hold_row_def hold_entry_def
      demo_defs op_defs demo_row_def demo_entry_def demo_alloc_def new_alloc_def)

end
