(* ===== verification/Billing_Range.thy ===== *)
theory Billing_Range
  imports Billing_Replay
begin

text \<open>
  The account balances of every reachable state lie in the range of their \<open>NUMERIC(19,6)\<close>
  columns: each assignment of a balance is flushed with a ledger entry that carries the new
  balances, and the entry is refused when one of them is out of range.
\<close>

definition balances_fit :: "billing_db \<Rightarrow> bool" where
  "balances_fit db \<longleftrightarrow> list_all (\<lambda>a. fits_19_6 (ca_available_balance a) \<and> fits_19_6 (ca_held_balance a))
     (credit_accounts db)"

lemma entry_fits_after:
  "entry_fits e \<Longrightarrow> fits_19_6 (le_available_after e) \<and> fits_19_6 (le_held_after e)"
  by (simp add: entry_fits_def)

lemma insert_entry_if_after:
  "insert_entry_if c mk db = Inr db' \<Longrightarrow>
   credit_accounts db' = credit_accounts db \<and> (c \<longrightarrow> entry_fits (mk (uuid_supply db)))"
  by (auto simp: insert_entry_if_def insert_entry_Inr uuid4_def split: if_splits)

lemma balances_fit_same: "balances_fit db \<Longrightarrow> credit_accounts db' = credit_accounts db \<Longrightarrow> balances_fit db'"
  by (simp add: balances_fit_def)

lemma list_all_update_where:
  "list_all Q xs \<Longrightarrow> (\<And>x. Q x \<Longrightarrow> Q (f x)) \<Longrightarrow> list_all Q (update_where P f xs)"
  by (auto simp: list_all_iff set_update_where)

lemma balances_fit_set:
  assumes "balances_fit db" and "fits_19_6 av" "fits_19_6 he"
    and "credit_accounts db' = update_where P (\<lambda>a. a\<lparr>ca_held_balance := he, ca_available_balance := av\<rparr>)
      (credit_accounts db)"
  shows "balances_fit db'"
  using assms by (auto simp: balances_fit_def intro: list_all_update_where)

section \<open>Every operation keeps the balances in range\<close>

lemma finalize_entries_range:
  assumes "finalize_entries now p h d r account av he db = Inr db'" and "0 < hf_consumed r \<or> 0 < hf_released r"
  shows "credit_accounts db' = credit_accounts db \<and> fits_19_6 av \<and> fits_19_6 he"
  using assms
  by (auto simp: finalize_entries_def uuid4_def bind_result_eq_Inr settle_entry_def entry_fits_def
      dest!: insert_entry_if_after)

lemma finalize_commit_range:
  assumes "finalize_commit now p h d r account db = Inr (h', db')" and "0 < hf_consumed r \<or> 0 < hf_released r"
    and "balances_fit db"
  shows "balances_fit db'"
proof -
  let ?av = "ca_available_balance account + hf_released r"
  let ?he = "ca_held_balance account - ch_maximum_amount h"
  let ?db = "update_hold (ch_id h)
          (settled_hold (hf_consumed r) (hf_released r) (hz_finalization_event_id d) (hz_failure_class d)
             CreditHoldState.FINALIZED now) (set_balances account ?av ?he db)"
  from assms(1) obtain db2 ds where db2: "finalize_entries now p h d r account ?av ?he ?db = Inr db2"
    and db': "db' = bill_record p now ''billing.credit.finalized'' ''credit_hold'' (ch_id h) ds db2"
    by (auto simp: finalize_commit_def Let_def result_simps flush_hold_Inr)
  from finalize_entries_range [OF db2 assms(2)] have "fits_19_6 ?av" "fits_19_6 ?he"
    and "credit_accounts db' = update_where (\<lambda>a. ca_id a = ca_id account)
      (\<lambda>a. a\<lparr>ca_held_balance := ?he, ca_available_balance := ?av\<rparr>) (credit_accounts db)"
    by (simp_all add: db' row_update_defs set_balances_def)
  then show ?thesis by (rule balances_fit_set [OF assms(3)])
qed

lemma finalize_range:
  assumes inv: "ledger_inv db" and ok: "finalize_hold now p i d db = Inr (h', db')" and fit: "balances_fit db"
  shows "balances_fit db'"
proof (rule finalize_hold_cases [OF inv ok])
  fix h account db1
  assume f: "List.find (\<lambda>h. ch_workspace_id h = workspace_id p \<and> ch_id h = i) (credit_holds db) = Some h"
    and amount: "0 \<le> hz_actual_amount d"
    and st: "settles h (ch_maximum_amount h) (hz_actual_amount d) db db1"
    and commit: "finalize_commit now p h d \<lparr>hf_consumed = hz_actual_amount d,
          hf_released = ch_maximum_amount h - hz_actual_amount d, hf_replay = False\<rparr> account db1 = Inr (h', db')"
  have "0 < ch_maximum_amount h" using inv hold_found(1) [OF f] by (auto simp: ledger_inv_def hold_ok_def)
  moreover have "balances_fit db1" using fit st by (auto simp: settles_def intro: balances_fit_same)
  ultimately show ?thesis using amount by (intro finalize_commit_range [OF commit]) auto
qed (use fit in simp)

lemma release_commit_range:
  assumes "release_commit now p h d account db = Inr (h', db')" and "balances_fit db"
  shows "balances_fit db'"
proof -
  let ?av = "ca_available_balance account + ch_maximum_amount h"
  let ?he = "ca_held_balance account - ch_maximum_amount h"
  from assms(1) obtain db1 db2 grp where
      "insert_entry_if True (settle_entry p now account h CreditEntryKind.RELEASE LedgerDirection.CREDIT
        (ch_maximum_amount h) (ch_maximum_amount h) (- ch_maximum_amount h) ?av ?he grp
        (''release:'' @ hr_release_event_id d) (hr_reason_code d)) db1 = Inr db2"
    unfolding release_commit_def Let_def uuid4_def bind_result_eq_Inr prod.case by blast
  then have "entry_fits (settle_entry p now account h CreditEntryKind.RELEASE LedgerDirection.CREDIT
        (ch_maximum_amount h) (ch_maximum_amount h) (- ch_maximum_amount h) ?av ?he grp
        (''release:'' @ hr_release_event_id d) (hr_reason_code d) (uuid_supply db1))"
    using insert_entry_if_after by blast
  then have "fits_19_6 ?av" "fits_19_6 ?he" by (simp_all add: entry_fits_def settle_entry_def)
  moreover have "credit_accounts db' = update_where (\<lambda>a. ca_id a = ca_id account)
      (\<lambda>a. a\<lparr>ca_held_balance := ?he, ca_available_balance := ?av\<rparr>) (credit_accounts db)"
    using assms(1) by (rule release_commit_db) (simp add: row_update_defs set_balances_def)
  ultimately show ?thesis by (rule balances_fit_set [OF assms(2)])
qed

lemma release_range:
  assumes inv: "ledger_inv db" and ok: "release_hold now p i d db = Inr (h', db')" and fit: "balances_fit db"
  shows "balances_fit db'"
proof -
  from ok obtain h where found:
      "List.find (\<lambda>h. ch_workspace_id h = workspace_id p \<and> ch_id h = i) (credit_holds db) = Some h"
    by (auto simp: release_hold_def split: option.splits)
  note h = hold_found [OF found]
  show ?thesis
  proof (cases "ch_state h = CreditHoldState.HELD")
    case False
    then show ?thesis using ok found fit by (auto simp: release_hold_def split: if_splits)
  next
    case held: True
    obtain db1 where db1: "release_loop (allocations_of (ch_workspace_id h) (ch_id h) db) db = Inr db1"
        "settles h (ch_maximum_amount h) 0 db db1"
      using release_loop_active [OF inv h(1) held] .
    from ok found held obtain account where acc: "get_account (workspace_id p) db = Inr account"
      by (auto simp: release_hold_def result_simps)
    have commit: "release_commit now p h d account db1 = Inr (h', db')"
      using ok found held acc db1(1) h by (simp add: release_hold_def)
    have "balances_fit db1" using fit db1(2) by (auto simp: settles_def intro: balances_fit_same)
    then show ?thesis by (rule release_commit_range [OF commit])
  qed
qed

lemma allocate_loop_accounts: "credit_accounts (snd (allocate_loop ws i n r gs db)) = credit_accounts db"
  by (induction gs arbitrary: n r db) (auto simp: allocate_loop_Cons draw_step_def simp del: allocate_loop.simps(2))

lemma hold_commit_range:
  assumes "hold_commit now p d price account h db = Inr (h', db')" and "balances_fit db"
  shows "balances_fit db'"
proof -
  have "fits_19_6 (ca_available_balance account - hc_maximum_amount d)
      \<and> fits_19_6 (ca_held_balance account + hc_maximum_amount d)"
    using assms(1)
    by (auto simp: hold_commit_def Let_def uuid4_def result_simps insert_entry_Inr hold_entry_def
        dest: entry_fits_after)
  then show ?thesis
    using hold_commit_db [OF assms(1)] assms(2)
    by (auto simp: set_balances_def update_account_def balances_fit_def intro!: list_all_update_where)
qed

lemma create_hold_range:
  assumes "create_hold H now p d db = Inr (h, db')" and "balances_fit db"
  shows "balances_fit db'"
proof (cases "List.find (\<lambda>h. ch_workspace_id h = workspace_id p \<and> ch_subject_type h = hc_subject_type d
    \<and> ch_subject_id h = hc_subject_id d \<and> ch_idempotency_key h = hc_idempotency_key d) (credit_holds db)")
  case Some
  then show ?thesis using assms by (auto simp: create_hold_def Let_def split: if_splits)
next
  case None
  from assms(1) None obtain price account row db2 where
      commit: "hold_commit now p d price account row db2 = Inr (h, db')"
    and "credit_accounts db2 = credit_accounts db"
    by (auto simp: create_hold_def Let_def uuid4_def result_simps split_beta allocate_loop_accounts split: if_splits)
  then show ?thesis using assms(2) hold_commit_range balances_fit_same by blast
qed

lemma grant_range: "grant_credits now p d db = Inr (g, db') \<Longrightarrow> balances_fit db \<Longrightarrow> balances_fit db'"
  by (auto simp: grant_credits_def result_simps uuid4_def Let_def insert_grant_Inr insert_entry_Inr
      update_account_def entry_fits_def balances_fit_def intro!: list_all_update_where split: if_splits option.splits)

lemma reverse_range:
  "reverse_credit_debit now p i key reason bucket ex pol db = Inr (e, db') \<Longrightarrow> balances_fit db \<Longrightarrow> balances_fit db'"
  by (auto simp: reverse_credit_debit_def result_simps uuid4_def Let_def insert_grant_Inr insert_entry_Inr
      update_account_def entry_fits_def balances_fit_def intro!: list_all_update_where split: if_splits option.splits)

lemma account_range: "create_credit_account now p db = Inr (a, db') \<Longrightarrow> balances_fit db \<Longrightarrow> balances_fit db'"
  by (auto simp: create_credit_account_def uuid4_def Let_def balances_fit_def fits_19_6_def split: option.splits)

section \<open>Reachable states\<close>

lemma same_ledger_range: "same_ledger db db' \<Longrightarrow> balances_fit db \<Longrightarrow> balances_fit db'"
  by (simp add: same_ledger_def balances_fit_def)

lemma step_range:
  assumes "billing_step H db db'" and "ledger_inv db" and "balances_fit db"
  shows "balances_fit db'"
  using assms
  by (cases rule: billing_step.cases)
    (blast intro: account_range grant_range create_hold_range finalize_range release_range reverse_range
       same_ledger_range same_ledger_ops)+

lemma reachable_range: "billing_reachable H db \<Longrightarrow> balances_fit db"
proof (induction rule: billing_reachable.induct)
  case (init db)
  then show ?case by (simp add: empty_ledger_def balances_fit_def)
next
  case (step db db')
  then show ?case using reachable_inv step_range by blast
qed

end
