(* ===== verification/Billing_Properties.thy ===== *)
theory Billing_Properties
  imports Billing_Demo Billing_Range
begin

text \<open>
  What the credit ledger guarantees in every reachable state: balances, conservation, settlement,
  order of allocation, history and idempotence.
\<close>

section \<open>Supporting facts\<close>

lemma of_grant_nonneg:
  assumes "books db"
  shows "0 \<le> of_grant outstanding g db" "0 \<le> of_grant ha_consumed_amount g db"
  using assms unfolding of_grant_def books_def
  by (auto intro!: sum_where_nonneg simp: alloc_ok_def outstanding_def)

lemma grant_total_nonneg:
  assumes "books db"
  shows "0 \<le> grant_total cg_available_amount c db" "0 \<le> grant_total cg_held_amount c db"
  using assms of_grant_nonneg [OF assms] unfolding grant_total_def
  by (auto intro!: sum_where_nonneg simp: books_def grant_ok_def)

definition entry_total :: "CreditEntryKind list \<Rightarrow> uuid \<Rightarrow> billing_db \<Rightarrow> rat" where
  "entry_total ks c db = sum_where (\<lambda>e. le_account_id e = c \<and> le_kind e \<in> set ks) le_amount (credit_ledger db)"

lemma ledger_conservation:
  assumes "\<forall>e \<in> set es. entry_ok e"
  shows "sum_where (\<lambda>e. le_account_id e = c) le_available_delta es
       + sum_where (\<lambda>e. le_account_id e = c) le_held_delta es
       + sum_where (\<lambda>e. le_account_id e = c \<and> le_kind e \<in> set [CreditEntryKind.CONSUME]) le_amount es
       = sum_where (\<lambda>e. le_account_id e = c \<and> le_kind e \<in> set [CreditEntryKind.GRANT, CreditEntryKind.REVERSAL]) le_amount es"
  using assms
  by (induction es) (auto simp: entry_ok_def split: CreditEntryKind.splits)

lemma insert_entry_if_ok:
  assumes "c \<longrightarrow> length (le_idempotency_key (mk (uuid_supply db))) \<le> 255
      \<and> entry_fits (mk (uuid_supply db))
      \<and> le_reversal_of_id (mk (uuid_supply db)) = None
      \<and> (\<forall>x \<in> set (credit_ledger db). le_workspace_id x = le_workspace_id (mk (uuid_supply db)) \<longrightarrow>
           le_idempotency_key x \<noteq> le_idempotency_key (mk (uuid_supply db)))"
  shows "is_ok (insert_entry_if c mk db)"
  using assms by (auto simp: insert_entry_if_def insert_entry_def uuid4_def list_ex_iff)

text \<open>The two ledger keys of a finalization event are free, and so is the event on other holds.\<close>

definition event_unused :: "principal \<Rightarrow> string \<Rightarrow> uuid \<Rightarrow> billing_db \<Rightarrow> bool" where
  "event_unused p ev i db \<longleftrightarrow>
     list_all (\<lambda>e. le_workspace_id e = workspace_id p \<longrightarrow>
       le_idempotency_key e \<notin> {''finalize:'' @ ev @ '':consume'', ''finalize:'' @ ev @ '':release''})
       (credit_ledger db)
     \<and> list_all (\<lambda>h. ch_workspace_id h = workspace_id p \<and> ch_finalization_event_id h = Some ev \<longrightarrow> ch_id h = i)
         (credit_holds db)"

lemma finalize_entries_ok:
  assumes "\<forall>e \<in> set (credit_ledger db). le_workspace_id e = workspace_id p \<longrightarrow> le_idempotency_key e
      \<notin> {''finalize:'' @ hz_finalization_event_id d @ '':consume'', ''finalize:'' @ hz_finalization_event_id d @ '':release''}"
    and "length (hz_finalization_event_id d) \<le> 238"
    and fits: "fits_19_6 (hf_consumed r)" "fits_19_6 (hf_released r)" "fits_19_6 av" "fits_19_6 he"
  shows "is_ok (finalize_entries now p h d r account av he db)"
proof -
  note fits = fits [unfolded fits_19_6_def]
  let ?k = "''finalize:'' @ hz_finalization_event_id d @ '':consume''"
  let ?reason = "case hz_reason_code d of None \<Rightarrow> ''ACTUAL_COST'' | Some r \<Rightarrow> if r = '''' then ''ACTUAL_COST'' else r"
  let ?mk = "settle_entry p now account h CreditEntryKind.CONSUME LedgerDirection.DEBIT (hf_consumed r) 0
      (- hf_consumed r) av he (uuid_supply db) ?k ?reason"
  let ?db = "db\<lparr>uuid_supply := Suc (uuid_supply db)\<rparr>"
  have "is_ok (insert_entry_if (0 < hf_consumed r) ?mk ?db)"
    using assms fits by (intro insert_entry_if_ok) (auto simp: settle_entry_def entry_fits_def fits_19_6_def)
  then obtain db1 where db1: "insert_entry_if (0 < hf_consumed r) ?mk ?db = Inr db1"
    by (auto simp: is_ok_iff)
  have "is_ok (insert_entry_if (0 < hf_released r)
      (settle_entry p now account h CreditEntryKind.RELEASE LedgerDirection.CREDIT
         (hf_released r) (hf_released r) (- hf_released r) av he (uuid_supply db)
         (''finalize:'' @ hz_finalization_event_id d @ '':release'') ''MAX_COST_DIFFERENCE'') db1)"
    using assms fits insert_entry_if_Inr [OF db1] by (intro insert_entry_if_ok) (auto simp: settle_entry_def entry_fits_def fits_19_6_def)
  then show ?thesis
    using db1 by (simp add: finalize_entries_def uuid4_def)
qed

text \<open>The columns of the ledger refuse a key or an amount they cannot hold.\<close>

lemma refused_bind: "\<exists>c. m = Inl (DataError c) \<Longrightarrow> \<exists>c. bind_result m f = Inl (DataError c)"
  by auto

lemma insert_entry_refused:
  "255 < length (le_idempotency_key e) \<or> \<not> entry_fits e \<Longrightarrow> \<exists>c. insert_entry e db = Inl (DataError c)"
  by (auto simp: insert_entry_def)

lemma finalize_entries_refused:
  assumes "238 < length (hz_finalization_event_id d) \<or> \<not> fits_19_6 av \<or> \<not> fits_19_6 he"
    and "0 < hf_consumed r \<or> 0 < hf_released r"
  shows "\<exists>c. finalize_entries now p h d r account av he db = Inl (DataError c)"
proof -
  have bad: "\<exists>c. insert_entry (settle_entry p now account h k dir x y z av he grp key reason i) db
      = Inl (DataError c)"
    if "length key = length (hz_finalization_event_id d) + 17" for k dir x y z grp key reason i db
    using assms(1) that by (intro insert_entry_refused) (auto simp: settle_entry_def entry_fits_def)
  show ?thesis
  proof (cases "0 < hf_consumed r")
    case True
    then show ?thesis
      by (simp add: finalize_entries_def uuid4_def insert_entry_if_def) (intro refused_bind bad, simp)
  next
    case False
    with assms(2) show ?thesis
      by (simp add: finalize_entries_def uuid4_def insert_entry_if_def) (intro bad, simp)
  qed
qed

lemma account_of_hold:
  assumes "ledger_inv db" and "h \<in> set (credit_holds db)" and "ch_workspace_id h = ws"
  obtains a where "get_account ws db = Inr a" "a \<in> set (credit_accounts db)" "ca_id a = ch_account_id h"
    "account_ok db a" "0 \<le> ca_available_balance a"
    "ch_state h = CreditHoldState.HELD \<Longrightarrow> ch_maximum_amount h \<le> ca_held_balance a"
proof -
  have keys: "db_keys db" and books: "books db" using assms(1) by (auto simp: ledger_inv_def)
  have "hkey h \<in> set (map hkey (credit_holds db))" using assms(2) by simp
  then obtain b where b: "b \<in> set (credit_accounts db)" "ca_workspace_id b = ws"
    using keys assms(3) by (fastforce simp: keys_ok_def hkey_def ckey_def)
  then have "is_ok (get_account ws db)"
    by (auto simp: get_account_def find_None_iff split: option.splits)
  then obtain a where a: "get_account ws db = Inr a" by (auto simp: is_ok_iff)
  note acc = get_account_Inr [OF a]
  have ok: "account_ok db a" using assms(1) acc by (auto simp: ledger_inv_def)
  then have "0 \<le> ca_available_balance a" using grant_total_nonneg [OF books] by (simp add: account_ok_def)
  moreover have id: "ca_id a = ch_account_id h" using hold_account [OF keys assms(2)] acc assms(3) by metis
  moreover have "ch_maximum_amount h \<le> ca_held_balance a" if held: "ch_state h = CreditHoldState.HELD"
  proof -
    let ?P = "\<lambda>x. ch_account_id x = ca_id a \<and> ch_state x = CreditHoldState.HELD"
    have "h \<in> set (filter ?P (credit_holds db))" using assms(2) held id by simp
    moreover have "\<forall>x \<in> set (credit_holds db). 0 \<le> ch_maximum_amount x"
      using assms(1) by (auto simp: ledger_inv_def hold_ok_def less_imp_le)
    ultimately have "ch_maximum_amount h \<le> sum_list (map ch_maximum_amount (filter ?P (credit_holds db)))"
      by (intro member_le_sum_list) auto
    then show ?thesis using ok by (simp add: account_ok_def active_holds_def sum_where_def)
  qed
  ultimately show thesis using that a acc ok by blast
qed

lemma finalize_commit_ok:
  assumes "settles h (ch_maximum_amount h) c db db1" and "0 \<le> c" "c \<le> ch_maximum_amount h"
    and "0 \<le> ca_available_balance a" "ch_maximum_amount h \<le> ca_held_balance a"
    and "length (hz_finalization_event_id d) \<le> 238" "event_unused p (hz_finalization_event_id d) (ch_id h) db"
    and fits: "fits_19_6 (ca_held_balance a)" "fits_19_6 (ca_available_balance a + (ch_maximum_amount h - c))"
    and "r = \<lparr>hf_consumed = c, hf_released = ch_maximum_amount h - c, hf_replay = False\<rparr>"
  shows "is_ok (finalize_commit now p h d r a db1)"
proof -
  let ?db = "update_hold (ch_id h) (settled_hold (hf_consumed r) (hf_released r) (hz_finalization_event_id d)
      (hz_failure_class d) CreditHoldState.FINALIZED now)
      (set_balances a (ca_available_balance a + hf_released r) (ca_held_balance a - ch_maximum_amount h) db1)"
  have same: "credit_ledger ?db = credit_ledger db"
    using assms(1) by (simp add: settles_def row_update_defs set_balances_def)
  then have "is_ok (finalize_entries now p h d r a (ca_available_balance a + hf_released r)
      (ca_held_balance a - ch_maximum_amount h) ?db)"
    using assms(2-7,10) fits
    by (intro finalize_entries_ok) (auto simp: event_unused_def list_all_iff fits_19_6_def)
  then obtain db2 where db2: "finalize_entries now p h d r a (ca_available_balance a + hf_released r)
      (ca_held_balance a - ch_maximum_amount h) ?db = Inr db2" by (auto simp: is_ok_iff)
  then have "credit_holds db2 = credit_holds ?db"
    by (auto simp: finalize_entries_def uuid4_def result_simps dest!: insert_entry_if_Inr)
  then have "flush_hold (workspace_id p) (hz_finalization_event_id d) (ch_id h) db2 = Inr db2"
    using assms(1,7) by (auto simp: flush_hold_Inr event_unused_def list_all_iff row_update_defs set_balances_def
        set_update_where settles_def)
  moreover have "ensure_balance_transition (ca_available_balance a) (ca_held_balance a)
      (ca_available_balance a + hf_released r) (ca_held_balance a - ch_maximum_amount h) = Inr ()"
    using assms(2-5,10) by simp
  ultimately show ?thesis
    using db2 by (simp add: finalize_commit_def Let_def del: ensure_balance_transition_eq_Inr)
qed

lemma finalize_commit_refused:
  assumes "0 \<le> ca_available_balance a" "ch_maximum_amount h \<le> ca_held_balance a"
    and "0 \<le> c" "c \<le> ch_maximum_amount h" "0 < ch_maximum_amount h"
    and "238 < length (hz_finalization_event_id d)
      \<or> \<not> fits_19_6 (ca_available_balance a + (ch_maximum_amount h - c))"
    and "r = \<lparr>hf_consumed = c, hf_released = ch_maximum_amount h - c, hf_replay = False\<rparr>"
  shows "\<exists>x. finalize_commit now p h d r a db = Inl (DataError x)"
proof -
  have "ensure_balance_transition (ca_available_balance a) (ca_held_balance a)
      (ca_available_balance a + hf_released r) (ca_held_balance a - ch_maximum_amount h) = Inr ()"
    using assms(1-5,7) by simp
  moreover have "\<exists>x. finalize_entries now p h d r a (ca_available_balance a + hf_released r)
      (ca_held_balance a - ch_maximum_amount h) db' = Inl (DataError x)" for db'
    using assms(3-7) by (intro finalize_entries_refused) auto
  ultimately show ?thesis
    by (simp add: finalize_commit_def Let_def refused_bind del: ensure_balance_transition_eq_Inr)
qed

lemma find_hold:
  assumes "db_keys db" and "h \<in> set (credit_holds db)" and "ch_workspace_id h = ws"
  shows "List.find (\<lambda>x. ch_workspace_id x = ws \<and> ch_id x = ch_id h) (credit_holds db) = Some h"
  using assms(2,3) distinct_key_eq [OF keys_distinct(4) [OF assms(1)]]
  by (cases "List.find (\<lambda>x. ch_workspace_id x = ws \<and> ch_id x = ch_id h) (credit_holds db)")
    (auto simp: find_None_iff dest!: find_SomeD)

text \<open>History: the ledger only grows and a settled hold never changes.\<close>

definition extends_history :: "billing_db \<Rightarrow> billing_db \<Rightarrow> bool" where
  "extends_history db db' \<longleftrightarrow> (\<exists>es. credit_ledger db' = credit_ledger db @ es)
     \<and> (\<forall>h \<in> set (credit_holds db). ch_state h \<noteq> CreditHoldState.HELD \<longrightarrow> h \<in> set (credit_holds db'))"

lemma extends_refl [simp]: "extends_history db db"
  by (simp add: extends_history_def)

lemma extends_trans: "extends_history db db' \<Longrightarrow> extends_history db' db'' \<Longrightarrow> extends_history db db''"
  by (fastforce simp: extends_history_def)

lemma extends_same_ledger: "same_ledger db db' \<Longrightarrow> extends_history db db'"
  by (simp add: same_ledger_def extends_history_def)

lemma extends_append:
  "credit_ledger db' = credit_ledger db @ es \<Longrightarrow> credit_holds db' = credit_holds db @ hs \<Longrightarrow> extends_history db db'"
  by (simp add: extends_history_def)

lemma extends_settled:
  assumes "db_keys db" and "h \<in> set (credit_holds db)" "ch_state h = CreditHoldState.HELD"
    and "credit_ledger db' = credit_ledger db @ es"
    and "credit_holds db' = update_where (\<lambda>x. ch_id x = ch_id h) f (credit_holds db)"
  shows "extends_history db db'"
proof -
  have "x \<in> set (credit_holds db')"
    if x: "x \<in> set (credit_holds db)" "ch_state x \<noteq> CreditHoldState.HELD" for x
  proof -
    have "ch_id x \<noteq> ch_id h"
      using distinct_key_eq [OF keys_distinct(4) [OF assms(1)] x(1) assms(2)] x(2) assms(3) by auto
    then show ?thesis using x(1) assms(5) by (force simp: set_update_where)
  qed
  then show ?thesis using assms(4) by (simp add: extends_history_def)
qed

lemma finalize_extends:
  assumes inv: "ledger_inv db" and ok: "finalize_hold now p i d db = Inr (h', db')"
  shows "extends_history db db'"
proof (rule finalize_hold_cases [OF inv ok])
  fix h account db1
  assume f: "List.find (\<lambda>h. ch_workspace_id h = workspace_id p \<and> ch_id h = i) (credit_holds db) = Some h"
    and held: "ch_state h = CreditHoldState.HELD"
    and st: "settles h (ch_maximum_amount h) (hz_actual_amount d) db db1"
    and commit: "finalize_commit now p h d \<lparr>hf_consumed = hz_actual_amount d,
          hf_released = ch_maximum_amount h - hz_actual_amount d, hf_replay = False\<rparr> account db1 = Inr (h', db')"
  have "\<exists>es. credit_ledger db' = credit_ledger db1 @ es"
    using commit by (rule finalize_commit_db) simp
  then show ?thesis
    using inv hold_found(1) [OF f] held st finalize_commit_hold(2) [OF commit]
    by (auto simp: ledger_inv_def settles_def intro: extends_settled)
qed simp

lemma release_extends:
  assumes inv: "ledger_inv db" and ok: "release_hold now p i d db = Inr (h', db')"
  shows "extends_history db db'"
proof -
  from ok obtain h where found:
      "List.find (\<lambda>h. ch_workspace_id h = workspace_id p \<and> ch_id h = i) (credit_holds db) = Some h"
    by (auto simp: release_hold_def split: option.splits)
  note h = hold_found [OF found]
  show ?thesis
  proof (cases "ch_state h = CreditHoldState.HELD")
    case False
    then show ?thesis using ok found by (auto simp: release_hold_def split: if_splits)
  next
    case held: True
    obtain db1 where db1: "release_loop (allocations_of (ch_workspace_id h) (ch_id h) db) db = Inr db1"
        "settles h (ch_maximum_amount h) 0 db db1"
      using release_loop_active [OF inv h(1) held] .
    from ok found held obtain account where acc: "get_account (workspace_id p) db = Inr account"
      by (auto simp: release_hold_def result_simps)
    have commit: "release_commit now p h d account db1 = Inr (h', db')"
      using ok found held acc db1(1) h by (simp add: release_hold_def)
    have "\<exists>es. credit_ledger db' = credit_ledger db1 @ es"
      using commit by (rule release_commit_db) simp
    moreover have "\<exists>f. credit_holds db' = update_where (\<lambda>x. ch_id x = ch_id h) f (credit_holds db1)"
      using commit by (rule release_commit_db) (auto simp: row_update_defs set_balances_def)
    ultimately show ?thesis
      using inv h(1) held db1(2) by (auto simp: ledger_inv_def settles_def intro: extends_settled)
  qed
qed

lemma create_hold_extends:
  assumes "create_hold H now p d db = Inr (h, db')"
  shows "extends_history db db'"
proof (cases "List.find (\<lambda>h. ch_workspace_id h = workspace_id p \<and> ch_subject_type h = hc_subject_type d
    \<and> ch_subject_id h = hc_subject_id d \<and> ch_idempotency_key h = hc_idempotency_key d) (credit_holds db)")
  case Some
  then show ?thesis using assms by (auto simp: create_hold_def Let_def split: if_splits)
next
  case None
  have ledger: "credit_ledger (snd (allocate_loop ws i n r gs x)) = credit_ledger x" for ws i n r gs x
    by (induction gs arbitrary: n r x) (auto simp: allocate_loop_Cons draw_step_def simp del: allocate_loop.simps(2))
  from assms None obtain price account row db2 where
      commit: "hold_commit now p d price account row db2 = Inr (h, db')"
    and "credit_holds db2 = credit_holds db @ [row]" "credit_ledger db2 = credit_ledger db"
    by (auto simp: create_hold_def Let_def uuid4_def result_simps split_beta ledger allocate_loop_holds split: if_splits)
  with hold_commit_db [OF commit] show ?thesis
    by (auto simp: set_balances_def update_account_def intro: extends_append)
qed

lemma grant_extends: "grant_credits now p d db = Inr (g, db') \<Longrightarrow> extends_history db db'"
  by (auto simp: grant_credits_def result_simps uuid4_def Let_def insert_grant_Inr insert_entry_Inr
      update_account_def intro: extends_append split: if_splits option.splits)

lemma account_extends: "create_credit_account now p db = Inr (a, db') \<Longrightarrow> extends_history db db'"
  by (auto simp: create_credit_account_def uuid4_def Let_def extends_history_def split: option.splits)

lemma reverse_extends:
  "reverse_credit_debit now p i key reason bucket ex pol db = Inr (e, db') \<Longrightarrow> extends_history db db'"
  by (auto simp: reverse_credit_debit_def result_simps uuid4_def Let_def insert_grant_Inr insert_entry_Inr
      update_account_def intro: extends_append split: if_splits option.splits)

lemma step_extends:
  assumes "billing_step H db db'" and "ledger_inv db"
  shows "extends_history db db'"
  using assms
  by (cases rule: billing_step.cases)
    (blast intro: account_extends grant_extends create_hold_extends finalize_extends release_extends
       reverse_extends extends_same_ledger same_ledger_ops)+

lemma steps_extend:
  assumes "(billing_step H)\<^sup>*\<^sup>* db db'" and "billing_reachable H db"
  shows "extends_history db db' \<and> billing_reachable H db'"
  using assms
proof (induction rule: rtranclp_induct)
  case (step x y)
  then show ?case
    using step_extends reachable_inv extends_trans billing_reachable.step by metis
qed simp

text \<open>The reference plan of the allocation loop: which grant gives how much.\<close>

fun draw_plan :: "rat \<Rightarrow> credit_grant list \<Rightarrow> (uuid \<times> rat) list" where
  "draw_plan r [] = []"
| "draw_plan r (g # gs) =
     (if r = 0 then [] else let m = min (cg_available_amount g) r in (cg_id g, m) # draw_plan (r - m) gs)"

lemma allocate_loop_plan:
  "\<exists>as. hold_allocations (snd (allocate_loop ws i n r gs db)) = hold_allocations db @ as
     \<and> map (\<lambda>a. (ha_grant_id a, ha_held_amount a)) as = draw_plan r gs \<and> (\<forall>a \<in> set as. ha_hold_id a = i)"
proof (induction gs arbitrary: n r db)
  case (Cons g gs)
  show ?case
  proof (cases "r = 0")
    case False
    let ?m = "min (cg_available_amount g) r"
    obtain as where "hold_allocations (snd (allocate_loop ws i (n + 1) (r - ?m) gs (draw_step ws i (n + 1) ?m g db)))
        = hold_allocations (draw_step ws i (n + 1) ?m g db) @ as"
        "map (\<lambda>a. (ha_grant_id a, ha_held_amount a)) as = draw_plan (r - ?m) gs" "\<forall>a \<in> set as. ha_hold_id a = i"
      using Cons.IH by blast
    with False show ?thesis
      by (intro exI [of _ "new_alloc (uuid_supply db) ws i (cg_id g) (n + 1) ?m # as"])
        (simp add: allocate_loop_Cons draw_step_def new_alloc_def Let_def del: allocate_loop.simps(2))
  qed simp
qed simp

lemma draw_plan_ids: "fst ` set (draw_plan r gs) \<subseteq> cg_id ` set gs"
proof (induction gs arbitrary: r)
  case (Cons g gs)
  then show ?case by (auto simp: Let_def)
qed simp

lemma draw_plan_drained:
  assumes "distinct (map cg_id gs)" and "k < k'" and "k' < length gs" and "cg_id (gs ! k') \<in> fst ` set (draw_plan r gs)"
    and "\<forall>g \<in> set gs. 0 < cg_available_amount g" and "0 \<le> r"
  shows "(cg_id (gs ! k), cg_available_amount (gs ! k)) \<in> set (draw_plan r gs)"
  using assms
proof (induction gs arbitrary: k k' r)
  case (Cons g gs)
  from \<open>k < k'\<close> obtain l' where k': "k' = Suc l'" by (cases k') auto
  have r: "r \<noteq> 0" using Cons.prems(4) by auto
  let ?m = "min (cg_available_amount g) r"
  have "gs ! l' \<in> set gs" using Cons.prems(3) k' by simp
  then have "cg_id (gs ! l') \<noteq> cg_id g" using Cons.prems(1) by (force simp: image_iff)
  then have later: "cg_id (gs ! l') \<in> fst ` set (draw_plan (r - ?m) gs)"
    using Cons.prems(4) r k' by (auto simp: Let_def)
  then have "r - ?m \<noteq> 0" by (cases gs) auto
  then have m: "?m = cg_available_amount g" by (auto simp: min_def split: if_splits)
  show ?case
  proof (cases k)
    case 0
    then show ?thesis using r m by (simp add: Let_def)
  next
    case (Suc l)
    have "(cg_id (gs ! l), cg_available_amount (gs ! l)) \<in> set (draw_plan (r - ?m) gs)"
      using Cons.prems Suc k' later by (intro Cons.IH [of l l']) auto
    then show ?thesis using Suc r by (simp add: Let_def)
  qed
qed simp

text \<open>A hold that was created (not replayed): its allocations carry out the plan.\<close>

lemma create_hold_plan:
  assumes inv: "ledger_inv db" and ok: "create_hold H now p d db = Inr (h, db')" and new: "h \<notin> set (credit_holds db)"
    and acc: "get_account (workspace_id p) db = Inr account"
  shows "(\<lambda>a. (ha_grant_id a, ha_held_amount a)) ` {a \<in> set (hold_allocations db'). ha_hold_id a = ch_id h}
    = set (draw_plan (hc_maximum_amount d) (eligible_grants (workspace_id p) (ca_id account) now db))"
proof -
  let ?found = "List.find (\<lambda>h. ch_workspace_id h = workspace_id p \<and> ch_subject_type h = hc_subject_type d
    \<and> ch_subject_id h = hc_subject_id d \<and> ch_idempotency_key h = hc_idempotency_key d) (credit_holds db)"
  have none: "?found = None"
  proof (cases ?found)
    case (Some x)
    then show ?thesis
      using ok new find_SomeD [OF Some] by (auto simp: create_hold_def Let_def split: if_splits)
  qed
  from ok none acc obtain price where price: "get_price (workspace_id p) (hc_price_version_id d) now db = Inr price"
    by (auto simp: create_hold_def result_simps Let_def split: if_splits)
  define gs where "gs = eligible_grants (workspace_id p) (ca_id account) now db"
  define row where "row = hold_row p d price account (H (hold_create_json d)) (uuid_supply db)"
  define db2 where "db2 = snd (allocate_loop (workspace_id p) (uuid_supply db) 0 (hc_maximum_amount d) gs
    (db\<lparr>uuid_supply := Suc (uuid_supply db), credit_holds := credit_holds db @ [row]\<rparr>))"
  have "hold_commit now p d price account row db2 = Inr (h, db')"
    using ok none acc price
    by (auto simp: create_hold_def Let_def uuid4_def row_def db2_def gs_def split_beta split: if_splits)
  from hold_commit_db [OF this] have h: "h = row" "hold_allocations db' = hold_allocations db2"
    by (auto simp: set_balances_def update_account_def)
  obtain as where as: "hold_allocations db2 = hold_allocations db @ as"
      "map (\<lambda>a. (ha_grant_id a, ha_held_amount a)) as = draw_plan (hc_maximum_amount d) gs"
      "\<forall>a \<in> set as. ha_hold_id a = uuid_supply db"
    using allocate_loop_plan [of "workspace_id p" "uuid_supply db" 0 "hc_maximum_amount d" gs
        "db\<lparr>uuid_supply := Suc (uuid_supply db), credit_holds := credit_holds db @ [row]\<rparr>"]
    by (auto simp: db2_def)
  have "ch_id row = uuid_supply db" by (simp add: row_def hold_row_def)
  moreover have "ha_hold_id a \<noteq> uuid_supply db" if "a \<in> set (hold_allocations db)" for a
  proof -
    have keys: "db_keys db" using inv by (simp add: ledger_inv_def)
    from alloc_hold [OF keys that] obtain k where "k \<in> set (credit_holds db)" "ch_id k = ha_hold_id a" .
    then show ?thesis using keys_fresh(3) [OF keys] by fastforce
  qed
  ultimately have "{a \<in> set (hold_allocations db'). ha_hold_id a = ch_id h} = set as"
    using h as(1,3) by auto
  then show ?thesis using as(2) by (metis gs_def set_map)
qed

text \<open>Reversals refer to consumed entries of the same account and amount.\<close>

definition reverses :: "credit_ledger_entry \<Rightarrow> credit_ledger_entry \<Rightarrow> bool" where
  "reverses e orig \<longleftrightarrow> le_reversal_of_id e = Some (le_id orig) \<and> le_kind orig = CreditEntryKind.CONSUME
     \<and> le_amount orig = le_amount e \<and> le_account_id orig = le_account_id e"

definition reversal_refs :: "billing_db \<Rightarrow> bool" where
  "reversal_refs db \<longleftrightarrow> (\<forall>e \<in> set (credit_ledger db). le_kind e = CreditEntryKind.REVERSAL \<longrightarrow>
     (\<exists>orig \<in> set (credit_ledger db). reverses e orig))"

lemma reversal_refs_append:
  assumes "reversal_refs db" and "credit_ledger db' = credit_ledger db @ es"
    and "\<forall>e \<in> set es. le_kind e = CreditEntryKind.REVERSAL \<longrightarrow> (\<exists>orig \<in> set (credit_ledger db). reverses e orig)"
  shows "reversal_refs db'"
  unfolding reversal_refs_def assms(2)
  using assms(1,3) [unfolded reversal_refs_def] by (metis Un_iff set_append)

lemma settle_entries_kinds:
  "e \<in> set (settle_entries b1 (settle_entry p now account h CreditEntryKind.CONSUME d1 a1 x1 y1 v1 w1 g1 k1 r1)
       b2 (settle_entry p now account h CreditEntryKind.RELEASE d2 a2 x2 y2 v2 w2 g2 k2 r2) n)
   \<Longrightarrow> le_kind e \<noteq> CreditEntryKind.REVERSAL"
  by (auto simp: settle_entries_def settle_entry_def split: if_splits)

lemma finalize_refs:
  assumes inv: "ledger_inv db" and ok: "finalize_hold now p i d db = Inr (h', db')" and refs: "reversal_refs db"
  shows "reversal_refs db'"
proof (rule finalize_hold_cases [OF inv ok])
  fix h account db1
  assume st: "settles h (ch_maximum_amount h) (hz_actual_amount d) db db1"
    and commit: "finalize_commit now p h d \<lparr>hf_consumed = hz_actual_amount d,
          hf_released = ch_maximum_amount h - hz_actual_amount d, hf_replay = False\<rparr> account db1 = Inr (h', db')"
  have "\<exists>es. credit_ledger db' = credit_ledger db1 @ es \<and> (\<forall>e \<in> set es. le_kind e \<noteq> CreditEntryKind.REVERSAL)"
    using commit by (rule finalize_commit_db) (auto dest: settle_entries_kinds)
  then show ?thesis
    using refs st by (auto simp: settles_def intro: reversal_refs_append)
qed (use refs in simp)

lemma release_refs:
  assumes inv: "ledger_inv db" and ok: "release_hold now p i d db = Inr (h', db')" and refs: "reversal_refs db"
  shows "reversal_refs db'"
proof -
  from ok obtain h where found:
      "List.find (\<lambda>h. ch_workspace_id h = workspace_id p \<and> ch_id h = i) (credit_holds db) = Some h"
    by (auto simp: release_hold_def split: option.splits)
  note h = hold_found [OF found]
  show ?thesis
  proof (cases "ch_state h = CreditHoldState.HELD")
    case False
    then show ?thesis using ok found refs by (auto simp: release_hold_def split: if_splits)
  next
    case held: True
    obtain db1 where db1: "release_loop (allocations_of (ch_workspace_id h) (ch_id h) db) db = Inr db1"
        "settles h (ch_maximum_amount h) 0 db db1"
      using release_loop_active [OF inv h(1) held] .
    from ok found held obtain account where acc: "get_account (workspace_id p) db = Inr account"
      by (auto simp: release_hold_def result_simps)
    have commit: "release_commit now p h d account db1 = Inr (h', db')"
      using ok found held acc db1(1) h by (simp add: release_hold_def)
    have "\<exists>es. credit_ledger db' = credit_ledger db1 @ es \<and> (\<forall>e \<in> set es. le_kind e \<noteq> CreditEntryKind.REVERSAL)"
      using commit by (rule release_commit_db) (simp add: settle_entry_def)
    then show ?thesis using refs db1(2) by (auto simp: settles_def intro: reversal_refs_append)
  qed
qed

lemma allocate_loop_ledger: "credit_ledger (snd (allocate_loop ws i n r gs db)) = credit_ledger db"
  by (induction gs arbitrary: n r db) (auto simp: allocate_loop_Cons draw_step_def simp del: allocate_loop.simps(2))

lemma create_hold_refs:
  assumes "create_hold H now p d db = Inr (h, db')" and refs: "reversal_refs db"
  shows "reversal_refs db'"
proof (cases "List.find (\<lambda>h. ch_workspace_id h = workspace_id p \<and> ch_subject_type h = hc_subject_type d
    \<and> ch_subject_id h = hc_subject_id d \<and> ch_idempotency_key h = hc_idempotency_key d) (credit_holds db)")
  case Some
  then show ?thesis using assms by (auto simp: create_hold_def Let_def split: if_splits)
next
  case None
  from assms None obtain price account row db2 where
      commit: "hold_commit now p d price account row db2 = Inr (h, db')"
    and "credit_ledger db2 = credit_ledger db"
    by (auto simp: create_hold_def Let_def uuid4_def result_simps split_beta allocate_loop_ledger split: if_splits)
  with hold_commit_db [OF commit]
  have "\<exists>es. credit_ledger db' = credit_ledger db @ es \<and> (\<forall>e \<in> set es. le_kind e \<noteq> CreditEntryKind.REVERSAL)"
    by (auto simp: set_balances_def update_account_def hold_entry_def)
  then show ?thesis using refs by (auto intro: reversal_refs_append [of db])
qed

lemma grant_refs: "grant_credits now p d db = Inr (g, db') \<Longrightarrow> reversal_refs db \<Longrightarrow> reversal_refs db'"
  by (auto simp: grant_credits_def result_simps uuid4_def Let_def insert_grant_Inr insert_entry_Inr
      update_account_def intro!: reversal_refs_append [of db] split: if_splits option.splits)

lemma reverse_refs:
  assumes inv: "ledger_inv db" and refs: "reversal_refs db"
    and ok: "reverse_credit_debit now p i key reason bucket ex pol db = Inr (e, db')"
  shows "reversal_refs db'"
proof -
  from ok obtain original where
      "List.find (\<lambda>e. le_workspace_id e = workspace_id p \<and> le_id e = i) (credit_ledger db) = Some original"
    by (auto simp: reverse_credit_debit_def split: option.splits)
  note original = this find_SomeD [OF this]
  show ?thesis
  proof (cases "List.find (\<lambda>e. le_workspace_id e = workspace_id p
                          \<and> le_reversal_of_id e = Some (le_id original)) (credit_ledger db)")
    case Some
    then show ?thesis using ok original refs by (auto simp: reverse_credit_debit_def split: if_splits)
  next
    case None
    with ok original obtain account where acc: "get_account (workspace_id p) db = Inr account"
      and rev: "reversible original"
      by (auto simp: reverse_credit_debit_def result_simps split: if_splits)
    have "entry_ok original" using inv original(2) by (simp add: ledger_inv_def)
    then have kind: "le_kind original = CreditEntryKind.CONSUME"
      using rev by (auto simp: reversible_def entry_ok_def)
    have keys: "db_keys db" using inv by (simp add: ledger_inv_def)
    have "lkey original \<in> set (map lkey (credit_ledger db))" using original(2) by simp
    then obtain b where "b \<in> set (credit_accounts db)" "ca_id b = le_account_id original" "ca_workspace_id b = workspace_id p"
      using keys original(2) by (fastforce simp: keys_ok_def lkey_def ckey_def)
    then have "le_account_id original = ca_id account"
      using distinct_key_eq [OF keys_distinct(2) [OF keys]] get_account_Inr [OF acc] by metis
    with kind show ?thesis
      using ok original None acc refs
      by (auto simp: reverse_credit_debit_def result_simps uuid4_def Let_def insert_grant_Inr insert_entry_Inr
          update_account_def reverses_def intro!: reversal_refs_append [OF refs] bexI [of _ original] split: if_splits)
  qed
qed

lemma same_ledger_refs: "same_ledger db db' \<Longrightarrow> reversal_refs db \<Longrightarrow> reversal_refs db'"
  by (simp add: same_ledger_def reversal_refs_def)

lemma account_refs: "create_credit_account now p db = Inr (a, db') \<Longrightarrow> reversal_refs db \<Longrightarrow> reversal_refs db'"
  by (auto simp: create_credit_account_def uuid4_def Let_def reversal_refs_def split: option.splits)

lemma step_refs:
  assumes "billing_step H db db'" and "ledger_inv db" and "reversal_refs db"
  shows "reversal_refs db'"
  using assms
  by (cases rule: billing_step.cases)
    (blast intro: account_refs grant_refs create_hold_refs finalize_refs release_refs reverse_refs
       same_ledger_refs same_ledger_ops)+

lemma reachable_refs: "billing_reachable H db \<Longrightarrow> reversal_refs db"
proof (induction rule: billing_reachable.induct)
  case (init db)
  then show ?case by (simp add: empty_ledger_def reversal_refs_def)
next
  case (step db db')
  then show ?case using step_refs reachable_inv by blast
qed

lemma sum_where_set:
  assumes "distinct (map k xs)"
  shows "sum_where P f xs = (\<Sum>x \<in> {x \<in> set xs. P x}. f x)"
proof -
  have "distinct (filter P xs)" using assms by (simp add: distinct_map)
  then show ?thesis by (simp add: sum_where_def sum_list_distinct_conv_sum_set)
qed

section \<open>Balances and conservation\<close>

text \<open>C1. In every reachable state of the billing database each credit account is consistent with
  the rest of the books: both balances are non-negative, the available balance is the sum of what
  its grants still offer, the held balance is the sum of the maximum amounts of its active holds,
  and both equal the sum of the deltas of its ledger entries.\<close>

theorem account_balances:
  assumes "billing_reachable H db" and "a \<in> set (credit_accounts db)"
  shows "0 \<le> ca_available_balance a \<and> 0 \<le> ca_held_balance a
    \<and> ca_available_balance a
      = sum_list (map cg_available_amount (filter (\<lambda>g. cg_account_id g = ca_id a) (credit_grants db)))
    \<and> ca_held_balance a
      = sum_list (map ch_maximum_amount
          (filter (\<lambda>h. ch_account_id h = ca_id a \<and> ch_state h = CreditHoldState.HELD) (credit_holds db)))
    \<and> ca_available_balance a
      = sum_list (map le_available_delta (filter (\<lambda>e. le_account_id e = ca_id a) (credit_ledger db)))
    \<and> ca_held_balance a
      = sum_list (map le_held_delta (filter (\<lambda>e. le_account_id e = ca_id a) (credit_ledger db)))"
proof -
  have inv: "ledger_inv db" using assms(1) by (rule reachable_inv)
  then have "account_ok db a" "books db" using assms(2) by (auto simp: ledger_inv_def)
  then show ?thesis
    using grant_total_nonneg [of db "ca_id a"]
    by (simp add: account_ok_def grant_total_def active_holds_def ledger_total_def sum_where_def)
qed

theorem account_balances_witness:
  "\<exists>a \<in> set (credit_accounts demo_db4). billing_reachable demo_hash demo_db4
     \<and> ca_held_balance a = 8 \<and> ca_available_balance a = 7
     \<and> sum_list (map ch_maximum_amount
          (filter (\<lambda>h. ch_account_id h = ca_id a \<and> ch_state h = CreditHoldState.HELD) (credit_holds demo_db4))) = 8"
proof -
  have "\<lparr>ca_id = 100, ca_workspace_id = 2, ca_available_balance = 7, ca_held_balance = 8\<rparr>
      \<in> set (credit_accounts demo_db4)" by (simp add: demo_tables4)
  from account_balances [OF demo_reachable this] this show ?thesis
    using demo_reachable by (intro bexI) auto
qed

text \<open>C2. No credit is created or lost: for every account of a reachable state, everything ever
  granted or given back by a reversal is either still available, held, or was consumed.\<close>

theorem credit_conservation:
  assumes "billing_reachable H db" and "a \<in> set (credit_accounts db)"
  shows "entry_total [CreditEntryKind.GRANT, CreditEntryKind.REVERSAL] (ca_id a) db
    = ca_available_balance a + ca_held_balance a + entry_total [CreditEntryKind.CONSUME] (ca_id a) db"
proof -
  have "ledger_inv db" using assms(1) by (rule reachable_inv)
  then have "account_ok db a" "\<forall>e \<in> set (credit_ledger db). entry_ok e"
    using assms(2) by (auto simp: ledger_inv_def)
  then show ?thesis
    using ledger_conservation [of "credit_ledger db" "ca_id a"]
    by (simp add: account_ok_def ledger_total_def entry_total_def)
qed

theorem credit_conservation_witness:
  "entry_total [CreditEntryKind.GRANT, CreditEntryKind.REVERSAL] 100 demo_db5
   = 9 + entry_total [CreditEntryKind.CONSUME] 100 demo_db5"
  using credit_conservation [OF demo_reachable5,
      of "\<lparr>ca_id = 100, ca_workspace_id = 2, ca_available_balance = 9, ca_held_balance = 0\<rparr>"]
  by (simp add: demo_tables5)

text \<open>C3. A grant of a reachable state is never overdrawn: what it offers and what is held against
  it are non-negative, together with what holds have consumed they make up the original amount, and
  the held part is exactly the unsettled part of its allocations.\<close>

theorem grant_accounting:
  assumes "billing_reachable H db" and "g \<in> set (credit_grants db)"
  shows "0 \<le> cg_available_amount g \<and> 0 \<le> cg_held_amount g
    \<and> cg_available_amount g + cg_held_amount g \<le> cg_original_amount g
    \<and> cg_original_amount g = cg_available_amount g + cg_held_amount g
        + sum_list (map ha_consumed_amount (filter (\<lambda>a. ha_grant_id a = cg_id g) (hold_allocations db)))
    \<and> cg_held_amount g = sum_list (map (\<lambda>a. ha_held_amount a - ha_consumed_amount a - ha_released_amount a)
        (filter (\<lambda>a. ha_grant_id a = cg_id g) (hold_allocations db)))"
proof -
  have "ledger_inv db" using assms(1) by (rule reachable_inv)
  then have "grant_ok db g" "books db" using assms(2) by (auto simp: ledger_inv_def books_def)
  then show ?thesis
    using of_grant_nonneg [of db "cg_id g"]
    by (simp add: grant_ok_def of_grant_def sum_where_def outstanding_def [abs_def])
qed

theorem grant_accounting_witness:
  "cg_original_amount (demo_row 108 ''b'' 10 7 3 12 None)
   = 7 + 3 + sum_list (map ha_consumed_amount (filter (\<lambda>a. ha_grant_id a = 108) (hold_allocations demo_db4)))"
  using grant_accounting [OF demo_reachable, of "demo_row 108 ''b'' 10 7 3 12 None"]
  by (simp add: demo_tables4 demo_row_def)

section \<open>Settlement\<close>

text \<open>The settlement of an active hold, up to the commit.\<close>

lemma finalize_to_commit:
  assumes inv: "ledger_inv db"
    and "h \<in> set (credit_holds db)" and "ch_workspace_id h = workspace_id p"
    and "ch_state h = CreditHoldState.HELD"
    and "0 \<le> hz_actual_amount d" and "hz_actual_amount d \<le> ch_maximum_amount h"
  obtains a db1 where "get_account (workspace_id p) db = Inr a" "a \<in> set (credit_accounts db)"
    "0 \<le> ca_available_balance a" "ch_maximum_amount h \<le> ca_held_balance a" "0 < ch_maximum_amount h"
    "settles h (ch_maximum_amount h) (hz_actual_amount d) db db1"
    "finalize_hold now p (ch_id h) d db = finalize_commit now p h d \<lparr>hf_consumed = hz_actual_amount d,
       hf_released = ch_maximum_amount h - hz_actual_amount d, hf_replay = False\<rparr> a db1"
proof -
  have keys: "db_keys db" using inv by (simp add: ledger_inv_def)
  obtain a where a: "get_account (workspace_id p) db = Inr a" "a \<in> set (credit_accounts db)"
      "0 \<le> ca_available_balance a" "ch_maximum_amount h \<le> ca_held_balance a"
    using account_of_hold [OF inv assms(2,3)] assms(4) by metis
  obtain db1 where db1: "finalize_loop (hz_actual_amount d) (sort_key ha_allocation_order
        (allocations_of (ch_workspace_id h) (ch_id h) db)) db = Inr (0, db1)"
      "settles h (ch_maximum_amount h) (hz_actual_amount d) db db1"
    using finalize_loop_active [OF inv assms(2,4-6)] .
  define r where "r = \<lparr>hf_consumed = hz_actual_amount d, hf_released = ch_maximum_amount h - hz_actual_amount d,
    hf_replay = False\<rparr>"
  have max: "0 < ch_maximum_amount h" using inv assms(2) by (auto simp: ledger_inv_def hold_ok_def)
  then have amounts: "finalize_hold_amounts (ch_state h) (Finite (ch_maximum_amount h))
      (Finite (hz_actual_amount d)) (ch_actual_amount h) = Inr r"
    using assms(4-6) by (simp add: finalize_hold_amounts_def require_positive_amount_def
        require_nonnegative_amount_def r_def)
  have "finalize_hold now p (ch_id h) d db = finalize_commit now p h d r a db1"
    using find_hold [OF keys assms(2,3)] amounts a(1) db1(1) assms(3)
    by (simp add: finalize_hold_def r_def)
  with a max db1(2) show thesis using that by (simp add: r_def)
qed

text \<open>C4. Finalizing an active hold succeeds unless a column is too small: in a reachable state, for
  a schema-valid request whose cost is at most the hold's maximum and whose event identifier has not
  been used before, the call returns the hold as FINALIZED with the cost consumed and the rest
  released, lowers the account's held balance by the maximum and raises the available one by the
  rest. The exceptions are exactly an event identifier of more than 238 characters (the schema
  allows 500, the ledger's key column does not) and an available balance that would reach ten
  trillion credits (its NUMERIC(19,6) column overflows); then the flush fails with a data error.
  A corrupt allocation is never reported.\<close>

theorem finalize_hold_succeeds:
  assumes "billing_reachable H db"
    and "h \<in> set (credit_holds db)" and "ch_workspace_id h = workspace_id p"
    and "ch_state h = CreditHoldState.HELD"
    and "valid_hold_finalize d" and "hz_actual_amount d \<le> ch_maximum_amount h"
    and "event_unused p (hz_finalization_event_id d) (ch_id h) db"
  shows "\<exists>a. get_account (workspace_id p) db = Inr a
    \<and> (if length (hz_finalization_event_id d) \<le> 238
          \<and> ca_available_balance a + (ch_maximum_amount h - hz_actual_amount d) < 10 ^ 13
       then \<exists>h' db' a'. finalize_hold now p (ch_id h) d db = Inr (h', db')
         \<and> ch_state h' = CreditHoldState.FINALIZED \<and> ch_actual_amount h' = Some (hz_actual_amount d)
         \<and> ch_released_amount h' = Some (ch_maximum_amount h - hz_actual_amount d)
         \<and> get_account (workspace_id p) db' = Inr a'
         \<and> ca_held_balance a' = ca_held_balance a - ch_maximum_amount h
         \<and> ca_available_balance a' = ca_available_balance a + (ch_maximum_amount h - hz_actual_amount d)
       else \<exists>c. finalize_hold now p (ch_id h) d db = Inl (DataError c))"
proof -
  have inv: "ledger_inv db" and range: "balances_fit db"
    using assms(1) by (rule reachable_inv, rule reachable_range)
  have cost: "0 \<le> hz_actual_amount d" using assms(5) by (simp add: valid_hold_finalize_def)
  define r where "r = \<lparr>hf_consumed = hz_actual_amount d, hf_released = ch_maximum_amount h - hz_actual_amount d,
    hf_replay = False\<rparr>"
  obtain a db1 where a: "get_account (workspace_id p) db = Inr a" "a \<in> set (credit_accounts db)"
      "0 \<le> ca_available_balance a" "ch_maximum_amount h \<le> ca_held_balance a" "0 < ch_maximum_amount h"
    and db1: "settles h (ch_maximum_amount h) (hz_actual_amount d) db db1"
    and final: "finalize_hold now p (ch_id h) d db = finalize_commit now p h d r a db1"
    using finalize_to_commit [OF inv assms(2-4) cost assms(6)] unfolding r_def by metis
  have held: "fits_19_6 (ca_held_balance a)" using range a(2) by (simp add: balances_fit_def list_all_iff)
  show ?thesis
  proof (cases "length (hz_finalization_event_id d) \<le> 238
      \<and> ca_available_balance a + (ch_maximum_amount h - hz_actual_amount d) < 10 ^ 13")
    case True
    then have "fits_19_6 (ca_available_balance a + (ch_maximum_amount h - hz_actual_amount d))"
      using a(3) assms(6) by (simp add: fits_19_6_def)
    with True obtain h' db' where commit: "finalize_commit now p h d r a db1 = Inr (h', db')"
      using finalize_commit_ok [OF db1 cost assms(6) a(3,4) _ assms(7) held _ r_def, of now]
      by (auto simp: is_ok_iff)
    have "credit_accounts db' = update_where (\<lambda>x. ca_id x = ca_id a)
        (\<lambda>x. x\<lparr>ca_held_balance := ca_held_balance a - ch_maximum_amount h,
               ca_available_balance := ca_available_balance a + hf_released r\<rparr>) (credit_accounts db1)"
      using commit by (rule finalize_commit_db) (simp add: row_update_defs set_balances_def)
    then have "get_account (workspace_id p) db' = Inr (a\<lparr>ca_held_balance := ca_held_balance a - ch_maximum_amount h,
               ca_available_balance := ca_available_balance a + hf_released r\<rparr>)"
      using a(1) db1 by (auto simp: settles_def get_account_def find_update_where split: option.splits)
    then show ?thesis
      using True finalize_commit_hold(1) [OF commit] a(1) final commit by (auto simp: r_def)
  next
    case False
    then have "238 < length (hz_finalization_event_id d)
        \<or> \<not> fits_19_6 (ca_available_balance a + (ch_maximum_amount h - hz_actual_amount d))"
      by (auto simp: fits_19_6_def)
    then have "\<exists>c. finalize_hold now p (ch_id h) d db = Inl (DataError c)"
      using finalize_commit_refused [OF a(3,4) cost assms(6) a(5) _ r_def] final by simp
    with False a(1) show ?thesis by (metis (no_types, lifting))
  qed
qed

theorem finalize_hold_succeeds_witness:
  "(\<exists>h' db' a'. finalize_hold 20 demo_principal 113 (demo_finalize 6) demo_db4 = Inr (h', db')
     \<and> ch_released_amount h' = Some 2 \<and> get_account 2 db' = Inr a'
     \<and> ca_held_balance a' = 0 \<and> ca_available_balance a' = 9)
   \<and> (\<exists>c. finalize_hold 20 demo_principal 113
        ((demo_finalize 6)\<lparr>hz_finalization_event_id := replicate 239 (CHR ''e'')\<rparr>) demo_db4 = Inl (DataError c))"
proof -
  let ?h = "hold_row demo_principal (demo_hold ''key-0001'' 8) demo_price
        \<lparr>ca_id = 100, ca_workspace_id = 2, ca_available_balance = 15, ca_held_balance = 0\<rparr> ''h'' 113"
  let ?long = "(demo_finalize 6)\<lparr>hz_finalization_event_id := replicate 239 (CHR ''e'')\<rparr>"
  have key: "event_unused demo_principal ev (ch_id ?h) demo_db4" for ev
    by (simp add: event_unused_def demo_tables4 demo_tables3 demo_entry_def hold_entry_def hold_row_def demo_defs)
  have "valid_hold_finalize (demo_finalize 6)" "valid_hold_finalize ?long"
    by (simp_all add: valid_hold_finalize_def demo_finalize_def numeric_19_6_def)
  with finalize_hold_succeeds [OF demo_reachable, of ?h demo_principal "demo_finalize 6" 20]
    finalize_hold_succeeds [OF demo_reachable, of ?h demo_principal ?long 20] key
  show ?thesis by (auto simp: demo_tables4 hold_row_def demo_defs get_account_def)
qed

section \<open>History\<close>

text \<open>C5. The ledger is append-only and settlements are final: whatever transactions follow a
  reachable state, its ledger is a prefix of the later one, and a hold that was finalized or
  released is still there, unchanged.\<close>

theorem history_is_final:
  assumes "billing_reachable H db" and "(billing_step H)\<^sup>*\<^sup>* db db'"
  shows "(\<exists>es. credit_ledger db' = credit_ledger db @ es)
    \<and> (\<forall>h \<in> set (credit_holds db). ch_state h \<noteq> CreditHoldState.HELD \<longrightarrow> h \<in> set (credit_holds db'))"
  using steps_extend [OF assms(2,1)] by (simp add: extends_history_def)

theorem history_is_final_witness:
  "\<exists>es. credit_ledger demo_db5 = credit_ledger demo_db4 @ es"
proof -
  have "valid_hold_finalize (demo_finalize 6)"
    by (simp add: valid_hold_finalize_def demo_finalize_def numeric_19_6_def)
  then have "billing_step demo_hash demo_db4 demo_db5"
    using demo_step5 billing_step.finalize by metis
  then show ?thesis using history_is_final [OF demo_reachable, of demo_db5] by blast
qed

section \<open>Delivery\<close>

text \<open>C6. Delivering a finalization any number of times, at any times, has the effect of delivering
  it once: the first call that commits decides, and every later one returns the same hold and
  leaves the database as it is.\<close>

theorem finalize_exactly_once:
  assumes "billing_reachable H db" and "finalize_hold t p i d db = Inr (h, db')"
  shows "deliver (\<lambda>now (p, i, d). finalize_hold now p i d) (p, i, d) (t # ts) db
         = Inr (replicate (Suc (length ts)) h, db')"
  using finalize_cmd.exactly_once [where r = "(p, i, d)" and db = db and t = t and x = h and db' = db' and ts = ts] assms reachable_inv by simp

theorem finalize_exactly_once_witness:
  "\<exists>h. deliver (\<lambda>now (p, i, d). finalize_hold now p i d) (demo_principal, 113, demo_finalize 6) [14, 15, 99] demo_db4
       = Inr ([h, h, h], demo_db5)"
proof -
  obtain h where "finalize_hold 14 demo_principal 113 (demo_finalize 6) demo_db4 = Inr (h, demo_db5)"
    using demo_step5 by blast
  from finalize_exactly_once [OF demo_reachable this, of "[15, 99]"] show ?thesis by auto
qed

lemma create_hold_stored:
  assumes "create_hold H now p d db = Inr (h, db')"
  shows "h \<in> set (credit_holds db')"
proof (cases "List.find (\<lambda>h. ch_workspace_id h = workspace_id p \<and> ch_subject_type h = hc_subject_type d
    \<and> ch_subject_id h = hc_subject_id d \<and> ch_idempotency_key h = hc_idempotency_key d) (credit_holds db)")
  case (Some x)
  then show ?thesis
    using assms find_SomeD [OF Some] by (auto simp: create_hold_def Let_def split: if_splits)
next
  case None
  from assms None obtain price account row db2 where
      commit: "hold_commit now p d price account row db2 = Inr (h, db')"
    and "credit_holds db2 = credit_holds db @ [row]"
    by (auto simp: create_hold_def Let_def uuid4_def result_simps split_beta allocate_loop_holds split: if_splits)
  with hold_commit_db [OF commit] show ?thesis by (auto simp: set_balances_def update_account_def)
qed

text \<open>C7. The same for releases, and for the creation of a hold: it is stored, repeating the request
  before the requested expiry returns it and changes nothing, and a retry at or after the expiry is
  refused although the hold exists.\<close>

theorem hold_commands_exactly_once:
  assumes "billing_reachable H db"
  shows "(release_hold t p i r db = Inr (h, db') \<longrightarrow>
      deliver (\<lambda>now (p, i, r). release_hold now p i r) (p, i, r) (t # ts) db
      = Inr (replicate (Suc (length ts)) h, db'))
    \<and> (valid_hold_create d \<and> create_hold H t p d db = Inr (h, db') \<longrightarrow>
      h \<in> set (credit_holds db')
      \<and> ((\<forall>t' \<in> set ts. t' < hc_expires_at d) \<longrightarrow>
          deliver (\<lambda>now (H, p, d). create_hold H now p d) (H, p, d) (t # ts) db
          = Inr (replicate (Suc (length ts)) h, db'))
      \<and> (\<forall>t'. hc_expires_at d \<le> t' \<longrightarrow>
          create_hold H t' p d db' = Inl (app_error ''CREDIT_HOLD_EXPIRY_INVALID'' 422)))"
  using reachable_inv [OF assms] create_hold_stored [of H t p d db h db']
    release_cmd.exactly_once [where r = "(p, i, r)" and db = db and t = t and x = h and db' = db' and ts = ts]
    hold_cmd.exactly_once [where r = "(H, p, d)" and db = db and t = t and x = h and db' = db' and ts = ts]
  by (simp add: create_hold_def [of H _ p d db'])

theorem hold_commands_exactly_once_witness:
  "(\<exists>h db'. deliver (\<lambda>now (p, i, r). release_hold now p i r) (demo_principal, 113, demo_release) [14, 15] demo_db4
       = Inr ([h, h], db'))
   \<and> (\<exists>h \<in> set (credit_holds demo_db4).
       deliver (\<lambda>now (H, p, d). create_hold H now p d) (demo_hash, demo_principal, demo_hold ''key-0001'' 8)
         [13, 999] demo_db3 = Inr ([h, h], demo_db4)
       \<and> create_hold demo_hash 1000 demo_principal (demo_hold ''key-0001'' 8) demo_db4
         = Inl (app_error ''CREDIT_HOLD_EXPIRY_INVALID'' 422))"
proof
  obtain h db' where "release_hold 14 demo_principal 113 demo_release demo_db4 = Inr (h, db')"
    using demo_release_ok by blast
  with hold_commands_exactly_once [OF demo_reachable, of 14 demo_principal 113 demo_release h db' "[15]"]
  show "\<exists>h db'. deliver (\<lambda>now (p, i, r). release_hold now p i r) (demo_principal, 113, demo_release) [14, 15] demo_db4
       = Inr ([h, h], db')" by auto
  have d: "valid_hold_create (demo_hold ''key-0001'' 8)" "hc_expires_at (demo_hold ''key-0001'' 8) = 1000"
    by (simp_all add: valid_hold_create_def demo_hold_def numeric_19_6_def)
  obtain h where "create_hold demo_hash 13 demo_principal (demo_hold ''key-0001'' 8) demo_db3 = Inr (h, demo_db4)"
    using demo_step4 by blast
  with hold_commands_exactly_once [OF demo_reachable3, of 13 demo_principal _ _ h demo_db4 "[999]" "demo_hold ''key-0001'' 8"] d
  show "\<exists>h \<in> set (credit_holds demo_db4).
       deliver (\<lambda>now (H, p, d). create_hold H now p d) (demo_hash, demo_principal, demo_hold ''key-0001'' 8)
         [13, 999] demo_db3 = Inr ([h, h], demo_db4)
       \<and> create_hold demo_hash 1000 demo_principal (demo_hold ''key-0001'' 8) demo_db4
         = Inl (app_error ''CREDIT_HOLD_EXPIRY_INVALID'' 422)" by auto
qed

text \<open>C8. Grants, usage records and reversals are credited once however often they are delivered.\<close>

theorem credit_commands_exactly_once:
  assumes "billing_reachable H db"
  shows "(valid_grant_create d \<and> grant_credits t p d db = Inr (g, db') \<longrightarrow>
      deliver (\<lambda>now (p, d). grant_credits now p d) (p, d) (t # ts) db
      = Inr (replicate (Suc (length ts)) g, db'))
    \<and> (record_usage t p u db = Inr (ur, db') \<longrightarrow>
      deliver (\<lambda>now (p, u). record_usage now p u) (p, u) (t # ts) db
      = Inr (replicate (Suc (length ts)) ur, db'))
    \<and> (reverse_credit_debit t p i key reason bucket ex pol db = Inr (e, db') \<longrightarrow>
      deliver (\<lambda>now (p, i, key, reason, bucket, ex, pol). reverse_credit_debit now p i key reason bucket ex pol)
        (p, i, key, reason, bucket, ex, pol) (t # ts) db
      = Inr (replicate (Suc (length ts)) e, db'))"
  using reachable_inv [OF assms]
    grant_cmd.exactly_once [where r = "(p, d)" and db = db and t = t and x = g and db' = db' and ts = ts]
    usage_cmd.exactly_once [where r = "(p, u)" and db = db and t = t and x = ur and db' = db' and ts = ts]
    reverse_cmd.exactly_once [where r = "(p, i, key, reason, bucket, ex, pol)" and db = db and t = t and x = e
      and db' = db' and ts = ts]
  by simp

theorem credit_commands_exactly_once_witness:
  "\<exists>g. deliver (\<lambda>now (p, d). grant_credits now p d) (demo_principal, demo_grant ''b'' 10 None) [12, 40] demo_db2
       = Inr ([g, g], demo_db3)"
proof -
  have "billing_reachable demo_hash demo_db2" by (rule demo_reachable2)
  moreover have "valid_grant_create (demo_grant ''b'' 10 None)"
    by (simp add: valid_grant_create_def demo_grant_def numeric_19_6_def)
  moreover obtain g where "grant_credits 12 demo_principal (demo_grant ''b'' 10 None) demo_db2 = Inr (g, demo_db3)"
    using demo_step3 by blast
  ultimately show ?thesis using credit_commands_exactly_once [of demo_hash demo_db2 "demo_grant ''b'' 10 None" 12 demo_principal g demo_db3 "[40]"]
    by auto
qed

section \<open>Order of allocation\<close>

text \<open>Which of two grants is to be spent first: the one that expires earlier, a grant without expiry
  coming last; between grants with the same expiry the one granted earlier, then the lower id.\<close>

definition expires_before :: "time option \<Rightarrow> time option \<Rightarrow> bool" where
  "expires_before x y \<longleftrightarrow>
     (case x of None \<Rightarrow> False | Some s \<Rightarrow> (case y of None \<Rightarrow> True | Some t \<Rightarrow> s < t))"

definition spent_before :: "credit_grant \<Rightarrow> credit_grant \<Rightarrow> bool" where
  "spent_before e g \<longleftrightarrow> expires_before (cg_expires_at e) (cg_expires_at g)
     \<or> cg_expires_at e = cg_expires_at g
        \<and> (cg_granted_at e < cg_granted_at g \<or> cg_granted_at e = cg_granted_at g \<and> cg_id e < cg_id g)"

lemma grant_order_spent_before: "spent_before e g \<Longrightarrow> grant_order e < grant_order g"
  by (auto simp: spent_before_def expires_before_def grant_order_def less_prod_def' split: option.splits)

text \<open>C9. Credits that expire first are spent first: when a hold is created, it draws only from
  unexpired grants of the account with something available, and if it draws from a grant then every
  unexpired grant of the account with something available that expires earlier (a grant without
  expiry expires last), or expires at the same time and was granted earlier, is drawn completely.\<close>

theorem earliest_expiry_first:
  assumes "billing_reachable H db" and "valid_hold_create d"
    and "create_hold H now p d db = Inr (h, db')" and "h \<notin> set (credit_holds db)"
    and "get_account (workspace_id p) db = Inr account"
    and "a \<in> set (hold_allocations db')" and "ha_hold_id a = ch_id h"
  shows "\<exists>g \<in> set (credit_grants db). cg_id g = ha_grant_id a \<and> cg_account_id g = ca_id account
      \<and> 0 < cg_available_amount g \<and> (\<forall>t. cg_expires_at g = Some t \<longrightarrow> now < t)
      \<and> (\<forall>e \<in> set (credit_grants db).
           cg_workspace_id e = workspace_id p \<and> cg_account_id e = ca_id account \<and> 0 < cg_available_amount e
           \<and> (\<forall>t. cg_expires_at e = Some t \<longrightarrow> now < t) \<and> spent_before e g \<longrightarrow>
           (\<exists>b \<in> set (hold_allocations db'). ha_hold_id b = ch_id h \<and> ha_grant_id b = cg_id e
              \<and> ha_held_amount b = cg_available_amount e))"
proof -
  have inv: "ledger_inv db" using assms(1) by (rule reachable_inv)
  then have keys: "db_keys db" by (simp add: ledger_inv_def)
  define gs where "gs = eligible_grants (workspace_id p) (ca_id account) now db"
  note facts = eligible_grants_facts [OF keys gs_def]
  have plan: "(\<lambda>a. (ha_grant_id a, ha_held_amount a)) ` {a \<in> set (hold_allocations db'). ha_hold_id a = ch_id h}
      = set (draw_plan (hc_maximum_amount d) gs)"
    unfolding gs_def by (rule create_hold_plan [OF inv assms(3-5)])
  have in_plan: "ha_grant_id a \<in> fst ` set (draw_plan (hc_maximum_amount d) gs)"
    unfolding plan [symmetric] using assms(6,7) by force
  then have "ha_grant_id a \<in> cg_id ` set gs" using draw_plan_ids by blast
  then obtain k' where k': "k' < length gs" "cg_id (gs ! k') = ha_grant_id a"
    by (auto simp: in_set_conv_nth)
  have max: "0 \<le> hc_maximum_amount d" using assms(2) by (simp add: valid_hold_create_def)
  have drained: "\<exists>b \<in> set (hold_allocations db'). ha_hold_id b = ch_id h \<and> ha_grant_id b = cg_id e
      \<and> ha_held_amount b = cg_available_amount e"
    if e: "e \<in> set gs" "spent_before e (gs ! k')" for e
  proof -
    obtain k where k: "k < length gs" "gs ! k = e" using e(1) by (auto simp: in_set_conv_nth)
    have "sorted (map grant_order gs)" by (simp add: gs_def eligible_grants_def)
    then have "k' \<le> k \<Longrightarrow> grant_order (gs ! k') \<le> grant_order (gs ! k)"
      using sorted_nth_mono [of "map grant_order gs" k' k] k(1) by simp
    then have "k < k'" using grant_order_spent_before [OF e(2)] k(2) by (metis not_le)
    then have "(cg_id e, cg_available_amount e) \<in> set (draw_plan (hc_maximum_amount d) gs)"
      using draw_plan_drained [OF facts(1) \<open>k < k'\<close> k'(1), of "hc_maximum_amount d"] facts(3) in_plan k'(2) k(2) max
      by simp
    then show ?thesis unfolding plan [symmetric] by force
  qed
  have g: "gs ! k' \<in> set gs" using k'(1) by simp
  have eligible: "e \<in> set gs" if "e \<in> set (credit_grants db)" "cg_workspace_id e = workspace_id p"
      "cg_account_id e = ca_id account" "0 < cg_available_amount e" "\<forall>t. cg_expires_at e = Some t \<longrightarrow> now < t" for e
    using that by (auto simp: gs_def eligible_grants_def split: option.splits)
  have "\<forall>t. cg_expires_at (gs ! k') = Some t \<longrightarrow> now < t"
    using g by (auto simp: gs_def eligible_grants_def)
  then show ?thesis using facts(2,3) g k'(2) drained eligible by blast
qed

theorem earliest_expiry_first_witness:
  "\<exists>b \<in> set (hold_allocations demo_db4). ha_grant_id b = 103 \<and> ha_held_amount b = 5"
proof -
  let ?h = "hold_row demo_principal (demo_hold ''key-0001'' 8) demo_price
        \<lparr>ca_id = 100, ca_workspace_id = 2, ca_available_balance = 15, ca_held_balance = 0\<rparr> ''h'' 113"
  have "valid_hold_create (demo_hold ''key-0001'' 8)"
    by (simp add: valid_hold_create_def demo_hold_def numeric_19_6_def)
  moreover have "?h \<notin> set (credit_holds demo_db3)" by (simp add: demo_tables3)
  moreover have "get_account (workspace_id demo_principal) demo_db3
      = Inr \<lparr>ca_id = 100, ca_workspace_id = 2, ca_available_balance = 15, ca_held_balance = 0\<rparr>"
    by (simp add: get_account_def demo_tables3 demo_defs)
  moreover have "demo_alloc 115 113 108 2 3 \<in> set (hold_allocations demo_db4)" by (simp add: demo_tables4)
  moreover have "ha_hold_id (demo_alloc 115 113 108 2 3) = ch_id ?h"
    by (simp add: demo_alloc_def new_alloc_def hold_row_def)
  ultimately have "\<exists>g \<in> set (credit_grants demo_db3). cg_id g = 108 \<and>
      (\<forall>e \<in> set (credit_grants demo_db3). cg_workspace_id e = 2 \<and> cg_account_id e = 100
        \<and> 0 < cg_available_amount e \<and> (\<forall>t. cg_expires_at e = Some t \<longrightarrow> 13 < t) \<and> spent_before e g \<longrightarrow>
        (\<exists>b \<in> set (hold_allocations demo_db4). ha_hold_id b = ch_id ?h \<and> ha_grant_id b = cg_id e
           \<and> ha_held_amount b = cg_available_amount e))"
    using earliest_expiry_first [OF demo_reachable3 _ demo_step4, of _ "demo_alloc 115 113 108 2 3"]
    by (auto simp: demo_defs demo_alloc_def new_alloc_def)
  then show ?thesis
    by (auto simp: demo_tables3 demo_row_def spent_before_def expires_before_def)
qed

section \<open>Reversals\<close>

text \<open>C10. Reversals give back no more than was consumed: in a reachable state every consumed entry
  is reversed at most once, and the total of an account's REVERSAL entries is at most the total of
  its CONSUME entries.\<close>

theorem reversals_bounded:
  assumes "billing_reachable H db"
  shows "distinct (map le_reversal_of_id (filter (\<lambda>e. le_reversal_of_id e \<noteq> None) (credit_ledger db)))
    \<and> entry_total [CreditEntryKind.REVERSAL] c db \<le> entry_total [CreditEntryKind.CONSUME] c db"
proof
  have inv: "ledger_inv db" and refs: "reversal_refs db" using assms by (rule reachable_inv, rule reachable_refs)
  then have once: "distinct (map le_reversal_of_id (filter (\<lambda>e. le_reversal_of_id e \<noteq> None) (credit_ledger db)))"
    by (simp add: ledger_inv_def reversals_once_def filter_map comp_def del: not_None_eq)
  then show "distinct (map le_reversal_of_id (filter (\<lambda>e. le_reversal_of_id e \<noteq> None) (credit_ledger db)))" .
  have ids: "distinct (map le_id (credit_ledger db))" using inv keys_distinct(6) by (simp add: ledger_inv_def)
  define R where "R = {e \<in> set (credit_ledger db). le_account_id e = c \<and> le_kind e \<in> set [CreditEntryKind.REVERSAL]}"
  define C where "C = {e \<in> set (credit_ledger db). le_account_id e = c \<and> le_kind e \<in> set [CreditEntryKind.CONSUME]}"
  define orig where "orig e = (SOME x. x \<in> set (credit_ledger db) \<and> reverses e x)" for e
  have orig: "orig e \<in> set (credit_ledger db) \<and> reverses e (orig e)" if "e \<in> R" for e
  proof -
    have "\<exists>x. x \<in> set (credit_ledger db) \<and> reverses e x"
      using refs that by (auto simp: R_def reversal_refs_def)
    then show ?thesis unfolding orig_def by (rule someI_ex)
  qed
  have inj: "inj_on orig R"
  proof (rule inj_onI)
    fix x y assume xy: "x \<in> R" "y \<in> R" "orig x = orig y"
    then have same: "le_reversal_of_id x = le_reversal_of_id y" "le_reversal_of_id x \<noteq> None"
      using orig [OF xy(1)] orig [OF xy(2)] by (simp_all add: reverses_def)
    then have "x \<in> set (filter (\<lambda>e. le_reversal_of_id e \<noteq> None) (credit_ledger db))"
        "y \<in> set (filter (\<lambda>e. le_reversal_of_id e \<noteq> None) (credit_ledger db))"
      using xy(1,2) by (simp_all add: R_def)
    then show "x = y" using distinct_key_eq [OF once] same(1) by blast
  qed
  have "sum le_amount R = sum (le_amount \<circ> orig) R"
    using orig by (intro sum.cong) (auto simp: reverses_def)
  also have "\<dots> = sum le_amount (orig ` R)" using inj by (simp add: sum.reindex)
  also have "\<dots> \<le> sum le_amount C"
  proof (rule sum_mono2)
    show "orig ` R \<subseteq> C" using orig by (auto simp: R_def C_def reverses_def)
    show "finite C" by (simp add: C_def)
    show "0 \<le> le_amount b" if "b \<in> C - orig ` R" for b
      using that inv by (auto simp: C_def ledger_inv_def entry_ok_def less_imp_le)
  qed
  finally show "entry_total [CreditEntryKind.REVERSAL] c db \<le> entry_total [CreditEntryKind.CONSUME] c db"
    by (simp add: entry_total_def sum_where_set [OF ids] R_def C_def)
qed

theorem reversals_bounded_witness:
  "entry_total [CreditEntryKind.REVERSAL] 100 demo_db5 \<le> entry_total [CreditEntryKind.CONSUME] 100 demo_db5"
  using reversals_bounded [OF demo_reachable5] by blast

end
