(* ===== verification/Billing_Pricing.thy ===== *)
theory Billing_Pricing
  imports Billing_Demo
begin

text \<open>
  Accuracy of the conversion of metered quantities to credits. Python's decimal context rounds every
  product and quotient to 28 significant digits; the theorems say when that is harmless and how far
  it can be off.
\<close>

section \<open>Supporting facts\<close>





section \<open>Properties\<close>





end
