(* ===== verification/Payment_Properties.thy ===== *)
theory Payment_Properties
  imports Billing_Demo
begin

text \<open>
  Payment commands and provider events: a command is settled once and for all, the worker reports a
  terminal state except when two tenants' commands share a provider reference, and no event with a
  sensitive field is stored.
\<close>

section \<open>Supporting facts\<close>

abbreviation find_command :: "uuid \<Rightarrow> uuid \<Rightarrow> billing_db \<Rightarrow> payment_command option" where
  "find_command ws i db \<equiv> List.find (\<lambda>c. pc_workspace_id c = ws \<and> pc_id c = i) (payment_commands db)"

lemma find_command_update:
  assumes "find_command ws i db = Some c"
    and "\<And>x. pc_workspace_id (f x) = pc_workspace_id x" and "\<And>x. pc_id (f x) = pc_id x"
  shows "find_command ws i (update_command i f db) = Some (f c)"
  using assms find_SomeD [OF assms(1)] by (simp add: update_command_def find_update_where)

lemma accept_checkout_settles:
  assumes "accept_checkout ws now c r db = Inr (c', db')" and "find_command ws i db = Some c"
  shows "command_settled c' \<and> find_command ws i db' = Some c'"
proof -
  have i: "pc_id c = i" using find_SomeD [OF assms(2)] by simp
  show ?thesis
    using assms(1) find_command_update [OF assms(2)]
    by (auto simp: accept_checkout_def Let_def command_settled_def i split: if_splits)
qed

lemma execute_settles:
  assumes "execute_payment_intent bok gs now ws i db = Inr (c', db')"
  shows "command_settled c' \<and> find_command ws i db' = Some c'"
proof -
  from assms obtain c where c: "find_command ws i db = Some c"
    by (auto simp: execute_payment_intent_def split: option.splits)
  with assms show ?thesis
    by (auto simp: execute_payment_intent_def result_simps split: if_splits json.splits
        intro!: accept_checkout_settles)
qed

lemma fail_settles:
  assumes "fail_payment_intent now ws i code rej db = Inr (c', db')"
  shows "command_settled c' \<and> find_command ws i db' = Some c'"
proof -
  from assms obtain c where c: "find_command ws i db = Some c"
    by (auto simp: fail_payment_intent_def split: option.splits)
  moreover have "pc_id c = i" using find_SomeD [OF c] by simp
  ultimately show ?thesis
    using assms find_command_update [OF c]
    by (auto simp: fail_payment_intent_def Let_def command_settled_def split: if_splits)
qed

lemma run_settles:
  assumes "run_payment_intent bok gs now ws i db = Inr (s, db')"
  shows "\<exists>c. find_command ws i db' = Some c \<and> command_settled c \<and> pc_state c = s"
  using assms
  by (auto simp: run_payment_intent_def result_simps dest!: execute_settles fail_settles
      split: sum.splits error.splits)

lemma fail_ok:
  assumes "find_command ws i db = Some c"
  shows "is_ok (fail_payment_intent now ws i code rej db)"
  using assms by (cases "pc_state c") (auto simp: fail_payment_intent_def command_settled_def Let_def)

lemma urlsplit_no_integrity: "urlsplit b u \<noteq> Inl (IntegrityError x)"
  by (auto simp: urlsplit_def Let_def split: prod.splits)

text \<open>The only flush that fails: the reference the provider returned for this command is carried by
  a command of another workspace, which the row level security hides from the lookup.\<close>

definition reference_taken ::
  "gateway_registry \<Rightarrow> uuid \<Rightarrow> payment_command \<Rightarrow> billing_db \<Rightarrow> bool" where
  "reference_taken gateways ws command db \<longleftrightarrow>
     (\<exists>g q r. gateways (pc_provider command) = Some g \<and> g q = Inr r
        \<and> cr_command_id q = pc_id command \<and> cr_workspace_id q = ws
        \<and> (\<exists>c \<in> set (payment_commands db). pc_workspace_id c \<noteq> ws
             \<and> pc_provider_request_ref c = Some (strip (cx_provider_request_ref r))))"

lemma accept_integrity:
  assumes "accept_checkout ws now c r db = Inl (IntegrityError x)"
  shows "\<exists>c \<in> set (payment_commands db). pc_workspace_id c \<noteq> ws
    \<and> pc_provider_request_ref c = Some (strip (cx_provider_request_ref r))"
  using assms by (auto simp: accept_checkout_def Let_def list_ex_iff split: if_splits)

lemma execute_integrity:
  assumes "execute_payment_intent bok gateways now ws i db = Inl (IntegrityError x)"
    and "\<forall>provider g r e. gateways provider = Some g \<longrightarrow> g r \<noteq> Inl (IntegrityError e)"
    and "find_command ws i db = Some command"
  shows "reference_taken gateways ws command db"
proof -
  obtain g q r where "gateways (pc_provider command) = Some g" "g q = Inr r" "cr_command_id q = pc_id command"
      "cr_workspace_id q = ws" "accept_checkout ws now command r db = Inl (IntegrityError x)"
    using assms urlsplit_no_integrity
    by (fastforce simp: execute_payment_intent_def result_simps resolve_gateway_def
        split: option.splits if_splits json.splits)
  then show ?thesis
    using accept_integrity [of ws now command r db x] unfolding reference_taken_def by blast
qed

fun all_keys :: "json \<Rightarrow> string list" and item_keys :: "(string \<times> json) list \<Rightarrow> string list"
  and elem_keys :: "json list \<Rightarrow> string list" where
  "all_keys (JDict kvs) = item_keys kvs"
| "all_keys (JList vs) = elem_keys vs"
| "all_keys _ = []"
| "item_keys [] = []"
| "item_keys ((k, v) # kvs) = k # all_keys v @ item_keys kvs"
| "elem_keys [] = []"
| "elem_keys (v # vs) = all_keys v @ elem_keys vs"

lemma sensitive_paths_none:
  "payment_sensitive_paths v path = [] \<longleftrightarrow> \<not> list_ex sensitive_key (all_keys v)"
  "sensitive_items kvs path = [] \<longleftrightarrow> \<not> list_ex sensitive_key (item_keys kvs)"
  "sensitive_elems vs n path = [] \<longleftrightarrow> \<not> list_ex sensitive_key (elem_keys vs)"
proof (induction v path and kvs path and vs n path
    rule: payment_sensitive_paths_sensitive_items_sensitive_elems.induct)
  case (5 key nested kvs path)
  then show ?case by (cases "sensitive_key key") (auto simp: Let_def)
qed auto

text \<open>The stored provider events without a sensitive key; only the ingestion writes the table.\<close>

definition event_safe :: "payment_provider_event \<Rightarrow> bool" where
  "event_safe e \<longleftrightarrow> \<not> list_ex sensitive_key (all_keys (pe_normalized_payload e))"

lemma finalize_loop_events: "finalize_loop r as db = Inr (r', db') \<Longrightarrow> provider_events db' = provider_events db"
  by (induction r as db rule: finalize_loop.induct) (auto simp: Let_def row_update_defs split: option.splits)

lemma release_loop_events: "release_loop as db = Inr db' \<Longrightarrow> provider_events db' = provider_events db"
  by (induction as db rule: release_loop.induct) (auto simp: Let_def row_update_defs split: option.splits)

lemma allocate_loop_events: "provider_events (snd (allocate_loop ws i n r gs db)) = provider_events db"
  by (induction gs arbitrary: n r db) (auto simp: allocate_loop_Cons draw_step_def simp del: allocate_loop.simps(2))

lemma finalize_events:
  assumes "finalize_hold now p i d db = Inr (h, db')"
  shows "provider_events db' = provider_events db"
proof -
  have "provider_events db' = provider_events x" if "finalize_commit now p h' d r a x = Inr (h, db')" for h' r a x
    using that by (rule finalize_commit_db) (simp add: row_update_defs set_balances_def)
  then show ?thesis
    using assms
    by (force simp: finalize_hold_def result_simps dest: finalize_loop_events split: option.splits if_splits)
qed

lemma release_events:
  assumes "release_hold now p i d db = Inr (h, db')"
  shows "provider_events db' = provider_events db"
proof -
  have "provider_events db' = provider_events x" if "release_commit now p h' d a x = Inr (h, db')" for h' a x
    using that by (rule release_commit_db) (simp add: row_update_defs set_balances_def)
  then show ?thesis
    using assms
    by (force simp: release_hold_def result_simps dest: release_loop_events split: option.splits if_splits)
qed

lemma create_hold_events:
  assumes "create_hold H now p d db = Inr (h, db')"
  shows "provider_events db' = provider_events db"
proof -
  have "provider_events db' = provider_events x" if "hold_commit now p d price a h' x = Inr (h, db')" for h' price a x
    using hold_commit_db [OF that] by (auto simp: set_balances_def update_account_def)
  then show ?thesis
    using assms
    by (force simp: create_hold_def Let_def uuid4_def result_simps split_beta allocate_loop_events
        split: option.splits if_splits)
qed

lemma credit_events:
  "create_credit_account now p db = Inr (a, db') \<Longrightarrow> provider_events db' = provider_events db"
  "grant_credits now p gd db = Inr (g, db') \<Longrightarrow> provider_events db' = provider_events db"
  "reverse_credit_debit now p i key reason bucket ex pol db = Inr (e, db') \<Longrightarrow> provider_events db' = provider_events db"
  "record_usage now p ud db = Inr (u, db') \<Longrightarrow> provider_events db' = provider_events db"
  by (auto simp: create_credit_account_def grant_credits_def reverse_credit_debit_def record_usage_def result_simps
      uuid4_def Let_def insert_grant_Inr insert_entry_Inr update_account_def split: if_splits option.splits)

lemma queue_events: "queue_payment_intent H now p d db = Inr (c, db') \<Longrightarrow> provider_events db' = provider_events db"
  by (auto simp: queue_payment_intent_def Let_def uuid4_def result_simps split: option.splits if_splits)

lemma accept_events: "accept_checkout ws now c r db = Inr (c', db') \<Longrightarrow> provider_events db' = provider_events db"
  by (auto simp: accept_checkout_def Let_def update_command_def split: if_splits)

lemma execute_events:
  "execute_payment_intent bok gs now ws i db = Inr (c, db') \<Longrightarrow> provider_events db' = provider_events db"
  by (auto simp: execute_payment_intent_def result_simps dest: accept_events
      split: option.splits if_splits json.splits)

lemma fail_events:
  "fail_payment_intent now ws i code rej db = Inr (c, db') \<Longrightarrow> provider_events db' = provider_events db"
  by (auto simp: fail_payment_intent_def Let_def update_command_def split: option.splits if_splits)

lemma run_events: "run_payment_intent bok gs now ws i db = Inr (s, db') \<Longrightarrow> provider_events db' = provider_events db"
  by (auto simp: run_payment_intent_def result_simps dest: execute_events fail_events split: sum.splits error.splits)

lemma ingest_events:
  assumes "ingest_payment_event sha verdict store now provider body db = Inr (e, db')"
  obtains v where "verdict = Inr v" "e \<in> set (provider_events db')"
    "provider_events db' = provider_events db
     \<or> provider_events db' = provider_events db @ [e] \<and> pe_normalized_payload e = ve_normalized_payload v
        \<and> event_safe e"
proof -
  from assms obtain v where v: "verdict = Inr v" "payment_sensitive_paths (ve_normalized_payload v) ''payload'' = []"
    by (auto simp: ingest_payment_event_def Let_def result_simps split: if_splits)
  have "e \<in> set (provider_events db') \<and> (provider_events db' = provider_events db
     \<or> provider_events db' = provider_events db @ [e] \<and> pe_normalized_payload e = ve_normalized_payload v)"
    using assms v(1)
    by (auto simp: ingest_payment_event_def Let_def uuid4_def result_simps dest!: find_SomeD
        split: if_splits option.splits)
  then show thesis
    using that [OF v(1)] v(2) sensitive_paths_none(1) [of "ve_normalized_payload v" "''payload''"]
    by (auto simp: event_safe_def)
qed

lemma ingest_safe:
  "ingest_payment_event sha verdict store now provider body db = Inr (e, db') \<Longrightarrow>
   list_all event_safe (provider_events db) \<Longrightarrow> list_all event_safe (provider_events db')"
  by (erule ingest_events) auto

lemma step_events_safe:
  assumes "billing_step H db db'" and "list_all event_safe (provider_events db)"
  shows "list_all event_safe (provider_events db')"
  using assms
  by (cases rule: billing_step.cases)
    (metis credit_events create_hold_events finalize_events release_events queue_events run_events ingest_safe)+

lemma steps_events_safe:
  "(billing_step H)\<^sup>*\<^sup>* db db' \<Longrightarrow> list_all event_safe (provider_events db) \<Longrightarrow>
   list_all event_safe (provider_events db')"
  by (induction rule: rtranclp_induct) (auto intro: step_events_safe)

section \<open>Properties\<close>

text \<open>C13. A payment command is settled once: when the worker returns a state, the stored command
  is in that state, the state is terminal, and running the worker again (at any time, with any
  payment gateways) returns it again and changes nothing, so the provider is not called twice.\<close>

theorem payment_worker_settles:
  assumes "run_payment_intent bok gateways now ws i db = Inr (s, db')"
  shows "s \<in> {PaymentCommandState.PROVIDER_ACCEPTED, PaymentCommandState.PROVIDER_REJECTED,
        PaymentCommandState.FAILED}
    \<and> (\<exists>c \<in> set (payment_commands db'). pc_workspace_id c = ws \<and> pc_id c = i \<and> pc_state c = s)
    \<and> run_payment_intent bok' gateways' now' ws i db' = Inr (s, db')"
proof -
  obtain c where c: "find_command ws i db' = Some c" "command_settled c" "pc_state c = s"
    using run_settles [OF assms] by blast
  then show ?thesis
    using find_SomeD [OF c(1)]
    by (auto simp: command_settled_def run_payment_intent_def execute_payment_intent_def)
qed

definition demo_command :: payment_command where
  "demo_command = \<lparr>pc_id = 5, pc_workspace_id = 2, pc_requested_by = 1, pc_operation = ''SUBSCRIBE'',
     pc_idempotency_key = ''key-0001'', pc_request_hash = ''h'',
     pc_request_snapshot = [(''return_url'', JStr ''https://a.b/'')], pc_provider = ''none'',
     pc_provider_request_ref = None, pc_state = PaymentCommandState.PENDING_PROVIDER, pc_checkout_url = None,
     pc_expires_at = None, pc_error_code = None\<rparr>"

lemma demo_run:
  "\<exists>db'. run_payment_intent (\<lambda>_. True) (\<lambda>_. None) 7 2 5 (demo_db0\<lparr>payment_commands := [demo_command]\<rparr>)
    = Inr (PaymentCommandState.FAILED, db')"
  by (simp add: run_payment_intent_def execute_payment_intent_def fail_payment_intent_def demo_command_def
      metadata_get_def resolve_gateway_def command_settled_def provider_rejected_def Let_def)

theorem payment_worker_settles_witness:
  "\<exists>db' c. run_payment_intent (\<lambda>_. True) (\<lambda>_. None) 7 2 5 (demo_db0\<lparr>payment_commands := [demo_command]\<rparr>)
      = Inr (PaymentCommandState.FAILED, db')
    \<and> run_payment_intent (\<lambda>_. True) (\<lambda>_. Some (\<lambda>_. Inl KeyError)) 8 2 5 db' = Inr (PaymentCommandState.FAILED, db')
    \<and> c \<in> set (payment_commands db') \<and> pc_state c = PaymentCommandState.FAILED"
proof -
  obtain db' where run: "run_payment_intent (\<lambda>_. True) (\<lambda>_. None) 7 2 5 (demo_db0\<lparr>payment_commands := [demo_command]\<rparr>)
    = Inr (PaymentCommandState.FAILED, db')" using demo_run by blast
  from payment_worker_settles [OF this, of "\<lambda>_. True" "\<lambda>_. Some (\<lambda>_. Inl KeyError)" 8] run
  show ?thesis by blast
qed

text \<open>C14. The worker of a queued command settles it whatever the provider does (unavailable,
  rejecting, raising, or answering nonsense): it returns a terminal state and the stored command is
  in that state. The one exception is that the command's gateway answers its checkout with a
  reference that a command of another workspace already carries: then the flush fails, the
  transaction is lost and the command stays as it was. (A gateway raises no database error.)\<close>

theorem payment_worker_outcome:
  assumes "List.find (\<lambda>c. pc_workspace_id c = ws \<and> pc_id c = i) (payment_commands db) = Some command"
    and "\<forall>provider g r e. gateways provider = Some g \<longrightarrow> g r \<noteq> Inl (IntegrityError e)"
  shows "(\<exists>s db'. run_payment_intent bok gateways now ws i db = Inr (s, db')
       \<and> s \<in> {PaymentCommandState.PROVIDER_ACCEPTED, PaymentCommandState.PROVIDER_REJECTED,
              PaymentCommandState.FAILED}
       \<and> (\<exists>c \<in> set (payment_commands db'). pc_workspace_id c = ws \<and> pc_id c = i \<and> pc_state c = s))
    \<or> run_payment_intent bok gateways now ws i db = Inl (RuntimeError ''PendingRollbackError'')
      \<and> (\<exists>g q r. gateways (pc_provider command) = Some g \<and> g q = Inr r
           \<and> cr_command_id q = i \<and> cr_workspace_id q = ws
           \<and> (\<exists>c \<in> set (payment_commands db). pc_workspace_id c \<noteq> ws
                \<and> pc_provider_request_ref c = Some (strip (cx_provider_request_ref r))))"
proof -
  have i: "pc_id command = i" using find_SomeD [OF assms(1)] by simp
  have settled: "\<exists>s db'. bind_result (fail_payment_intent now ws i code rej db) (\<lambda>(c, db). Inr (pc_state c, db))
      = Inr (s, db')" for code rej
    using fail_ok [OF assms(1), of now code rej] by (auto simp: is_ok_iff)
  have outcome: "(\<exists>s db'. run_payment_intent bok gateways now ws i db = Inr (s, db'))
    \<or> run_payment_intent bok gateways now ws i db = Inl (RuntimeError ''PendingRollbackError'')
      \<and> reference_taken gateways ws command db"
  proof (cases "execute_payment_intent bok gateways now ws i db")
    case (Inl e)
    then show ?thesis
      using settled execute_integrity [OF _ assms(2,1)] by (cases e) (auto simp: run_payment_intent_def)
  qed (auto simp: run_payment_intent_def split: prod.splits)
  have final: "s \<in> {PaymentCommandState.PROVIDER_ACCEPTED, PaymentCommandState.PROVIDER_REJECTED,
        PaymentCommandState.FAILED}
      \<and> (\<exists>c \<in> set (payment_commands db'). pc_workspace_id c = ws \<and> pc_id c = i \<and> pc_state c = s)"
    if "run_payment_intent bok gateways now ws i db = Inr (s, db')" for s db'
    using run_settles [OF that] by (auto simp: command_settled_def dest!: find_SomeD)
  from outcome show ?thesis
  proof
    assume "\<exists>s db'. run_payment_intent bok gateways now ws i db = Inr (s, db')"
    then obtain s db' where "run_payment_intent bok gateways now ws i db = Inr (s, db')" by (elim exE)
    from conjI [OF this final [OF this]] show ?thesis by (intro disjI1 exI)
  qed (rule disjI2, simp only: reference_taken_def i)
qed

theorem payment_worker_outcome_witness:
  "\<exists>db'. run_payment_intent (\<lambda>_. True) (\<lambda>_. None) 7 2 5 (demo_db0\<lparr>payment_commands := [demo_command]\<rparr>)
      = Inr (PaymentCommandState.FAILED, db')
    \<and> (\<exists>c \<in> set (payment_commands db'). pc_id c = 5 \<and> pc_state c = PaymentCommandState.FAILED)"
  using payment_worker_outcome [of 2 5 "demo_db0\<lparr>payment_commands := [demo_command]\<rparr>" demo_command
      "\<lambda>_. None" "\<lambda>_. True" 7] demo_run by (auto simp: demo_command_def)

text \<open>C15. No stored provider event carries a sensitive key: if that holds of a database then it holds
  after any committed billing transactions and after an ingestion, where a key is sensitive if it
  contains one of the sensitive words as a segment, at any depth of the dictionaries and lists of the
  stored normalized payload. The event an ingestion returns is a stored one: the table is as before,
  or the event was appended with the verified payload. A redelivery of the same body returns it
  again and stores nothing more.\<close>

theorem ingested_event_safe:
  assumes "(billing_step H)\<^sup>*\<^sup>* db0 db"
    and "\<forall>x \<in> set (provider_events db0). \<not> list_ex sensitive_key (all_keys (pe_normalized_payload x))"
    and "ingest_payment_event sha (Inr v) store now provider body db = Inr (e, db')"
  shows "(\<forall>x \<in> set (provider_events db'). \<not> list_ex sensitive_key (all_keys (pe_normalized_payload x)))
    \<and> e \<in> set (provider_events db')
    \<and> (provider_events db' = provider_events db
       \<or> provider_events db' = provider_events db @ [e] \<and> pe_normalized_payload e = ve_normalized_payload v)
    \<and> ingest_payment_event sha (Inr v) store' now' provider body db' = Inr (e, db')"
proof -
  have "list_all event_safe (provider_events db)"
    using assms(1,2) by (intro steps_events_safe [of H db0 db]) (auto simp: list_all_iff event_safe_def)
  then have "list_all event_safe (provider_events db')" by (rule ingest_safe [OF assms(3)])
  moreover have "ingest_payment_event sha (Inr v) store' now' provider body db' = Inr (e, db')"
  proof (cases "List.find (\<lambda>e. pe_workspace_id e = ve_workspace_id v \<and> pe_provider e = provider
        \<and> pe_provider_event_id e = ve_provider_event_id v) (provider_events db)")
    case Some
    then show ?thesis using assms(3) by (auto simp: ingest_payment_event_def Let_def split: if_splits)
  next
    case None
    with assms(3) show ?thesis
      by (auto simp: ingest_payment_event_def Let_def uuid4_def result_simps find_append split: if_splits)
  qed
  ultimately show ?thesis using ingest_events [OF assms(3)] by (auto simp: list_all_iff event_safe_def)
qed

theorem ingested_event_safe_witness:
  "\<exists>e db'. ingest_payment_event (\<lambda>b. ''s'' @ b) (Inr \<lparr>ve_provider_event_id = ''ev1'', ve_event_type = ''paid'',
       ve_workspace_id = 2, ve_occurred_at = 1, ve_normalized_payload = JDict [(''amount'', JInt 5)],
       ve_signature_key_version = ''k1''\<rparr>) (\<lambda>_ _ _. Inr ''ref'') 9 ''pg'' ''body'' demo_db0 = Inr (e, db')
     \<and> e \<in> set (provider_events db') \<and> \<not> list_ex sensitive_key (all_keys (pe_normalized_payload e))"
proof -
  let ?v = "\<lparr>ve_provider_event_id = ''ev1'', ve_event_type = ''paid'',
       ve_workspace_id = 2, ve_occurred_at = 1, ve_normalized_payload = JDict [(''amount'', JInt 5)],
       ve_signature_key_version = ''k1''\<rparr>"
  have "\<not> sensitive_key ''amount''" by code_simp
  then obtain e db' where run:
      "ingest_payment_event (\<lambda>b. ''s'' @ b) (Inr ?v) (\<lambda>_ _ _. Inr ''ref'') 9 ''pg'' ''body'' demo_db0 = Inr (e, db')"
    by (simp add: ingest_payment_event_def uuid4_def demo_db0_def Let_def)
  have "\<forall>x \<in> set (provider_events demo_db0). \<not> list_ex sensitive_key (all_keys (pe_normalized_payload x))"
    by (simp add: demo_db0_def)
  from ingested_event_safe [OF rtranclp.rtrancl_refl [of "billing_step demo_hash"] this run] run
  show ?thesis by blast
qed

section \<open>Keys of ledger entries\<close>

text \<open>C16. The ledger's key column holds 255 characters, but requests may carry longer identifiers:
  for a workspace with a credit account, a grant from a source that the workspace has not used yet,
  with no expiry or one in the future, whose source type and identifier together exceed 248
  characters is refused by the database, so it cannot be credited (the schema allows up to 580).\<close>

theorem long_grant_source_refused:
  assumes "get_account (workspace_id p) db = Inr account"
    and "\<forall>g \<in> set (credit_grants db). cg_workspace_id g = workspace_id p \<and> cg_source_type g = gc_source_type d
      \<longrightarrow> cg_source_id g \<noteq> gc_source_id d"
    and "\<forall>t. gc_expires_at d = Some t \<longrightarrow> now < t"
    and "248 < length (gc_source_type d) + length (gc_source_id d)"
  shows "grant_credits now p d db = Inl (DataError ''idempotency_key'')"
proof -
  have "List.find (\<lambda>g. cg_workspace_id g = workspace_id p \<and> cg_source_type g = gc_source_type d
      \<and> cg_source_id g = gc_source_id d) (credit_grants db) = None"
    using assms(2) by (auto simp: find_None_iff)
  moreover have "\<not> list_ex (\<lambda>x. cg_workspace_id x = workspace_id p \<and> cg_source_type x = gc_source_type d
      \<and> cg_source_id x = gc_source_id d) (credit_grants db)"
    using assms(2) by (auto simp: list_ex_iff)
  moreover have "\<not> (case gc_expires_at d of None \<Rightarrow> False | Some t \<Rightarrow> t \<le> now)"
    using assms(3) by (auto split: option.splits)
  ultimately show ?thesis
    using assms(1,4) by (simp add: grant_credits_def uuid4_def Let_def insert_grant_def insert_entry_def)
qed

theorem long_grant_source_refused_witness:
  "valid_grant_create (demo_grant (replicate 300 CHR ''x'') 5 (Some 90))
   \<and> grant_credits 11 demo_principal (demo_grant (replicate 300 CHR ''x'') 5 (Some 90)) demo_db1
     = Inl (DataError ''idempotency_key'')"
  using long_grant_source_refused [of demo_principal demo_db1
      "\<lparr>ca_id = 100, ca_workspace_id = 2, ca_available_balance = 0, ca_held_balance = 0\<rparr>"
      "demo_grant (replicate 300 CHR ''x'') 5 (Some 90)" 11]
  by (simp add: valid_grant_create_def demo_tables1 get_account_def demo_grant_def demo_principal_def numeric_19_6_def)

end
