(* ===== verification/State_Machine.thy ===== *)
theory State_Machine
  imports Prelude
begin

text \<open>
  Jobs keep an explicit table of allowed state transitions and a checking function that raises on anything
  else. The locales below state what such a table promises and carry the facts that follow from it;
  \<open>Job_State\<close> interprets them on the table of the code.
\<close>

text \<open>A history of checked transitions: the first refused one raises.\<close>

fun run_checked :: "('s \<Rightarrow> 's \<Rightarrow> unit result) \<Rightarrow> 's \<Rightarrow> 's list \<Rightarrow> 's result" where
  "run_checked ens s [] = Inr s"
| "run_checked ens s (t # ts) = bind_result (ens s t) (\<lambda>_. run_checked ens t ts)"

abbreviation table_step :: "('s \<Rightarrow> 's list) \<Rightarrow> 's \<Rightarrow> 's \<Rightarrow> bool" where
  "table_step tbl \<equiv> (\<lambda>s t. t \<in> set (tbl s))"

locale transition_table =
  fixes table :: "'s \<Rightarrow> 's list"
    and ens :: "'s \<Rightarrow> 's \<Rightarrow> unit result"
  assumes ens_iff: "ens s t = Inr () \<longleftrightarrow> t \<in> set (table s)"
begin

lemma ens_ok: "is_ok (ens s t) \<longleftrightarrow> t \<in> set (table s)"
  using ens_iff by (auto simp: is_ok_iff)

lemma run_checked_reach: "run_checked ens s ts = Inr t \<Longrightarrow> (table_step table)\<^sup>*\<^sup>* s t"
proof (induction ts arbitrary: s)
  case (Cons u ts)
  then have "u \<in> set (table s)" and "(table_step table)\<^sup>*\<^sup>* u t"
    by (auto simp: result_simps ens_iff)
  then show ?case by (meson converse_rtranclp_into_rtranclp)
qed simp

lemma reach_run_checked: "(table_step table)\<^sup>*\<^sup>* s t \<Longrightarrow> \<exists>ts. run_checked ens s ts = Inr t"
proof (induction rule: converse_rtranclp_induct)
  case base
  show ?case by (rule exI [of _ "[]"]) simp
next
  case (step y z)
  then obtain ts where "run_checked ens z ts = Inr t" by blast
  with step.hyps(1) ens_iff [of y z] have "run_checked ens y (z # ts) = Inr t" by simp
  then show ?case by blast
qed

lemma run_checked_append:
  "run_checked ens s (xs @ ys) = bind_result (run_checked ens s xs) (\<lambda>t. run_checked ens t ys)"
proof (induction xs arbitrary: s)
  case (Cons x xs)
  then show ?case by (cases "ens s x") auto
qed simp

text \<open>A state with no row entries is final: every further transition is refused.\<close>

lemma final_refuses: "table s = [] \<Longrightarrow> \<not> is_ok (run_checked ens s (t # ts))"
  using ens_ok [of s t] by (cases "ens s t") auto

lemma final_absorbs: "table s = [] \<Longrightarrow> (table_step table)\<^sup>*\<^sup>* s t \<Longrightarrow> t = s"
  by (erule converse_rtranclpE) auto

text \<open>
  Gates: if no state of a region \<open>U\<close> steps out of \<open>U\<close> except into \<open>g\<close>, then a history that
  starts in \<open>U\<close> and ends outside passes through \<open>g\<close>.
\<close>

lemma must_pass:
  assumes "\<And>s t. s \<in> U \<Longrightarrow> t \<in> set (table s) \<Longrightarrow> t \<in> U \<or> t = g"
    and "s \<in> U" and "run_checked ens s ts = Inr t" and "t \<notin> U"
  shows "g \<in> set ts"
  using assms(2-)
proof (induction ts arbitrary: s)
  case (Cons u ts)
  then have "u \<in> set (table s)" and run: "run_checked ens u ts = Inr t"
    by (auto simp: result_simps ens_iff)
  with assms(1) Cons.prems(1) have "u \<in> U \<or> u = g" by blast
  with Cons.IH [OF _ run] Cons.prems(3) show ?case by auto
qed simp

end

text \<open>A table whose final states are declared, and from which a final state stays within reach.\<close>

locale live_table = transition_table +
  fixes final :: "'s \<Rightarrow> bool"
    and dist :: "'s \<Rightarrow> nat"
  assumes final_iff: "final s \<longleftrightarrow> table s = []"
    and approach: "\<not> final s \<Longrightarrow> \<exists>t \<in> set (table s). dist t < dist s"
begin

lemma final_reachable: "\<exists>t. final t \<and> (table_step table)\<^sup>*\<^sup>* s t"
proof (induction "dist s" arbitrary: s rule: less_induct)
  case less
  show ?case
  proof (cases "final s")
    case True
    then show ?thesis by blast
  next
    case False
    then obtain t where t: "t \<in> set (table s)" "dist t < dist s" using approach by blast
    with less obtain u where "final u" "(table_step table)\<^sup>*\<^sup>* t u" by blast
    with t(1) show ?thesis by (meson converse_rtranclp_into_rtranclp)
  qed
qed

lemma can_finish: "\<exists>ts t. run_checked ens s ts = Inr t \<and> final t"
  using final_reachable reach_run_checked by meson

lemma finished_stays: "final s \<Longrightarrow> run_checked ens s ts = Inr t \<Longrightarrow> ts = [] \<and> t = s"
  using final_iff final_refuses by (cases ts) (fastforce simp: is_ok_iff)+

end

end
