(* ===== verification/Job_State.thy ===== *)
theory Job_State
  imports State_Machine
begin

text \<open>
  The authoritative job state machine, \<^verbatim>\<open>src/blogops/domain/jobs/state.py\<close>: the job and step
  states, the transition table and its checking function.
\<close>

datatype JobState =
    CREATED | QUEUED | VALIDATING | WAITING_INPUT | RESEARCHING | PLANNING | GENERATING
  | VERIFYING | OPTIMIZING | CREATING_MEDIA | QUALITY_BLOCKED | WAITING_REVIEW
  | REVISION_REQUESTED | APPROVED | SCHEDULED | PUBLISHING | SUCCEEDED | PARTIAL
  | RETRYABLE_FAILED | FINAL_FAILED | CANCEL_REQUESTED | CANCELLED | EXPIRED

datatype StepState =
    PENDING | RUNNING | WAITING_EXTERNAL | WAITING_USER | SUCCEEDED | SKIPPED | RETRYING
  | FAILED | CANCELLED

primrec job_state_value :: "JobState \<Rightarrow> string" where
  "job_state_value JobState.CREATED = ''CREATED''"
| "job_state_value JobState.QUEUED = ''QUEUED''"
| "job_state_value JobState.VALIDATING = ''VALIDATING''"
| "job_state_value JobState.WAITING_INPUT = ''WAITING_INPUT''"
| "job_state_value JobState.RESEARCHING = ''RESEARCHING''"
| "job_state_value JobState.PLANNING = ''PLANNING''"
| "job_state_value JobState.GENERATING = ''GENERATING''"
| "job_state_value JobState.VERIFYING = ''VERIFYING''"
| "job_state_value JobState.OPTIMIZING = ''OPTIMIZING''"
| "job_state_value JobState.CREATING_MEDIA = ''CREATING_MEDIA''"
| "job_state_value JobState.QUALITY_BLOCKED = ''QUALITY_BLOCKED''"
| "job_state_value JobState.WAITING_REVIEW = ''WAITING_REVIEW''"
| "job_state_value JobState.REVISION_REQUESTED = ''REVISION_REQUESTED''"
| "job_state_value JobState.APPROVED = ''APPROVED''"
| "job_state_value JobState.SCHEDULED = ''SCHEDULED''"
| "job_state_value JobState.PUBLISHING = ''PUBLISHING''"
| "job_state_value JobState.SUCCEEDED = ''SUCCEEDED''"
| "job_state_value JobState.PARTIAL = ''PARTIAL''"
| "job_state_value JobState.RETRYABLE_FAILED = ''RETRYABLE_FAILED''"
| "job_state_value JobState.FINAL_FAILED = ''FINAL_FAILED''"
| "job_state_value JobState.CANCEL_REQUESTED = ''CANCEL_REQUESTED''"
| "job_state_value JobState.CANCELLED = ''CANCELLED''"
| "job_state_value JobState.EXPIRED = ''EXPIRED''"

definition TERMINAL_JOB_STATES :: "JobState list" where
  "TERMINAL_JOB_STATES =
     [JobState.SUCCEEDED, JobState.FINAL_FAILED, JobState.CANCELLED, JobState.EXPIRED]"

definition ACTIVE_PIPELINE :: "JobState list" where
  "ACTIVE_PIPELINE =
     [JobState.VALIDATING, JobState.RESEARCHING, JobState.PLANNING, JobState.GENERATING,
      JobState.VERIFYING, JobState.OPTIMIZING, JobState.CREATING_MEDIA]"

primrec ALLOWED_JOB_TRANSITIONS :: "JobState \<Rightarrow> JobState list" where
  "ALLOWED_JOB_TRANSITIONS JobState.CREATED = [JobState.QUEUED, JobState.CANCELLED]"
| "ALLOWED_JOB_TRANSITIONS JobState.QUEUED = [JobState.VALIDATING, JobState.CANCEL_REQUESTED]"
| "ALLOWED_JOB_TRANSITIONS JobState.VALIDATING =
     [JobState.WAITING_INPUT, JobState.RESEARCHING, JobState.FINAL_FAILED,
      JobState.CANCEL_REQUESTED]"
| "ALLOWED_JOB_TRANSITIONS JobState.WAITING_INPUT =
     [JobState.QUEUED, JobState.CANCEL_REQUESTED, JobState.EXPIRED]"
| "ALLOWED_JOB_TRANSITIONS JobState.RESEARCHING =
     [JobState.PLANNING, JobState.RETRYABLE_FAILED, JobState.FINAL_FAILED,
      JobState.CANCEL_REQUESTED]"
| "ALLOWED_JOB_TRANSITIONS JobState.PLANNING =
     [JobState.GENERATING, JobState.WAITING_REVIEW, JobState.RETRYABLE_FAILED,
      JobState.CANCEL_REQUESTED]"
| "ALLOWED_JOB_TRANSITIONS JobState.GENERATING =
     [JobState.VERIFYING, JobState.PARTIAL, JobState.RETRYABLE_FAILED,
      JobState.CANCEL_REQUESTED]"
| "ALLOWED_JOB_TRANSITIONS JobState.VERIFYING =
     [JobState.OPTIMIZING, JobState.QUALITY_BLOCKED, JobState.RETRYABLE_FAILED,
      JobState.CANCEL_REQUESTED]"
| "ALLOWED_JOB_TRANSITIONS JobState.OPTIMIZING =
     [JobState.CREATING_MEDIA, JobState.WAITING_REVIEW, JobState.QUALITY_BLOCKED,
      JobState.CANCEL_REQUESTED]"
| "ALLOWED_JOB_TRANSITIONS JobState.CREATING_MEDIA =
     [JobState.WAITING_REVIEW, JobState.PARTIAL, JobState.RETRYABLE_FAILED,
      JobState.CANCEL_REQUESTED]"
| "ALLOWED_JOB_TRANSITIONS JobState.QUALITY_BLOCKED =
     [JobState.QUEUED, JobState.WAITING_REVIEW, JobState.CANCEL_REQUESTED, JobState.EXPIRED]"
| "ALLOWED_JOB_TRANSITIONS JobState.WAITING_REVIEW =
     [JobState.APPROVED, JobState.REVISION_REQUESTED, JobState.CANCEL_REQUESTED,
      JobState.EXPIRED]"
| "ALLOWED_JOB_TRANSITIONS JobState.REVISION_REQUESTED =
     [JobState.QUEUED, JobState.CANCEL_REQUESTED, JobState.EXPIRED]"
| "ALLOWED_JOB_TRANSITIONS JobState.APPROVED =
     [JobState.SCHEDULED, JobState.PUBLISHING, JobState.SUCCEEDED]"
| "ALLOWED_JOB_TRANSITIONS JobState.SCHEDULED =
     [JobState.PUBLISHING, JobState.CANCEL_REQUESTED, JobState.EXPIRED]"
| "ALLOWED_JOB_TRANSITIONS JobState.PUBLISHING =
     [JobState.SUCCEEDED, JobState.PARTIAL, JobState.RETRYABLE_FAILED, JobState.FINAL_FAILED]"
| "ALLOWED_JOB_TRANSITIONS JobState.PARTIAL =
     [JobState.QUEUED, JobState.WAITING_REVIEW, JobState.FINAL_FAILED]"
| "ALLOWED_JOB_TRANSITIONS JobState.RETRYABLE_FAILED =
     [JobState.QUEUED, JobState.FINAL_FAILED, JobState.CANCEL_REQUESTED]"
| "ALLOWED_JOB_TRANSITIONS JobState.CANCEL_REQUESTED = [JobState.CANCELLED, JobState.PARTIAL]"
| "ALLOWED_JOB_TRANSITIONS JobState.SUCCEEDED = []"
| "ALLOWED_JOB_TRANSITIONS JobState.FINAL_FAILED = []"
| "ALLOWED_JOB_TRANSITIONS JobState.CANCELLED = []"
| "ALLOWED_JOB_TRANSITIONS JobState.EXPIRED = []"

definition ensure_job_transition :: "JobState \<Rightarrow> JobState \<Rightarrow> unit result" where
  "ensure_job_transition current target =
     (if target \<notin> set (ALLOWED_JOB_TRANSITIONS current)
      then Inl (AppError ''INVALID_JOB_TRANSITION'' 409
             [(''state'', job_state_value current @ ''->'' @ job_state_value target)] None)
      else Inr ())"

definition is_pipeline_state :: "JobState \<Rightarrow> bool" where
  "is_pipeline_state state \<longleftrightarrow> state \<in> set ACTIVE_PIPELINE"

section \<open>The table as a transition system\<close>

text \<open>How far a state is from the nearest final state; used only to show one stays in reach.\<close>

fun job_distance :: "JobState \<Rightarrow> nat" where
  "job_distance JobState.SUCCEEDED = 0"
| "job_distance JobState.FINAL_FAILED = 0"
| "job_distance JobState.CANCELLED = 0"
| "job_distance JobState.EXPIRED = 0"
| "job_distance JobState.PUBLISHING = 1"
| "job_distance JobState.APPROVED = 1"
| "job_distance JobState.PARTIAL = 1"
| "job_distance JobState.CANCEL_REQUESTED = 1"
| "job_distance JobState.RETRYABLE_FAILED = 1"
| "job_distance _ = 2"

interpretation job: live_table ALLOWED_JOB_TRANSITIONS ensure_job_transition
  "\<lambda>s. s \<in> set TERMINAL_JOB_STATES" job_distance
proof unfold_locales
  fix s t
  show "ensure_job_transition s t = Inr () \<longleftrightarrow> t \<in> set (ALLOWED_JOB_TRANSITIONS s)"
    by (simp add: ensure_job_transition_def)
next
  fix s
  show "s \<in> set TERMINAL_JOB_STATES \<longleftrightarrow> ALLOWED_JOB_TRANSITIONS s = []"
    by (cases s) (simp_all add: TERMINAL_JOB_STATES_def)
next
  fix s
  assume "s \<notin> set TERMINAL_JOB_STATES"
  then show "\<exists>t \<in> set (ALLOWED_JOB_TRANSITIONS s). job_distance t < job_distance s"
    by (cases s) (simp_all add: TERMINAL_JOB_STATES_def)
qed

lemmas job_table_simps = ensure_job_transition_def TERMINAL_JOB_STATES_def

text \<open>Regions of the graph from which the only way on is through the review states.\<close>

definition before_approval :: "JobState \<Rightarrow> bool" where
  "before_approval s \<longleftrightarrow>
     s \<notin> {JobState.APPROVED, JobState.SCHEDULED, JobState.PUBLISHING, JobState.SUCCEEDED}"

lemma before_approval_gate:
  "before_approval s \<Longrightarrow> t \<in> set (ALLOWED_JOB_TRANSITIONS s) \<Longrightarrow> before_approval t \<or> t = JobState.APPROVED"
  by (cases s) (auto simp: before_approval_def)

definition before_review :: "JobState \<Rightarrow> bool" where
  "before_review s \<longleftrightarrow> before_approval s \<and> s \<noteq> JobState.WAITING_REVIEW"

lemma before_review_gate:
  "before_review s \<Longrightarrow> t \<in> set (ALLOWED_JOB_TRANSITIONS s) \<Longrightarrow>
   before_review t \<or> t = JobState.WAITING_REVIEW"
  by (cases s) (auto simp: before_review_def before_approval_def)

end
