(* ===== verification/Foundation_Properties.thy ===== *)
theory Foundation_Properties
  imports Foundation Job_State
begin

text \<open>
  Properties of the job state machine, of the session openers and of the idempotency records.
\<close>

section \<open>The job state machine\<close>

text \<open>
  C17. A job can always be brought to an end, and stays there: from every state some sequence of
  transitions accepted by \<open>ensure_job_transition\<close> ends in one of \<open>TERMINAL_JOB_STATES\<close>, and from a
  terminal state no sequence of transitions is accepted but the empty one.
\<close>

theorem jobs_end_and_stay:
  "(\<exists>ts t. run_checked ensure_job_transition s ts = Inr t \<and> t \<in> set TERMINAL_JOB_STATES)
   \<and> (s \<in> set TERMINAL_JOB_STATES \<longrightarrow> is_ok (run_checked ensure_job_transition s us) \<longrightarrow> us = [])"
  using job.can_finish [of s] job.finished_stays [of s us] by (auto simp: is_ok_iff)

theorem jobs_end_and_stay_witness:
  "JobState.CANCELLED \<in> set TERMINAL_JOB_STATES
   \<and> \<not> is_ok (run_checked ensure_job_transition JobState.CANCELLED [JobState.QUEUED])"
  using jobs_end_and_stay [of JobState.CANCELLED "[JobState.QUEUED]"]
  by (auto simp: TERMINAL_JOB_STATES_def)

text \<open>
  C18. Nothing is published unreviewed: a sequence of accepted transitions that takes a job from
  \<open>CREATED\<close> to \<open>SCHEDULED\<close>, \<open>PUBLISHING\<close> or \<open>SUCCEEDED\<close> passes through \<open>WAITING_REVIEW\<close> and, after
  that, through \<open>APPROVED\<close>.
\<close>

lemma before_approval_pass:
  "before_approval s \<Longrightarrow> run_checked ensure_job_transition s ts = Inr t \<Longrightarrow> \<not> before_approval t \<Longrightarrow>
   JobState.APPROVED \<in> set ts"
  using job.must_pass [of "Collect before_approval" JobState.APPROVED s ts t] before_approval_gate by auto

lemma before_review_pass:
  "before_review s \<Longrightarrow> run_checked ensure_job_transition s ts = Inr t \<Longrightarrow> \<not> before_review t \<Longrightarrow>
   JobState.WAITING_REVIEW \<in> set ts"
  using job.must_pass [of "Collect before_review" JobState.WAITING_REVIEW s ts t] before_review_gate by auto

lemma split_last: "x \<in> set ts \<Longrightarrow> \<exists>us vs. ts = us @ x # vs \<and> x \<notin> set vs"
  by (metis split_list_last)

theorem published_only_after_review:
  assumes "run_checked ensure_job_transition JobState.CREATED ts = Inr t"
    and "t \<in> {JobState.SCHEDULED, JobState.PUBLISHING, JobState.SUCCEEDED}"
  shows "\<exists>us vs. ts = us @ JobState.WAITING_REVIEW # vs \<and> JobState.APPROVED \<in> set vs"
proof -
  have start: "before_review JobState.CREATED" and goal: "\<not> before_review t" "\<not> before_approval t"
    using assms(2) by (auto simp: before_review_def before_approval_def)
  obtain us vs where ts: "ts = us @ JobState.WAITING_REVIEW # vs"
    using before_review_pass [OF start assms(1) goal(1)] by (meson split_list)
  with assms(1) have "run_checked ensure_job_transition JobState.WAITING_REVIEW vs = Inr t"
    by (auto simp: job.run_checked_append result_simps)
  then have "JobState.APPROVED \<in> set vs"
    using goal(2) by (intro before_approval_pass) (auto simp: before_approval_def)
  with ts show ?thesis by blast
qed

theorem published_only_after_review_witness:
  "\<exists>us vs. [JobState.QUEUED, JobState.VALIDATING, JobState.RESEARCHING, JobState.PLANNING,
            JobState.WAITING_REVIEW, JobState.APPROVED, JobState.SUCCEEDED]
           = us @ JobState.WAITING_REVIEW # vs \<and> JobState.APPROVED \<in> set vs"
  by (rule published_only_after_review [of _ JobState.SUCCEEDED])
    (simp_all add: ensure_job_transition_def)

section \<open>Sessions\<close>

text \<open>
  C19. Platform-wide scope needs more than a permission: whenever a session opener binds a platform
  operator, the principal holds a platform permission, authenticated with a user session (not an
  API key) and carries a time at which multi-factor authentication was passed (however long ago: the
  code does not look at its age), and it is the principal itself that is bound;
  and a principal without platform permission gets its own workspace and no operator.
\<close>

theorem platform_scope_needs_mfa:
  "(get_platform_session p = Inr s \<or> get_job_session p = Inr s \<or> get_tenant_session p = Inr s) \<Longrightarrow>
   (current_platform_operator_id s \<noteq> None \<longrightarrow>
      current_platform_operator_id s = Some (subject_id p) \<and> has_platform_permission p
      \<and> kind p = PrincipalKind.USER_SESSION \<and> session_id p \<noteq> None \<and> mfa_verified_at p \<noteq> None)
   \<and> (\<not> has_platform_permission p \<longrightarrow>
      s = \<lparr>current_workspace_id = Some (workspace_id p), current_platform_operator_id = None\<rparr>)"
  by (auto simp: get_platform_session_def get_job_session_def get_tenant_session_def result_simps
      ensure_platform_ok_iff has_platform_assurance_def apply_workspace_scope_def
      apply_platform_scope_def empty_scope_def Let_def split: if_splits)

definition operator_demo :: principal where
  "operator_demo = \<lparr>subject_id = 7, workspace_id = 2, session_id = Some 9,
     permissions = [''platform:operate''], authentication_method = ''password'',
     kind = PrincipalKind.USER_SESSION, mfa_verified_at = Some 5\<rparr>"

theorem platform_scope_needs_mfa_witness:
  "get_platform_session operator_demo
     = Inr \<lparr>current_workspace_id = None, current_platform_operator_id = Some 7\<rparr>
   \<and> kind operator_demo = PrincipalKind.USER_SESSION
   \<and> \<not> is_ok (get_platform_session (operator_demo\<lparr>mfa_verified_at := None\<rparr>))"
proof -
  have open': "get_platform_session operator_demo
     = Inr \<lparr>current_workspace_id = None, current_platform_operator_id = Some 7\<rparr>"
    by (simp add: get_platform_session_def ensure_platform_session_assurance_def operator_demo_def
        has_platform_permission_def PLATFORM_SESSION_PERMISSIONS_def has_platform_assurance_def
        apply_platform_scope_def empty_scope_def)
  moreover have "\<not> is_ok (get_platform_session (operator_demo\<lparr>mfa_verified_at := None\<rparr>))"
    by (simp add: get_platform_session_def ensure_platform_session_assurance_def operator_demo_def
        has_platform_permission_def PLATFORM_SESSION_PERMISSIONS_def has_platform_assurance_def)
  ultimately show ?thesis
    using platform_scope_needs_mfa [OF disjI1, OF open'] by simp
qed

section \<open>Idempotency records\<close>

definition identity_of :: "idempotency_record \<Rightarrow> uuid option \<times> uuid option \<times> string \<times> string \<times> string" where
  "identity_of r = (ir_workspace_id r, ir_actor_id r, ir_namespace r, ir_operation r, ir_key r)"

lemma same_identity_iff: "same_identity ws actor ns op key r \<longleftrightarrow> identity_of r = (ws, actor, ns, op, key)"
  by (auto simp: same_identity_def identity_of_def)

lemma find_identity_update:
  "(\<And>x. identity_of (f x) = identity_of x) \<Longrightarrow>
   List.find (same_identity ws actor ns op key) (update_where P f rs)
   = map_option (\<lambda>x. if P x then f x else x) (List.find (same_identity ws actor ns op key) rs)"
  by (rule find_update_where) (simp add: same_identity_iff)

text \<open>After a successful reservation the record of the identity is the reserved one, in progress.\<close>

lemma reserve_RESERVED:
  assumes ok: "list_all (\<lambda>r. ir_id r < uuid_supply s) (idempotency_records s)"
    and res: "reserve cfg now ns op key hash ws actor s = Inr (rv, s')"
    and kind: "rv_kind rv = ReservationKind.RESERVED"
  shows "\<exists>r. List.find (same_identity ws actor ns op key) (idempotency_records s') = Some r
    \<and> ir_id r = rv_record_id rv \<and> ir_request_hash r = hash \<and> ir_status r = IdempotencyStatus.PROCESSING
    \<and> ir_locked_until r = now + seconds (idempotency_lock_seconds cfg)
    \<and> list_all (\<lambda>r. ir_id r < uuid_supply s') (idempotency_records s')"
proof (cases "List.find (same_identity ws actor ns op key) (idempotency_records s)")
  case None
  then have "\<not> list_ex (same_identity ws actor ns op key) (idempotency_records s)"
    by (auto simp: find_None_iff list_ex_iff)
  with None res ok kind show ?thesis
    by (auto simp: reserve_def uuid4_def Let_def find_append same_identity_def list_all_iff less_Suc_eq
        split: if_splits)
next
  case (Some r)
  then have r: "r \<in> set (idempotency_records s)" "same_identity ws actor ns op key r"
    by (auto dest: find_SomeD)
  then have "list_ex (same_identity ws actor ns op key) (idempotency_records s)" "ir_id r < uuid_supply s"
    using ok by (auto simp: list_ex_iff list_all_iff)
  with Some res kind ok show ?thesis
    by (auto simp: reserve_def uuid4_def Let_def find_identity_update identity_of_def list_all_iff
        set_update_where less_Suc_eq split: if_splits)
qed

lemma complete_find:
  assumes "List.find (same_identity ws actor ns op key) (idempotency_records s) = Some r"
  shows "\<exists>s'. complete (ir_id r) status body s = Inr s' \<and> uuid_supply s' = uuid_supply s
    \<and> map ir_id (idempotency_records s') = map ir_id (idempotency_records s)
    \<and> List.find (same_identity ws actor ns op key) (idempotency_records s')
      = Some (r\<lparr>ir_status := IdempotencyStatus.COMPLETED, ir_response_status := Some status,
                ir_response_body := Some body\<rparr>)"
proof -
  from assms have "r \<in> set (idempotency_records s)" by (auto dest: find_SomeD)
  then have "List.find (\<lambda>x. ir_id x = ir_id r) (idempotency_records s) \<noteq> None"
    by (auto simp: find_None_iff)
  then show ?thesis using assms
    by (auto simp: complete_def find_identity_update identity_of_def map_update_where)
qed

text \<open>
  C20. Reserve, complete, reserve again: once a request has reserved its idempotency key, any other
  request with that key is refused while the lock lasts; completing the record succeeds, and from
  then on every reservation of the key with the same request hash replays the stored response and
  changes no record, while one with another hash is refused.
\<close>

theorem reserve_complete_replay:
  assumes fresh: "list_all (\<lambda>r. ir_id r < uuid_supply s) (idempotency_records s)"
    and res: "reserve cfg now ns op key hash ws actor s = Inr (rv, s1)"
    and kind: "rv_kind rv = ReservationKind.RESERVED"
  shows "(now' < now + seconds (idempotency_lock_seconds cfg) \<longrightarrow>
           reserve cfg' now' ns op key hash ws actor s1
           = Inl (app_error ''IDEMPOTENT_REQUEST_IN_PROGRESS'' 409))
         \<and> (\<exists>s2. complete (rv_record_id rv) status body s1 = Inr s2
           \<and> reserve cfg' now'' ns op key hash ws actor s2
             = Inr (\<lparr>rv_kind = ReservationKind.REPLAY, rv_record_id = rv_record_id rv,
                     rv_response_status = Some status, rv_response_body = Some body\<rparr>,
                    s2\<lparr>uuid_supply := Suc (uuid_supply s2)\<rparr>)
           \<and> (hash' \<noteq> hash \<longrightarrow> reserve cfg' now'' ns op key hash' ws actor s2
             = Inl (app_error ''IDEMPOTENCY_KEY_REUSED'' 409)))"
proof -
  let ?same = "same_identity ws actor ns op key"
  obtain r where find1: "List.find ?same (idempotency_records s1) = Some r"
    and r: "ir_id r = rv_record_id rv" "ir_request_hash r = hash"
      "ir_status r = IdempotencyStatus.PROCESSING"
      "ir_locked_until r = now + seconds (idempotency_lock_seconds cfg)"
    and below: "list_all (\<lambda>r. ir_id r < uuid_supply s1) (idempotency_records s1)"
    using reserve_RESERVED [OF fresh res kind] by blast
  have known: "list_ex ?same (idempotency_records t)" if "List.find ?same (idempotency_records t) = Some q"
    for t :: "'a session_db_scheme" and q using find_SomeD [OF that] by (auto simp: list_ex_iff)
  have id_below: "ir_id r < uuid_supply s1"
    using find_SomeD [OF find1] below by (auto simp: list_all_iff)
  have "reserve cfg' now' ns op key hash ws actor s1
        = Inl (app_error ''IDEMPOTENT_REQUEST_IN_PROGRESS'' 409)"
    if "now' < now + seconds (idempotency_lock_seconds cfg)"
    using that known [OF find1] find1 r id_below
    by (simp add: reserve_def uuid4_def Let_def)
  moreover obtain s2 where s2: "complete (ir_id r) status body s1 = Inr s2" "uuid_supply s2 = uuid_supply s1"
    and find2: "List.find ?same (idempotency_records s2)
      = Some (r\<lparr>ir_status := IdempotencyStatus.COMPLETED, ir_response_status := Some status,
                ir_response_body := Some body\<rparr>)"
    using complete_find [OF find1] by blast
  ultimately show ?thesis
    using s2 known [OF find2] find2 r id_below by (auto simp: reserve_def uuid4_def Let_def)
qed

definition idempotency_demo :: session_db where
  "idempotency_demo = \<lparr>uuid_supply = 10, request_id_context = None, audit_logs = [],
     outbox_events = [], idempotency_records = []\<rparr>"

theorem reserve_complete_replay_witness:
  "\<exists>rv s1 s2. reserve \<lparr>idempotency_lock_seconds = 60, idempotency_ttl_seconds = 3600\<rparr> 100
       ''api'' ''create'' ''key'' ''h1'' (Some 2) (Some 3) idempotency_demo = Inr (rv, s1)
     \<and> complete (rv_record_id rv) 201 (JStr ''ok'') s1 = Inr s2
     \<and> \<not> is_ok (reserve \<lparr>idempotency_lock_seconds = 60, idempotency_ttl_seconds = 3600\<rparr> 200
         ''api'' ''create'' ''key'' ''h1'' (Some 2) (Some 3) s1)"
proof -
  let ?cfg = "\<lparr>idempotency_lock_seconds = 60, idempotency_ttl_seconds = 3600\<rparr>"
  obtain rv s1 where res: "reserve ?cfg 100 ''api'' ''create'' ''key'' ''h1'' (Some 2) (Some 3) idempotency_demo
      = Inr (rv, s1)" and kind: "rv_kind rv = ReservationKind.RESERVED"
    by (auto simp: reserve_def idempotency_demo_def uuid4_def Let_def same_identity_def)
  have "list_all (\<lambda>r. ir_id r < uuid_supply idempotency_demo) (idempotency_records idempotency_demo)"
    by (simp add: idempotency_demo_def)
  from reserve_complete_replay [OF this res kind, of 200 ?cfg 201 "JStr ''ok''" 300 "''h2''"]
  obtain s2 where "complete (rv_record_id rv) 201 (JStr ''ok'') s1 = Inr s2"
    and "\<not> is_ok (reserve ?cfg 200 ''api'' ''create'' ''key'' ''h1'' (Some 2) (Some 3) s1)"
    by (auto simp: seconds_def)
  with res show ?thesis by blast
qed

end
