(* ===== verification/Generation_Models.thy ===== *)
theory Generation_Models
  imports Generation_Rules Foundation
begin

text \<open>
  Tables and request schemas of the generation domain (\<^verbatim>\<open>domain/generation/models.py\<close>,
  \<^verbatim>\<open>schemas.py\<close>, \<^verbatim>\<open>providers.py\<close>): content items, jobs, job steps, job commands and model
  runs, the request that creates a job, the frozen inputs a job is created from and the
  interface of the budget gateway.

  The record \<open>generation_db\<close> extends the session of the foundation and is itself extensible: a
  budget gateway may keep its own tables behind it. Columns nothing here reads (row timestamps,
  the provider metadata of a model run) are left out. The tags and the metadata of a content item are
  JSON columns that may hold null (\<open>None\<close>).
\<close>

record content_item =
  ct_id :: uuid
  ct_workspace_id :: uuid
  ct_brief_id :: "uuid option"
  ct_brand_id :: "uuid option"
  ct_content_type :: ContentType
  ct_channel :: string
  ct_language :: string
  ct_title :: string
  ct_state :: JobState
  ct_current_version_id :: "uuid option"
  ct_folder_path :: "string option"
  ct_tags :: "string list option"
  ct_metadata_json :: "(string \<times> json) list option"
  ct_expires_at :: "time option"
  ct_archived_at :: "time option"
  ct_deleted_at :: "time option"
  ct_retention_hold :: bool
  ct_created_by :: uuid
  ct_updated_by :: uuid
  ct_lock_version :: int

record generation_job =
  gj_id :: uuid
  gj_workspace_id :: uuid
  gj_requested_by :: uuid
  gj_operation :: GenerationOperation
  gj_content_id :: uuid
  gj_input_snapshot_id :: uuid
  gj_quality :: GenerationQuality
  gj_state :: JobState
  gj_idempotency_key :: string
  gj_request_hash :: string
  gj_budget_reservation_ref :: string
  gj_entitlement_snapshot :: "(string \<times> json) list"
  gj_budget_snapshot :: "(string \<times> json) list"
  gj_estimated_cost :: rat
  gj_actual_cost :: "rat option"
  gj_currency :: string
  gj_estimate_breakdown :: "(string \<times> json) list"
  gj_attempt :: int
  gj_max_attempts :: "int option"
  gj_cancel_requested_by :: "uuid option"
  gj_cancel_requested_at :: "time option"
  gj_started_at :: "time option"
  gj_finished_at :: "time option"
  gj_error_code :: "string option"
  gj_error_detail :: "string option"
  gj_result :: "(string \<times> json) list option"

record generation_job_step =
  gs_id :: uuid
  gs_workspace_id :: uuid
  gs_job_id :: uuid
  gs_step_key :: string
  gs_step_kind :: string
  gs_section_key :: "string option"
  gs_ordinal :: nat
  gs_state :: StepState
  gs_input_snapshot_hash :: string
  gs_attempt :: int
  gs_max_attempts :: "int option"
  gs_output_ref :: "string option"
  gs_output_hash :: "string option"
  gs_result :: "(string \<times> json) list option"
  gs_error_code :: "string option"
  gs_error_detail :: "string option"
  gs_started_at :: "time option"
  gs_finished_at :: "time option"

record model_run =
  mr_id :: uuid
  mr_workspace_id :: uuid
  mr_job_id :: uuid
  mr_step_id :: uuid
  mr_cost :: rat
  mr_currency :: string

record generation_job_command =
  gc_id :: uuid
  gc_workspace_id :: uuid
  gc_job_id :: uuid
  gc_actor_id :: uuid
  gc_command_kind :: CommandKind
  gc_idempotency_key :: string
  gc_request_hash :: string
  gc_from_state :: JobState
  gc_to_state :: JobState
  gc_reason :: "string option"

record input_snapshot =
  si_id :: uuid
  si_workspace_id :: uuid
  si_snapshot_hash :: string

record generation_db = session_db +
  contents :: "content_item list"
  input_snapshots :: "input_snapshot list"
  generation_jobs :: "generation_job list"
  generation_job_steps :: "generation_job_step list"
  generation_job_commands :: "generation_job_command list"
  model_runs :: "model_run list"

section \<open>The request that creates a job\<close>

record content_job_create =
  cj_brief_version_id :: uuid
  cj_content_type :: ContentType
  cj_operation :: GenerationOperation
  cj_quality :: GenerationQuality
  cj_existing_content_id :: "uuid option"
  cj_template_version_id :: uuid
  cj_prompt_version_id :: uuid
  cj_model_entry_id :: uuid
  cj_pricing_version_id :: uuid
  cj_source_version_ids :: "uuid list"
  cj_keyword_metric_snapshot_ids :: "uuid list"
  cj_type_input :: "(string \<times> json) list"
  cj_variables :: "(string \<times> json) list"
  cj_requested_limits :: "(string \<times> json) list"
  cj_requested_tools :: "string list"
  cj_automatic_outline_approval :: bool

text \<open>The validator \<open>operation_target\<close>.\<close>

definition valid_content_job :: "content_job_create \<Rightarrow> bool" where
  "valid_content_job d \<longleftrightarrow>
     (cj_operation d = GenerationOperation.CREATE \<longleftrightarrow> cj_existing_content_id d = None)"

text \<open>\<open>data.model_dump(mode="json")\<close>, the value whose hash identifies the request.\<close>

definition content_job_json :: "content_job_create \<Rightarrow> json" where
  "content_job_json d = JDict
     [(''brief_version_id'', JStr (uuid_str (cj_brief_version_id d))),
      (''content_type'', JStr (content_type_value (cj_content_type d))),
      (''operation'', JStr (operation_value (cj_operation d))),
      (''quality'', JStr (quality_value (cj_quality d))),
      (''existing_content_id'',
        (case cj_existing_content_id d of None \<Rightarrow> JNull | Some i \<Rightarrow> JStr (uuid_str i))),
      (''template_version_id'', JStr (uuid_str (cj_template_version_id d))),
      (''prompt_version_id'', JStr (uuid_str (cj_prompt_version_id d))),
      (''model_entry_id'', JStr (uuid_str (cj_model_entry_id d))),
      (''pricing_version_id'', JStr (uuid_str (cj_pricing_version_id d))),
      (''source_version_ids'', JList (map (\<lambda>i. JStr (uuid_str i)) (cj_source_version_ids d))),
      (''keyword_metric_snapshot_ids'',
        JList (map (\<lambda>i. JStr (uuid_str i)) (cj_keyword_metric_snapshot_ids d))),
      (''type_input'', JDict (cj_type_input d)),
      (''variables'', JDict (cj_variables d)),
      (''requested_limits'', JDict (cj_requested_limits d)),
      (''requested_tools'', JList (map JStr (cj_requested_tools d))),
      (''automatic_outline_approval'', JBool (cj_automatic_outline_approval d))]"

text \<open>
  What \<open>create_job\<close> reads of the inputs \<open>SQLAlchemyGenerationSnapshotResolver.resolve\<close> returns:
  the frozen snapshot with its hash and its parts, the brief and its version.
  \<open>ri_allowed_tools\<close> and \<open>ri_max_attempts\<close> are \<open>tools.allowed\<close> and \<open>retry.max_attempts\<close> of the
  generation policy.
\<close>

record resolved_inputs =
  ri_snapshot_hash :: string
  ri_source_version_ids :: "uuid list"
  ri_model_snapshot :: "(string \<times> json) list"
  ri_safety_policy :: "(string \<times> json) list"
  ri_allowed_tools :: "string list"
  ri_max_attempts :: "int option"
  ri_brand_id :: "uuid option"
  ri_brief_id :: uuid
  ri_brief_version_id :: uuid
  ri_channel :: string
  ri_language :: string
  ri_title :: string
  ri_approval_stages :: "(string \<times> json) list list"
  ri_outline :: "(string \<times> json) list list"

section \<open>The budget gateway\<close>

record BudgetAuthorization =
  ba_reservation_ref :: string
  ba_estimated_cost :: rat
  ba_currency :: string
  ba_estimate_breakdown :: "(string \<times> json) list"
  ba_entitlement_snapshot :: "(string \<times> json) list"
  ba_budget_snapshot :: "(string \<times> json) list"

record UsageSettlement =
  us_actual_cost :: rat
  us_currency :: string
  us_usage :: "(string \<times> json) list"

text \<open>The protocol \<open>BudgetEntitlementGateway\<close>: an implementation works on the session of the caller
  and is supplied by the composition root.\<close>

record 'd budget_gateway =
  authorize :: "uuid \<Rightarrow> uuid \<Rightarrow> string \<Rightarrow> string \<Rightarrow> (string \<times> json) list \<Rightarrow> (string \<times> json) list
    \<Rightarrow> string \<Rightarrow> 'd \<Rightarrow> (BudgetAuthorization \<times> 'd) result"
  settle :: "uuid \<Rightarrow> uuid \<Rightarrow> string \<Rightarrow> UsageSettlement \<Rightarrow> string \<Rightarrow> 'd \<Rightarrow> 'd result"
  release :: "uuid \<Rightarrow> uuid \<Rightarrow> string \<Rightarrow> rat \<Rightarrow> string \<Rightarrow> string \<Rightarrow> string \<Rightarrow> string \<Rightarrow> 'd \<Rightarrow> 'd result"

text \<open>\<open>FailClosedBudgetEntitlementGateway\<close>: every call is refused.\<close>

definition unavailable :: "string \<Rightarrow> string \<Rightarrow> error" where
  "unavailable code key = AppError code 503 [(''adapter'', key)] None"

definition fail_closed_gateway :: "'d budget_gateway" where
  "fail_closed_gateway =
     (let refuse = unavailable ''BUDGET_ENTITLEMENT_UNAVAILABLE'' ''billing-boundary''
      in \<lparr>authorize = (\<lambda>_ _ _ _ _ _ _ _. Inl refuse), settle = (\<lambda>_ _ _ _ _ _. Inl refuse),
          release = (\<lambda>_ _ _ _ _ _ _ _ _. Inl refuse)\<rparr>)"

end
