(* ===== verification/Generation_Service.thy ===== *)
theory Generation_Service
  imports Generation_Models
begin

text \<open>
  The job operations of \<^verbatim>\<open>domain/generation/service.py\<close>: creating a job with its planned steps,
  claiming, completing and failing a step, and the cancel and retry commands. \<open>hash_json\<close> is
  \<open>canonical_json_hash\<close> (SHA-256 of the canonical JSON text), \<open>other\<close> the text of a float.

  Database constraints a handler can run into are part of the model: the uniqueness of a step key
  within a job and of a command key, the length of key columns and the sign of amounts.
\<close>

type_synonym hash_fn = "json \<Rightarrow> string"

definition OUTBOX_SCHEMA_VERSION :: string where
  "OUTBOX_SCHEMA_VERSION = ''1''"

definition not_found :: "string \<Rightarrow> error" where
  "not_found resource = app_error (resource @ ''_NOT_FOUND'') 404"

definition idempotency_conflict :: "string \<Rightarrow> error" where
  "idempotency_conflict path =
     AppError ''IDEMPOTENCY_KEY_REUSED'' 409 [(path, ''request hash mismatch'')] None"

section \<open>Rows\<close>

definition find_job :: "uuid \<Rightarrow> uuid \<Rightarrow> 'a generation_db_scheme \<Rightarrow> generation_job result" where
  "find_job ws job_id db =
     (case List.find (\<lambda>j. gj_workspace_id j = ws \<and> gj_id j = job_id) (generation_jobs db) of
        None \<Rightarrow> Inl (not_found ''GENERATION_JOB'')
      | Some j \<Rightarrow> Inr j)"

definition find_step ::
  "uuid \<Rightarrow> uuid \<Rightarrow> uuid \<Rightarrow> 'a generation_db_scheme \<Rightarrow> generation_job_step result" where
  "find_step ws job_id step_id db =
     (case List.find (\<lambda>s. gs_workspace_id s = ws \<and> gs_job_id s = job_id \<and> gs_id s = step_id)
             (generation_job_steps db) of
        None \<Rightarrow> Inl (not_found ''GENERATION_STEP'')
      | Some s \<Rightarrow> Inr s)"

definition find_content ::
  "uuid \<Rightarrow> uuid \<Rightarrow> bool \<Rightarrow> 'a generation_db_scheme \<Rightarrow> content_item result" where
  "find_content ws content_id include_deleted db =
     (case List.find (\<lambda>c. ct_workspace_id c = ws \<and> ct_id c = content_id
                          \<and> (include_deleted \<or> ct_deleted_at c = None)) (contents db) of
        None \<Rightarrow> Inl (not_found ''CONTENT'')
      | Some c \<Rightarrow> Inr c)"

definition update_job ::
  "uuid \<Rightarrow> (generation_job \<Rightarrow> generation_job) \<Rightarrow> 'a generation_db_scheme \<Rightarrow> 'a generation_db_scheme"
  where
  "update_job i f db =
     db\<lparr>generation_jobs := update_where (\<lambda>j. gj_id j = i) f (generation_jobs db)\<rparr>"

definition update_steps ::
  "(generation_job_step \<Rightarrow> bool) \<Rightarrow> (generation_job_step \<Rightarrow> generation_job_step)
   \<Rightarrow> 'a generation_db_scheme \<Rightarrow> 'a generation_db_scheme" where
  "update_steps P f db =
     db\<lparr>generation_job_steps := update_where P f (generation_job_steps db)\<rparr>"

definition job_record ::
  "principal \<Rightarrow> time \<Rightarrow> string \<Rightarrow> string \<Rightarrow> uuid \<Rightarrow> string \<Rightarrow> json \<Rightarrow> 'a generation_db_scheme
   \<Rightarrow> 'a generation_db_scheme" where
  "job_record p now action target_type target_id event_type payload db =
     add_outbox_event (Some (workspace_id p)) target_type (uuid_str target_id) event_type
       OUTBOX_SCHEMA_VERSION payload now
     (append_audit_log (Some (workspace_id p)) (Some (subject_id p)) action target_type
       (uuid_str target_id) (Some payload) None now db)"

text \<open>An UPDATE of a content row: the ORM writes a changed row with the next \<open>lock_version\<close>
  (\<^verbatim>\<open>version_id_col\<close>) and skips an unchanged one.\<close>

definition touch_content :: "(content_item \<Rightarrow> content_item) \<Rightarrow> content_item \<Rightarrow> content_item" where
  "touch_content f c =
     (let c' = f c in if c' = c then c else c'\<lparr>ct_lock_version := ct_lock_version c + 1\<rparr>)"

section \<open>Creating a job\<close>

definition new_step ::
  "hash_fn \<Rightarrow> uuid \<Rightarrow> uuid \<Rightarrow> string \<Rightarrow> int option \<Rightarrow> uuid \<Rightarrow> PlannedStep \<Rightarrow> generation_job_step" where
  "new_step hash_json ws job_id snapshot_hash max_attempts i s =
     (let kind_text = step_kind_value (ps_kind s);
          key = (case ps_section_key s of None \<Rightarrow> kind_text | Some k \<Rightarrow> kind_text @ '':'' @ k)
      in \<lparr>gs_id = i, gs_workspace_id = ws, gs_job_id = job_id, gs_step_key = key,
          gs_step_kind = kind_text, gs_section_key = ps_section_key s, gs_ordinal = ps_ordinal s,
          gs_state = StepState.PENDING,
          gs_input_snapshot_hash = hash_json (JDict [(''snapshot_hash'', JStr snapshot_hash),
                                                     (''step_key'', JStr key)]),
          gs_attempt = 0, gs_max_attempts = max_attempts, gs_output_ref = None,
          gs_output_hash = None, gs_result = None, gs_error_code = None, gs_error_detail = None,
          gs_started_at = None, gs_finished_at = None\<rparr>)"

fun new_steps ::
  "hash_fn \<Rightarrow> uuid \<Rightarrow> uuid \<Rightarrow> string \<Rightarrow> int option \<Rightarrow> PlannedStep list \<Rightarrow> 'a generation_db_scheme
   \<Rightarrow> generation_job_step list \<times> 'a generation_db_scheme" where
  "new_steps hash_json ws job_id snapshot_hash max_attempts [] db = ([], db)"
| "new_steps hash_json ws job_id snapshot_hash max_attempts (s # ss) db =
     (let (i, db) = uuid4 db;
          (rows, db) = new_steps hash_json ws job_id snapshot_hash max_attempts ss db
      in (new_step hash_json ws job_id snapshot_hash max_attempts i s # rows, db))"

text \<open>The content item of a job: the existing one, which must have the requested type, or a new one
  made from the brief.\<close>

definition job_content ::
  "principal \<Rightarrow> content_job_create \<Rightarrow> resolved_inputs \<Rightarrow> 'a generation_db_scheme
   \<Rightarrow> (content_item \<times> 'a generation_db_scheme) result" where
  "job_content p d ri db =
     (case cj_existing_content_id d of
        Some content_id \<Rightarrow>
          bind_result (find_content (workspace_id p) content_id False db) (\<lambda>c.
            if ct_content_type c \<noteq> cj_content_type d
            then Inl (app_error ''CONTENT_TYPE_MISMATCH'' 409) else Inr (c, db))
      | None \<Rightarrow>
          let (i, db) = uuid4 db;
              c = \<lparr>ct_id = i, ct_workspace_id = workspace_id p, ct_brief_id = Some (ri_brief_id ri),
                   ct_brand_id = ri_brand_id ri, ct_content_type = cj_content_type d,
                   ct_channel = ri_channel ri, ct_language = ri_language ri,
                   ct_title = ri_title ri, ct_state = JobState.CREATED,
                   ct_current_version_id = None, ct_folder_path = None,
                   ct_tags = Some [],
                   ct_metadata_json =
                     Some [(''brief_version_id'', JStr (uuid_str (ri_brief_version_id ri)))],
                   ct_expires_at = None, ct_archived_at = None, ct_deleted_at = None,
                   ct_retention_hold = False,
                   ct_created_by = subject_id p, ct_updated_by = subject_id p,
                   ct_lock_version = 1\<rparr>
          in Inr (c, db\<lparr>contents := contents db @ [c]\<rparr>))"

text \<open>The constraints checked by the flush that inserts the job and its steps.\<close>

definition insert_job ::
  "generation_job \<Rightarrow> generation_job_step list \<Rightarrow> 'a generation_db_scheme
   \<Rightarrow> 'a generation_db_scheme result" where
  "insert_job job steps db =
     (if 255 < length (gj_idempotency_key job) then Inl (DataError ''idempotency_key'')
      else if 512 < length (gj_budget_reservation_ref job)
      then Inl (DataError ''budget_reservation_ref'')
      else if \<not> 0 \<le> gj_estimated_cost job
      then Inl (IntegrityError ''generation_estimated_cost_nonnegative'')
      else if \<not> (case gj_max_attempts job of None \<Rightarrow> True | Some n \<Rightarrow> 0 < n)
      then Inl (IntegrityError ''generation_job_max_attempts_positive'')
      else if list_ex (\<lambda>s. 240 < length (gs_step_key s)
                          \<or> (case gs_section_key s of None \<Rightarrow> False | Some k \<Rightarrow> 160 < length k)) steps
      then Inl (DataError ''step_key'')
      else if \<not> distinct (map (\<lambda>s. (gs_step_key s, gs_input_snapshot_hash s)) steps)
      then Inl (IntegrityError ''generation_step_idempotency'')
      else Inr (db\<lparr>generation_jobs := generation_jobs db @ [job],
                   generation_job_steps := generation_job_steps db @ steps\<rparr>))"

definition job_row ::
  "uuid \<Rightarrow> principal \<Rightarrow> content_job_create \<Rightarrow> string \<Rightarrow> string \<Rightarrow> uuid \<Rightarrow> uuid \<Rightarrow> GenerationBoundary
   \<Rightarrow> BudgetAuthorization \<Rightarrow> int option \<Rightarrow> string list \<Rightarrow> generation_job" where
  "job_row job_id p d key req_hash content_id snapshot_id boundary auth max_attempts tools =
     \<lparr>gj_id = job_id, gj_workspace_id = workspace_id p, gj_requested_by = subject_id p,
      gj_operation = cj_operation d, gj_content_id = content_id,
      gj_input_snapshot_id = snapshot_id, gj_quality = cj_quality d,
      gj_state = next_state boundary, gj_idempotency_key = key, gj_request_hash = req_hash,
      gj_budget_reservation_ref = ba_reservation_ref auth,
      gj_entitlement_snapshot = ba_entitlement_snapshot auth,
      gj_budget_snapshot = ba_budget_snapshot auth, gj_estimated_cost = ba_estimated_cost auth,
      gj_actual_cost = None, gj_currency = ba_currency auth,
      gj_estimate_breakdown = ba_estimate_breakdown auth, gj_attempt = 0,
      gj_max_attempts = max_attempts, gj_cancel_requested_by = None,
      gj_cancel_requested_at = None, gj_started_at = None, gj_finished_at = None,
      gj_error_code = None, gj_error_detail = None,
      gj_result = Some
        [(''required_approval_stages'', JList (map JDict (required_approval_stages boundary))),
         (''may_publish'', JBool (may_publish boundary)),
         (''requested_tools'', JList (map JStr tools))]\<rparr>"

text \<open>
  \<open>create_job\<close>. The resolver \<open>resolve\<close> reads the frozen inputs (\<open>snapshot_id\<close> is the identifier it
  gives the snapshot row); the fields of \<open>GENERATION_INPUT_INCOMPLETE\<close> name the blocking issues.
  The result says whether a job was created.
\<close>

type_synonym 'd resolver = "uuid \<Rightarrow> uuid \<Rightarrow> string \<Rightarrow> content_job_create \<Rightarrow> 'd \<Rightarrow> resolved_inputs result"

definition same_job_request ::
  "principal \<Rightarrow> content_job_create \<Rightarrow> string \<Rightarrow> generation_job \<Rightarrow> bool" where
  "same_job_request p d key j \<longleftrightarrow>
     gj_workspace_id j = workspace_id p \<and> gj_requested_by j = subject_id p
     \<and> gj_operation j = cj_operation d \<and> gj_idempotency_key j = key"

definition queue_content :: "JobState \<Rightarrow> uuid \<Rightarrow> content_item \<Rightarrow> content_item" where
  "queue_content s actor c = c\<lparr>ct_state := s, ct_updated_by := actor\<rparr>"

text \<open>From the content item to the audit record: everything the call persists.\<close>

definition persist_job ::
  "hash_fn \<Rightarrow> (json \<Rightarrow> string) \<Rightarrow> time \<Rightarrow> principal \<Rightarrow> content_job_create \<Rightarrow> string \<Rightarrow> string \<Rightarrow> uuid
   \<Rightarrow> resolved_inputs \<Rightarrow> GenerationBoundary \<Rightarrow> string list \<Rightarrow> BudgetAuthorization
   \<Rightarrow> 'a generation_db_scheme \<Rightarrow> ((generation_job \<times> bool) \<times> 'a generation_db_scheme) result" where
  "persist_job hash_json other now p d key req_hash snapshot_id ri boundary tools auth db =
     bind_result (job_content p d ri db) (\<lambda>(content, db).
     let queue = queue_content (next_state boundary) (subject_id p);
         db = db\<lparr>contents := update_where (\<lambda>c. ct_id c = ct_id content)
            (if cj_existing_content_id d = None then queue else touch_content queue) (contents db)\<rparr>;
         (job_id, db) = uuid4 db;
         job = job_row job_id p d key req_hash (ct_id content) snapshot_id boundary auth
                 (ri_max_attempts ri) tools;
         (steps, db) = new_steps hash_json (workspace_id p) job_id (ri_snapshot_hash ri)
                 (ri_max_attempts ri) (plan_generation_steps other (ri_outline ri)) db;
         db = db\<lparr>input_snapshots := input_snapshots db
            @ [\<lparr>si_id = snapshot_id, si_workspace_id = workspace_id p,
                si_snapshot_hash = ri_snapshot_hash ri\<rparr>]\<rparr>
     in bind_result (insert_job job steps db) (\<lambda>db.
          Inr ((job, True),
            job_record p now ''generation.job.created'' ''generation_job'' job_id
              ''generation.job.queued''
              (JDict [(''job_id'', JStr (uuid_str job_id)),
                      (''content_id'', JStr (uuid_str (ct_id content))),
                      (''state'', JStr (job_state_value (gj_state job))),
                      (''snapshot_hash'', JStr (ri_snapshot_hash ri))]) db)))"

text \<open>The refusal of a requested tool becomes a 422 answer.\<close>

definition checked_tools :: "string list \<Rightarrow> string list \<Rightarrow> string list result" where
  "checked_tools requested allowed =
     (case require_allowed_tools requested allowed of
        Inl (ValueError msg) \<Rightarrow> Inl (AppError ''TOOL_NOT_ALLOWED'' 422 [(''requested_tools'', msg)] None)
      | r \<Rightarrow> r)"

definition create_job ::
  "hash_fn \<Rightarrow> (json \<Rightarrow> string) \<Rightarrow> 'a generation_db_scheme resolver
   \<Rightarrow> 'a generation_db_scheme budget_gateway \<Rightarrow> time \<Rightarrow> principal \<Rightarrow> content_job_create \<Rightarrow> string
   \<Rightarrow> 'a generation_db_scheme \<Rightarrow> ((generation_job \<times> bool) \<times> 'a generation_db_scheme) result" where
  "create_job hash_json other resolve budget now p d key db =
     (let req_hash = hash_json (content_job_json d) in
      case List.find (same_job_request p d key) (generation_jobs db) of
        Some j \<Rightarrow> if gj_request_hash j \<noteq> req_hash
                  then Inl (idempotency_conflict ''Idempotency-Key'') else Inr ((j, False), db)
      | None \<Rightarrow>
          bind_result (resolve (workspace_id p) (subject_id p) req_hash d db) (\<lambda>ri.
          let (snapshot_id, db) = uuid4 db in
          bind_result (evaluate_generation_boundary (cj_content_type d) (cj_type_input d)
                         (ri_source_version_ids ri) (ri_approval_stages ri) (ri_safety_policy ri))
            (\<lambda>boundary.
          if \<not> may_generate boundary
          then Inl (AppError ''GENERATION_INPUT_INCOMPLETE'' 422
                 (map (\<lambda>i. (is_path i, is_code i)) (filter is_blocking (gb_issues boundary))) None)
          else
          bind_result (checked_tools (cj_requested_tools d) (ri_allowed_tools ri)) (\<lambda>tools.
          bind_result (authorize budget (workspace_id p) (subject_id p)
                         (operation_value (cj_operation d)) (ri_snapshot_hash ri)
                         (ri_model_snapshot ri) (cj_requested_limits d) key db) (\<lambda>(auth, db).
            persist_job hash_json other now p d key req_hash snapshot_id ri boundary tools auth db)))))"

definition get_job :: "principal \<Rightarrow> uuid \<Rightarrow> 'a generation_db_scheme \<Rightarrow> generation_job result" where
  "get_job p job_id db = find_job (workspace_id p) job_id db"

definition list_job_steps ::
  "principal \<Rightarrow> uuid \<Rightarrow> 'a generation_db_scheme \<Rightarrow> generation_job_step list result" where
  "list_job_steps p job_id db =
     bind_result (find_job (workspace_id p) job_id db) (\<lambda>_.
       Inr (sort_key (\<lambda>s. (gs_ordinal s, gs_id s))
         (filter (\<lambda>s. gs_workspace_id s = workspace_id p \<and> gs_job_id s = job_id)
           (generation_job_steps db))))"

section \<open>The worker boundary\<close>

definition step_job_state :: "string \<Rightarrow> JobState result" where
  "step_job_state step_kind =
     (case map_of [(''VALIDATE_INPUT'', JobState.VALIDATING), (''RESEARCH'', JobState.RESEARCHING),
                   (''PLAN_OUTLINE'', JobState.PLANNING), (''GENERATE_SECTION'', JobState.GENERATING),
                   (''VERIFY_CLAIMS'', JobState.VERIFYING), (''VERIFY_POLICY'', JobState.VERIFYING),
                   (''OPTIMIZE'', JobState.OPTIMIZING), (''PREPARE_REVIEW'', JobState.OPTIMIZING)]
            step_kind of
        None \<Rightarrow> Inl (app_error ''GENERATION_STEP_KIND_INVALID'' 500)
      | Some s \<Rightarrow> Inr s)"

definition pending_step :: "uuid \<Rightarrow> uuid \<Rightarrow> generation_job_step \<Rightarrow> bool" where
  "pending_step ws job_id s \<longleftrightarrow>
     gs_workspace_id s = ws \<and> gs_job_id s = job_id
     \<and> (gs_state s = StepState.PENDING \<or> gs_state s = StepState.RETRYING)"

definition cancel_pending_steps ::
  "uuid \<Rightarrow> uuid \<Rightarrow> 'a generation_db_scheme \<Rightarrow> 'a generation_db_scheme" where
  "cancel_pending_steps ws job_id =
     update_steps (pending_step ws job_id) (\<lambda>s. s\<lparr>gs_state := StepState.CANCELLED\<rparr>)"

text \<open>The first claimable step in order of (ordinal, id) that no other open transaction has locked
  (\<^verbatim>\<open>FOR UPDATE SKIP LOCKED\<close>).\<close>

definition next_pending_step ::
  "(uuid \<Rightarrow> bool) \<Rightarrow> uuid \<Rightarrow> uuid \<Rightarrow> 'a generation_db_scheme \<Rightarrow> generation_job_step option" where
  "next_pending_step locked ws job_id db =
     (case sort_key (\<lambda>s. (gs_ordinal s, gs_id s))
             (filter (\<lambda>s. pending_step ws job_id s \<and> \<not> locked (gs_id s)) (generation_job_steps db)) of
        [] \<Rightarrow> None | s # _ \<Rightarrow> Some s)"

text \<open>The row changes of a claim: the step runs, the job moves to the step's stage.\<close>

definition start_step :: "time \<Rightarrow> generation_job_step \<Rightarrow> generation_job_step" where
  "start_step now s =
     s\<lparr>gs_state := StepState.RUNNING, gs_attempt := gs_attempt s + 1, gs_started_at := Some now\<rparr>"

definition enter_stage :: "time \<Rightarrow> JobState \<Rightarrow> generation_job \<Rightarrow> generation_job" where
  "enter_stage now target j =
     j\<lparr>gj_state := target,
       gj_started_at := (case gj_started_at j of None \<Rightarrow> Some now | Some t \<Rightarrow> Some t)\<rparr>"

definition claim_next_step ::
  "time \<Rightarrow> (uuid \<Rightarrow> bool) \<Rightarrow> uuid \<Rightarrow> uuid \<Rightarrow> 'a generation_db_scheme
   \<Rightarrow> (generation_job_step option \<times> 'a generation_db_scheme) result" where
  "claim_next_step now locked ws job_id db =
     bind_result (find_job ws job_id db) (\<lambda>job.
     let state = gj_state job in
     if state = JobState.CANCEL_REQUESTED
     then bind_result (ensure_job_transition state JobState.CANCELLED) (\<lambda>_.
       Inr (None, cancel_pending_steps ws (gj_id job)
         (update_job (gj_id job)
            (\<lambda>j. j\<lparr>gj_state := JobState.CANCELLED, gj_finished_at := Some now\<rparr>) db)))
     else if state \<in> set TERMINAL_JOB_STATES then Inr (None, db)
     else case next_pending_step locked ws job_id db of
       None \<Rightarrow> Inr (None, db)
     | Some step \<Rightarrow>
         bind_result (step_job_state (gs_step_kind step)) (\<lambda>target.
         bind_result (if target \<noteq> state then ensure_job_transition state target else Inr ()) (\<lambda>_.
           Inr (Some (start_step now step),
             update_job (gj_id job) (enter_stage now target)
               (update_steps (\<lambda>s. gs_id s = gs_id step) (start_step now) db)))))"

definition finish_step ::
  "hash_fn \<Rightarrow> time \<Rightarrow> (string \<times> json) list \<Rightarrow> string option \<Rightarrow> generation_job_step \<Rightarrow> generation_job_step"
  where
  "finish_step hash_json now outcome output_ref s =
     s\<lparr>gs_state := StepState.SUCCEEDED, gs_result := Some outcome, gs_output_ref := output_ref,
       gs_output_hash := Some (hash_json (JDict outcome)), gs_finished_at := Some now\<rparr>"

definition complete_step ::
  "hash_fn \<Rightarrow> time \<Rightarrow> uuid \<Rightarrow> uuid \<Rightarrow> uuid \<Rightarrow> (string \<times> json) list \<Rightarrow> string option
   \<Rightarrow> 'a generation_db_scheme \<Rightarrow> (generation_job_step \<times> 'a generation_db_scheme) result" where
  "complete_step hash_json now ws job_id step_id outcome output_ref db =
     bind_result (find_step ws job_id step_id db) (\<lambda>step.
     if gs_state step = StepState.SUCCEEDED then Inr (step, db)
     else if gs_state step \<noteq> StepState.RUNNING
     then Inl (app_error ''GENERATION_STEP_NOT_RUNNING'' 409)
     else Inr (finish_step hash_json now outcome output_ref step,
            update_steps (\<lambda>s. gs_id s = step_id) (finish_step hash_json now outcome output_ref) db))"

text \<open>Where a failure takes the job; a state whose row has no failure edge is kept.\<close>

definition failure_target :: "bool \<Rightarrow> JobState \<Rightarrow> JobState result" where
  "failure_target retryable current =
     (let requested = (if retryable then JobState.RETRYABLE_FAILED else JobState.FINAL_FAILED) in
      if requested \<in> set (ALLOWED_JOB_TRANSITIONS current)
      then bind_result (ensure_job_transition current requested) (\<lambda>_. Inr requested)
      else if \<not> retryable \<and> JobState.RETRYABLE_FAILED \<in> set (ALLOWED_JOB_TRANSITIONS current)
      then bind_result (ensure_job_transition current JobState.RETRYABLE_FAILED) (\<lambda>_.
           bind_result (ensure_job_transition JobState.RETRYABLE_FAILED JobState.FINAL_FAILED) (\<lambda>_.
             Inr JobState.FINAL_FAILED))
      else if JobState.QUALITY_BLOCKED \<in> set (ALLOWED_JOB_TRANSITIONS current)
      then bind_result (ensure_job_transition current JobState.QUALITY_BLOCKED) (\<lambda>_.
             Inr JobState.QUALITY_BLOCKED)
      else Inr current)"

definition break_step :: "time \<Rightarrow> string \<Rightarrow> string \<Rightarrow> generation_job_step \<Rightarrow> generation_job_step" where
  "break_step now error_code error_detail s =
     s\<lparr>gs_state := StepState.FAILED, gs_error_code := Some error_code,
       gs_error_detail := Some error_detail, gs_finished_at := Some now\<rparr>"

definition fail_job :: "time \<Rightarrow> JobState \<Rightarrow> string \<Rightarrow> string \<Rightarrow> generation_job \<Rightarrow> generation_job" where
  "fail_job now target error_code error_detail j =
     j\<lparr>gj_state := target, gj_error_code := Some error_code, gj_error_detail := Some error_detail,
       gj_finished_at := (if target = JobState.FINAL_FAILED then Some now else gj_finished_at j)\<rparr>"

definition fail_step ::
  "time \<Rightarrow> uuid \<Rightarrow> uuid \<Rightarrow> uuid \<Rightarrow> string \<Rightarrow> string \<Rightarrow> bool \<Rightarrow> 'a generation_db_scheme
   \<Rightarrow> (generation_job \<times> 'a generation_db_scheme) result" where
  "fail_step now ws job_id step_id error_code error_detail retryable db =
     bind_result (find_job ws job_id db) (\<lambda>job.
     bind_result (find_step ws job_id step_id db) (\<lambda>step.
     bind_result (failure_target retryable (gj_state job)) (\<lambda>target.
     Inr (fail_job now target error_code error_detail job,
       update_job job_id (fail_job now target error_code error_detail)
         (update_steps (\<lambda>s. gs_id s = step_id) (break_step now error_code error_detail) db)))))"

section \<open>Commands\<close>

definition same_command ::
  "principal \<Rightarrow> uuid \<Rightarrow> CommandKind \<Rightarrow> string \<Rightarrow> generation_job_command \<Rightarrow> bool" where
  "same_command p job_id ck key c \<longleftrightarrow>
     gc_workspace_id c = workspace_id p \<and> gc_job_id c = job_id \<and> gc_actor_id c = subject_id p
     \<and> gc_command_kind c = ck \<and> gc_idempotency_key c = key"

definition command_hash :: "hash_fn \<Rightarrow> CommandKind \<Rightarrow> string option \<Rightarrow> string" where
  "command_hash hash_json ck reason =
     hash_json (JDict [(''kind'', JStr (command_kind_value ck)),
                       (''reason'', (case reason of None \<Rightarrow> JNull | Some r \<Rightarrow> JStr r))])"

text \<open>The row mutations of the two branches: the target state and the changed job and steps.\<close>

definition cancel_effect ::
  "time \<Rightarrow> principal \<Rightarrow> generation_job \<Rightarrow> 'a generation_db_scheme
   \<Rightarrow> (JobState \<times> 'a generation_db_scheme) result" where
  "cancel_effect now p job db =
     (let current = gj_state job;
          target = (if current = JobState.CREATED then JobState.CANCELLED
                    else JobState.CANCEL_REQUESTED)
      in bind_result (ensure_job_transition current target) (\<lambda>_.
           Inr (target, update_job (gj_id job)
             (\<lambda>j. j\<lparr>gj_cancel_requested_by := Some (subject_id p),
                    gj_cancel_requested_at := Some now\<rparr>) db)))"

definition retry_effect ::
  "principal \<Rightarrow> generation_job \<Rightarrow> 'a generation_db_scheme \<Rightarrow> (JobState \<times> 'a generation_db_scheme) result"
  where
  "retry_effect p job db =
     bind_result (ensure_job_transition (gj_state job) JobState.QUEUED) (\<lambda>_.
     if (case gj_max_attempts job of None \<Rightarrow> False | Some m \<Rightarrow> m \<le> gj_attempt job)
     then Inl (app_error ''JOB_RETRY_LIMIT_REACHED'' 409)
     else Inr (JobState.QUEUED,
       update_steps (\<lambda>s. gs_workspace_id s = workspace_id p \<and> gs_job_id s = gj_id job
                         \<and> (gs_state s = StepState.FAILED \<or> gs_state s = StepState.CANCELLED))
         (\<lambda>s. s\<lparr>gs_state := StepState.RETRYING, gs_error_code := None, gs_error_detail := None,
                gs_finished_at := None\<rparr>)
       (update_job (gj_id job)
         (\<lambda>j. j\<lparr>gj_attempt := gj_attempt j + 1, gj_error_code := None, gj_error_detail := None\<rparr>) db)))"

definition insert_command ::
  "generation_job_command \<Rightarrow> 'a generation_db_scheme \<Rightarrow> 'a generation_db_scheme result" where
  "insert_command c db =
     (if 255 < length (gc_idempotency_key c) then Inl (DataError ''idempotency_key'')
      else Inr (db\<lparr>generation_job_commands := generation_job_commands db @ [c]\<rparr>))"

text \<open>The end of a command: the new state, the command row and its audit record and event.\<close>

definition command_row ::
  "hash_fn \<Rightarrow> principal \<Rightarrow> uuid \<Rightarrow> CommandKind \<Rightarrow> string \<Rightarrow> string option \<Rightarrow> JobState \<Rightarrow> JobState \<Rightarrow> uuid
   \<Rightarrow> generation_job_command" where
  "command_row hash_json p job_id ck key reason current target i =
     \<lparr>gc_id = i, gc_workspace_id = workspace_id p, gc_job_id = job_id,
      gc_actor_id = subject_id p, gc_command_kind = ck, gc_idempotency_key = key,
      gc_request_hash = command_hash hash_json ck reason, gc_from_state = current,
      gc_to_state = target, gc_reason = reason\<rparr>"

definition log_command ::
  "hash_fn \<Rightarrow> time \<Rightarrow> principal \<Rightarrow> uuid \<Rightarrow> CommandKind \<Rightarrow> string \<Rightarrow> string option \<Rightarrow> JobState \<Rightarrow> JobState
   \<Rightarrow> 'a generation_db_scheme \<Rightarrow> (generation_job \<times> 'a generation_db_scheme) result" where
  "log_command hash_json now p job_id ck key reason current target db =
     (let db = update_job job_id (\<lambda>j. j\<lparr>gj_state := target\<rparr>) db;
          (i, db) = uuid4 db;
          action = ''generation.job.'' @ lower (command_kind_value ck)
      in bind_result (insert_command (command_row hash_json p job_id ck key reason current target i) db)
           (\<lambda>db. bind_result (find_job (workspace_id p) job_id db) (\<lambda>job.
             Inr (job, job_record p now action ''generation_job'' job_id (action @ ''_requested'')
               (JDict [(''job_id'', JStr (uuid_str job_id)),
                       (''state'', JStr (job_state_value target))]) db))))"

definition command ::
  "hash_fn \<Rightarrow> time \<Rightarrow> principal \<Rightarrow> uuid \<Rightarrow> CommandKind \<Rightarrow> string \<Rightarrow> string option
   \<Rightarrow> 'a generation_db_scheme \<Rightarrow> (generation_job \<times> 'a generation_db_scheme) result" where
  "command hash_json now p job_id ck key reason db =
     (case List.find (same_command p job_id ck key) (generation_job_commands db) of
        Some c \<Rightarrow>
          if gc_request_hash c \<noteq> command_hash hash_json ck reason
          then Inl (idempotency_conflict ''Idempotency-Key'')
          else bind_result (find_job (workspace_id p) job_id db) (\<lambda>j. Inr (j, db))
      | None \<Rightarrow>
          bind_result (find_job (workspace_id p) job_id db) (\<lambda>job.
          if ck = CommandKind.CANCEL \<and> gj_state job \<in> set TERMINAL_JOB_STATES
          then Inl (app_error ''JOB_ALREADY_TERMINAL'' 409)
          else if ck = CommandKind.CANCEL \<and> gj_state job = JobState.CANCEL_REQUESTED then Inr (job, db)
          else bind_result
            (case ck of CommandKind.CANCEL \<Rightarrow> cancel_effect now p job db
             | CommandKind.RETRY \<Rightarrow> retry_effect p job db)
            (\<lambda>(target, db). log_command hash_json now p job_id ck key reason (gj_state job) target db)))"

definition cancel_job ::
  "hash_fn \<Rightarrow> time \<Rightarrow> principal \<Rightarrow> uuid \<Rightarrow> string \<Rightarrow> string option \<Rightarrow> 'a generation_db_scheme
   \<Rightarrow> (generation_job \<times> 'a generation_db_scheme) result" where
  "cancel_job hash_json now p job_id key reason =
     command hash_json now p job_id CommandKind.CANCEL key reason"

definition retry_job ::
  "hash_fn \<Rightarrow> time \<Rightarrow> principal \<Rightarrow> uuid \<Rightarrow> string \<Rightarrow> string option \<Rightarrow> 'a generation_db_scheme
   \<Rightarrow> (generation_job \<times> 'a generation_db_scheme) result" where
  "retry_job hash_json now p job_id key reason =
     command hash_json now p job_id CommandKind.RETRY key reason"

end
