(* ===== verification/Generation_Worker.thy ===== *)
theory Generation_Worker
  imports Generation_Service Decimal28
begin

text \<open>
  The background worker of the generation domain, \<^verbatim>\<open>domain/generation/tasks.py\<close>: the settlement
  of a finished job with the budget gateway and one run of the job task.

  Costs are \<^verbatim>\<open>NUMERIC(19,6)\<close> values; their sum is taken in the decimal context. \<open>cost_text\<close> is
  \<open>str\<close> of such a sum: six decimals once a run was added, plain \<open>0\<close> without any.
\<close>

definition GENERATION_SUCCESS_STATES :: "JobState list" where
  "GENERATION_SUCCESS_STATES = [JobState.WAITING_REVIEW, JobState.SUCCEEDED]"

definition GENERATION_FAILURE_STATES :: "JobState list" where
  "GENERATION_FAILURE_STATES = [JobState.FINAL_FAILED, JobState.CANCELLED, JobState.EXPIRED]"

definition BILLING_SETTLEMENT_RESULT_KEY :: string where
  "BILLING_SETTLEMENT_RESULT_KEY = ''billing_settlement''"

definition runs_of_job :: "uuid \<Rightarrow> uuid \<Rightarrow> 'a generation_db_scheme \<Rightarrow> model_run list" where
  "runs_of_job ws job_id db =
     sort_key mr_id (filter (\<lambda>r. mr_workspace_id r = ws \<and> mr_job_id r = job_id) (model_runs db))"

definition actual_cost_of :: "model_run list \<Rightarrow> rat" where
  "actual_cost_of runs = foldl (\<lambda>acc r. dec_round (acc + mr_cost r)) 0 runs"

definition cost_text :: "nat \<Rightarrow> rat \<Rightarrow> string" where
  "cost_text n cost =
     (if n = 0 then ''0''
      else let m = nat \<lfloor>cost * 10 ^ 6\<rfloor>
           in nat_str (m div 10 ^ 6) @ ''.'' @ zero_pad 6 (m mod 10 ^ 6))"

text \<open>What a settlement tells the gateway: the event, and for a failed job its class and reason.\<close>

record terminal_settlement =
  ts_event :: string
  ts_failure_class :: "string option"
  ts_reason_code :: "string option"
  ts_state :: string

definition event_prefix :: "generation_job \<Rightarrow> string" where
  "event_prefix job = ''generation:'' @ uuid_str (gj_id job) @ '':''"

text \<open>The settlement already recorded in the job's result, checked against the model runs.\<close>

definition settlement_conflict :: error where
  "settlement_conflict = app_error ''GENERATION_BILLING_SETTLEMENT_CONFLICT'' 409"

definition evidence_matches :: "generation_job \<Rightarrow> rat \<Rightarrow> nat \<Rightarrow> (string \<times> json) list \<Rightarrow> bool" where
  "evidence_matches job cost n ev \<longleftrightarrow>
     dict_get ev ''actual_cost'' = JStr (cost_text n cost)
     \<and> dict_get ev ''currency'' = JStr (gj_currency job)
     \<and> py_eq (dict_get ev ''model_run_count'') (JInt (int n))"

definition stored_settlement ::
  "generation_job \<Rightarrow> rat \<Rightarrow> nat \<Rightarrow> json \<Rightarrow> terminal_settlement result" where
  "stored_settlement job cost n evidence =
     (case evidence of
        JDict ev \<Rightarrow>
          if \<not> evidence_matches job cost n ev then Inl settlement_conflict
          else (case (dict_get ev ''terminal_event_id'', dict_get ev ''terminal_state'') of
              (JStr event, JStr state) \<Rightarrow>
                if take (length (event_prefix job)) event \<noteq> event_prefix job
                then Inl settlement_conflict
                else (case dict_get ev ''failure_class'' of
                    JNull \<Rightarrow> Inr \<lparr>ts_event = event, ts_failure_class = None, ts_reason_code = None,
                                   ts_state = state\<rparr>
                  | JStr fc \<Rightarrow> (case dict_get ev ''reason_code'' of
                        JStr rc \<Rightarrow> Inr \<lparr>ts_event = event, ts_failure_class = Some fc,
                                        ts_reason_code = Some rc, ts_state = state\<rparr>
                      | _ \<Rightarrow> Inl settlement_conflict)
                  | _ \<Rightarrow> Inl settlement_conflict)
            | _ \<Rightarrow> Inl settlement_conflict)
      | _ \<Rightarrow> Inl settlement_conflict)"

definition fresh_settlement :: "generation_job \<Rightarrow> terminal_settlement" where
  "fresh_settlement job =
     (let state = job_state_value (gj_state job);
          success = gj_state job \<in> set GENERATION_SUCCESS_STATES
      in \<lparr>ts_event = event_prefix job @ (if success then ''success'' else lower state),
          ts_failure_class = (if success then None else Some state),
          ts_reason_code =
            (if success then None
             else Some (case gj_error_code job of
                 None \<Rightarrow> ''GENERATION_'' @ state
               | Some c \<Rightarrow> if c = [] then ''GENERATION_'' @ state else c)),
          ts_state = state\<rparr>)"

definition settle_with_gateway ::
  "'d budget_gateway \<Rightarrow> uuid \<Rightarrow> generation_job \<Rightarrow> rat \<Rightarrow> nat \<Rightarrow> terminal_settlement \<Rightarrow> 'd \<Rightarrow> 'd result" where
  "settle_with_gateway budget ws job cost n ts db =
     (case ts_failure_class ts of
        None \<Rightarrow> settle budget ws (gj_requested_by job) (gj_budget_reservation_ref job)
          \<lparr>us_actual_cost = cost, us_currency = gj_currency job,
           us_usage = [(''source'', JStr ''sum(model_runs.cost)''),
                       (''model_run_count'', JInt (int n)),
                       (''terminal_state'', JStr (ts_state ts))]\<rparr>
          (ts_event ts) db
      | Some fc \<Rightarrow> release budget ws (gj_requested_by job) (gj_budget_reservation_ref job) cost
          (gj_currency job) (case ts_reason_code ts of None \<Rightarrow> [] | Some r \<Rightarrow> r) (ts_event ts) fc db)"

definition settlement_evidence_of ::
  "generation_job \<Rightarrow> rat \<Rightarrow> nat \<Rightarrow> terminal_settlement \<Rightarrow> json" where
  "settlement_evidence_of job cost n ts = JDict
     [(''actual_cost'', JStr (cost_text n cost)), (''currency'', JStr (gj_currency job)),
      (''terminal_event_id'', JStr (ts_event ts)), (''terminal_state'', JStr (ts_state ts)),
      (''failure_class'', (case ts_failure_class ts of None \<Rightarrow> JNull | Some f \<Rightarrow> JStr f)),
      (''reason_code'', (case ts_reason_code ts of None \<Rightarrow> JNull | Some r \<Rightarrow> JStr r)),
      (''actual_cost_source'', JStr ''sum(model_runs.cost)''),
      (''model_run_count'', JInt (int n))]"

definition job_result_dict :: "generation_job \<Rightarrow> (string \<times> json) list" where
  "job_result_dict job = (case gj_result job of None \<Rightarrow> [] | Some d \<Rightarrow> d)"

definition mismatched_currencies :: "generation_job \<Rightarrow> model_run list \<Rightarrow> string list" where
  "mismatched_currencies job runs =
     sort (remdups (filter (\<lambda>c. c \<noteq> gj_currency job) (map mr_currency runs)))"

definition prior_evidence :: "generation_job \<Rightarrow> json" where
  "prior_evidence job = dict_get (job_result_dict job) BILLING_SETTLEMENT_RESULT_KEY"

definition choose_settlement :: "generation_job \<Rightarrow> rat \<Rightarrow> nat \<Rightarrow> terminal_settlement result" where
  "choose_settlement job cost n =
     (if prior_evidence job = JNull then Inr (fresh_settlement job)
      else stored_settlement job cost n (prior_evidence job))"

definition record_settlement :: "rat \<Rightarrow> nat \<Rightarrow> terminal_settlement \<Rightarrow> generation_job \<Rightarrow> generation_job" where
  "record_settlement cost n ts j =
     j\<lparr>gj_actual_cost := Some cost,
       gj_result := (if prior_evidence j = JNull
         then Some (dict_set BILLING_SETTLEMENT_RESULT_KEY (settlement_evidence_of j cost n ts)
                      (job_result_dict j))
         else gj_result j)\<rparr>"

definition check_runs :: "generation_job \<Rightarrow> model_run list \<Rightarrow> unit result" where
  "check_runs job runs =
     (let mismatched = mismatched_currencies job runs
      in if mismatched \<noteq> []
         then Inl (AppError ''GENERATION_ACTUAL_COST_CURRENCY_MISMATCH'' 409 []
                (Some (JDict [(''job_currency'', JStr (gj_currency job)),
                              (''model_run_currencies'', JList (map JStr mismatched))])))
         else if actual_cost_of runs < 0 then Inl (app_error ''GENERATION_ACTUAL_COST_INVALID'' 409)
         else Inr ())"

definition settle_generation_terminal ::
  "'a generation_db_scheme budget_gateway \<Rightarrow> uuid \<Rightarrow> uuid \<Rightarrow> 'a generation_db_scheme
   \<Rightarrow> (bool \<times> 'a generation_db_scheme) result" where
  "settle_generation_terminal budget ws job_id db =
     bind_result (find_job ws job_id db) (\<lambda>job.
     if gj_state job \<notin> set (GENERATION_SUCCESS_STATES @ GENERATION_FAILURE_STATES)
     then Inr (False, db)
     else
       let runs = runs_of_job ws (gj_id job) db; n = length runs; cost = actual_cost_of runs
       in bind_result (check_runs job runs) (\<lambda>_.
          bind_result (choose_settlement job cost n) (\<lambda>ts.
          bind_result (settle_with_gateway budget ws job cost n ts db) (\<lambda>db.
            Inr (prior_evidence job = JNull,
                 update_job (gj_id job) (record_settlement cost n ts) db)))))"

section \<open>One run of the job task\<close>

text \<open>
  \<open>_run_job\<close>, in one transaction. The executor of the model and research steps is configured by the
  composition root; it gets the session and may call the service. The result is the state of the
  job and whether the task enqueues itself again.
\<close>

type_synonym 'd step_executor = "uuid \<Rightarrow> uuid \<Rightarrow> uuid \<Rightarrow> string \<Rightarrow> 'd \<Rightarrow> 'd result"

definition settle_and_report ::
  "'a generation_db_scheme budget_gateway \<Rightarrow> uuid \<Rightarrow> uuid \<Rightarrow> (JobState \<Rightarrow> bool)
   \<Rightarrow> 'a generation_db_scheme \<Rightarrow> ((JobState \<times> bool) \<times> 'a generation_db_scheme) result" where
  "settle_and_report budget ws job_id again db =
     bind_result (find_job ws job_id db) (\<lambda>job.
     bind_result (settle_generation_terminal budget ws job_id db) (\<lambda>(_, db).
       Inr ((gj_state job, again (gj_state job)), db)))"

definition run_job ::
  "hash_fn \<Rightarrow> 'a generation_db_scheme budget_gateway \<Rightarrow> 'a generation_db_scheme step_executor option
   \<Rightarrow> time \<Rightarrow> (uuid \<Rightarrow> bool) \<Rightarrow> uuid \<Rightarrow> uuid \<Rightarrow> 'a generation_db_scheme
   \<Rightarrow> ((JobState \<times> bool) \<times> 'a generation_db_scheme) result" where
  "run_job hash_json budget executor now locked ws job_id db =
     bind_result (claim_next_step now locked ws job_id db) (\<lambda>(claimed, db).
     case claimed of
       None \<Rightarrow> settle_and_report budget ws job_id (\<lambda>_. False) db
     | Some step \<Rightarrow>
         if gs_step_kind step = ''VALIDATE_INPUT''
         then bind_result (complete_step hash_json now ws job_id (gs_id step)
                             [(''validated'', JBool True)] None db) (\<lambda>(_, db).
                settle_and_report budget ws job_id (\<lambda>_. True) db)
         else case executor of
           None \<Rightarrow>
             bind_result (fail_step now ws job_id (gs_id step) ''GENERATION_RUNTIME_UNAVAILABLE''
                            ''approved model/research executor is not configured'' False db) (\<lambda>(_, db).
               settle_and_report budget ws job_id (\<lambda>_. False) db)
         | Some execute \<Rightarrow>
             bind_result (execute ws job_id (gs_id step) (gs_step_kind step) db) (\<lambda>db.
               settle_and_report budget ws job_id
                 (\<lambda>s. s \<notin> {JobState.RETRYABLE_FAILED, JobState.FINAL_FAILED, JobState.CANCELLED,
                           JobState.WAITING_REVIEW}) db))"

end
