(* ===== verification/Generation_Properties.thy ===== *)
theory Generation_Properties
  imports Generation_Worker
begin

text \<open>
  Properties of the generation rules: the admission boundary, the plan of a job, the tool
  allow-list and the provider context.
\<close>

section \<open>Admission\<close>

lemma py_eq_str [simp]: "py_eq v (JStr s) \<longleftrightarrow> v = JStr s"
  by (cases v) (simp_all add: py_eq_def)

text \<open>Membership of a value in one of the industry lists of the safety policy.\<close>

definition listed :: "(string \<times> json) list \<Rightarrow> string \<Rightarrow> json \<Rightarrow> bool" where
  "listed policy key v \<longleftrightarrow>
     (case policy_set policy key of Inl _ \<Rightarrow> False | Inr xs \<Rightarrow> list_ex (py_eq v) xs)"

definition type_input_complete :: "ContentType \<Rightarrow> (string \<times> json) list \<Rightarrow> uuid list \<Rightarrow> bool" where
  "type_input_complete c ti sources \<longleftrightarrow>
     (\<forall>f \<in> set (REQUIRED_FIELDS c). \<not> empty_input (dict_get ti f))
     \<and> (c \<in> set SOURCE_TYPES \<longrightarrow> sources \<noteq> [])
     \<and> (c \<in> set EXPERIENCE_TYPES \<longrightarrow> dict_get ti ''actual_experience_confirmed'' = JBool True)
     \<and> (c \<in> set RIGHTS_TYPES \<longrightarrow> dict_get ti ''rights_status'' \<in> set ALLOWED_RIGHTS)
     \<and> (c \<in> set DISCLOSURE_TYPES \<longrightarrow> py_truthy (dict_get ti ''disclosure''))
     \<and> (c = ContentType.REAL_PHOTO_REVIEW \<longrightarrow> py_truthy (dict_get ti ''real_media_refs''))"

lemma rights_check:
  "(if r then py_in_set v ALLOWED_RIGHTS else Inr True) = Inr ok \<Longrightarrow> ok \<longleftrightarrow> (r \<longrightarrow> v \<in> set ALLOWED_RIGHTS)"
  by (auto simp: py_in_set_def ALLOWED_RIGHTS_def split: if_splits)

lemma validate_content_type_input_iff:
  assumes "validate_content_type_input c ti sources = Inr issues"
  shows "issues = [] \<longleftrightarrow> type_input_complete c ti sources" and "list_all is_blocking issues"
proof -
  let ?k = "CONTENT_TYPE_CONTRACTS c"
  obtain ok where ok: "(if requires_rights_confirmation ?k
        then py_in_set (dict_get ti ''rights_status'') ALLOWED_RIGHTS else Inr True) = Inr ok"
    and issues: "issues =
        map (\<lambda>f. input_issue ''TYPE_INPUT_REQUIRED'' (''type_input.'' @ f))
          (filter (\<lambda>f. empty_input (dict_get ti f)) (required_fields ?k))
        @ (if requires_source_versions ?k \<and> sources = []
           then [input_issue ''SOURCE_VERSION_REQUIRED'' ''source_version_ids''] else [])
        @ (if requires_experience_confirmation ?k
             \<and> dict_get ti ''actual_experience_confirmed'' \<noteq> JBool True
           then [input_issue ''EXPERIENCE_NOT_CONFIRMED'' ''type_input.actual_experience_confirmed'']
           else [])
        @ (if ok then [] else [input_issue ''RIGHTS_NOT_CONFIRMED'' ''type_input.rights_status''])
        @ (if requires_commercial_disclosure ?k \<and> \<not> py_truthy (dict_get ti ''disclosure'')
           then [input_issue ''COMMERCIAL_DISCLOSURE_REQUIRED'' ''type_input.disclosure''] else [])
        @ (if requires_real_media ?k \<and> \<not> py_truthy (dict_get ti ''real_media_refs'')
           then [input_issue ''REAL_MEDIA_REQUIRED'' ''type_input.real_media_refs''] else [])"
    using assms unfolding validate_content_type_input_def Let_def bind_result_eq_Inr by blast
  show "issues = [] \<longleftrightarrow> type_input_complete c ti sources"
    unfolding issues
    by (simp add: rights_check [OF ok] type_input_complete_def CONTENT_TYPE_CONTRACTS_def
        filter_empty_conv)
  show "list_all is_blocking issues"
    unfolding issues by (simp add: list.pred_map comp_def list.pred_True)
qed

text \<open>
  C21. The admission boundary is exactly its specification: whenever it evaluates, a job may be
  generated if and only if every required field of the content type is filled in, sources, first
  hand experience, usage rights, disclosure and real media are given where the type needs them,
  the industry is not blocked, and an industry that requires review has approval stages. The job is
  then queued, otherwise it waits for input; it may never publish by itself.
\<close>

theorem generation_admission:
  assumes "evaluate_generation_boundary c ti sources stages policy = Inr b"
  shows "(may_generate b \<longleftrightarrow>
      type_input_complete c ti sources
      \<and> (py_truthy (dict_get ti ''industry'') \<longrightarrow>
          \<not> listed policy ''blocked_industries'' (dict_get ti ''industry''))
      \<and> (listed policy ''required_review_industries'' (dict_get ti ''industry'') \<longrightarrow> stages \<noteq> []))
    \<and> next_state b = (if may_generate b then JobState.QUEUED else JobState.WAITING_INPUT)
    \<and> \<not> may_publish b \<and> required_approval_stages b = stages"
proof -
  obtain issues where v: "validate_content_type_input c ti sources = Inr issues"
    using assms by (auto simp: evaluate_generation_boundary_def result_simps)
  have "list_ex is_blocking issues \<longleftrightarrow> issues \<noteq> []"
    using validate_content_type_input_iff(2) [OF v] by (cases issues) (auto simp: list_ex_iff)
  then show ?thesis
    using assms validate_content_type_input_iff(1) [OF v]
    by (auto simp: evaluate_generation_boundary_def v result_simps Let_def listed_def py_in_set_def
        split: if_splits)
qed

definition review_input :: "(string \<times> json) list" where
  "review_input = [(''place'', JStr ''cafe''), (''visit_date'', JStr ''2024-05-01''),
     (''orders'', JList [JStr ''latte'']), (''costs'', JInt 7), (''industry'', JStr ''FINANCE''),
     (''actual_experience_confirmed'', JBool True)]"

theorem generation_admission_witness:
  "(\<exists>b. evaluate_generation_boundary ContentType.VISIT_REVIEW review_input [] []
         [(''blocked_industries'', JList [JStr ''GAMBLING''])] = Inr b \<and> may_generate b)
   \<and> (\<exists>b. evaluate_generation_boundary ContentType.VISIT_REVIEW review_input [] []
         [(''required_review_industries'', JList [JStr ''FINANCE''])] = Inr b \<and> \<not> may_generate b)"
proof -
  note evs = evaluate_generation_boundary_def validate_content_type_input_def CONTENT_TYPE_CONTRACTS_def
    review_input_def dict_get_def policy_set_def py_in_set_def py_eq_def Let_def SOURCE_TYPES_def
    EXPERIENCE_TYPES_def RIGHTS_TYPES_def DISCLOSURE_TYPES_def
  obtain b1 where b1: "evaluate_generation_boundary ContentType.VISIT_REVIEW review_input [] []
         [(''blocked_industries'', JList [JStr ''GAMBLING''])] = Inr b1"
    by (simp add: evs)
  obtain b2 where b2: "evaluate_generation_boundary ContentType.VISIT_REVIEW review_input [] []
         [(''required_review_industries'', JList [JStr ''FINANCE''])] = Inr b2"
    by (simp add: evs)
  have "type_input_complete ContentType.VISIT_REVIEW review_input []"
    by (simp add: type_input_complete_def review_input_def dict_get_def SOURCE_TYPES_def
        EXPERIENCE_TYPES_def RIGHTS_TYPES_def DISCLOSURE_TYPES_def)
  then have "may_generate b1" "\<not> may_generate b2"
    using generation_admission [OF b1] generation_admission [OF b2]
    by (simp_all add: listed_def policy_set_def py_eq_def review_input_def dict_get_def)
  with b1 b2 show ?thesis by blast
qed

section \<open>Tools and provider context\<close>


end
