(* ===== verification/Generation_Invariant.thy ===== *)
theory Generation_Invariant
  imports Generation_Worker
begin

text \<open>
  The transition system of the generation domain: committed transactions as steps, the invariant of
  the job and step tables, and how the state of a job evolves. The budget gateway is any
  implementation of the interface \<open>budget_port\<close>: it leaves the generation tables alone.
\<close>

section \<open>The gateway interface\<close>

definition same_generation :: "'a generation_db_scheme \<Rightarrow> 'a generation_db_scheme \<Rightarrow> bool" where
  "same_generation db db' \<longleftrightarrow>
     contents db' = contents db \<and> input_snapshots db' = input_snapshots db
     \<and> generation_jobs db' = generation_jobs db \<and> generation_job_steps db' = generation_job_steps db
     \<and> generation_job_commands db' = generation_job_commands db \<and> model_runs db' = model_runs db
     \<and> uuid_supply db \<le> uuid_supply db'"

locale budget_port =
  fixes gateway :: "'a generation_db_scheme budget_gateway"
  assumes authorize_frame:
      "authorize gateway ws actor op h ms limits key db = Inr (a, db') \<Longrightarrow> same_generation db db'"
    and settle_frame:
      "settle gateway ws actor ref us ev db = Inr db' \<Longrightarrow> same_generation db db'"
    and release_frame:
      "release gateway ws actor ref cost cur reason ev fc db = Inr db' \<Longrightarrow> same_generation db db'"
begin

lemma settle_with_gateway_frame:
  "settle_with_gateway gateway ws job cost n ts db = Inr db' \<Longrightarrow> same_generation db db'"
  by (auto simp: settle_with_gateway_def intro: settle_frame release_frame split: option.splits)

end

interpretation fail_closed: budget_port fail_closed_gateway
  by unfold_locales (simp_all add: fail_closed_gateway_def Let_def)

section \<open>Frames\<close>

lemma job_record_frame [simp]:
  "generation_jobs (job_record p now a ty i ev pl db) = generation_jobs db"
  "generation_job_steps (job_record p now a ty i ev pl db) = generation_job_steps db"
  "generation_job_commands (job_record p now a ty i ev pl db) = generation_job_commands db"
  "model_runs (job_record p now a ty i ev pl db) = model_runs db"
  "contents (job_record p now a ty i ev pl db) = contents db"
  "uuid_supply (job_record p now a ty i ev pl db) = uuid_supply db + 2"
  by (simp_all add: job_record_def add_outbox_event_def append_audit_log_def uuid4_def Let_def)

lemma update_job_frame [simp]:
  "generation_jobs (update_job i f db) = update_where (\<lambda>j. gj_id j = i) f (generation_jobs db)"
  "generation_job_steps (update_job i f db) = generation_job_steps db"
  "generation_job_commands (update_job i f db) = generation_job_commands db"
  "model_runs (update_job i f db) = model_runs db"
  "uuid_supply (update_job i f db) = uuid_supply db"
  by (simp_all add: update_job_def)

lemma update_steps_frame [simp]:
  "generation_jobs (update_steps P f db) = generation_jobs db"
  "generation_job_steps (update_steps P f db) = update_where P f (generation_job_steps db)"
  "generation_job_commands (update_steps P f db) = generation_job_commands db"
  "model_runs (update_steps P f db) = model_runs db"
  "uuid_supply (update_steps P f db) = uuid_supply db"
  by (simp_all add: update_steps_def)

lemma find_job_Inr:
  "find_job ws i db = Inr j \<Longrightarrow> j \<in> set (generation_jobs db) \<and> gj_workspace_id j = ws \<and> gj_id j = i"
  by (auto simp: find_job_def dest: find_SomeD split: option.splits)

lemma find_step_Inr:
  "find_step ws i k db = Inr s \<Longrightarrow>
   s \<in> set (generation_job_steps db) \<and> gs_workspace_id s = ws \<and> gs_job_id s = i \<and> gs_id s = k"
  by (auto simp: find_step_def dest: find_SomeD split: option.splits)

section \<open>How an operation changes a job\<close>

text \<open>
  \<open>job_moves\<close>: every job is still there, under its identifier and owner, in a state that the
  transition table reaches from its earlier one, and not past the approval boundary; a job that is
  new started out queued. Retries stay within the limit pinned at creation.
\<close>

abbreviation job_path :: "JobState \<Rightarrow> JobState \<Rightarrow> bool" where
  "job_path \<equiv> (table_step ALLOWED_JOB_TRANSITIONS)\<^sup>*\<^sup>*"

definition within_retry_limit :: "generation_job \<Rightarrow> bool" where
  "within_retry_limit j \<longleftrightarrow> (case gj_max_attempts j of None \<Rightarrow> True | Some n \<Rightarrow> gj_attempt j \<le> n)"

definition job_succ :: "generation_job \<Rightarrow> generation_job \<Rightarrow> bool" where
  "job_succ j j' \<longleftrightarrow> gj_id j' = gj_id j \<and> gj_workspace_id j' = gj_workspace_id j
     \<and> gj_requested_by j' = gj_requested_by j \<and> job_path (gj_state j) (gj_state j')
     \<and> (before_approval (gj_state j) \<longrightarrow> before_approval (gj_state j'))
     \<and> (within_retry_limit j \<longrightarrow> within_retry_limit j')"

definition new_job_in :: "uuid \<Rightarrow> uuid \<Rightarrow> generation_job \<Rightarrow> bool" where
  "new_job_in lo hi j \<longleftrightarrow> lo \<le> gj_id j \<and> gj_id j < hi \<and> job_path JobState.QUEUED (gj_state j)
     \<and> before_approval (gj_state j) \<and> within_retry_limit j"

definition job_moves :: "'a generation_db_scheme \<Rightarrow> 'a generation_db_scheme \<Rightarrow> bool" where
  "job_moves db db' \<longleftrightarrow> uuid_supply db \<le> uuid_supply db'
     \<and> (\<exists>ys new. generation_jobs db' = ys @ new \<and> list_all2 job_succ (generation_jobs db) ys
          \<and> list_all (new_job_in (uuid_supply db) (uuid_supply db')) new \<and> distinct (map gj_id new))"

lemma job_succ_refl [simp]: "job_succ j j"
  by (simp add: job_succ_def)

lemma job_succ_trans: "job_succ j k \<Longrightarrow> job_succ k l \<Longrightarrow> job_succ j l"
  by (auto simp: job_succ_def)

lemma job_succ_new: "new_job_in lo hi j \<Longrightarrow> job_succ j k \<Longrightarrow> lo' \<le> lo \<Longrightarrow> hi \<le> hi' \<Longrightarrow> new_job_in lo' hi' k"
  by (auto simp: job_succ_def new_job_in_def)

lemma list_all2_succ_refl [simp]: "list_all2 job_succ js js"
  by (simp add: list.rel_refl)

lemma job_moves_same:
  "generation_jobs db' = generation_jobs db \<Longrightarrow> uuid_supply db \<le> uuid_supply db' \<Longrightarrow> job_moves db db'"
  unfolding job_moves_def by (intro conjI exI [of _ "generation_jobs db"] exI [of _ "[]"]) simp_all

lemma job_moves_update:
  assumes "generation_jobs db' = update_where P f (generation_jobs db)" and "uuid_supply db \<le> uuid_supply db'"
    and "\<And>j. j \<in> set (generation_jobs db) \<Longrightarrow> P j \<Longrightarrow> job_succ j (f j)"
  shows "job_moves db db'"
proof -
  have "list_all2 job_succ js (update_where P f js)"
    if "\<And>j. j \<in> set js \<Longrightarrow> P j \<Longrightarrow> job_succ j (f j)" for js
    using that by (induction js) auto
  then show ?thesis using assms unfolding job_moves_def
    by (intro conjI exI [of _ "update_where P f (generation_jobs db)"] exI [of _ "[]"]) simp_all
qed

lemma list_all2_new:
  "list_all2 job_succ js ks \<Longrightarrow> list_all (new_job_in lo hi) js \<Longrightarrow> lo' \<le> lo \<Longrightarrow> hi \<le> hi' \<Longrightarrow>
   list_all (new_job_in lo' hi') ks"
  by (induction rule: list_all2_induct) (auto intro: job_succ_new)

lemma list_all2_ids: "list_all2 job_succ js ks \<Longrightarrow> map gj_id ks = map gj_id js"
  by (induction rule: list_all2_induct) (auto simp: job_succ_def)

lemma job_moves_trans:
  assumes "job_moves db db'" and "job_moves db' db''"
  shows "job_moves db db''"
proof -
  obtain ys new where 1: "generation_jobs db' = ys @ new" "list_all2 job_succ (generation_jobs db) ys"
    "list_all (new_job_in (uuid_supply db) (uuid_supply db')) new" "distinct (map gj_id new)"
    and s1: "uuid_supply db \<le> uuid_supply db'"
    using assms(1) by (auto simp: job_moves_def)
  obtain zs new' where 2: "generation_jobs db'' = zs @ new'" "list_all2 job_succ (ys @ new) zs"
    "list_all (new_job_in (uuid_supply db') (uuid_supply db'')) new'" "distinct (map gj_id new')"
    and s2: "uuid_supply db' \<le> uuid_supply db''"
    using assms(2) 1(1) by (auto simp: job_moves_def)
  obtain us vs where z: "zs = us @ vs" "list_all2 job_succ ys us" "list_all2 job_succ new vs"
    using 2(2) by (auto simp: list_all2_append1)
  have old: "list_all2 job_succ (generation_jobs db) us"
    using list_all2_trans [OF _ 1(2) z(2)] job_succ_trans by blast
  have ids: "map gj_id vs = map gj_id new" by (rule list_all2_ids [OF z(3)])
  have "gj_id v < uuid_supply db'" if "v \<in> set vs" for v
  proof -
    have "gj_id v \<in> set (map gj_id vs)" using that by simp
    then show ?thesis using 1(3) by (auto simp: ids list_all_iff new_job_in_def)
  qed
  moreover have "uuid_supply db' \<le> gj_id w" if "w \<in> set new'" for w
    using 2(3) that by (auto simp: list_all_iff new_job_in_def)
  ultimately have "set (map gj_id vs) \<inter> set (map gj_id new') = {}" by force
  then have "distinct (map gj_id (vs @ new'))"
    using ids 1(4) 2(4) by (simp only: map_append distinct_append)
  moreover have "list_all (new_job_in (uuid_supply db) (uuid_supply db'')) (vs @ new')"
    using list_all2_new [OF z(3) 1(3) order_refl s2] 2(3) s1
    by (auto simp: list_all_iff new_job_in_def)
  ultimately show ?thesis
    unfolding job_moves_def using old s1 s2 2(1) z(1) by (metis append.assoc order_trans)
qed

section \<open>The operations\<close>

definition jobs_ok :: "'a generation_db_scheme \<Rightarrow> bool" where
  "jobs_ok db \<longleftrightarrow> distinct (map gj_id (generation_jobs db))
     \<and> list_all (new_job_in 0 (uuid_supply db)) (generation_jobs db)"

lemma ids_in: "list_all (new_job_in lo hi) js \<Longrightarrow> set (map gj_id js) \<subseteq> {lo..<hi}"
  by (auto simp: list_all_iff new_job_in_def)

lemma jobs_ok_moves:
  assumes "jobs_ok db" and "job_moves db db'"
  shows "jobs_ok db'"
proof -
  obtain ys new where m: "generation_jobs db' = ys @ new" "list_all2 job_succ (generation_jobs db) ys"
    "list_all (new_job_in (uuid_supply db) (uuid_supply db')) new" "distinct (map gj_id new)"
    "uuid_supply db \<le> uuid_supply db'"
    using assms(2) by (auto simp: job_moves_def)
  have old: "list_all (new_job_in 0 (uuid_supply db)) (generation_jobs db)"
    "distinct (map gj_id (generation_jobs db))"
    using assms(1) by (auto simp: jobs_ok_def)
  have "list_all (new_job_in 0 (uuid_supply db)) ys"
    by (rule list_all2_new [OF m(2) old(1)]) simp_all
  moreover have "map gj_id ys = map gj_id (generation_jobs db)" by (rule list_all2_ids [OF m(2)])
  ultimately have "distinct (map gj_id (ys @ new))"
    using m(3,4) old ids_in [OF old(1)] ids_in [OF m(3)] by (simp only: map_append distinct_append) fastforce
  moreover have "list_all (new_job_in 0 (uuid_supply db')) (ys @ new)"
    using \<open>list_all (new_job_in 0 (uuid_supply db)) ys\<close> m(3,5)
    by (auto simp: list_all_iff new_job_in_def)
  ultimately show ?thesis unfolding jobs_ok_def m(1) by blast
qed

lemma same_job:
  assumes "jobs_ok db" and "find_job ws i db = Inr job" and "j \<in> set (generation_jobs db)"
    and "gj_id j = gj_id job"
  shows "j = job"
  using assms(1,3,4) find_job_Inr [OF assms(2)] by (intro distinct_key_eq [of gj_id]) (auto simp: jobs_ok_def)

text \<open>A change of the one job that was looked up.\<close>

lemma job_moves_found:
  assumes "jobs_ok db" and "find_job ws i db = Inr job"
    and "generation_jobs db' = update_where (\<lambda>j. gj_id j = gj_id job) f (generation_jobs db)"
    and "uuid_supply db \<le> uuid_supply db'" and "job_succ job (f job)"
  shows "job_moves db db'"
  by (rule job_moves_update [OF assms(3,4)]) (metis assms(1,2,5) same_job)

lemma step_job_state_values:
  "step_job_state k = Inr t \<Longrightarrow> t \<in> {JobState.VALIDATING, JobState.RESEARCHING, JobState.PLANNING,
     JobState.GENERATING, JobState.VERIFYING, JobState.OPTIMIZING}"
  by (auto simp: step_job_state_def split: option.splits if_splits)

lemma edge_path: "ensure_job_transition s t = Inr () \<Longrightarrow> job_path s t"
  by (simp add: job.ens_iff r_into_rtranclp)

lemma claim_cases:
  assumes "claim_next_step now locked ws i db = Inr (r, db')"
  obtains (cancel) job where "find_job ws i db = Inr job" "gj_state job = JobState.CANCEL_REQUESTED"
      "r = None" "db' = cancel_pending_steps ws (gj_id job) (update_job (gj_id job)
            (\<lambda>j. j\<lparr>gj_state := JobState.CANCELLED, gj_finished_at := Some now\<rparr>) db)"
    | (nothing) "db' = db" "r = None"
    | (step) job step target where "find_job ws i db = Inr job"
        "next_pending_step locked ws i db = Some step" "r = Some (start_step now step)"
        "step_job_state (gs_step_kind step) = Inr target"
        "target = gj_state job \<or> target \<in> set (ALLOWED_JOB_TRANSITIONS (gj_state job))"
        "db' = update_job (gj_id job) (enter_stage now target)
                 (update_steps (\<lambda>s. gs_id s = gs_id step) (start_step now) db)"
  using assms unfolding claim_next_step_def bind_result_eq_Inr
  by (auto simp: Let_def result_simps job.ens_iff split: if_splits option.splits)

lemma claim_moves:
  assumes ok: "jobs_ok db" and c: "claim_next_step now locked ws i db = Inr (r, db')"
  shows "job_moves db db'"
  using c
proof (cases rule: claim_cases)
  case (cancel job)
  have "job_path JobState.CANCEL_REQUESTED JobState.CANCELLED" by (rule r_into_rtranclp) simp
  then show ?thesis
    by (intro job_moves_found [OF ok cancel(1), where f =
          "\<lambda>j. j\<lparr>gj_state := JobState.CANCELLED, gj_finished_at := Some now\<rparr>"])
      (simp_all add: cancel cancel_pending_steps_def job_succ_def before_approval_def within_retry_limit_def
          split: option.splits)
next
  case nothing
  then show ?thesis by (simp add: job_moves_same)
next
  case (step job s target)
  have "before_approval target"
    using step_job_state_values [OF step(4)] by (auto simp: before_approval_def)
  moreover have "job_path (gj_state job) target" using step(5) by auto
  ultimately show ?thesis
    by (intro job_moves_found [OF ok step(1), where f = "enter_stage now target"])
      (simp_all add: step(6) job_succ_def within_retry_limit_def enter_stage_def split: option.splits)
qed

lemma complete_moves:
  "complete_step H now ws i k outcome ref db = Inr (s, db') \<Longrightarrow> job_moves db db'"
  by (auto simp: complete_step_def result_simps Let_def intro: job_moves_same split: if_splits)

lemma failure_target_path:
  assumes "failure_target retryable s = Inr t"
  shows "job_path s t \<and> (before_approval s \<longrightarrow> before_approval t)"
proof -
  have "t = s \<or> t \<in> set (ALLOWED_JOB_TRANSITIONS s)
    \<or> (JobState.RETRYABLE_FAILED \<in> set (ALLOWED_JOB_TRANSITIONS s) \<and> t = JobState.FINAL_FAILED)"
    and "before_approval s \<longrightarrow> before_approval t"
    using assms by (auto simp: failure_target_def Let_def result_simps before_approval_def split: if_splits)
  moreover have "job_path JobState.RETRYABLE_FAILED JobState.FINAL_FAILED"
    by (rule r_into_rtranclp) simp
  ultimately show ?thesis
    by (meson converse_rtranclp_into_rtranclp rtranclp.rtrancl_refl r_into_rtranclp)
qed

lemma fail_moves:
  assumes ok: "jobs_ok db" and f: "fail_step now ws i k code detail retryable db = Inr (r, db')"
  shows "job_moves db db'"
proof -
  obtain job target where j: "find_job ws i db = Inr job"
    and t: "failure_target retryable (gj_state job) = Inr target"
    and db': "db' = update_job i (fail_job now target code detail)
         (update_steps (\<lambda>s. gs_id s = k) (break_step now code detail) db)"
    using f unfolding fail_step_def bind_result_eq_Inr by auto
  have "gj_id job = i" using find_job_Inr [OF j] by simp
  then show ?thesis
    using failure_target_path [OF t]
    by (intro job_moves_found [OF ok j, where f = "fail_job now target code detail"])
      (simp_all add: db' job_succ_def within_retry_limit_def fail_job_def split: option.splits)
qed

lemma cancel_effect_Inr:
  assumes "cancel_effect now p job db = Inr (target, db')"
  shows "job_path (gj_state job) target \<and> before_approval target
    \<and> db' = update_job (gj_id job) (\<lambda>j. j\<lparr>gj_cancel_requested_by := Some (subject_id p),
        gj_cancel_requested_at := Some now\<rparr>) db"
  using assms by (auto simp: cancel_effect_def result_simps Let_def before_approval_def intro: edge_path
      split: if_splits)

lemma retry_effect_Inr:
  assumes "retry_effect p job db = Inr (target, db')"
  shows "target = JobState.QUEUED \<and> job_path (gj_state job) JobState.QUEUED
    \<and> (case gj_max_attempts job of None \<Rightarrow> True | Some m \<Rightarrow> gj_attempt job < m)
    \<and> generation_jobs db' = update_where (\<lambda>j. gj_id j = gj_id job)
        (\<lambda>j. j\<lparr>gj_attempt := gj_attempt j + 1, gj_error_code := None, gj_error_detail := None\<rparr>)
        (generation_jobs db)
    \<and> uuid_supply db' = uuid_supply db
    \<and> generation_job_commands db' = generation_job_commands db"
  using assms by (auto simp: retry_effect_def result_simps intro: edge_path split: if_splits option.splits)

lemma update_where_twice:
  "(\<And>x. P (f x) = P x) \<Longrightarrow> update_where P g (update_where P f xs) = update_where P (\<lambda>x. g (f x)) xs"
  by (simp add: update_where_def)

lemma log_command_Inr:
  assumes "log_command H now p i ck key reason current target db = Inr (r, db')"
  shows "generation_jobs db' = update_where (\<lambda>j. gj_id j = i) (\<lambda>j. j\<lparr>gj_state := target\<rparr>) (generation_jobs db)
    \<and> generation_job_steps db' = generation_job_steps db \<and> model_runs db' = model_runs db
    \<and> generation_job_commands db' = generation_job_commands db
        @ [command_row H p i ck key reason current target (uuid_supply db)]
    \<and> find_job (workspace_id p) i db' = Inr r \<and> uuid_supply db' = uuid_supply db + 3"
  using assms
  by (auto simp: log_command_def result_simps insert_command_def uuid4_def Let_def find_job_def
      split: if_splits)

text \<open>The two outcomes of a command: a replay (or a repeated cancellation), or a logged change.\<close>

lemma command_cases:
  assumes "command H now p i ck key reason db = Inr (r, db')"
  obtains (unchanged) "db' = db" "find_job (workspace_id p) i db = Inr r"
    | (changed) job target db1 where
        "List.find (same_command p i ck key) (generation_job_commands db) = None"
        "find_job (workspace_id p) i db = Inr job"
        "(case ck of CommandKind.CANCEL \<Rightarrow> cancel_effect now p job db
          | CommandKind.RETRY \<Rightarrow> retry_effect p job db) = Inr (target, db1)"
        "ck = CommandKind.CANCEL \<longrightarrow> gj_state job \<notin> set TERMINAL_JOB_STATES"
        "log_command H now p i ck key reason (gj_state job) target db1 = Inr (r, db')"
  using assms unfolding command_def
  by (auto simp: result_simps split: option.splits if_splits)

lemma command_moves:
  assumes ok: "jobs_ok db" and c: "command H now p i ck key reason db = Inr (r, db')"
  shows "job_moves db db'"
  using c
proof (cases rule: command_cases)
  case unchanged
  then show ?thesis by (simp add: job_moves_same)
next
  case (changed job target db1)
  have i: "i = gj_id job" using find_job_Inr [OF changed(2)] by simp
  note log = log_command_Inr [OF changed(5)]
  show ?thesis
  proof (cases ck)
    case CANCEL
    with changed(3) have e: "job_path (gj_state job) target \<and> before_approval target
        \<and> db1 = update_job (gj_id job) (\<lambda>j. j\<lparr>gj_cancel_requested_by := Some (subject_id p),
            gj_cancel_requested_at := Some now\<rparr>) db"
      using cancel_effect_Inr [of now p job db target db1] by simp
    show ?thesis
      by (rule job_moves_found [OF ok changed(2), where f =
            "\<lambda>j. j\<lparr>gj_cancel_requested_by := Some (subject_id p), gj_cancel_requested_at := Some now,
                  gj_state := target\<rparr>"])
        (use log e i in \<open>simp_all add: update_where_twice job_succ_def within_retry_limit_def
          split: option.splits\<close>)
  next
    case RETRY
    with changed(3) have e: "retry_effect p job db = Inr (target, db1)" by simp
    show ?thesis
      by (rule job_moves_found [OF ok changed(2), where f =
            "\<lambda>j. j\<lparr>gj_attempt := gj_attempt j + 1, gj_error_code := None, gj_error_detail := None,
                  gj_state := target\<rparr>"])
        (use log retry_effect_Inr [OF e] i in \<open>simp_all add: update_where_twice job_succ_def
          within_retry_limit_def before_approval_def split: option.splits\<close>)
  qed
qed

subsection \<open>Settlement\<close>

lemma find_job_cong: "generation_jobs db' = generation_jobs db \<Longrightarrow> find_job ws i db' = find_job ws i db"
  by (simp add: find_job_def)

abbreviation settleable :: "generation_job \<Rightarrow> bool" where
  "settleable j \<equiv> gj_state j \<in> set (GENERATION_SUCCESS_STATES @ GENERATION_FAILURE_STATES)"

lemma settle_cases:
  assumes "settle_generation_terminal B ws i db = Inr (r, db')"
  obtains (pending) job where "find_job ws i db = Inr job" "r = False" "db' = db" "\<not> settleable job"
    | (settled) job runs ts db1 where "find_job ws i db = Inr job" "settleable job"
        "runs = runs_of_job ws i db" "check_runs job runs = Inr ()"
        "choose_settlement job (actual_cost_of runs) (length runs) = Inr ts"
        "settle_with_gateway B ws job (actual_cost_of runs) (length runs) ts db = Inr db1"
        "r \<longleftrightarrow> prior_evidence job = JNull"
        "db' = update_job i (record_settlement (actual_cost_of runs) (length runs) ts) db1"
proof -
  obtain job where j: "find_job ws i db = Inr job"
    using assms unfolding settle_generation_terminal_def bind_result_eq_Inr by blast
  then have i: "gj_id job = i" using find_job_Inr [OF j] by simp
  show ?thesis
  proof (cases "settleable job")
    case False
    then have "r = False" "db' = db"
      using assms unfolding settle_generation_terminal_def j bind_result_Inr by simp_all
    then show ?thesis by (rule pending [OF j _ _ False])
  next
    case True
    define runs where "runs = runs_of_job ws i db"
    from True assms have "bind_result (check_runs job runs) (\<lambda>_.
        bind_result (choose_settlement job (actual_cost_of runs) (length runs)) (\<lambda>ts.
        bind_result (settle_with_gateway B ws job (actual_cost_of runs) (length runs) ts db) (\<lambda>db1.
          Inr (prior_evidence job = JNull,
            update_job i (record_settlement (actual_cost_of runs) (length runs) ts) db1))))
        = Inr (r, db')"
      unfolding settle_generation_terminal_def j bind_result_Inr Let_def runs_def i by simp
    then obtain ts db1 where "check_runs job runs = Inr ()"
      "choose_settlement job (actual_cost_of runs) (length runs) = Inr ts"
      "settle_with_gateway B ws job (actual_cost_of runs) (length runs) ts db = Inr db1"
      "r \<longleftrightarrow> prior_evidence job = JNull"
      "db' = update_job i (record_settlement (actual_cost_of runs) (length runs) ts) db1"
      unfolding bind_result_eq_Inr sum.inject prod.inject by (metis (full_types) old.unit.exhaust)
    then show ?thesis by (rule settled [OF j True runs_def])
  qed
qed

lemma settle_moves:
  assumes port: "budget_port B" and ok: "jobs_ok db"
    and s: "settle_generation_terminal B ws i db = Inr (r, db')"
  shows "job_moves db db'"
  using s
proof (cases rule: settle_cases)
  case (pending job)
  then show ?thesis by (simp add: job_moves_same)
next
  case (settled job runs ts db1)
  have frame: "same_generation db db1"
    using budget_port.settle_with_gateway_frame [OF port settled(6)] .
  have "gj_id job = i" using find_job_Inr [OF settled(1)] by simp
  then show ?thesis
    by (intro job_moves_found [OF ok settled(1),
          where f = "record_settlement (actual_cost_of runs) (length runs) ts"])
      (use frame in \<open>simp_all add: settled(8) same_generation_def job_succ_def record_settlement_def
        within_retry_limit_def split: option.splits\<close>)
qed

subsection \<open>Creation\<close>

lemma new_steps_frame:
  assumes "new_steps H ws i h m ps db = (rows, db')"
  shows "same_generation db db'"
  using assms
proof (induction ps arbitrary: rows db)
  case (Cons p ps)
  obtain rows1 db1 where "new_steps H ws i h m ps (snd (uuid4 db)) = (rows1, db1)" by fastforce
  with Cons show ?case
    by (fastforce simp: same_generation_def uuid4_def split: prod.splits)
qed (simp add: same_generation_def)

lemma boundary_queued:
  "evaluate_generation_boundary c ti src st pol = Inr b \<Longrightarrow> may_generate b \<Longrightarrow> next_state b = JobState.QUEUED"
  by (auto simp: evaluate_generation_boundary_def result_simps Let_def)

lemma insert_job_Inr:
  assumes "insert_job job steps db = Inr db'"
  shows "db' = db\<lparr>generation_jobs := generation_jobs db @ [job],
                  generation_job_steps := generation_job_steps db @ steps\<rparr>
    \<and> (case gj_max_attempts job of None \<Rightarrow> True | Some n \<Rightarrow> 0 < n)
    \<and> distinct (map (\<lambda>s. (gs_step_key s, gs_input_snapshot_hash s)) steps)
    \<and> 0 \<le> gj_estimated_cost job"
  using assms by (auto simp: insert_job_def split: if_splits)

text \<open>What a successful creation persists, as far as the job and step tables are concerned.\<close>

lemma job_content_frame:
  assumes "job_content p d ri db = Inr (c, db')"
  shows "generation_jobs db' = generation_jobs db \<and> generation_job_steps db' = generation_job_steps db
    \<and> generation_job_commands db' = generation_job_commands db \<and> model_runs db' = model_runs db
    \<and> uuid_supply db \<le> uuid_supply db'"
  using assms by (auto simp: job_content_def uuid4_def Let_def result_simps split: option.splits if_splits)

lemma persist_job_Inr:
  fixes db db' :: "'a generation_db_scheme"
  assumes "persist_job H other now p d key rh sid ri b tools auth db = Inr (r, db')"
  obtains job steps and dba dbb :: "'a generation_db_scheme" where
    "r = (job, True)" "gj_state job = next_state b" "gj_attempt job = 0"
    "gj_workspace_id job = workspace_id p"
    "gj_max_attempts job = ri_max_attempts ri" "uuid_supply db \<le> gj_id job" "Suc (gj_id job) = uuid_supply dba"
    "new_steps H (workspace_id p) (gj_id job) (ri_snapshot_hash ri) (ri_max_attempts ri)
       (plan_generation_steps other (ri_outline ri)) dba = (steps, dbb)"
    "generation_jobs db' = generation_jobs db @ [job]"
    "generation_job_steps db' = generation_job_steps db @ steps"
    "generation_job_commands db' = generation_job_commands db" "model_runs db' = model_runs db"
    "uuid_supply db' = uuid_supply dbb + 2" "uuid_supply dba \<le> uuid_supply dbb"
    "same_job_request p d key job" "gj_request_hash job = rh"
    "case ri_max_attempts ri of None \<Rightarrow> True | Some n \<Rightarrow> 0 < n"
proof -
  obtain c dbc where content: "job_content p d ri db = Inr (c, dbc)"
    using assms unfolding persist_job_def bind_result_eq_Inr by auto
  define dba where "dba = snd (uuid4 (dbc\<lparr>contents := update_where (\<lambda>x. ct_id x = ct_id c)
      (if cj_existing_content_id d = None then queue_content (next_state b) (subject_id p)
       else touch_content (queue_content (next_state b) (subject_id p))) (contents dbc)\<rparr>))"
  define job where "job = job_row (uuid_supply dbc) p d key rh (ct_id c) sid b auth (ri_max_attempts ri) tools"
  obtain steps dbb where ns: "new_steps H (workspace_id p) (gj_id job) (ri_snapshot_hash ri)
      (ri_max_attempts ri) (plan_generation_steps other (ri_outline ri)) dba = (steps, dbb)"
    by fastforce
  note fr = job_content_frame [OF content] new_steps_frame [OF ns, unfolded same_generation_def]
  obtain dbi where ins: "insert_job job steps (dbb\<lparr>input_snapshots := input_snapshots dbb
            @ [\<lparr>si_id = sid, si_workspace_id = workspace_id p, si_snapshot_hash = ri_snapshot_hash ri\<rparr>]\<rparr>)
        = Inr dbi"
    and res: "r = (job, True)" "generation_jobs db' = generation_jobs dbi"
      "generation_job_steps db' = generation_job_steps dbi"
      "generation_job_commands db' = generation_job_commands dbi" "model_runs db' = model_runs dbi"
      "uuid_supply db' = uuid_supply dbi + 2"
    using assms ns unfolding persist_job_def content bind_result_Inr prod.case
    by (auto simp: job_def dba_def uuid4_def Let_def job_row_def result_simps)
  show thesis
    by (rule that [OF res(1) _ _ _ _ _ _ ns])
      (use res fr insert_job_Inr [OF ins] in \<open>auto simp: job_def job_row_def dba_def uuid4_def same_job_request_def\<close>)
qed

lemma create_job_cases:
  assumes "create_job H other resolve B now p d key db = Inr (r, db')"
  obtains (existing) j where "List.find (same_job_request p d key) (generation_jobs db) = Some j"
      "gj_request_hash j = H (content_job_json d)" "r = (j, False)" "db' = db"
    | (created) ri b tools auth dba where
      "List.find (same_job_request p d key) (generation_jobs db) = None"
      "resolve (workspace_id p) (subject_id p) (H (content_job_json d)) d db = Inr ri"
      "evaluate_generation_boundary (cj_content_type d) (cj_type_input d) (ri_source_version_ids ri)
         (ri_approval_stages ri) (ri_safety_policy ri) = Inr b" "may_generate b"
      "checked_tools (cj_requested_tools d) (ri_allowed_tools ri) = Inr tools"
      "authorize B (workspace_id p) (subject_id p) (operation_value (cj_operation d)) (ri_snapshot_hash ri)
         (ri_model_snapshot ri) (cj_requested_limits d) key (snd (uuid4 db)) = Inr (auth, dba)"
      "persist_job H other now p d key (H (content_job_json d)) (uuid_supply db) ri b tools auth dba = Inr (r, db')"
proof (cases "List.find (same_job_request p d key) (generation_jobs db)")
  case (Some j)
  then show ?thesis using assms existing by (auto simp: create_job_def Let_def split: if_splits)
next
  case None
  from assms None show ?thesis
    unfolding create_job_def Let_def option.case bind_result_eq_Inr uuid4_def prod.case
    by (auto simp: uuid4_def result_simps split: if_splits intro: created)
qed

lemma create_moves:
  assumes port: "budget_port B" and c: "create_job H other resolve B now p d key db = Inr (r, db')"
  shows "job_moves db db'"
  using c
proof (cases rule: create_job_cases)
  case (existing j)
  then show ?thesis by (simp add: job_moves_same)
next
  case (created ri b tools auth dba)
  have fr: "same_generation (snd (uuid4 db)) dba" by (rule budget_port.authorize_frame [OF port created(6)])
  from created(7) show ?thesis
  proof (rule persist_job_Inr)
    fix job steps dbb dbc
    assume "gj_state job = next_state b" "gj_attempt job = 0" "gj_max_attempts job = ri_max_attempts ri"
      "uuid_supply dba \<le> gj_id job" "Suc (gj_id job) = uuid_supply dbb"
      "generation_jobs db' = generation_jobs dba @ [job]" "uuid_supply db' = uuid_supply dbc + 2"
      "uuid_supply dbb \<le> uuid_supply dbc" "case ri_max_attempts ri of None \<Rightarrow> True | Some n \<Rightarrow> 0 < n"
    then show ?thesis
      using fr boundary_queued [OF created(3,4)] unfolding job_moves_def
      by (intro conjI exI [of _ "generation_jobs db"] exI [of _ "[job]"])
        (auto simp: same_generation_def uuid4_def new_job_in_def before_approval_def
          within_retry_limit_def split: option.splits)
  qed
qed

end
