(* ===== verification/Generation_Pipeline.thy ===== *)
theory Generation_Pipeline
  imports Generation_Invariant
begin

text \<open>
  The run of a job through its planned steps: the plan of \<open>plan_generation_steps\<close> follows the
  transition table, each run of the job task takes exactly the next pending step, and \<open>drive\<close> repeats
  the task. \<open>completing\<close> is the executor that completes every step it is given.
\<close>

section \<open>The order of the stages\<close>

fun stages_ok :: "JobState \<Rightarrow> string list \<Rightarrow> bool" where
  "stages_ok s [] = True"
| "stages_ok s (k # ks) =
     (case step_job_state k of Inl _ \<Rightarrow> False
      | Inr t \<Rightarrow> (t = s \<or> t \<in> set (ALLOWED_JOB_TRANSITIONS s)) \<and> stages_ok t ks)"

fun stage_after :: "JobState \<Rightarrow> string list \<Rightarrow> JobState" where
  "stage_after s [] = s"
| "stage_after s (k # ks) = (case step_job_state k of Inl _ \<Rightarrow> s | Inr t \<Rightarrow> stage_after t ks)"

definition plan_kinds :: "PlannedStep list \<Rightarrow> string list" where
  "plan_kinds ps = map (\<lambda>p. step_kind_value (ps_kind p)) ps"

lemma plan_sections_kinds:
  "plan_kinds (plan_sections other secs i n) = replicate (length secs) ''GENERATE_SECTION''"
  by (induction secs arbitrary: i n) (simp_all add: plan_kinds_def)

lemma plan_kinds_append: "plan_kinds (ps @ qs) = plan_kinds ps @ plan_kinds qs"
  by (simp add: plan_kinds_def)

lemma plan_generation_kinds:
  "plan_kinds (plan_generation_steps other outline) =
     [''VALIDATE_INPUT'', ''RESEARCH'', ''PLAN_OUTLINE'']
     @ replicate (length outline) ''GENERATE_SECTION''
     @ [''VERIFY_CLAIMS'', ''VERIFY_POLICY'', ''OPTIMIZE'', ''PREPARE_REVIEW'']"
  unfolding plan_generation_steps_def Let_def plan_kinds_append plan_sections_kinds
  by (simp add: plan_kinds_def planned_def)

lemma step_job_state_simps [simp]:
  "step_job_state ''VALIDATE_INPUT'' = Inr JobState.VALIDATING"
  "step_job_state ''RESEARCH'' = Inr JobState.RESEARCHING"
  "step_job_state ''PLAN_OUTLINE'' = Inr JobState.PLANNING"
  "step_job_state ''GENERATE_SECTION'' = Inr JobState.GENERATING"
  "step_job_state ''VERIFY_CLAIMS'' = Inr JobState.VERIFYING"
  "step_job_state ''VERIFY_POLICY'' = Inr JobState.VERIFYING"
  "step_job_state ''OPTIMIZE'' = Inr JobState.OPTIMIZING"
  "step_job_state ''PREPARE_REVIEW'' = Inr JobState.OPTIMIZING"
  by (simp_all add: step_job_state_def)

lemma generate_stages [simp]:
  "stages_ok JobState.GENERATING (replicate n ''GENERATE_SECTION'' @ ks) = stages_ok JobState.GENERATING ks"
  "stage_after JobState.GENERATING (replicate n ''GENERATE_SECTION'' @ ks)
     = stage_after JobState.GENERATING ks"
  by (induction n) simp_all

text \<open>The plan of a non-empty outline follows the table from \<open>QUEUED\<close>; that of an empty outline does
  not, because \<open>PLANNING\<close> has no edge to \<open>VERIFYING\<close>.\<close>

lemma plan_stages:
  "stages_ok JobState.QUEUED (plan_kinds (plan_generation_steps other outline)) \<longleftrightarrow> outline \<noteq> []"
  "outline \<noteq> [] \<Longrightarrow>
   stage_after JobState.QUEUED (plan_kinds (plan_generation_steps other outline)) = JobState.OPTIMIZING"
  by (cases outline; simp add: plan_generation_kinds)+

section \<open>The pending steps of a job\<close>

definition step_order :: "generation_job_step \<Rightarrow> nat \<times> uuid" where
  "step_order s = (gs_ordinal s, gs_id s)"

definition pending_list :: "uuid \<Rightarrow> uuid \<Rightarrow> 'a generation_db_scheme \<Rightarrow> generation_job_step list" where
  "pending_list ws i db = sort_key step_order (filter (pending_step ws i) (generation_job_steps db))"

lemma next_pending: "next_pending_step (\<lambda>_. False) ws i db =
    (case pending_list ws i db of [] \<Rightarrow> None | s # _ \<Rightarrow> Some s)"
  by (simp add: next_pending_step_def pending_list_def step_order_def [abs_def])

lemma filter_pending_update:
  "(\<And>x. \<not> pending_step ws i (f x)) \<Longrightarrow>
   filter (pending_step ws i) (update_where (\<lambda>s. gs_id s = k) f xs)
   = filter (\<lambda>s. gs_id s \<noteq> k) (filter (pending_step ws i) xs)"
  by (induction xs) auto

definition steps_ok :: "'a generation_db_scheme \<Rightarrow> bool" where
  "steps_ok db \<longleftrightarrow> distinct (map gs_id (generation_job_steps db))
     \<and> list_all (\<lambda>s. gs_id s < uuid_supply db \<and> gs_job_id s < uuid_supply db) (generation_job_steps db)"

lemma pending_in_table: "s \<in> set (pending_list ws i db) \<Longrightarrow>
   s \<in> set (generation_job_steps db) \<and> pending_step ws i s"
  by (simp add: pending_list_def)

lemma pending_distinct: "steps_ok db \<Longrightarrow> distinct (map gs_id (pending_list ws i db))"
  by (simp add: steps_ok_def pending_list_def distinct_map_filter)

section \<open>One run of the task\<close>

definition completing ::
  "hash_fn \<Rightarrow> time \<Rightarrow> 'a generation_db_scheme step_executor" where
  "completing H now ws i k kind_text db =
     bind_result (complete_step H now ws i k [(''done'', JBool True)] None db) (\<lambda>(_, db). Inr db)"

lemma find_step_row:
  assumes "steps_ok db" and "s \<in> set (generation_job_steps db)" and "pending_step ws i s"
  shows "find_step ws i (gs_id s) (update_job j g (update_steps (\<lambda>x. gs_id x = gs_id s) (start_step now) db))
    = Inr (start_step now s)"
proof -
  let ?P = "\<lambda>x. gs_workspace_id x = ws \<and> gs_job_id x = i \<and> gs_id x = gs_id s"
  have "List.find ?P (generation_job_steps db) = Some s"
  proof (cases "List.find ?P (generation_job_steps db)")
    case None
    then show ?thesis using assms(2,3) by (auto simp: find_None_iff pending_step_def)
  next
    case (Some x)
    then have "x = s"
      using assms(1,2) by (auto simp: steps_ok_def dest!: find_SomeD intro: distinct_key_eq [of gs_id])
    with Some show ?thesis by simp
  qed
  then show ?thesis
    by (simp add: find_step_def find_update_where start_step_def)
qed

lemma find_job_update_state:
  assumes "find_job ws i db = Inr job" and "\<And>x. gj_id (g x) = gj_id x \<and> gj_workspace_id (g x) = gj_workspace_id x"
    and "generation_jobs db' = update_where (\<lambda>j. gj_id j = i) g (generation_jobs db)"
  shows "find_job ws i db' = Inr (g job)"
  using assms by (auto simp: find_job_def find_update_where split: option.splits dest: find_SomeD)

lemma not_settleable:
  "t \<notin> set (GENERATION_SUCCESS_STATES @ GENERATION_FAILURE_STATES) \<Longrightarrow> find_job ws i db = Inr job \<Longrightarrow>
   gj_state job = t \<Longrightarrow> settle_and_report B ws i again db = Inr ((t, again t), db)"
  by (simp add: settle_and_report_def settle_generation_terminal_def)

abbreviation stage_state :: "JobState \<Rightarrow> bool" where
  "stage_state t \<equiv> t \<in> {JobState.VALIDATING, JobState.RESEARCHING, JobState.PLANNING,
     JobState.GENERATING, JobState.VERIFYING, JobState.OPTIMIZING}"

text \<open>The task claims the first pending step, moves the job to its stage, and completes it.\<close>

lemma run_job_one:
  assumes ok: "steps_ok db" and job: "find_job ws i db = Inr job"
    and active: "gj_state job \<in> {JobState.QUEUED} \<or> stage_state (gj_state job)"
    and pend: "pending_list ws i db = s # rest"
    and stage: "step_job_state (gs_step_kind s) = Inr t"
    and edge: "t = gj_state job \<or> t \<in> set (ALLOWED_JOB_TRANSITIONS (gj_state job))"
  shows "\<exists>db'. run_job H B (Some (completing H now)) now (\<lambda>_. False) ws i db = Inr ((t, True), db')
    \<and> steps_ok db' \<and> find_job ws i db' = Inr (enter_stage now t job) \<and> pending_list ws i db' = rest
    \<and> (\<exists>g. generation_job_steps db' = update_where (\<lambda>x. gs_id x = gs_id s) g (generation_job_steps db)
          \<and> (\<forall>x. gs_id (g x) = gs_id x \<and> gs_workspace_id (g x) = gs_workspace_id x
               \<and> gs_job_id (g x) = gs_job_id x \<and> gs_state (g x) = StepState.SUCCEEDED))"
proof -
  have id: "gj_id job = i" using find_job_Inr [OF job] by simp
  define outcome where "outcome = (if gs_step_kind s = ''VALIDATE_INPUT''
    then [(''validated'', JBool True)] else [(''done'', JBool True)])"
  define g where "g = (\<lambda>x. finish_step H now outcome None (start_step now x))"
  define db1 where "db1 = update_job i (enter_stage now t)
      (update_steps (\<lambda>x. gs_id x = gs_id s) (start_step now) db)"
  define db2 where "db2 = update_steps (\<lambda>x. gs_id x = gs_id s) (finish_step H now outcome None) db1"
  have s: "s \<in> set (generation_job_steps db)" "pending_step ws i s"
    using pending_in_table [of s ws i db] pend by auto
  have claim: "claim_next_step now (\<lambda>_. False) ws i db = Inr (Some (start_step now s), db1)"
    using active edge stage
    by (auto simp: claim_next_step_def job id next_pending pend db1_def job.ens_iff TERMINAL_JOB_STATES_def
        ensure_job_transition_def)
  have complete: "complete_step H now ws i (gs_id s) outcome None db1 = Inr (finish_step H now outcome None (start_step now s), db2)"
    using find_step_row [OF ok s, of i "enter_stage now t"]
    by (simp add: complete_step_def db1_def db2_def) (simp add: start_step_def)
  have steps2: "generation_job_steps db2 = update_where (\<lambda>x. gs_id x = gs_id s) g (generation_job_steps db)"
    by (simp add: db2_def db1_def update_where_twice start_step_def g_def)
  have g: "gs_id (g x) = gs_id x \<and> gs_workspace_id (g x) = gs_workspace_id x
      \<and> gs_job_id (g x) = gs_job_id x \<and> gs_state (g x) = StepState.SUCCEEDED" for x
    by (simp add: g_def finish_step_def start_step_def)
  have job2: "find_job ws i db2 = Inr (enter_stage now t job)"
  proof (rule find_job_update_state [OF job, where g = "enter_stage now t"])
    show "gj_id (enter_stage now t x) = gj_id x \<and> gj_workspace_id (enter_stage now t x) = gj_workspace_id x"
      for x by (simp add: enter_stage_def)
    show "generation_jobs db2 = update_where (\<lambda>j. gj_id j = i) (enter_stage now t) (generation_jobs db)"
      by (simp add: db2_def db1_def)
  qed
  have ok2: "steps_ok db2"
    using ok g unfolding steps_ok_def steps2
    by (auto simp: map_update_where list_all_iff set_update_where db2_def db1_def)
  have rest: "pending_list ws i db2 = rest"
  proof -
    have "pending_list ws i db2 = filter (\<lambda>x. gs_id x \<noteq> gs_id s) (pending_list ws i db)"
      unfolding pending_list_def steps2
      by (subst filter_pending_update) (simp_all add: g pending_step_def filter_sort)
    also have "\<dots> = rest"
      using pending_distinct [OF ok, of ws i] by (simp add: pend filter_id_conv) (metis imageI)
    finally show ?thesis .
  qed
  have t: "stage_state t" using step_job_state_values [OF stage] by simp
  have report: "settle_and_report B ws i again db2 = Inr ((t, again t), db2)" for again
    by (rule not_settleable [OF _ job2])
      (use t in \<open>auto simp: enter_stage_def GENERATION_SUCCESS_STATES_def GENERATION_FAILURE_STATES_def\<close>)
  have "run_job H B (Some (completing H now)) now (\<lambda>_. False) ws i db = Inr ((t, True), db2)"
    using complete t
    by (auto simp: run_job_def claim completing_def report start_step_def outcome_def)
  then show ?thesis using ok2 job2 rest steps2 g by blast
qed


end
