(* ===== verification/Text_Parse.thy ===== *)
theory Text_Parse
  imports Text_Util
begin

text \<open>
  Parsing of text by the Python standard library: \<open>Decimal(s)\<close>, \<open>UUID(s)\<close> and \<open>str.upper\<close>, on the
  8-bit strings of \<^verbatim>\<open>Text_Util\<close>. Results are options: \<open>None\<close> is the exception of a malformed
  string.

  Of the forms \<open>int(s, 16)\<close> accepts, \<open>UUID\<close> is given only plain hexadecimal digits here: a sign,
  an underscore or a prefix inside the 32 characters counts as malformed.
\<close>

definition upper_char :: "char \<Rightarrow> char" where
  "upper_char c = (if is_lower c then char_of (char_code c - 32) else c)"

definition upper :: "string \<Rightarrow> string" where
  "upper s = map upper_char s"

section \<open>Decimal\<close>

definition digit_val :: "char \<Rightarrow> nat" where
  "digit_val c = char_code c - 48"

definition split_sign :: "string \<Rightarrow> bool \<times> string" where
  "split_sign s =
     (case s of [] \<Rightarrow> (False, [])
      | c # r \<Rightarrow> if c = CHR ''-'' then (True, r) else if c = CHR ''+'' then (False, r) else (False, s))"

definition nat_of_digits :: "string \<Rightarrow> nat" where
  "nat_of_digits = foldl (\<lambda>a c. 10 * a + digit_val c) 0"

text \<open>Digits with an optional point and an optional exponent.\<close>

definition parse_unsigned :: "string \<Rightarrow> rat option" where
  "parse_unsigned s =
     (let whole = takeWhile is_digit s; r = dropWhile is_digit s;
          (frac, r) = (case r of [] \<Rightarrow> ([], [])
             | c # t \<Rightarrow> if c = CHR ''.'' then (takeWhile is_digit t, dropWhile is_digit t) else ([], r));
          mant = (of_nat (nat_of_digits (whole @ frac)) :: rat) / 10 ^ length frac
      in if whole = [] \<and> frac = [] then None
         else case r of
             [] \<Rightarrow> Some mant
           | c # t \<Rightarrow>
               if c \<noteq> CHR ''e'' \<and> c \<noteq> CHR ''E'' then None
               else let (neg, ds) = split_sign t
                    in if ds = [] \<or> \<not> list_all is_digit ds then None
                       else if neg then Some (mant / 10 ^ nat_of_digits ds)
                       else Some (mant * 10 ^ nat_of_digits ds))"

definition parse_decimal :: "string \<Rightarrow> decimal option" where
  "parse_decimal s =
     (let t = filter (\<lambda>c. c \<noteq> CHR ''_'') (strip s);
          (neg, u) = split_sign t;
          l = lower u
      in if l = ''inf'' \<or> l = ''infinity'' then Some (if neg then NegInfinity else PosInfinity)
         else if (take 3 l = ''nan'' \<and> list_all is_digit (drop 3 l))
              \<or> (take 4 l = ''snan'' \<and> list_all is_digit (drop 4 l)) then Some NaN
         else map_option (\<lambda>r. Finite (if neg then - r else r)) (parse_unsigned u))"

section \<open>UUID\<close>

fun remove_sub :: "nat \<Rightarrow> string \<Rightarrow> string \<Rightarrow> string" where
  "remove_sub 0 pat s = s"
| "remove_sub (Suc k) pat s =
     (case s of [] \<Rightarrow> []
      | c # r \<Rightarrow> if pat \<noteq> [] \<and> take (length pat) s = pat
                then remove_sub k pat (drop (length pat) s)
                else c # remove_sub k pat r)"

definition replace_empty :: "string \<Rightarrow> string \<Rightarrow> string" where
  "replace_empty pat s = remove_sub (length s) pat s"

definition hex_value :: "char \<Rightarrow> nat option" where
  "hex_value c =
     (let n = char_code c in
      if 48 \<le> n \<and> n \<le> 57 then Some (n - 48)
      else if 97 \<le> n \<and> n \<le> 102 then Some (n - 87)
      else if 65 \<le> n \<and> n \<le> 70 then Some (n - 55)
      else None)"

fun hex_number :: "nat \<Rightarrow> string \<Rightarrow> nat option" where
  "hex_number acc [] = Some acc"
| "hex_number acc (c # s) =
     (case hex_value c of None \<Rightarrow> None | Some d \<Rightarrow> hex_number (16 * acc + d) s)"

definition parse_uuid :: "string \<Rightarrow> uuid option" where
  "parse_uuid s =
     (let h = replace_empty ''uuid:'' (replace_empty ''urn:'' s);
          h = rstrip (\<lambda>c. c \<in> set ''{}'') (lstrip (\<lambda>c. c \<in> set ''{}'') h);
          h = filter (\<lambda>c. c \<noteq> CHR ''-'') h
      in if length h \<noteq> 32 then None else hex_number 0 h)"

subsection \<open>Reading back the canonical form\<close>

lemma hex_value_digit [simp]: "d < 16 \<Longrightarrow> hex_value (hex_digit d) = Some d"
  by (auto simp: hex_value_def hex_digit_def char_code_def of_char_of Let_def)

lemma hex_number_append:
  "hex_number acc (s @ t) = Option.bind (hex_number acc s) (\<lambda>n. hex_number n t)"
  by (induction s arbitrary: acc) (auto split: option.splits)

lemma hex_number_digits: "hex_number acc (hex_digits k n) = Some (acc * 16 ^ k + n mod 16 ^ k)"
proof (induction k arbitrary: n)
  case (Suc k)
  have "n mod 16 ^ Suc k = 16 * (n div 16 mod 16 ^ k) + n mod 16"
    by (simp add: mod_mult2_eq)
  then show ?case using Suc by (simp add: hex_number_append algebra_simps)
qed simp

lemma hex_digits_chars: "c \<in> set (hex_digits k n) \<Longrightarrow> hex_value c \<noteq> None"
  by (induction k arbitrary: n) auto

lemma remove_sub_absent: "p \<notin> set s \<Longrightarrow> remove_sub k (p # ps) s = s"
  by (induction k arbitrary: s) (auto split: list.splits)

lemma filter_dropWhile_none: "(\<And>c. c \<in> set s \<Longrightarrow> \<not> P c) \<Longrightarrow> dropWhile P s = s"
  by (cases s) auto

lemma set_uuid_str: "set (uuid_str u) \<subseteq> insert CHR ''-'' (set (hex_digits 32 u))"
  by (auto simp: uuid_str_def Let_def dest!: in_set_takeD in_set_dropD)

lemma uuid_str_chars: "c \<in> set (uuid_str u) \<Longrightarrow> c = CHR ''-'' \<or> hex_value c \<noteq> None"
  using set_uuid_str hex_digits_chars by fastforce

lemma uuid_groups:
  "take 8 h @ take 4 (drop 8 h) @ take 4 (drop 12 h) @ take 4 (drop 16 h) @ drop 20 h = h"
proof -
  have "drop 20 h = drop 4 (drop 16 h)" "drop 16 h = drop 4 (drop 12 h)" "drop 12 h = drop 4 (drop 8 h)"
    by simp_all
  then show ?thesis by (metis append_take_drop_id)
qed

lemma filter_uuid_str: "filter (\<lambda>c. c \<noteq> CHR ''-'') (uuid_str u) = hex_digits 32 u"
proof -
  define h where "h = hex_digits 32 u"
  have "c \<noteq> CHR ''-''" if "c \<in> set h" for c
    using hex_digits_chars [OF that [unfolded h_def]] by (auto simp: hex_value_def char_code_def)
  then have keep: "filter (\<lambda>c. c \<noteq> CHR ''-'') s = s" if "set s \<subseteq> set h" for s
    using that by (intro filter_True) auto
  have parts: "set (take m (drop n h)) \<subseteq> set h" "set (drop n h) \<subseteq> set h" "set (take m h) \<subseteq> set h"
    for m n by (auto dest: in_set_takeD in_set_dropD)
  have "filter (\<lambda>c. c \<noteq> CHR ''-'') (uuid_str u)
        = take 8 h @ take 4 (drop 8 h) @ take 4 (drop 12 h) @ take 4 (drop 16 h) @ drop 20 h"
    unfolding uuid_str_def Let_def h_def [symmetric] filter_append
    by (simp add: keep parts)
  then show ?thesis by (simp add: uuid_groups h_def)
qed

text \<open>\<open>UUID(str(u))\<close> is \<open>u\<close>.\<close>

lemma parse_uuid_str: "u < 16 ^ 32 \<Longrightarrow> parse_uuid (uuid_str u) = Some u"
proof -
  assume u: "u < 16 ^ 32"
  have "CHR ''u'' \<notin> set (uuid_str u)"
    using uuid_str_chars [of "CHR ''u''" u] by (auto simp: hex_value_def char_code_def)
  then have "replace_empty ''uuid:'' (replace_empty ''urn:'' (uuid_str u)) = uuid_str u"
    by (simp add: replace_empty_def remove_sub_absent)
  moreover have "c \<notin> set ''{}''" if "c \<in> set (uuid_str u)" for c
    using uuid_str_chars [OF that] by (auto simp: hex_value_def char_code_def)
  then have "rstrip (\<lambda>c. c \<in> set ''{}'') (lstrip (\<lambda>c. c \<in> set ''{}'') (uuid_str u)) = uuid_str u"
    unfolding lstrip_def rstrip_def by (subst (1 2) filter_dropWhile_none) simp_all
  ultimately show ?thesis
    using u by (simp add: parse_uuid_def filter_uuid_str hex_number_digits)
qed

end
