(* ===== verification/Budget_Resolver.thy ===== *)
theory Budget_Resolver
  imports Billing_Ledger Text_Parse
begin

text \<open>
  \<open>DatabaseBudgetAuthorizationResolver\<close> and \<open>DatabasePublishingEntitlementResolver\<close> of
  \<^verbatim>\<open>domain/billing/adapters.py\<close>: what a paid job may cost, from the subscription, the plan version,
  the pinned entitlement snapshot and the pinned price version of the workspace.

  \<open>budget_catalog\<close> holds the two tables only these resolvers read. \<open>other\<close> is the text of a float in
  \<open>str(value)\<close>. A JSON policy that is not an object where the code calls \<open>.get\<close> on it raises
  (\<open>TypeError\<close> here). Decimals written as text into a snapshot are kept as numbers (\<open>JDec\<close>).
\<close>

section \<open>Rows\<close>

record billing_subscription =
  sb_id :: uuid
  sb_workspace_id :: uuid
  sb_plan_version_id :: uuid
  sb_billing_cycle :: BillingCycle
  sb_state :: SubscriptionState
  sb_provider :: "string option"
  sb_provider_customer_ref :: "string option"
  sb_provider_subscription_ref :: "string option"
  sb_current_period_start :: "time option"
  sb_current_period_end :: "time option"
  sb_trial_started_at :: "time option"
  sb_trial_ends_at :: "time option"
  sb_cancel_at_period_end :: bool
  sb_scheduled_plan_version_id :: "uuid option"
  sb_scheduled_change_at :: "time option"
  sb_dunning_policy_snapshot :: json
  sb_entitlement_snapshot_id :: "uuid option"

record entitlement_snapshot =
  en_id :: uuid
  en_workspace_id :: uuid
  en_plan_version_id :: uuid
  en_addon_refs :: "string list"
  en_contract_ref :: "string option"
  en_entitlements :: json
  en_snapshot_hash :: string
  en_valid_from :: time
  en_valid_until :: "time option"
  en_created_by :: uuid

record budget_catalog =
  subscriptions :: "billing_subscription list"
  entitlement_snapshots :: "entitlement_snapshot list"

primrec subscription_state_value :: "SubscriptionState \<Rightarrow> string" where
  "subscription_state_value SubscriptionState.PENDING_PROVIDER = ''PENDING_PROVIDER''"
| "subscription_state_value SubscriptionState.TRIALING = ''TRIALING''"
| "subscription_state_value SubscriptionState.ACTIVE = ''ACTIVE''"
| "subscription_state_value SubscriptionState.PAST_DUE = ''PAST_DUE''"
| "subscription_state_value SubscriptionState.GRACE_PERIOD = ''GRACE_PERIOD''"
| "subscription_state_value SubscriptionState.CANCELLATION_SCHEDULED = ''CANCELLATION_SCHEDULED''"
| "subscription_state_value SubscriptionState.CANCELLED = ''CANCELLED''"
| "subscription_state_value SubscriptionState.SUSPENDED = ''SUSPENDED''"

definition BUDGET_POLICY_SCHEMA_VERSION :: int where
  "BUDGET_POLICY_SCHEMA_VERSION = 1"

definition MAX_HOLD_TTL_SECONDS :: int where
  "MAX_HOLD_TTL_SECONDS = 7 * 24 * 60 * 60"

definition MAX_LEDGER_AMOUNT :: rat where
  "MAX_LEDGER_AMOUNT = 10000000000000"

definition BUDGET_CAPABLE_SUBSCRIPTION_STATES :: "string list" where
  "BUDGET_CAPABLE_SUBSCRIPTION_STATES =
     map subscription_state_value
       [SubscriptionState.ACTIVE, SubscriptionState.CANCELLATION_SCHEDULED,
        SubscriptionState.TRIALING]"

section \<open>Checked reading of policies and requests\<close>

definition budget_configuration_error :: "string \<Rightarrow> string \<Rightarrow> error" where
  "budget_configuration_error path reason =
     AppError ''BILLING_BUDGET_POLICY_UNAVAILABLE'' 503 [(path, reason)] None"

definition required_mapping :: "json \<Rightarrow> string \<Rightarrow> (string \<times> json) list result" where
  "required_mapping v path =
     (case v of JDict d \<Rightarrow> Inr d | _ \<Rightarrow> Inl (budget_configuration_error path ''object required''))"

definition required_positive_decimal :: "(json \<Rightarrow> string) \<Rightarrow> json \<Rightarrow> string \<Rightarrow> rat result" where
  "required_positive_decimal other v path =
     (case v of
        JBool _ \<Rightarrow> Inl (budget_configuration_error path ''positive decimal required'')
      | _ \<Rightarrow> (case parse_decimal (py_str other v) of
            None \<Rightarrow> Inl (budget_configuration_error path ''positive decimal required'')
          | Some (Finite r) \<Rightarrow>
              if r \<le> 0 then Inl (budget_configuration_error path ''positive finite decimal required'')
              else Inr r
          | Some _ \<Rightarrow> Inl (budget_configuration_error path ''positive finite decimal required'')))"

definition requested_positive_decimal :: "(json \<Rightarrow> string) \<Rightarrow> json \<Rightarrow> string \<Rightarrow> rat result" where
  "requested_positive_decimal other v path =
     (let bad = AppError ''BILLING_BUDGET_REQUEST_INVALID'' 422
                  [(path, ''positive finite decimal required'')] None
      in case v of
           JBool _ \<Rightarrow> Inl bad
         | _ \<Rightarrow> (case parse_decimal (py_str other v) of
               Some (Finite r) \<Rightarrow> if r \<le> 0 then Inl bad else Inr r
             | _ \<Rightarrow> Inl bad))"

definition requested_mapping :: "json \<Rightarrow> string \<Rightarrow> (string \<times> json) list result" where
  "requested_mapping v path =
     (case v of JDict d \<Rightarrow> Inr d
      | _ \<Rightarrow> Inl (AppError ''BILLING_BUDGET_REQUEST_INVALID'' 422 [(path, ''object required'')] None))"

definition required_uuid :: "(json \<Rightarrow> string) \<Rightarrow> json \<Rightarrow> string \<Rightarrow> uuid result" where
  "required_uuid other v path =
     (case parse_uuid (py_str other v) of
        None \<Rightarrow> Inl (budget_configuration_error path ''UUID required'') | Some u \<Rightarrow> Inr u)"

definition required_hold_ttl :: "json \<Rightarrow> int result" where
  "required_hold_ttl v =
     (let path = ''credit_policy.job_budget_authorization.hold_ttl_seconds''
      in case v of
           JInt n \<Rightarrow>
             if n \<le> 0 \<or> MAX_HOLD_TTL_SECONDS < n
             then Inl (budget_configuration_error path
                    (''must be between 1 and '' @ int_str MAX_HOLD_TTL_SECONDS))
             else Inr n
         | _ \<Rightarrow> Inl (budget_configuration_error path ''integer required''))"

text \<open>Attribute access \<open>.get\<close> on a JSON column.\<close>

definition as_dict :: "json \<Rightarrow> (string \<times> json) list result" where
  "as_dict v = (case v of JDict d \<Rightarrow> Inr d | _ \<Rightarrow> Inl TypeError)"

section \<open>The authorization\<close>

record billing_authorization =
  bz_price_version_id :: uuid
  bz_maximum_credit_amount :: rat
  bz_authorized_cost :: rat
  bz_currency :: string
  bz_hold_expires_at :: time
  bz_entitlement_snapshot :: "(string \<times> json) list"
  bz_policy_snapshot :: "(string \<times> json) list"

definition validate_request ::
  "decimal \<Rightarrow> decimal option \<Rightarrow> string \<Rightarrow> (rat \<times> rat \<times> string) result" where
  "validate_request estimated_cost requested_maximum_cost currency =
     (case (estimated_cost, requested_maximum_cost) of
        (Finite e, Some (Finite m)) \<Rightarrow>
          if e \<le> 0 \<or> m \<le> 0 \<or> m < e then Inl (app_error ''BILLING_BUDGET_REQUEST_INVALID'' 422)
          else let normalized = upper (strip currency)
               in if currency \<noteq> normalized \<or> length normalized \<noteq> 3 \<or> \<not> list_all is_alpha normalized
                  then Inl (app_error ''BILLING_COST_CURRENCY_INVALID'' 422)
                  else Inr (e, m, normalized)
      | _ \<Rightarrow> Inl (app_error ''BILLING_BUDGET_REQUEST_INVALID'' 422))"

definition subscription_deadline :: "billing_subscription \<Rightarrow> time \<Rightarrow> time result" where
  "subscription_deadline s now =
     (let starts_at = (if sb_state s = SubscriptionState.TRIALING then sb_trial_started_at s
                       else sb_current_period_start s);
          ends_at = (if sb_state s = SubscriptionState.TRIALING then sb_trial_ends_at s
                     else sb_current_period_end s);
          inactive = app_error ''BILLING_SUBSCRIPTION_PERIOD_INACTIVE'' 402
      in case (starts_at, ends_at) of
           (Some a, Some b) \<Rightarrow> if a \<le> now \<and> now < b then Inr b else Inl inactive
         | _ \<Rightarrow> Inl inactive)"

record operation_policy =
  op_operation :: "(string \<times> json) list"
  op_entitlement :: "(string \<times> json) list"
  op_hold_ttl :: int
  op_allowed_states :: "string list"

fun string_items :: "json list \<Rightarrow> string list option" where
  "string_items [] = Some []"
| "string_items (v # vs) =
     (case v of JStr s \<Rightarrow> map_option ((#) s) (string_items vs) | _ \<Rightarrow> None)"

definition allowed_states_of :: "json \<Rightarrow> string \<Rightarrow> string list result" where
  "allowed_states_of v path =
     (let bad = budget_configuration_error path ''non-empty safe subscription-state list required''
      in case v of
           JList vs \<Rightarrow> (case string_items vs of
               Some ss \<Rightarrow>
                 if ss = [] \<or> \<not> set ss \<subseteq> set BUDGET_CAPABLE_SUBSCRIPTION_STATES then Inl bad else Inr ss
             | None \<Rightarrow> Inl bad)
         | _ \<Rightarrow> Inl bad)"

definition read_operation_policy ::
  "billing_plan_version \<Rightarrow> entitlement_snapshot \<Rightarrow> string \<Rightarrow> string \<Rightarrow> operation_policy result" where
  "read_operation_policy plan ent kind_text currency =
     (let root_path = ''credit_policy.job_budget_authorization'';
          ent_path = ''entitlements.job_budget_operations.'' @ kind_text in
      bind_result (as_dict (pl_credit_policy plan)) (\<lambda>policy.
      bind_result (required_mapping (dict_get policy ''job_budget_authorization'') root_path) (\<lambda>root.
      if dict_get root ''schema_version'' \<noteq> JInt BUDGET_POLICY_SCHEMA_VERSION
      then Inl (budget_configuration_error (root_path @ ''.schema_version'')
             (''must equal '' @ int_str BUDGET_POLICY_SCHEMA_VERSION))
      else
      bind_result (allowed_states_of (dict_get root ''allowed_subscription_states'')
                     (root_path @ ''.allowed_subscription_states'')) (\<lambda>states.
      bind_result (required_mapping (dict_get root ''operations'') (root_path @ ''.operations'')) (\<lambda>ops.
      bind_result (required_mapping (dict_get ops kind_text)
                     (root_path @ ''.operations.'' @ kind_text)) (\<lambda>operation.
      bind_result (as_dict (en_entitlements ent)) (\<lambda>ents.
      bind_result (required_mapping (dict_get ents ''job_budget_operations'')
                     ''entitlements.job_budget_operations'') (\<lambda>eops.
      bind_result (required_mapping (dict_get eops kind_text) ent_path) (\<lambda>eop.
      if dict_get operation ''enabled'' \<noteq> JBool True
      then Inl (app_error ''BILLING_OPERATION_DISABLED'' 403)
      else if dict_get eop ''enabled'' \<noteq> JBool True
      then Inl (app_error ''BILLING_OPERATION_NOT_ENTITLED'' 403)
      else if dict_get operation ''currency'' \<noteq> JStr currency
      then Inl (budget_configuration_error (root_path @ ''.operations.'' @ kind_text @ ''.currency'')
             (''must equal '' @ currency))
      else if dict_get eop ''currency'' \<noteq> JStr currency
      then Inl (budget_configuration_error (ent_path @ ''.currency'') (''must equal '' @ currency))
      else bind_result (required_hold_ttl (dict_get root ''hold_ttl_seconds'')) (\<lambda>ttl.
        Inr \<lparr>op_operation = operation, op_entitlement = eop, op_hold_ttl = ttl,
             op_allowed_states = states\<rparr>))))))))))"

text \<open>The plan version a subscription pins, if the workspace may see it.\<close>

definition visible_to :: "uuid \<Rightarrow> uuid option \<Rightarrow> bool" where
  "visible_to ws owner \<longleftrightarrow> owner = None \<or> owner = Some ws"

definition find_subscription :: "uuid \<Rightarrow> budget_catalog \<Rightarrow> billing_subscription option" where
  "find_subscription ws cat = List.find (\<lambda>s. sb_workspace_id s = ws) (subscriptions cat)"

definition find_plan :: "uuid \<Rightarrow> uuid \<Rightarrow> billing_db \<Rightarrow> billing_plan_version option" where
  "find_plan ws plan_id db =
     (case List.find (\<lambda>v. pl_id v = plan_id) (plan_versions db) of
        None \<Rightarrow> None | Some v \<Rightarrow> if visible_to ws (pl_workspace_id v) then Some v else None)"

definition find_entitlement :: "uuid \<Rightarrow> uuid \<Rightarrow> uuid \<Rightarrow> budget_catalog \<Rightarrow> entitlement_snapshot option" where
  "find_entitlement ws ent_id plan_id cat =
     (case List.find (\<lambda>e. en_workspace_id e = ws \<and> en_id e = ent_id) (entitlement_snapshots cat) of
        None \<Rightarrow> None | Some e \<Rightarrow> if en_plan_version_id e = plan_id then Some e else None)"

definition entitlement_active :: "entitlement_snapshot \<Rightarrow> time \<Rightarrow> bool" where
  "entitlement_active e now \<longleftrightarrow>
     en_valid_from e \<le> now \<and> (case en_valid_until e of None \<Rightarrow> True | Some t \<Rightarrow> now < t)"

definition plan_effective :: "billing_plan_version \<Rightarrow> time \<Rightarrow> bool result" where
  "plan_effective v now =
     pricing_is_effective (pl_state v) (Aware (pl_effective_at v)) (map_option Aware (pl_retired_at v))
       (Aware now)"

definition price_effective :: "billing_price_version \<Rightarrow> time \<Rightarrow> bool result" where
  "price_effective v now =
     pricing_is_effective (pv_state v) (Aware (pv_effective_at v)) (map_option Aware (pv_retired_at v))
       (Aware now)"

text \<open>The subscription of the workspace with its active plan and entitlement.\<close>

definition resolve_subscription ::
  "budget_catalog \<Rightarrow> time \<Rightarrow> uuid \<Rightarrow> billing_db
   \<Rightarrow> (billing_subscription \<times> billing_plan_version \<times> entitlement_snapshot) result" where
  "resolve_subscription cat now ws db =
     (case find_subscription ws cat of
        None \<Rightarrow> Inl (app_error ''BILLING_SUBSCRIPTION_REQUIRED'' 402)
      | Some sub \<Rightarrow>
      (case find_plan ws (sb_plan_version_id sub) db of
        None \<Rightarrow> Inl (budget_configuration_error ''subscription.plan_version_id''
                      ''workspace-visible plan version required'')
      | Some plan \<Rightarrow>
      bind_result (plan_effective plan now) (\<lambda>effective.
      if \<not> effective then Inl (app_error ''BILLING_PLAN_VERSION_INACTIVE'' 402)
      else (case sb_entitlement_snapshot_id sub of
        None \<Rightarrow> Inl (budget_configuration_error ''subscription.entitlement_snapshot_id''
                      ''pinned entitlement snapshot required'')
      | Some ent_id \<Rightarrow>
      (case find_entitlement ws ent_id (pl_id plan) cat of
        None \<Rightarrow> Inl (budget_configuration_error ''subscription.entitlement_snapshot_id''
                      ''matching plan entitlement snapshot required'')
      | Some ent \<Rightarrow>
          if \<not> entitlement_active ent now then Inl (app_error ''BILLING_ENTITLEMENT_INACTIVE'' 403)
          else Inr (sub, plan, ent))))))"

text \<open>The pinned price, checked against the operation's policy, and the credits the maximum cost
  converts to.\<close>

definition resolve_price ::
  "(json \<Rightarrow> string) \<Rightarrow> time \<Rightarrow> uuid \<Rightarrow> string \<Rightarrow> string \<Rightarrow> operation_policy \<Rightarrow> rat \<Rightarrow> billing_db
   \<Rightarrow> (billing_price_version \<times> rat) result" where
  "resolve_price other now ws kind_text currency pol maximum_cost db =
     bind_result (required_uuid other (dict_get (op_operation pol) ''price_version_id'')
       (''credit_policy.job_budget_authorization.operations.'' @ kind_text @ ''.price_version_id''))
       (\<lambda>price_id.
     case List.find (\<lambda>v. pv_id v = price_id) (price_versions db) of
       None \<Rightarrow> Inl (budget_configuration_error
                ''credit_policy.job_budget_authorization.operations.price_version_id''
                ''workspace-visible price version required'')
     | Some price \<Rightarrow>
       if \<not> visible_to ws (pv_workspace_id price)
       then Inl (budget_configuration_error
              ''credit_policy.job_budget_authorization.operations.price_version_id''
              ''workspace-visible price version required'')
       else bind_result (price_effective price now) (\<lambda>effective.
       if \<not> effective then Inl (app_error ''PRICING_VERSION_INACTIVE'' 409)
       else if dict_get (op_operation pol) ''metric_key'' \<noteq> JStr (pv_metric_key price)
       then Inl (budget_configuration_error
              ''credit_policy.job_budget_authorization.operations.metric_key''
              ''must match the pinned price metric'')
       else if pv_cost_currency price \<noteq> currency
       then Inl (budget_configuration_error ''billing_price_versions.cost_currency''
              (''must equal '' @ currency))
       else if pv_credit_unit_price price \<le> 0
       then Inl (budget_configuration_error ''billing_price_versions.credit_unit_price''
              ''positive credit price required for a hold'')
       else bind_result (price_credit_amount price maximum_cost) (\<lambda>credits.
         if credits \<le> 0 \<or> MAX_LEDGER_AMOUNT \<le> credits
         then Inl (budget_configuration_error ''billing_price_versions''
                ''price conversion must produce positive finite credits'')
         else Inr (price, credits))))"

definition authorize_budget ::
  "(json \<Rightarrow> string) \<Rightarrow> budget_catalog \<Rightarrow> time \<Rightarrow> uuid \<Rightarrow> string \<Rightarrow> decimal \<Rightarrow> decimal option \<Rightarrow> string
   \<Rightarrow> billing_db \<Rightarrow> billing_authorization result" where
  "authorize_budget other cat now ws kind_text estimated_cost requested_maximum_cost currency db =
     bind_result (validate_request estimated_cost requested_maximum_cost currency)
       (\<lambda>(_, maximum_cost, normalized).
     bind_result (resolve_subscription cat now ws db) (\<lambda>(sub, plan, ent).
     bind_result (read_operation_policy plan ent kind_text normalized) (\<lambda>pol.
     if subscription_state_value (sb_state sub) \<notin> set (op_allowed_states pol)
     then Inl (app_error ''BILLING_SUBSCRIPTION_INACTIVE'' 402)
     else
     bind_result (subscription_deadline sub now) (\<lambda>deadline.
     bind_result (required_positive_decimal other (dict_get (op_operation pol) ''maximum_cost'')
       (''credit_policy.job_budget_authorization.operations.'' @ kind_text @ ''.maximum_cost''))
       (\<lambda>plan_maximum.
     bind_result (required_positive_decimal other (dict_get (op_entitlement pol) ''maximum_cost'')
       (''entitlements.job_budget_operations.'' @ kind_text @ ''.maximum_cost'')) (\<lambda>ent_maximum.
     let ceil_cost = min plan_maximum ent_maximum in
     if ceil_cost < maximum_cost
     then Inl (AppError ''BILLING_MAXIMUM_COST_NOT_AUTHORIZED'' 402 []
            (Some (JDict [(''requested_maximum_cost'', JDec maximum_cost),
                          (''authorized_ceiling'', JDec ceil_cost), (''currency'', JStr normalized)])))
     else
     bind_result (resolve_price other now ws kind_text normalized pol maximum_cost db)
       (\<lambda>(price, credits).
     let expires = now + seconds (op_hold_ttl pol);
         deadlines = deadline # List.map_filter id
           [pl_retired_at plan, pv_retired_at price, en_valid_until ent]
     in if list_ex (\<lambda>t. t < expires) deadlines
        then Inl (app_error ''BILLING_BUDGET_VALIDITY_TOO_SHORT'' 409)
        else bind_result (get_account ws db) (\<lambda>account.
          if ca_available_balance account < credits
          then Inl (AppError ''CREDIT_BALANCE_INSUFFICIENT'' 402 []
                 (Some (JDict [(''required'', JDec credits),
                               (''available'', JDec (ca_available_balance account))])))
          else bind_result (as_dict (en_entitlements ent)) (\<lambda>ents.
            Inr \<lparr>bz_price_version_id = pv_id price, bz_maximum_credit_amount = credits,
                 bz_authorized_cost = maximum_cost, bz_currency = normalized,
                 bz_hold_expires_at = expires,
                 bz_entitlement_snapshot = dict_set ''billing_evidence''
                   (JDict [(''entitlement_snapshot_id'', JStr (uuid_str (en_id ent))),
                           (''snapshot_hash'', JStr (en_snapshot_hash ent)),
                           (''plan_version_id'', JStr (uuid_str (pl_id plan)))]) ents,
                 bz_policy_snapshot =
                   [(''schema_version'', JInt BUDGET_POLICY_SCHEMA_VERSION),
                    (''operation_kind'', JStr kind_text),
                    (''plan_version_id'', JStr (uuid_str (pl_id plan))),
                    (''plan_policy_hash'', JStr (pl_policy_hash plan)),
                    (''price_version_id'', JStr (uuid_str (pv_id price))),
                    (''pricing_hash'', JStr (pv_pricing_hash price)),
                    (''metric_key'', JStr (pv_metric_key price)),
                    (''authorized_cost'', JDec maximum_cost),
                    (''authorized_ceiling'', JDec ceil_cost), (''currency'', JStr normalized),
                    (''hold_ttl_seconds'', JInt (op_hold_ttl pol))]\<rparr>)))))))))"

section \<open>Publishing connections\<close>

definition publishing_entitlement_error :: "string \<Rightarrow> string \<Rightarrow> error" where
  "publishing_entitlement_error path reason =
     AppError ''PUBLISH_CONNECTION_ENTITLEMENT_REQUIRED'' 409 [(path, reason)] None"

definition PUBLISHING_CONNECTION_ENTITLEMENT_KEY :: string where
  "PUBLISHING_CONNECTION_ENTITLEMENT_KEY = ''max_publishing_connections''"

definition max_connections :: "budget_catalog \<Rightarrow> time \<Rightarrow> uuid \<Rightarrow> billing_db \<Rightarrow> int result" where
  "max_connections cat now ws db =
     (let required = app_error ''PUBLISH_CONNECTION_ENTITLEMENT_REQUIRED'' 409 in
      case find_subscription ws cat of
        None \<Rightarrow> Inl required
      | Some sub \<Rightarrow>
      if subscription_state_value (sb_state sub) \<notin> set BUDGET_CAPABLE_SUBSCRIPTION_STATES
      then Inl required
      else bind_result (subscription_deadline sub now) (\<lambda>_.
      case find_plan ws (sb_plan_version_id sub) db of
        None \<Rightarrow> Inl (publishing_entitlement_error ''subscription.plan_version_id''
                 ''workspace-visible plan version required'')
      | Some plan \<Rightarrow>
      bind_result (plan_effective plan now) (\<lambda>effective.
      if \<not> effective then Inl required
      else (case sb_entitlement_snapshot_id sub of
        None \<Rightarrow> Inl (publishing_entitlement_error ''subscription.entitlement_snapshot_id''
                 ''pinned entitlement snapshot required'')
      | Some ent_id \<Rightarrow>
      (case find_entitlement ws ent_id (pl_id plan) cat of
        None \<Rightarrow> Inl (publishing_entitlement_error ''subscription.entitlement_snapshot_id''
                 ''matching plan entitlement snapshot required'')
      | Some ent \<Rightarrow>
      if \<not> entitlement_active ent now then Inl required
      else (case en_entitlements ent of
          JDict ents \<Rightarrow>
            (case dict_get ents PUBLISHING_CONNECTION_ENTITLEMENT_KEY of
               JInt n \<Rightarrow>
                 if n < 1
                 then Inl (publishing_entitlement_error
                        (''entitlements.'' @ PUBLISHING_CONNECTION_ENTITLEMENT_KEY)
                        ''positive integer required'')
                 else Inr n
             | _ \<Rightarrow> Inl (publishing_entitlement_error
                     (''entitlements.'' @ PUBLISHING_CONNECTION_ENTITLEMENT_KEY)
                     ''positive integer required''))
        | _ \<Rightarrow> Inl (publishing_entitlement_error ''entitlements'' ''object required'')))))))"

end
