(* ===== verification/Budget_Adapter.thy ===== *)
theory Budget_Adapter
  imports Budget_Resolver Billing_Settlement
begin

text \<open>
  The budget adapters of \<^verbatim>\<open>domain/billing/adapters.py\<close>: a paid job (media, bulk, generation,
  repurposing) reserves credits for its maximum cost before it is queued, and its terminal event
  finalizes the hold for the actual cost or releases it. \<open>sha256_hex\<close> is the digest of a text;
  a request object that violates its schema raises \<open>ValueError\<close> (a pydantic \<open>ValidationError\<close>).
\<close>

record budget_env =
  be_hash :: hasher
  be_sha256 :: "string \<Rightarrow> string"
  be_other :: "json \<Rightarrow> string"
  be_catalog :: budget_catalog

definition HOLD_REF_PREFIX :: string where
  "HOLD_REF_PREFIX = ''credit-hold:''"

definition worker_principal :: "uuid \<Rightarrow> uuid \<Rightarrow> principal" where
  "worker_principal ws actor =
     \<lparr>subject_id = actor, workspace_id = ws, session_id = None, permissions = [''billing:meter''],
      authentication_method = ''trusted_job_worker'', kind = PrincipalKind.UNKNOWN,
      mfa_verified_at = None\<rparr>"

definition reservation_ref :: "uuid \<Rightarrow> string" where
  "reservation_ref hold_id = HOLD_REF_PREFIX @ uuid_str hold_id"

definition hold_id_of :: "string \<Rightarrow> uuid result" where
  "hold_id_of v =
     (let bad = app_error ''BILLING_HOLD_REF_INVALID'' 422
      in if take (length HOLD_REF_PREFIX) v \<noteq> HOLD_REF_PREFIX then Inl bad
         else case parse_uuid (drop (length HOLD_REF_PREFIX) v) of None \<Rightarrow> Inl bad | Some u \<Rightarrow> Inr u)"

definition budget_idempotency_key :: "budget_env \<Rightarrow> string \<Rightarrow> string list \<Rightarrow> string" where
  "budget_idempotency_key env ns parts =
     ns @ '':'' @ be_sha256 env (join_with [char_of (31::nat)] parts)"

section \<open>Reserving, finalizing, releasing\<close>

definition reserve_budget ::
  "budget_env \<Rightarrow> time \<Rightarrow> uuid \<Rightarrow> uuid \<Rightarrow> string \<Rightarrow> string \<Rightarrow> string \<Rightarrow> string \<Rightarrow> decimal \<Rightarrow> decimal option
   \<Rightarrow> string \<Rightarrow> billing_db \<Rightarrow> ((credit_hold \<times> billing_authorization) \<times> billing_db) result" where
  "reserve_budget env now ws actor kind_text subject_type sid key estimated_cost
     requested_maximum_cost currency db =
     bind_result (authorize_budget (be_other env) (be_catalog env) now ws kind_text estimated_cost
                    requested_maximum_cost currency db) (\<lambda>auth.
     if bz_currency auth \<noteq> currency
        \<or> (case estimated_cost of Finite e \<Rightarrow> bz_authorized_cost auth < e | _ \<Rightarrow> True)
     then Inl (app_error ''BILLING_BUDGET_AUTHORIZATION_INVALID'' 503)
     else if (case requested_maximum_cost of Some (Finite m) \<Rightarrow> bz_authorized_cost auth < m | _ \<Rightarrow> False)
     then Inl (app_error ''BILLING_MAXIMUM_COST_NOT_AUTHORIZED'' 402)
     else
       let d = \<lparr>hc_subject_type = subject_type, hc_subject_id = sid, hc_operation = kind_text,
                hc_price_version_id = bz_price_version_id auth,
                hc_maximum_amount = bz_maximum_credit_amount auth, hc_idempotency_key = key,
                hc_expires_at = bz_hold_expires_at auth\<rparr>
       in if \<not> valid_hold_create d then Inl (ValueError ''CreditHoldCreate'')
          else bind_result (create_hold (be_hash env) now (worker_principal ws actor) d db)
            (\<lambda>(hold, db). Inr ((hold, auth), db)))"

definition usage_request ::
  "time \<Rightarrow> credit_hold \<Rightarrow> (string \<times> json) list \<Rightarrow> string \<Rightarrow> string \<Rightarrow> rat \<Rightarrow> string \<Rightarrow> string option
   \<Rightarrow> (string \<times> json) list \<Rightarrow> (json \<Rightarrow> string) \<Rightarrow> usage_record_create result" where
  "usage_request now hold snapshot event subject_type actual_cost currency failure_class metadata other =
     (case map_of snapshot ''metric_key'' of
        None \<Rightarrow> Inl KeyError
      | Some metric \<Rightarrow> Inr
         \<lparr>uc_source_event_id = event, uc_subject_type = subject_type,
          uc_subject_id = ch_subject_id hold, uc_metric_key = py_str other metric,
          uc_quantity = actual_cost, uc_price_version_id = ch_price_version_id hold,
          uc_api_key_id = None, uc_endpoint = None, uc_occurred_at = now,
          uc_metadata = JDict
            (dict_set ''terminal_failure_class'' (opt_str failure_class)
            (dict_set ''credit_hold_id'' (JStr (uuid_str (ch_id hold)))
            (dict_set ''provider_cost_currency'' (JStr currency) metadata)))\<rparr>)"

definition settle_usage ::
  "budget_env \<Rightarrow> time \<Rightarrow> principal \<Rightarrow> credit_hold \<Rightarrow> (string \<times> json) list \<Rightarrow> string \<Rightarrow> string \<Rightarrow> rat \<Rightarrow> string
   \<Rightarrow> string option \<Rightarrow> (string \<times> json) list \<Rightarrow> billing_db \<Rightarrow> (rat \<times> billing_db) result" where
  "settle_usage env now p hold snapshot event subject_type actual_cost currency failure_class metadata db =
     (if actual_cost > 0
      then bind_result (usage_request now hold snapshot event subject_type actual_cost currency
                          failure_class metadata (be_other env)) (\<lambda>d.
           if \<not> valid_usage_create d then Inl (ValueError ''UsageRecordCreate'')
           else bind_result (record_usage now p d db) (\<lambda>(u, db). Inr (ur_credit_amount u, db)))
      else Inr (0, db))"

definition finalize_budget ::
  "budget_env \<Rightarrow> time \<Rightarrow> uuid \<Rightarrow> uuid \<Rightarrow> string \<Rightarrow> decimal \<Rightarrow> string \<Rightarrow> string \<Rightarrow> string \<Rightarrow> string option
   \<Rightarrow> string option \<Rightarrow> (string \<times> json) list \<Rightarrow> billing_db \<Rightarrow> (credit_hold \<times> billing_db) result" where
  "finalize_budget env now ws actor ref actual currency event subject_type failure_class reason_code
     metadata db =
     (case actual of
        Finite actual_cost \<Rightarrow>
          if actual_cost < 0 then Inl (app_error ''BILLING_ACTUAL_COST_INVALID'' 422)
          else
            let p = worker_principal ws actor in
            bind_result (hold_id_of ref) (\<lambda>hold_id.
            bind_result (get_hold p hold_id db) (\<lambda>hold.
            bind_result (as_dict (ch_pricing_snapshot hold)) (\<lambda>snapshot.
            if (case map_of snapshot ''cost_currency'' of None \<Rightarrow> ''''
                | Some c \<Rightarrow> py_str (be_other env) c) \<noteq> currency
            then Inl (app_error ''BILLING_COST_CURRENCY_MISMATCH'' 409)
            else bind_result (settle_usage env now p hold snapshot event subject_type actual_cost
                                currency failure_class metadata db) (\<lambda>(credits, db).
              let d = \<lparr>hz_finalization_event_id = event, hz_actual_amount = credits,
                       hz_failure_class = failure_class, hz_reason_code = reason_code\<rparr>
              in if \<not> valid_hold_finalize d then Inl (ValueError ''CreditHoldFinalize'')
                 else finalize_hold now p (ch_id hold) d db))))
      | _ \<Rightarrow> Inl (app_error ''BILLING_ACTUAL_COST_INVALID'' 422))"

definition release_budget ::
  "budget_env \<Rightarrow> time \<Rightarrow> uuid \<Rightarrow> uuid \<Rightarrow> string \<Rightarrow> decimal \<Rightarrow> string \<Rightarrow> string \<Rightarrow> string \<Rightarrow> string \<Rightarrow> string
   \<Rightarrow> billing_db \<Rightarrow> (credit_hold \<times> billing_db) result" where
  "release_budget env now ws actor ref actual currency event failure_class reason_code subject_type db =
     (case actual of
        Finite actual_cost \<Rightarrow>
          if actual_cost < 0 then Inl (app_error ''BILLING_ACTUAL_COST_INVALID'' 422)
          else if actual_cost > 0
          then finalize_budget env now ws actor ref actual currency event subject_type
                 (Some failure_class) (Some reason_code) [] db
          else
            let p = worker_principal ws actor in
            bind_result (hold_id_of ref) (\<lambda>hold_id.
            bind_result (get_hold p hold_id db) (\<lambda>hold.
            bind_result (as_dict (ch_pricing_snapshot hold)) (\<lambda>snapshot.
            if dict_get snapshot ''cost_currency'' \<noteq> JStr currency
            then Inl (app_error ''BILLING_COST_CURRENCY_MISMATCH'' 409)
            else let d = \<lparr>hr_release_event_id = event, hr_failure_class = failure_class,
                          hr_reason_code = reason_code\<rparr>
                 in if \<not> valid_hold_release d then Inl (ValueError ''CreditHoldRelease'')
                    else release_hold now p hold_id d db)))
      | _ \<Rightarrow> Inl (app_error ''BILLING_ACTUAL_COST_INVALID'' 422))"

section \<open>Media, bulk and repurposing jobs\<close>

record media_reservation =
  mv_reservation_ref :: string
  mv_authorized_amount :: rat
  mv_currency :: string
  mv_policy_snapshot :: "(string \<times> json) list"

record bulk_reservation =
  bv_reservation_ref :: string
  bv_authorized_amount :: rat
  bv_currency :: string
  bv_entitlement_snapshot :: "(string \<times> json) list"
  bv_budget_policy_snapshot :: "(string \<times> json) list"

record repurpose_reservation =
  rv_reference :: string
  rv_reserved_amount :: rat
  rv_currency :: string

definition hold_evidence ::
  "credit_hold \<Rightarrow> billing_authorization \<Rightarrow> (string \<times> json) list \<Rightarrow> (string \<times> json) list" where
  "hold_evidence hold auth snapshot =
     dict_set ''maximum_credit_amount'' (JDec (bz_maximum_credit_amount auth))
     (dict_set ''price_version_id'' (JStr (uuid_str (bz_price_version_id auth)))
     (dict_set ''credit_hold_id'' (JStr (uuid_str (ch_id hold))) snapshot))"

definition media_reserve ::
  "budget_env \<Rightarrow> time \<Rightarrow> uuid \<Rightarrow> uuid \<Rightarrow> string \<Rightarrow> decimal \<Rightarrow> decimal \<Rightarrow> string \<Rightarrow> string \<Rightarrow> billing_db
   \<Rightarrow> (media_reservation \<times> billing_db) result" where
  "media_reserve env now ws actor operation estimated_cost maximum_cost currency key db =
     bind_result (reserve_budget env now ws actor (''media.'' @ lower operation) ''media_operation_job''
                    key (''media:'' @ key) estimated_cost (Some maximum_cost) currency db)
       (\<lambda>((hold, auth), db).
     Inr (\<lparr>mv_reservation_ref = reservation_ref (ch_id hold),
           mv_authorized_amount = bz_authorized_cost auth, mv_currency = bz_currency auth,
           mv_policy_snapshot = hold_evidence hold auth
             (dict_set ''entitlement_snapshot'' (JDict (bz_entitlement_snapshot auth))
               (bz_policy_snapshot auth))\<rparr>, db))"

definition media_finalize where
  "media_finalize env now ws actor ref actual currency event db =
     finalize_budget env now ws actor ref actual currency event ''media_operation_job'' None None [] db"

definition media_release where
  "media_release env now ws actor ref actual currency event failure_class db =
     release_budget env now ws actor ref actual currency event failure_class
       (''MEDIA_TERMINAL_'' @ failure_class) ''media_operation_job'' db"

definition bulk_reserve ::
  "budget_env \<Rightarrow> time \<Rightarrow> uuid \<Rightarrow> uuid \<Rightarrow> string \<Rightarrow> decimal \<Rightarrow> decimal \<Rightarrow> string \<Rightarrow> billing_db
   \<Rightarrow> (bulk_reservation \<times> billing_db) result" where
  "bulk_reserve env now ws actor job_key estimated_cost maximum_cost currency db =
     bind_result (reserve_budget env now ws actor ''bulk.generate'' ''bulk_job'' job_key
                    (''bulk:'' @ job_key) estimated_cost (Some maximum_cost) currency db)
       (\<lambda>((hold, auth), db).
     Inr (\<lparr>bv_reservation_ref = reservation_ref (ch_id hold),
           bv_authorized_amount = bz_authorized_cost auth, bv_currency = bz_currency auth,
           bv_entitlement_snapshot = bz_entitlement_snapshot auth,
           bv_budget_policy_snapshot = hold_evidence hold auth (bz_policy_snapshot auth)\<rparr>, db))"

definition bulk_finalize where
  "bulk_finalize env now ws actor ref actual currency event db =
     finalize_budget env now ws actor ref actual currency event ''bulk_job'' None None [] db"

definition bulk_release where
  "bulk_release env now ws actor ref actual currency event failure_class db =
     release_budget env now ws actor ref actual currency event failure_class
       (''BULK_TERMINAL_'' @ failure_class) ''bulk_job'' db"

definition repurpose_reserve ::
  "budget_env \<Rightarrow> time \<Rightarrow> uuid \<Rightarrow> uuid \<Rightarrow> decimal \<Rightarrow> string \<Rightarrow> string \<Rightarrow> billing_db
   \<Rightarrow> (repurpose_reservation \<times> billing_db) result" where
  "repurpose_reserve env now ws actor amount currency request_hash db =
     bind_result (reserve_budget env now ws actor ''repurpose.generate'' ''repurpose_job'' request_hash
                    (budget_idempotency_key env ''repurpose'' [uuid_str actor, request_hash])
                    amount (Some amount) currency db)
       (\<lambda>((hold, auth), db).
     Inr (\<lparr>rv_reference = reservation_ref (ch_id hold), rv_reserved_amount = bz_authorized_cost auth,
           rv_currency = bz_currency auth\<rparr>, db))"

definition repurpose_finalize where
  "repurpose_finalize env now ws actor ref actual currency event db =
     finalize_budget env now ws actor ref actual currency event ''repurpose_job'' None None [] db"

definition repurpose_release where
  "repurpose_release env now ws actor ref actual currency event failure_class reason_code db =
     release_budget env now ws actor ref actual currency event failure_class
       (case reason_code of None \<Rightarrow> ''REPURPOSE_TERMINAL_'' @ failure_class
        | Some r \<Rightarrow> if r = '''' then ''REPURPOSE_TERMINAL_'' @ failure_class else r)
       ''repurpose_job'' db"

end
