(* ===== verification/Quality_Rules.thy ===== *)
theory Quality_Rules
  imports Decimal28 Text_Util
begin

text \<open>
  \<^verbatim>\<open>domain/quality/enums.py\<close> and \<^verbatim>\<open>domain/quality/rules.py\<close>: the quality score, the precedence of
  policy findings, the quality gate and the approval state machine.

  A failed threshold is kept as the two numbers the message of the code compares. An exception class
  derived from \<open>ValueError\<close> is \<open>ValueError\<close> with its message; comparing a NaN raises
  \<open>InvalidOperation\<close>, a \<open>DecimalException\<close>.
\<close>

section \<open>Vocabulary\<close>

datatype ReportKind = MORPHOLOGY | NATURALNESS | SEO | DUPLICATION | FACT_CITATION | SAFETY_POLICY
datatype FindingSeverity = INFO | WARN | BLOCK
datatype PolicyLayer = LAW | COPYRIGHT | PLATFORM | SERVICE | WORKSPACE | CONTENT
datatype PolicyAction = ALLOW | WARN | BLOCK
datatype AssessmentDecision = PASS | NEEDS_REVISION | BLOCKED
datatype ApprovalRequestStatus =
    PENDING | CHANGES_REQUESTED | REJECTED | APPROVED | EXPIRED | INVALIDATED | SUPERSEDED
datatype ApprovalDecisionKind = APPROVE | REJECT | REQUEST_CHANGES

primrec approval_status_value :: "ApprovalRequestStatus \<Rightarrow> string" where
  "approval_status_value ApprovalRequestStatus.PENDING = ''PENDING''"
| "approval_status_value ApprovalRequestStatus.CHANGES_REQUESTED = ''CHANGES_REQUESTED''"
| "approval_status_value ApprovalRequestStatus.REJECTED = ''REJECTED''"
| "approval_status_value ApprovalRequestStatus.APPROVED = ''APPROVED''"
| "approval_status_value ApprovalRequestStatus.EXPIRED = ''EXPIRED''"
| "approval_status_value ApprovalRequestStatus.INVALIDATED = ''INVALIDATED''"
| "approval_status_value ApprovalRequestStatus.SUPERSEDED = ''SUPERSEDED''"

primrec approval_decision_value :: "ApprovalDecisionKind \<Rightarrow> string" where
  "approval_decision_value ApprovalDecisionKind.APPROVE = ''APPROVE''"
| "approval_decision_value ApprovalDecisionKind.REJECT = ''REJECT''"
| "approval_decision_value ApprovalDecisionKind.REQUEST_CHANGES = ''REQUEST_CHANGES''"

section \<open>The quality score\<close>

definition QUALITY_COMPONENT_WEIGHTS :: "(string \<times> rat) list" where
  "QUALITY_COMPONENT_WEIGHTS =
     [(''accuracy'', 25 / 100), (''usefulness'', 20 / 100), (''originality'', 15 / 100),
      (''search_intent'', 15 / 100), (''readability'', 10 / 100), (''brand_fit'', 10 / 100),
      (''compliance'', 5 / 100)]"

record QualityScoreBreakdown =
  qs_total :: rat
  qs_component_scores :: "(string \<times> rat) list"
  qs_weighted_contributions :: "(string \<times> rat) list"

definition quantize_cent :: "rat \<Rightarrow> rat result" where
  "quantize_cent x =
     (case dec_quantize round_half_up 2 x of None \<Rightarrow> Inl DecimalException | Some y \<Rightarrow> Inr y)"

definition checked_score :: "string \<Rightarrow> decimal \<Rightarrow> rat result" where
  "checked_score component score =
     (let bad = ValueError (component @ '' must be between 0 and 100'')
      in case score of
           NaN \<Rightarrow> Inl DecimalException
         | Finite s \<Rightarrow> if s < 0 \<or> s > 100 then Inl bad else Inr s
         | _ \<Rightarrow> Inl bad)"

fun score_components ::
  "(string \<times> decimal) list \<Rightarrow> (string \<times> rat) list \<Rightarrow> (string \<times> rat \<times> rat) list result" where
  "score_components scores [] = Inr []"
| "score_components scores ((component, weight) # ws) =
     (case map_of scores component of
        None \<Rightarrow> Inl KeyError
      | Some d \<Rightarrow>
          bind_result (checked_score component d) (\<lambda>s.
          bind_result (quantize_cent s) (\<lambda>normalized.
          bind_result (quantize_cent (dec_mult s weight)) (\<lambda>contribution.
          bind_result (score_components scores ws) (\<lambda>rest.
            Inr ((component, normalized, contribution) # rest))))))"

definition calculate_quality_score ::
  "(json \<Rightarrow> string) \<Rightarrow> (string \<times> decimal) list \<Rightarrow> QualityScoreBreakdown result" where
  "calculate_quality_score other component_scores =
     (let known = map fst QUALITY_COMPONENT_WEIGHTS; given = map fst component_scores;
          missing = sort (filter (\<lambda>k. k \<notin> set given) known);
          extra = sort (filter (\<lambda>k. k \<notin> set known) (remdups given))
      in if set given \<noteq> set known
         then Inl (ValueError (''component mismatch: missing='' @ py_repr other (JList (map JStr missing))
                @ '', extra='' @ py_repr other (JList (map JStr extra))))
         else
           bind_result (score_components component_scores QUALITY_COMPONENT_WEIGHTS) (\<lambda>rows.
           bind_result (quantize_cent (foldl (\<lambda>acc (_, _, c). dec_round (acc + c)) 0 rows)) (\<lambda>total.
             Inr \<lparr>qs_total = total, qs_component_scores = map (\<lambda>(k, n, _). (k, n)) rows,
                  qs_weighted_contributions = map (\<lambda>(k, _, c). (k, c)) rows\<rparr>)))"

section \<open>Policy findings\<close>

primrec POLICY_LAYER_PRIORITY :: "PolicyLayer \<Rightarrow> nat" where
  "POLICY_LAYER_PRIORITY PolicyLayer.LAW = 0"
| "POLICY_LAYER_PRIORITY PolicyLayer.COPYRIGHT = 0"
| "POLICY_LAYER_PRIORITY PolicyLayer.PLATFORM = 1"
| "POLICY_LAYER_PRIORITY PolicyLayer.SERVICE = 2"
| "POLICY_LAYER_PRIORITY PolicyLayer.WORKSPACE = 3"
| "POLICY_LAYER_PRIORITY PolicyLayer.CONTENT = 4"

definition NON_OVERRIDEABLE_HARD_BLOCK_LAYERS :: "PolicyLayer list" where
  "NON_OVERRIDEABLE_HARD_BLOCK_LAYERS =
     [PolicyLayer.LAW, PolicyLayer.COPYRIGHT, PolicyLayer.PLATFORM, PolicyLayer.SERVICE]"

record PolicyFinding =
  pf_event_key :: string
  pf_layer :: PolicyLayer
  pf_rule_code :: string
  pf_severity :: FindingSeverity
  pf_hard_block :: bool
  pf_override_allowed :: bool

record PolicyResolution =
  ordered_findings :: "PolicyFinding list"
  blocking_event_keys :: "string list"
  non_overrideable_event_keys :: "string list"
  overrideable_event_keys :: "string list"

definition policy_blocked :: "PolicyResolution \<Rightarrow> bool" where
  "policy_blocked r \<longleftrightarrow> blocking_event_keys r \<noteq> []"

definition is_blocking_finding :: "PolicyFinding \<Rightarrow> bool" where
  "is_blocking_finding f \<longleftrightarrow> pf_hard_block f \<or> pf_severity f = FindingSeverity.BLOCK"

definition normalize_finding :: "PolicyFinding \<Rightarrow> PolicyFinding" where
  "normalize_finding f =
     (if is_blocking_finding f \<and> pf_layer f \<in> set NON_OVERRIDEABLE_HARD_BLOCK_LAYERS
      then f\<lparr>pf_override_allowed := False\<rparr> else f)"

definition finding_order :: "PolicyFinding \<Rightarrow> nat \<times> nat \<times> string \<times> string" where
  "finding_order f =
     (POLICY_LAYER_PRIORITY (pf_layer f), if pf_hard_block f then 0 else 1, pf_rule_code f,
      pf_event_key f)"

definition resolve_policy_findings :: "PolicyFinding list \<Rightarrow> string list \<Rightarrow> PolicyResolution" where
  "resolve_policy_findings findings overridden =
     (let ordered = sort_key finding_order (map normalize_finding findings)
      in \<lparr>ordered_findings = ordered,
          blocking_event_keys = map pf_event_key (filter (\<lambda>f. is_blocking_finding f
            \<and> (\<not> pf_override_allowed f \<or> pf_event_key f \<notin> set overridden)) ordered),
          non_overrideable_event_keys = map pf_event_key
            (filter (\<lambda>f. is_blocking_finding f \<and> \<not> pf_override_allowed f) ordered),
          overrideable_event_keys = map pf_event_key
            (filter (\<lambda>f. is_blocking_finding f \<and> pf_override_allowed f) ordered)\<rparr>)"

section \<open>The quality gate\<close>

record QualityGateResult =
  gate_decision :: AssessmentDecision
  failed_thresholds :: "(string \<times> rat \<times> rat) list"

text \<open>The thresholds are finite decimals: the configuration's schema bounds them.\<close>

fun check_thresholds ::
  "(string \<times> rat) list \<Rightarrow> (string \<times> rat) list \<Rightarrow> (string \<times> rat \<times> rat) list result" where
  "check_thresholds scores [] = Inr []"
| "check_thresholds scores ((component, minimum) # ms) =
     (case map_of scores component of
        None \<Rightarrow> Inl (ValueError (''unknown component threshold: '' @ component))
      | Some s \<Rightarrow>
          if minimum < 0 \<or> minimum > 100
          then Inl (ValueError (''invalid threshold for '' @ component))
          else bind_result (check_thresholds scores ms) (\<lambda>rest.
                 Inr (if s < minimum then (component, s, minimum) # rest else rest)))"

definition evaluate_quality_gate ::
  "QualityScoreBreakdown \<Rightarrow> rat \<Rightarrow> (string \<times> rat) list \<Rightarrow> PolicyResolution \<Rightarrow> QualityGateResult result"
  where
  "evaluate_quality_gate score minimum_total minimum_component_scores policy =
     bind_result (check_thresholds (qs_component_scores score) minimum_component_scores) (\<lambda>rest.
     let failures = (if qs_total score < minimum_total
           then (''total'', qs_total score, minimum_total) # rest else rest)
     in Inr \<lparr>gate_decision =
               (if policy_blocked policy then AssessmentDecision.BLOCKED
                else if failures \<noteq> [] then AssessmentDecision.NEEDS_REVISION
                else AssessmentDecision.PASS),
             failed_thresholds = failures\<rparr>)"

section \<open>Approvals\<close>

fun APPROVAL_TRANSITIONS ::
  "ApprovalRequestStatus \<times> ApprovalDecisionKind \<Rightarrow> ApprovalRequestStatus option" where
  "APPROVAL_TRANSITIONS (ApprovalRequestStatus.PENDING, ApprovalDecisionKind.REQUEST_CHANGES)
     = Some ApprovalRequestStatus.CHANGES_REQUESTED"
| "APPROVAL_TRANSITIONS (ApprovalRequestStatus.PENDING, ApprovalDecisionKind.REJECT)
     = Some ApprovalRequestStatus.REJECTED"
| "APPROVAL_TRANSITIONS (ApprovalRequestStatus.PENDING, ApprovalDecisionKind.APPROVE)
     = Some ApprovalRequestStatus.PENDING"
| "APPROVAL_TRANSITIONS _ = None"

definition transition_approval ::
  "ApprovalRequestStatus \<Rightarrow> ApprovalDecisionKind \<Rightarrow> bool \<Rightarrow> bool \<Rightarrow> ApprovalRequestStatus result" where
  "transition_approval current decision stage_quorum_reached final_stage =
     (case APPROVAL_TRANSITIONS (current, decision) of
        None \<Rightarrow> Inl (ValueError (approval_status_value current @ '' cannot apply ''
                  @ approval_decision_value decision))
      | Some base \<Rightarrow>
          if decision = ApprovalDecisionKind.APPROVE
          then Inr (if stage_quorum_reached \<and> final_stage then ApprovalRequestStatus.APPROVED
                    else ApprovalRequestStatus.PENDING)
          else Inr base)"

definition approval_quorum_reached :: "uuid list \<Rightarrow> uuid \<Rightarrow> int \<Rightarrow> bool result" where
  "approval_quorum_reached prior actor_id required_approvals =
     (if required_approvals < 1 then Inl (ValueError ''required approvals must be positive'')
      else Inr (int (card (set (actor_id # prior))) \<ge> required_approvals))"

definition exact_content_version_matches :: "uuid \<Rightarrow> string \<Rightarrow> uuid \<Rightarrow> string \<Rightarrow> bool" where
  "exact_content_version_matches expected_version expected_hash actual_version actual_hash \<longleftrightarrow>
     expected_version = actual_version \<and> expected_hash = actual_hash"

end
