(* ===== verification/Content_Models.thy ===== *)
theory Content_Models
  imports Generation_Models Quality_Rules Text_Parse
begin

text \<open>
  Tables of content versions (\<^verbatim>\<open>domain/generation/models.py\<close>) and of quality and approvals
  (\<^verbatim>\<open>domain/quality/models.py\<close>), the editor block and approval stage schemas, and the readers of
  \<^verbatim>\<open>domain/quality/references.py\<close>. \<open>content_db\<close> extends the generation tables with them.

  JSON columns that hold the dump of a schema are kept as that schema's values: the stages of a
  configuration and of an approval request, and the lists of policy event identifiers of an
  assessment. The document of a content version stays JSON: restoring a version parses it again.
\<close>

section \<open>Editor blocks\<close>

definition SUPPORTED_BLOCK_TYPES :: "string list" where
  "SUPPORTED_BLOCK_TYPES =
     [''TITLE'', ''HEADING'', ''PARAGRAPH'', ''LIST'', ''TABLE'', ''QUOTE'', ''CODE'', ''FAQ'', ''CTA'',
      ''IMAGE'', ''EMBED'']"

record content_block_input =
  bi_block_key :: uuid
  bi_block_type :: string
  bi_payload :: "(string \<times> json) list"
  bi_plain_text :: string
  bi_locked_facts :: "(string \<times> json) list list"
  bi_source_anchors :: "(string \<times> json) list list"

text \<open>The field constraint and the validator \<open>supported_block\<close>, which stores the upper-case name.\<close>

definition supported_block :: "string \<Rightarrow> string result" where
  "supported_block v =
     (let normalized = upper v
      in if v = [] \<or> 40 < length v \<or> normalized \<notin> set SUPPORTED_BLOCK_TYPES
         then Inl (ValueError ''unsupported editor block type'') else Inr normalized)"

definition valid_block :: "content_block_input \<Rightarrow> bool" where
  "valid_block b \<longleftrightarrow> supported_block (bi_block_type b) = Inr (bi_block_type b) \<and> bi_block_key b < 16 ^ 32"

text \<open>\<open>item.model_dump(mode="json")\<close> and \<open>ContentBlockInput.model_validate\<close>. A stored block always has
  its key.\<close>

definition block_json :: "content_block_input \<Rightarrow> json" where
  "block_json b = JDict
     [(''block_key'', JStr (uuid_str (bi_block_key b))), (''block_type'', JStr (bi_block_type b)),
      (''payload'', JDict (bi_payload b)), (''plain_text'', JStr (bi_plain_text b)),
      (''locked_facts'', JList (map JDict (bi_locked_facts b))),
      (''source_anchors'', JList (map JDict (bi_source_anchors b)))]"

fun as_dicts :: "json list \<Rightarrow> (string \<times> json) list list option" where
  "as_dicts [] = Some []"
| "as_dicts (v # vs) = (case v of JDict d \<Rightarrow> map_option ((#) d) (as_dicts vs) | _ \<Rightarrow> None)"

definition dict_list_field :: "(string \<times> json) list \<Rightarrow> string \<Rightarrow> (string \<times> json) list list option" where
  "dict_list_field d k =
     (case map_of d k of None \<Rightarrow> Some [] | Some (JList vs) \<Rightarrow> as_dicts vs | _ \<Rightarrow> None)"

definition text_field :: "(string \<times> json) list \<Rightarrow> string \<Rightarrow> string option" where
  "text_field d k = (case map_of d k of None \<Rightarrow> Some '''' | Some (JStr s) \<Rightarrow> Some s | _ \<Rightarrow> None)"

definition validate_block :: "json \<Rightarrow> content_block_input result" where
  "validate_block v =
     (let bad = Inl (ValueError ''ContentBlockInput'')
      in case v of
           JDict d \<Rightarrow>
             (case (dict_get d ''block_key'', dict_get d ''block_type'', dict_get d ''payload'') of
                (JStr k, JStr t, JDict pl) \<Rightarrow>
                  (case (parse_uuid k, supported_block t, text_field d ''plain_text'',
                         dict_list_field d ''locked_facts'', dict_list_field d ''source_anchors'') of
                     (Some u, Inr bt, Some txt, Some lf, Some sa) \<Rightarrow>
                       Inr \<lparr>bi_block_key = u, bi_block_type = bt, bi_payload = pl,
                            bi_plain_text = txt, bi_locked_facts = lf, bi_source_anchors = sa\<rparr>
                   | _ \<Rightarrow> bad)
              | _ \<Rightarrow> bad)
         | _ \<Rightarrow> bad)"

fun validate_blocks :: "json list \<Rightarrow> content_block_input list result" where
  "validate_blocks [] = Inr []"
| "validate_blocks (v # vs) =
     bind_result (validate_block v) (\<lambda>b. bind_result (validate_blocks vs) (\<lambda>bs. Inr (b # bs)))"

lemma as_dicts_map [simp]: "as_dicts (map JDict ds) = Some ds"
  by (induction ds) simp_all

text \<open>Dumping a valid block and parsing it again gives the block back.\<close>

lemma validate_block_json: "valid_block b \<Longrightarrow> validate_block (block_json b) = Inr b"
  by (simp add: valid_block_def validate_block_def block_json_def dict_get_def text_field_def
      dict_list_field_def parse_uuid_str)

lemma validate_blocks_json: "list_all valid_block bs \<Longrightarrow> validate_blocks (map block_json bs) = Inr bs"
  by (induction bs) (simp_all add: validate_block_json)

lemma upper_char_idem [simp]: "upper_char (upper_char c) = upper_char c"
  by (auto simp: upper_char_def is_lower_def char_code_def)

lemma upper_idem [simp]: "upper (upper s) = upper s" "length (upper s) = length s" "upper s = [] \<longleftrightarrow> s = []"
  by (simp_all add: upper_def)

lemma validate_block_valid: "validate_block v = Inr b \<Longrightarrow> bi_block_key b < 16 ^ 32 \<Longrightarrow> valid_block b"
  by (auto simp: validate_block_def valid_block_def supported_block_def Let_def
      split: json.splits option.splits sum.splits if_splits)

section \<open>Content versions\<close>

datatype ContentChangeKind = GENERATED | MANUAL | AUTOSAVE | RESTORE | AI_EDIT | IMPORT

datatype CollaborationEventKind =
    EDIT | COMMENT | COMMENT_RESOLVED | COMMENT_REOPENED | SUGGESTION_ACCEPTED | SUGGESTION_REJECTED
  | VERSION_CREATED | VERSION_RESTORED | LOCK_ACQUIRED | LOCK_RELEASED

record content_version =
  cv_id :: uuid
  cv_workspace_id :: uuid
  cv_content_id :: uuid
  cv_parent_version_id :: "uuid option"
  cv_restored_from_version_id :: "uuid option"
  cv_generation_job_id :: "uuid option"
  cv_generation_snapshot_id :: "uuid option"
  cv_version_number :: nat
  cv_title :: string
  cv_document :: "json list"
  cv_plain_text :: string
  cv_content_hash :: string
  cv_source_snapshot_hash :: "string option"
  cv_change_kind :: ContentChangeKind
  cv_change_note :: "string option"
  cv_created_by :: uuid

record content_block =
  cb_id :: uuid
  cb_workspace_id :: uuid
  cb_content_version_id :: uuid
  cb_block_key :: uuid
  cb_block_type :: string
  cb_position :: nat
  cb_payload :: "(string \<times> json) list"
  cb_plain_text :: string
  cb_locked_facts :: "(string \<times> json) list list"
  cb_source_anchors :: "(string \<times> json) list list"

record collaboration_event =
  ce_id :: uuid
  ce_workspace_id :: uuid
  ce_content_id :: uuid
  ce_content_version_id :: "uuid option"
  ce_actor_id :: uuid
  ce_client_operation_id :: string
  ce_event_kind :: CollaborationEventKind
  ce_block_key :: "uuid option"
  ce_text_range :: "(string \<times> json) list option"
  ce_payload :: "(string \<times> json) list"

datatype FeedbackKind = USEFUL | INACCURATE | VOICE_MISMATCH | UNSAFE | OTHER
datatype TemplateScope = OFFICIAL | WORKSPACE | PERSONAL
datatype VersionStatus = DRAFT | PUBLISHED | DEPRECATED

record feedback =
  fb_id :: uuid
  fb_workspace_id :: uuid
  fb_content_id :: uuid
  fb_content_version_id :: uuid
  fb_generation_job_id :: "uuid option"
  fb_actor_id :: uuid
  fb_kind :: FeedbackKind
  fb_details :: "(string \<times> json) list"

record content_template =
  tm_id :: uuid
  tm_workspace_id :: uuid
  tm_scope :: TemplateScope
  tm_owner_id :: "uuid option"
  tm_name :: string
  tm_description :: "string option"
  tm_content_type :: ContentType
  tm_industry :: "string option"
  tm_current_version_id :: "uuid option"
  tm_retired_at :: "time option"
  tm_created_by :: uuid

record template_version =
  tv_id :: uuid
  tv_workspace_id :: uuid
  tv_template_id :: uuid
  tv_prompt_version_id :: uuid
  tv_version :: nat
  tv_status :: VersionStatus
  tv_input_schema :: "(string \<times> json) list"
  tv_prompt_blocks :: "(string \<times> json) list list"
  tv_structure_blocks :: "(string \<times> json) list list"
  tv_quality_rules :: "(string \<times> json) list list"
  tv_channel_config :: "(string \<times> json) list"
  tv_policy_snapshot :: "(string \<times> json) list"
  tv_policy_hash :: string
  tv_content_hash :: string
  tv_created_by :: uuid

section \<open>Quality and approvals\<close>

record approval_stage =
  as_key :: string
  as_name :: string
  as_required_approvals :: int
  as_approver_user_ids :: "uuid list"
  as_require_mfa :: bool
  as_due_seconds :: "int option"

record quality_config =
  qc_id :: uuid
  qc_workspace_id :: uuid
  qc_version :: int
  qc_minimum_total_score :: rat
  qc_minimum_component_scores :: "(string \<times> rat) list"
  qc_required_report_kinds :: "ReportKind list"
  qc_approval_stages :: "approval_stage list"
  qc_threshold_override_allowed :: bool
  qc_notes :: "string option"
  qc_config_hash :: string
  qc_created_by :: uuid

record quality_assessment =
  qa_id :: uuid
  qa_workspace_id :: uuid
  qa_content_id :: uuid
  qa_content_version_id :: uuid
  qa_content_hash :: string
  qa_quality_config_id :: uuid
  qa_quality_config_hash :: string
  qa_blocking_policy_event_ids :: "uuid list"
  qa_non_overrideable_policy_event_ids :: "uuid list"
  qa_decision :: AssessmentDecision
  qa_assessment_hash :: string
  qa_report_ids :: "uuid list"
  qa_component_scores :: "(string \<times> rat) list"
  qa_weighted_contributions :: "(string \<times> rat) list"
  qa_total_score :: rat
  qa_failed_thresholds :: "(string \<times> rat \<times> rat) list"
  qa_created_by :: uuid

record policy_event =
  pe_id :: uuid
  pe_workspace_id :: uuid
  pe_content_id :: uuid
  pe_content_version_id :: uuid
  pe_layer :: PolicyLayer
  pe_rule_code :: string
  pe_action :: PolicyAction
  pe_severity :: FindingSeverity
  pe_hard_block :: bool
  pe_override_allowed :: bool
  pe_event_hash :: string
  pe_content_hash :: string
  pe_report_id :: "uuid option"
  pe_assessment_id :: "uuid option"
  pe_event_key :: string
  pe_priority :: nat
  pe_message :: string
  pe_evidence_json :: "(string \<times> json) list"
  pe_rule_snapshot_hash :: string
  pe_policy_snapshot_hash :: string
  pe_created_by :: uuid

record rule_set =
  rl_id :: uuid
  rl_workspace_id :: uuid
  rl_layer :: PolicyLayer
  rl_name :: string
  rl_version :: nat
  rl_rules_json :: "(string \<times> json) list list"
  rl_analyzer_requirements_json :: "(string \<times> json) list"
  rl_snapshot_hash :: string
  rl_effective_at :: time
  rl_created_by :: uuid

record quality_report =
  qr_id :: uuid
  qr_workspace_id :: uuid
  qr_content_id :: uuid
  qr_content_version_id :: uuid
  qr_content_hash :: string
  qr_report_kind :: ReportKind
  qr_analyzer_name :: string
  qr_analyzer_version :: string
  qr_model_name :: "string option"
  qr_model_version :: "string option"
  qr_dictionary_name :: "string option"
  qr_dictionary_version :: "string option"
  qr_input_hash :: string
  qr_analyzer_config_snapshot :: "(string \<times> json) list"
  qr_analyzer_config_hash :: string
  qr_rule_snapshot :: "json list"
  qr_rule_snapshot_hash :: string
  qr_policy_snapshot :: json
  qr_policy_snapshot_hash :: string
  qr_summary_json :: "(string \<times> json) list"
  qr_findings_json :: "json list"
  qr_hard_blockers_json :: "json list"
  qr_report_hash :: string
  qr_created_by :: uuid

text \<open>The six detail tables. A float column holds the decimal its text shows.\<close>

datatype report_detail =
    MorphologyReport (token_count: int) (sentence_count: int) (unknown_token_rate: decimal)
      (spacing_issues: "json list") (grammar_issues: "json list") (token_analysis: "json list")
      (metrics_json: "(string \<times> json) list")
  | NaturalnessReport (naturalness_score: decimal) (usefulness_score: decimal)
      (readability_score: decimal) (brand_fit_score: decimal)
      (fluency_metrics: "(string \<times> json) list") (sentence_metrics: "(string \<times> json) list")
      (awkward_expressions: "json list")
  | SEOReport (search_intent_score: decimal) (primary_keyword: "string option")
      (keyword_metrics: "(string \<times> json) list") (title_checks: "json list")
      (heading_checks: "json list") (meta_checks: "json list") (recommendations: "json list")
  | DuplicationReport (originality_score: decimal) (duplicate_ratio: decimal) (algorithm: string)
      (algorithm_version: string) (corpus_snapshot_hash: string) (near_duplicates: "json list")
      (cannibalization_findings: "json list")
  | FactCitationReport (accuracy_score: decimal) (claim_count: int) (supported_claim_count: int)
      (citation_count: int) (linked_citation_count: int) (citation_link_rate: decimal)
      (claim_citation_graph: "json list") (unsupported_claims: "json list")
      (invalid_citations: "json list")
  | SafetyPolicyReport (compliance_score: decimal) (policy_findings: "json list")
      (safety_categories: "(string \<times> json) list") (required_disclosures: "json list")
      (banned_claim_matches: "json list")

record report_detail_row =
  rd_workspace_id :: uuid
  rd_report_id :: uuid
  rd_detail :: report_detail

record policy_override =
  po_id :: uuid
  po_workspace_id :: uuid
  po_policy_event_id :: uuid
  po_reason :: string
  po_evidence_json :: json
  po_event_snapshot_hash :: string
  po_overridden_by :: uuid

record approval_request =
  ar_id :: uuid
  ar_workspace_id :: uuid
  ar_content_id :: uuid
  ar_content_version_id :: uuid
  ar_content_hash :: string
  ar_assessment_id :: uuid
  ar_assessment_hash :: string
  ar_quality_config_id :: uuid
  ar_quality_config_hash :: string
  ar_approval_stages_snapshot :: "approval_stage list"
  ar_approval_stages_hash :: string
  ar_status :: ApprovalRequestStatus
  ar_current_stage_index :: nat
  ar_stage_due_at :: "time option"
  ar_supersedes_request_id :: "uuid option"
  ar_requested_by :: uuid
  ar_requested_at :: time
  ar_approved_by :: "uuid option"
  ar_approved_at :: "time option"
  ar_approved_content_version_id :: "uuid option"
  ar_approved_content_hash :: "string option"
  ar_invalidated_at :: "time option"
  ar_invalidated_by :: "uuid option"
  ar_invalidation_reason :: "string option"
  ar_lock_version :: int

record approval_decision =
  ad_id :: uuid
  ad_workspace_id :: uuid
  ad_approval_request_id :: uuid
  ad_content_version_id :: uuid
  ad_content_hash :: string
  ad_stage_key :: string
  ad_stage_index :: nat
  ad_decision :: ApprovalDecisionKind
  ad_from_status :: ApprovalRequestStatus
  ad_to_status :: ApprovalRequestStatus
  ad_comment :: "string option"
  ad_authentication_method :: string
  ad_decided_by :: uuid
  ad_decided_at :: time

record approval_state_event =
  av_id :: uuid
  av_workspace_id :: uuid
  av_approval_request_id :: uuid
  av_event_type :: string
  av_from_status :: "ApprovalRequestStatus option"
  av_to_status :: ApprovalRequestStatus
  av_content_version_id :: uuid
  av_content_hash :: string
  av_details_json :: "(string \<times> json) list"
  av_actor_id :: uuid

record quality_activity =
  qy_id :: uuid
  qy_workspace_id :: uuid
  qy_content_id :: "uuid option"
  qy_content_version_id :: "uuid option"
  qy_activity_kind :: string
  qy_target_type :: string
  qy_target_id :: uuid
  qy_details_json :: "(string \<times> json) list"
  qy_actor_id :: uuid

text \<open>\<open>active_members\<close> holds the (workspace, user) pairs with an active membership.
  \<open>jsonb_document\<close> is what PostgreSQL's JSONB type does to a document: the value it returns for one
  that was stored (numbers are normalised, so \<open>1e20\<close> or \<open>-0.0\<close> come back as another value). A row
  keeps the document the handler wrote; everything that reads the row back goes through
  \<open>stored_document\<close>.\<close>

record content_db = generation_db +
  content_versions :: "content_version list"
  content_blocks :: "content_block list"
  collaboration_events :: "collaboration_event list"
  feedbacks :: "feedback list"
  templates :: "content_template list"
  template_versions :: "template_version list"
  active_members :: "(uuid \<times> uuid) list"
  quality_configs :: "quality_config list"
  rule_sets :: "rule_set list"
  quality_reports :: "quality_report list"
  report_details :: "report_detail_row list"
  quality_assessments :: "quality_assessment list"
  policy_events :: "policy_event list"
  policy_overrides :: "policy_override list"
  approval_requests :: "approval_request list"
  approval_decisions :: "approval_decision list"
  approval_state_events :: "approval_state_event list"
  quality_activities :: "quality_activity list"
  jsonb_document :: "json list \<Rightarrow> json list"

definition stored_document :: "'a content_db_scheme \<Rightarrow> content_version \<Rightarrow> json list" where
  "stored_document db v = jsonb_document db (cv_document v)"

section \<open>Reading a content version\<close>

record ContentVersionSnapshot =
  vs_content_id :: uuid
  vs_content_version_id :: uuid
  vs_content_hash :: string
  vs_current_version_id :: "uuid option"
  vs_title :: string
  vs_channel :: string
  vs_language :: string
  vs_content_state :: JobState
  vs_version_number :: nat

definition is_current :: "ContentVersionSnapshot \<Rightarrow> bool" where
  "is_current s \<longleftrightarrow> vs_current_version_id s = Some (vs_content_version_id s)"

definition snapshot_of :: "content_item \<Rightarrow> content_version \<Rightarrow> ContentVersionSnapshot" where
  "snapshot_of c v =
     \<lparr>vs_content_id = ct_id c, vs_content_version_id = cv_id v, vs_content_hash = cv_content_hash v,
      vs_current_version_id = ct_current_version_id c, vs_title = cv_title v,
      vs_channel = ct_channel c, vs_language = ct_language c, vs_content_state = ct_state c,
      vs_version_number = cv_version_number v\<rparr>"

definition content_reference_error :: "uuid \<Rightarrow> uuid option \<Rightarrow> error" where
  "content_reference_error content_id version_id =
     AppError ''CONTENT_VERSION_NOT_FOUND'' 404
       [(''content_id'', uuid_str content_id),
        (''content_version_id'', case version_id of None \<Rightarrow> ''current'' | Some v \<Rightarrow> uuid_str v)] None"

definition live_content :: "uuid \<Rightarrow> uuid \<Rightarrow> 'a content_db_scheme \<Rightarrow> content_item option" where
  "live_content ws content_id db =
     List.find (\<lambda>c. ct_workspace_id c = ws \<and> ct_id c = content_id \<and> ct_deleted_at c = None) (contents db)"

definition resolve_version ::
  "uuid \<Rightarrow> uuid \<Rightarrow> uuid \<Rightarrow> 'a content_db_scheme \<Rightarrow> ContentVersionSnapshot result" where
  "resolve_version ws content_id version_id db =
     (case live_content ws content_id db of
        None \<Rightarrow> Inl (content_reference_error content_id (Some version_id))
      | Some c \<Rightarrow>
          (case List.find (\<lambda>v. cv_workspace_id v = ws \<and> cv_content_id v = content_id \<and> cv_id v = version_id)
                  (content_versions db) of
             None \<Rightarrow> Inl (content_reference_error content_id (Some version_id))
           | Some v \<Rightarrow> Inr (snapshot_of c v)))"

definition current_version :: "uuid \<Rightarrow> uuid \<Rightarrow> 'a content_db_scheme \<Rightarrow> ContentVersionSnapshot result" where
  "current_version ws content_id db =
     (case live_content ws content_id db of
        None \<Rightarrow> Inl (content_reference_error content_id None)
      | Some c \<Rightarrow>
          (case List.find (\<lambda>v. cv_workspace_id v = ws \<and> ct_current_version_id c = Some (cv_id v))
                  (content_versions db) of
             None \<Rightarrow> Inl (content_reference_error content_id None)
           | Some v \<Rightarrow> Inr (snapshot_of c v)))"

definition require_active :: "uuid \<Rightarrow> uuid list \<Rightarrow> 'a content_db_scheme \<Rightarrow> unit result" where
  "require_active ws user_ids db =
     (let missing = sort_key uuid_str (filter (\<lambda>u. (ws, u) \<notin> set (active_members db)) (remdups user_ids))
      in if missing = [] then Inr ()
         else Inl (AppError ''QUALITY_MEMBER_INACTIVE'' 422
                (map (\<lambda>u. (''user_ids'', uuid_str u)) missing) None))"

end
