(* ===== verification/Approval_Service.thy ===== *)
theory Approval_Service
  imports Content_Models Generation_Service
begin

text \<open>
  Policy overrides and approvals of \<^verbatim>\<open>domain/quality/service.py\<close>: an approval request pins one content
  version and hash, the assessment and the stages of its configuration; decisions move it through the
  stages; a change of the content invalidates it. \<open>approved_content\<close> is the query by which
  publishing (\<^verbatim>\<open>domain/publishing/references.py\<close>) accepts a content version.
\<close>

section \<open>Rows\<close>

definition find_request :: "uuid \<Rightarrow> uuid \<Rightarrow> 'a content_db_scheme \<Rightarrow> approval_request result" where
  "find_request ws request_id db =
     (case List.find (\<lambda>r. ar_workspace_id r = ws \<and> ar_id r = request_id) (approval_requests db) of
        None \<Rightarrow> Inl (not_found ''APPROVAL_REQUEST'') | Some r \<Rightarrow> Inr r)"

definition find_assessment :: "uuid \<Rightarrow> uuid \<Rightarrow> 'a content_db_scheme \<Rightarrow> quality_assessment result" where
  "find_assessment ws assessment_id db =
     (case List.find (\<lambda>a. qa_workspace_id a = ws \<and> qa_id a = assessment_id) (quality_assessments db) of
        None \<Rightarrow> Inl (not_found ''QUALITY_ASSESSMENT'') | Some a \<Rightarrow> Inr a)"

definition find_config :: "uuid \<Rightarrow> uuid \<Rightarrow> 'a content_db_scheme \<Rightarrow> quality_config result" where
  "find_config ws config_id db =
     (case List.find (\<lambda>c. qc_workspace_id c = ws \<and> qc_id c = config_id) (quality_configs db) of
        None \<Rightarrow> Inl (not_found ''QUALITY_CONFIG'') | Some c \<Rightarrow> Inr c)"

definition find_policy_event :: "uuid \<Rightarrow> uuid \<Rightarrow> 'a content_db_scheme \<Rightarrow> policy_event result" where
  "find_policy_event ws event_id db =
     (case List.find (\<lambda>e. pe_workspace_id e = ws \<and> pe_id e = event_id) (policy_events db) of
        None \<Rightarrow> Inl (not_found ''POLICY_EVENT'') | Some e \<Rightarrow> Inr e)"

definition override_for_event :: "uuid \<Rightarrow> uuid \<Rightarrow> 'a content_db_scheme \<Rightarrow> policy_override option" where
  "override_for_event ws event_id db =
     List.find (\<lambda>x. po_workspace_id x = ws \<and> po_policy_event_id x = event_id) (policy_overrides db)"

text \<open>An UPDATE of an approval request advances its \<open>lock_version\<close>; an unchanged row is not written.\<close>

definition touch_request :: "(approval_request \<Rightarrow> approval_request) \<Rightarrow> approval_request \<Rightarrow> approval_request" where
  "touch_request f r =
     (let r' = f r in if r' = r then r else r'\<lparr>ar_lock_version := ar_lock_version r + 1\<rparr>)"

definition update_request ::
  "uuid \<Rightarrow> (approval_request \<Rightarrow> approval_request) \<Rightarrow> 'a content_db_scheme \<Rightarrow> 'a content_db_scheme" where
  "update_request i f db =
     db\<lparr>approval_requests := update_where (\<lambda>r. ar_id r = i) (touch_request f) (approval_requests db)\<rparr>"

definition merge_dict :: "(string \<times> json) list \<Rightarrow> (string \<times> json) list \<Rightarrow> (string \<times> json) list" where
  "merge_dict base details = foldl (\<lambda>d (k, v). dict_set k v d) base details"

definition opt_uuid :: "uuid option \<Rightarrow> json" where
  "opt_uuid i = (case i of None \<Rightarrow> JNull | Some u \<Rightarrow> JStr (uuid_str u))"

definition record_change ::
  "principal \<Rightarrow> time \<Rightarrow> string \<Rightarrow> string \<Rightarrow> string \<Rightarrow> uuid \<Rightarrow> uuid option \<Rightarrow> uuid option
   \<Rightarrow> (string \<times> json) list \<Rightarrow> 'a content_db_scheme \<Rightarrow> 'a content_db_scheme" where
  "record_change p now activity_kind action target_type target_id content_id version_id details db =
     (let (i, db) = uuid4 db;
          activity = \<lparr>qy_id = i, qy_workspace_id = workspace_id p, qy_content_id = content_id,
            qy_content_version_id = version_id, qy_activity_kind = activity_kind,
            qy_target_type = target_type, qy_target_id = target_id, qy_details_json = details,
            qy_actor_id = subject_id p\<rparr>;
          db = db\<lparr>quality_activities := quality_activities db @ [activity]\<rparr>
      in add_outbox_event (Some (workspace_id p)) target_type (uuid_str target_id) action
           OUTBOX_SCHEMA_VERSION
           (JDict (merge_dict
             [(''workspace_id'', JStr (uuid_str (workspace_id p))),
              (''actor_id'', JStr (uuid_str (subject_id p))),
              (''content_id'', opt_uuid content_id), (''content_version_id'', opt_uuid version_id)]
             details)) now
           (append_audit_log (Some (workspace_id p)) (Some (subject_id p)) action target_type
             (uuid_str target_id) (Some (JDict details)) None now db))"

text \<open>\<open>_approval_state_event\<close>: the row records the status the request has by then.\<close>

definition state_event ::
  "principal \<Rightarrow> approval_request \<Rightarrow> string \<Rightarrow> ApprovalRequestStatus option \<Rightarrow> (string \<times> json) list
   \<Rightarrow> 'a content_db_scheme \<Rightarrow> 'a content_db_scheme" where
  "state_event p r event_type from_status details db =
     (let (i, db) = uuid4 db
      in db\<lparr>approval_state_events := approval_state_events db
           @ [\<lparr>av_id = i, av_workspace_id = workspace_id p, av_approval_request_id = ar_id r,
               av_event_type = event_type, av_from_status = from_status, av_to_status = ar_status r,
               av_content_version_id = ar_content_version_id r, av_content_hash = ar_content_hash r,
               av_details_json = details, av_actor_id = subject_id p\<rparr>]\<rparr>)"

section \<open>Checks\<close>

definition assert_hash :: "string \<Rightarrow> string \<Rightarrow> string \<Rightarrow> unit result" where
  "assert_hash resource expected actual =
     ensure (expected = actual) (AppError ''SNAPSHOT_HASH_CONFLICT'' 409
       [(''resource'', resource), (''expected_hash'', expected), (''actual_hash'', actual)] None)"

definition assert_lock :: "string \<Rightarrow> int \<Rightarrow> int \<Rightarrow> unit result" where
  "assert_lock resource expected actual =
     ensure (expected = actual) (AppError ''OPTIMISTIC_LOCK_CONFLICT'' 409
       [(''resource'', resource), (''expected_lock_version'', int_str expected),
        (''actual_lock_version'', int_str actual)] None)"

definition exact_content ::
  "uuid \<Rightarrow> uuid \<Rightarrow> uuid \<Rightarrow> string \<Rightarrow> bool \<Rightarrow> 'a content_db_scheme \<Rightarrow> ContentVersionSnapshot result" where
  "exact_content ws content_id version_id content_hash require_current db =
     bind_result (resolve_version ws content_id version_id db) (\<lambda>content.
     if vs_content_hash content \<noteq> content_hash
     then Inl (AppError ''CONTENT_HASH_MISMATCH'' 409
            [(''expected_content_hash'', content_hash), (''actual_content_hash'', vs_content_hash content)] None)
     else if require_current \<and> \<not> is_current content
     then Inl (AppError ''CONTENT_VERSION_NOT_CURRENT'' 409 []
            (Some (JDict [(''current_content_version_id'', opt_uuid (vs_current_version_id content))])))
     else Inr content)"

definition assert_assessment_approval_eligible ::
  "uuid \<Rightarrow> quality_assessment \<Rightarrow> 'a content_db_scheme \<Rightarrow> unit result" where
  "assert_assessment_approval_eligible ws a db =
     (let blocking = qa_blocking_policy_event_ids a;
          by_id = (\<lambda>ids. map (\<lambda>i. (''policy_event_id'', uuid_str i)) (sort_key uuid_str (remdups ids)))
      in if blocking = []
         then ensure (qa_decision a = AssessmentDecision.PASS) (app_error ''QUALITY_ASSESSMENT_NOT_PASSED'' 409)
         else if qa_non_overrideable_policy_event_ids a \<noteq> []
         then Inl (AppError ''QUALITY_HARD_BLOCK'' 409 (by_id (qa_non_overrideable_policy_event_ids a)) None)
         else let overrides = map po_policy_event_id (filter (\<lambda>x. po_workspace_id x = ws) (policy_overrides db));
                  unresolved = filter (\<lambda>i. i \<notin> set overrides) blocking
              in if unresolved \<noteq> []
                 then Inl (AppError ''QUALITY_POLICY_OVERRIDE_REQUIRED'' 409 (by_id unresolved) None)
                 else Inr ())"

section \<open>Policy overrides\<close>

primrec policy_layer_value :: "PolicyLayer \<Rightarrow> string" where
  "policy_layer_value PolicyLayer.LAW = ''LAW''"
| "policy_layer_value PolicyLayer.COPYRIGHT = ''COPYRIGHT''"
| "policy_layer_value PolicyLayer.PLATFORM = ''PLATFORM''"
| "policy_layer_value PolicyLayer.SERVICE = ''SERVICE''"
| "policy_layer_value PolicyLayer.WORKSPACE = ''WORKSPACE''"
| "policy_layer_value PolicyLayer.CONTENT = ''CONTENT''"

definition override_forbidden :: "policy_event \<Rightarrow> error" where
  "override_forbidden e = AppError ''POLICY_OVERRIDE_FORBIDDEN'' 409
     [(''policy_event_id'', uuid_str (pe_id e)), (''layer'', policy_layer_value (pe_layer e)),
      (''rule_code'', pe_rule_code e)] None"

definition blocking_event :: "policy_event \<Rightarrow> bool" where
  "blocking_event e \<longleftrightarrow> pe_hard_block e \<or> pe_severity e = FindingSeverity.BLOCK
     \<or> pe_action e = PolicyAction.BLOCK"

definition create_policy_override ::
  "time \<Rightarrow> principal \<Rightarrow> uuid \<Rightarrow> string \<Rightarrow> string \<Rightarrow> json \<Rightarrow> 'a content_db_scheme
   \<Rightarrow> (policy_override \<times> 'a content_db_scheme) result" where
  "create_policy_override now p event_id expected_hash reason evidence db =
     bind_result (find_policy_event (workspace_id p) event_id db) (\<lambda>e.
     bind_result (assert_hash ''policy_event'' expected_hash (pe_event_hash e)) (\<lambda>_.
     if blocking_event e \<and> pe_layer e \<in> set NON_OVERRIDEABLE_HARD_BLOCK_LAYERS
     then Inl (override_forbidden e)
     else if \<not> pe_override_allowed e then Inl (override_forbidden e)
     else if override_for_event (workspace_id p) (pe_id e) db \<noteq> None
     then Inl (app_error ''POLICY_EVENT_ALREADY_OVERRIDDEN'' 409)
     else
       let (i, db) = uuid4 db;
           x = \<lparr>po_id = i, po_workspace_id = workspace_id p, po_policy_event_id = pe_id e,
                po_reason = reason, po_evidence_json = evidence, po_event_snapshot_hash = pe_event_hash e,
                po_overridden_by = subject_id p\<rparr>
       in Inr (x, record_change p now ''POLICY_OVERRIDE_CREATED'' ''quality.policy.override_created''
            ''policy_event'' (pe_id e) (Some (pe_content_id e)) (Some (pe_content_version_id e))
            [(''override_id'', JStr (uuid_str i)), (''event_snapshot_hash'', JStr (pe_event_hash e)),
             (''layer'', JStr (policy_layer_value (pe_layer e))), (''rule_code'', JStr (pe_rule_code e)),
             (''reason'', JStr reason)]
            (db\<lparr>policy_overrides := policy_overrides db @ [x]\<rparr>))))"

section \<open>Invalidation\<close>

definition invalidated ::
  "principal \<Rightarrow> time \<Rightarrow> string \<Rightarrow> approval_request \<Rightarrow> approval_request" where
  "invalidated p now reason r =
     r\<lparr>ar_status := ApprovalRequestStatus.INVALIDATED, ar_invalidated_at := Some now,
       ar_invalidated_by := Some (subject_id p), ar_invalidation_reason := Some reason,
       ar_stage_due_at := None\<rparr>"

definition invalidate_request ::
  "principal \<Rightarrow> time \<Rightarrow> string \<Rightarrow> uuid \<Rightarrow> string \<Rightarrow> approval_request \<Rightarrow> 'a content_db_scheme
   \<Rightarrow> 'a content_db_scheme" where
  "invalidate_request p now reason new_version_id new_content_hash r db =
     record_change p now ''APPROVAL_INVALIDATED'' ''quality.approval.invalidated'' ''approval_request''
       (ar_id r) (Some (ar_content_id r)) (Some (ar_content_version_id r))
       [(''approved_or_requested_content_hash'', JStr (ar_content_hash r)),
        (''new_content_version_id'', JStr (uuid_str new_version_id)),
        (''new_content_hash'', JStr new_content_hash), (''reason'', JStr reason)]
       (state_event p (invalidated p now reason r) ''INVALIDATED_BY_EDIT'' (Some (ar_status r))
         [(''new_content_version_id'', JStr (uuid_str new_version_id)),
          (''new_content_hash'', JStr new_content_hash), (''reason'', JStr reason)]
         (update_request (ar_id r) (invalidated p now reason) db))"

definition active_approval :: "approval_request \<Rightarrow> bool" where
  "active_approval r \<longleftrightarrow>
     ar_status r = ApprovalRequestStatus.PENDING \<or> ar_status r = ApprovalRequestStatus.APPROVED"

definition to_invalidate ::
  "uuid \<Rightarrow> uuid \<Rightarrow> uuid \<Rightarrow> string \<Rightarrow> bool \<Rightarrow> approval_request \<Rightarrow> bool" where
  "to_invalidate ws content_id new_version_id new_content_hash force r \<longleftrightarrow>
     ar_workspace_id r = ws \<and> ar_content_id r = content_id \<and> active_approval r
     \<and> (force \<or> ar_content_version_id r \<noteq> new_version_id \<or> ar_content_hash r \<noteq> new_content_hash)"

definition invalidate_approvals_for_content_change ::
  "principal \<Rightarrow> time \<Rightarrow> uuid \<Rightarrow> uuid \<Rightarrow> string \<Rightarrow> string \<Rightarrow> bool \<Rightarrow> 'a content_db_scheme
   \<Rightarrow> 'a content_db_scheme" where
  "invalidate_approvals_for_content_change p now content_id new_version_id new_content_hash reason force db =
     (let requests = filter (to_invalidate (workspace_id p) content_id new_version_id new_content_hash force)
            (approval_requests db);
          db = foldl (\<lambda>db r. invalidate_request p now reason new_version_id new_content_hash r db) db requests
      in if requests = [] then db
         else record_change p now ''APPROVAL_INVALIDATED'' ''quality.approval.content_edit_invalidated''
           ''content'' content_id (Some content_id) (Some new_version_id)
           [(''new_content_hash'', JStr new_content_hash),
            (''invalidated_request_ids'', JList (map (\<lambda>r. JStr (uuid_str (ar_id r))) requests)),
            (''reason'', JStr reason), (''forced_by_context_change'', JBool force)] db)"

definition invalidate_approvals_after_edit ::
  "principal \<Rightarrow> time \<Rightarrow> uuid \<Rightarrow> uuid \<Rightarrow> string \<Rightarrow> string \<Rightarrow> 'a content_db_scheme
   \<Rightarrow> 'a content_db_scheme result" where
  "invalidate_approvals_after_edit p now content_id new_version_id new_content_hash reason db =
     bind_result (exact_content (workspace_id p) content_id new_version_id new_content_hash True db)
       (\<lambda>current. Inr (invalidate_approvals_for_content_change p now content_id
          (vs_content_version_id current) (vs_content_hash current) reason False db))"

end
