(* ===== verification/Approval_Decisions.thy ===== *)
theory Approval_Decisions
  imports Approval_Service
begin

text \<open>
  The quality configuration with its approval stages, and requesting an approval, deciding on it and
  proving it: \<open>create_quality_config\<close>, \<open>create_approval_request\<close>,
  \<open>decide_approval_request\<close> and \<open>approval_proof\<close> of \<^verbatim>\<open>domain/quality/service.py\<close>, and the query of
  \<^verbatim>\<open>domain/publishing/references.py\<close> that accepts an approved version for publishing.
\<close>

section \<open>The quality configuration\<close>

definition stage_json :: "approval_stage \<Rightarrow> json" where
  "stage_json s = JDict
     [(''key'', JStr (as_key s)), (''name'', JStr (as_name s)),
      (''required_approvals'', JInt (as_required_approvals s)),
      (''approver_user_ids'', JList (map (\<lambda>u. JStr (uuid_str u)) (as_approver_user_ids s))),
      (''require_mfa'', JBool (as_require_mfa s)),
      (''due_seconds'', case as_due_seconds s of None \<Rightarrow> JNull | Some n \<Rightarrow> JInt n)]"

record quality_config_create =
  qd_expected_previous_version :: int
  qd_minimum_total_score :: rat
  qd_minimum_component_scores :: "(string \<times> rat) list"
  qd_required_report_kinds :: "ReportKind list"
  qd_approval_stages :: "approval_stage list"
  qd_threshold_override_allowed :: bool
  qd_notes :: "string option"

text \<open>The field constraints of \<open>ApprovalStageConfig\<close> the code relies on, and \<open>config_is_coherent\<close>.\<close>

definition valid_stage :: "approval_stage \<Rightarrow> bool" where
  "valid_stage s \<longleftrightarrow> 1 \<le> as_required_approvals s \<and> as_required_approvals s \<le> 50
     \<and> (case as_due_seconds s of None \<Rightarrow> True | Some n \<Rightarrow> 60 \<le> n \<and> n \<le> 31536000)"

definition valid_stages :: "approval_stage list \<Rightarrow> bool" where
  "valid_stages ss \<longleftrightarrow> ss \<noteq> [] \<and> length ss \<le> 50 \<and> list_all valid_stage ss \<and> distinct (map as_key ss)"

definition valid_quality_config :: "quality_config_create \<Rightarrow> bool" where
  "valid_quality_config d \<longleftrightarrow> 0 \<le> qd_expected_previous_version d
     \<and> 0 \<le> qd_minimum_total_score d \<and> qd_minimum_total_score d \<le> 100
     \<and> set (map fst (qd_minimum_component_scores d)) \<subseteq> set (map fst QUALITY_COMPONENT_WEIGHTS)
     \<and> qd_required_report_kinds d \<noteq> [] \<and> distinct (qd_required_report_kinds d)
     \<and> valid_stages (qd_approval_stages d)"

primrec report_kind_value :: "ReportKind \<Rightarrow> string" where
  "report_kind_value ReportKind.MORPHOLOGY = ''MORPHOLOGY''"
| "report_kind_value ReportKind.NATURALNESS = ''NATURALNESS''"
| "report_kind_value ReportKind.SEO = ''SEO''"
| "report_kind_value ReportKind.DUPLICATION = ''DUPLICATION''"
| "report_kind_value ReportKind.FACT_CITATION = ''FACT_CITATION''"
| "report_kind_value ReportKind.SAFETY_POLICY = ''SAFETY_POLICY''"

definition config_snapshot :: "int \<Rightarrow> quality_config_create \<Rightarrow> json" where
  "config_snapshot version d = JDict
     [(''version'', JInt version), (''minimum_total_score'', JDec (qd_minimum_total_score d)),
      (''minimum_component_scores'',
       JDict (map (\<lambda>(k, v). (k, JDec v)) (qd_minimum_component_scores d))),
      (''required_report_kinds'', JList (map (\<lambda>k. JStr (report_kind_value k)) (qd_required_report_kinds d))),
      (''approval_stages'', JList (map stage_json (qd_approval_stages d))),
      (''threshold_override_allowed'', JBool (qd_threshold_override_allowed d)),
      (''notes'', case qd_notes d of None \<Rightarrow> JNull | Some n \<Rightarrow> JStr n)]"

definition latest_config_version :: "uuid \<Rightarrow> 'a content_db_scheme \<Rightarrow> int" where
  "latest_config_version ws db =
     foldl max 0 (map qc_version (filter (\<lambda>c. qc_workspace_id c = ws) (quality_configs db)))"

definition quality_conflict :: "string \<Rightarrow> error" where
  "quality_conflict resource = AppError ''QUALITY_CONFLICT'' 409 [(''resource'', resource)] None"

definition create_quality_config ::
  "hash_fn \<Rightarrow> time \<Rightarrow> principal \<Rightarrow> quality_config_create \<Rightarrow> 'a content_db_scheme
   \<Rightarrow> (quality_config \<times> 'a content_db_scheme) result" where
  "create_quality_config H now p d db =
     (let latest = latest_config_version (workspace_id p) db in
      if qd_expected_previous_version d \<noteq> latest
      then Inl (AppError ''CONFIG_VERSION_CONFLICT'' 409
             [(''resource'', ''workspace_quality_config''),
              (''expected_previous_version'', int_str (qd_expected_previous_version d)),
              (''actual_previous_version'', int_str latest)] None)
      else
      bind_result (require_active (workspace_id p)
                     (concat (map as_approver_user_ids (qd_approval_stages d))) db) (\<lambda>_.
      let (i, db) = uuid4 db;
          c = \<lparr>qc_id = i, qc_workspace_id = workspace_id p, qc_version = latest + 1,
               qc_minimum_total_score = qd_minimum_total_score d,
               qc_minimum_component_scores = qd_minimum_component_scores d,
               qc_required_report_kinds = qd_required_report_kinds d,
               qc_approval_stages = qd_approval_stages d,
               qc_threshold_override_allowed = qd_threshold_override_allowed d,
               qc_notes = qd_notes d, qc_config_hash = H (config_snapshot (latest + 1) d),
               qc_created_by = subject_id p\<rparr>
      in if list_ex (\<lambda>x. qc_workspace_id x = workspace_id p \<and> qc_config_hash x = qc_config_hash c)
              (quality_configs db)
         then Inl (quality_conflict ''workspace_quality_config'')
         else Inr (c, record_change p now ''CONFIG_CREATED'' ''quality.config.created''
           ''workspace_quality_config'' i None None
           [(''version'', JInt (qc_version c)), (''config_hash'', JStr (qc_config_hash c))]
           (db\<lparr>quality_configs := quality_configs db @ [c]\<rparr>))))"

section \<open>Requesting\<close>

record approval_request_create =
  aq_content_id :: uuid
  aq_content_version_id :: uuid
  aq_content_hash :: string
  aq_assessment_id :: uuid
  aq_expected_assessment_hash :: string
  aq_supersedes_request_id :: "uuid option"

definition stage_due_at :: "time \<Rightarrow> approval_stage \<Rightarrow> time option" where
  "stage_due_at now s =
     (case as_due_seconds s of None \<Rightarrow> None | Some n \<Rightarrow> if n = 0 then None else Some (now + seconds n))"

definition superseded :: "principal \<Rightarrow> time \<Rightarrow> approval_request \<Rightarrow> approval_request" where
  "superseded p now r =
     r\<lparr>ar_status := ApprovalRequestStatus.SUPERSEDED, ar_invalidated_at := Some now,
       ar_invalidated_by := Some (subject_id p), ar_invalidation_reason := Some ''superseded''\<rparr>"

text \<open>The request a new one replaces; the reason text of the code is display text.\<close>

definition supersede ::
  "principal \<Rightarrow> time \<Rightarrow> uuid option \<Rightarrow> ContentVersionSnapshot \<Rightarrow> 'a content_db_scheme
   \<Rightarrow> 'a content_db_scheme result" where
  "supersede p now target content db =
     (case target of
        None \<Rightarrow> Inr db
      | Some i \<Rightarrow>
          bind_result (find_request (workspace_id p) i db) (\<lambda>r.
          if ar_content_id r \<noteq> vs_content_id content
          then Inl (app_error ''APPROVAL_SUPERSEDES_CONTENT_MISMATCH'' 422)
          else if ar_status r = ApprovalRequestStatus.SUPERSEDED
          then Inl (app_error ''APPROVAL_ALREADY_SUPERSEDED'' 409)
          else Inr (state_event p (superseded p now r) ''SUPERSEDED'' (Some (ar_status r))
            [(''replacement_content_version_id'', JStr (uuid_str (vs_content_version_id content)))]
            (update_request (ar_id r) (superseded p now) db))))"

definition request_row ::
  "hash_fn \<Rightarrow> principal \<Rightarrow> time \<Rightarrow> ContentVersionSnapshot \<Rightarrow> quality_assessment \<Rightarrow> quality_config
   \<Rightarrow> uuid option \<Rightarrow> uuid \<Rightarrow> approval_request" where
  "request_row H p now content a config supersedes i =
     \<lparr>ar_id = i, ar_workspace_id = workspace_id p, ar_content_id = vs_content_id content,
      ar_content_version_id = vs_content_version_id content, ar_content_hash = vs_content_hash content,
      ar_assessment_id = qa_id a, ar_assessment_hash = qa_assessment_hash a,
      ar_quality_config_id = qc_id config, ar_quality_config_hash = qc_config_hash config,
      ar_approval_stages_snapshot = qc_approval_stages config,
      ar_approval_stages_hash = H (JList (map stage_json (qc_approval_stages config))),
      ar_status = ApprovalRequestStatus.PENDING, ar_current_stage_index = 0,
      ar_stage_due_at = stage_due_at now (hd (qc_approval_stages config)),
      ar_supersedes_request_id = supersedes, ar_requested_by = subject_id p, ar_requested_at = now,
      ar_approved_by = None, ar_approved_at = None, ar_approved_content_version_id = None,
      ar_approved_content_hash = None, ar_invalidated_at = None, ar_invalidated_by = None,
      ar_invalidation_reason = None, ar_lock_version = 1\<rparr>"

definition insert_request ::
  "principal \<Rightarrow> time \<Rightarrow> approval_request \<Rightarrow> 'a content_db_scheme \<Rightarrow> 'a content_db_scheme result" where
  "insert_request p now r db =
     (if list_ex (\<lambda>x. ar_workspace_id x = ar_workspace_id r
                      \<and> ar_content_version_id x = ar_content_version_id r
                      \<and> ar_assessment_id x = ar_assessment_id r) (approval_requests db)
      then Inl (quality_conflict ''approval_request'')
      else Inr (record_change p now ''APPROVAL_REQUESTED'' ''quality.approval.requested'' ''approval_request''
        (ar_id r) (Some (ar_content_id r)) (Some (ar_content_version_id r))
        [(''content_hash'', JStr (ar_content_hash r)),
         (''assessment_id'', JStr (uuid_str (ar_assessment_id r))),
         (''assessment_hash'', JStr (ar_assessment_hash r)),
         (''approval_stages_hash'', JStr (ar_approval_stages_hash r)),
         (''supersedes_request_id'', opt_uuid (ar_supersedes_request_id r))]
        (state_event p r ''REQUESTED'' None
          [(''assessment_hash'', JStr (ar_assessment_hash r)),
           (''approval_stages_hash'', JStr (ar_approval_stages_hash r))]
          (db\<lparr>approval_requests := approval_requests db @ [r]\<rparr>))))"

definition create_approval_request ::
  "hash_fn \<Rightarrow> time \<Rightarrow> principal \<Rightarrow> approval_request_create \<Rightarrow> 'a content_db_scheme
   \<Rightarrow> (approval_request \<times> 'a content_db_scheme) result" where
  "create_approval_request H now p d db =
     bind_result (exact_content (workspace_id p) (aq_content_id d) (aq_content_version_id d)
                    (aq_content_hash d) True db) (\<lambda>content.
     bind_result (find_assessment (workspace_id p) (aq_assessment_id d) db) (\<lambda>a.
     bind_result (assert_hash ''quality_assessment'' (aq_expected_assessment_hash d) (qa_assessment_hash a))
       (\<lambda>_.
     if qa_content_id a \<noteq> vs_content_id content
        \<or> qa_content_version_id a \<noteq> vs_content_version_id content
        \<or> qa_content_hash a \<noteq> vs_content_hash content
     then Inl (app_error ''APPROVAL_ASSESSMENT_CONTENT_MISMATCH'' 422)
     else
     bind_result (assert_assessment_approval_eligible (workspace_id p) a db) (\<lambda>_.
     bind_result (find_config (workspace_id p) (qa_quality_config_id a) db) (\<lambda>config.
     if qc_config_hash config \<noteq> qa_quality_config_hash a
     then Inl (app_error ''APPROVAL_CONFIG_SNAPSHOT_MISMATCH'' 409)
     else if qc_approval_stages config = [] then Inl (app_error ''APPROVAL_STAGES_REQUIRED'' 409)
     else
     bind_result (require_active (workspace_id p)
                    (concat (map as_approver_user_ids (qc_approval_stages config))) db) (\<lambda>_.
     bind_result (supersede p now (aq_supersedes_request_id d) content db) (\<lambda>db.
     let (i, db) = uuid4 db;
         r = request_row H p now content a config (aq_supersedes_request_id d) i
     in bind_result (insert_request p now r db) (\<lambda>db. Inr (r, db)))))))))"

section \<open>Deciding\<close>

record approval_decision_create =
  dc_expected_lock_version :: int
  dc_expected_content_version_id :: uuid
  dc_expected_content_hash :: string
  dc_decision :: ApprovalDecisionKind
  dc_comment :: "string option"

definition valid_decision_create :: "approval_decision_create \<Rightarrow> bool" where
  "valid_decision_create d \<longleftrightarrow> 1 \<le> dc_expected_lock_version d
     \<and> (dc_decision d = ApprovalDecisionKind.APPROVE
        \<or> (case dc_comment d of None \<Rightarrow> False | Some c \<Rightarrow> c \<noteq> []))"

definition expired :: "approval_request \<Rightarrow> approval_request" where
  "expired r = r\<lparr>ar_status := ApprovalRequestStatus.EXPIRED\<rparr>"

definition expire_request ::
  "principal \<Rightarrow> time \<Rightarrow> approval_request \<Rightarrow> time \<Rightarrow> 'a content_db_scheme \<Rightarrow> 'a content_db_scheme" where
  "expire_request p now r due db =
     record_change p now ''APPROVAL_DECIDED'' ''quality.approval.expired'' ''approval_request'' (ar_id r)
       (Some (ar_content_id r)) (Some (ar_content_version_id r)) [(''stage_due_at'', JTime due)]
       (state_event p (expired r) ''EXPIRED'' (Some (ar_status r)) [(''stage_due_at'', JTime due)]
         (update_request (ar_id r) expired db))"

text \<open>Who may decide in a stage: an assigned approver, with a second factor where the stage needs it.\<close>

definition MFA_METHODS :: "string list" where
  "MFA_METHODS = [''mfa'', ''totp'', ''totp_or_recovery'', ''webauthn'']"

definition used_mfa :: "string \<Rightarrow> bool" where
  "used_mfa authentication \<longleftrightarrow> list_ex (\<lambda>m. m \<in> set MFA_METHODS) (split_on CHR ''+'' authentication)"

definition check_approver :: "principal \<Rightarrow> approval_stage \<Rightarrow> unit result" where
  "check_approver p stage =
     (if as_approver_user_ids stage \<noteq> [] \<and> subject_id p \<notin> set (as_approver_user_ids stage)
      then Inl (app_error ''APPROVER_NOT_ASSIGNED'' 403)
      else if as_require_mfa stage \<and> \<not> used_mfa (authentication_method p)
      then Inl (app_error ''APPROVAL_MFA_REQUIRED'' 403)
      else Inr ())"

definition prior_approvers :: "uuid \<Rightarrow> uuid \<Rightarrow> string \<Rightarrow> 'a content_db_scheme \<Rightarrow> uuid list" where
  "prior_approvers ws request_id stage_key db =
     map ad_decided_by (filter (\<lambda>a. ad_workspace_id a = ws \<and> ad_approval_request_id a = request_id
         \<and> ad_stage_key a = stage_key \<and> ad_decision a = ApprovalDecisionKind.APPROVE)
       (approval_decisions db))"

text \<open>The request after a decision.\<close>

definition decided ::
  "principal \<Rightarrow> time \<Rightarrow> approval_decision_create \<Rightarrow> bool \<Rightarrow> ApprovalRequestStatus \<Rightarrow> approval_request
   \<Rightarrow> approval_request" where
  "decided p now d advance new_status r =
     (let stages = ar_approval_stages_snapshot r;
          r = (if advance
               then r\<lparr>ar_current_stage_index := ar_current_stage_index r + 1,
                      ar_stage_due_at := stage_due_at now (stages ! (ar_current_stage_index r + 1))\<rparr>
               else r);
          r = r\<lparr>ar_status := new_status\<rparr>
      in if new_status = ApprovalRequestStatus.APPROVED
         then r\<lparr>ar_approved_by := Some (subject_id p), ar_approved_at := Some now,
                ar_approved_content_version_id := Some (ar_content_version_id r),
                ar_approved_content_hash := Some (ar_content_hash r), ar_stage_due_at := None\<rparr>
         else if new_status \<in> {ApprovalRequestStatus.REJECTED, ApprovalRequestStatus.CHANGES_REQUESTED}
         then r\<lparr>ar_stage_due_at := None\<rparr>
         else r)"

definition decision_row ::
  "principal \<Rightarrow> time \<Rightarrow> approval_decision_create \<Rightarrow> approval_stage \<Rightarrow> nat
   \<Rightarrow> ApprovalRequestStatus \<Rightarrow> ApprovalRequestStatus \<Rightarrow> approval_request \<Rightarrow> uuid \<Rightarrow> approval_decision" where
  "decision_row p now d stage index from_status to_status r i =
     \<lparr>ad_id = i, ad_workspace_id = workspace_id p, ad_approval_request_id = ar_id r,
      ad_content_version_id = ar_content_version_id r, ad_content_hash = ar_content_hash r,
      ad_stage_key = as_key stage, ad_stage_index = index, ad_decision = dc_decision d,
      ad_from_status = from_status, ad_to_status = to_status, ad_comment = dc_comment d,
      ad_authentication_method = authentication_method p, ad_decided_by = subject_id p,
      ad_decided_at = now\<rparr>"

definition insert_decision ::
  "approval_decision \<Rightarrow> 'a content_db_scheme \<Rightarrow> 'a content_db_scheme result" where
  "insert_decision x db =
     (if list_ex (\<lambda>a. ad_workspace_id a = ad_workspace_id x
            \<and> ad_approval_request_id a = ad_approval_request_id x \<and> ad_stage_key a = ad_stage_key x
            \<and> ad_decided_by a = ad_decided_by x) (approval_decisions db)
      then Inl (quality_conflict ''approval_decision'')
      else Inr (db\<lparr>approval_decisions := approval_decisions db @ [x]\<rparr>))"

definition apply_decision ::
  "time \<Rightarrow> principal \<Rightarrow> approval_decision_create \<Rightarrow> approval_request \<Rightarrow> approval_stage \<Rightarrow> 'a content_db_scheme
   \<Rightarrow> ((approval_request \<times> approval_decision option) \<times> 'a content_db_scheme) result" where
  "apply_decision now p d r stage db =
     (let prior = prior_approvers (workspace_id p) (ar_id r) (as_key stage) db;
          index = ar_current_stage_index r;
          final_stage = (Suc index = length (ar_approval_stages_snapshot r))
      in if subject_id p \<in> set prior then Inl (app_error ''APPROVAL_DECISION_DUPLICATE'' 409)
         else
         bind_result (approval_quorum_reached prior (subject_id p) (as_required_approvals stage)) (\<lambda>quorum.
         bind_result (case transition_approval (ar_status r) (dc_decision d) quorum final_stage of
             Inl _ \<Rightarrow> Inl (app_error ''APPROVAL_TRANSITION_INVALID'' 409) | Inr s \<Rightarrow> Inr s) (\<lambda>new_status.
         let advance = (dc_decision d = ApprovalDecisionKind.APPROVE \<and> quorum \<and> \<not> final_stage);
             index' = (if advance then index + 1 else index);
             r' = touch_request (decided p now d advance new_status) r;
             db = update_request (ar_id r) (decided p now d advance new_status) db;
             (i, db) = uuid4 db;
             row = decision_row p now d stage
               (if \<not> quorum then index'
                else if dc_decision d = ApprovalDecisionKind.APPROVE \<and> \<not> final_stage then index' - 1
                else index')
               (ar_status r) new_status r i;
             db = state_event p r' ''DECIDED'' (Some (ar_status r))
               [(''decision_id'', JStr (uuid_str i)),
                (''decision'', JStr (approval_decision_value (dc_decision d))),
                (''stage_key'', JStr (as_key stage)), (''quorum_reached'', JBool quorum),
                (''final_stage'', JBool final_stage)] db
         in bind_result (insert_decision row db) (\<lambda>db.
            Inr ((r', Some row),
              record_change p now ''APPROVAL_DECIDED''
                (if new_status = ApprovalRequestStatus.APPROVED then ''quality.approval.approved''
                 else ''quality.approval.decision_recorded'')
                ''approval_request'' (ar_id r) (Some (ar_content_id r)) (Some (ar_content_version_id r))
                [(''decision_id'', JStr (uuid_str i)),
                 (''decision'', JStr (approval_decision_value (dc_decision d))),
                 (''stage_key'', JStr (as_key stage)),
                 (''status'', JStr (approval_status_value new_status)),
                 (''content_hash'', JStr (ar_content_hash r))] db)))))"

definition decide_in_stage ::
  "time \<Rightarrow> principal \<Rightarrow> approval_decision_create \<Rightarrow> approval_request \<Rightarrow> 'a content_db_scheme
   \<Rightarrow> ((approval_request \<times> approval_decision option) \<times> 'a content_db_scheme) result" where
  "decide_in_stage now p d r db =
     (if length (ar_approval_stages_snapshot r) \<le> ar_current_stage_index r
      then Inl (app_error ''APPROVAL_STAGE_INVALID'' 409)
      else let stage = ar_approval_stages_snapshot r ! ar_current_stage_index r
           in bind_result (check_approver p stage) (\<lambda>_. apply_decision now p d r stage db))"

definition decide_approval_request ::
  "time \<Rightarrow> principal \<Rightarrow> uuid \<Rightarrow> approval_decision_create \<Rightarrow> 'a content_db_scheme
   \<Rightarrow> ((approval_request \<times> approval_decision option) \<times> 'a content_db_scheme) result" where
  "decide_approval_request now p request_id d db =
     bind_result (find_request (workspace_id p) request_id db) (\<lambda>r.
     bind_result (assert_lock ''approval_request'' (dc_expected_lock_version d) (ar_lock_version r)) (\<lambda>_.
     if ar_content_version_id r \<noteq> dc_expected_content_version_id d
        \<or> ar_content_hash r \<noteq> dc_expected_content_hash d
     then Inl (app_error ''APPROVAL_CONTENT_SNAPSHOT_CONFLICT'' 409)
     else if ar_status r \<noteq> ApprovalRequestStatus.PENDING
     then Inl (app_error ''APPROVAL_REQUEST_NOT_PENDING'' 409)
     else bind_result (current_version (workspace_id p) (ar_content_id r) db) (\<lambda>current.
     if \<not> exact_content_version_matches (ar_content_version_id r) (ar_content_hash r)
            (vs_content_version_id current) (vs_content_hash current)
     then Inr ((touch_request (invalidated p now ''edited'') r, None),
            invalidate_request p now ''edited'' (vs_content_version_id current) (vs_content_hash current)
              r db)
     else case ar_stage_due_at r of
       Some due \<Rightarrow>
         if due < now then Inr ((touch_request expired r, None), expire_request p now r due db)
         else decide_in_stage now p d r db
     | None \<Rightarrow> decide_in_stage now p d r db)))"

section \<open>Proof of an approval\<close>

record ApprovalProof =
  ap_approval_request_id :: uuid
  ap_content_id :: uuid
  ap_content_version_id :: uuid
  ap_content_hash :: string
  ap_assessment_id :: uuid
  ap_assessment_hash :: string
  ap_approved_by :: uuid
  ap_approved_at :: time
  ap_approval_stages_hash :: string
  ap_quality_config_hash :: string

definition approval_proof :: "principal \<Rightarrow> uuid \<Rightarrow> 'a content_db_scheme \<Rightarrow> ApprovalProof result" where
  "approval_proof p request_id db =
     bind_result (find_request (workspace_id p) request_id db) (\<lambda>r.
     if ar_status r \<noteq> ApprovalRequestStatus.APPROVED then Inl (app_error ''CONTENT_NOT_APPROVED'' 409)
     else bind_result (current_version (workspace_id p) (ar_content_id r) db) (\<lambda>current.
     if \<not> exact_content_version_matches (ar_content_version_id r) (ar_content_hash r)
            (vs_content_version_id current) (vs_content_hash current)
     then Inl (AppError ''APPROVAL_INVALIDATED_BY_EDIT'' 409 []
            (Some (JDict [(''action'', JStr ''REQUEST_NEW_QUALITY_ASSESSMENT_AND_APPROVAL''),
              (''current_content_version_id'', JStr (uuid_str (vs_content_version_id current))),
              (''current_content_hash'', JStr (vs_content_hash current))])))
     else (case (ar_approved_by r, ar_approved_at r) of
         (Some approver, Some time) \<Rightarrow>
           if ar_approved_content_version_id r \<noteq> Some (ar_content_version_id r)
              \<or> ar_approved_content_hash r \<noteq> Some (ar_content_hash r)
           then Inl (app_error ''APPROVAL_PROOF_INCOMPLETE'' 409)
           else Inr \<lparr>ap_approval_request_id = ar_id r, ap_content_id = ar_content_id r,
             ap_content_version_id = ar_content_version_id r, ap_content_hash = ar_content_hash r,
             ap_assessment_id = ar_assessment_id r, ap_assessment_hash = ar_assessment_hash r,
             ap_approved_by = approver, ap_approved_at = time,
             ap_approval_stages_hash = ar_approval_stages_hash r,
             ap_quality_config_hash = ar_quality_config_hash r\<rparr>
       | _ \<Rightarrow> Inl (app_error ''APPROVAL_PROOF_INCOMPLETE'' 409))))"

section \<open>Readiness for publishing\<close>

text \<open>The joined row a publishing request needs: the current version with that hash on that channel,
  an approval of exactly it that was not invalidated, and the assessment behind the approval.\<close>

definition approval_ready ::
  "content_item \<Rightarrow> content_version \<Rightarrow> approval_request \<Rightarrow> bool" where
  "approval_ready c v a \<longleftrightarrow>
     ar_content_id a = ct_id c \<and> ar_content_version_id a = cv_id v
     \<and> ar_status a = ApprovalRequestStatus.APPROVED \<and> ar_invalidated_at a = None
     \<and> ar_approved_content_version_id a = Some (cv_id v)
     \<and> ar_approved_content_hash a = Some (cv_content_hash v)
     \<and> ar_approved_by a \<noteq> None \<and> ar_approved_at a \<noteq> None"

definition assessment_of_approval ::
  "content_item \<Rightarrow> content_version \<Rightarrow> approval_request \<Rightarrow> quality_assessment \<Rightarrow> bool" where
  "assessment_of_approval c v a qa \<longleftrightarrow>
     qa_workspace_id qa = ar_workspace_id a \<and> qa_id qa = ar_assessment_id a \<and> qa_content_id qa = ct_id c
     \<and> qa_content_version_id qa = cv_id v \<and> qa_content_hash qa = cv_content_hash v
     \<and> qa_assessment_hash qa = ar_assessment_hash a
     \<and> qa_quality_config_id qa = ar_quality_config_id a
     \<and> qa_quality_config_hash qa = ar_quality_config_hash a"

definition publish_ready ::
  "uuid \<Rightarrow> uuid \<Rightarrow> uuid \<Rightarrow> string \<Rightarrow> uuid \<Rightarrow> string \<Rightarrow> 'a content_db_scheme
   \<Rightarrow> (content_item \<times> content_version \<times> approval_request) result" where
  "publish_ready ws content_id version_id content_hash request_id channel db =
     (let failed = Inl (app_error ''PUBLISH_READINESS_FAILED'' 409) in
      case (live_content ws content_id db,
            List.find (\<lambda>v. cv_workspace_id v = ws \<and> cv_content_id v = content_id \<and> cv_id v = version_id
                \<and> cv_content_hash v = content_hash) (content_versions db),
            List.find (\<lambda>a. ar_workspace_id a = ws \<and> ar_id a = request_id) (approval_requests db)) of
        (Some c, Some v, Some a) \<Rightarrow>
          if ct_channel c = channel \<and> ct_current_version_id c = Some version_id \<and> approval_ready c v a
             \<and> list_ex (assessment_of_approval c v a) (quality_assessments db)
          then Inr (c, v, a) else failed
      | _ \<Rightarrow> failed)"

end
