(* ===== verification/Content_Service.thy ===== *)
theory Content_Service
  imports Approval_Decisions
begin

text \<open>
  The content operations of \<^verbatim>\<open>domain/generation/service.py\<close>: creating, updating and trashing a content
  item, its versions (create, restore, the result of a generation job), collaboration events and
  feedback, and the export. A change of the current version, or of what an approval is about, goes to
  the approvals (\<open>invalidate_approvals_for_content_change\<close>) in the same transaction.

  Rows other domains own are not looked up: the foreign keys to briefs, brands and prompts.
\<close>

section \<open>Values\<close>

text \<open>Equality of JSON values as Python compares them: objects by key, lists by position.\<close>

fun json_eq :: "json \<Rightarrow> json \<Rightarrow> bool"
  and json_list_eq :: "json list \<Rightarrow> json list \<Rightarrow> bool"
  and json_members_in :: "(string \<times> json) list \<Rightarrow> (string \<times> json) list \<Rightarrow> bool" where
  "json_eq (JDict a) w =
     (case w of JDict b \<Rightarrow> set (map fst a) = set (map fst b) \<and> json_members_in a b | _ \<Rightarrow> False)"
| "json_eq (JList xs) w = (case w of JList ys \<Rightarrow> json_list_eq xs ys | _ \<Rightarrow> False)"
| "json_eq v w = py_eq v w"
| "json_list_eq [] ys = (ys = [])"
| "json_list_eq (x # xs) ys = (case ys of [] \<Rightarrow> False | y # ys \<Rightarrow> json_eq x y \<and> json_list_eq xs ys)"
| "json_members_in [] b = True"
| "json_members_in ((k, v) # a) b =
     ((case map_of b k of None \<Rightarrow> False | Some w \<Rightarrow> json_eq v w) \<and> json_members_in a b)"

definition content_document_hash :: "hash_fn \<Rightarrow> string \<Rightarrow> json list \<Rightarrow> string" where
  "content_document_hash H title document =
     H (JDict [(''title'', JStr title), (''document'', JList document)])"

definition lock_conflict :: "int \<Rightarrow> int \<Rightarrow> error" where
  "lock_conflict expected actual =
     AppError ''OPTIMISTIC_LOCK_CONFLICT'' 409
       [(''expected_lock_version'', int_str expected @ ''!='' @ int_str actual)] None"

definition opt_uuid_text :: "uuid option \<Rightarrow> string" where
  "opt_uuid_text i = (case i of None \<Rightarrow> ''None'' | Some u \<Rightarrow> uuid_str u)"

definition lock_conflict_id :: "uuid option \<Rightarrow> uuid option \<Rightarrow> error" where
  "lock_conflict_id expected actual =
     AppError ''CONTENT_VERSION_CONFLICT'' 409
       [(''expected_current_version_id'',
         ''expected='' @ opt_uuid_text expected @ '', actual='' @ opt_uuid_text actual)] None"

definition update_content_row ::
  "uuid \<Rightarrow> (content_item \<Rightarrow> content_item) \<Rightarrow> 'a content_db_scheme \<Rightarrow> 'a content_db_scheme" where
  "update_content_row i f db =
     db\<lparr>contents := update_where (\<lambda>c. ct_id c = i) (touch_content f) (contents db)\<rparr>"

section \<open>Versions\<close>

definition get_version ::
  "uuid \<Rightarrow> uuid \<Rightarrow> uuid \<Rightarrow> 'a content_db_scheme \<Rightarrow> content_version result" where
  "get_version ws content_id version_id db =
     (case List.find (\<lambda>v. cv_workspace_id v = ws \<and> cv_content_id v = content_id \<and> cv_id v = version_id)
             (content_versions db) of
        None \<Rightarrow> Inl (not_found ''CONTENT_VERSION'') | Some v \<Rightarrow> Inr v)"

definition list_versions :: "uuid \<Rightarrow> uuid \<Rightarrow> 'a content_db_scheme \<Rightarrow> content_version list result" where
  "list_versions ws content_id db =
     bind_result (find_content ws content_id True db) (\<lambda>_.
       Inr (rev (sort_key cv_version_number
         (filter (\<lambda>v. cv_workspace_id v = ws \<and> cv_content_id v = content_id) (content_versions db)))))"

definition next_version_number :: "uuid \<Rightarrow> uuid \<Rightarrow> 'a content_db_scheme \<Rightarrow> nat" where
  "next_version_number ws content_id db =
     Suc (foldl max 0 (map cv_version_number
       (filter (\<lambda>v. cv_workspace_id v = ws \<and> cv_content_id v = content_id) (content_versions db))))"

definition block_row :: "uuid \<Rightarrow> uuid \<Rightarrow> uuid \<Rightarrow> nat \<Rightarrow> content_block_input \<Rightarrow> content_block" where
  "block_row i ws version_id position b =
     \<lparr>cb_id = i, cb_workspace_id = ws, cb_content_version_id = version_id,
      cb_block_key = bi_block_key b, cb_block_type = bi_block_type b, cb_position = position,
      cb_payload = bi_payload b, cb_plain_text = bi_plain_text b,
      cb_locked_facts = bi_locked_facts b, cb_source_anchors = bi_source_anchors b\<rparr>"

fun block_rows ::
  "uuid \<Rightarrow> uuid \<Rightarrow> nat \<Rightarrow> content_block_input list \<Rightarrow> 'a content_db_scheme
   \<Rightarrow> content_block list \<times> 'a content_db_scheme" where
  "block_rows ws version_id position [] db = ([], db)"
| "block_rows ws version_id position (b # bs) db =
     (let (i, db) = uuid4 db;
          (rows, db) = block_rows ws version_id (Suc position) bs db
      in (block_row i ws version_id position b # rows, db))"

record version_origin =
  vo_restored_from :: "uuid option"
  vo_generation_job :: "uuid option"
  vo_generation_snapshot :: "uuid option"

abbreviation no_origin :: version_origin where
  "no_origin \<equiv> \<lparr>vo_restored_from = None, vo_generation_job = None, vo_generation_snapshot = None\<rparr>"

definition version_row ::
  "hash_fn \<Rightarrow> principal \<Rightarrow> content_item \<Rightarrow> string \<Rightarrow> content_block_input list \<Rightarrow> ContentChangeKind
   \<Rightarrow> string option \<Rightarrow> string option \<Rightarrow> version_origin \<Rightarrow> nat \<Rightarrow> uuid \<Rightarrow> content_version" where
  "version_row H p content title blocks change_kind note source_hash origin number i =
     (let document = map block_json blocks
      in \<lparr>cv_id = i, cv_workspace_id = workspace_id p, cv_content_id = ct_id content,
          cv_parent_version_id = ct_current_version_id content,
          cv_restored_from_version_id = vo_restored_from origin,
          cv_generation_job_id = vo_generation_job origin,
          cv_generation_snapshot_id = vo_generation_snapshot origin, cv_version_number = number,
          cv_title = title, cv_document = document,
          cv_plain_text = join_with [char_of (10::nat), char_of (10::nat)]
            (filter (\<lambda>t. t \<noteq> []) (map bi_plain_text blocks)),
          cv_content_hash = content_document_hash H title document,
          cv_source_snapshot_hash = source_hash, cv_change_kind = change_kind, cv_change_note = note,
          cv_created_by = subject_id p\<rparr>)"

definition append_version ::
  "hash_fn \<Rightarrow> principal \<Rightarrow> content_item \<Rightarrow> string \<Rightarrow> content_block_input list \<Rightarrow> ContentChangeKind
   \<Rightarrow> string option \<Rightarrow> string option \<Rightarrow> version_origin \<Rightarrow> 'a content_db_scheme
   \<Rightarrow> (content_version \<times> 'a content_db_scheme) result" where
  "append_version H p content title blocks change_kind note source_hash origin db =
     (let number = next_version_number (workspace_id p) (ct_id content) db;
          (i, db) = uuid4 db;
          version = version_row H p content title blocks change_kind note source_hash origin number i;
          (rows, db) = block_rows (workspace_id p) i 0 blocks db
      in if 500 < length title then Inl (DataError ''content_versions.title'')
         else if \<not> distinct (map cb_block_key rows) then Inl (IntegrityError ''content_block_key'')
         else Inr (version, db\<lparr>content_versions := content_versions db @ [version],
                               content_blocks := content_blocks db @ rows\<rparr>))"

definition assert_current_version ::
  "uuid \<Rightarrow> content_item \<Rightarrow> uuid option \<Rightarrow> string option \<Rightarrow> 'a content_db_scheme
   \<Rightarrow> content_version option result" where
  "assert_current_version ws content expected_id expected_hash db =
     (if ct_current_version_id content \<noteq> expected_id
      then Inl (lock_conflict_id expected_id (ct_current_version_id content))
      else case ct_current_version_id content of
        None \<Rightarrow> Inr None
      | Some i \<Rightarrow>
          (case List.find (\<lambda>v. cv_workspace_id v = ws \<and> cv_id v = i) (content_versions db) of
             None \<Rightarrow> Inl (not_found ''CONTENT_VERSION'')
           | Some v \<Rightarrow>
               if expected_hash \<noteq> None \<and> expected_hash \<noteq> Some (cv_content_hash v)
               then Inl (app_error ''CONTENT_VERSION_HASH_CONFLICT'' 409)
               else Inr (Some v)))"

text \<open>\<open>block.get("locked_facts", [])\<close> of the stored blocks.\<close>

definition document_facts :: "json list \<Rightarrow> json list" where
  "document_facts document =
     concat (map (\<lambda>v. case v of
         JDict d \<Rightarrow> (case map_of d ''locked_facts'' of Some (JList facts) \<Rightarrow> facts | _ \<Rightarrow> [])
       | _ \<Rightarrow> []) document)"

definition assert_locked_facts_preserved ::
  "hash_fn \<Rightarrow> json list \<Rightarrow> content_block_input list \<Rightarrow> unit result" where
  "assert_locked_facts_preserved H current_document new_blocks =
     (let expected = map H (document_facts current_document);
          actual = map (\<lambda>f. H (JDict f)) (concat (map bi_locked_facts new_blocks))
      in ensure (set expected \<subseteq> set actual) (app_error ''LOCKED_FACT_CHANGED'' 409))"

section \<open>Collaboration events\<close>

definition insert_event ::
  "collaboration_event \<Rightarrow> 'a content_db_scheme \<Rightarrow> 'a content_db_scheme result" where
  "insert_event e db =
     (if list_ex (\<lambda>x. ce_workspace_id x = ce_workspace_id e \<and> ce_actor_id x = ce_actor_id e
            \<and> ce_client_operation_id x = ce_client_operation_id e) (collaboration_events db)
      then Inl (IntegrityError ''content_event_client_op'')
      else Inr (db\<lparr>collaboration_events := collaboration_events db @ [e]\<rparr>))"

definition version_event ::
  "time \<Rightarrow> principal \<Rightarrow> uuid \<Rightarrow> content_version \<Rightarrow> string \<Rightarrow> CollaborationEventKind \<Rightarrow> 'a content_db_scheme
   \<Rightarrow> 'a content_db_scheme result" where
  "version_event now p content_id v event_type event_kind db =
     (let (i, db) = uuid4 db;
          e = \<lparr>ce_id = i, ce_workspace_id = workspace_id p, ce_content_id = content_id,
               ce_content_version_id = Some (cv_id v), ce_actor_id = subject_id p,
               ce_client_operation_id = ''server:'' @ event_type @ '':'' @ uuid_str (cv_id v),
               ce_event_kind = event_kind, ce_block_key = None, ce_text_range = None,
               ce_payload = [(''version_number'', JInt (int (cv_version_number v))),
                             (''hash'', JStr (cv_content_hash v))]\<rparr>
      in bind_result (insert_event e db) (\<lambda>db.
           Inr (job_record p now event_type ''content_version'' (cv_id v) event_type
             (JDict [(''content_id'', JStr (uuid_str content_id)),
                     (''content_version_id'', JStr (uuid_str (cv_id v))),
                     (''content_hash'', JStr (cv_content_hash v))]) db)))"

record collaboration_event_create =
  ee_content_version_id :: "uuid option"
  ee_client_operation_id :: string
  ee_event_kind :: CollaborationEventKind
  ee_block_key :: "uuid option"
  ee_text_range :: "(string \<times> json) list option"
  ee_payload :: "(string \<times> json) list"

definition append_collaboration_event ::
  "principal \<Rightarrow> uuid \<Rightarrow> collaboration_event_create \<Rightarrow> 'a content_db_scheme
   \<Rightarrow> (collaboration_event \<times> 'a content_db_scheme) result" where
  "append_collaboration_event p content_id d db =
     bind_result (find_content (workspace_id p) content_id False db) (\<lambda>content.
     bind_result (case ee_content_version_id d of None \<Rightarrow> Inr ()
        | Some v \<Rightarrow> bind_result (get_version (workspace_id p) content_id v db) (\<lambda>_. Inr ())) (\<lambda>_.
     case List.find (\<lambda>x. ce_workspace_id x = workspace_id p \<and> ce_actor_id x = subject_id p
            \<and> ce_client_operation_id x = ee_client_operation_id d) (collaboration_events db) of
       Some x \<Rightarrow> Inr (x, db)
     | None \<Rightarrow>
         let (i, db) = uuid4 db;
             e = \<lparr>ce_id = i, ce_workspace_id = workspace_id p, ce_content_id = ct_id content,
                  ce_content_version_id = ee_content_version_id d, ce_actor_id = subject_id p,
                  ce_client_operation_id = ee_client_operation_id d, ce_event_kind = ee_event_kind d,
                  ce_block_key = ee_block_key d, ce_text_range = ee_text_range d,
                  ce_payload = ee_payload d\<rparr>
         in bind_result (insert_event e db) (\<lambda>db. Inr (e, db))))"

section \<open>The content item\<close>

record content_create =
  co_content_type :: ContentType
  co_channel :: string
  co_language :: string
  co_title :: string
  co_brand_id :: "uuid option"
  co_brief_id :: "uuid option"
  co_document :: "content_block_input list"
  co_change_note :: "string option"
  co_metadata_json :: "(string \<times> json) list"
  co_tags :: "string list"

definition set_current ::
  "uuid \<Rightarrow> content_version \<Rightarrow> content_item \<Rightarrow> content_item" where
  "set_current actor v c =
     c\<lparr>ct_current_version_id := Some (cv_id v), ct_title := cv_title v, ct_updated_by := actor\<rparr>"

definition new_content :: "principal \<Rightarrow> content_create \<Rightarrow> uuid \<Rightarrow> content_item" where
  "new_content p d i =
     \<lparr>ct_id = i, ct_workspace_id = workspace_id p, ct_brief_id = co_brief_id d,
      ct_brand_id = co_brand_id d, ct_content_type = co_content_type d, ct_channel = co_channel d,
      ct_language = co_language d, ct_title = co_title d, ct_state = JobState.CREATED,
      ct_current_version_id = None, ct_folder_path = None,
      ct_tags = Some (dict_fromkeys (co_tags d)), ct_metadata_json = Some (co_metadata_json d),
      ct_expires_at = None, ct_archived_at = None, ct_deleted_at = None, ct_retention_hold = False,
      ct_created_by = subject_id p, ct_updated_by = subject_id p, ct_lock_version = 1\<rparr>"

definition create_content ::
  "hash_fn \<Rightarrow> time \<Rightarrow> principal \<Rightarrow> content_create \<Rightarrow> 'a content_db_scheme
   \<Rightarrow> (content_item \<times> 'a content_db_scheme) result" where
  "create_content H now p d db =
     (let (i, db) = uuid4 db;
          content = new_content p d i;
          db = db\<lparr>contents := contents db @ [content]\<rparr>
      in bind_result
           (if co_document d = [] then Inr db
            else bind_result (append_version H p content (co_title d) (co_document d)
                   ContentChangeKind.MANUAL (co_change_note d) None no_origin db) (\<lambda>(v, db).
                 Inr (update_content_row i (\<lambda>c. c\<lparr>ct_current_version_id := Some (cv_id v)\<rparr>) db)))
           (\<lambda>db. bind_result (find_content (workspace_id p) i False db) (\<lambda>content.
             Inr (content, job_record p now ''content.created'' ''content'' i ''content.created''
               (JDict [(''content_id'', JStr (uuid_str i))]) db))))"

text \<open>A field of \<open>ContentUpdate\<close> is \<open>None\<close> when the request leaves it out (\<open>model_fields_set\<close>), and
  \<open>Some None\<close> when it is null.\<close>

record content_update =
  cu_expected_lock_version :: int
  cu_title :: "string option option"
  cu_channel :: "string option option"
  cu_folder_path :: "string option option"
  cu_tags :: "string list option option"
  cu_metadata_json :: "(string \<times> json) list option option"
  cu_expires_at :: "time option option"
  cu_archived :: "bool option option"

definition fields_set :: "content_update \<Rightarrow> string list" where
  "fields_set d = sort (map fst (filter snd
     [(''expected_lock_version'', True), (''title'', cu_title d \<noteq> None),
      (''channel'', cu_channel d \<noteq> None), (''folder_path'', cu_folder_path d \<noteq> None),
      (''tags'', cu_tags d \<noteq> None), (''metadata_json'', cu_metadata_json d \<noteq> None),
      (''expires_at'', cu_expires_at d \<noteq> None), (''archived'', cu_archived d \<noteq> None)]))"

definition opt_dict :: "(string \<times> json) list option \<Rightarrow> json" where
  "opt_dict d = (case d of None \<Rightarrow> JNull | Some d \<Rightarrow> JDict d)"

definition approval_context_changed :: "content_update \<Rightarrow> content_item \<Rightarrow> bool" where
  "approval_context_changed d c \<longleftrightarrow>
     (case cu_channel d of None \<Rightarrow> False | Some v \<Rightarrow> v \<noteq> Some (ct_channel c))
     \<or> (case cu_metadata_json d of None \<Rightarrow> False
        | Some v \<Rightarrow> \<not> json_eq (opt_dict v) (opt_dict (ct_metadata_json c)))"

definition applied_update :: "principal \<Rightarrow> time \<Rightarrow> content_update \<Rightarrow> content_item \<Rightarrow> content_item" where
  "applied_update p now d c =
     c\<lparr>ct_title := (case cu_title d of Some (Some v) \<Rightarrow> v | _ \<Rightarrow> ct_title c),
       ct_channel := (case cu_channel d of Some (Some v) \<Rightarrow> v | _ \<Rightarrow> ct_channel c),
       ct_folder_path := (case cu_folder_path d of None \<Rightarrow> ct_folder_path c | Some v \<Rightarrow> v),
       ct_tags := (case cu_tags d of None \<Rightarrow> ct_tags c | Some v \<Rightarrow> map_option dict_fromkeys v),
       ct_metadata_json := (case cu_metadata_json d of None \<Rightarrow> ct_metadata_json c | Some v \<Rightarrow> v),
       ct_expires_at := (case cu_expires_at d of None \<Rightarrow> ct_expires_at c | Some v \<Rightarrow> v),
       ct_archived_at := (case cu_archived d of None \<Rightarrow> ct_archived_at c
         | Some v \<Rightarrow> if v = Some True then Some now else None),
       ct_updated_by := subject_id p\<rparr>"

definition update_content ::
  "time \<Rightarrow> principal \<Rightarrow> uuid \<Rightarrow> content_update \<Rightarrow> 'a content_db_scheme
   \<Rightarrow> (content_item \<times> 'a content_db_scheme) result" where
  "update_content now p content_id d db =
     bind_result (find_content (workspace_id p) content_id False db) (\<lambda>content.
     if ct_lock_version content \<noteq> cu_expected_lock_version d
     then Inl (lock_conflict (cu_expected_lock_version d) (ct_lock_version content))
     else if (case cu_title d of None \<Rightarrow> False | Some t \<Rightarrow> t \<noteq> Some (ct_title content))
             \<and> ct_current_version_id content \<noteq> None
     then Inl (AppError ''CONTENT_TITLE_VERSION_REQUIRED'' 409 []
            (Some (JDict [(''endpoint'',
               JStr (''/v1/content/'' @ uuid_str (ct_id content) @ ''/versions''))])))
     else if cu_title d = Some None \<or> cu_channel d = Some None
     then Inl (IntegrityError ''contents not null'')
     else
       let db' = update_content_row (ct_id content) (applied_update p now d) db
       in bind_result
            (case ct_current_version_id content of
               None \<Rightarrow> Inr db'
             | Some v \<Rightarrow>
                 if \<not> approval_context_changed d content then Inr db'
                 else bind_result (get_version (workspace_id p) (ct_id content) v db') (\<lambda>current.
                   Inr (invalidate_approvals_for_content_change p now (ct_id content) (cv_id current)
                     (cv_content_hash current) ''context changed'' True db')))
            (\<lambda>db. Inr (touch_content (applied_update p now d) content,
               append_audit_log (Some (workspace_id p)) (Some (subject_id p)) ''content.metadata.updated''
                 ''content'' (uuid_str (ct_id content))
                 (Some (JDict [(''fields'', JList (map JStr (fields_set d)))])) None now db)))"

definition soft_delete_content ::
  "time \<Rightarrow> principal \<Rightarrow> uuid \<Rightarrow> 'a content_db_scheme \<Rightarrow> 'a content_db_scheme result" where
  "soft_delete_content now p content_id db =
     bind_result (find_content (workspace_id p) content_id False db) (\<lambda>content.
     if ct_retention_hold content then Inl (app_error ''CONTENT_RETENTION_HOLD'' 409)
     else Inr (job_record p now ''content.trashed'' ''content'' (ct_id content) ''content.trashed''
       (JDict [(''content_id'', JStr (uuid_str (ct_id content)))])
       (update_content_row (ct_id content)
         (\<lambda>c. c\<lparr>ct_deleted_at := Some now, ct_updated_by := subject_id p\<rparr>) db)))"

section \<open>New current versions\<close>

text \<open>What creating, restoring and generating a version share: the version becomes current and the
  approvals of the content are invalidated.\<close>

definition make_current ::
  "time \<Rightarrow> principal \<Rightarrow> uuid \<Rightarrow> content_version \<Rightarrow> string \<Rightarrow> (content_item \<Rightarrow> content_item)
   \<Rightarrow> 'a content_db_scheme \<Rightarrow> 'a content_db_scheme" where
  "make_current now p content_id v reason f db =
     invalidate_approvals_for_content_change p now content_id (cv_id v) (cv_content_hash v) reason False
       (update_content_row content_id f db)"

record content_version_create =
  vc_expected_current_version_id :: "uuid option"
  vc_expected_current_hash :: "string option"
  vc_title :: string
  vc_document :: "content_block_input list"
  vc_change_kind :: ContentChangeKind
  vc_change_note :: "string option"
  vc_source_snapshot_hash :: "string option"

definition create_version ::
  "hash_fn \<Rightarrow> time \<Rightarrow> principal \<Rightarrow> uuid \<Rightarrow> content_version_create \<Rightarrow> 'a content_db_scheme
   \<Rightarrow> (content_version \<times> 'a content_db_scheme) result" where
  "create_version H now p content_id d db =
     bind_result (find_content (workspace_id p) content_id False db) (\<lambda>content.
     bind_result (assert_current_version (workspace_id p) content (vc_expected_current_version_id d)
                    (vc_expected_current_hash d) db) (\<lambda>current.
     bind_result (case current of
         Some v \<Rightarrow> if vc_change_kind d = ContentChangeKind.AI_EDIT
                    then assert_locked_facts_preserved H (stored_document db v) (vc_document d) else Inr ()
       | None \<Rightarrow> Inr ()) (\<lambda>_.
     bind_result (append_version H p content (vc_title d) (vc_document d) (vc_change_kind d)
                    (vc_change_note d) (vc_source_snapshot_hash d) no_origin db) (\<lambda>(v, db).
     bind_result (version_event now p (ct_id content) v ''content.version.created''
                    CollaborationEventKind.VERSION_CREATED
                    (make_current now p (ct_id content) v ''new version''
                      (set_current (subject_id p) v) db)) (\<lambda>db. Inr (v, db))))))"

definition restore_version ::
  "hash_fn \<Rightarrow> time \<Rightarrow> principal \<Rightarrow> uuid \<Rightarrow> uuid \<Rightarrow> uuid \<Rightarrow> string option \<Rightarrow> 'a content_db_scheme
   \<Rightarrow> (content_version \<times> 'a content_db_scheme) result" where
  "restore_version H now p content_id source_version_id expected_current_version_id note db =
     bind_result (find_content (workspace_id p) content_id False db) (\<lambda>content.
     if ct_current_version_id content \<noteq> Some expected_current_version_id
     then Inl (lock_conflict_id (Some expected_current_version_id) (ct_current_version_id content))
     else
     bind_result (get_version (workspace_id p) content_id source_version_id db) (\<lambda>source.
     bind_result (validate_blocks (stored_document db source)) (\<lambda>blocks.
     bind_result (append_version H p content (cv_title source) blocks ContentChangeKind.RESTORE note
                    (cv_source_snapshot_hash source)
                    (no_origin\<lparr>vo_restored_from := Some (cv_id source)\<rparr>) db) (\<lambda>(v, db).
     bind_result (version_event now p (ct_id content) v ''content.version.restored''
                    CollaborationEventKind.VERSION_RESTORED
                    (make_current now p (ct_id content) v ''restored version''
                      (set_current (subject_id p) v) db)) (\<lambda>db. Inr (v, db))))))"

text \<open>The result of a generation job, which stops at the review boundary.\<close>

definition reviewable :: "content_version \<Rightarrow> generation_job \<Rightarrow> generation_job" where
  "reviewable v j =
     j\<lparr>gj_state := JobState.WAITING_REVIEW,
       gj_result := Some (dict_set ''content_version_id'' (JStr (uuid_str (cv_id v)))
         (case gj_result j of None \<Rightarrow> [] | Some d \<Rightarrow> d))\<rparr>"

definition finalize_for_review ::
  "hash_fn \<Rightarrow> time \<Rightarrow> uuid \<Rightarrow> uuid \<Rightarrow> string \<Rightarrow> content_block_input list \<Rightarrow> uuid \<Rightarrow> 'a content_db_scheme
   \<Rightarrow> (content_version \<times> 'a content_db_scheme) result" where
  "finalize_for_review H now ws job_id title blocks actor_id db =
     bind_result (find_job ws job_id db) (\<lambda>job.
     bind_result (find_content ws (gj_content_id job) False db) (\<lambda>content.
     let snapshot_hash = map_option si_snapshot_hash (List.find
           (\<lambda>s. si_workspace_id s = ws \<and> si_id s = gj_input_snapshot_id job) (input_snapshots db));
         p = \<lparr>subject_id = actor_id, workspace_id = ws, session_id = None, permissions = [],
              authentication_method = ''worker'', kind = PrincipalKind.UNKNOWN, mfa_verified_at = None\<rparr>
     in bind_result (append_version H p content title blocks ContentChangeKind.GENERATED
           (Some ''generation result'') snapshot_hash
           \<lparr>vo_restored_from = None, vo_generation_job = Some (gj_id job),
            vo_generation_snapshot = Some (gj_input_snapshot_id job)\<rparr> db) (\<lambda>(v, db).
     bind_result (if gj_state job = JobState.WAITING_REVIEW then Inr ()
                  else ensure_job_transition (gj_state job) JobState.WAITING_REVIEW) (\<lambda>_.
       Inr (v, make_current now p (ct_id content) v ''generation result''
         (\<lambda>c. (set_current actor_id v c)\<lparr>ct_state := JobState.WAITING_REVIEW\<rparr>)
         (update_job (gj_id job) (reviewable v) db))))))"

end
