(* ===== verification/Content_Library.thy ===== *)
theory Content_Library
  imports Content_Service
begin

text \<open>
  The rest of the content API of \<^verbatim>\<open>domain/generation/service.py\<close>: feedback on a version, templates and
  their versions, and the export of the current version. \<open>dump\<close> is \<open>json.dumps(document, indent=2)\<close>.
\<close>

section \<open>Feedback\<close>

record content_feedback_create =
  fc_content_version_id :: uuid
  fc_generation_job_id :: "uuid option"
  fc_kind :: FeedbackKind
  fc_details :: "(string \<times> json) list"

definition add_feedback ::
  "principal \<Rightarrow> uuid \<Rightarrow> content_feedback_create \<Rightarrow> 'a content_db_scheme
   \<Rightarrow> (feedback \<times> 'a content_db_scheme) result" where
  "add_feedback p content_id d db =
     bind_result (get_version (workspace_id p) content_id (fc_content_version_id d) db) (\<lambda>_.
     let (i, db) = uuid4 db;
         f = \<lparr>fb_id = i, fb_workspace_id = workspace_id p, fb_content_id = content_id,
              fb_content_version_id = fc_content_version_id d,
              fb_generation_job_id = fc_generation_job_id d, fb_actor_id = subject_id p,
              fb_kind = fc_kind d, fb_details = fc_details d\<rparr>
     in if list_ex (\<lambda>x. fb_workspace_id x = workspace_id p
              \<and> fb_content_version_id x = fc_content_version_id d \<and> fb_actor_id x = subject_id p
              \<and> fb_kind x = fc_kind d) (feedbacks db)
        then Inl (IntegrityError ''content_feedback_once'')
        else if (case fc_generation_job_id d of None \<Rightarrow> False
            | Some j \<Rightarrow> \<not> list_ex (\<lambda>x. gj_workspace_id x = workspace_id p \<and> gj_id x = j) (generation_jobs db))
        then Inl (IntegrityError ''generation_job_id'')
        else Inr (f, db\<lparr>feedbacks := feedbacks db @ [f]\<rparr>))"

section \<open>Templates\<close>

record template_create =
  tc_scope :: TemplateScope
  tc_name :: string
  tc_description :: "string option"
  tc_content_type :: ContentType
  tc_industry :: "string option"

text \<open>The unique constraint on (workspace, scope, owner, name) does not apply where the owner is null.\<close>

definition create_template ::
  "principal \<Rightarrow> template_create \<Rightarrow> 'a content_db_scheme
   \<Rightarrow> (content_template \<times> 'a content_db_scheme) result" where
  "create_template p d db =
     (if tc_scope d = TemplateScope.OFFICIAL
      then Inl (app_error ''OFFICIAL_TEMPLATE_ADMIN_REQUIRED'' 403)
      else
        let (i, db) = uuid4 db;
            t = \<lparr>tm_id = i, tm_workspace_id = workspace_id p, tm_scope = tc_scope d,
                 tm_owner_id = (if tc_scope d = TemplateScope.PERSONAL then Some (subject_id p) else None),
                 tm_name = tc_name d, tm_description = tc_description d,
                 tm_content_type = tc_content_type d, tm_industry = tc_industry d,
                 tm_current_version_id = None, tm_retired_at = None, tm_created_by = subject_id p\<rparr>
        in if tm_owner_id t \<noteq> None \<and> list_ex (\<lambda>x. tm_workspace_id x = workspace_id p
                \<and> tm_scope x = tc_scope d \<and> tm_owner_id x = tm_owner_id t \<and> tm_name x = tc_name d)
              (templates db)
           then Inl (IntegrityError ''template_name'')
           else Inr (t, db\<lparr>templates := templates db @ [t]\<rparr>))"

record template_version_create =
  td_prompt_version_id :: uuid
  td_input_schema :: "(string \<times> json) list"
  td_prompt_blocks :: "(string \<times> json) list list"
  td_structure_blocks :: "(string \<times> json) list list"
  td_quality_rules :: "(string \<times> json) list list"
  td_channel_config :: "(string \<times> json) list"
  td_policy_snapshot :: "(string \<times> json) list"
  td_publish :: bool

definition template_payload :: "template_version_create \<Rightarrow> json" where
  "template_payload d = JDict
     [(''prompt_version_id'', JStr (uuid_str (td_prompt_version_id d))),
      (''input_schema'', JDict (td_input_schema d)),
      (''prompt_blocks'', JList (map JDict (td_prompt_blocks d))),
      (''structure_blocks'', JList (map JDict (td_structure_blocks d))),
      (''quality_rules'', JList (map JDict (td_quality_rules d))),
      (''channel_config'', JDict (td_channel_config d)),
      (''policy_snapshot'', JDict (td_policy_snapshot d))]"

definition next_template_number :: "uuid \<Rightarrow> uuid \<Rightarrow> 'a content_db_scheme \<Rightarrow> nat" where
  "next_template_number ws template_id db =
     Suc (foldl max 0 (map tv_version (filter (\<lambda>v. tv_workspace_id v = ws \<and> tv_template_id v = template_id)
       (template_versions db))))"

definition create_template_version ::
  "hash_fn \<Rightarrow> principal \<Rightarrow> uuid \<Rightarrow> template_version_create \<Rightarrow> 'a content_db_scheme
   \<Rightarrow> (template_version \<times> 'a content_db_scheme) result" where
  "create_template_version H p template_id d db =
     (case List.find (\<lambda>t. tm_workspace_id t = workspace_id p \<and> tm_id t = template_id
             \<and> tm_retired_at t = None) (templates db) of
        None \<Rightarrow> Inl (not_found ''TEMPLATE'')
      | Some t \<Rightarrow>
          if tm_scope t = TemplateScope.PERSONAL \<and> tm_owner_id t \<noteq> Some (subject_id p)
          then Inl (app_error ''TEMPLATE_PERMISSION_DENIED'' 403)
          else
            let number = next_template_number (workspace_id p) (tm_id t) db;
                (i, db) = uuid4 db;
                v = \<lparr>tv_id = i, tv_workspace_id = workspace_id p, tv_template_id = tm_id t,
                     tv_prompt_version_id = td_prompt_version_id d, tv_version = number,
                     tv_status = (if td_publish d then VersionStatus.PUBLISHED else VersionStatus.DRAFT),
                     tv_input_schema = td_input_schema d, tv_prompt_blocks = td_prompt_blocks d,
                     tv_structure_blocks = td_structure_blocks d, tv_quality_rules = td_quality_rules d,
                     tv_channel_config = td_channel_config d, tv_policy_snapshot = td_policy_snapshot d,
                     tv_policy_hash = H (JDict (td_policy_snapshot d)),
                     tv_content_hash = H (template_payload d), tv_created_by = subject_id p\<rparr>
            in Inr (v, db\<lparr>template_versions := template_versions db @ [v],
                 templates := (if td_publish d
                   then update_where (\<lambda>x. tm_id x = tm_id t) (\<lambda>x. x\<lparr>tm_current_version_id := Some i\<rparr>)
                     (templates db)
                   else templates db)\<rparr>))"

section \<open>Export\<close>

definition escape_char :: "char \<Rightarrow> string" where
  "escape_char c =
     (if c = CHR ''&'' then ''&amp;'' else if c = CHR ''<'' then ''&lt;''
      else if c = CHR ''>'' then ''&gt;'' else if char_code c = 34 then ''&quot;''
      else if char_code c = 39 then ''&#x27;'' else [c])"

definition html_escape :: "string \<Rightarrow> string" where
  "html_escape s = concat (map escape_char s)"

definition block_text :: "(json \<Rightarrow> string) \<Rightarrow> json \<Rightarrow> string result" where
  "block_text other block =
     (case block of
        JDict d \<Rightarrow> Inr (py_str other (case map_of d ''plain_text'' of None \<Rightarrow> JStr '''' | Some v \<Rightarrow> v))
      | _ \<Rightarrow> Inl TypeError)"

fun block_texts :: "(json \<Rightarrow> string) \<Rightarrow> json list \<Rightarrow> string list result" where
  "block_texts other [] = Inr []"
| "block_texts other (b # bs) =
     bind_result (block_text other b) (\<lambda>t. bind_result (block_texts other bs) (\<lambda>ts. Inr (t # ts)))"

definition newline :: string where "newline = [char_of (10::nat)]"

definition export_content ::
  "(json \<Rightarrow> string) \<Rightarrow> (json \<Rightarrow> string) \<Rightarrow> principal \<Rightarrow> uuid \<Rightarrow> string \<Rightarrow> 'a content_db_scheme
   \<Rightarrow> (string \<times> string) result" where
  "export_content dump other p content_id format db =
     bind_result (find_content (workspace_id p) content_id True db) (\<lambda>content.
     case ct_current_version_id content of
       None \<Rightarrow> Inl (not_found ''CONTENT_VERSION'')
     | Some i \<Rightarrow>
         bind_result (get_version (workspace_id p) content_id i db) (\<lambda>v.
         if format = ''json'' then Inr (dump (JList (stored_document db v)), ''application/json'')
         else if format = ''txt'' then Inr (cv_plain_text v, ''text/plain; charset=utf-8'')
         else bind_result (block_texts other (stored_document db v)) (\<lambda>ts.
           if format = ''html''
           then Inr (''<article><h1>'' @ html_escape (cv_title v) @ ''</h1>''
             @ join_with newline (map (\<lambda>t. ''<p>'' @ html_escape t @ ''</p>'') ts) @ ''</article>'',
             ''text/html'')
           else Inr (''# '' @ cv_title v @ newline @ newline @ join_with (newline @ newline) ts,
             ''text/markdown''))))"

text \<open>Escaped text holds no markup: no angle bracket and no quote.\<close>

lemma char_code_inject: "char_code c = char_code d \<longleftrightarrow> c = d"
  by (simp add: char_code_def)

lemma escape_char_safe: "c \<in> set (escape_char d) \<Longrightarrow> char_code c \<notin> {34, 39, 60, 62}"
proof -
  assume c: "c \<in> set (escape_char d)"
  have codes: "char_code CHR ''<'' = 60" "char_code CHR ''>'' = 62" by (simp_all add: char_code_def)
  show ?thesis
  proof (cases "d \<in> {CHR ''&'', CHR ''<'', CHR ''>''} \<or> char_code d = 34 \<or> char_code d = 39")
    case True
    then have "c \<in> set ''&amp;'' \<union> set ''&lt;'' \<union> set ''&gt;'' \<union> set ''&quot;'' \<union> set ''&#x27;''"
      using c by (auto simp: escape_char_def split: if_splits)
    then have "c \<in> {CHR ''&'', CHR ''a'', CHR ''m'', CHR ''p'', CHR '';'', CHR ''l'', CHR ''t'', CHR ''g'',
        CHR ''q'', CHR ''u'', CHR ''o'', CHR ''#'', CHR ''x'', CHR ''2'', CHR ''7''}" by auto
    then show ?thesis by (elim insertE) (simp_all add: char_code_def)
  next
    case False
    then have "c = d" using c by (simp add: escape_char_def)
    with False codes show ?thesis by (auto simp: char_code_inject [symmetric])
  qed
qed

lemma html_escape_safe: "c \<in> set (html_escape s) \<Longrightarrow> char_code c \<notin> {34, 39, 60, 62}"
  using escape_char_safe by (auto simp: html_escape_def simp del: insert_iff)

end
