(* ===== verification/Quality_Reports.thy ===== *)
theory Quality_Reports
  imports Approval_Decisions
begin

text \<open>
  Rule sets, quality reports and assessments of \<^verbatim>\<open>domain/quality/service.py\<close> with their schemas: a report
  pins a content version and records policy events, an assessment scores one report of each kind,
  resolves the events of its reports against the overrides and applies the gate.

  A float of a report is the decimal its text shows, since the score is computed from that text; the
  one float computation, the citation link rate, is an argument (IEEE arithmetic of the runtime) and
  no decision reads it. The score texts an assessment stores are kept as the numbers they print, and
  the event identifiers as UUIDs, which is how every reader parses them.
\<close>

section \<open>Requests\<close>

record analyzer_pin =
  an_analyzer_name :: string
  an_analyzer_version :: string
  an_model_name :: "string option"
  an_model_version :: "string option"
  an_dictionary_name :: "string option"
  an_dictionary_version :: "string option"

definition versions_are_paired :: "analyzer_pin \<Rightarrow> bool" where
  "versions_are_paired a \<longleftrightarrow> (an_model_name a = None) = (an_model_version a = None)
     \<and> (an_dictionary_name a = None) = (an_dictionary_version a = None)"

record quality_finding =
  fn_code :: string
  fn_severity :: FindingSeverity
  fn_message :: string
  fn_location :: "(string \<times> json) list"
  fn_evidence :: "(string \<times> json) list"
  fn_remediation :: "string option"

record policy_finding_input =
  fi_event_key :: string
  fi_layer :: PolicyLayer
  fi_rule_code :: string
  fi_action :: PolicyAction
  fi_severity :: FindingSeverity
  fi_hard_block :: bool
  fi_override_allowed :: bool
  fi_message :: string
  fi_evidence :: "(string \<times> json) list"

text \<open>The detail of a request, one class per kind.\<close>

datatype report_input =
    MorphologyReportCreate int int decimal "json list" "json list" "json list" "(string \<times> json) list"
  | NaturalnessReportCreate decimal decimal decimal decimal "(string \<times> json) list"
      "(string \<times> json) list" "json list"
  | SEOReportCreate decimal "string option" "(string \<times> json) list" "json list" "json list" "json list"
      "json list"
  | DuplicationReportCreate decimal decimal string string string "json list" "json list"
  | FactCitationReportCreate decimal int int int int "json list" "json list" "json list"
  | SafetyPolicyReportCreate decimal "policy_finding_input list" "(string \<times> json) list" "json list"
      "json list"

record report_create =
  rc_content_id :: uuid
  rc_content_version_id :: uuid
  rc_content_hash :: string
  rc_input_hash :: string
  rc_analyzer :: analyzer_pin
  rc_analyzer_config :: "(string \<times> json) list"
  rc_rule_set_ids :: "uuid list"
  rc_summary :: "(string \<times> json) list"
  rc_findings :: "quality_finding list"
  rc_hard_blockers :: "policy_finding_input list"
  rc_detail :: report_input

text \<open>Field bounds and validators of the schemas that later code relies on.\<close>

definition percent_score :: "decimal \<Rightarrow> bool" where
  "percent_score d \<longleftrightarrow> (case d of Finite r \<Rightarrow> 0 \<le> r \<and> r \<le> 100 | _ \<Rightarrow> False)"

fun valid_report_input :: "report_input \<Rightarrow> analyzer_pin \<Rightarrow> bool" where
  "valid_report_input (MorphologyReportCreate t s u _ _ _ _) a \<longleftrightarrow>
     0 \<le> t \<and> 0 \<le> s \<and> an_dictionary_name a \<noteq> None"
| "valid_report_input (NaturalnessReportCreate n u r b _ _ _) a \<longleftrightarrow> list_all percent_score [n, u, r, b]"
| "valid_report_input (SEOReportCreate s _ _ _ _ _ _) a \<longleftrightarrow> percent_score s"
| "valid_report_input (DuplicationReportCreate r _ _ _ _ _ _) a \<longleftrightarrow> percent_score r"
| "valid_report_input (FactCitationReportCreate r c sc n l _ _ _) a \<longleftrightarrow>
     percent_score r \<and> 0 \<le> sc \<and> sc \<le> c \<and> 0 \<le> l \<and> l \<le> n"
| "valid_report_input (SafetyPolicyReportCreate r _ _ _ _) a \<longleftrightarrow> percent_score r"

definition valid_report :: "report_create \<Rightarrow> bool" where
  "valid_report d \<longleftrightarrow> versions_are_paired (rc_analyzer d) \<and> valid_report_input (rc_detail d) (rc_analyzer d)"

section \<open>JSON forms\<close>

primrec severity_value :: "FindingSeverity \<Rightarrow> string" where
  "severity_value FindingSeverity.INFO = ''INFO''"
| "severity_value FindingSeverity.WARN = ''WARN''"
| "severity_value FindingSeverity.BLOCK = ''BLOCK''"

primrec policy_action_value :: "PolicyAction \<Rightarrow> string" where
  "policy_action_value PolicyAction.ALLOW = ''ALLOW''"
| "policy_action_value PolicyAction.WARN = ''WARN''"
| "policy_action_value PolicyAction.BLOCK = ''BLOCK''"

primrec assessment_decision_value :: "AssessmentDecision \<Rightarrow> string" where
  "assessment_decision_value AssessmentDecision.PASS = ''PASS''"
| "assessment_decision_value AssessmentDecision.NEEDS_REVISION = ''NEEDS_REVISION''"
| "assessment_decision_value AssessmentDecision.BLOCKED = ''BLOCKED''"

definition opt_text :: "string option \<Rightarrow> json" where
  "opt_text s = (case s of None \<Rightarrow> JNull | Some t \<Rightarrow> JStr t)"

definition analyzer_json :: "analyzer_pin \<Rightarrow> json" where
  "analyzer_json a = JDict
     [(''analyzer_name'', JStr (an_analyzer_name a)), (''analyzer_version'', JStr (an_analyzer_version a)),
      (''model_name'', opt_text (an_model_name a)), (''model_version'', opt_text (an_model_version a)),
      (''dictionary_name'', opt_text (an_dictionary_name a)),
      (''dictionary_version'', opt_text (an_dictionary_version a))]"

definition finding_json :: "quality_finding \<Rightarrow> json" where
  "finding_json f = JDict
     [(''code'', JStr (fn_code f)), (''severity'', JStr (severity_value (fn_severity f))),
      (''message'', JStr (fn_message f)), (''location'', JDict (fn_location f)),
      (''evidence'', JDict (fn_evidence f)), (''remediation'', opt_text (fn_remediation f))]"

definition policy_input_json :: "policy_finding_input \<Rightarrow> json" where
  "policy_input_json f = JDict
     [(''event_key'', JStr (fi_event_key f)), (''layer'', JStr (policy_layer_value (fi_layer f))),
      (''rule_code'', JStr (fi_rule_code f)), (''action'', JStr (policy_action_value (fi_action f))),
      (''severity'', JStr (severity_value (fi_severity f))), (''hard_block'', JBool (fi_hard_block f)),
      (''override_allowed'', JBool (fi_override_allowed f)), (''message'', JStr (fi_message f)),
      (''evidence'', JDict (fi_evidence f))]"

definition float_json :: "decimal \<Rightarrow> json" where
  "float_json d = (case d of Finite r \<Rightarrow> JDec r | _ \<Rightarrow> JNull)"

fun detail_payload :: "report_detail \<Rightarrow> json" where
  "detail_payload (MorphologyReport t s u sp gr an me) = JDict
     [(''token_count'', JInt t), (''sentence_count'', JInt s), (''unknown_token_rate'', float_json u),
      (''spacing_issues'', JList sp), (''grammar_issues'', JList gr), (''token_analysis'', JList an),
      (''metrics_json'', JDict me)]"
| "detail_payload (NaturalnessReport n u r b fl se aw) = JDict
     [(''naturalness_score'', float_json n), (''usefulness_score'', float_json u),
      (''readability_score'', float_json r), (''brand_fit_score'', float_json b),
      (''fluency_metrics'', JDict fl), (''sentence_metrics'', JDict se),
      (''awkward_expressions'', JList aw)]"
| "detail_payload (SEOReport s k me t h m r) = JDict
     [(''search_intent_score'', float_json s), (''primary_keyword'', opt_text k),
      (''keyword_metrics'', JDict me), (''title_checks'', JList t), (''heading_checks'', JList h),
      (''meta_checks'', JList m), (''recommendations'', JList r)]"
| "detail_payload (DuplicationReport o' r a v h nd c) = JDict
     [(''originality_score'', float_json o'), (''duplicate_ratio'', float_json r),
      (''algorithm'', JStr a), (''algorithm_version'', JStr v), (''corpus_snapshot_hash'', JStr h),
      (''near_duplicates'', JList nd), (''cannibalization_findings'', JList c)]"
| "detail_payload (FactCitationReport a c sc n l r g u i) = JDict
     [(''accuracy_score'', float_json a), (''claim_count'', JInt c), (''supported_claim_count'', JInt sc),
      (''citation_count'', JInt n), (''linked_citation_count'', JInt l),
      (''citation_link_rate'', float_json r), (''claim_citation_graph'', JList g),
      (''unsupported_claims'', JList u), (''invalid_citations'', JList i)]"
| "detail_payload (SafetyPolicyReport c f s d b) = JDict
     [(''compliance_score'', float_json c), (''policy_findings'', JList f),
      (''safety_categories'', JDict s), (''required_disclosures'', JList d),
      (''banned_claim_matches'', JList b)]"

definition rule_set_snapshot :: "rule_set \<Rightarrow> json" where
  "rule_set_snapshot r = JDict
     [(''id'', JStr (uuid_str (rl_id r))), (''layer'', JStr (policy_layer_value (rl_layer r))),
      (''name'', JStr (rl_name r)), (''version'', JInt (int (rl_version r))),
      (''rules'', JList (map JDict (rl_rules_json r))),
      (''analyzer_requirements'', JDict (rl_analyzer_requirements_json r)),
      (''snapshot_hash'', JStr (rl_snapshot_hash r)), (''effective_at'', JTime (rl_effective_at r))]"

definition quality_config_snapshot :: "quality_config \<Rightarrow> json" where
  "quality_config_snapshot c = JDict
     [(''id'', JStr (uuid_str (qc_id c))), (''version'', JInt (qc_version c)),
      (''minimum_total_score'', JDec (qc_minimum_total_score c)),
      (''minimum_component_scores'', JDict (map (\<lambda>(k, v). (k, JDec v)) (qc_minimum_component_scores c))),
      (''required_report_kinds'', JList (map (\<lambda>k. JStr (report_kind_value k)) (qc_required_report_kinds c))),
      (''approval_stages'', JList (map stage_json (qc_approval_stages c))),
      (''threshold_override_allowed'', JBool (qc_threshold_override_allowed c)),
      (''config_hash'', JStr (qc_config_hash c))]"

section \<open>Rule sets\<close>

record rule_set_create =
  rs_expected_previous_version :: int
  rs_layer :: PolicyLayer
  rs_name :: string
  rs_rules :: "(string \<times> json) list list"
  rs_analyzer_requirements :: "(string \<times> json) list"
  rs_effective_at :: time

definition normalized_rule :: "PolicyLayer \<Rightarrow> (string \<times> json) list \<Rightarrow> (string \<times> json) list" where
  "normalized_rule layer rule =
     (let block = (\<lambda>d. dict_get d ''severity'' = JStr ''BLOCK'');
          d = (if layer \<in> {PolicyLayer.LAW, PolicyLayer.COPYRIGHT} \<and> block rule
               then dict_set ''hard_block'' (JBool True) rule else rule);
          d = (if (py_truthy (dict_get d ''hard_block'') \<or> block d)
                  \<and> layer \<in> set NON_OVERRIDEABLE_HARD_BLOCK_LAYERS
               then dict_set ''override_allowed'' (JBool False) d else d)
      in dict_set ''layer'' (JStr (policy_layer_value layer)) d)"

definition latest_rule_version :: "uuid \<Rightarrow> PolicyLayer \<Rightarrow> string \<Rightarrow> 'a content_db_scheme \<Rightarrow> nat" where
  "latest_rule_version ws layer name db =
     foldl max 0 (map rl_version (filter (\<lambda>r. rl_workspace_id r = ws \<and> rl_layer r = layer \<and> rl_name r = name)
       (rule_sets db)))"

definition create_rule_set ::
  "hash_fn \<Rightarrow> time \<Rightarrow> principal \<Rightarrow> rule_set_create \<Rightarrow> 'a content_db_scheme
   \<Rightarrow> (rule_set \<times> 'a content_db_scheme) result" where
  "create_rule_set H now p d db =
     (let latest = latest_rule_version (workspace_id p) (rs_layer d) (rs_name d) db in
      if rs_expected_previous_version d \<noteq> int latest
      then Inl (AppError ''CONFIG_VERSION_CONFLICT'' 409
             [(''resource'', ''quality_rule_set''),
              (''expected_previous_version'', int_str (rs_expected_previous_version d)),
              (''actual_previous_version'', nat_str latest)] None)
      else
      let rules = map (normalized_rule (rs_layer d)) (rs_rules d);
          snapshot = JDict
            [(''layer'', JStr (policy_layer_value (rs_layer d))), (''name'', JStr (rs_name d)),
             (''version'', JInt (int (latest + 1))), (''rules'', JList (map JDict rules)),
             (''analyzer_requirements'', JDict (rs_analyzer_requirements d)),
             (''effective_at'', JTime (rs_effective_at d))];
          (i, db) = uuid4 db;
          r = \<lparr>rl_id = i, rl_workspace_id = workspace_id p, rl_layer = rs_layer d, rl_name = rs_name d,
               rl_version = latest + 1, rl_rules_json = rules,
               rl_analyzer_requirements_json = rs_analyzer_requirements d, rl_snapshot_hash = H snapshot,
               rl_effective_at = rs_effective_at d, rl_created_by = subject_id p\<rparr>
      in if list_ex (\<lambda>x. rl_workspace_id x = workspace_id p \<and> rl_layer x = rs_layer d \<and> rl_name x = rs_name d
              \<and> (rl_version x = rl_version r \<or> rl_snapshot_hash x = rl_snapshot_hash r)) (rule_sets db)
         then Inl (quality_conflict ''quality_rule_set'')
         else Inr (r, record_change p now ''RULE_SET_CREATED'' ''quality.rule_set.created''
           ''quality_rule_set'' i None None
           [(''layer'', JStr (policy_layer_value (rs_layer d))), (''name'', JStr (rs_name d)),
            (''version'', JInt (int (rl_version r))), (''snapshot_hash'', JStr (rl_snapshot_hash r))]
           (db\<lparr>rule_sets := rule_sets db @ [r]\<rparr>)))"

text \<open>The rule sets a report is checked against: the requested ones, or the latest effective version of
  every layer and name.\<close>

definition effective_sets :: "uuid \<Rightarrow> time \<Rightarrow> 'a content_db_scheme \<Rightarrow> rule_set list" where
  "effective_sets ws now db =
     filter (\<lambda>r. rl_workspace_id r = ws \<and> rl_effective_at r \<le> now) (rule_sets db)"

fun first_by :: "('a \<Rightarrow> 'b) \<Rightarrow> 'a list \<Rightarrow> 'a list" where
  "first_by k [] = []"
| "first_by k (x # xs) = x # first_by k (filter (\<lambda>y. k y \<noteq> k x) xs)"

definition by_precedence :: "rule_set list \<Rightarrow> rule_set list" where
  "by_precedence = sort_key (\<lambda>r. (POLICY_LAYER_PRIORITY (rl_layer r), rl_name r))"

definition rule_sets_for_report ::
  "uuid \<Rightarrow> time \<Rightarrow> uuid list \<Rightarrow> 'a content_db_scheme \<Rightarrow> rule_set list result" where
  "rule_sets_for_report ws now requested db =
     (if requested \<noteq> []
      then if \<not> distinct requested then Inl (app_error ''QUALITY_RULE_SET_DUPLICATE'' 422)
        else let values = filter (\<lambda>r. rl_id r \<in> set requested) (effective_sets ws now db)
          in if length values \<noteq> length requested then Inl (app_error ''QUALITY_RULE_SET_INVALID'' 422)
             else Inr (by_precedence values)
      else Inr (by_precedence (first_by (\<lambda>r. (rl_layer r, rl_name r))
        (sort_key (\<lambda>r. (policy_layer_value (rl_layer r), rl_name r, - int (rl_version r)))
          (effective_sets ws now db)))))"

definition analyzer_mismatches :: "ReportKind \<Rightarrow> analyzer_pin \<Rightarrow> rule_set \<Rightarrow> string list" where
  "analyzer_mismatches knd a r =
     (case map_of (rl_analyzer_requirements_json r) (report_kind_value knd) of
        Some (JDict q) \<Rightarrow>
          let differs = (\<lambda>k actual. py_truthy (dict_get q k) \<and> dict_get q k \<noteq> actual)
          in (if differs ''analyzer_name'' (JStr (an_analyzer_name a)) then [''analyzer_name''] else [])
           @ (if differs ''analyzer_version'' (JStr (an_analyzer_version a)) then [''analyzer_version''] else [])
           @ (if differs ''model_version'' (opt_text (an_model_version a)) then [''model_version''] else [])
           @ (if differs ''dictionary_version'' (opt_text (an_dictionary_version a))
              then [''dictionary_version''] else [])
      | _ \<Rightarrow> [])"

fun validate_analyzer_requirements :: "ReportKind \<Rightarrow> analyzer_pin \<Rightarrow> rule_set list \<Rightarrow> unit result" where
  "validate_analyzer_requirements knd a [] = Inr ()"
| "validate_analyzer_requirements knd a (r # rs) =
     (let mismatches = analyzer_mismatches knd a r
      in if mismatches = [] then validate_analyzer_requirements knd a rs
         else Inl (AppError ''ANALYZER_VERSION_NOT_ALLOWED'' 422
                (map (\<lambda>f. (''analyzer.'' @ f, rl_snapshot_hash r)) mismatches) None))"

section \<open>Reports\<close>

definition latest_config :: "uuid \<Rightarrow> 'a content_db_scheme \<Rightarrow> quality_config result" where
  "latest_config ws db =
     (case List.find (\<lambda>c. qc_workspace_id c = ws \<and> qc_version c = latest_config_version ws db)
             (quality_configs db) of
        None \<Rightarrow> Inl (app_error ''QUALITY_CONFIG_REQUIRED'' 409) | Some c \<Rightarrow> Inr c)"

fun findings_of :: "report_input \<Rightarrow> policy_finding_input list" where
  "findings_of (SafetyPolicyReportCreate _ fs _ _ _) = fs"
| "findings_of _ = []"

fun first_duplicate :: "string list \<Rightarrow> string list \<Rightarrow> string option" where
  "first_duplicate seen [] = None"
| "first_duplicate seen (k # ks) = (if k \<in> set seen then Some k else first_duplicate (k # seen) ks)"

definition policy_inputs :: "report_create \<Rightarrow> policy_finding_input list result" where
  "policy_inputs d =
     (let values = rc_hard_blockers d @ findings_of (rc_detail d)
      in case first_duplicate [] (map fi_event_key values) of
           Some k \<Rightarrow> Inl (AppError ''POLICY_EVENT_KEY_DUPLICATE'' 422 [(''event_key'', k)] None)
         | None \<Rightarrow> Inr values)"

definition normalize_policy_input :: "policy_finding_input \<Rightarrow> policy_finding_input" where
  "normalize_policy_input f =
     (let severity = (if fi_action f = PolicyAction.BLOCK then FindingSeverity.BLOCK else fi_severity f);
          hard_block = (if fi_layer f \<in> {PolicyLayer.LAW, PolicyLayer.COPYRIGHT}
              \<and> severity = FindingSeverity.BLOCK then True else fi_hard_block f);
          blocks = (hard_block \<or> severity = FindingSeverity.BLOCK)
      in f\<lparr>fi_hard_block := hard_block,
           fi_override_allowed := (if blocks \<and> fi_layer f \<in> set NON_OVERRIDEABLE_HARD_BLOCK_LAYERS
             then False else fi_override_allowed f),
           fi_action := (if blocks then PolicyAction.BLOCK else fi_action f),
           fi_severity := severity\<rparr>)"

fun new_report_detail :: "(int \<Rightarrow> int \<Rightarrow> decimal) \<Rightarrow> ReportKind \<Rightarrow> report_input \<Rightarrow> report_detail result" where
  "new_report_detail link_rate ReportKind.MORPHOLOGY (MorphologyReportCreate t s u sp gr an me) =
     Inr (MorphologyReport t s u sp gr an me)"
| "new_report_detail link_rate ReportKind.NATURALNESS (NaturalnessReportCreate n u r b fl se aw) =
     Inr (NaturalnessReport n u r b fl se aw)"
| "new_report_detail link_rate ReportKind.SEO (SEOReportCreate s k me t h m r) = Inr (SEOReport s k me t h m r)"
| "new_report_detail link_rate ReportKind.DUPLICATION (DuplicationReportCreate s r a v h nd c) =
     Inr (DuplicationReport s r a v h nd c)"
| "new_report_detail link_rate ReportKind.FACT_CITATION (FactCitationReportCreate a c sc n l g u i) =
     Inr (FactCitationReport a c sc n l (if n = 0 then Finite 0 else link_rate l n) g u i)"
| "new_report_detail link_rate ReportKind.SAFETY_POLICY (SafetyPolicyReportCreate c fs s d b) =
     Inr (SafetyPolicyReport c (map (\<lambda>f. policy_input_json (normalize_policy_input f)) fs) s d b)"
| "new_report_detail link_rate _ _ = Inl (app_error ''QUALITY_REPORT_PAYLOAD_KIND_MISMATCH'' 422)"

text \<open>\<open>owner\<close> says which report or assessment the event belongs to.\<close>

definition new_policy_event ::
  "hash_fn \<Rightarrow> principal \<Rightarrow> ContentVersionSnapshot \<Rightarrow> uuid option \<Rightarrow> uuid option \<Rightarrow> policy_finding_input
   \<Rightarrow> string \<Rightarrow> string \<Rightarrow> uuid \<Rightarrow> policy_event" where
  "new_policy_event H p content report_id assessment_id f rule_hash policy_hash i =
     \<lparr>pe_id = i, pe_workspace_id = workspace_id p, pe_content_id = vs_content_id content,
      pe_content_version_id = vs_content_version_id content, pe_layer = fi_layer f,
      pe_rule_code = fi_rule_code f, pe_action = fi_action f, pe_severity = fi_severity f,
      pe_hard_block = fi_hard_block f, pe_override_allowed = fi_override_allowed f,
      pe_event_hash = H (JDict
        [(''content_version_id'', JStr (uuid_str (vs_content_version_id content))),
         (''content_hash'', JStr (vs_content_hash content)), (''report_id'', opt_uuid report_id),
         (''assessment_id'', opt_uuid assessment_id), (''event_key'', JStr (fi_event_key f)),
         (''layer'', JStr (policy_layer_value (fi_layer f))), (''rule_code'', JStr (fi_rule_code f)),
         (''action'', JStr (policy_action_value (fi_action f))),
         (''severity'', JStr (severity_value (fi_severity f))), (''hard_block'', JBool (fi_hard_block f)),
         (''override_allowed'', JBool (fi_override_allowed f)), (''message'', JStr (fi_message f)),
         (''evidence'', JDict (fi_evidence f)), (''rule_snapshot_hash'', JStr rule_hash),
         (''policy_snapshot_hash'', JStr policy_hash)]),
      pe_content_hash = vs_content_hash content, pe_report_id = report_id,
      pe_assessment_id = assessment_id, pe_event_key = fi_event_key f,
      pe_priority = POLICY_LAYER_PRIORITY (fi_layer f), pe_message = fi_message f,
      pe_evidence_json = fi_evidence f, pe_rule_snapshot_hash = rule_hash,
      pe_policy_snapshot_hash = policy_hash, pe_created_by = subject_id p\<rparr>"

fun report_events ::
  "hash_fn \<Rightarrow> principal \<Rightarrow> ContentVersionSnapshot \<Rightarrow> uuid \<Rightarrow> string \<Rightarrow> string \<Rightarrow> policy_finding_input list
   \<Rightarrow> 'a content_db_scheme \<Rightarrow> policy_event list \<times> 'a content_db_scheme" where
  "report_events H p content report_id rule_hash policy_hash [] db = ([], db)"
| "report_events H p content report_id rule_hash policy_hash (f # fs) db =
     (let (i, db) = uuid4 db;
          (es, db) = report_events H p content report_id rule_hash policy_hash fs db
      in (new_policy_event H p content (Some report_id) None f rule_hash policy_hash i # es, db))"

definition blocker :: "policy_finding_input \<Rightarrow> bool" where
  "blocker f \<longleftrightarrow> fi_hard_block f \<or> fi_severity f = FindingSeverity.BLOCK"

definition report_row ::
  "hash_fn \<Rightarrow> principal \<Rightarrow> ReportKind \<Rightarrow> report_create \<Rightarrow> ContentVersionSnapshot \<Rightarrow> quality_config
   \<Rightarrow> rule_set list \<Rightarrow> policy_finding_input list \<Rightarrow> report_detail \<Rightarrow> uuid \<Rightarrow> quality_report" where
  "report_row H p knd d content config rules findings detail i =
     (let a = rc_analyzer d;
          analyzer_hash = H (JDict (rc_analyzer_config d));
          rule_snapshot = map rule_set_snapshot rules; rule_hash = H (JList rule_snapshot);
          policy_snapshot = quality_config_snapshot config; policy_hash = H policy_snapshot;
          found = map finding_json (rc_findings d);
          blockers = map policy_input_json (filter blocker findings)
      in \<lparr>qr_id = i, qr_workspace_id = workspace_id p, qr_content_id = vs_content_id content,
          qr_content_version_id = vs_content_version_id content, qr_content_hash = vs_content_hash content,
          qr_report_kind = knd, qr_analyzer_name = an_analyzer_name a,
          qr_analyzer_version = an_analyzer_version a, qr_model_name = an_model_name a,
          qr_model_version = an_model_version a, qr_dictionary_name = an_dictionary_name a,
          qr_dictionary_version = an_dictionary_version a, qr_input_hash = rc_input_hash d,
          qr_analyzer_config_snapshot = rc_analyzer_config d, qr_analyzer_config_hash = analyzer_hash,
          qr_rule_snapshot = rule_snapshot, qr_rule_snapshot_hash = rule_hash,
          qr_policy_snapshot = policy_snapshot, qr_policy_snapshot_hash = policy_hash,
          qr_summary_json = rc_summary d, qr_findings_json = found, qr_hard_blockers_json = blockers,
          qr_report_hash = H (JDict
            [(''content_id'', JStr (uuid_str (vs_content_id content))),
             (''content_version_id'', JStr (uuid_str (vs_content_version_id content))),
             (''content_hash'', JStr (vs_content_hash content)),
             (''report_kind'', JStr (report_kind_value knd)), (''analyzer'', analyzer_json a),
             (''input_hash'', JStr (rc_input_hash d)), (''analyzer_config_hash'', JStr analyzer_hash),
             (''rule_snapshot_hash'', JStr rule_hash), (''policy_snapshot_hash'', JStr policy_hash),
             (''summary'', JDict (rc_summary d)), (''findings'', JList found),
             (''hard_blockers'', JList blockers), (''detail'', detail_payload detail)]),
          qr_created_by = subject_id p\<rparr>)"

definition create_report ::
  "hash_fn \<Rightarrow> (int \<Rightarrow> int \<Rightarrow> decimal) \<Rightarrow> time \<Rightarrow> principal \<Rightarrow> ReportKind \<Rightarrow> report_create \<Rightarrow> 'a content_db_scheme
   \<Rightarrow> (quality_report \<times> 'a content_db_scheme) result" where
  "create_report H link_rate now p knd d db =
     bind_result (exact_content (workspace_id p) (rc_content_id d) (rc_content_version_id d)
                    (rc_content_hash d) False db) (\<lambda>content.
     bind_result (latest_config (workspace_id p) db) (\<lambda>config.
     bind_result (rule_sets_for_report (workspace_id p) now (rc_rule_set_ids d) db) (\<lambda>rules.
     bind_result (validate_analyzer_requirements knd (rc_analyzer d) rules) (\<lambda>_.
     bind_result (policy_inputs d) (\<lambda>inputs.
     bind_result (new_report_detail link_rate knd (rc_detail d)) (\<lambda>detail.
     let findings = map normalize_policy_input inputs;
         (i, db) = uuid4 db;
         r = report_row H p knd d content config rules findings detail i;
         (events, db) = report_events H p content i (qr_rule_snapshot_hash r)
           (qr_policy_snapshot_hash r) findings db
     in if list_ex (\<lambda>x. qr_workspace_id x = workspace_id p
             \<and> qr_content_version_id x = qr_content_version_id r \<and> qr_report_kind x = knd
             \<and> qr_report_hash x = qr_report_hash r) (quality_reports db)
        then Inl (quality_conflict ''quality_report'')
        else Inr (r, record_change p now ''REPORT_CREATED'' ''quality.report.created'' ''quality_report'' i
          (Some (qr_content_id r)) (Some (qr_content_version_id r))
          [(''report_kind'', JStr (report_kind_value knd)), (''report_hash'', JStr (qr_report_hash r)),
           (''analyzer_version'', JStr (qr_analyzer_version r)),
           (''policy_event_ids'', JList (map (\<lambda>e. JStr (uuid_str (pe_id e))) events))]
          (db\<lparr>quality_reports := quality_reports db @ [r],
              report_details := report_details db @ [\<lparr>rd_workspace_id = workspace_id p,
                rd_report_id = i, rd_detail = detail\<rparr>],
              policy_events := policy_events db @ events\<rparr>))))))))"

section \<open>Assessments\<close>

record quality_assessment_create =
  ac_content_id :: uuid
  ac_content_version_id :: uuid
  ac_content_hash :: string
  ac_quality_config_id :: uuid
  ac_report_ids :: "(ReportKind \<times> uuid) list"

definition REPORT_KINDS :: "ReportKind list" where
  "REPORT_KINDS = [ReportKind.MORPHOLOGY, ReportKind.NATURALNESS, ReportKind.SEO, ReportKind.DUPLICATION,
     ReportKind.FACT_CITATION, ReportKind.SAFETY_POLICY]"

definition find_report :: "uuid \<Rightarrow> uuid \<Rightarrow> 'a content_db_scheme \<Rightarrow> quality_report result" where
  "find_report ws report_id db =
     (case List.find (\<lambda>r. qr_workspace_id r = ws \<and> qr_id r = report_id) (quality_reports db) of
        None \<Rightarrow> Inl (not_found ''QUALITY_REPORT'') | Some r \<Rightarrow> Inr r)"

text \<open>The detail is read from the table of the report's kind.\<close>

fun detail_kind :: "report_detail \<Rightarrow> ReportKind" where
  "detail_kind (MorphologyReport _ _ _ _ _ _ _) = ReportKind.MORPHOLOGY"
| "detail_kind (NaturalnessReport _ _ _ _ _ _ _) = ReportKind.NATURALNESS"
| "detail_kind (SEOReport _ _ _ _ _ _ _) = ReportKind.SEO"
| "detail_kind (DuplicationReport _ _ _ _ _ _ _) = ReportKind.DUPLICATION"
| "detail_kind (FactCitationReport _ _ _ _ _ _ _ _ _) = ReportKind.FACT_CITATION"
| "detail_kind (SafetyPolicyReport _ _ _ _ _) = ReportKind.SAFETY_POLICY"

definition report_detail_of :: "quality_report \<Rightarrow> 'a content_db_scheme \<Rightarrow> report_detail result" where
  "report_detail_of r db =
     (case List.find (\<lambda>x. rd_workspace_id x = qr_workspace_id r \<and> rd_report_id x = qr_id r
             \<and> detail_kind (rd_detail x) = qr_report_kind r) (report_details db) of
        None \<Rightarrow> Inl (app_error ''QUALITY_REPORT_DETAIL_MISSING'' 409) | Some x \<Rightarrow> Inr (rd_detail x))"

definition assert_report_content :: "quality_report \<Rightarrow> ContentVersionSnapshot \<Rightarrow> unit result" where
  "assert_report_content r content =
     ensure (qr_content_id r = vs_content_id content
         \<and> qr_content_version_id r = vs_content_version_id content
         \<and> qr_content_hash r = vs_content_hash content)
       (app_error ''QUALITY_REPORT_CONTENT_MISMATCH'' 422)"

text \<open>The reports an assessment names, with their details, in the order of the request.\<close>

fun load_reports ::
  "uuid \<Rightarrow> ContentVersionSnapshot \<Rightarrow> (ReportKind \<times> uuid) list \<Rightarrow> 'a content_db_scheme
   \<Rightarrow> (ReportKind \<times> quality_report \<times> report_detail) list result" where
  "load_reports ws content [] db = Inr []"
| "load_reports ws content ((expected, report_id) # ks) db =
     bind_result (find_report ws report_id db) (\<lambda>r.
     if qr_report_kind r \<noteq> expected
     then Inl (AppError ''QUALITY_REPORT_KIND_MISMATCH'' 422
            [(''report_ids.'' @ report_kind_value expected, report_kind_value (qr_report_kind r))] None)
     else
     bind_result (assert_report_content r content) (\<lambda>_.
     bind_result (report_detail_of r db) (\<lambda>d.
     bind_result (load_reports ws content ks db) (\<lambda>rest. Inr ((expected, r, d) # rest)))))"

definition detail_type_error :: "ReportKind \<Rightarrow> error" where
  "detail_type_error k = AppError ''QUALITY_REPORT_DETAIL_MISMATCH'' 409
     [(''report_kind'', report_kind_value k)] None"

text \<open>The component scores; a missing kind would be a key error, and a detail of another class its
  own error.\<close>

definition component_scores :: "(ReportKind \<times> report_detail) list \<Rightarrow> (string \<times> decimal) list result" where
  "component_scores details =
     (case (map_of details ReportKind.FACT_CITATION, map_of details ReportKind.NATURALNESS,
            map_of details ReportKind.DUPLICATION, map_of details ReportKind.SEO,
            map_of details ReportKind.SAFETY_POLICY) of
        (Some fct, Some ntl, Some dup, Some seo, Some safety) \<Rightarrow>
          if detail_kind fct \<noteq> ReportKind.FACT_CITATION then Inl (detail_type_error ReportKind.FACT_CITATION)
          else if detail_kind ntl \<noteq> ReportKind.NATURALNESS then Inl (detail_type_error ReportKind.NATURALNESS)
          else if detail_kind dup \<noteq> ReportKind.DUPLICATION then Inl (detail_type_error ReportKind.DUPLICATION)
          else if detail_kind seo \<noteq> ReportKind.SEO then Inl (detail_type_error ReportKind.SEO)
          else if detail_kind safety \<noteq> ReportKind.SAFETY_POLICY
          then Inl (detail_type_error ReportKind.SAFETY_POLICY)
          else Inr [(''accuracy'', accuracy_score fct), (''usefulness'', usefulness_score ntl),
                    (''originality'', originality_score dup), (''search_intent'', search_intent_score seo),
                    (''readability'', readability_score ntl), (''brand_fit'', brand_fit_score ntl),
                    (''compliance'', compliance_score safety)]
      | _ \<Rightarrow> Inl KeyError)"

definition policy_finding_from_event :: "policy_event \<Rightarrow> PolicyFinding" where
  "policy_finding_from_event e =
     \<lparr>pf_event_key = uuid_str (pe_id e), pf_layer = pe_layer e, pf_rule_code = pe_rule_code e,
      pf_severity = pe_severity e, pf_hard_block = pe_hard_block e,
      pf_override_allowed = pe_override_allowed e\<rparr>"

definition events_of_reports :: "uuid \<Rightarrow> uuid list \<Rightarrow> 'a content_db_scheme \<Rightarrow> policy_event list" where
  "events_of_reports ws report_ids db =
     filter (\<lambda>e. pe_workspace_id e = ws \<and> (\<exists>i \<in> set report_ids. pe_report_id e = Some i)) (policy_events db)"

definition report_resolution :: "uuid \<Rightarrow> uuid list \<Rightarrow> 'a content_db_scheme \<Rightarrow> PolicyResolution" where
  "report_resolution ws report_ids db =
     (let events = events_of_reports ws report_ids db;
          overrides = filter (\<lambda>x. po_workspace_id x = ws \<and> po_policy_event_id x \<in> set (map pe_id events))
            (policy_overrides db)
      in resolve_policy_findings (map policy_finding_from_event events)
           (map (\<lambda>x. uuid_str (po_policy_event_id x)) overrides))"

text \<open>\<open>UUID(text)\<close> of an identifier the code has just printed.\<close>

definition the_uuid :: "string \<Rightarrow> uuid" where
  "the_uuid s = (case parse_uuid s of None \<Rightarrow> 0 | Some u \<Rightarrow> u)"

definition threshold_finding :: "uuid \<Rightarrow> bool \<Rightarrow> (string \<times> rat \<times> rat) list \<Rightarrow> policy_finding_input" where
  "threshold_finding assessment_id override_allowed failed =
     \<lparr>fi_event_key = ''quality-threshold:'' @ uuid_str assessment_id, fi_layer = PolicyLayer.WORKSPACE,
      fi_rule_code = ''QUALITY_THRESHOLD'', fi_action = PolicyAction.BLOCK,
      fi_severity = FindingSeverity.BLOCK, fi_hard_block = False, fi_override_allowed = override_allowed,
      fi_message = ''threshold'',
      fi_evidence = [(''failed_thresholds'',
        JDict (map (\<lambda>(k, s, m). (k, JList [JDec s, JDec m])) failed))]\<rparr>"

definition manifest_entry :: "quality_report \<Rightarrow> json" where
  "manifest_entry r = JDict
     [(''report_id'', JStr (uuid_str (qr_id r))), (''report_kind'', JStr (report_kind_value (qr_report_kind r))),
      (''report_hash'', JStr (qr_report_hash r)), (''analyzer_name'', JStr (qr_analyzer_name r)),
      (''analyzer_version'', JStr (qr_analyzer_version r)),
      (''rule_snapshot_hash'', JStr (qr_rule_snapshot_hash r)),
      (''policy_snapshot_hash'', JStr (qr_policy_snapshot_hash r))]"

definition assessment_row ::
  "hash_fn \<Rightarrow> principal \<Rightarrow> ContentVersionSnapshot \<Rightarrow> quality_config \<Rightarrow> quality_report list
   \<Rightarrow> QualityScoreBreakdown \<Rightarrow> QualityGateResult \<Rightarrow> uuid list \<Rightarrow> uuid list \<Rightarrow> uuid \<Rightarrow> quality_assessment" where
  "assessment_row H p content config reports score gate blocking non_overrideable i =
     (let decs = (\<lambda>kvs. JDict (map (\<lambda>(k, v). (k, JDec v)) kvs))
      in \<lparr>qa_id = i, qa_workspace_id = workspace_id p, qa_content_id = vs_content_id content,
          qa_content_version_id = vs_content_version_id content, qa_content_hash = vs_content_hash content,
          qa_quality_config_id = qc_id config, qa_quality_config_hash = qc_config_hash config,
          qa_blocking_policy_event_ids = blocking,
          qa_non_overrideable_policy_event_ids = non_overrideable, qa_decision = gate_decision gate,
          qa_assessment_hash = H (JDict
            [(''content_version_id'', JStr (uuid_str (vs_content_version_id content))),
             (''content_hash'', JStr (vs_content_hash content)),
             (''quality_config_hash'', JStr (qc_config_hash config)),
             (''report_manifest'', JList (map manifest_entry
               (sort_key (\<lambda>r. report_kind_value (qr_report_kind r)) reports))),
             (''component_scores'', decs (qs_component_scores score)),
             (''component_weights'', decs QUALITY_COMPONENT_WEIGHTS),
             (''weighted_contributions'', decs (qs_weighted_contributions score)),
             (''total_score'', JDec (qs_total score)), (''formula_version'', JStr ''default-1''),
             (''failed_thresholds'', JDict (map (\<lambda>(k, s, m). (k, JList [JDec s, JDec m]))
               (failed_thresholds gate))),
             (''blocking_policy_event_ids'', JList (map (\<lambda>u. JStr (uuid_str u)) blocking)),
             (''non_overrideable_policy_event_ids'', JList (map (\<lambda>u. JStr (uuid_str u)) non_overrideable)),
             (''decision'', JStr (assessment_decision_value (gate_decision gate)))]),
          qa_report_ids = map qr_id reports, qa_component_scores = qs_component_scores score,
          qa_weighted_contributions = qs_weighted_contributions score, qa_total_score = qs_total score,
          qa_failed_thresholds = failed_thresholds gate, qa_created_by = subject_id p\<rparr>)"

text \<open>What is stored once the gate has been evaluated.\<close>

definition store_assessment ::
  "hash_fn \<Rightarrow> time \<Rightarrow> principal \<Rightarrow> ContentVersionSnapshot \<Rightarrow> quality_config \<Rightarrow> quality_report list
   \<Rightarrow> QualityScoreBreakdown \<Rightarrow> QualityGateResult \<Rightarrow> PolicyResolution \<Rightarrow> 'a content_db_scheme
   \<Rightarrow> (quality_assessment \<times> 'a content_db_scheme) result" where
  "store_assessment H now p content config reports score gate resolution db =
     (let (i, db) = uuid4 db;
          failed = (failed_thresholds gate \<noteq> []);
          (event_id, db) = uuid4 db;
          event = new_policy_event H p content None (Some i)
            (threshold_finding i (qc_threshold_override_allowed config) (failed_thresholds gate))
            (H (JDict [(''rule'', JStr ''QUALITY_THRESHOLD''), (''config_hash'', JStr (qc_config_hash config))]))
            (qc_config_hash config) event_id;
          blocking = map the_uuid (blocking_event_keys resolution) @ (if failed then [event_id] else []);
          non_overrideable = map the_uuid (non_overrideable_event_keys resolution)
            @ (if failed \<and> \<not> qc_threshold_override_allowed config then [event_id] else []);
          a = assessment_row H p content config reports score gate blocking non_overrideable i
      in if list_ex (\<lambda>x. qa_workspace_id x = workspace_id p
              \<and> qa_content_version_id x = qa_content_version_id a
              \<and> qa_assessment_hash x = qa_assessment_hash a) (quality_assessments db)
         then Inl (quality_conflict ''quality_assessment'')
         else Inr (a, record_change p now ''ASSESSMENT_CREATED'' ''quality.assessment.created''
           ''quality_assessment'' i (Some (qa_content_id a)) (Some (qa_content_version_id a))
           [(''assessment_hash'', JStr (qa_assessment_hash a)),
            (''decision'', JStr (assessment_decision_value (qa_decision a))),
            (''total_score'', JDec (qa_total_score a)),
            (''blocking_policy_event_ids'', JList (map (\<lambda>u. JStr (uuid_str u)) blocking))]
           (db\<lparr>quality_assessments := quality_assessments db @ [a],
               policy_events := policy_events db @ (if failed then [event] else [])\<rparr>)))"

definition missing_kinds :: "ReportKind list \<Rightarrow> (ReportKind \<times> uuid) list \<Rightarrow> string list" where
  "missing_kinds required supplied =
     sort (map report_kind_value (filter (\<lambda>k. k \<notin> set (map fst supplied)) (remdups required)))"

definition create_assessment ::
  "(json \<Rightarrow> string) \<Rightarrow> hash_fn \<Rightarrow> time \<Rightarrow> principal \<Rightarrow> quality_assessment_create \<Rightarrow> 'a content_db_scheme
   \<Rightarrow> (quality_assessment \<times> 'a content_db_scheme) result" where
  "create_assessment other H now p d db =
     bind_result (exact_content (workspace_id p) (ac_content_id d) (ac_content_version_id d)
                    (ac_content_hash d) False db) (\<lambda>content.
     bind_result (find_config (workspace_id p) (ac_quality_config_id d) db) (\<lambda>config.
     let missing = missing_kinds (qc_required_report_kinds config) (ac_report_ids d);
         missing_formula = missing_kinds REPORT_KINDS (ac_report_ids d)
     in if missing \<noteq> []
        then Inl (AppError ''QUALITY_REPORTS_REQUIRED'' 422 (map (\<lambda>k. (''report_ids'', k)) missing) None)
        else if missing_formula \<noteq> []
        then Inl (AppError ''QUALITY_FORMULA_REPORTS_REQUIRED'' 422
               (map (\<lambda>k. (''report_ids'', k)) missing_formula) None)
        else
        bind_result (load_reports (workspace_id p) content (ac_report_ids d) db) (\<lambda>loaded.
        bind_result (component_scores (map (\<lambda>(k, _, dt). (k, dt)) loaded)) (\<lambda>scores.
        bind_result (calculate_quality_score other scores) (\<lambda>score.
        let reports = map (\<lambda>(_, r, _). r) loaded;
            resolution = report_resolution (workspace_id p) (map qr_id reports) db
        in bind_result (evaluate_quality_gate score (qc_minimum_total_score config)
                 (qc_minimum_component_scores config) resolution) (\<lambda>gate.
           store_assessment H now p content config reports score gate resolution db))))))"

end
