(* ===== verification/Content_Frames.thy ===== *)
theory Content_Frames
  imports Content_Library Quality_Reports Generation_Invariant
begin

text \<open>
  What the building blocks of the content and approval operations leave alone, and the effect of an
  invalidation on the table of approval requests.
\<close>

section \<open>Frames\<close>

lemma record_change_frame [simp]:
  "contents (record_change p now k a tt ti ci vi ds db) = contents db"
  "content_versions (record_change p now k a tt ti ci vi ds db) = content_versions db"
  "approval_requests (record_change p now k a tt ti ci vi ds db) = approval_requests db"
  "approval_decisions (record_change p now k a tt ti ci vi ds db) = approval_decisions db"
  "quality_configs (record_change p now k a tt ti ci vi ds db) = quality_configs db"
  "quality_assessments (record_change p now k a tt ti ci vi ds db) = quality_assessments db"
  "policy_events (record_change p now k a tt ti ci vi ds db) = policy_events db \<and> quality_reports (record_change p now k a tt ti ci vi ds db) = quality_reports db"
  "policy_overrides (record_change p now k a tt ti ci vi ds db) = policy_overrides db"
  "generation_jobs (record_change p now k a tt ti ci vi ds db) = generation_jobs db"
  "generation_job_steps (record_change p now k a tt ti ci vi ds db) = generation_job_steps db"
  "generation_job_commands (record_change p now k a tt ti ci vi ds db) = generation_job_commands db"
  "model_runs (record_change p now k a tt ti ci vi ds db) = model_runs db"
  "input_snapshots (record_change p now k a tt ti ci vi ds db) = input_snapshots db"
  "uuid_supply (record_change p now k a tt ti ci vi ds db) = uuid_supply db + 3"
  by (simp_all add: record_change_def append_audit_log_def add_outbox_event_def uuid4_def Let_def)

lemma state_event_frame [simp]:
  "contents (state_event p r e s ds db) = contents db"
  "content_versions (state_event p r e s ds db) = content_versions db"
  "approval_requests (state_event p r e s ds db) = approval_requests db"
  "approval_decisions (state_event p r e s ds db) = approval_decisions db"
  "quality_configs (state_event p r e s ds db) = quality_configs db"
  "quality_assessments (state_event p r e s ds db) = quality_assessments db"
  "policy_events (state_event p r e s ds db) = policy_events db \<and> quality_reports (state_event p r e s ds db) = quality_reports db"
  "policy_overrides (state_event p r e s ds db) = policy_overrides db"
  "generation_jobs (state_event p r e s ds db) = generation_jobs db"
  "generation_job_steps (state_event p r e s ds db) = generation_job_steps db"
  "generation_job_commands (state_event p r e s ds db) = generation_job_commands db"
  "model_runs (state_event p r e s ds db) = model_runs db"
  "input_snapshots (state_event p r e s ds db) = input_snapshots db"
  "uuid_supply (state_event p r e s ds db) = uuid_supply db + 1"
  by (simp_all add: state_event_def append_audit_log_def add_outbox_event_def uuid4_def Let_def)

lemma update_request_frame [simp]:
  "contents (update_request i f db) = contents db"
  "content_versions (update_request i f db) = content_versions db"
  "approval_requests (update_request i f db) = update_where (\<lambda>r. ar_id r = i) (touch_request f) (approval_requests db)"
  "approval_decisions (update_request i f db) = approval_decisions db"
  "quality_configs (update_request i f db) = quality_configs db"
  "quality_assessments (update_request i f db) = quality_assessments db"
  "policy_events (update_request i f db) = policy_events db \<and> quality_reports (update_request i f db) = quality_reports db"
  "policy_overrides (update_request i f db) = policy_overrides db"
  "generation_jobs (update_request i f db) = generation_jobs db"
  "generation_job_steps (update_request i f db) = generation_job_steps db"
  "generation_job_commands (update_request i f db) = generation_job_commands db"
  "model_runs (update_request i f db) = model_runs db"
  "input_snapshots (update_request i f db) = input_snapshots db"
  "uuid_supply (update_request i f db) = uuid_supply db"
  by (simp_all add: update_request_def)

lemma update_content_row_frame [simp]:
  "contents (update_content_row i f db) = update_where (\<lambda>c. ct_id c = i) (touch_content f) (contents db)"
  "content_versions (update_content_row i f db) = content_versions db"
  "approval_requests (update_content_row i f db) = approval_requests db"
  "approval_decisions (update_content_row i f db) = approval_decisions db"
  "quality_configs (update_content_row i f db) = quality_configs db"
  "quality_assessments (update_content_row i f db) = quality_assessments db"
  "policy_events (update_content_row i f db) = policy_events db \<and> quality_reports (update_content_row i f db) = quality_reports db"
  "policy_overrides (update_content_row i f db) = policy_overrides db"
  "generation_jobs (update_content_row i f db) = generation_jobs db"
  "generation_job_steps (update_content_row i f db) = generation_job_steps db"
  "generation_job_commands (update_content_row i f db) = generation_job_commands db"
  "model_runs (update_content_row i f db) = model_runs db"
  "input_snapshots (update_content_row i f db) = input_snapshots db"
  "uuid_supply (update_content_row i f db) = uuid_supply db"
  by (simp_all add: update_content_row_def)

lemma content_job_record_frame [simp]:
  "contents (job_record p now a ty i ev pl (db :: 'a content_db_scheme)) = contents db"
  "content_versions (job_record p now a ty i ev pl (db :: 'a content_db_scheme)) = content_versions db"
  "approval_requests (job_record p now a ty i ev pl (db :: 'a content_db_scheme)) = approval_requests db"
  "approval_decisions (job_record p now a ty i ev pl (db :: 'a content_db_scheme)) = approval_decisions db"
  "quality_configs (job_record p now a ty i ev pl (db :: 'a content_db_scheme)) = quality_configs db"
  "quality_assessments (job_record p now a ty i ev pl (db :: 'a content_db_scheme)) = quality_assessments db"
  "policy_events (job_record p now a ty i ev pl (db :: 'a content_db_scheme)) = policy_events db \<and> quality_reports (job_record p now a ty i ev pl (db :: 'a content_db_scheme)) = quality_reports db"
  "policy_overrides (job_record p now a ty i ev pl (db :: 'a content_db_scheme)) = policy_overrides db"
  "generation_jobs (job_record p now a ty i ev pl (db :: 'a content_db_scheme)) = generation_jobs db"
  "generation_job_steps (job_record p now a ty i ev pl (db :: 'a content_db_scheme)) = generation_job_steps db"
  "generation_job_commands (job_record p now a ty i ev pl (db :: 'a content_db_scheme)) = generation_job_commands db"
  "model_runs (job_record p now a ty i ev pl (db :: 'a content_db_scheme)) = model_runs db"
  "input_snapshots (job_record p now a ty i ev pl (db :: 'a content_db_scheme)) = input_snapshots db"
  "uuid_supply (job_record p now a ty i ev pl (db :: 'a content_db_scheme)) = uuid_supply db + 2"
  by (simp_all add: job_record_def append_audit_log_def add_outbox_event_def uuid4_def Let_def)

lemma invalidate_request_frame [simp]:
  "contents (invalidate_request p now rs nv nh r db) = contents db"
  "content_versions (invalidate_request p now rs nv nh r db) = content_versions db"
  "approval_requests (invalidate_request p now rs nv nh r db) = update_where (\<lambda>x. ar_id x = ar_id r) (touch_request (invalidated p now rs)) (approval_requests db)"
  "approval_decisions (invalidate_request p now rs nv nh r db) = approval_decisions db"
  "quality_configs (invalidate_request p now rs nv nh r db) = quality_configs db"
  "quality_assessments (invalidate_request p now rs nv nh r db) = quality_assessments db"
  "policy_events (invalidate_request p now rs nv nh r db) = policy_events db \<and> quality_reports (invalidate_request p now rs nv nh r db) = quality_reports db"
  "policy_overrides (invalidate_request p now rs nv nh r db) = policy_overrides db"
  "generation_jobs (invalidate_request p now rs nv nh r db) = generation_jobs db"
  "generation_job_steps (invalidate_request p now rs nv nh r db) = generation_job_steps db"
  "generation_job_commands (invalidate_request p now rs nv nh r db) = generation_job_commands db"
  "model_runs (invalidate_request p now rs nv nh r db) = model_runs db"
  "input_snapshots (invalidate_request p now rs nv nh r db) = input_snapshots db"
  "uuid_supply (invalidate_request p now rs nv nh r db) = uuid_supply db + 4"
  by (simp_all add: invalidate_request_def)

section \<open>Touched rows\<close>

lemma touch_request_fields [simp]:
  "ar_id (touch_request f r) = ar_id (f r)"
  "ar_workspace_id (touch_request f r) = ar_workspace_id (f r)"
  "ar_content_id (touch_request f r) = ar_content_id (f r)"
  "ar_content_version_id (touch_request f r) = ar_content_version_id (f r)"
  "ar_content_hash (touch_request f r) = ar_content_hash (f r)"
  "ar_assessment_id (touch_request f r) = ar_assessment_id (f r)"
  "ar_assessment_hash (touch_request f r) = ar_assessment_hash (f r)"
  "ar_quality_config_id (touch_request f r) = ar_quality_config_id (f r)"
  "ar_approval_stages_snapshot (touch_request f r) = ar_approval_stages_snapshot (f r)"
  "ar_status (touch_request f r) = ar_status (f r)"
  "ar_current_stage_index (touch_request f r) = ar_current_stage_index (f r)"
  "ar_stage_due_at (touch_request f r) = ar_stage_due_at (f r)"
  "ar_approved_by (touch_request f r) = ar_approved_by (f r)"
  "ar_approved_at (touch_request f r) = ar_approved_at (f r)"
  "ar_approved_content_version_id (touch_request f r) = ar_approved_content_version_id (f r)"
  "ar_approved_content_hash (touch_request f r) = ar_approved_content_hash (f r)"
  "ar_invalidated_at (touch_request f r) = ar_invalidated_at (f r)"
  by (auto simp: touch_request_def Let_def)

lemma touch_content_fields [simp]:
  "ct_id (touch_content f c) = ct_id (f c)"
  "ct_workspace_id (touch_content f c) = ct_workspace_id (f c)"
  "ct_current_version_id (touch_content f c) = ct_current_version_id (f c)"
  "ct_deleted_at (touch_content f c) = ct_deleted_at (f c)"
  "ct_state (touch_content f c) = ct_state (f c)"
  "ct_title (touch_content f c) = ct_title (f c)"
  "ct_channel (touch_content f c) = ct_channel (f c)"
  by (auto simp: touch_content_def Let_def)

section \<open>Invalidation\<close>

lemma foldl_update_rows:
  assumes "distinct (map k ys)" and "\<And>x. k (f x) = k x"
  shows "foldl (\<lambda>xs y. update_where (\<lambda>x. k x = k y) f xs) xs ys
    = update_where (\<lambda>x. k x \<in> k ` set ys) f xs"
  using assms(1)
proof (induction ys arbitrary: xs)
  case Nil
  show ?case by (simp add: update_where_def)
next
  case (Cons y ys)
  then have "k y \<notin> k ` set ys" by simp
  then have "update_where (\<lambda>x. k x \<in> k ` set ys) f (update_where (\<lambda>x. k x = k y) f xs)
      = update_where (\<lambda>x. k x \<in> k ` set (y # ys)) f xs"
    by (auto simp: update_where_def assms(2))
  with Cons show ?case by simp
qed

lemma foldl_update_filter:
  assumes "distinct (map k xs)" and "\<And>x. k (f x) = k x"
  shows "foldl (\<lambda>xs y. update_where (\<lambda>x. k x = k y) f xs) xs (filter P xs) = update_where P f xs"
proof -
  have "k x \<in> k ` set (filter P xs) \<longleftrightarrow> P x" if "x \<in> set xs" for x
    using that distinct_key_eq [OF assms(1)] by auto
  then have "update_where (\<lambda>x. k x \<in> k ` set (filter P xs)) f xs = update_where P f xs"
    by (auto simp: update_where_def)
  moreover have "distinct (map k (filter P xs))" by (rule distinct_map_filter [OF assms(1)])
  ultimately show ?thesis using foldl_update_rows [of k "filter P xs" f, OF _ assms(2)] by simp
qed

lemma invalidate_fold [simp]:
  "contents (foldl (\<lambda>db r. invalidate_request p now rs nv nh r db) db rows) = contents db"
  "content_versions (foldl (\<lambda>db r. invalidate_request p now rs nv nh r db) db rows) = content_versions db"
  "approval_decisions (foldl (\<lambda>db r. invalidate_request p now rs nv nh r db) db rows) = approval_decisions db"
  "quality_configs (foldl (\<lambda>db r. invalidate_request p now rs nv nh r db) db rows) = quality_configs db"
  "quality_assessments (foldl (\<lambda>db r. invalidate_request p now rs nv nh r db) db rows) = quality_assessments db"
  "policy_events (foldl (\<lambda>db r. invalidate_request p now rs nv nh r db) db rows) = policy_events db \<and> quality_reports (foldl (\<lambda>db r. invalidate_request p now rs nv nh r db) db rows) = quality_reports db"
  "policy_overrides (foldl (\<lambda>db r. invalidate_request p now rs nv nh r db) db rows) = policy_overrides db"
  "generation_jobs (foldl (\<lambda>db r. invalidate_request p now rs nv nh r db) db rows) = generation_jobs db"
  "generation_job_steps (foldl (\<lambda>db r. invalidate_request p now rs nv nh r db) db rows) = generation_job_steps db"
  "generation_job_commands (foldl (\<lambda>db r. invalidate_request p now rs nv nh r db) db rows) = generation_job_commands db"
  "model_runs (foldl (\<lambda>db r. invalidate_request p now rs nv nh r db) db rows) = model_runs db"
  "input_snapshots (foldl (\<lambda>db r. invalidate_request p now rs nv nh r db) db rows) = input_snapshots db"
  "approval_requests (foldl (\<lambda>db r. invalidate_request p now rs nv nh r db) db rows) =
     foldl (\<lambda>xs y. update_where (\<lambda>x. ar_id x = ar_id y) (touch_request (invalidated p now rs)) xs)
       (approval_requests db) rows"
  "uuid_supply (foldl (\<lambda>db r. invalidate_request p now rs nv nh r db) db rows) = uuid_supply db + 4 * length rows"
  by (induction rows arbitrary: db) simp_all

lemma invalidate_requests:
  assumes "distinct (map ar_id (approval_requests db))"
  shows "approval_requests (invalidate_approvals_for_content_change p now cid nv nh rs force db)
    = update_where (to_invalidate (workspace_id p) cid nv nh force)
        (touch_request (invalidated p now rs)) (approval_requests db)"
proof -
  have "ar_id (touch_request (invalidated p now rs) x) = ar_id x" for x
    by (simp add: invalidated_def)
  from foldl_update_filter [OF assms this] show ?thesis
    by (simp add: invalidate_approvals_for_content_change_def Let_def)
      (simp add: filter_empty_conv update_where_none)
qed

lemma invalidate_frame [simp]:
  "contents (invalidate_approvals_for_content_change p now cid nv nh rs force db) = contents db"
  "content_versions (invalidate_approvals_for_content_change p now cid nv nh rs force db) = content_versions db"
  "approval_decisions (invalidate_approvals_for_content_change p now cid nv nh rs force db) = approval_decisions db"
  "quality_configs (invalidate_approvals_for_content_change p now cid nv nh rs force db) = quality_configs db"
  "quality_assessments (invalidate_approvals_for_content_change p now cid nv nh rs force db) = quality_assessments db"
  "policy_events (invalidate_approvals_for_content_change p now cid nv nh rs force db) = policy_events db \<and> quality_reports (invalidate_approvals_for_content_change p now cid nv nh rs force db) = quality_reports db"
  "policy_overrides (invalidate_approvals_for_content_change p now cid nv nh rs force db) = policy_overrides db"
  "generation_jobs (invalidate_approvals_for_content_change p now cid nv nh rs force db) = generation_jobs db"
  "generation_job_steps (invalidate_approvals_for_content_change p now cid nv nh rs force db) = generation_job_steps db"
  "generation_job_commands (invalidate_approvals_for_content_change p now cid nv nh rs force db) = generation_job_commands db"
  "model_runs (invalidate_approvals_for_content_change p now cid nv nh rs force db) = model_runs db"
  "input_snapshots (invalidate_approvals_for_content_change p now cid nv nh rs force db) = input_snapshots db"
  "uuid_supply db \<le> uuid_supply (invalidate_approvals_for_content_change p now cid nv nh rs force db)"
  by (simp_all add: invalidate_approvals_for_content_change_def Let_def)

end
