(* ===== verification/Approval_Invariant.thy ===== *)
theory Approval_Invariant
  imports Content_Frames
begin

text \<open>
  The invariant of contents, versions and approvals. Its core: an active approval request is about
  the current version of its content, by identifier and hash; the stages a request has passed have
  their quorum of approvers, each of them entitled to decide; and the assessment behind a request
  has no blocking finding that was not overridden.
\<close>

section \<open>Components\<close>

definition content_key :: "content_item \<Rightarrow> uuid \<times> uuid \<times> uuid option" where
  "content_key c = (ct_id c, ct_workspace_id c, ct_current_version_id c)"

definition version_of :: "uuid \<Rightarrow> uuid \<Rightarrow> uuid \<Rightarrow> string \<Rightarrow> 'a content_db_scheme \<Rightarrow> bool" where
  "version_of ws cid vid h db \<longleftrightarrow> (\<exists>v \<in> set (content_versions db).
     cv_id v = vid \<and> cv_workspace_id v = ws \<and> cv_content_id v = cid \<and> cv_content_hash v = h)"

definition points_current :: "'a content_db_scheme \<Rightarrow> approval_request \<Rightarrow> bool" where
  "points_current db r \<longleftrightarrow>
     (ar_content_id r, ar_workspace_id r, Some (ar_content_version_id r)) \<in> content_key ` set (contents db)"

definition stage_complete :: "'a content_db_scheme \<Rightarrow> approval_request \<Rightarrow> approval_stage \<Rightarrow> bool" where
  "stage_complete db r s \<longleftrightarrow> as_required_approvals s
     \<le> int (card (set (prior_approvers (ar_workspace_id r) (ar_id r) (as_key s) db)))"

definition clean_assessment :: "'a content_db_scheme \<Rightarrow> quality_assessment \<Rightarrow> bool" where
  "clean_assessment db a \<longleftrightarrow>
     (if qa_blocking_policy_event_ids a = [] then qa_decision a = AssessmentDecision.PASS
      else qa_non_overrideable_policy_event_ids a = []
        \<and> (\<forall>i \<in> set (qa_blocking_policy_event_ids a). \<exists>x \<in> set (policy_overrides db).
             po_workspace_id x = qa_workspace_id a \<and> po_policy_event_id x = i))"

definition assessed :: "'a content_db_scheme \<Rightarrow> approval_request \<Rightarrow> bool" where
  "assessed db r \<longleftrightarrow> (\<exists>a \<in> set (quality_assessments db). qa_id a = ar_assessment_id r
     \<and> qa_workspace_id a = ar_workspace_id r \<and> qa_content_id a = ar_content_id r
     \<and> qa_content_version_id a = ar_content_version_id r \<and> qa_content_hash a = ar_content_hash r
     \<and> clean_assessment db a)"

definition approval_recorded :: "approval_request \<Rightarrow> bool" where
  "approval_recorded r \<longleftrightarrow> ar_approved_by r \<noteq> None \<and> ar_approved_at r \<noteq> None
     \<and> ar_approved_content_version_id r = Some (ar_content_version_id r)
     \<and> ar_approved_content_hash r = Some (ar_content_hash r)"

definition request_ok :: "'a content_db_scheme \<Rightarrow> approval_request \<Rightarrow> bool" where
  "request_ok db r \<longleftrightarrow> valid_stages (ar_approval_stages_snapshot r)
     \<and> ar_current_stage_index r < length (ar_approval_stages_snapshot r)
     \<and> (\<forall>i < ar_current_stage_index r. stage_complete db r (ar_approval_stages_snapshot r ! i))
     \<and> (ar_status r = ApprovalRequestStatus.APPROVED \<longrightarrow> approval_recorded r
          \<and> (\<forall>s \<in> set (ar_approval_stages_snapshot r). stage_complete db r s))
     \<and> (active_approval r \<longrightarrow> points_current db r \<and> ar_invalidated_at r = None)
     \<and> version_of (ar_workspace_id r) (ar_content_id r) (ar_content_version_id r) (ar_content_hash r) db
     \<and> assessed db r"

text \<open>The decision was made on the version of its request, by someone the stage admits.\<close>

definition entitled :: "approval_stage \<Rightarrow> approval_decision \<Rightarrow> bool" where
  "entitled s a \<longleftrightarrow> (as_approver_user_ids s \<noteq> [] \<longrightarrow> ad_decided_by a \<in> set (as_approver_user_ids s))
     \<and> (as_require_mfa s \<longrightarrow> used_mfa (ad_authentication_method a))"

definition request_key where
  "request_key r = (ar_id r, ar_workspace_id r, ar_content_id r, ar_content_version_id r,
     ar_content_hash r, ar_approval_stages_snapshot r)"

definition decision_for :: "approval_decision \<Rightarrow> approval_request \<Rightarrow> bool" where
  "decision_for a r \<longleftrightarrow> ar_id r = ad_approval_request_id a \<and> ar_workspace_id r = ad_workspace_id a
     \<and> ar_content_version_id r = ad_content_version_id a \<and> ar_content_hash r = ad_content_hash a
     \<and> (\<exists>s \<in> set (ar_approval_stages_snapshot r). as_key s = ad_stage_key a \<and> entitled s a)"

definition decision_ok :: "'a content_db_scheme \<Rightarrow> approval_decision \<Rightarrow> bool" where
  "decision_ok db a \<longleftrightarrow> (\<exists>r \<in> set (approval_requests db). decision_for a r)"

definition override_ok :: "'a content_db_scheme \<Rightarrow> policy_override \<Rightarrow> bool" where
  "override_ok db x \<longleftrightarrow> (\<exists>e \<in> set (policy_events db). pe_id e = po_policy_event_id x
     \<and> pe_workspace_id e = po_workspace_id x \<and> pe_override_allowed e
     \<and> \<not> (blocking_event e \<and> pe_layer e \<in> set NON_OVERRIDEABLE_HARD_BLOCK_LAYERS))"

definition ids_ok :: "'a content_db_scheme \<Rightarrow> bool" where
  "ids_ok db \<longleftrightarrow>
     distinct (map ct_id (contents db)) \<and> set (map ct_id (contents db)) \<subseteq> {..<uuid_supply db}
     \<and> distinct (map cv_id (content_versions db)) \<and> set (map cv_id (content_versions db)) \<subseteq> {..<uuid_supply db}
     \<and> distinct (map ar_id (approval_requests db)) \<and> set (map ar_id (approval_requests db)) \<subseteq> {..<uuid_supply db}
     \<and> distinct (map pe_id (policy_events db)) \<and> set (map pe_id (policy_events db)) \<subseteq> {..<uuid_supply db}
     \<and> set (map qr_id (quality_reports db)) \<subseteq> {..<uuid_supply db}"

definition current_ok :: "'a content_db_scheme \<Rightarrow> bool" where
  "current_ok db \<longleftrightarrow> (\<forall>(cid, ws, cur) \<in> content_key ` set (contents db). \<forall>v. cur = Some v \<longrightarrow>
     (\<exists>h. version_of ws cid v h db))"

text \<open>An assessment is justified by its configuration, one report of each kind on its version, and
  the policy events of those reports.\<close>

definition meets_thresholds :: "quality_config \<Rightarrow> quality_assessment \<Rightarrow> bool" where
  "meets_thresholds c a \<longleftrightarrow> qc_minimum_total_score c \<le> qa_total_score a
     \<and> (\<forall>(k, m) \<in> set (qc_minimum_component_scores c).
          \<exists>s. map_of (qa_component_scores a) k = Some s \<and> m \<le> s)"

definition blocks_publication :: "policy_event \<Rightarrow> bool" where
  "blocks_publication e \<longleftrightarrow> pe_hard_block e \<or> pe_severity e = FindingSeverity.BLOCK"

definition overridable :: "policy_event \<Rightarrow> bool" where
  "overridable e \<longleftrightarrow> pe_override_allowed e \<and> pe_layer e \<notin> set NON_OVERRIDEABLE_HARD_BLOCK_LAYERS"

definition overridden :: "'a content_db_scheme \<Rightarrow> uuid \<Rightarrow> uuid \<Rightarrow> bool" where
  "overridden db ws i \<longleftrightarrow> (\<exists>x \<in> set (policy_overrides db). po_workspace_id x = ws \<and> po_policy_event_id x = i)"

definition thresholds_ok :: "'a content_db_scheme \<Rightarrow> quality_assessment \<Rightarrow> bool" where
  "thresholds_ok db a \<longleftrightarrow> (\<exists>c \<in> set (quality_configs db). qc_workspace_id c = qa_workspace_id a
     \<and> qc_id c = qa_quality_config_id a \<and> qc_config_hash c = qa_quality_config_hash a
     \<and> (if qa_failed_thresholds a = [] then meets_thresholds c a
        else qa_decision a \<noteq> AssessmentDecision.PASS
          \<and> (\<exists>e \<in> set (policy_events db). pe_assessment_id e = Some (qa_id a)
               \<and> pe_id e \<in> set (qa_blocking_policy_event_ids a))
          \<and> (qc_threshold_override_allowed c \<or> qa_non_overrideable_policy_event_ids a \<noteq> [])))"

definition reports_ok :: "'a content_db_scheme \<Rightarrow> quality_assessment \<Rightarrow> bool" where
  "reports_ok db a \<longleftrightarrow> set (qa_report_ids a) \<subseteq> qr_id ` set (quality_reports db)
     \<and> (\<forall>k \<in> set REPORT_KINDS. \<exists>r \<in> set (quality_reports db). qr_report_kind r = k
          \<and> qr_id r \<in> set (qa_report_ids a) \<and> qr_workspace_id r = qa_workspace_id a
          \<and> qr_content_id r = qa_content_id a \<and> qr_content_version_id r = qa_content_version_id a
          \<and> qr_content_hash r = qa_content_hash a)"

definition report_event :: "quality_assessment \<Rightarrow> policy_event \<Rightarrow> bool" where
  "report_event a e \<longleftrightarrow> pe_workspace_id e = qa_workspace_id a
     \<and> (\<exists>i \<in> set (qa_report_ids a). pe_report_id e = Some i)"

definition events_ok :: "'a content_db_scheme \<Rightarrow> quality_assessment \<Rightarrow> bool" where
  "events_ok db a \<longleftrightarrow> (\<forall>e \<in> set (policy_events db). report_event a e \<longrightarrow> blocks_publication e \<longrightarrow>
     (let i = the_uuid (uuid_str (pe_id e)) in
       if overridable e
       then i \<in> set (qa_blocking_policy_event_ids a)
          \<or> (\<exists>x \<in> set (policy_overrides db). po_workspace_id x = qa_workspace_id a
               \<and> the_uuid (uuid_str (po_policy_event_id x)) = i)
       else i \<in> set (qa_blocking_policy_event_ids a) \<and> i \<in> set (qa_non_overrideable_policy_event_ids a)))"

definition assessment_ok :: "'a content_db_scheme \<Rightarrow> quality_assessment \<Rightarrow> bool" where
  "assessment_ok db a \<longleftrightarrow> thresholds_ok db a \<and> reports_ok db a \<and> events_ok db a"

definition approvals_ok :: "'a content_db_scheme \<Rightarrow> bool" where
  "approvals_ok db \<longleftrightarrow> ids_ok db \<and> current_ok db \<and> (\<forall>r \<in> set (approval_requests db). request_ok db r)
     \<and> (\<forall>a \<in> set (approval_decisions db). decision_ok db a)
     \<and> (\<forall>x \<in> set (policy_overrides db). override_ok db x)
     \<and> (\<forall>c \<in> set (quality_configs db). valid_stages (qc_approval_stages c))
     \<and> (\<forall>a \<in> set (quality_assessments db). assessment_ok db a)"

section \<open>What only grows\<close>

definition grows :: "'a content_db_scheme \<Rightarrow> 'a content_db_scheme \<Rightarrow> bool" where
  "grows db db' \<longleftrightarrow> set (content_versions db) \<subseteq> set (content_versions db')
     \<and> set (approval_decisions db) \<subseteq> set (approval_decisions db')
     \<and> set (quality_assessments db) \<subseteq> set (quality_assessments db')
     \<and> set (policy_events db) \<subseteq> set (policy_events db')
     \<and> set (policy_overrides db) \<subseteq> set (policy_overrides db')
     \<and> set (quality_configs db) \<subseteq> set (quality_configs db')
     \<and> set (quality_reports db) \<subseteq> set (quality_reports db')
     \<and> (\<forall>e \<in> set (policy_events db'). e \<in> set (policy_events db)
          \<or> (\<forall>i. pe_report_id e = Some i \<longrightarrow> uuid_supply db \<le> i))
     \<and> request_key ` set (approval_requests db) \<subseteq> request_key ` set (approval_requests db')"

lemma version_of_grows: "grows db db' \<Longrightarrow> version_of ws c v h db \<Longrightarrow> version_of ws c v h db'"
  by (auto simp: grows_def version_of_def)

lemma prior_grows: "grows db db' \<Longrightarrow> set (prior_approvers ws r k db) \<subseteq> set (prior_approvers ws r k db')"
  by (auto simp: grows_def prior_approvers_def)

lemma stage_complete_grows:
  assumes "grows db db'" and "stage_complete db r s"
  shows "stage_complete db' r s"
proof -
  have "card (set (prior_approvers (ar_workspace_id r) (ar_id r) (as_key s) db))
      \<le> card (set (prior_approvers (ar_workspace_id r) (ar_id r) (as_key s) db'))"
    by (rule card_mono [OF _ prior_grows [OF assms(1)]]) simp
  with assms(2) show ?thesis by (simp add: stage_complete_def)
qed

lemma clean_assessment_grows: "grows db db' \<Longrightarrow> clean_assessment db a \<Longrightarrow> clean_assessment db' a"
  unfolding clean_assessment_def grows_def by (metis subsetD)

lemma assessed_grows: "grows db db' \<Longrightarrow> assessed db r \<Longrightarrow> assessed db' r"
  unfolding assessed_def by (meson clean_assessment_grows grows_def subsetD)

lemma decision_ok_grows: "grows db db' \<Longrightarrow> decision_ok db a \<Longrightarrow> decision_ok db' a"
proof -
  assume g: "grows db db'" and "decision_ok db a"
  then obtain r where r: "r \<in> set (approval_requests db)" "decision_for a r" by (auto simp: decision_ok_def)
  from r(1) g obtain r' where "r' \<in> set (approval_requests db')" "request_key r' = request_key r"
    unfolding grows_def by (metis image_eqI image_iff subsetD)
  moreover from this r(2) have "decision_for a r'" by (simp add: decision_for_def request_key_def)
  ultimately show ?thesis by (auto simp: decision_ok_def)
qed

lemma override_ok_grows: "grows db db' \<Longrightarrow> override_ok db x \<Longrightarrow> override_ok db' x"
  by (auto simp: grows_def override_ok_def)

lemma request_ok_grows:
  assumes "grows db db'" and "request_ok db r" and "active_approval r \<longrightarrow> points_current db' r"
  shows "request_ok db' r"
  using assms stage_complete_grows [OF assms(1)] assessed_grows [OF assms(1)]
    version_of_grows [OF assms(1)]
  by (auto simp: request_ok_def)

lemma thresholds_ok_grows: "grows db db' \<Longrightarrow> thresholds_ok db a \<Longrightarrow> thresholds_ok db' a"
  unfolding thresholds_ok_def grows_def by (smt (verit, best) subsetD)

lemma reports_ok_grows: "grows db db' \<Longrightarrow> reports_ok db a \<Longrightarrow> reports_ok db' a"
  unfolding reports_ok_def grows_def by (meson image_mono subset_iff)

text \<open>A report's events are all recorded with it, so an assessment stays complete.\<close>

lemma events_ok_grows:
  assumes g: "grows db db'" and ids: "ids_ok db" and "reports_ok db a" and old: "events_ok db a"
  shows "events_ok db' a"
proof -
  have below: "i < uuid_supply db" if "i \<in> set (qa_report_ids a)" for i
    using assms(3) ids that by (fastforce simp: reports_ok_def ids_ok_def)
  have "e \<in> set (policy_events db)" if "e \<in> set (policy_events db')" "report_event a e" for e
    using that g below by (fastforce simp: grows_def report_event_def)
  moreover have "set (policy_overrides db) \<subseteq> set (policy_overrides db')" using g by (simp add: grows_def)
  ultimately show ?thesis using old unfolding events_ok_def Let_def by (meson subsetD)
qed

lemma assessment_ok_grows:
  "grows db db' \<Longrightarrow> ids_ok db \<Longrightarrow> assessment_ok db a \<Longrightarrow> assessment_ok db' a"
  unfolding assessment_ok_def using thresholds_ok_grows reports_ok_grows events_ok_grows by blast

text \<open>The pattern of every preservation proof: what is new or changed is shown to be well-formed.\<close>

lemma ok_step:
  assumes ok: "approvals_ok db" and grow: "grows db db'" and ids: "ids_ok db'" and cur: "current_ok db'"
    and reqs: "\<And>r. r \<in> set (approval_requests db') \<Longrightarrow>
      r \<in> set (approval_requests db) \<and> (active_approval r \<longrightarrow> points_current db' r) \<or> request_ok db' r"
    and decs: "\<And>a. a \<in> set (approval_decisions db') \<Longrightarrow> a \<in> set (approval_decisions db) \<or> decision_ok db' a"
    and ovs: "\<And>x. x \<in> set (policy_overrides db') \<Longrightarrow> x \<in> set (policy_overrides db) \<or> override_ok db' x"
    and cfgs: "\<And>c. c \<in> set (quality_configs db') \<Longrightarrow>
      c \<in> set (quality_configs db) \<or> valid_stages (qc_approval_stages c)"
    and asms: "\<And>a. a \<in> set (quality_assessments db') \<Longrightarrow>
      a \<in> set (quality_assessments db) \<or> assessment_ok db' a"
  shows "approvals_ok db'"
  unfolding approvals_ok_def
proof (intro conjI ballI)
  fix r assume "r \<in> set (approval_requests db')"
  with reqs ok show "request_ok db' r"
    by (metis approvals_ok_def request_ok_grows [OF grow])
next
  fix a assume "a \<in> set (approval_decisions db')"
  with decs ok show "decision_ok db' a" by (metis approvals_ok_def decision_ok_grows [OF grow])
next
  fix x assume "x \<in> set (policy_overrides db')"
  with ovs ok show "override_ok db' x" by (metis approvals_ok_def override_ok_grows [OF grow])
next
  fix c assume "c \<in> set (quality_configs db')"
  with cfgs ok show "valid_stages (qc_approval_stages c)" by (metis approvals_ok_def)
next
  fix a assume "a \<in> set (quality_assessments db')"
  with asms ok show "assessment_ok db' a"
    by (metis approvals_ok_def assessment_ok_grows [OF grow])
qed (fact ids cur)+

end
