(* ===== verification/Approval_Preservation.thy ===== *)
theory Approval_Preservation
  imports Approval_Invariant
begin

text \<open>The content and approval operations preserve the invariant of \<open>Approval_Invariant\<close>.\<close>

section \<open>Operations that leave versions and approvals alone\<close>

definition quiet :: "'a content_db_scheme \<Rightarrow> 'a content_db_scheme \<Rightarrow> bool" where
  "quiet db db' \<longleftrightarrow> content_versions db' = content_versions db
     \<and> approval_requests db' = approval_requests db \<and> approval_decisions db' = approval_decisions db
     \<and> quality_configs db' = quality_configs db \<and> quality_assessments db' = quality_assessments db
     \<and> policy_events db' = policy_events db \<and> quality_reports db' = quality_reports db \<and> policy_overrides db' = policy_overrides db
     \<and> uuid_supply db \<le> uuid_supply db'
     \<and> (\<exists>ks. map content_key (contents db') = map content_key (contents db) @ ks
          \<and> (\<forall>(i, w, cur) \<in> set ks. cur = None \<and> uuid_supply db \<le> i \<and> i < uuid_supply db')
          \<and> distinct (map fst ks))"

lemma content_ids: "map ct_id cs = map fst (map content_key cs)"
  by (simp add: content_key_def)

lemma quiet_same:
  assumes "content_versions db' = content_versions db" "approval_requests db' = approval_requests db"
    "approval_decisions db' = approval_decisions db" "quality_configs db' = quality_configs db"
    "quality_assessments db' = quality_assessments db" "policy_events db' = policy_events db \<and> quality_reports db' = quality_reports db"
    "policy_overrides db' = policy_overrides db" "uuid_supply db \<le> uuid_supply db'"
    "map content_key (contents db') = map content_key (contents db)"
  shows "quiet db db'"
  unfolding quiet_def using assms by (intro conjI exI [of _ "[]"]) simp_all

lemma subset_below: "A \<subseteq> {..<m} \<Longrightarrow> m \<le> n \<Longrightarrow> A \<subseteq> {..<(n::nat)}"
  by force

lemma quiet_ids:
  assumes ok: "approvals_ok db" and q: "quiet db db'"
  shows "ids_ok db'"
proof -
  obtain ks where ks: "map content_key (contents db') = map content_key (contents db) @ ks"
    "\<forall>(i, w, cur) \<in> set ks. cur = None \<and> uuid_supply db \<le> i \<and> i < uuid_supply db'" "distinct (map fst ks)"
    using q by (auto simp: quiet_def)
  have le: "uuid_supply db \<le> uuid_supply db'" using q by (simp add: quiet_def)
  have old: "distinct (map ct_id (contents db))" "set (map ct_id (contents db)) \<subseteq> {..<uuid_supply db}"
    using ok by (simp_all add: approvals_ok_def ids_ok_def)
  have new: "uuid_supply db \<le> i \<and> i < uuid_supply db'" if "i \<in> set (map fst ks)" for i
    using that ks(2) by (auto simp del: set_map simp add: list.set_map)
  have ids: "map ct_id (contents db') = map ct_id (contents db) @ map fst ks"
    unfolding content_ids ks(1) by simp
  have "set (map ct_id (contents db)) \<inter> set (map fst ks) = {}"
    using old(2) new by (meson disjoint_iff leD lessThan_iff subsetD)
  then have "distinct (map ct_id (contents db'))"
    unfolding ids distinct_append using old(1) ks(3) by blast
  moreover have "set (map ct_id (contents db')) \<subseteq> {..<uuid_supply db'}"
    unfolding ids set_append using subset_below [OF old(2) le] new by (simp add: subset_iff)
  moreover have "content_versions db' = content_versions db \<and> approval_requests db' = approval_requests db
      \<and> policy_events db' = policy_events db \<and> quality_reports db' = quality_reports db"
    using q by (simp add: quiet_def)
  ultimately show ?thesis using ok subset_below [OF _ le]
    unfolding approvals_ok_def ids_ok_def by presburger
qed

lemma quiet_ok: "approvals_ok db \<Longrightarrow> quiet db db' \<Longrightarrow> approvals_ok db'"
proof (rule ok_step)
  assume ok: "approvals_ok db" and q: "quiet db db'"
  obtain ks where ks: "map content_key (contents db') = map content_key (contents db) @ ks"
    "\<forall>(i, w, cur) \<in> set ks. cur = None" using q by (fastforce simp: quiet_def)
  have keys: "content_key ` set (contents db') = content_key ` set (contents db) \<union> set ks"
    using arg_cong [OF ks(1), of set] by simp
  show "ids_ok db'" by (rule quiet_ids [OF ok q])
  show "grows db db'" using q by (simp add: quiet_def grows_def)
  show "current_ok db'" using ok ks(2) q
    unfolding approvals_ok_def current_ok_def keys quiet_def version_of_def by fastforce
  fix r assume "r \<in> set (approval_requests db')"
  then have "r \<in> set (approval_requests db)" "request_ok db r" using ok q by (auto simp: quiet_def approvals_ok_def)
  then show "r \<in> set (approval_requests db) \<and> (active_approval r \<longrightarrow> points_current db' r) \<or> request_ok db' r"
    by (auto simp: request_ok_def points_current_def keys)
qed (auto simp: quiet_def)

section \<open>Invalidation\<close>

lemma invalidated_fields [simp]:
  "ar_id (invalidated p now rs r) = ar_id r" "ar_workspace_id (invalidated p now rs r) = ar_workspace_id r"
  "request_key (invalidated p now rs r) = request_key r"
  "ar_status (invalidated p now rs r) = ApprovalRequestStatus.INVALIDATED"
  by (simp_all add: invalidated_def request_key_def)

lemma touch_request_key [simp]: "request_key (touch_request f r) = request_key (f r)"
  by (simp add: request_key_def)

text \<open>A request that is no longer active keeps its history.\<close>

lemma retired_ok:
  assumes "request_ok db r" and "\<not> active_approval (f r)" and "request_key (f r) = request_key r"
    and "ar_current_stage_index (f r) = ar_current_stage_index r"
    and "ar_assessment_id (f r) = ar_assessment_id r"
  shows "request_ok db (touch_request f r)"
  using assms
  by (auto simp: request_ok_def request_key_def active_approval_def stage_complete_def assessed_def)

lemma invalidated_ok: "request_ok db r \<Longrightarrow> request_ok db (touch_request (invalidated p now rs) r)"
  by (rule retired_ok) (simp_all add: active_approval_def, simp_all add: invalidated_def)

lemma key_image_update:
  "(\<And>x. k (f x) = k x) \<Longrightarrow> k ` set (update_where P f xs) = k ` set xs"
  by (metis list.set_map map_update_where)

lemma invalidate_ok:
  assumes ok: "approvals_ok db"
  shows "approvals_ok (invalidate_approvals_for_content_change p now cid nv nh rs force db)"
proof (rule ok_step [OF ok])
  let ?db' = "invalidate_approvals_for_content_change p now cid nv nh rs force db"
  have reqs: "approval_requests ?db' = update_where (to_invalidate (workspace_id p) cid nv nh force)
      (touch_request (invalidated p now rs)) (approval_requests db)"
    using ok by (intro invalidate_requests) (simp add: approvals_ok_def ids_ok_def)
  show grow: "grows db ?db'" by (simp add: grows_def reqs key_image_update)
  have "map ar_id (approval_requests ?db') = map ar_id (approval_requests db)"
    unfolding reqs by (rule map_update_where) simp
  then show "ids_ok ?db'"
    using ok subset_below [of _ "uuid_supply db" "uuid_supply ?db'"] by (simp add: approvals_ok_def ids_ok_def)
  show "current_ok ?db'" using ok by (simp add: approvals_ok_def current_ok_def version_of_def)
  fix r assume "r \<in> set (approval_requests ?db')"
  then obtain r0 where r0: "r0 \<in> set (approval_requests db)"
    "r = r0 \<or> r = touch_request (invalidated p now rs) r0" by (auto simp: reqs set_update_where)
  then have "request_ok db r0" using ok by (simp add: approvals_ok_def)
  with r0 show "r \<in> set (approval_requests db) \<and> (active_approval r \<longrightarrow> points_current ?db' r) \<or> request_ok ?db' r"
    using request_ok_grows [OF grow invalidated_ok [OF \<open>request_ok db r0\<close>], of p now rs]
    by (auto simp: request_ok_def points_current_def active_approval_def)
qed simp_all

section \<open>A new current version\<close>

lemma block_rows_frame:
  "block_rows ws v n bs db = (rows, db') \<Longrightarrow>
     map cb_block_key rows = map bi_block_key bs \<and> db' = db\<lparr>uuid_supply := uuid_supply db + length bs\<rparr>"
proof (induction bs arbitrary: n rows db db')
  case (Cons b bs)
  obtain rows1 db1 where r: "block_rows ws v (Suc n) bs (snd (uuid4 db)) = (rows1, db1)" by fastforce
  with Cons.IH [OF r] Cons.prems show ?case
    by (auto simp: uuid4_def block_row_def split: prod.splits)
qed simp

lemma append_version_Inr:
  assumes "append_version H p c title blocks ck note sh origin db = Inr (v, db')"
  shows "v = version_row H p c title blocks ck note sh origin
        (next_version_number (workspace_id p) (ct_id c) db) (uuid_supply db)
    \<and> content_versions db' = content_versions db @ [v] \<and> uuid_supply db < uuid_supply db'
    \<and> contents db' = contents db \<and> approval_requests db' = approval_requests db
    \<and> approval_decisions db' = approval_decisions db \<and> quality_configs db' = quality_configs db
    \<and> quality_assessments db' = quality_assessments db \<and> policy_events db' = policy_events db \<and> quality_reports db' = quality_reports db
    \<and> policy_overrides db' = policy_overrides db \<and> generation_jobs db' = generation_jobs db
    \<and> generation_job_steps db' = generation_job_steps db
    \<and> generation_job_commands db' = generation_job_commands db \<and> model_runs db' = model_runs db
    \<and> distinct (map bi_block_key blocks) \<and> length title \<le> 500"
proof -
  obtain rows db1 where b: "block_rows (workspace_id p) (uuid_supply db) 0 blocks
      (db\<lparr>uuid_supply := Suc (uuid_supply db)\<rparr>) = (rows, db1)" by fastforce
  note f = block_rows_frame [OF b]
  moreover have "v = version_row H p c title blocks ck note sh origin
        (next_version_number (workspace_id p) (ct_id c) db) (uuid_supply db)
    \<and> db' = db1\<lparr>content_versions := content_versions db1 @ [v], content_blocks := content_blocks db1 @ rows\<rparr>
    \<and> distinct (map cb_block_key rows) \<and> length title \<le> 500"
    using assms b unfolding append_version_def uuid4_def Let_def prod.case
    by (auto split: if_splits)
  ultimately show ?thesis using f by simp
qed

end
