(* ===== verification/Approval_Operations.thy ===== *)
theory Approval_Operations
  imports Approval_Preservation
begin

text \<open>
  Every operation on contents, versions and approvals preserves \<open>approvals_ok\<close>: the operations that
  make a version current, approval requests and decisions, policy overrides and configurations.
\<close>

section \<open>Making a version current\<close>

lemma new_current_ok:
  fixes db db' :: "'a content_db_scheme"
  assumes ok: "approvals_ok db"
    and vs: "content_versions db' = content_versions db @ [v]" "cv_workspace_id v = ws" "cv_content_id v = cid"
    and fresh: "uuid_supply db \<le> cv_id v" "cv_id v < uuid_supply db'"
    and cs: "map content_key (contents db')
      = map (\<lambda>(x, w, cur). if x = cid then (x, w, Some (cv_id v)) else (x, w, cur)) (map content_key (contents db))"
    and own: "\<exists>c \<in> set (contents db). ct_id c = cid \<and> ct_workspace_id c = ws"
    and same: "approval_decisions db' = approval_decisions db" "quality_configs db' = quality_configs db"
      "quality_assessments db' = quality_assessments db" "policy_events db' = policy_events db \<and> quality_reports db' = quality_reports db"
      "policy_overrides db' = policy_overrides db"
    and keys: "map request_key (approval_requests db') = map request_key (approval_requests db)"
    and reqs: "\<And>r. r \<in> set (approval_requests db') \<Longrightarrow>
      r \<in> set (approval_requests db) \<and> (active_approval r \<longrightarrow> ar_content_id r \<noteq> cid)
      \<or> (\<exists>r0 \<in> set (approval_requests db). r = touch_request (invalidated p now rs) r0)"
  shows "approvals_ok db'"
proof -
  have le: "uuid_supply db \<le> uuid_supply db'" using fresh by simp
  have keyset: "content_key ` set (contents db')
      = (\<lambda>(x, w, cur). if x = cid then (x, w, Some (cv_id v)) else (x, w, cur)) ` content_key ` set (contents db)"
    using arg_cong [OF cs, of set] by (simp only: list.set_map)
  have old: "distinct (map ct_id (contents db))" "set (map ct_id (contents db)) \<subseteq> {..<uuid_supply db}"
    "distinct (map cv_id (content_versions db))" "set (map cv_id (content_versions db)) \<subseteq> {..<uuid_supply db}"
    "distinct (map ar_id (approval_requests db))" "set (map ar_id (approval_requests db)) \<subseteq> {..<uuid_supply db}"
    "distinct (map pe_id (policy_events db))" "set (map pe_id (policy_events db)) \<subseteq> {..<uuid_supply db}"
    "set (map qr_id (quality_reports db)) \<subseteq> {..<uuid_supply db}"
    using ok by (simp_all add: approvals_ok_def ids_ok_def)
  have "map ct_id (contents db') = map ct_id (contents db)"
    unfolding content_ids cs by (simp add: content_key_def comp_def)
  moreover have "map ar_id (approval_requests db') = map ar_id (approval_requests db)"
  proof -
    have "map ar_id rs = map fst (map request_key rs)" for rs by (simp add: request_key_def)
    with keys show ?thesis by metis
  qed
  moreover have "cv_id v \<notin> set (map cv_id (content_versions db))" using old(4) fresh(1) by fastforce
  ultimately have ids: "ids_ok db'"
    using old vs(1) same(4) fresh(2) subset_below [OF _ le] unfolding ids_ok_def by simp
  have grow: "grows db db'"
    using vs(1) same arg_cong [OF keys, of set] by (auto simp: grows_def)
  have "\<exists>h. version_of w x y h db'" if k': "(x, w, Some y) \<in> content_key ` set (contents db')" for x w y
  proof -
    obtain c cur where c: "c \<in> set (contents db)" "content_key c = (x, w, cur)"
      and y: "if x = cid then y = cv_id v else cur = Some y"
      using k' unfolding keyset by (auto split: if_splits dest: sym)
    show ?thesis
    proof (cases "x = cid")
      case True
      obtain c' where c': "c' \<in> set (contents db)" "ct_id c' = cid" "ct_workspace_id c' = ws" using own by blast
      then have "c' = c" using c True old(1) by (intro distinct_key_eq [of ct_id]) (auto simp: content_key_def)
      then have "w = ws" using c(2) c' by (simp add: content_key_def)
      with True y show ?thesis by (auto simp: version_of_def vs)
    next
      case False
      with y c have "(x, w, Some y) \<in> content_key ` set (contents db)" by force
      then have "\<exists>h. version_of w x y h db" using ok unfolding approvals_ok_def current_ok_def by blast
      then show ?thesis using version_of_grows [OF grow] by blast
    qed
  qed
  then have cur: "current_ok db'" unfolding current_ok_def by blast
  show ?thesis
  proof (rule ok_step [OF ok grow ids cur])
    fix r assume r: "r \<in> set (approval_requests db')"
    from reqs [OF r] show "r \<in> set (approval_requests db) \<and> (active_approval r \<longrightarrow> points_current db' r)
        \<or> request_ok db' r"
    proof
      assume a: "r \<in> set (approval_requests db) \<and> (active_approval r \<longrightarrow> ar_content_id r \<noteq> cid)"
      then have "request_ok db r" using ok by (simp add: approvals_ok_def)
      with a show ?thesis by (force simp: request_ok_def points_current_def keyset)
    next
      assume "\<exists>r0 \<in> set (approval_requests db). r = touch_request (invalidated p now rs) r0"
      then obtain r0 where r0: "r0 \<in> set (approval_requests db)" "r = touch_request (invalidated p now rs) r0" ..
      then have "request_ok db r" using ok by (auto simp: approvals_ok_def intro: invalidated_ok)
      moreover have "\<not> active_approval r" by (simp add: r0(2) active_approval_def)
      ultimately show ?thesis using request_ok_grows [OF grow] by blast
    qed
  qed (simp_all add: same)
qed


text \<open>Appending a version, pointing the content at it and invalidating its approvals.\<close>

lemma update_content_keys:
  assumes "\<And>c. ct_id (f c) = ct_id c \<and> ct_workspace_id (f c) = ct_workspace_id c
      \<and> ct_current_version_id (f c) = Some i"
  shows "map content_key (update_where (\<lambda>c. ct_id c = cid) (touch_content f) cs)
    = map (\<lambda>(x, w, cur). if x = cid then (x, w, Some i) else (x, w, cur)) (map content_key cs)"
  using assms by (induction cs) (auto simp: content_key_def)

lemma find_content_Inr:
  "find_content ws cid d db = Inr c \<Longrightarrow>
   c \<in> set (contents db) \<and> ct_workspace_id c = ws \<and> ct_id c = cid \<and> (d \<or> ct_deleted_at c = None)"
  by (auto simp: find_content_def dest: find_SomeD split: option.splits)

lemma make_current_ok:
  fixes db db1 db2 :: "'a content_db_scheme"
  assumes ok: "approvals_ok db" and c: "find_content (workspace_id p) cid False db = Inr c"
    and a: "append_version H p c title blocks ck note sh origin db = Inr (v, db1)"
    and d2: "contents db2 = contents db1" "content_versions db2 = content_versions db1"
      "approval_requests db2 = approval_requests db1" "approval_decisions db2 = approval_decisions db1"
      "quality_configs db2 = quality_configs db1" "quality_assessments db2 = quality_assessments db1"
      "policy_events db2 = policy_events db1 \<and> quality_reports db2 = quality_reports db1" "policy_overrides db2 = policy_overrides db1"
      "uuid_supply db2 = uuid_supply db1"
    and f: "\<And>x. ct_id (f x) = ct_id x \<and> ct_workspace_id (f x) = ct_workspace_id x
      \<and> ct_current_version_id (f x) = Some (cv_id v)"
  shows "approvals_ok (make_current now p cid v rs f db2)"
proof -
  note av = append_version_Inr [OF a]
  note cc = find_content_Inr [OF c]
  define db3 where "db3 = update_content_row cid f db2"
  let ?db' = "make_current now p cid v rs f db2"
  have db': "?db' = invalidate_approvals_for_content_change p now cid (cv_id v) (cv_content_hash v) rs False db3"
    by (simp add: make_current_def db3_def)
  have rows: "approval_requests db3 = approval_requests db" by (simp add: db3_def d2 av)
  have ids: "distinct (map ar_id (approval_requests db))" using ok by (simp add: approvals_ok_def ids_ok_def)
  have reqs: "approval_requests ?db' = update_where (to_invalidate (workspace_id p) cid (cv_id v) (cv_content_hash v) False)
      (touch_request (invalidated p now rs)) (approval_requests db)"
    unfolding db' by (subst invalidate_requests) (simp_all add: rows ids)
  have v: "cv_id v = uuid_supply db" "cv_workspace_id v = workspace_id p" "cv_content_id v = cid"
    using av cc by (simp_all add: version_row_def Let_def)
  show ?thesis
  proof (rule new_current_ok [OF ok, where v = v and ws = "workspace_id p" and cid = cid and p = p and now = now and rs = rs])
    show "map content_key (contents ?db') = map (\<lambda>(x, w, cur). if x = cid then (x, w, Some (cv_id v)) else (x, w, cur))
        (map content_key (contents db))"
      unfolding db' db3_def using av d2(1) by (simp add: update_content_keys [OF f])
    show "cv_id v < uuid_supply ?db'"
    proof -
      have "uuid_supply db1 \<le> uuid_supply ?db'" unfolding db'
        by (rule order_trans [OF _ invalidate_frame(13)]) (simp add: db3_def d2)
      with av v(1) show ?thesis by linarith
    qed
    show "map request_key (approval_requests ?db') = map request_key (approval_requests db)"
      unfolding reqs by (rule map_update_where) simp
    fix r assume "r \<in> set (approval_requests ?db')"
    then consider (kept) "r \<in> set (approval_requests db)"
        "\<not> to_invalidate (workspace_id p) cid (cv_id v) (cv_content_hash v) False r"
      | (hit) r0 where "r0 \<in> set (approval_requests db)" "r = touch_request (invalidated p now rs) r0"
      by (auto simp: reqs set_update_where)
    then show "r \<in> set (approval_requests db) \<and> (active_approval r \<longrightarrow> ar_content_id r \<noteq> cid)
        \<or> (\<exists>r0 \<in> set (approval_requests db). r = touch_request (invalidated p now rs) r0)"
    proof cases
      case kept
      have "ar_content_id r \<noteq> cid" if act: "active_approval r"
      proof
        assume on: "ar_content_id r = cid"
        have rok: "request_ok db r" using kept(1) ok by (simp add: approvals_ok_def)
        then obtain c' where c': "c' \<in> set (contents db)" "content_key c'
            = (ar_content_id r, ar_workspace_id r, Some (ar_content_version_id r))"
          using act by (auto simp: request_ok_def points_current_def)
        have "c' = c" using c' on cc ok
          by (intro distinct_key_eq [of ct_id "contents db"])
            (auto simp: content_key_def approvals_ok_def ids_ok_def)
        then have w: "ar_workspace_id r = workspace_id p" using c' cc by (simp add: content_key_def)
        have "ar_content_version_id r < uuid_supply db"
          using rok ok by (auto simp: request_ok_def version_of_def approvals_ok_def ids_ok_def)
        with kept(2) act on w v(1) show False by (simp add: to_invalidate_def)
      qed
      with kept(1) show ?thesis by blast
    qed blast
  qed (use av v d2 cc in \<open>auto simp: make_current_def\<close>)
qed

end
