(* ===== verification/Approval_Steps.thy ===== *)
theory Approval_Steps
  imports Approval_Operations
begin

text \<open>
  The operations of the content and quality services preserve \<open>approvals_ok\<close>, one lemma each.
\<close>

section \<open>Versions\<close>

lemma version_event_quiet: "version_event now p cid v et ek db = Inr db' \<Longrightarrow> quiet db db'"
  by (rule quiet_same) (auto simp: version_event_def insert_event_def uuid4_def Let_def split: if_splits)

lemma set_current_fields:
  "ct_id (set_current a v c) = ct_id c \<and> ct_workspace_id (set_current a v c) = ct_workspace_id c
     \<and> ct_current_version_id (set_current a v c) = Some (cv_id v)"
  by (simp add: set_current_def)

lemma create_version_ok:
  assumes ok: "approvals_ok db" and run: "create_version H now p cid d db = Inr (v, db')"
  shows "approvals_ok db'"
proof -
  obtain c db1 where c: "find_content (workspace_id p) cid False db = Inr c"
    and a: "append_version H p c (vc_title d) (vc_document d) (vc_change_kind d) (vc_change_note d)
      (vc_source_snapshot_hash d) no_origin db = Inr (v, db1)"
    and e: "version_event now p (ct_id c) v ''content.version.created'' CollaborationEventKind.VERSION_CREATED
      (make_current now p (ct_id c) v ''new version'' (set_current (subject_id p) v) db1) = Inr db'"
    using run by (auto simp: create_version_def result_simps)
  have "approvals_ok (make_current now p cid v ''new version'' (set_current (subject_id p) v) db1)"
    by (rule make_current_ok [OF ok c a]) (simp_all add: set_current_fields)
  with e find_content_Inr [OF c] show ?thesis by (auto intro: quiet_ok version_event_quiet)
qed

lemma restore_version_ok:
  assumes ok: "approvals_ok db" and run: "restore_version H now p cid src cur note db = Inr (v, db')"
  shows "approvals_ok db'"
proof -
  obtain c and s :: content_version and bs db1 where c: "find_content (workspace_id p) cid False db = Inr c"
    and a: "append_version H p c (cv_title s) bs ContentChangeKind.RESTORE note
      (cv_source_snapshot_hash s) (no_origin\<lparr>vo_restored_from := Some (cv_id s)\<rparr>) db = Inr (v, db1)"
    and e: "version_event now p (ct_id c) v ''content.version.restored'' CollaborationEventKind.VERSION_RESTORED
      (make_current now p (ct_id c) v ''restored version'' (set_current (subject_id p) v) db1) = Inr db'"
    using run by (auto simp: restore_version_def result_simps split: if_splits)
  have "approvals_ok (make_current now p cid v ''restored version'' (set_current (subject_id p) v) db1)"
    by (rule make_current_ok [OF ok c a]) (simp_all add: set_current_fields)
  with e find_content_Inr [OF c] show ?thesis by (auto intro: quiet_ok version_event_quiet)
qed

lemma content_job_frame [simp]:
  fixes db :: "'a content_db_scheme"
  shows "contents (update_job i f db) = contents db"
  "content_versions (update_job i f db) = content_versions db"
  "approval_requests (update_job i f db) = approval_requests db"
  "approval_decisions (update_job i f db) = approval_decisions db"
  "quality_configs (update_job i f db) = quality_configs db"
  "quality_assessments (update_job i f db) = quality_assessments db"
  "policy_events (update_job i f db) = policy_events db \<and> quality_reports (update_job i f db) = quality_reports db"
  "policy_overrides (update_job i f db) = policy_overrides db"
  "uuid_supply (update_job i f db) = uuid_supply db"
  by (simp_all add: update_job_def)

lemma finalize_for_review_ok:
  assumes ok: "approvals_ok db" and run: "finalize_for_review H now ws j title bs actor db = Inr (v, db')"
  shows "approvals_ok db'"
proof -
  define p where "p = \<lparr>subject_id = actor, workspace_id = ws, session_id = None, permissions = [],
    authentication_method = ''worker'', kind = PrincipalKind.UNKNOWN, mfa_verified_at = None\<rparr>"
  have ws: "workspace_id p = ws" by (simp add: p_def)
  obtain job :: generation_job and c sh db1 where c: "find_content (workspace_id p) (gj_content_id job) False db = Inr c"
    and a: "append_version H p c title bs ContentChangeKind.GENERATED (Some ''generation result'') sh
      \<lparr>vo_restored_from = None, vo_generation_job = Some (gj_id job),
       vo_generation_snapshot = Some (gj_input_snapshot_id job)\<rparr> db = Inr (v, db1)"
    and db': "db' = make_current now p (ct_id c) v ''generation result''
         (\<lambda>c. (set_current actor v c)\<lparr>ct_state := JobState.WAITING_REVIEW\<rparr>)
         (update_job (gj_id job) (reviewable v) db1)"
    using run by (auto simp: finalize_for_review_def result_simps Let_def p_def [symmetric] ws)
  have cc: "ct_id c = gj_content_id job" using find_content_Inr [OF c] by simp
  show ?thesis unfolding db' cc
    by (rule make_current_ok [OF ok c a]) (simp_all add: set_current_fields)
qed

section \<open>The content item\<close>

lemma approvals_okD:
  "approvals_ok db \<Longrightarrow> ids_ok db" "approvals_ok db \<Longrightarrow> current_ok db"
  "approvals_ok db \<Longrightarrow> r \<in> set (approval_requests db) \<Longrightarrow> request_ok db r"
  "approvals_ok db \<Longrightarrow> c \<in> set (quality_configs db) \<Longrightarrow> valid_stages (qc_approval_stages c)"
  by (simp_all add: approvals_ok_def)

lemma touch_keeps_key:
  "content_key (f c) = content_key c \<Longrightarrow> content_key (touch_content f c) = content_key c"
  by (simp add: content_key_def)

lemma update_content_row_quiet:
  "(\<And>c. content_key (f c) = content_key c) \<Longrightarrow> quiet db (update_content_row i f db)"
  by (rule quiet_same) (simp_all add: map_update_where touch_keeps_key)

lemma job_record_quiet: "quiet db (job_record p now a ty i ev pl (db :: 'a content_db_scheme))"
  by (rule quiet_same) simp_all

lemma audit_quiet: "quiet db (append_audit_log w s a t i d r now (db :: 'a content_db_scheme))"
  by (rule quiet_same) (simp_all add: append_audit_log_def uuid4_def Let_def)

lemma soft_delete_content_ok:
  assumes ok: "approvals_ok db" and run: "soft_delete_content now p cid db = Inr db'"
  shows "approvals_ok db'"
proof -
  obtain c :: content_item and a b e g where db': "db' = job_record p now a b (ct_id c) e g
      (update_content_row (ct_id c) (\<lambda>c. c\<lparr>ct_deleted_at := Some now, ct_updated_by := subject_id p\<rparr>) db)"
    using run by (auto simp: soft_delete_content_def result_simps split: if_splits)
  show ?thesis unfolding db'
    by (intro quiet_ok [OF _ job_record_quiet] quiet_ok [OF ok] update_content_row_quiet)
      (simp add: content_key_def)
qed

lemma update_content_ok:
  assumes ok: "approvals_ok db" and run: "update_content now p cid d db = Inr (c, db')"
  shows "approvals_ok db'"
proof -
  let ?up = "update_content_row cid (applied_update p now d) db"
  obtain c0 :: content_item and db1 where c0: "find_content (workspace_id p) cid False db = Inr c0"
    and d1: "(case ct_current_version_id c0 of None \<Rightarrow> Inr ?up
      | Some v \<Rightarrow> if \<not> approval_context_changed d c0 then Inr ?up
          else bind_result (get_version (workspace_id p) cid v ?up) (\<lambda>current.
            Inr (invalidate_approvals_for_content_change p now cid (cv_id current)
              (cv_content_hash current) ''context changed'' True ?up))) = Inr db1"
    and db': "db' = append_audit_log (Some (workspace_id p)) (Some (subject_id p)) ''content.metadata.updated''
      ''content'' (uuid_str cid) (Some (JDict [(''fields'', JList (map JStr (fields_set d)))])) None now db1"
    using run find_content_Inr [of "workspace_id p" cid False db] unfolding update_content_def bind_result_eq_Inr
    by (fastforce simp: Let_def result_simps split: if_split_asm)
  have up: "approvals_ok ?up"
    by (intro quiet_ok [OF ok] update_content_row_quiet) (simp add: content_key_def applied_update_def)
  then have "approvals_ok db1" using d1 by (auto simp: result_simps intro: invalidate_ok split: option.splits if_splits)
  then show ?thesis unfolding db' by (rule quiet_ok [OF _ audit_quiet])
qed


lemma new_content_quiet:
  "quiet db (db\<lparr>uuid_supply := Suc (uuid_supply db), contents := contents db @ [new_content p d (uuid_supply db)]\<rparr>)"
  unfolding quiet_def
  by (intro conjI exI [of _ "[(uuid_supply db, workspace_id p, None)]"]) (simp_all add: content_key_def new_content_def)

lemma create_content_ok:
  fixes db db' :: "'a content_db_scheme"
  assumes ok: "approvals_ok db" and run: "create_content H now p d db = Inr (c, db')"
  shows "approvals_ok db'"
proof -
  let ?i = "uuid_supply db"
  define c0 where "c0 = new_content p d ?i"
  define db1 where "db1 = db\<lparr>uuid_supply := Suc ?i, contents := contents db @ [c0]\<rparr>"
  have ok1: "approvals_ok db1" unfolding db1_def c0_def by (rule quiet_ok [OF ok new_content_quiet])
  have c0: "ct_id c0 = ?i" "ct_workspace_id c0 = workspace_id p" "ct_current_version_id c0 = None"
    by (simp_all add: c0_def new_content_def)
  obtain db2 where d2: "(if co_document d = [] then Inr db1
      else bind_result (append_version H p c0 (co_title d) (co_document d) ContentChangeKind.MANUAL
             (co_change_note d) None no_origin db1) (\<lambda>(v, db).
           Inr (update_content_row ?i (\<lambda>c. c\<lparr>ct_current_version_id := Some (cv_id v)\<rparr>) db))) = Inr db2"
    and db': "db' = job_record p now ''content.created'' ''content'' ?i ''content.created''
      (JDict [(''content_id'', JStr (uuid_str ?i))]) db2"
    using run unfolding create_content_def uuid4_def c0_def db1_def
    by (auto simp: Let_def result_simps cong: if_cong)
  have "approvals_ok db2"
  proof (cases "co_document d = []")
    case True
    with d2 ok1 show ?thesis by simp
  next
    case False
    then obtain v db3 where a: "append_version H p c0 (co_title d) (co_document d) ContentChangeKind.MANUAL
        (co_change_note d) None no_origin db1 = Inr (v, db3)"
      and db2: "db2 = update_content_row ?i (\<lambda>c. c\<lparr>ct_current_version_id := Some (cv_id v)\<rparr>) db3"
      using d2 by (auto simp: result_simps)
    note av = append_version_Inr [OF a]
    have v: "cv_id v = uuid_supply db1" "cv_workspace_id v = workspace_id p" "cv_content_id v = ?i"
      using av by (simp_all add: version_row_def Let_def c0)
    show ?thesis
    proof (rule new_current_ok [OF ok1, where v = v and ws = "workspace_id p" and cid = ?i and p = p and now = now and rs = "[]"])
      show "map content_key (contents db2) = map (\<lambda>(x, w, cur). if x = ?i then (x, w, Some (cv_id v)) else (x, w, cur))
          (map content_key (contents db1))"
        unfolding db2 using av [THEN conjunct2] by (simp add: update_content_keys)
      show "\<exists>c \<in> set (contents db1). ct_id c = ?i \<and> ct_workspace_id c = workspace_id p"
        using c0 by (simp add: db1_def)
      fix r assume "r \<in> set (approval_requests db2)"
      then have r: "r \<in> set (approval_requests db)" using av by (simp add: db2 db1_def)
      then have "request_ok db r" using ok by (simp add: approvals_okD)
      then have "ar_content_id r \<noteq> ?i" if "active_approval r"
        using that ok unfolding request_ok_def points_current_def approvals_ok_def ids_ok_def content_key_def
        by fastforce
      with r show "r \<in> set (approval_requests db1) \<and> (active_approval r \<longrightarrow> ar_content_id r \<noteq> ?i)
          \<or> (\<exists>r0 \<in> set (approval_requests db1). r = touch_request (invalidated p now []) r0)"
        by (simp add: db1_def)
    qed (use av v in \<open>auto simp: db2\<close>)
  qed
  then show ?thesis unfolding db' by (rule quiet_ok [OF _ job_record_quiet])
qed

section \<open>Overrides and configurations\<close>

lemma create_quality_config_ok:
  assumes ok: "approvals_ok db" and run: "create_quality_config H now p d db = Inr (c, db')"
    and valid: "valid_quality_config d"
  shows "approvals_ok db'"
proof (rule ok_step [OF ok])
  have q: "qc_approval_stages c = qd_approval_stages d"
    and f: "contents db' = contents db" "content_versions db' = content_versions db"
      "approval_requests db' = approval_requests db" "approval_decisions db' = approval_decisions db"
      "quality_assessments db' = quality_assessments db" "policy_events db' = policy_events db \<and> quality_reports db' = quality_reports db"
      "policy_overrides db' = policy_overrides db" "uuid_supply db \<le> uuid_supply db'"
      "quality_configs db' = quality_configs db @ [c]"
    using run by (auto simp: create_quality_config_def result_simps Let_def uuid4_def split: if_splits)
  show "grows db db'" by (auto simp: grows_def f)
  show "ids_ok db'" using approvals_okD(1) [OF ok] subset_below [OF _ f(8)] by (simp add: ids_ok_def f)
  show "current_ok db'" using approvals_okD(2) [OF ok] by (simp add: current_ok_def version_of_def f)
  fix r assume "r \<in> set (approval_requests db')"
  then show "r \<in> set (approval_requests db) \<and> (active_approval r \<longrightarrow> points_current db' r) \<or> request_ok db' r"
    using approvals_okD(3) [OF ok] by (simp add: f request_ok_def points_current_def)
next
  fix x assume "x \<in> set (quality_configs db')"
  then show "x \<in> set (quality_configs db) \<or> valid_stages (qc_approval_stages x)"
    using run valid by (auto simp: create_quality_config_def result_simps Let_def uuid4_def valid_quality_config_def split: if_splits)
qed (use run in \<open>auto simp: create_quality_config_def result_simps Let_def uuid4_def split: if_splits\<close>)

lemma find_policy_event_Inr:
  "find_policy_event ws i db = Inr e \<Longrightarrow> e \<in> set (policy_events db) \<and> pe_workspace_id e = ws \<and> pe_id e = i"
  by (auto simp: find_policy_event_def dest: find_SomeD split: option.splits)

lemma create_policy_override_ok:
  assumes ok: "approvals_ok db"
    and run: "create_policy_override now p i h reason evidence db = Inr (x, db')"
  shows "approvals_ok db'"
proof (rule ok_step [OF ok])
  obtain e where e: "find_policy_event (workspace_id p) i db = Inr e"
    and allowed: "\<not> (blocking_event e \<and> pe_layer e \<in> set NON_OVERRIDEABLE_HARD_BLOCK_LAYERS)" "pe_override_allowed e"
    and x: "po_workspace_id x = workspace_id p" "po_policy_event_id x = pe_id e"
    and f: "contents db' = contents db" "content_versions db' = content_versions db"
      "approval_requests db' = approval_requests db" "approval_decisions db' = approval_decisions db"
      "quality_assessments db' = quality_assessments db" "policy_events db' = policy_events db \<and> quality_reports db' = quality_reports db"
      "quality_configs db' = quality_configs db" "uuid_supply db \<le> uuid_supply db'"
      "policy_overrides db' = policy_overrides db @ [x]"
    using run by (auto simp: create_policy_override_def result_simps Let_def uuid4_def split: if_splits)
  note ee = find_policy_event_Inr [OF e]
  show "grows db db'" by (auto simp: grows_def f)
  show "ids_ok db'" using approvals_okD(1) [OF ok] subset_below [OF _ f(8)] by (simp add: ids_ok_def f)
  show "current_ok db'" using approvals_okD(2) [OF ok] by (simp add: current_ok_def version_of_def f)
  show "r \<in> set (approval_requests db) \<and> (active_approval r \<longrightarrow> points_current db' r) \<or> request_ok db' r"
    if "r \<in> set (approval_requests db')" for r
    using that approvals_okD(3) [OF ok] by (simp add: f request_ok_def points_current_def)
  show "y \<in> set (policy_overrides db) \<or> override_ok db' y" if "y \<in> set (policy_overrides db')" for y
    using that ee allowed x by (auto simp: f override_ok_def)
  show "c \<in> set (quality_configs db) \<or> valid_stages (qc_approval_stages c)"
    if "c \<in> set (quality_configs db')" for c using that f by simp
  show "a \<in> set (approval_decisions db) \<or> decision_ok db' a" if "a \<in> set (approval_decisions db')" for a
    using that f by simp
  show "a \<in> set (quality_assessments db) \<or> assessment_ok db' a" if "a \<in> set (quality_assessments db')" for a
    using that f by simp
qed

end
