(* ===== verification/Approval_Requests.thy ===== *)
theory Approval_Requests
  imports Approval_Steps
begin

text \<open>
  Requesting and deciding preserve \<open>approvals_ok\<close>. A decision is where the invariant is earned: the
  stage it completes has its quorum of distinct approvers the moment the request moves on.
\<close>

section \<open>Requests\<close>

lemma state_event_quiet: "quiet db (state_event p r ev st ds db)"
  by (rule quiet_same) simp_all

lemma record_change_quiet: "quiet db (record_change p now k a tt ti ci vi ds db)"
  by (rule quiet_same) simp_all

lemma request_ok_cong:
  assumes "contents db' = contents db" "content_versions db' = content_versions db"
    "approval_decisions db' = approval_decisions db" "quality_assessments db' = quality_assessments db"
    "policy_overrides db' = policy_overrides db"
  shows "request_ok db' r = request_ok db r"
  using assms
  by (simp add: request_ok_def stage_complete_def prior_approvers_def points_current_def
      version_of_def assessed_def clean_assessment_def)

lemma update_request_ok:
  assumes ok: "approvals_ok db"
    and keep: "\<And>r. r \<in> set (approval_requests db) \<Longrightarrow> ar_id r = i \<Longrightarrow> request_ok db (touch_request f r)"
    and key: "\<And>r. request_key (f r) = request_key r"
  shows "approvals_ok (update_request i f db)"
proof (rule ok_step [OF ok])
  let ?db' = "update_request i f db"
  show "grows db ?db'" by (simp add: grows_def key key_image_update)
  have "map ar_id (approval_requests ?db') = map ar_id (approval_requests db)"
    using key by (auto simp: map_update_where request_key_def)
  then show "ids_ok ?db'" using approvals_okD(1) [OF ok] by (simp add: ids_ok_def)
  show "current_ok ?db'" using approvals_okD(2) [OF ok] by (simp add: current_ok_def version_of_def)
  fix r assume "r \<in> set (approval_requests ?db')"
  moreover have "request_ok ?db' r = request_ok db r" by (rule request_ok_cong) simp_all
  ultimately show "r \<in> set (approval_requests db) \<and> (active_approval r \<longrightarrow> points_current ?db' r) \<or> request_ok ?db' r"
    using keep approvals_okD(3) [OF ok] by (auto simp: set_update_where split: if_splits)
qed simp_all

lemma find_request_Inr:
  "find_request ws i db = Inr r \<Longrightarrow> r \<in> set (approval_requests db) \<and> ar_workspace_id r = ws \<and> ar_id r = i"
  by (auto simp: find_request_def dest: find_SomeD split: option.splits)

lemma supersede_ok:
  assumes ok: "approvals_ok db" and run: "supersede p now target content db = Inr db'"
  shows "approvals_ok db' \<and> contents db' = contents db \<and> content_versions db' = content_versions db
    \<and> quality_assessments db' = quality_assessments db \<and> policy_overrides db' = policy_overrides db
    \<and> approval_decisions db' = approval_decisions db"
proof (cases target)
  case None
  with ok run show ?thesis by (simp add: supersede_def)
next
  case (Some i)
  then obtain r st ds where db': "db' = state_event p (superseded p now r) ''SUPERSEDED'' st ds
      (update_request (ar_id r) (superseded p now) db)"
    using run by (auto simp: supersede_def result_simps split: if_splits)
  have "approvals_ok (update_request (ar_id r) (superseded p now) db)"
    by (intro update_request_ok [OF ok] retired_ok)
      (simp_all add: approvals_okD(3) [OF ok], simp_all add: superseded_def active_approval_def request_key_def)
  then show ?thesis by (simp add: db' quiet_ok [OF _ state_event_quiet])
qed

lemma current_version_Inr:
  assumes "exact_content ws cid vid h True db = Inr s"
  shows "vs_content_id s = cid \<and> vs_content_version_id s = vid \<and> vs_content_hash s = h
    \<and> (cid, ws, Some vid) \<in> content_key ` set (contents db) \<and> version_of ws cid vid h db"
  using assms
  by (auto simp: exact_content_def resolve_version_def live_content_def snapshot_of_def is_current_def
      content_key_def version_of_def result_simps image_iff split: option.splits if_splits dest!: find_SomeD)

lemma find_assessment_Inr:
  "find_assessment ws i db = Inr a \<Longrightarrow> a \<in> set (quality_assessments db) \<and> qa_workspace_id a = ws \<and> qa_id a = i"
  by (auto simp: find_assessment_def dest: find_SomeD split: option.splits)

lemma find_config_Inr:
  "find_config ws i db = Inr c \<Longrightarrow> c \<in> set (quality_configs db) \<and> qc_workspace_id c = ws \<and> qc_id c = i"
  by (auto simp: find_config_def dest: find_SomeD split: option.splits)

lemma eligible_clean:
  "assert_assessment_approval_eligible (qa_workspace_id a) a db = Inr () \<Longrightarrow> clean_assessment db a"
  by (fastforce simp: assert_assessment_approval_eligible_def clean_assessment_def Let_def ensure_def
      filter_empty_conv split: if_splits)

lemma create_approval_request_ok:
  assumes ok: "approvals_ok db" and run: "create_approval_request H now p d db = Inr (r, db')"
  shows "approvals_ok db'"
proof -
  let ?ws = "workspace_id p"
  obtain s a c db1 where s: "exact_content ?ws (aq_content_id d) (aq_content_version_id d)
      (aq_content_hash d) True db = Inr s"
    and a: "find_assessment ?ws (aq_assessment_id d) db = Inr a"
    and about: "qa_content_id a = vs_content_id s" "qa_content_version_id a = vs_content_version_id s"
      "qa_content_hash a = vs_content_hash s"
    and elig: "assert_assessment_approval_eligible ?ws a db = Inr ()"
    and c: "find_config ?ws (qa_quality_config_id a) db = Inr c"
    and sup: "supersede p now (aq_supersedes_request_id d) s db = Inr db1"
    and r: "r = request_row H p now s a c (aq_supersedes_request_id d) (uuid_supply db1)"
    and ins: "insert_request p now r (db1\<lparr>uuid_supply := Suc (uuid_supply db1)\<rparr>) = Inr db'"
    using run unfolding create_approval_request_def uuid4_def Let_def
    by (auto simp: result_simps split: if_split_asm)
  note s = current_version_Inr [OF s] and a = find_assessment_Inr [OF a] and c = find_config_Inr [OF c]
  note ok1 = supersede_ok [OF ok sup]
  define db2 where "db2 = db1\<lparr>uuid_supply := Suc (uuid_supply db1),
    approval_requests := approval_requests db1 @ [r]\<rparr>"
  have new: "request_ok db2 r"
  proof -
    have v: "valid_stages (qc_approval_stages c)" using c ok by (simp add: approvals_okD(4))
    have "clean_assessment db a" using elig a eligible_clean [of a db] by simp
    then have "assessed db2 r"
      using a about s ok1 unfolding assessed_def db2_def r request_row_def clean_assessment_def by auto
    moreover have "points_current db2 r \<and> version_of ?ws (ar_content_id r) (ar_content_version_id r) (ar_content_hash r) db2"
      using s ok1 by (simp add: points_current_def version_of_def db2_def r request_row_def)
    ultimately show ?thesis using v unfolding request_ok_def
      by (auto simp: r request_row_def valid_stages_def)
  qed
  have "approvals_ok db2"
  proof (rule ok_step [OF conjunct1 [OF ok1]])
    show "grows db1 db2" by (auto simp: grows_def db2_def)
    have "ar_id r = uuid_supply db1" by (simp add: r request_row_def)
    then show "ids_ok db2" using approvals_okD(1) [OF conjunct1 [OF ok1]]
        subset_below [of _ "uuid_supply db1" "Suc (uuid_supply db1)"]
      by (auto simp: ids_ok_def db2_def)
    show "current_ok db2" using approvals_okD(2) [OF conjunct1 [OF ok1]]
      by (simp add: current_ok_def version_of_def db2_def)
    fix x assume "x \<in> set (approval_requests db2)"
    then show "x \<in> set (approval_requests db1) \<and> (active_approval x \<longrightarrow> points_current db2 x) \<or> request_ok db2 x"
      using new approvals_okD(3) [OF conjunct1 [OF ok1]]
      by (auto simp: db2_def request_ok_def points_current_def)
  qed (simp_all add: db2_def)
  with ins show ?thesis
    by (auto simp: insert_request_def db2_def split: if_splits
        intro!: quiet_ok [OF _ record_change_quiet] quiet_ok [OF _ state_event_quiet])
qed

section \<open>Decisions\<close>

lemma transition_approval_Inr:
  assumes "transition_approval st dec quorum final_stage = Inr s"
  shows "s = ApprovalRequestStatus.APPROVED \<Longrightarrow> dec = ApprovalDecisionKind.APPROVE \<and> quorum \<and> final_stage"
    and "s = ApprovalRequestStatus.APPROVED \<or> s = ApprovalRequestStatus.PENDING
      \<or> s = ApprovalRequestStatus.REJECTED \<or> s = ApprovalRequestStatus.CHANGES_REQUESTED"
    and "s = ApprovalRequestStatus.PENDING \<Longrightarrow> dec = ApprovalDecisionKind.APPROVE"
  using assms
  by (cases st; cases dec; simp add: transition_approval_def split: if_splits)+

lemma decided_fields [simp]:
  "request_key (decided p now d adv s r) = request_key r" "ar_id (decided p now d adv s r) = ar_id r"
  "ar_workspace_id (decided p now d adv s r) = ar_workspace_id r"
  "ar_content_id (decided p now d adv s r) = ar_content_id r"
  "ar_content_version_id (decided p now d adv s r) = ar_content_version_id r"
  "ar_content_hash (decided p now d adv s r) = ar_content_hash r"
  "ar_approval_stages_snapshot (decided p now d adv s r) = ar_approval_stages_snapshot r"
  "ar_assessment_id (decided p now d adv s r) = ar_assessment_id r"
  "ar_status (decided p now d adv s r) = s"
  "ar_invalidated_at (decided p now d adv s r) = ar_invalidated_at r"
  "ar_current_stage_index (decided p now d adv s r)
     = (if adv then Suc (ar_current_stage_index r) else ar_current_stage_index r)"
  by (simp_all add: decided_def Let_def request_key_def)

lemma check_approver_entitled:
  "check_approver p s = Inr () \<Longrightarrow> entitled s (decision_row p now d s' ix st st' r i)"
  by (auto simp: check_approver_def entitled_def decision_row_def split: if_splits)

lemma quorum_complete:
  assumes "approval_quorum_reached (prior_approvers ws i k db) actor n = Inr True"
    and "set (prior_approvers ws i k db) \<union> {actor} \<subseteq> set (prior_approvers ws i k db')"
  shows "n \<le> int (card (set (prior_approvers ws i k db')))"
proof -
  have "n \<le> int (card (set (prior_approvers ws i k db) \<union> {actor}))"
    using assms(1) by (auto simp: approval_quorum_reached_def split: if_splits)
  also have "\<dots> \<le> int (card (set (prior_approvers ws i k db')))"
    using card_mono [OF _ assms(2)] by simp
  finally show ?thesis .
qed

lemma insert_decision_Inr:
  "insert_decision x db = Inr db' \<Longrightarrow> db' = db\<lparr>approval_decisions := approval_decisions db @ [x]\<rparr>"
  by (simp add: insert_decision_def split: if_splits)

lemma apply_decision_Inr:
  assumes "apply_decision now p d r stage db = Inr ((r', x), db')"
  obtains quorum s adv i ix where
    "approval_quorum_reached (prior_approvers (workspace_id p) (ar_id r) (as_key stage) db) (subject_id p)
       (as_required_approvals stage) = Inr quorum"
    and "transition_approval (ar_status r) (dc_decision d) quorum
       (Suc (ar_current_stage_index r) = length (ar_approval_stages_snapshot r)) = Inr s"
    and "adv \<longleftrightarrow> dc_decision d = ApprovalDecisionKind.APPROVE \<and> quorum
       \<and> Suc (ar_current_stage_index r) \<noteq> length (ar_approval_stages_snapshot r)"
    and "r' = touch_request (decided p now d adv s) r"
    and "x = Some (decision_row p now d stage ix (ar_status r) s r i)"
    and "approval_requests db' = update_where (\<lambda>x. ar_id x = ar_id r) (touch_request (decided p now d adv s))
       (approval_requests db)"
    and "approval_decisions db' = approval_decisions db @ [decision_row p now d stage ix (ar_status r) s r i]"
    and "contents db' = contents db" "content_versions db' = content_versions db"
      "quality_configs db' = quality_configs db" "quality_assessments db' = quality_assessments db"
      "policy_events db' = policy_events db \<and> quality_reports db' = quality_reports db" "policy_overrides db' = policy_overrides db"
      "uuid_supply db \<le> uuid_supply db'" "subject_id p \<notin> set (prior_approvers (workspace_id p) (ar_id r) (as_key stage) db)"
proof -
  let ?prior = "prior_approvers (workspace_id p) (ar_id r) (as_key stage) db"
  let ?final = "Suc (ar_current_stage_index r) = length (ar_approval_stages_snapshot r)"
  have new: "subject_id p \<notin> set ?prior" using assms by (auto simp: apply_decision_def Let_def)
  obtain quorum where q: "approval_quorum_reached ?prior (subject_id p) (as_required_approvals stage) = Inr quorum"
    using assms new by (cases "approval_quorum_reached ?prior (subject_id p) (as_required_approvals stage)")
      (simp_all add: apply_decision_def Let_def)
  obtain s where s: "transition_approval (ar_status r) (dc_decision d) quorum ?final = Inr s"
    using assms new q by (cases "transition_approval (ar_status r) (dc_decision d) quorum ?final")
      (simp_all add: apply_decision_def Let_def)
  let ?adv = "dc_decision d = ApprovalDecisionKind.APPROVE \<and> quorum \<and> \<not> ?final"
  note run = assms [unfolded apply_decision_def Let_def uuid4_def, simplified new q s, simplified]
  show thesis
    by (rule that [OF q s, of ?adv])
      (use run new in \<open>auto simp: bind_result_eq_Inr s simp del: decided_fields dest!: insert_decision_Inr\<close>)
qed

lemma decision_counts:
  assumes "approval_decisions db' = approval_decisions db @ [decision_row p now d stage ix st s r i]"
    and "dc_decision d = ApprovalDecisionKind.APPROVE" and "ar_workspace_id r = workspace_id p"
  shows "set (prior_approvers (workspace_id p) (ar_id r) (as_key stage) db) \<union> {subject_id p}
    \<subseteq> set (prior_approvers (workspace_id p) (ar_id r) (as_key stage) db')"
  using assms by (auto simp: prior_approvers_def decision_row_def)

text \<open>The request a decision moved on: the stage it leaves has its quorum.\<close>

lemma decided_ok:
  assumes grow: "grows db db'" and rok: "request_ok db r" and pending: "ar_status r = ApprovalRequestStatus.PENDING"
    and cs: "contents db' = contents db"
    and t: "transition_approval (ar_status r) (dc_decision d) quorum
       (Suc (ar_current_stage_index r) = length (ar_approval_stages_snapshot r)) = Inr s"
    and adv: "adv \<longleftrightarrow> dc_decision d = ApprovalDecisionKind.APPROVE \<and> quorum
       \<and> Suc (ar_current_stage_index r) \<noteq> length (ar_approval_stages_snapshot r)"
    and stage: "stage = ar_approval_stages_snapshot r ! ar_current_stage_index r"
    and quor: "dc_decision d = ApprovalDecisionKind.APPROVE \<Longrightarrow> quorum \<Longrightarrow> stage_complete db' r stage"
  shows "request_ok db' (touch_request (decided p now d adv s) r)"
proof -
  let ?r = "touch_request (decided p now d adv s) r"
  let ?ss = "ar_approval_stages_snapshot r" and ?k = "ar_current_stage_index r"
  have base: "valid_stages ?ss" "?k < length ?ss" "\<forall>i < ?k. stage_complete db r (?ss ! i)"
      "points_current db r" "ar_invalidated_at r = None"
      "version_of (ar_workspace_id r) (ar_content_id r) (ar_content_version_id r) (ar_content_hash r) db"
      "assessed db r"
    using rok pending by (simp_all add: request_ok_def active_approval_def)
  have same: "stage_complete db' ?r x = stage_complete db' r x" for x by (simp add: stage_complete_def)
  have old: "stage_complete db' r (?ss ! i)" if "i < ?k" for i
    using base(3) that stage_complete_grows [OF grow] by blast
  have passed: "\<forall>i < ar_current_stage_index ?r. stage_complete db' r (?ss ! i)"
    using old quor adv stage by (auto simp: less_Suc_eq)
  have all: "\<forall>x \<in> set ?ss. stage_complete db' r x" if a: "s = ApprovalRequestStatus.APPROVED"
  proof
    fix x assume "x \<in> set ?ss"
    then obtain i where i: "i < length ?ss" "x = ?ss ! i" by (auto simp: in_set_conv_nth)
    have "Suc ?k = length ?ss" "stage_complete db' r stage"
      using transition_approval_Inr(1) [OF t a] quor by auto
    with i old stage show "stage_complete db' r x" by (metis less_antisym)
  qed
  have rec: "approval_recorded ?r" if "s = ApprovalRequestStatus.APPROVED"
    using that by (simp add: approval_recorded_def decided_def Let_def)
  have "points_current db' ?r" using base(4) by (simp add: points_current_def cs)
  moreover have "assessed db' ?r" using assessed_grows [OF grow base(7)] by (simp add: assessed_def)
  moreover have "ar_current_stage_index ?r < length ?ss" using base(2) adv by auto
  ultimately show ?thesis
    using base passed all rec version_of_grows [OF grow base(6)]
    unfolding request_ok_def same by (simp add: )
qed

lemma apply_decision_ok:
  fixes db db' :: "'a content_db_scheme"
  assumes ok: "approvals_ok db" and r: "r \<in> set (approval_requests db)" "ar_workspace_id r = workspace_id p"
    and pending: "ar_status r = ApprovalRequestStatus.PENDING"
    and stage: "stage = ar_approval_stages_snapshot r ! ar_current_stage_index r"
    and approver: "check_approver p stage = Inr ()"
    and run: "apply_decision now p d r stage db = Inr ((r', x), db')"
  shows "approvals_ok db'"
proof -
  obtain quorum s adv i ix where q: "approval_quorum_reached (prior_approvers (workspace_id p) (ar_id r) (as_key stage) db)
      (subject_id p) (as_required_approvals stage) = Inr quorum"
    and t: "transition_approval (ar_status r) (dc_decision d) quorum
       (Suc (ar_current_stage_index r) = length (ar_approval_stages_snapshot r)) = Inr s"
    and adv: "adv \<longleftrightarrow> dc_decision d = ApprovalDecisionKind.APPROVE \<and> quorum
       \<and> Suc (ar_current_stage_index r) \<noteq> length (ar_approval_stages_snapshot r)"
    and reqs: "approval_requests db' = update_where (\<lambda>x. ar_id x = ar_id r) (touch_request (decided p now d adv s))
       (approval_requests db)"
    and decs: "approval_decisions db' = approval_decisions db @ [decision_row p now d stage ix (ar_status r) s r i]"
    and same: "contents db' = contents db" "content_versions db' = content_versions db"
      "quality_configs db' = quality_configs db" "quality_assessments db' = quality_assessments db"
      "policy_events db' = policy_events db \<and> quality_reports db' = quality_reports db" "policy_overrides db' = policy_overrides db"
      "uuid_supply db \<le> uuid_supply db'"
    by (rule apply_decision_Inr [OF run])
  have grow: "grows db db'" by (auto simp: grows_def same reqs decs key_image_update)
  have rok: "request_ok db r" by (rule approvals_okD(3) [OF ok r(1)])
  have only: "y = r" if "y \<in> set (approval_requests db)" "ar_id y = ar_id r" for y
    using ok r(1) that by (intro distinct_key_eq [of ar_id]) (auto simp: approvals_ok_def ids_ok_def)
  have complete: "stage_complete db' r stage" if "dc_decision d = ApprovalDecisionKind.APPROVE" "quorum"
    using quorum_complete [OF _ decision_counts [OF decs that(1) r(2)]] q that(2) r(2)
    by (simp add: stage_complete_def)
  have new: "request_ok db' (touch_request (decided p now d adv s) r)"
    by (rule decided_ok [OF grow rok pending same(1) t adv stage complete])
  show ?thesis
  proof (rule ok_step [OF ok grow])
    have "map ar_id (approval_requests db') = map ar_id (approval_requests db)"
      by (simp add: reqs map_update_where)
    then show "ids_ok db'" using approvals_okD(1) [OF ok] subset_below [OF _ same(7)] by (simp add: ids_ok_def same)
    show "current_ok db'" using approvals_okD(2) [OF ok] by (simp add: current_ok_def version_of_def same)
    fix y assume "y \<in> set (approval_requests db')"
    then consider "y \<in> set (approval_requests db)" | "y = touch_request (decided p now d adv s) r"
      using only by (auto simp: reqs set_update_where split: if_splits)
    then show "y \<in> set (approval_requests db) \<and> (active_approval y \<longrightarrow> points_current db' y) \<or> request_ok db' y"
      using new approvals_okD(3) [OF ok] by cases (simp_all add: request_ok_def points_current_def same)
  next
    fix a assume "a \<in> set (approval_decisions db')"
    moreover have "decision_ok db' (decision_row p now d stage ix (ar_status r) s r i)"
    proof -
      have "stage \<in> set (ar_approval_stages_snapshot r)" using rok by (simp add: stage request_ok_def)
      then have "decision_for (decision_row p now d stage ix (ar_status r) s r i) (touch_request (decided p now d adv s) r)"
        using check_approver_entitled [OF approver] r(2) by (auto simp: decision_for_def decision_row_def)
      moreover have "touch_request (decided p now d adv s) r \<in> set (approval_requests db')"
        using r(1) by (auto simp: reqs set_update_where)
      ultimately show ?thesis by (auto simp: decision_ok_def)
    qed
    ultimately show "a \<in> set (approval_decisions db) \<or> decision_ok db' a" by (auto simp: decs)
  qed (simp_all add: same)
qed

lemma decide_approval_request_ok:
  assumes ok: "approvals_ok db" and run: "decide_approval_request now p i d db = Inr ((r', x), db')"
  shows "approvals_ok db'"
proof -
  obtain r :: approval_request and cur :: ContentVersionSnapshot where r: "find_request (workspace_id p) i db = Inr r"
    and pending: "ar_status r = ApprovalRequestStatus.PENDING"
    and case3: "db' = invalidate_request p now ''edited'' (vs_content_version_id cur) (vs_content_hash cur) r db
      \<or> (\<exists>due. db' = expire_request p now r due db) \<or> decide_in_stage now p d r db = Inr ((r', x), db')"
    using run by (auto simp: decide_approval_request_def result_simps split: if_split_asm option.splits)
  note rr = find_request_Inr [OF r]
  consider (edited) "db' = invalidate_request p now ''edited'' (vs_content_version_id cur) (vs_content_hash cur) r db"
    | (expired) due where "db' = expire_request p now r due db"
    | (decided) "decide_in_stage now p d r db = Inr ((r', x), db')" using case3 by blast
  then show ?thesis
  proof cases
    case edited
    have "approvals_ok (update_request (ar_id r) (invalidated p now ''edited'') db)"
      by (rule update_request_ok [OF ok]) (simp_all add: approvals_okD(3) [OF ok] invalidated_ok)
    then show ?thesis
      by (auto simp: edited invalidate_request_def intro: quiet_ok record_change_quiet state_event_quiet)
  next
    case expired
    have "approvals_ok (update_request (ar_id r) Approval_Decisions.expired db)"
      by (intro update_request_ok [OF ok] retired_ok)
        (simp_all add: approvals_okD(3) [OF ok], simp_all add: Approval_Decisions.expired_def active_approval_def request_key_def)
    then show ?thesis
      by (auto simp: expired expire_request_def intro: quiet_ok record_change_quiet state_event_quiet)
  next
    case decided
    then obtain u where "check_approver p (ar_approval_stages_snapshot r ! ar_current_stage_index r) = Inr u"
      and a: "apply_decision now p d r (ar_approval_stages_snapshot r ! ar_current_stage_index r) db = Inr ((r', x), db')"
      by (auto simp: decide_in_stage_def result_simps Let_def split: if_splits)
    then show ?thesis using rr pending by (intro apply_decision_ok [OF ok _ _ pending refl _ a]) auto
  qed
qed

end
