(* ===== verification/Assessment_Steps.thy ===== *)
theory Assessment_Steps
  imports Approval_Requests
begin

text \<open>
  Rule sets, reports and assessments preserve \<open>approvals_ok\<close>: an assessment is justified by its
  configuration, by one report of each kind and by the policy events of those reports.
\<close>

section \<open>Reports\<close>

lemma create_rule_set_ok:
  assumes ok: "approvals_ok db" and run: "create_rule_set H now p d db = Inr (r, db')"
  shows "approvals_ok db'"
proof -
  have "quiet db db'"
    by (rule quiet_same)
      (use run in \<open>auto simp: create_rule_set_def uuid4_def Let_def split: if_splits\<close>)
  with ok show ?thesis by (rule quiet_ok)
qed

lemma report_events_rows:
  "report_events H p content rid rh ph fs db = (es, db') \<Longrightarrow>
     map pe_id es = [uuid_supply db ..< uuid_supply db + length fs]
     \<and> db' = db\<lparr>uuid_supply := uuid_supply db + length fs\<rparr> \<and> (\<forall>e \<in> set es. pe_report_id e = Some rid)"
proof (induction fs arbitrary: db es db')
  case (Cons f fs)
  obtain es1 db1 where r: "report_events H p content rid rh ph fs (snd (uuid4 db)) = (es1, db1)" by fastforce
  with Cons.IH [OF r] Cons.prems show ?case
    by (auto simp: uuid4_def new_policy_event_def upt_conv_Cons simp del: upt_Suc)
qed simp

lemma report_row_id: "qr_id (report_row H p knd d content config rules findings detail i) = i"
  by (simp add: report_row_def Let_def)

lemma create_report_Inr:
  assumes "create_report H lr now p knd d db = Inr (r, db')"
  shows "\<exists>es n. uuid_supply db < n \<and> n \<le> uuid_supply db' \<and> map pe_id es = [Suc (uuid_supply db) ..< n]
    \<and> (\<forall>e \<in> set es. pe_report_id e = Some (uuid_supply db)) \<and> qr_id r = uuid_supply db
    \<and> policy_events db' = policy_events db @ es \<and> quality_reports db' = quality_reports db @ [r]
    \<and> contents db' = contents db \<and> content_versions db' = content_versions db
    \<and> approval_requests db' = approval_requests db \<and> approval_decisions db' = approval_decisions db
    \<and> quality_configs db' = quality_configs db \<and> quality_assessments db' = quality_assessments db
    \<and> policy_overrides db' = policy_overrides db"
proof -
  let ?i = "uuid_supply db"
  obtain content config rules inputs detail where
    run: "(let r = report_row H p knd d content config rules (map normalize_policy_input inputs) detail ?i;
         (events, db) = report_events H p content ?i (qr_rule_snapshot_hash r) (qr_policy_snapshot_hash r)
            (map normalize_policy_input inputs) (db\<lparr>uuid_supply := Suc ?i\<rparr>)
     in if list_ex (\<lambda>x. qr_workspace_id x = workspace_id p
             \<and> qr_content_version_id x = qr_content_version_id r \<and> qr_report_kind x = knd
             \<and> qr_report_hash x = qr_report_hash r) (quality_reports db)
        then Inl (quality_conflict ''quality_report'')
        else Inr (r, record_change p now ''REPORT_CREATED'' ''quality.report.created'' ''quality_report'' ?i
          (Some (qr_content_id r)) (Some (qr_content_version_id r))
          [(''report_kind'', JStr (report_kind_value knd)), (''report_hash'', JStr (qr_report_hash r)),
           (''analyzer_version'', JStr (qr_analyzer_version r)),
           (''policy_event_ids'', JList (map (\<lambda>e. JStr (uuid_str (pe_id e))) events))]
          (db\<lparr>quality_reports := quality_reports db @ [r],
              report_details := report_details db @ [\<lparr>rd_workspace_id = workspace_id p,
                rd_report_id = ?i, rd_detail = detail\<rparr>],
              policy_events := policy_events db @ events\<rparr>))) = Inr (r, db')"
    using assms unfolding create_report_def uuid4_def Let_def bind_result_eq_Inr by auto
  obtain es db1 where e: "report_events H p content ?i
      (qr_rule_snapshot_hash (report_row H p knd d content config rules (map normalize_policy_input inputs) detail ?i))
      (qr_policy_snapshot_hash (report_row H p knd d content config rules (map normalize_policy_input inputs) detail ?i))
      (map normalize_policy_input inputs) (db\<lparr>uuid_supply := Suc ?i\<rparr>) = (es, db1)" by fastforce
  note ev = report_events_rows [OF e]
  show ?thesis
    by (rule exI [of _ es], rule exI [of _ "Suc ?i + length inputs"])
      (use run [unfolded Let_def e prod.case] ev in \<open>auto simp: report_row_id split: if_splits\<close>)
qed

lemma create_report_ok:
  assumes ok: "approvals_ok db" and run: "create_report H lr now p knd d db = Inr (r, db')"
  shows "approvals_ok db'"
proof -
  obtain es n where n: "uuid_supply db < n" "n \<le> uuid_supply db'"
    and es: "map pe_id es = [Suc (uuid_supply db) ..< n]" "\<forall>e \<in> set es. pe_report_id e = Some (uuid_supply db)"
    and r: "qr_id r = uuid_supply db"
    and f: "policy_events db' = policy_events db @ es" "quality_reports db' = quality_reports db @ [r]"
      "contents db' = contents db" "content_versions db' = content_versions db"
      "approval_requests db' = approval_requests db" "approval_decisions db' = approval_decisions db"
      "quality_configs db' = quality_configs db" "quality_assessments db' = quality_assessments db"
      "policy_overrides db' = policy_overrides db"
    using create_report_Inr [OF run] by blast
  have le: "uuid_supply db \<le> uuid_supply db'" using n by simp
  show ?thesis
  proof (rule ok_step [OF ok])
    show "grows db db'" using es by (auto simp: grows_def f)
    have "set (map pe_id es) \<subseteq> {..<uuid_supply db'}" "distinct (map pe_id es)"
      unfolding es(1) using n by auto
    moreover have "set (map pe_id (policy_events db)) \<inter> set (map pe_id es) = {}"
      unfolding es(1) using approvals_okD(1) [OF ok] by (fastforce simp: ids_ok_def)
    ultimately show "ids_ok db'"
      using approvals_okD(1) [OF ok] subset_below [OF _ le] r n by (simp add: ids_ok_def f)
    show "current_ok db'" using approvals_okD(2) [OF ok] by (simp add: current_ok_def version_of_def f)
    fix x assume "x \<in> set (approval_requests db')"
    then show "x \<in> set (approval_requests db) \<and> (active_approval x \<longrightarrow> points_current db' x) \<or> request_ok db' x"
      using approvals_okD(3) [OF ok] by (simp add: f request_ok_def points_current_def)
  qed (simp_all add: f)
qed

section \<open>Assessments\<close>

lemma check_thresholds_none:
  "check_thresholds scores ms = Inr [] \<Longrightarrow> (k, m) \<in> set ms \<Longrightarrow> \<exists>s. map_of scores k = Some s \<and> m \<le> s"
proof (induction ms)
  case (Cons km ms)
  then show ?case by (cases km) (auto simp: result_simps split: option.splits if_splits)
qed simp

lemma gate_Inr:
  assumes "evaluate_quality_gate score mt mc policy = Inr gate"
  shows "failed_thresholds gate = [] \<Longrightarrow> mt \<le> qs_total score
      \<and> (\<forall>(k, m) \<in> set mc. \<exists>s. map_of (qs_component_scores score) k = Some s \<and> m \<le> s)"
    and "gate_decision gate = AssessmentDecision.PASS \<longleftrightarrow> failed_thresholds gate = [] \<and> \<not> policy_blocked policy"
  using assms check_thresholds_none [of "qs_component_scores score" mc]
  by (fastforce simp: evaluate_quality_gate_def result_simps Let_def split: if_splits)+

lemma find_report_Inr:
  "find_report ws i db = Inr r \<Longrightarrow> r \<in> set (quality_reports db) \<and> qr_workspace_id r = ws \<and> qr_id r = i"
  by (auto simp: find_report_def dest: find_SomeD split: option.splits)

lemma load_reports_rows:
  "load_reports ws content ks db = Inr loaded \<Longrightarrow> map fst loaded = map fst ks
     \<and> (\<forall>(k, r, d) \<in> set loaded. r \<in> set (quality_reports db) \<and> qr_workspace_id r = ws \<and> qr_report_kind r = k
          \<and> qr_content_id r = vs_content_id content \<and> qr_content_version_id r = vs_content_version_id content
          \<and> qr_content_hash r = vs_content_hash content)"
proof (induction ks arbitrary: loaded)
  case (Cons k ks)
  then show ?case
    by (cases k) (auto simp: result_simps assert_report_content_def ensure_def split: if_splits
        dest!: find_report_Inr)
qed simp

lemma missing_kinds_none: "missing_kinds required supplied = [] \<Longrightarrow> k \<in> set required \<Longrightarrow> k \<in> fst ` set supplied"
  by (auto simp: missing_kinds_def filter_empty_conv dest!: arg_cong [of "sort _" "[]" set])

text \<open>How a blocking event of the reports shows in the resolution.\<close>

lemma resolution_events:
  assumes e: "e \<in> set (policy_events db)" "pe_workspace_id e = ws" "pe_report_id e = Some i" "i \<in> set ids"
    and b: "blocks_publication e"
  shows "if overridable e
    then uuid_str (pe_id e) \<in> set (blocking_event_keys (report_resolution ws ids db))
       \<or> (\<exists>x \<in> set (policy_overrides db). po_workspace_id x = ws \<and> uuid_str (po_policy_event_id x) = uuid_str (pe_id e))
    else uuid_str (pe_id e) \<in> set (blocking_event_keys (report_resolution ws ids db))
       \<and> uuid_str (pe_id e) \<in> set (non_overrideable_event_keys (report_resolution ws ids db))"
proof -
  let ?f = "normalize_finding (policy_finding_from_event e)"
  have f: "pf_event_key ?f = uuid_str (pe_id e)" "is_blocking_finding ?f" "pf_override_allowed ?f \<longleftrightarrow> overridable e"
    using b by (auto simp: normalize_finding_def policy_finding_from_event_def is_blocking_finding_def
        blocks_publication_def overridable_def)
  have "e \<in> set (events_of_reports ws ids db)" using e by (auto simp: events_of_reports_def)
  then have "?f \<in> normalize_finding ` policy_finding_from_event ` set (events_of_reports ws ids db)" by blast
  with f show ?thesis
    by (fastforce simp: report_resolution_def resolve_policy_findings_def Let_def image_iff)
qed

lemma assessment_row_fields:
  "qa_id (assessment_row H p cn cf rs sc g b n i) = i"
  "qa_workspace_id (assessment_row H p cn cf rs sc g b n i) = workspace_id p"
  "qa_content_id (assessment_row H p cn cf rs sc g b n i) = vs_content_id cn"
  "qa_content_version_id (assessment_row H p cn cf rs sc g b n i) = vs_content_version_id cn"
  "qa_content_hash (assessment_row H p cn cf rs sc g b n i) = vs_content_hash cn"
  "qa_quality_config_id (assessment_row H p cn cf rs sc g b n i) = qc_id cf"
  "qa_quality_config_hash (assessment_row H p cn cf rs sc g b n i) = qc_config_hash cf"
  "qa_blocking_policy_event_ids (assessment_row H p cn cf rs sc g b n i) = b"
  "qa_non_overrideable_policy_event_ids (assessment_row H p cn cf rs sc g b n i) = n"
  "qa_decision (assessment_row H p cn cf rs sc g b n i) = gate_decision g"
  "qa_report_ids (assessment_row H p cn cf rs sc g b n i) = map qr_id rs"
  "qa_component_scores (assessment_row H p cn cf rs sc g b n i) = qs_component_scores sc"
  "qa_total_score (assessment_row H p cn cf rs sc g b n i) = qs_total sc"
  "qa_failed_thresholds (assessment_row H p cn cf rs sc g b n i) = failed_thresholds g"
  by (simp_all add: assessment_row_def Let_def)

lemma store_assessment_Inr:
  assumes "store_assessment H now p cn cf rs sc g res db = Inr (a, db')"
  obtains e where "pe_id e = Suc (uuid_supply db)" "pe_report_id e = None" "pe_assessment_id e = Some (uuid_supply db)"
    and "a = assessment_row H p cn cf rs sc g
      (map the_uuid (blocking_event_keys res) @ (if failed_thresholds g \<noteq> [] then [pe_id e] else []))
      (map the_uuid (non_overrideable_event_keys res)
        @ (if failed_thresholds g \<noteq> [] \<and> \<not> qc_threshold_override_allowed cf then [pe_id e] else []))
      (uuid_supply db)"
    and "quality_assessments db' = quality_assessments db @ [a]"
    and "policy_events db' = policy_events db @ (if failed_thresholds g \<noteq> [] then [e] else [])"
    and "uuid_supply db + 2 \<le> uuid_supply db'"
    and "contents db' = contents db" "content_versions db' = content_versions db"
      "approval_requests db' = approval_requests db" "approval_decisions db' = approval_decisions db"
      "quality_configs db' = quality_configs db" "quality_reports db' = quality_reports db"
      "policy_overrides db' = policy_overrides db"
proof -
  let ?e = "new_policy_event H p cn None (Some (uuid_supply db))
    (threshold_finding (uuid_supply db) (qc_threshold_override_allowed cf) (failed_thresholds g))
    (H (JDict [(''rule'', JStr ''QUALITY_THRESHOLD''), (''config_hash'', JStr (qc_config_hash cf))]))
    (qc_config_hash cf) (Suc (uuid_supply db))"
  obtain ev where ev: "ev = ?e" by blast
  have e: "pe_id ev = Suc (uuid_supply db)" "pe_report_id ev = None" "pe_assessment_id ev = Some (uuid_supply db)"
    by (simp_all add: ev new_policy_event_def)
  note run = assms [unfolded store_assessment_def uuid4_def Let_def prod.case, simplified]
  show thesis
    by (rule that [OF e]) (use run e(1) in \<open>auto simp: ev split: if_split_asm\<close>)
qed

lemma assessment_loaded:
  assumes "create_assessment other H now p d db = Inr (a, db')"
  obtains cn cf loaded sc g where
    "exact_content (workspace_id p) (ac_content_id d) (ac_content_version_id d) (ac_content_hash d) False db = Inr cn"
    and "find_config (workspace_id p) (ac_quality_config_id d) db = Inr cf"
    and "missing_kinds REPORT_KINDS (ac_report_ids d) = []"
    and "load_reports (workspace_id p) cn (ac_report_ids d) db = Inr loaded"
    and "evaluate_quality_gate sc (qc_minimum_total_score cf) (qc_minimum_component_scores cf)
      (report_resolution (workspace_id p) (map qr_id (map (\<lambda>(_, r, _). r) loaded)) db) = Inr g"
    and "store_assessment H now p cn cf (map (\<lambda>(_, r, _). r) loaded) sc g
      (report_resolution (workspace_id p) (map qr_id (map (\<lambda>(_, r, _). r) loaded)) db) db = Inr (a, db')"
  using assms unfolding create_assessment_def Let_def
  by (auto simp: bind_result_eq_Inr simp del: map_map split: if_split_asm)

lemma create_assessment_ok:
  assumes ok: "approvals_ok db" and run: "create_assessment other H now p d db = Inr (a, db')"
  shows "approvals_ok db'"
proof -
  obtain cn cf loaded sc g where c: "find_config (workspace_id p) (ac_quality_config_id d) db = Inr cf"
    and kinds: "missing_kinds REPORT_KINDS (ac_report_ids d) = []"
    and l: "load_reports (workspace_id p) cn (ac_report_ids d) db = Inr loaded"
    and g: "evaluate_quality_gate sc (qc_minimum_total_score cf) (qc_minimum_component_scores cf)
      (report_resolution (workspace_id p) (map qr_id (map (\<lambda>(_, r, _). r) loaded)) db) = Inr g"
    and st: "store_assessment H now p cn cf (map (\<lambda>(_, r, _). r) loaded) sc g
      (report_resolution (workspace_id p) (map qr_id (map (\<lambda>(_, r, _). r) loaded)) db) db = Inr (a, db')"
    by (rule assessment_loaded [OF run])
  let ?rs = "map (\<lambda>(_, r, _). r) loaded"
  let ?res = "report_resolution (workspace_id p) (map qr_id ?rs) db"
  obtain e where e: "pe_id e = Suc (uuid_supply db)" "pe_report_id e = None" "pe_assessment_id e = Some (uuid_supply db)"
    and a: "a = assessment_row H p cn cf ?rs sc g
      (map the_uuid (blocking_event_keys ?res) @ (if failed_thresholds g \<noteq> [] then [pe_id e] else []))
      (map the_uuid (non_overrideable_event_keys ?res)
        @ (if failed_thresholds g \<noteq> [] \<and> \<not> qc_threshold_override_allowed cf then [pe_id e] else []))
      (uuid_supply db)"
    and as: "quality_assessments db' = quality_assessments db @ [a]"
    and es: "policy_events db' = policy_events db @ (if failed_thresholds g \<noteq> [] then [e] else [])"
    and sup: "uuid_supply db + 2 \<le> uuid_supply db'"
    and f: "contents db' = contents db" "content_versions db' = content_versions db"
      "approval_requests db' = approval_requests db" "approval_decisions db' = approval_decisions db"
      "quality_configs db' = quality_configs db" "quality_reports db' = quality_reports db"
      "policy_overrides db' = policy_overrides db"
    by (rule store_assessment_Inr [OF st])
  note cc = find_config_Inr [OF c] and rows = load_reports_rows [OF l]
  have th: "thresholds_ok db' a"
    unfolding thresholds_ok_def meets_thresholds_def
    using cc gate_Inr [OF g] e by (intro bexI [of _ cf]) (auto simp: a assessment_row_fields es f)
  have rp: "reports_ok db' a"
    unfolding reports_ok_def
  proof (intro conjI ballI)
    show "set (qa_report_ids a) \<subseteq> qr_id ` set (quality_reports db')"
      using rows by (auto simp: a assessment_row_fields f)
    fix k assume "k \<in> set REPORT_KINDS"
    then have "k \<in> fst ` set (ac_report_ids d)" by (rule missing_kinds_none [OF kinds])
    then have "k \<in> fst ` set loaded" using conjunct1 [OF rows] by (metis list.set_map)
    then obtain r dt where r: "(k, r, dt) \<in> set loaded" by fastforce
    with rows have "r \<in> set (quality_reports db)" "qr_workspace_id r = workspace_id p" "qr_report_kind r = k"
      "qr_content_id r = vs_content_id cn" "qr_content_version_id r = vs_content_version_id cn"
      "qr_content_hash r = vs_content_hash cn" by fastforce+
    with r show "\<exists>r \<in> set (quality_reports db'). qr_report_kind r = k \<and> qr_id r \<in> set (qa_report_ids a)
        \<and> qr_workspace_id r = qa_workspace_id a \<and> qr_content_id r = qa_content_id a
        \<and> qr_content_version_id r = qa_content_version_id a \<and> qr_content_hash r = qa_content_hash a"
      by (intro bexI [of _ r]) (force simp: a assessment_row_fields f)+
  qed
  have ev: "events_ok db' a"
    unfolding events_ok_def Let_def
  proof (intro ballI impI)
    fix x assume x: "x \<in> set (policy_events db')" "report_event a x" "blocks_publication x"
    then obtain i where "x \<in> set (policy_events db)" "pe_report_id x = Some i" "i \<in> set (map qr_id ?rs)"
      "pe_workspace_id x = workspace_id p"
      using e unfolding es report_event_def a assessment_row_fields by (auto simp del: set_map split: if_splits)
    from resolution_events [OF this(1,4,2,3) x(3)]
    show "if overridable x
      then the_uuid (uuid_str (pe_id x)) \<in> set (qa_blocking_policy_event_ids a)
         \<or> (\<exists>y \<in> set (policy_overrides db'). po_workspace_id y = qa_workspace_id a
              \<and> the_uuid (uuid_str (po_policy_event_id y)) = the_uuid (uuid_str (pe_id x)))
      else the_uuid (uuid_str (pe_id x)) \<in> set (qa_blocking_policy_event_ids a)
         \<and> the_uuid (uuid_str (pe_id x)) \<in> set (qa_non_overrideable_policy_event_ids a)"
      by (auto simp: a assessment_row_fields f split: if_splits)
  qed
  have le: "uuid_supply db \<le> uuid_supply db'" using sup by simp
  show ?thesis
  proof (rule ok_step [OF ok])
    show "grows db db'" using e by (auto simp: grows_def f es as)
    have "Suc (uuid_supply db) \<notin> set (map pe_id (policy_events db))"
      using approvals_okD(1) [OF ok] by (fastforce simp: ids_ok_def)
    then show "ids_ok db'"
      using approvals_okD(1) [OF ok] subset_below [OF _ le] e(1) sup by (auto simp: ids_ok_def f es)
    show "current_ok db'" using approvals_okD(2) [OF ok] by (simp add: current_ok_def version_of_def f)
    fix x assume "x \<in> set (approval_requests db')"
    then show "x \<in> set (approval_requests db) \<and> (active_approval x \<longrightarrow> points_current db' x) \<or> request_ok db' x"
      using approvals_okD(3) [OF ok] by (simp add: f request_ok_def points_current_def)
  next
    fix x assume "x \<in> set (quality_assessments db')"
    then show "x \<in> set (quality_assessments db) \<or> assessment_ok db' x"
      using th rp ev by (auto simp: as assessment_ok_def)
  qed (simp_all add: f)
qed

end
