(* ===== verification/Approval_Reach.thy ===== *)
theory Approval_Reach
  imports Assessment_Steps
begin

text \<open>
  The step relation of contents, quality and approvals: one rule per operation that commits, and
  \<open>Elsewhere\<close> for every transaction that leaves these tables alone, apart from adding a content
  without a version (creating a generation job does). The invariant \<open>approvals_ok\<close> holds in every
  reachable state.
\<close>

section \<open>Steps\<close>

inductive approval_step ::
  "(json \<Rightarrow> string) \<Rightarrow> hash_fn \<Rightarrow> (int \<Rightarrow> int \<Rightarrow> decimal) \<Rightarrow> 'a content_db_scheme \<Rightarrow> 'a content_db_scheme \<Rightarrow> bool"
  for other :: "json \<Rightarrow> string" and H :: hash_fn and lr :: "int \<Rightarrow> int \<Rightarrow> decimal" where
  CreateContent: "create_content H now p d db = Inr (c, db') \<Longrightarrow> approval_step other H lr db db'"
| UpdateContent: "update_content now p i u db = Inr (c, db') \<Longrightarrow> approval_step other H lr db db'"
| DeleteContent: "soft_delete_content now p i db = Inr db' \<Longrightarrow> approval_step other H lr db db'"
| CreateVersion: "create_version H now p i vd db = Inr (v, db') \<Longrightarrow> approval_step other H lr db db'"
| RestoreVersion: "restore_version H now p i src cur note db = Inr (v, db') \<Longrightarrow> approval_step other H lr db db'"
| FinishGeneration: "finalize_for_review H now ws j title bs actor db = Inr (v, db') \<Longrightarrow> approval_step other H lr db db'"
| AfterEdit: "invalidate_approvals_after_edit p now i nv nh reason db = Inr db' \<Longrightarrow> approval_step other H lr db db'"
| CreateRuleSet: "create_rule_set H now p rs db = Inr (r, db') \<Longrightarrow> approval_step other H lr db db'"
| CreateConfig: "create_quality_config H now p qd db = Inr (c', db') \<Longrightarrow> valid_quality_config qd
    \<Longrightarrow> approval_step other H lr db db'"
| CreateReport: "create_report H lr now p knd rc db = Inr (qr, db') \<Longrightarrow> approval_step other H lr db db'"
| CreateAssessment: "create_assessment other H now p ac db = Inr (a, db') \<Longrightarrow> approval_step other H lr db db'"
| Override: "create_policy_override now p i h reason evidence db = Inr (x, db') \<Longrightarrow> approval_step other H lr db db'"
| Request: "create_approval_request H now p aq db = Inr (ar, db') \<Longrightarrow> approval_step other H lr db db'"
| Decide: "decide_approval_request now p i dc db = Inr ((ar, ad), db') \<Longrightarrow> approval_step other H lr db db'"
| Elsewhere: "quiet db db' \<Longrightarrow> approval_step other H lr db db'"

lemma invalidate_approvals_after_edit_ok:
  "approvals_ok db \<Longrightarrow> invalidate_approvals_after_edit p now i nv nh reason db = Inr db' \<Longrightarrow> approvals_ok db'"
  by (auto simp: invalidate_approvals_after_edit_def result_simps intro: invalidate_ok)

lemma approval_step_ok: "approval_step other H lr db db' \<Longrightarrow> approvals_ok db \<Longrightarrow> approvals_ok db'"
  by (induction rule: approval_step.induct)
    (blast intro: create_content_ok update_content_ok soft_delete_content_ok create_version_ok
      restore_version_ok finalize_for_review_ok invalidate_approvals_after_edit_ok create_rule_set_ok
      create_quality_config_ok create_report_ok create_assessment_ok create_policy_override_ok
      create_approval_request_ok decide_approval_request_ok quiet_ok)+

definition empty_content :: "'a content_db_scheme \<Rightarrow> bool" where
  "empty_content db \<longleftrightarrow> contents db = [] \<and> content_versions db = [] \<and> approval_requests db = []
     \<and> approval_decisions db = [] \<and> quality_configs db = [] \<and> quality_assessments db = []
     \<and> policy_events db = [] \<and> policy_overrides db = [] \<and> quality_reports db = []"

inductive approval_reachable ::
  "(json \<Rightarrow> string) \<Rightarrow> hash_fn \<Rightarrow> (int \<Rightarrow> int \<Rightarrow> decimal) \<Rightarrow> 'a content_db_scheme \<Rightarrow> bool"
  for other :: "json \<Rightarrow> string" and H :: hash_fn and lr :: "int \<Rightarrow> int \<Rightarrow> decimal" where
  Start: "empty_content db \<Longrightarrow> approval_reachable other H lr db"
| Step: "approval_reachable other H lr db \<Longrightarrow> approval_step other H lr db db' \<Longrightarrow> approval_reachable other H lr db'"

lemma empty_content_ok: "empty_content db \<Longrightarrow> approvals_ok db"
  by (simp add: empty_content_def approvals_ok_def ids_ok_def current_ok_def)

lemma reachable_ok: "approval_reachable other H lr db \<Longrightarrow> approvals_ok db"
  by (induction rule: approval_reachable.induct) (auto intro: empty_content_ok approval_step_ok)

section \<open>What backs an approval\<close>

definition quorum_of :: "'a content_db_scheme \<Rightarrow> approval_request \<Rightarrow> approval_stage \<Rightarrow> bool" where
  "quorum_of db r s \<longleftrightarrow> (\<exists>A. A \<subseteq> set (approval_decisions db)
     \<and> as_required_approvals s \<le> int (card (ad_decided_by ` A))
     \<and> (\<forall>a \<in> A. ad_workspace_id a = ar_workspace_id r \<and> ad_approval_request_id a = ar_id r
          \<and> ad_stage_key a = as_key s \<and> ad_decision a = ApprovalDecisionKind.APPROVE
          \<and> ad_content_version_id a = ar_content_version_id r \<and> ad_content_hash a = ar_content_hash r
          \<and> entitled s a))"

definition cleared :: "'a content_db_scheme \<Rightarrow> quality_assessment \<Rightarrow> bool" where
  "cleared db a \<longleftrightarrow> reports_ok db a
     \<and> (\<forall>e \<in> set (policy_events db). report_event a e \<longrightarrow> blocks_publication e \<longrightarrow>
          overridable e \<and> overridden db (qa_workspace_id a) (pe_id e))
     \<and> (\<exists>c \<in> set (quality_configs db). qc_id c = qa_quality_config_id a
          \<and> qc_config_hash c = qa_quality_config_hash a
          \<and> (meets_thresholds c a
             \<or> qc_threshold_override_allowed c \<and> (\<exists>e \<in> set (policy_events db).
                  pe_assessment_id e = Some (qa_id a) \<and> overridden db (qa_workspace_id a) (pe_id e))))"

lemma the_uuid_str: "i < 16 ^ 32 \<Longrightarrow> the_uuid (uuid_str i) = i"
  by (simp add: the_uuid_def parse_uuid_str)

lemma the_request:
  assumes "approvals_ok db" "r \<in> set (approval_requests db)" "r' \<in> set (approval_requests db)" "ar_id r' = ar_id r"
  shows "r' = r"
  using assms by (intro distinct_key_eq [of ar_id]) (auto simp: approvals_ok_def ids_ok_def)

lemma approved_quorum:
  assumes ok: "approvals_ok db" and r: "r \<in> set (approval_requests db)"
    and approved: "ar_status r = ApprovalRequestStatus.APPROVED" and s: "s \<in> set (ar_approval_stages_snapshot r)"
  shows "quorum_of db r s"
proof -
  let ?A = "{a \<in> set (approval_decisions db). ad_workspace_id a = ar_workspace_id r
    \<and> ad_approval_request_id a = ar_id r \<and> ad_stage_key a = as_key s \<and> ad_decision a = ApprovalDecisionKind.APPROVE}"
  have rok: "request_ok db r" by (rule approvals_okD(3) [OF ok r])
  have "ad_decided_by ` ?A = set (prior_approvers (ar_workspace_id r) (ar_id r) (as_key s) db)"
    by (auto simp: prior_approvers_def)
  then have card: "as_required_approvals s \<le> int (card (ad_decided_by ` ?A))"
    using rok approved s by (simp add: request_ok_def stage_complete_def)
  have "ad_content_version_id a = ar_content_version_id r \<and> ad_content_hash a = ar_content_hash r \<and> entitled s a"
    if a: "a \<in> ?A" for a
  proof -
    obtain r' where r': "r' \<in> set (approval_requests db)" "decision_for a r'"
      using ok a unfolding approvals_ok_def decision_ok_def by blast
    then have "r' = r" using the_request [OF ok r] a by (simp add: decision_for_def)
    then obtain s' where "s' \<in> set (ar_approval_stages_snapshot r)" "as_key s' = as_key s" "entitled s' a"
      using r'(2) a by (auto simp: decision_for_def)
    moreover have "distinct (map as_key (ar_approval_stages_snapshot r))"
      using rok by (simp add: request_ok_def valid_stages_def)
    ultimately have "s' = s" using s by (metis distinct_key_eq)
    with r'(2) \<open>r' = r\<close> \<open>entitled s' a\<close> show ?thesis by (simp add: decision_for_def)
  qed
  with card show ?thesis unfolding quorum_of_def by (intro exI [of _ ?A]) auto
qed

lemma clean_cleared:
  assumes ok: "approvals_ok db" and bound: "uuid_supply db \<le> 16 ^ 32"
    and a: "a \<in> set (quality_assessments db)" "clean_assessment db a"
  shows "cleared db a"
proof -
  have aok: "thresholds_ok db a" "reports_ok db a" "events_ok db a"
    using ok a(1) by (auto simp: approvals_ok_def assessment_ok_def)
  have small: "pe_id e < 16 ^ 32" if "e \<in> set (policy_events db)" for e
    using ok that bound unfolding approvals_ok_def ids_ok_def by fastforce
  have target: "the_uuid (uuid_str (po_policy_event_id x)) = po_policy_event_id x" if "x \<in> set (policy_overrides db)" for x
    using ok that small the_uuid_str unfolding approvals_ok_def override_ok_def by metis
  have blocked: "overridden db (qa_workspace_id a) i" if "i \<in> set (qa_blocking_policy_event_ids a)" for i
    using a(2) that by (auto simp: clean_assessment_def overridden_def split: if_splits)
  have none: "qa_non_overrideable_policy_event_ids a = []" if "i \<in> set (qa_blocking_policy_event_ids a)" for i
    using a(2) that by (auto simp: clean_assessment_def split: if_splits)
  have "overridable e \<and> overridden db (qa_workspace_id a) (pe_id e)"
    if e: "e \<in> set (policy_events db)" "report_event a e" "blocks_publication e" for e
  proof -
    have cl: "if overridable e then pe_id e \<in> set (qa_blocking_policy_event_ids a)
          \<or> (\<exists>x \<in> set (policy_overrides db). po_workspace_id x = qa_workspace_id a \<and> po_policy_event_id x = pe_id e)
        else pe_id e \<in> set (qa_blocking_policy_event_ids a) \<and> pe_id e \<in> set (qa_non_overrideable_policy_event_ids a)"
      using aok(3) e target the_uuid_str [OF small [OF e(1)]] unfolding events_ok_def Let_def by fastforce
    then have "overridable e" using none by (cases "overridable e") auto
    with cl show ?thesis using blocked by (auto simp: overridden_def)
  qed
  moreover obtain c where c: "c \<in> set (quality_configs db)" "qc_id c = qa_quality_config_id a"
      "qc_config_hash c = qa_quality_config_hash a"
    and th: "if qa_failed_thresholds a = [] then meets_thresholds c a
        else (\<exists>e \<in> set (policy_events db). pe_assessment_id e = Some (qa_id a) \<and> pe_id e \<in> set (qa_blocking_policy_event_ids a))
          \<and> (qc_threshold_override_allowed c \<or> qa_non_overrideable_policy_event_ids a \<noteq> [])"
    using aok(1) unfolding thresholds_ok_def by fastforce
  moreover have "meets_thresholds c a \<or> qc_threshold_override_allowed c \<and> (\<exists>e \<in> set (policy_events db).
                  pe_assessment_id e = Some (qa_id a) \<and> overridden db (qa_workspace_id a) (pe_id e))"
    using th blocked none by (auto split: if_splits)
  ultimately show ?thesis using aok(2) unfolding cleared_def by blast
qed

lemma approved_cleared:
  assumes ok: "approvals_ok db" and bound: "uuid_supply db \<le> 16 ^ 32" and r: "r \<in> set (approval_requests db)"
  shows "\<exists>a \<in> set (quality_assessments db). qa_id a = ar_assessment_id r \<and> qa_workspace_id a = ar_workspace_id r
    \<and> qa_content_id a = ar_content_id r \<and> qa_content_version_id a = ar_content_version_id r
    \<and> qa_content_hash a = ar_content_hash r \<and> cleared db a"
proof -
  have "assessed db r" using approvals_okD(3) [OF ok r] by (simp add: request_ok_def)
  then show ?thesis unfolding assessed_def using clean_cleared [OF ok bound] by blast
qed

end
