(* ===== verification/Quality_Scores.thy ===== *)
theory Quality_Scores
  imports Quality_Rules
begin

text \<open>
  Accuracy of the quality score: each weighted contribution is rounded to a cent, so the total is a
  cent amount between 0 and 100 and differs from the exact weighted mean by at most half a cent for
  each of the seven components, up to the 28-digit context.
\<close>

lemma dec_round_cents: "\<bar>m\<bar> < 10 ^ 28 \<Longrightarrow> dec_round (of_int m / 100) = of_int m / 100"
  by (rule dec_round_exact [of _ m "- 2"]) (simp_all add: power_int_minus)

lemma dec_round_nonneg: "0 \<le> x \<Longrightarrow> 0 \<le> dec_round x"
proof -
  assume x: "0 \<le> x"
  have "x / (2 * 10 ^ 27) \<le> x" using x by (simp add: field_simps)
  with dec_round_error [of x] x show ?thesis by linarith
qed

lemma quantize_cent_Inr:
  "quantize_cent x = Inr y \<longleftrightarrow> \<bar>round_half_up (x * 100)\<bar> < 10 ^ 28 \<and> y = of_int (round_half_up (x * 100)) / 100"
  by (auto simp: quantize_cent_def dec_quantize_def Let_def)

lemma round_half_up_of_int [simp]: "round_half_up (of_int m) = m"
  by (auto simp: round_half_up_def) linarith+

lemma quantize_cents: "\<bar>m\<bar> < 10 ^ 28 \<Longrightarrow> quantize_cent (of_int m / 100) = Inr (of_int m / 100)"
  by (simp add: quantize_cent_Inr)

text \<open>One contribution.\<close>

definition contribution_ok :: "rat \<Rightarrow> rat \<Rightarrow> rat \<Rightarrow> bool" where
  "contribution_ok s w c \<longleftrightarrow> (\<exists>m. c = of_int m / 100 \<and> 0 \<le> m) \<and> c \<le> 100 * w
     \<and> \<bar>c - s * w\<bar> \<le> 1 / 200 + 1 / 10 ^ 25"

lemma contribution:
  assumes s: "0 \<le> s" "s \<le> 100" and w: "w = of_int k / 100" "0 \<le> k" "k \<le> 100"
    and c: "quantize_cent (dec_mult s w) = Inr c"
  shows "contribution_ok s w c"
proof -
  let ?d = "dec_mult s w"
  have w0: "0 \<le> w" "w \<le> 1" using w by simp_all
  have sw: "0 \<le> s * w" "s * w \<le> 100 * w" "100 * w \<le> 100"
    using s w0 by (simp_all add: mult_right_mono)
  have err: "\<bar>?d - s * w\<bar> \<le> 100 / (2 * 10 ^ 27)"
  proof -
    have "\<bar>s * w\<bar> / (2 * 10 ^ 27) \<le> 100 / (2 * 10 ^ 27 :: rat)"
      using sw by (intro divide_right_mono) simp_all
    with dec_round_error [of "s * w"] show ?thesis unfolding dec_mult_def by linarith
  qed
  have d0: "0 \<le> ?d" using sw by (simp add: dec_mult_def dec_round_nonneg)
  define m where "m = \<lfloor>?d * 100 + 1 / 2\<rfloor>"
  have cm: "c = of_int m / 100" using c d0 by (simp add: quantize_cent_Inr round_half_up_def m_def)
  have m: "of_int m \<le> ?d * 100 + 1 / 2" "?d * 100 + 1 / 2 < of_int m + 1"
    unfolding m_def by linarith+
  have m0: "0 \<le> m" unfolding m_def using d0 by simp
  have "of_int m < of_int (100 * k) + (1 :: rat)"
  proof -
    have "?d \<le> 100 * w + 100 / (2 * 10 ^ 27)" using err sw(2) by linarith
    then show ?thesis using m(1) w(1) by simp
  qed
  then have "m < 100 * k + 1" by linarith
  then have "of_int m \<le> (of_int (100 * k) :: rat)" by (simp only: of_int_le_iff)
  then have top: "c \<le> 100 * w" using w(1) by (simp add: cm)
  have "\<bar>c - s * w\<bar> \<le> 1 / 200 + 1 / 10 ^ 25"
  proof -
    have "\<bar>c - ?d\<bar> \<le> 1 / 200" unfolding cm using m by linarith
    moreover have "100 / (2 * 10 ^ 27) \<le> (1 / 10 ^ 25 :: rat)" by simp
    ultimately show ?thesis using err by linarith
  qed
  with top m0 show ?thesis unfolding contribution_ok_def cm by blast
qed

section \<open>All components\<close>

definition cent_weights :: "(string \<times> rat) list \<Rightarrow> bool" where
  "cent_weights ws \<longleftrightarrow> (\<forall>(k, w) \<in> set ws. \<exists>i. w = of_int i / 100 \<and> 0 \<le> i \<and> i \<le> 100)"

definition score_of :: "(string \<times> decimal) list \<Rightarrow> string \<Rightarrow> rat" where
  "score_of scores k = (case map_of scores k of Some (Finite s) \<Rightarrow> s | _ \<Rightarrow> 0)"

lemma checked_score_Inr: "checked_score k d = Inr s \<longleftrightarrow> d = Finite s \<and> 0 \<le> s \<and> s \<le> 100"
  by (auto simp: checked_score_def Let_def split: decimal.splits)

lemma score_components_rows:
  "score_components scores ws = Inr rows \<Longrightarrow> cent_weights ws \<Longrightarrow>
     map fst rows = map fst ws
     \<and> list_all2 (\<lambda>(k, w) (k', n, c). map_of scores k = Some (Finite (score_of scores k))
         \<and> quantize_cent (score_of scores k) = Inr n \<and> contribution_ok (score_of scores k) w c) ws rows"
proof (induction ws arbitrary: rows)
  case (Cons kw ws)
  obtain k w where kw: "kw = (k, w)" by fastforce
  with Cons.prems obtain i where i: "w = of_int i / 100" "0 \<le> i" "i \<le> 100" and ws: "cent_weights ws"
    by (auto simp: cent_weights_def)
  from Cons.prems(1) kw obtain s n c rest where m: "map_of scores k = Some (Finite s)" "0 \<le> s" "s \<le> 100"
    and n: "quantize_cent s = Inr n" and c: "quantize_cent (dec_mult s w) = Inr c"
    and r: "score_components scores ws = Inr rest" "rows = (k, n, c) # rest"
    by (auto simp: result_simps checked_score_Inr split: option.splits)
  have "score_of scores k = s" by (simp add: score_of_def m)
  with Cons.IH [OF r(1) ws] m n contribution [OF m(2,3) i c] show ?case by (simp add: kw r(2))
qed simp

definition weighted_total :: "(string \<times> decimal) list \<Rightarrow> (string \<times> rat) list \<Rightarrow> rat" where
  "weighted_total scores ws = sum_list (map (\<lambda>(k, w). score_of scores k * w) ws)"

lemma contributions_sum:
  "list_all2 (\<lambda>(k, w) (k', n, c). map_of scores k = Some (Finite (score_of scores k))
       \<and> quantize_cent (score_of scores k) = Inr n \<and> contribution_ok (score_of scores k) w c) ws rows
   \<Longrightarrow> acc = of_int a / 100 \<Longrightarrow> 0 \<le> a \<Longrightarrow> acc + 100 * sum_list (map snd ws) \<le> 1000
   \<Longrightarrow> \<forall>(k, w) \<in> set ws. 0 \<le> w
   \<Longrightarrow> (\<exists>t. foldl (\<lambda>acc (_, _, c). dec_round (acc + c)) acc rows = of_int t / 100 \<and> a \<le> t
        \<and> of_int t / 100 \<le> acc + 100 * sum_list (map snd ws)
        \<and> \<bar>of_int t / 100 - (acc + weighted_total scores ws)\<bar> \<le> of_nat (length ws) * (1 / 200 + 1 / 10 ^ 25))"
proof (induction ws arbitrary: rows acc a)
  case Nil
  then show ?case by (auto simp: weighted_total_def)
next
  case (Cons kw ws)
  obtain k w where kw: "kw = (k, w)" by fastforce
  obtain k' n c rest where rows: "rows = (k', n, c) # rest" using Cons.prems(1) kw
    by (auto simp: list_all2_Cons1)
  from Cons.prems(1) kw rows have ok: "contribution_ok (score_of scores k) w c"
    and rest: "list_all2 (\<lambda>(k, w) (k', n, c). map_of scores k = Some (Finite (score_of scores k))
       \<and> quantize_cent (score_of scores k) = Inr n \<and> contribution_ok (score_of scores k) w c) ws rest"
    by auto
  from ok obtain m where m: "c = of_int m / 100" "0 \<le> m" and top: "c \<le> 100 * w"
    and err: "\<bar>c - score_of scores k * w\<bar> \<le> 1 / 200 + 1 / 10 ^ 25"
    by (auto simp: contribution_ok_def)
  have pos: "0 \<le> sum_list (map snd ws)" using Cons.prems(5) by (intro sum_list_nonneg) auto
  have acc': "acc + c = of_int (a + m) / 100" by (simp add: Cons.prems(2) m(1) add_divide_distrib)
  have budget: "acc + c + 100 * sum_list (map snd ws) \<le> 1000"
    using Cons.prems(4) top by (simp add: kw algebra_simps)
  then have "of_int (a + m) / 100 \<le> (1000 :: rat)" using pos acc' by linarith
  then have "of_int (a + m) \<le> (of_int 100000 :: rat)" by simp
  then have small: "a + m \<le> 100000" by (simp only: of_int_le_iff)
  have round: "dec_round (acc + c) = acc + c"
    unfolding acc' by (rule dec_round_cents) (use small Cons.prems(3) m(2) in simp)
  obtain t where t: "foldl (\<lambda>acc (_, _, c). dec_round (acc + c)) (acc + c) rest = of_int t / 100" "a + m \<le> t"
    "of_int t / 100 \<le> acc + c + 100 * sum_list (map snd ws)"
    "\<bar>of_int t / 100 - (acc + c + weighted_total scores ws)\<bar> \<le> of_nat (length ws) * (1 / 200 + 1 / 10 ^ 25)"
    using Cons.IH [OF rest acc' _ budget] Cons.prems(3,5) m(2) by auto
  show ?case
  proof (intro exI conjI)
    show "foldl (\<lambda>acc (_, _, c). dec_round (acc + c)) acc rows = of_int t / 100"
      by (simp add: rows round t(1))
    show "a \<le> t" using t(2) m(2) by simp
    show "of_int t / 100 \<le> acc + 100 * sum_list (map snd (kw # ws))"
      using t(3) top by (simp add: kw algebra_simps)
    show "\<bar>of_int t / 100 - (acc + weighted_total scores (kw # ws))\<bar>
        \<le> of_nat (length (kw # ws)) * (1 / 200 + 1 / 10 ^ 25)"
    proof -
      define eps :: rat where "eps = 1 / 200 + 1 / 10 ^ 25"
      have "of_nat (length (kw # ws)) * eps = eps + of_nat (length ws) * eps" by (simp add: algebra_simps)
      moreover have "weighted_total scores (kw # ws) = score_of scores k * w + weighted_total scores ws"
        by (simp add: kw weighted_total_def)
      ultimately show ?thesis using t(4) err unfolding eps_def [symmetric] by linarith
    qed
  qed
qed

lemma weights_facts:
  "cent_weights QUALITY_COMPONENT_WEIGHTS" "sum_list (map snd QUALITY_COMPONENT_WEIGHTS) = 1"
  "\<forall>(k, w) \<in> set QUALITY_COMPONENT_WEIGHTS. 0 \<le> w" "length QUALITY_COMPONENT_WEIGHTS = 7"
proof -
  have "\<exists>i. (5 :: rat) / 100 = of_int i / 100 \<and> 0 \<le> i \<and> i \<le> 100" by (rule exI [of _ 5]) simp
  moreover have "\<exists>i. (10 :: rat) / 100 = of_int i / 100 \<and> 0 \<le> i \<and> i \<le> 100" by (rule exI [of _ 10]) simp
  moreover have "\<exists>i. (15 :: rat) / 100 = of_int i / 100 \<and> 0 \<le> i \<and> i \<le> 100" by (rule exI [of _ 15]) simp
  moreover have "\<exists>i. (20 :: rat) / 100 = of_int i / 100 \<and> 0 \<le> i \<and> i \<le> 100" by (rule exI [of _ 20]) simp
  moreover have "\<exists>i. (25 :: rat) / 100 = of_int i / 100 \<and> 0 \<le> i \<and> i \<le> 100" by (rule exI [of _ 25]) simp
  ultimately show "cent_weights QUALITY_COMPONENT_WEIGHTS"
    by (simp only: cent_weights_def QUALITY_COMPONENT_WEIGHTS_def list.set ball_simps prod.case)
qed (simp_all add: QUALITY_COMPONENT_WEIGHTS_def)

lemma calculate_quality_score_Inr:
  assumes "calculate_quality_score other scores = Inr q"
  obtains rows t where "score_components scores QUALITY_COMPONENT_WEIGHTS = Inr rows"
    and "qs_total q = of_int t / 100" "0 \<le> t" "t \<le> 10000"
    and "\<bar>qs_total q - weighted_total scores QUALITY_COMPONENT_WEIGHTS\<bar> \<le> 7 * (1 / 200 + 1 / 10 ^ 25)"
    and "qs_component_scores q = map (\<lambda>(k, n, _). (k, n)) rows"
proof -
  let ?ws = QUALITY_COMPONENT_WEIGHTS
  obtain rows where r: "score_components scores ?ws = Inr rows"
    and tot: "quantize_cent (foldl (\<lambda>acc (_, _, c). dec_round (acc + c)) 0 rows) = Inr (qs_total q)"
    and cs: "qs_component_scores q = map (\<lambda>(k, n, _). (k, n)) rows"
    using assms by (auto simp: calculate_quality_score_def Let_def result_simps split: if_split_asm)
  note rows = conjunct2 [OF score_components_rows [OF r weights_facts(1)]]
  obtain t where t: "foldl (\<lambda>acc (_, _, c). dec_round (acc + c)) 0 rows = of_int t / 100" "0 \<le> t"
    "of_int t / 100 \<le> 0 + 100 * sum_list (map snd ?ws)"
    "\<bar>of_int t / 100 - (0 + weighted_total scores ?ws)\<bar> \<le> of_nat (length ?ws) * (1 / 200 + 1 / 10 ^ 25)"
    using contributions_sum [OF rows, of 0 0] weights_facts by auto
  have "of_int t \<le> (of_int 10000 :: rat)" using t(3) by (simp add: weights_facts(2))
  then have small: "t \<le> 10000" by (simp only: of_int_le_iff)
  have q: "qs_total q = of_int t / 100"
    using tot small t(2) unfolding t(1) by (simp add: quantize_cents)
  show thesis
    by (rule that [OF r q t(2) small _ cs]) (use t(4) in \<open>simp add: q weights_facts(4)\<close>)
qed

end
