(* ===== verification/Approval_Demo.thy ===== *)
theory Approval_Demo
  imports Approval_Reach Quality_Scores
begin

text \<open>
  A concrete run: a content with one version is created, a configuration with one approval stage, a
  report of each kind, an assessment that passes, an approval request and its approval. The witnesses
  of the approval properties apply them along this run.
\<close>

definition editor :: principal where
  "editor = \<lparr>subject_id = 1, workspace_id = 2, session_id = Some 3, permissions = [],
     authentication_method = ''password+totp'', kind = PrincipalKind.USER_SESSION, mfa_verified_at = None\<rparr>"

definition start_db :: content_db where
  "start_db = \<lparr>uuid_supply = 100, request_id_context = None, audit_logs = [], outbox_events = [],
     idempotency_records = [], contents = [], input_snapshots = [], generation_jobs = [],
     generation_job_steps = [], generation_job_commands = [], model_runs = [], content_versions = [],
     content_blocks = [], collaboration_events = [], feedbacks = [], templates = [],
     template_versions = [], active_members = [(2, 1)], quality_configs = [], rule_sets = [],
     quality_reports = [], report_details = [], quality_assessments = [], policy_events = [],
     policy_overrides = [], approval_requests = [], approval_decisions = [],
     approval_state_events = [], quality_activities = [], jsonb_document = (\<lambda>d. d)\<rparr>"

definition plain_hash :: hash_fn where
  "plain_hash j = ''h''"

definition demo_block :: content_block_input where
  "demo_block = \<lparr>bi_block_key = 7, bi_block_type = ''PARAGRAPH'', bi_payload = [], bi_plain_text = ''text'',
     bi_locked_facts = [], bi_source_anchors = []\<rparr>"

definition demo_content :: content_create where
  "demo_content = \<lparr>co_content_type = ContentType.INFORMATIONAL, co_channel = ''web'', co_language = ''ko'', co_title = ''t'',
     co_brand_id = None, co_brief_id = None, co_document = [demo_block], co_change_note = None,
     co_metadata_json = [], co_tags = []\<rparr>"

definition demo_stage :: approval_stage where
  "demo_stage = \<lparr>as_key = ''final'', as_name = ''Final'', as_required_approvals = 1,
     as_approver_user_ids = [1], as_require_mfa = True, as_due_seconds = None\<rparr>"

definition demo_config :: quality_config_create where
  "demo_config = \<lparr>qd_expected_previous_version = 0, qd_minimum_total_score = 70,
     qd_minimum_component_scores = [(''accuracy'', 80)], qd_required_report_kinds = [ReportKind.SEO],
     qd_approval_stages = [demo_stage],
     qd_threshold_override_allowed = False, qd_notes = None\<rparr>"

definition the_db :: "('a \<times> content_db) result \<Rightarrow> content_db" where
  "the_db r = (case r of Inl _ \<Rightarrow> start_db | Inr (_, db) \<Rightarrow> db)"

definition no_repr :: "json \<Rightarrow> string" where
  "no_repr j = []"

definition no_rate :: "int \<Rightarrow> int \<Rightarrow> decimal" where
  "no_rate l n = Finite 0"

definition run_db1 :: content_db where
  "run_db1 = the_db (create_content plain_hash 10 editor demo_content start_db)"

definition run_db2 :: content_db where
  "run_db2 = the_db (create_quality_config plain_hash 11 editor demo_config run_db1)"

definition demo_report :: "report_input \<Rightarrow> report_create" where
  "demo_report input = \<lparr>rc_content_id = 100, rc_content_version_id = 101, rc_content_hash = ''h'',
     rc_input_hash = ''h'', rc_analyzer = \<lparr>an_analyzer_name = ''a'', an_analyzer_version = ''1'',
       an_model_name = None, an_model_version = None, an_dictionary_name = Some ''d'',
       an_dictionary_version = Some ''1''\<rparr>, rc_analyzer_config = [], rc_rule_set_ids = [], rc_summary = [],
     rc_findings = [], rc_hard_blockers = [], rc_detail = input\<rparr>"

text \<open>The rows of the run so far.\<close>

definition demo_version :: content_version where
  "demo_version = version_row plain_hash editor (new_content editor demo_content 100) ''t'' [demo_block]
     ContentChangeKind.MANUAL None None no_origin 1 101"

definition demo_item :: content_item where
  "demo_item = touch_content (\<lambda>c. c\<lparr>ct_current_version_id := Some 101\<rparr>) (new_content editor demo_content 100)"

definition demo_qc :: quality_config where
  "demo_qc = \<lparr>qc_id = 105, qc_workspace_id = 2, qc_version = 1, qc_minimum_total_score = 70,
     qc_minimum_component_scores = [(''accuracy'', 80)], qc_required_report_kinds = [ReportKind.SEO],
     qc_approval_stages = [demo_stage], qc_threshold_override_allowed = False, qc_notes = None,
     qc_config_hash = ''h'', qc_created_by = 1\<rparr>"

definition demo_snap :: ContentVersionSnapshot where
  "demo_snap = snapshot_of demo_item demo_version"

lemma demo_rows:
  "ct_id demo_item = 100" "ct_workspace_id demo_item = 2" "ct_deleted_at demo_item = None"
  "ct_current_version_id demo_item = Some 101" "ct_channel demo_item = ''web''"
  "cv_id demo_version = 101" "cv_workspace_id demo_version = 2" "cv_content_id demo_version = 100"
  "cv_content_hash demo_version = ''h''"
  by (simp_all add: demo_item_def demo_version_def new_content_def version_row_def Let_def editor_def
      demo_content_def content_document_hash_def plain_hash_def)

lemma editor_fields [simp]: "workspace_id editor = 2" "subject_id editor = 1"
  "authentication_method editor = ''password+totp''"
  by (simp_all add: editor_def)

lemmas content_ops = create_content_def uuid4_def Let_def start_db_def demo_content_def append_version_def
  demo_block_def find_content_def update_content_row_def block_row_def next_version_number_def
  job_record_def append_audit_log_def add_outbox_event_def new_content_def update_where_def
  version_row_def touch_content_def

lemma demo_create1: "create_content plain_hash 10 editor demo_content start_db = Inr (demo_item, run_db1)"
  by (simp add: run_db1_def the_db_def content_ops demo_item_def)

lemma run_tables1:
  "contents run_db1 = [demo_item]" "content_versions run_db1 = [demo_version]"
  "quality_configs run_db1 = []" "rule_sets run_db1 = []" "quality_reports run_db1 = []"
  "report_details run_db1 = []" "quality_assessments run_db1 = []" "policy_events run_db1 = []"
  "policy_overrides run_db1 = []" "approval_requests run_db1 = []" "approval_decisions run_db1 = []"
  "active_members run_db1 = [(2, 1)]" "uuid_supply run_db1 = 105"
  by (simp_all add: run_db1_def the_db_def content_ops demo_item_def demo_version_def)


lemma demo_create2: "create_quality_config plain_hash 11 editor demo_config run_db1 = Inr (demo_qc, run_db2)"
  by (simp add: run_db2_def the_db_def create_quality_config_def run_tables1 latest_config_version_def
      demo_config_def require_active_def demo_stage_def uuid4_def Let_def demo_qc_def plain_hash_def)

lemma run_tables2:
  "contents run_db2 = [demo_item]" "content_versions run_db2 = [demo_version]"
  "quality_configs run_db2 = [demo_qc]" "rule_sets run_db2 = []" "quality_reports run_db2 = []"
  "report_details run_db2 = []" "quality_assessments run_db2 = []" "policy_events run_db2 = []"
  "policy_overrides run_db2 = []" "approval_requests run_db2 = []" "approval_decisions run_db2 = []"
  "active_members run_db2 = [(2, 1)]" "uuid_supply run_db2 = 109"
  by (simp_all add: run_db2_def the_db_def create_quality_config_def run_tables1 latest_config_version_def
      demo_config_def require_active_def demo_stage_def uuid4_def Let_def demo_qc_def plain_hash_def
      record_change_def append_audit_log_def add_outbox_event_def)

text \<open>One report: what it appends.\<close>

definition demo_report_row :: "ReportKind \<Rightarrow> report_input \<Rightarrow> report_detail \<Rightarrow> uuid \<Rightarrow> quality_report" where
  "demo_report_row knd input dt i = report_row plain_hash editor knd (demo_report input) demo_snap demo_qc [] [] dt i"

lemma demo_report_row_fields [simp]:
  "qr_id (demo_report_row k inp dt i) = i" "qr_workspace_id (demo_report_row k inp dt i) = 2"
  "qr_report_kind (demo_report_row k inp dt i) = k" "qr_content_id (demo_report_row k inp dt i) = 100"
  "qr_content_version_id (demo_report_row k inp dt i) = 101" "qr_content_hash (demo_report_row k inp dt i) = ''h''"
  by (simp_all add: demo_report_row_def report_row_def Let_def demo_snap_def snapshot_of_def demo_rows)

definition run_report :: "time \<Rightarrow> ReportKind \<Rightarrow> report_input \<Rightarrow> content_db \<Rightarrow> content_db" where
  "run_report now knd input db = the_db (create_report plain_hash no_rate now editor knd (demo_report input) db)"

lemma run_report_eq:
  assumes "contents db = [demo_item]" "content_versions db = [demo_version]" "quality_configs db = [demo_qc]"
    "rule_sets db = []" "\<forall>x \<in> set (quality_reports db). qr_report_kind x \<noteq> knd"
    and "new_report_detail no_rate knd input = Inr dt" "findings_of input = []"
  shows "create_report plain_hash no_rate now editor knd (demo_report input) db
      = Inr ((demo_report_row knd input dt (uuid_supply db)), record_change editor now ''REPORT_CREATED'' ''quality.report.created'' ''quality_report'' (uuid_supply db)
          (Some 100) (Some 101)
          [(''report_kind'', JStr (report_kind_value knd)), (''report_hash'', JStr (qr_report_hash (demo_report_row knd input dt (uuid_supply db)))),
           (''analyzer_version'', JStr (qr_analyzer_version (demo_report_row knd input dt (uuid_supply db)))), (''policy_event_ids'', JList [])]
          (db\<lparr>uuid_supply := Suc (uuid_supply db), quality_reports := quality_reports db @ [(demo_report_row knd input dt (uuid_supply db))],
              report_details := report_details db @ [\<lparr>rd_workspace_id = 2, rd_report_id = uuid_supply db,
                rd_detail = dt\<rparr>]\<rparr>))"
proof -
  have content: "exact_content 2 100 101 ''h'' False db = Inr demo_snap"
    using assms by (simp add: exact_content_def resolve_version_def live_content_def demo_rows demo_snap_def snapshot_of_def)
  have config: "latest_config 2 db = Inr demo_qc"
    using assms by (simp add: latest_config_def latest_config_version_def demo_qc_def)
  have rules: "rule_sets_for_report 2 now [] db = Inr []"
    using assms by (simp add: rule_sets_for_report_def effective_sets_def by_precedence_def)
  have new: "\<not> list_ex (\<lambda>x. qr_workspace_id x = 2 \<and> qr_content_version_id x = v \<and> qr_report_kind x = knd
      \<and> qr_report_hash x = h) (quality_reports db)" for v h
    using assms(5) by (auto simp: list_ex_iff)
  show ?thesis
    using new by (simp add: create_report_def content config rules assms(6,7) policy_inputs_def demo_report_def
        uuid4_def Let_def demo_report_row_def [symmetric, unfolded demo_report_def])
qed

lemma run_report_step:
  assumes "contents db = [demo_item]" "content_versions db = [demo_version]" "quality_configs db = [demo_qc]"
    "rule_sets db = []" "\<forall>x \<in> set (quality_reports db). qr_report_kind x \<noteq> knd"
    and "new_report_detail no_rate knd input = Inr dt" "findings_of input = []"
  shows "create_report plain_hash no_rate now editor knd (demo_report input) db
      = Inr (demo_report_row knd input dt (uuid_supply db), run_report now knd input db)"
    and "contents (run_report now knd input db) = [demo_item]"
    and "content_versions (run_report now knd input db) = [demo_version]"
    and "quality_configs (run_report now knd input db) = [demo_qc]"
    and "rule_sets (run_report now knd input db) = []"
    and "quality_reports (run_report now knd input db)
      = quality_reports db @ [demo_report_row knd input dt (uuid_supply db)]"
    and "report_details (run_report now knd input db) = report_details db
      @ [\<lparr>rd_workspace_id = 2, rd_report_id = uuid_supply db, rd_detail = dt\<rparr>]"
    and "quality_assessments (run_report now knd input db) = quality_assessments db"
    and "policy_events (run_report now knd input db) = policy_events db"
    and "policy_overrides (run_report now knd input db) = policy_overrides db"
    and "approval_requests (run_report now knd input db) = approval_requests db"
    and "approval_decisions (run_report now knd input db) = approval_decisions db"
    and "active_members (run_report now knd input db) = active_members db"
    and "uuid_supply (run_report now knd input db) = uuid_supply db + 4"
  using run_report_eq [OF assms, of now] assms
  by (simp_all add: run_report_def the_db_def, simp_all add: record_change_def append_audit_log_def
      add_outbox_event_def uuid4_def Let_def)


text \<open>One report of each kind.\<close>

definition run_db3 :: content_db where
  "run_db3 = run_report 12 ReportKind.MORPHOLOGY (MorphologyReportCreate 10 2 (Finite 0) [] [] [] []) run_db2"

lemma run_tables3:
  "create_report plain_hash no_rate 12 editor ReportKind.MORPHOLOGY (demo_report (MorphologyReportCreate 10 2 (Finite 0) [] [] [] [])) run_db2
     = Inr (demo_report_row ReportKind.MORPHOLOGY (MorphologyReportCreate 10 2 (Finite 0) [] [] [] []) (MorphologyReport 10 2 (Finite 0) [] [] [] []) 109, run_db3)"
  "contents run_db3 = [demo_item]" "content_versions run_db3 = [demo_version]"
  "quality_configs run_db3 = [demo_qc]" "rule_sets run_db3 = []"
  "quality_reports run_db3 =
      [demo_report_row ReportKind.MORPHOLOGY (MorphologyReportCreate 10 2 (Finite 0) [] [] [] []) (MorphologyReport 10 2 (Finite 0) [] [] [] []) 109]"
  "report_details run_db3 =
      [\<lparr>rd_workspace_id = 2, rd_report_id = 109, rd_detail = (MorphologyReport 10 2 (Finite 0) [] [] [] [])\<rparr>]"
  "quality_assessments run_db3 = []" "policy_events run_db3 = []"
  "policy_overrides run_db3 = []" "approval_requests run_db3 = []" "approval_decisions run_db3 = []"
  "active_members run_db3 = [(2, 1)]" "uuid_supply run_db3 = 113"
  using run_report_step [of run_db2 ReportKind.MORPHOLOGY "(MorphologyReportCreate 10 2 (Finite 0) [] [] [] [])"
    "(MorphologyReport 10 2 (Finite 0) [] [] [] [])" 12] by (simp_all add: run_tables2 run_db3_def no_rate_def)

definition run_db4 :: content_db where
  "run_db4 = run_report 13 ReportKind.NATURALNESS (NaturalnessReportCreate (Finite 90) (Finite 90) (Finite 80) (Finite 70) [] [] []) run_db3"

lemma run_tables4:
  "create_report plain_hash no_rate 13 editor ReportKind.NATURALNESS (demo_report (NaturalnessReportCreate (Finite 90) (Finite 90) (Finite 80) (Finite 70) [] [] [])) run_db3
     = Inr (demo_report_row ReportKind.NATURALNESS (NaturalnessReportCreate (Finite 90) (Finite 90) (Finite 80) (Finite 70) [] [] []) (NaturalnessReport (Finite 90) (Finite 90) (Finite 80) (Finite 70) [] [] []) 113, run_db4)"
  "contents run_db4 = [demo_item]" "content_versions run_db4 = [demo_version]"
  "quality_configs run_db4 = [demo_qc]" "rule_sets run_db4 = []"
  "quality_reports run_db4 =
      [demo_report_row ReportKind.MORPHOLOGY (MorphologyReportCreate 10 2 (Finite 0) [] [] [] []) (MorphologyReport 10 2 (Finite 0) [] [] [] []) 109,
       demo_report_row ReportKind.NATURALNESS (NaturalnessReportCreate (Finite 90) (Finite 90) (Finite 80) (Finite 70) [] [] []) (NaturalnessReport (Finite 90) (Finite 90) (Finite 80) (Finite 70) [] [] []) 113]"
  "report_details run_db4 =
      [\<lparr>rd_workspace_id = 2, rd_report_id = 109, rd_detail = (MorphologyReport 10 2 (Finite 0) [] [] [] [])\<rparr>,
       \<lparr>rd_workspace_id = 2, rd_report_id = 113, rd_detail = (NaturalnessReport (Finite 90) (Finite 90) (Finite 80) (Finite 70) [] [] [])\<rparr>]"
  "quality_assessments run_db4 = []" "policy_events run_db4 = []"
  "policy_overrides run_db4 = []" "approval_requests run_db4 = []" "approval_decisions run_db4 = []"
  "active_members run_db4 = [(2, 1)]" "uuid_supply run_db4 = 117"
  using run_report_step [of run_db3 ReportKind.NATURALNESS "(NaturalnessReportCreate (Finite 90) (Finite 90) (Finite 80) (Finite 70) [] [] [])"
    "(NaturalnessReport (Finite 90) (Finite 90) (Finite 80) (Finite 70) [] [] [])" 13] by (simp_all add: run_tables3 run_db4_def no_rate_def)

definition run_db5 :: content_db where
  "run_db5 = run_report 14 ReportKind.SEO (SEOReportCreate (Finite 85) None [] [] [] [] []) run_db4"

lemma run_tables5:
  "create_report plain_hash no_rate 14 editor ReportKind.SEO (demo_report (SEOReportCreate (Finite 85) None [] [] [] [] [])) run_db4
     = Inr (demo_report_row ReportKind.SEO (SEOReportCreate (Finite 85) None [] [] [] [] []) (SEOReport (Finite 85) None [] [] [] [] []) 117, run_db5)"
  "contents run_db5 = [demo_item]" "content_versions run_db5 = [demo_version]"
  "quality_configs run_db5 = [demo_qc]" "rule_sets run_db5 = []"
  "quality_reports run_db5 =
      [demo_report_row ReportKind.MORPHOLOGY (MorphologyReportCreate 10 2 (Finite 0) [] [] [] []) (MorphologyReport 10 2 (Finite 0) [] [] [] []) 109,
       demo_report_row ReportKind.NATURALNESS (NaturalnessReportCreate (Finite 90) (Finite 90) (Finite 80) (Finite 70) [] [] []) (NaturalnessReport (Finite 90) (Finite 90) (Finite 80) (Finite 70) [] [] []) 113,
       demo_report_row ReportKind.SEO (SEOReportCreate (Finite 85) None [] [] [] [] []) (SEOReport (Finite 85) None [] [] [] [] []) 117]"
  "report_details run_db5 =
      [\<lparr>rd_workspace_id = 2, rd_report_id = 109, rd_detail = (MorphologyReport 10 2 (Finite 0) [] [] [] [])\<rparr>,
       \<lparr>rd_workspace_id = 2, rd_report_id = 113, rd_detail = (NaturalnessReport (Finite 90) (Finite 90) (Finite 80) (Finite 70) [] [] [])\<rparr>,
       \<lparr>rd_workspace_id = 2, rd_report_id = 117, rd_detail = (SEOReport (Finite 85) None [] [] [] [] [])\<rparr>]"
  "quality_assessments run_db5 = []" "policy_events run_db5 = []"
  "policy_overrides run_db5 = []" "approval_requests run_db5 = []" "approval_decisions run_db5 = []"
  "active_members run_db5 = [(2, 1)]" "uuid_supply run_db5 = 121"
  using run_report_step [of run_db4 ReportKind.SEO "(SEOReportCreate (Finite 85) None [] [] [] [] [])"
    "(SEOReport (Finite 85) None [] [] [] [] [])" 14] by (simp_all add: run_tables4 run_db5_def no_rate_def)

definition run_db6 :: content_db where
  "run_db6 = run_report 15 ReportKind.DUPLICATION (DuplicationReportCreate (Finite 95) (Finite 0) [] [] [] [] []) run_db5"

lemma run_tables6:
  "create_report plain_hash no_rate 15 editor ReportKind.DUPLICATION (demo_report (DuplicationReportCreate (Finite 95) (Finite 0) [] [] [] [] [])) run_db5
     = Inr (demo_report_row ReportKind.DUPLICATION (DuplicationReportCreate (Finite 95) (Finite 0) [] [] [] [] []) (DuplicationReport (Finite 95) (Finite 0) [] [] [] [] []) 121, run_db6)"
  "contents run_db6 = [demo_item]" "content_versions run_db6 = [demo_version]"
  "quality_configs run_db6 = [demo_qc]" "rule_sets run_db6 = []"
  "quality_reports run_db6 =
      [demo_report_row ReportKind.MORPHOLOGY (MorphologyReportCreate 10 2 (Finite 0) [] [] [] []) (MorphologyReport 10 2 (Finite 0) [] [] [] []) 109,
       demo_report_row ReportKind.NATURALNESS (NaturalnessReportCreate (Finite 90) (Finite 90) (Finite 80) (Finite 70) [] [] []) (NaturalnessReport (Finite 90) (Finite 90) (Finite 80) (Finite 70) [] [] []) 113,
       demo_report_row ReportKind.SEO (SEOReportCreate (Finite 85) None [] [] [] [] []) (SEOReport (Finite 85) None [] [] [] [] []) 117,
       demo_report_row ReportKind.DUPLICATION (DuplicationReportCreate (Finite 95) (Finite 0) [] [] [] [] []) (DuplicationReport (Finite 95) (Finite 0) [] [] [] [] []) 121]"
  "report_details run_db6 =
      [\<lparr>rd_workspace_id = 2, rd_report_id = 109, rd_detail = (MorphologyReport 10 2 (Finite 0) [] [] [] [])\<rparr>,
       \<lparr>rd_workspace_id = 2, rd_report_id = 113, rd_detail = (NaturalnessReport (Finite 90) (Finite 90) (Finite 80) (Finite 70) [] [] [])\<rparr>,
       \<lparr>rd_workspace_id = 2, rd_report_id = 117, rd_detail = (SEOReport (Finite 85) None [] [] [] [] [])\<rparr>,
       \<lparr>rd_workspace_id = 2, rd_report_id = 121, rd_detail = (DuplicationReport (Finite 95) (Finite 0) [] [] [] [] [])\<rparr>]"
  "quality_assessments run_db6 = []" "policy_events run_db6 = []"
  "policy_overrides run_db6 = []" "approval_requests run_db6 = []" "approval_decisions run_db6 = []"
  "active_members run_db6 = [(2, 1)]" "uuid_supply run_db6 = 125"
  using run_report_step [of run_db5 ReportKind.DUPLICATION "(DuplicationReportCreate (Finite 95) (Finite 0) [] [] [] [] [])"
    "(DuplicationReport (Finite 95) (Finite 0) [] [] [] [] [])" 15] by (simp_all add: run_tables5 run_db6_def no_rate_def)

definition run_db7 :: content_db where
  "run_db7 = run_report 16 ReportKind.FACT_CITATION (FactCitationReportCreate (Finite 88) 0 0 0 0 [] [] []) run_db6"

lemma run_tables7:
  "create_report plain_hash no_rate 16 editor ReportKind.FACT_CITATION (demo_report (FactCitationReportCreate (Finite 88) 0 0 0 0 [] [] [])) run_db6
     = Inr (demo_report_row ReportKind.FACT_CITATION (FactCitationReportCreate (Finite 88) 0 0 0 0 [] [] []) (FactCitationReport (Finite 88) 0 0 0 0 (Finite 0) [] [] []) 125, run_db7)"
  "contents run_db7 = [demo_item]" "content_versions run_db7 = [demo_version]"
  "quality_configs run_db7 = [demo_qc]" "rule_sets run_db7 = []"
  "quality_reports run_db7 =
      [demo_report_row ReportKind.MORPHOLOGY (MorphologyReportCreate 10 2 (Finite 0) [] [] [] []) (MorphologyReport 10 2 (Finite 0) [] [] [] []) 109,
       demo_report_row ReportKind.NATURALNESS (NaturalnessReportCreate (Finite 90) (Finite 90) (Finite 80) (Finite 70) [] [] []) (NaturalnessReport (Finite 90) (Finite 90) (Finite 80) (Finite 70) [] [] []) 113,
       demo_report_row ReportKind.SEO (SEOReportCreate (Finite 85) None [] [] [] [] []) (SEOReport (Finite 85) None [] [] [] [] []) 117,
       demo_report_row ReportKind.DUPLICATION (DuplicationReportCreate (Finite 95) (Finite 0) [] [] [] [] []) (DuplicationReport (Finite 95) (Finite 0) [] [] [] [] []) 121,
       demo_report_row ReportKind.FACT_CITATION (FactCitationReportCreate (Finite 88) 0 0 0 0 [] [] []) (FactCitationReport (Finite 88) 0 0 0 0 (Finite 0) [] [] []) 125]"
  "report_details run_db7 =
      [\<lparr>rd_workspace_id = 2, rd_report_id = 109, rd_detail = (MorphologyReport 10 2 (Finite 0) [] [] [] [])\<rparr>,
       \<lparr>rd_workspace_id = 2, rd_report_id = 113, rd_detail = (NaturalnessReport (Finite 90) (Finite 90) (Finite 80) (Finite 70) [] [] [])\<rparr>,
       \<lparr>rd_workspace_id = 2, rd_report_id = 117, rd_detail = (SEOReport (Finite 85) None [] [] [] [] [])\<rparr>,
       \<lparr>rd_workspace_id = 2, rd_report_id = 121, rd_detail = (DuplicationReport (Finite 95) (Finite 0) [] [] [] [] [])\<rparr>,
       \<lparr>rd_workspace_id = 2, rd_report_id = 125, rd_detail = (FactCitationReport (Finite 88) 0 0 0 0 (Finite 0) [] [] [])\<rparr>]"
  "quality_assessments run_db7 = []" "policy_events run_db7 = []"
  "policy_overrides run_db7 = []" "approval_requests run_db7 = []" "approval_decisions run_db7 = []"
  "active_members run_db7 = [(2, 1)]" "uuid_supply run_db7 = 129"
  using run_report_step [of run_db6 ReportKind.FACT_CITATION "(FactCitationReportCreate (Finite 88) 0 0 0 0 [] [] [])"
    "(FactCitationReport (Finite 88) 0 0 0 0 (Finite 0) [] [] [])" 16] by (simp_all add: run_tables6 run_db7_def no_rate_def)

definition run_db8 :: content_db where
  "run_db8 = run_report 17 ReportKind.SAFETY_POLICY (SafetyPolicyReportCreate (Finite 100) [] [] [] []) run_db7"

lemma run_tables8:
  "create_report plain_hash no_rate 17 editor ReportKind.SAFETY_POLICY (demo_report (SafetyPolicyReportCreate (Finite 100) [] [] [] [])) run_db7
     = Inr (demo_report_row ReportKind.SAFETY_POLICY (SafetyPolicyReportCreate (Finite 100) [] [] [] []) (SafetyPolicyReport (Finite 100) [] [] [] []) 129, run_db8)"
  "contents run_db8 = [demo_item]" "content_versions run_db8 = [demo_version]"
  "quality_configs run_db8 = [demo_qc]" "rule_sets run_db8 = []"
  "quality_reports run_db8 =
      [demo_report_row ReportKind.MORPHOLOGY (MorphologyReportCreate 10 2 (Finite 0) [] [] [] []) (MorphologyReport 10 2 (Finite 0) [] [] [] []) 109,
       demo_report_row ReportKind.NATURALNESS (NaturalnessReportCreate (Finite 90) (Finite 90) (Finite 80) (Finite 70) [] [] []) (NaturalnessReport (Finite 90) (Finite 90) (Finite 80) (Finite 70) [] [] []) 113,
       demo_report_row ReportKind.SEO (SEOReportCreate (Finite 85) None [] [] [] [] []) (SEOReport (Finite 85) None [] [] [] [] []) 117,
       demo_report_row ReportKind.DUPLICATION (DuplicationReportCreate (Finite 95) (Finite 0) [] [] [] [] []) (DuplicationReport (Finite 95) (Finite 0) [] [] [] [] []) 121,
       demo_report_row ReportKind.FACT_CITATION (FactCitationReportCreate (Finite 88) 0 0 0 0 [] [] []) (FactCitationReport (Finite 88) 0 0 0 0 (Finite 0) [] [] []) 125,
       demo_report_row ReportKind.SAFETY_POLICY (SafetyPolicyReportCreate (Finite 100) [] [] [] []) (SafetyPolicyReport (Finite 100) [] [] [] []) 129]"
  "report_details run_db8 =
      [\<lparr>rd_workspace_id = 2, rd_report_id = 109, rd_detail = (MorphologyReport 10 2 (Finite 0) [] [] [] [])\<rparr>,
       \<lparr>rd_workspace_id = 2, rd_report_id = 113, rd_detail = (NaturalnessReport (Finite 90) (Finite 90) (Finite 80) (Finite 70) [] [] [])\<rparr>,
       \<lparr>rd_workspace_id = 2, rd_report_id = 117, rd_detail = (SEOReport (Finite 85) None [] [] [] [] [])\<rparr>,
       \<lparr>rd_workspace_id = 2, rd_report_id = 121, rd_detail = (DuplicationReport (Finite 95) (Finite 0) [] [] [] [] [])\<rparr>,
       \<lparr>rd_workspace_id = 2, rd_report_id = 125, rd_detail = (FactCitationReport (Finite 88) 0 0 0 0 (Finite 0) [] [] [])\<rparr>,
       \<lparr>rd_workspace_id = 2, rd_report_id = 129, rd_detail = (SafetyPolicyReport (Finite 100) [] [] [] [])\<rparr>]"
  "quality_assessments run_db8 = []" "policy_events run_db8 = []"
  "policy_overrides run_db8 = []" "approval_requests run_db8 = []" "approval_decisions run_db8 = []"
  "active_members run_db8 = [(2, 1)]" "uuid_supply run_db8 = 133"
  using run_report_step [of run_db7 ReportKind.SAFETY_POLICY "(SafetyPolicyReportCreate (Finite 100) [] [] [] [])"
    "(SafetyPolicyReport (Finite 100) [] [] [] [])" 17] by (simp_all add: run_tables7 run_db8_def no_rate_def)

text \<open>The assessment: 87 points, which the configuration accepts.\<close>

definition demo_scores :: "(string \<times> decimal) list" where
  "demo_scores = [(''accuracy'', Finite 88), (''usefulness'', Finite 90), (''originality'', Finite 95),
     (''search_intent'', Finite 85), (''readability'', Finite 80), (''brand_fit'', Finite 70),
     (''compliance'', Finite 100)]"

lemma dec_round_demo:
  "dec_round 22 = 22" "dec_round 18 = 18" "dec_round (57 / 4) = 57 / 4" "dec_round (51 / 4) = 51 / 4"
  "dec_round 8 = 8" "dec_round 7 = 7" "dec_round 5 = 5" "dec_round 40 = 40"
  "dec_round (217 / 4) = 217 / 4" "dec_round 67 = 67" "dec_round 75 = 75" "dec_round 82 = 82"
  "dec_round 87 = 87"
  using dec_round_cents [of 2200] dec_round_cents [of 1800] dec_round_cents [of 1425]
    dec_round_cents [of 1275] dec_round_cents [of 800] dec_round_cents [of 700] dec_round_cents [of 500]
    dec_round_cents [of 4000] dec_round_cents [of 5425] dec_round_cents [of 6700] dec_round_cents [of 7500]
    dec_round_cents [of 8200] dec_round_cents [of 8700] by simp_all

lemma quantize_demo:
  "quantize_cent 88 = Inr 88" "quantize_cent 90 = Inr 90" "quantize_cent 95 = Inr 95"
  "quantize_cent 85 = Inr 85" "quantize_cent 80 = Inr 80" "quantize_cent 70 = Inr 70"
  "quantize_cent 100 = Inr 100" "quantize_cent 22 = Inr 22" "quantize_cent 18 = Inr 18"
  "quantize_cent (57 / 4) = Inr (57 / 4)" "quantize_cent (51 / 4) = Inr (51 / 4)"
  "quantize_cent 8 = Inr 8" "quantize_cent 7 = Inr 7" "quantize_cent 5 = Inr 5" "quantize_cent 87 = Inr 87"
  using quantize_cents [of 8800] quantize_cents [of 9000] quantize_cents [of 9500] quantize_cents [of 8500]
    quantize_cents [of 8000] quantize_cents [of 7000] quantize_cents [of 10000] quantize_cents [of 2200]
    quantize_cents [of 1800] quantize_cents [of 1425] quantize_cents [of 1275] quantize_cents [of 800]
    quantize_cents [of 700] quantize_cents [of 500] quantize_cents [of 8700] by simp_all

definition demo_score :: QualityScoreBreakdown where
  "demo_score = \<lparr>qs_total = 87, qs_component_scores = [(''accuracy'', 88), (''usefulness'', 90),
     (''originality'', 95), (''search_intent'', 85), (''readability'', 80), (''brand_fit'', 70),
     (''compliance'', 100)],
   qs_weighted_contributions = [(''accuracy'', 22), (''usefulness'', 18), (''originality'', 57 / 4),
     (''search_intent'', 51 / 4), (''readability'', 8), (''brand_fit'', 7), (''compliance'', 5)]\<rparr>"

lemma demo_score: "calculate_quality_score no_repr demo_scores = Inr demo_score"
proof -
  have "score_components demo_scores QUALITY_COMPONENT_WEIGHTS
      = Inr [(''accuracy'', 88, 22), (''usefulness'', 90, 18), (''originality'', 95, 57 / 4),
          (''search_intent'', 85, 51 / 4), (''readability'', 80, 8), (''brand_fit'', 70, 7),
          (''compliance'', 100, 5)]"
    by (simp add: demo_scores_def QUALITY_COMPONENT_WEIGHTS_def checked_score_def dec_mult_def
        dec_round_demo quantize_demo)
  moreover have "set (map fst demo_scores) = set (map fst QUALITY_COMPONENT_WEIGHTS)"
    by (simp add: demo_scores_def QUALITY_COMPONENT_WEIGHTS_def)
  ultimately show ?thesis
    by (simp add: calculate_quality_score_def dec_round_demo quantize_demo demo_score_def)
qed

definition demo_assessment_request :: quality_assessment_create where
  "demo_assessment_request = \<lparr>ac_content_id = 100, ac_content_version_id = 101, ac_content_hash = ''h'',
     ac_quality_config_id = 105, ac_report_ids = [(ReportKind.MORPHOLOGY, 109), (ReportKind.NATURALNESS, 113),
       (ReportKind.SEO, 117), (ReportKind.DUPLICATION, 121), (ReportKind.FACT_CITATION, 125),
       (ReportKind.SAFETY_POLICY, 129)]\<rparr>"

definition run_db9 :: content_db where
  "run_db9 = the_db (create_assessment no_repr plain_hash 18 editor demo_assessment_request run_db8)"

definition demo_gate :: QualityGateResult where
  "demo_gate = \<lparr>gate_decision = AssessmentDecision.PASS, failed_thresholds = []\<rparr>"

definition demo_assessment :: quality_assessment where
  "demo_assessment = assessment_row plain_hash editor demo_snap demo_qc (quality_reports run_db8) demo_score
     demo_gate [] [] 133"

lemma demo_content8: "exact_content 2 100 101 ''h'' False run_db8 = Inr demo_snap"
  by (simp add: exact_content_def resolve_version_def live_content_def demo_rows demo_snap_def snapshot_of_def
      run_tables8)

lemma demo_snap_fields: "vs_content_id demo_snap = 100" "vs_content_version_id demo_snap = 101"
  "vs_content_hash demo_snap = ''h''" "vs_current_version_id demo_snap = Some 101"
  by (simp_all add: demo_snap_def snapshot_of_def demo_rows)

lemma demo_config8: "find_config 2 105 run_db8 = Inr demo_qc"
  by (simp add: find_config_def run_tables8 demo_qc_def)

lemma demo_store:
  "create_assessment no_repr plain_hash 18 editor demo_assessment_request run_db8
   = store_assessment plain_hash 18 editor demo_snap demo_qc (quality_reports run_db8) demo_score demo_gate
       \<lparr>ordered_findings = [], blocking_event_keys = [], non_overrideable_event_keys = [],
        overrideable_event_keys = []\<rparr> run_db8"
proof -
  have kinds: "missing_kinds (qc_required_report_kinds demo_qc) (ac_report_ids demo_assessment_request) = []"
    "missing_kinds REPORT_KINDS (ac_report_ids demo_assessment_request) = []"
    by (simp_all add: missing_kinds_def demo_qc_def demo_assessment_request_def REPORT_KINDS_def)
  have loaded: "\<exists>loaded. load_reports 2 demo_snap (ac_report_ids demo_assessment_request) run_db8 = Inr loaded
      \<and> map (\<lambda>(_, r, _). r) loaded = quality_reports run_db8
      \<and> component_scores (map (\<lambda>(k, _, d). (k, d)) loaded) = Inr demo_scores"
    by (simp add: demo_assessment_request_def find_report_def run_tables8 assert_report_content_def ensure_def
        demo_snap_fields report_detail_of_def component_scores_def demo_scores_def)
  have res: "report_resolution 2 ids run_db8 = \<lparr>ordered_findings = [], blocking_event_keys = [],
      non_overrideable_event_keys = [], overrideable_event_keys = []\<rparr>" for ids
    by (simp add: report_resolution_def events_of_reports_def run_tables8 resolve_policy_findings_def)
  have gate: "evaluate_quality_gate demo_score (qc_minimum_total_score demo_qc) (qc_minimum_component_scores demo_qc)
      \<lparr>ordered_findings = [], blocking_event_keys = [], non_overrideable_event_keys = [],
       overrideable_event_keys = []\<rparr> = Inr demo_gate"
    by (simp add: evaluate_quality_gate_def demo_score_def demo_qc_def policy_blocked_def demo_gate_def)
  from loaded obtain loaded where l: "load_reports 2 demo_snap (ac_report_ids demo_assessment_request) run_db8 = Inr loaded"
    and m: "map (\<lambda>(_, r, _). r) loaded = quality_reports run_db8"
    and s: "component_scores (map (\<lambda>(k, _, d). (k, d)) loaded) = Inr demo_scores" by blast
  show ?thesis unfolding create_assessment_def Let_def
    using kinds l s gate
    by (simp add: demo_assessment_request_def demo_content8 demo_config8 m res demo_score)
qed

lemma demo_create9: "create_assessment no_repr plain_hash 18 editor demo_assessment_request run_db8
    = Inr (demo_assessment, run_db9)"
  by (simp add: run_db9_def the_db_def demo_store store_assessment_def uuid4_def Let_def demo_gate_def
      demo_assessment_def run_tables8)

lemma run_tables9:
  "contents run_db9 = [demo_item]" "content_versions run_db9 = [demo_version]"
  "quality_configs run_db9 = [demo_qc]" "quality_assessments run_db9 = [demo_assessment]"
  "policy_overrides run_db9 = []" "approval_requests run_db9 = []" "approval_decisions run_db9 = []"
  "active_members run_db9 = [(2, 1)]" "uuid_supply run_db9 = 138"
  by (simp_all add: run_db9_def the_db_def demo_store store_assessment_def uuid4_def Let_def demo_gate_def
      demo_assessment_def run_tables8 record_change_def append_audit_log_def add_outbox_event_def)

text \<open>The request and the decision that approves it.\<close>

definition demo_request :: approval_request_create where
  "demo_request = \<lparr>aq_content_id = 100, aq_content_version_id = 101, aq_content_hash = ''h'',
     aq_assessment_id = 133, aq_expected_assessment_hash = ''h'', aq_supersedes_request_id = None\<rparr>"

definition run_db10 :: content_db where
  "run_db10 = the_db (create_approval_request plain_hash 19 editor demo_request run_db9)"

definition demo_pending :: approval_request where
  "demo_pending = request_row plain_hash editor 19 demo_snap demo_assessment demo_qc None 138"

lemma demo_assessment_fields:
  "qa_id demo_assessment = 133" "qa_workspace_id demo_assessment = 2" "qa_content_id demo_assessment = 100"
  "qa_content_version_id demo_assessment = 101" "qa_content_hash demo_assessment = ''h''"
  "qa_quality_config_id demo_assessment = 105" "qa_quality_config_hash demo_assessment = ''h''"
  "qa_blocking_policy_event_ids demo_assessment = []" "qa_decision demo_assessment = AssessmentDecision.PASS"
  "qa_assessment_hash demo_assessment = ''h''"
  by (simp_all add: demo_assessment_def assessment_row_fields demo_snap_fields demo_qc_def demo_gate_def)
    (simp add: assessment_row_def Let_def plain_hash_def)

lemma demo_run10: "create_approval_request plain_hash 19 editor demo_request run_db9
    = bind_result (insert_request editor 19 demo_pending (run_db9\<lparr>uuid_supply := 139\<rparr>))
        (\<lambda>db. Inr (demo_pending, db))"
proof -
  have c: "exact_content 2 100 101 ''h'' True run_db9 = Inr demo_snap"
    by (simp add: exact_content_def resolve_version_def live_content_def demo_rows demo_snap_def snapshot_of_def
        run_tables9 is_current_def)
  have a: "find_assessment 2 133 run_db9 = Inr demo_assessment"
    by (simp add: find_assessment_def run_tables9 demo_assessment_fields)
  have e: "assert_assessment_approval_eligible 2 demo_assessment run_db9 = Inr ()"
    by (simp add: assert_assessment_approval_eligible_def demo_assessment_fields ensure_def)
  have q: "find_config 2 105 run_db9 = Inr demo_qc"
    by (simp add: find_config_def run_tables9 demo_qc_def)
  have m: "require_active 2 [1] run_db9 = Inr ()"
    by (simp add: require_active_def run_tables9)
  have stages: "qc_approval_stages demo_qc = [demo_stage]" "as_approver_user_ids demo_stage = [1]"
    "qc_config_hash demo_qc = ''h''" by (simp_all add: demo_qc_def demo_stage_def)
  show ?thesis
    unfolding create_approval_request_def
    by (simp add: demo_request_def c a e q m [simplified] assert_hash_def ensure_def demo_assessment_fields demo_snap_fields
        supersede_def uuid4_def Let_def run_tables9 demo_pending_def stages)
qed

lemma demo_create10: "create_approval_request plain_hash 19 editor demo_request run_db9 = Inr (demo_pending, run_db10)"
  by (simp add: run_db10_def the_db_def demo_run10 insert_request_def run_tables9)

lemma run_tables10:
  "contents run_db10 = [demo_item]" "content_versions run_db10 = [demo_version]"
  "quality_assessments run_db10 = [demo_assessment]" "approval_requests run_db10 = [demo_pending]"
  "approval_decisions run_db10 = []" "uuid_supply run_db10 = 143"
  by (simp_all add: run_db10_def the_db_def demo_run10 insert_request_def run_tables9)

lemma demo_pending_fields:
  "ar_id demo_pending = 138" "ar_workspace_id demo_pending = 2" "ar_content_id demo_pending = 100"
  "ar_content_version_id demo_pending = 101" "ar_content_hash demo_pending = ''h''"
  "ar_status demo_pending = ApprovalRequestStatus.PENDING" "ar_current_stage_index demo_pending = 0"
  "ar_approval_stages_snapshot demo_pending = [demo_stage]" "ar_stage_due_at demo_pending = None"
  "ar_lock_version demo_pending = 1" "ar_invalidated_at demo_pending = None"
  "ar_assessment_id demo_pending = 133" "ar_assessment_hash demo_pending = ''h''"
  "ar_quality_config_id demo_pending = 105" "ar_quality_config_hash demo_pending = ''h''"
  by (simp_all add: demo_pending_def request_row_def demo_snap_fields demo_qc_def stage_due_at_def demo_stage_def
      demo_assessment_fields)

definition demo_decision :: approval_decision_create where
  "demo_decision = \<lparr>dc_expected_lock_version = 1, dc_expected_content_version_id = 101,
     dc_expected_content_hash = ''h'', dc_decision = ApprovalDecisionKind.APPROVE, dc_comment = None\<rparr>"

definition demo_approved :: approval_request where
  "demo_approved = touch_request (decided editor 20 demo_decision False ApprovalRequestStatus.APPROVED) demo_pending"

definition demo_ad :: approval_decision where
  "demo_ad = decision_row editor 20 demo_decision demo_stage 0 ApprovalRequestStatus.PENDING
     ApprovalRequestStatus.APPROVED demo_pending 143"

lemma demo_approver: "check_approver editor demo_stage = Inr ()"
  by (simp add: check_approver_def demo_stage_def used_mfa_def MFA_METHODS_def)

lemma demo_apply:
  "\<exists>db. apply_decision 20 editor demo_decision demo_pending demo_stage run_db10 = Inr ((demo_approved, Some demo_ad), db)
     \<and> contents db = [demo_item] \<and> content_versions db = [demo_version]
     \<and> quality_assessments db = [demo_assessment] \<and> approval_requests db = [demo_approved]
     \<and> approval_decisions db = [demo_ad] \<and> uuid_supply db = 148"
  by (simp add: apply_decision_def Let_def prior_approvers_def run_tables10 demo_pending_fields
      approval_quorum_reached_def demo_stage_def transition_approval_def demo_decision_def
      demo_approved_def demo_ad_def uuid4_def insert_decision_def update_where_def)

definition run_db11 :: content_db where
  "run_db11 = the_db (decide_approval_request 20 editor 138 demo_decision run_db10)"

lemma demo_decide: "decide_approval_request 20 editor 138 demo_decision run_db10
    = apply_decision 20 editor demo_decision demo_pending demo_stage run_db10"
proof -
  have "current_version 2 100 run_db10 = Inr demo_snap"
    by (simp add: current_version_def live_content_def run_tables10 demo_rows demo_snap_def)
  then show ?thesis
    by (simp add: decide_approval_request_def find_request_def run_tables10 demo_pending_fields assert_lock_def
        ensure_def demo_decision_def exact_content_version_matches_def demo_snap_fields decide_in_stage_def
        Let_def demo_approver)
qed

lemma demo_create11: "decide_approval_request 20 editor 138 demo_decision run_db10
    = Inr ((demo_approved, Some demo_ad), run_db11)"
  and run_tables11: "contents run_db11 = [demo_item]" "content_versions run_db11 = [demo_version]"
    "quality_assessments run_db11 = [demo_assessment]" "approval_requests run_db11 = [demo_approved]"
    "approval_decisions run_db11 = [demo_ad]" "uuid_supply run_db11 = 148"
  using demo_apply by (auto simp: run_db11_def the_db_def demo_decide)

section \<open>The run is reachable\<close>

lemma demo_start: "empty_content start_db"
  by (simp add: empty_content_def start_db_def)

lemma demo_valid_config: "valid_quality_config demo_config"
  by (simp add: valid_quality_config_def demo_config_def QUALITY_COMPONENT_WEIGHTS_def valid_stages_def
      valid_stage_def demo_stage_def)

lemmas demo_steps = CreateContent [OF demo_create1] CreateConfig [OF demo_create2 demo_valid_config]
  CreateReport [OF run_tables3(1)] CreateReport [OF run_tables4(1)] CreateReport [OF run_tables5(1)]
  CreateReport [OF run_tables6(1)] CreateReport [OF run_tables7(1)] CreateReport [OF run_tables8(1)]
  CreateAssessment [OF demo_create9] Request [OF demo_create10] Decide [OF demo_create11]

lemma run_reachable:
  "approval_reachable no_repr plain_hash no_rate run_db10" "approval_reachable no_repr plain_hash no_rate run_db11"
proof -
  show "approval_reachable no_repr plain_hash no_rate run_db10"
    by (rule Step [OF Step [OF Step [OF Step [OF Step [OF Step [OF Step [OF Step [OF Step [OF Step [OF
      Start [OF demo_start] demo_steps(1)] demo_steps(2)] demo_steps(3)] demo_steps(4)]
      demo_steps(5)] demo_steps(6)] demo_steps(7)] demo_steps(8)] demo_steps(9)] demo_steps(10)])
  then show "approval_reachable no_repr plain_hash no_rate run_db11"
    by (rule Step [OF _ demo_steps(11)])
qed

lemma touch_config_hash: "ar_quality_config_hash (touch_request f r) = ar_quality_config_hash (f r)"
  by (simp add: touch_request_def Let_def)

lemma demo_ready: "publish_ready 2 100 101 ''h'' 138 ''web'' run_db11 = Inr (demo_item, demo_version, demo_approved)"
  by (simp add: publish_ready_def live_content_def run_tables11 demo_rows approval_ready_def
      assessment_of_approval_def demo_assessment_fields demo_approved_def demo_pending_fields decided_def Let_def
      touch_config_hash)

end
