(* ===== verification/Approval_Properties.thy ===== *)
theory Approval_Properties
  imports Approval_Demo
begin

text \<open>
  Properties of contents, quality assessments and approvals: what publishing can rely on, what an edit
  does to an approval, the score and the verdict of an assessment, decisions, overrides, and restoring
  and exporting a version. The witnesses apply them along the run of \<open>Approval_Demo\<close>.
\<close>

section \<open>Publishing\<close>

lemma live_content_Some:
  "live_content ws cid db = Some c \<longleftrightarrow> List.find (\<lambda>c. ct_workspace_id c = ws \<and> ct_id c = cid \<and> ct_deleted_at c = None) (contents db) = Some c"
  by (simp add: live_content_def)

lemma publish_ready_Inr:
  assumes "publish_ready ws cid vid h rid ch db = Inr (c, v, r)"
  shows "c \<in> set (contents db)" "ct_id c = cid" "ct_workspace_id c = ws" "ct_deleted_at c = None"
    "ct_current_version_id c = Some vid" "ct_channel c = ch"
    "v \<in> set (content_versions db)" "cv_id v = vid" "cv_content_hash v = h"
    "r \<in> set (approval_requests db)" "ar_id r = rid" "ar_workspace_id r = ws" "approval_ready c v r"
  using assms
  by (auto simp: publish_ready_def live_content_def Let_def dest!: find_SomeD split: option.splits if_splits)

lemma approval_recordedD:
  "approvals_ok db \<Longrightarrow> r \<in> set (approval_requests db) \<Longrightarrow> ar_status r = ApprovalRequestStatus.APPROVED
     \<Longrightarrow> approval_recorded r"
  using approvals_okD(3) by (auto simp: request_ok_def)

text \<open>C23. Content is accepted for publishing only in the state its approvers saw. In every reachable
  state, when \<open>publish_ready\<close> accepts a request, the content is live and on the requested channel, its
  current version is the requested one with the requested hash, the approval is of exactly that version
  and hash, every stage of the approval has its quorum of distinct, entitled approvers who decided on
  that version, and the assessment behind it is clear: a report of each kind on that version, every
  blocking finding overridable and overridden, and the thresholds met or overridden.\<close>

theorem publishing_needs_approval:
  assumes reach: "approval_reachable other H lr db" and ids: "uuid_supply db \<le> 16 ^ 32"
    and ready: "publish_ready ws cid vid h rid ch db = Inr (c, v, r)"
  shows "(ct_id c = cid \<and> ct_workspace_id c = ws \<and> ct_deleted_at c = None \<and> ct_channel c = ch
      \<and> ct_current_version_id c = Some vid \<and> cv_id v = vid \<and> cv_content_hash v = h
      \<and> ar_id r = rid \<and> ar_content_id r = cid \<and> ar_content_version_id r = vid \<and> ar_content_hash r = h)
    \<and> ar_approval_stages_snapshot r \<noteq> []
    \<and> (\<forall>s \<in> set (ar_approval_stages_snapshot r). 1 \<le> as_required_approvals s \<and> quorum_of db r s)
    \<and> (\<exists>a \<in> set (quality_assessments db). qa_id a = ar_assessment_id r \<and> qa_content_id a = cid
         \<and> qa_content_version_id a = vid \<and> qa_content_hash a = h \<and> cleared db a)"
proof -
  note ok = reachable_ok [OF reach] and row = publish_ready_Inr [OF ready]
  have st: "ar_status r = ApprovalRequestStatus.APPROVED" and same: "ar_content_id r = cid"
    "ar_content_version_id r = vid" "ar_approved_content_hash r = Some h"
    using row by (simp_all add: approval_ready_def)
  have hash: "ar_content_hash r = h"
    using approval_recordedD [OF ok row(10) st] same by (simp add: approval_recorded_def)
  have stages: "valid_stages (ar_approval_stages_snapshot r)"
    using approvals_okD(3) [OF ok row(10)] by (simp add: request_ok_def)
  have "ar_approval_stages_snapshot r \<noteq> []
    \<and> (\<forall>s \<in> set (ar_approval_stages_snapshot r). 1 \<le> as_required_approvals s \<and> quorum_of db r s)"
    using stages approved_quorum [OF ok row(10) st]
    by (auto simp: valid_stages_def valid_stage_def list_all_iff)
  moreover have "\<exists>a \<in> set (quality_assessments db). qa_id a = ar_assessment_id r \<and> qa_content_id a = cid
         \<and> qa_content_version_id a = vid \<and> qa_content_hash a = h \<and> cleared db a"
    using approved_cleared [OF ok ids row(10)] by (auto simp: same hash)
  ultimately show ?thesis using row same hash by simp
qed

theorem publishing_needs_approval_witness: "quorum_of run_db11 demo_approved demo_stage
    \<and> ar_content_hash demo_approved = ''h''"
proof -
  have "uuid_supply run_db11 \<le> 16 ^ 32" by (simp add: run_tables11)
  moreover have "demo_stage \<in> set (ar_approval_stages_snapshot demo_approved)"
    by (simp add: demo_approved_def demo_pending_fields)
  ultimately show ?thesis
    using publishing_needs_approval [OF run_reachable(2) _ demo_ready] by blast
qed

section \<open>The proof of an approval\<close>

lemma current_of_approved:
  assumes ok: "approvals_ok db" and r: "r \<in> set (approval_requests db)" and act: "active_approval r"
    and c: "live_content (ar_workspace_id r) (ar_content_id r) db = Some c"
  shows "\<exists>s. current_version (ar_workspace_id r) (ar_content_id r) db = Inr s
    \<and> vs_content_version_id s = ar_content_version_id r \<and> vs_content_hash s = ar_content_hash r"
proof -
  have rok: "request_ok db r" by (rule approvals_okD(3) [OF ok r])
  have cc: "c \<in> set (contents db)" "ct_id c = ar_content_id r"
    using c by (auto simp: live_content_def dest: find_SomeD)
  obtain c' where "c' \<in> set (contents db)"
    "content_key c' = (ar_content_id r, ar_workspace_id r, Some (ar_content_version_id r))"
    using rok act by (auto simp: request_ok_def points_current_def)
  then have cur: "ct_current_version_id c = Some (ar_content_version_id r)"
    using cc ok distinct_key_eq [of ct_id "contents db" c' c]
    by (auto simp: content_key_def approvals_ok_def ids_ok_def)
  obtain v where v: "v \<in> set (content_versions db)" "cv_id v = ar_content_version_id r"
      "cv_workspace_id v = ar_workspace_id r" "cv_content_hash v = ar_content_hash r"
    using rok by (auto simp: request_ok_def version_of_def)
  let ?P = "\<lambda>v. cv_workspace_id v = ar_workspace_id r \<and> ct_current_version_id c = Some (cv_id v)"
  have "List.find ?P (content_versions db) \<noteq> None"
    using v cur by (auto simp: find_None_iff)
  then obtain w where w: "List.find ?P (content_versions db) = Some w" by blast
  then have "w = v"
    using v cur ok by (intro distinct_key_eq [of cv_id "content_versions db"])
      (auto simp: approvals_ok_def ids_ok_def dest!: find_SomeD)
  with w v show ?thesis by (simp add: current_version_def c snapshot_of_def)
qed

text \<open>C24. The proof of an approval is never stale and never half-recorded. In every reachable state
  \<open>approval_proof\<close> of an existing request has three outcomes only: \<open>CONTENT_NOT_APPROVED\<close> when
  the request is not approved, a content reference error when the content was trashed, and else a proof
  of the request's version, hash and assessment with the recorded approver and time; the branches
  \<open>APPROVAL_INVALIDATED_BY_EDIT\<close> and \<open>APPROVAL_PROOF_INCOMPLETE\<close> are not reached.\<close>

theorem approval_proof_outcomes:
  assumes reach: "approval_reachable other H lr db" and r: "find_request (workspace_id p) i db = Inr r"
  shows "approval_proof p i db =
    (if ar_status r \<noteq> ApprovalRequestStatus.APPROVED then Inl (app_error ''CONTENT_NOT_APPROVED'' 409)
     else if live_content (workspace_id p) (ar_content_id r) db = None
     then Inl (content_reference_error (ar_content_id r) None)
     else Inr \<lparr>ap_approval_request_id = i, ap_content_id = ar_content_id r,
             ap_content_version_id = ar_content_version_id r, ap_content_hash = ar_content_hash r,
             ap_assessment_id = ar_assessment_id r, ap_assessment_hash = ar_assessment_hash r,
             ap_approved_by = the (ar_approved_by r), ap_approved_at = the (ar_approved_at r),
             ap_approval_stages_hash = ar_approval_stages_hash r,
             ap_quality_config_hash = ar_quality_config_hash r\<rparr>)"
proof -
  note ok = reachable_ok [OF reach] and rr = find_request_Inr [OF r]
  show ?thesis
  proof (cases "ar_status r = ApprovalRequestStatus.APPROVED \<and> live_content (workspace_id p) (ar_content_id r) db \<noteq> None")
    case True
    then obtain c where c: "live_content (workspace_id p) (ar_content_id r) db = Some c" by blast
    have act: "active_approval r" using True by (simp add: active_approval_def)
    obtain s where s: "current_version (workspace_id p) (ar_content_id r) db = Inr s"
      "vs_content_version_id s = ar_content_version_id r" "vs_content_hash s = ar_content_hash r"
      using current_of_approved [OF ok _ act] rr c by auto
    have "approval_recorded r" using approval_recordedD [OF ok] rr True by blast
    then obtain a t where "ar_approved_by r = Some a" "ar_approved_at r = Some t"
      "ar_approved_content_version_id r = Some (ar_content_version_id r)"
      "ar_approved_content_hash r = Some (ar_content_hash r)" by (auto simp: approval_recorded_def)
    with s True rr show ?thesis by (simp add: approval_proof_def r exact_content_version_matches_def)
  next
    case False
    then show ?thesis by (auto simp: approval_proof_def r current_version_def)
  qed
qed

lemma touch_approved_by: "ar_approved_by (touch_request f r) = ar_approved_by (f r)"
  by (simp add: touch_request_def Let_def)

theorem approval_proof_outcomes_witness:
  "\<exists>x. approval_proof editor 138 run_db11 = Inr x \<and> ap_content_version_id x = 101 \<and> ap_approved_by x = 1"
proof -
  have r: "find_request (workspace_id editor) 138 run_db11 = Inr demo_approved"
    by (simp add: find_request_def run_tables11 demo_approved_def demo_pending_fields)
  have "ar_status demo_approved = ApprovalRequestStatus.APPROVED" "ar_content_id demo_approved = 100"
    "ar_content_version_id demo_approved = 101" "ar_approved_by demo_approved = Some 1"
    by (simp_all add: demo_approved_def demo_pending_fields touch_approved_by)
      (simp add: decided_def Let_def)
  moreover have "live_content 2 100 run_db11 = Some demo_item"
    by (simp add: live_content_def run_tables11 demo_rows)
  ultimately show ?thesis
    using approval_proof_outcomes [OF run_reachable(2) r] by simp
qed

section \<open>Edits\<close>

lemma make_current_retires:
  assumes ok: "approvals_ok db" and a: "append_version H p c title blocks ck note sh origin db = Inr (v, db1)"
    and r: "r \<in> set (approval_requests (make_current now p cid v rs f db1))"
    and mine: "ar_workspace_id r = workspace_id p" "ar_content_id r = cid"
  shows "\<not> active_approval r"
proof
  assume act: "active_approval r"
  note av = append_version_Inr [OF a]
  have "r \<in> set (update_where (to_invalidate (workspace_id p) cid (cv_id v) (cv_content_hash v) False)
      (touch_request (invalidated p now rs)) (approval_requests db))"
    using r ok invalidate_requests [of "update_content_row cid f db1" p now cid "cv_id v" "cv_content_hash v" rs False]
      append_version_Inr [OF a]
    by (simp add: make_current_def approvals_ok_def ids_ok_def)
  then consider (kept) "r \<in> set (approval_requests db)"
      "\<not> to_invalidate (workspace_id p) cid (cv_id v) (cv_content_hash v) False r"
    | (hit) r0 where "r = touch_request (invalidated p now rs) r0" by (auto simp: set_update_where)
  then show False
  proof cases
    case kept
    have "ar_content_version_id r < uuid_supply db"
      using approvals_okD(3) [OF ok kept(1)] ok by (auto simp: request_ok_def version_of_def approvals_ok_def ids_ok_def)
    moreover have "cv_id v = uuid_supply db" using av by (simp add: version_row_def Let_def)
    ultimately show False using kept(2) act mine by (simp add: to_invalidate_def)
  next
    case hit
    with act show False by (simp add: active_approval_def)
  qed
qed

lemma make_current_moves:
  assumes "c \<in> set (contents db)" "ct_id c = cid" "\<And>x. ct_id (f x) = ct_id x \<and> ct_current_version_id (f x) = cur"
  shows "\<exists>x \<in> set (contents (make_current now p cid v rs f db)). ct_id x = cid \<and> ct_current_version_id x = cur"
  using assms by (auto simp: make_current_def update_content_row_def set_update_where intro!: bexI [of _ "touch_content f c"])

lemma version_event_requests: "version_event now p cid v et ek db = Inr db' \<Longrightarrow>
    approval_requests db' = approval_requests db \<and> contents db' = contents db"
  by (auto simp: version_event_def insert_event_def uuid4_def Let_def result_simps split: if_splits)

lemma publish_ready_needs_active:
  "(\<And>r. r \<in> set (approval_requests db) \<Longrightarrow> ar_workspace_id r = ws \<Longrightarrow> ar_content_id r = cid \<Longrightarrow> \<not> active_approval r)
    \<Longrightarrow> publish_ready ws cid vid h rid ch db = Inl (app_error ''PUBLISH_READINESS_FAILED'' 409)"
  by (fastforce simp: publish_ready_def live_content_def Let_def approval_ready_def active_approval_def
      dest!: find_SomeD split: option.splits)

lemma create_version_Inr:
  assumes "create_version H now p cid d db = Inr (v, db')"
  obtains c db1 where "find_content (workspace_id p) cid False db = Inr c"
    and "append_version H p c (vc_title d) (vc_document d) (vc_change_kind d) (vc_change_note d)
      (vc_source_snapshot_hash d) no_origin db = Inr (v, db1)"
    and "version_event now p cid v ''content.version.created'' CollaborationEventKind.VERSION_CREATED
      (make_current now p cid v ''new version'' (set_current (subject_id p) v) db1) = Inr db'"
  using assms by (auto simp: create_version_def result_simps dest: find_content_Inr)

lemma restore_version_Inr:
  assumes "restore_version H now p cid src cur note db = Inr (v, db')"
  obtains c :: content_item and s :: content_version and bs db1 where "find_content (workspace_id p) cid False db = Inr c"
    and "append_version H p c (cv_title s) bs ContentChangeKind.RESTORE note
      (cv_source_snapshot_hash s) (no_origin\<lparr>vo_restored_from := Some (cv_id s)\<rparr>) db = Inr (v, db1)"
    and "version_event now p cid v ''content.version.restored'' CollaborationEventKind.VERSION_RESTORED
      (make_current now p cid v ''restored version'' (set_current (subject_id p) v) db1) = Inr db'"
    and "get_version (workspace_id p) cid src db = Inr s" "validate_blocks (stored_document db s) = Inr bs"
  using assms by (auto simp: restore_version_def result_simps dest: find_content_Inr split: if_splits)

lemma new_version_effect:
  assumes ok: "approvals_ok db" and c: "find_content (workspace_id p) cid False db = Inr c"
    and a: "append_version H p c title blocks ck note sh origin db = Inr (v, db1)"
    and e: "version_event now p cid v et ek (make_current now p cid v rs (set_current (subject_id p) v) db1) = Inr db'"
  shows "(\<exists>x \<in> set (contents db'). ct_id x = cid \<and> ct_current_version_id x = Some (cv_id v))
    \<and> (\<forall>r \<in> set (approval_requests db'). ar_workspace_id r = workspace_id p \<longrightarrow> ar_content_id r = cid \<longrightarrow> \<not> active_approval r)"
  using make_current_retires [OF ok a] version_event_requests [OF e]
    make_current_moves [of c db1 cid "set_current (subject_id p) v" "Some (cv_id v)" now p v rs]
    find_content_Inr [OF c] append_version_Inr [OF a] set_current_fields
  by auto

text \<open>C25. An edit withdraws the approvals of the content in the same transaction. After a successful
  \<open>create_version\<close> or \<open>restore_version\<close> in a reachable state the new version is the current one, no
  request about the content is pending or approved any more, and publishing refuses the content,
  whatever version, hash, approval and channel it is asked for.\<close>

theorem edits_withdraw_approvals:
  assumes reach: "approval_reachable other H lr db"
    and edit: "create_version H' now p cid d db = Inr (v, db')
      \<or> restore_version H' now p cid src cur note db = Inr (v, db')"
  shows "(\<exists>c \<in> set (contents db'). ct_id c = cid \<and> ct_current_version_id c = Some (cv_id v))
    \<and> (\<forall>r \<in> set (approval_requests db'). ar_workspace_id r = workspace_id p \<longrightarrow> ar_content_id r = cid
         \<longrightarrow> ar_status r \<noteq> ApprovalRequestStatus.PENDING \<and> ar_status r \<noteq> ApprovalRequestStatus.APPROVED)
    \<and> publish_ready (workspace_id p) cid vid h rid ch db' = Inl (app_error ''PUBLISH_READINESS_FAILED'' 409)"
proof -
  note ok = reachable_ok [OF reach]
  have eff: "(\<exists>c \<in> set (contents db'). ct_id c = cid \<and> ct_current_version_id c = Some (cv_id v))
    \<and> (\<forall>r \<in> set (approval_requests db'). ar_workspace_id r = workspace_id p \<longrightarrow> ar_content_id r = cid \<longrightarrow> \<not> active_approval r)"
    using edit
  proof
    assume "create_version H' now p cid d db = Inr (v, db')"
    then show ?thesis by (rule create_version_Inr) (rule new_version_effect [OF ok])
  next
    assume "restore_version H' now p cid src cur note db = Inr (v, db')"
    then show ?thesis by (rule restore_version_Inr) (rule new_version_effect [OF ok])
  qed
  then show ?thesis by (simp add: publish_ready_needs_active active_approval_def)
qed

definition demo_edit :: content_version_create where
  "demo_edit = \<lparr>vc_expected_current_version_id = Some 101, vc_expected_current_hash = Some ''h'',
     vc_title = ''t2'', vc_document = [demo_block], vc_change_kind = ContentChangeKind.MANUAL,
     vc_change_note = None, vc_source_snapshot_hash = None\<rparr>"

lemma append_version_succeeds:
  assumes "length title \<le> 500" "distinct (map bi_block_key blocks)"
  shows "\<exists>v db'. append_version H p c title blocks ck note sh origin db = Inr (v, db')
    \<and> collaboration_events db' = collaboration_events db \<and> jsonb_document db' = jsonb_document db"
proof -
  obtain rows db1 where b: "block_rows (workspace_id p) (uuid_supply db) 0 blocks
      (db\<lparr>uuid_supply := Suc (uuid_supply db)\<rparr>) = (rows, db1)" by fastforce
  with block_rows_frame [OF b] assms show ?thesis
    unfolding append_version_def uuid4_def Let_def prod.case by simp
qed

lemma record_change_events:
  "collaboration_events (record_change p now k a tt ti ci vi ds db) = collaboration_events db"
  "jsonb_document (record_change p now k a tt ti ci vi ds db) = jsonb_document db"
  by (simp_all add: record_change_def append_audit_log_def add_outbox_event_def uuid4_def Let_def)

lemma make_current_events:
  "collaboration_events (make_current now p cid v rs f db) = collaboration_events db
   \<and> jsonb_document (make_current now p cid v rs f db) = jsonb_document db"
proof -
  have "collaboration_events (invalidate_request p now r nv nh x db) = collaboration_events db
      \<and> jsonb_document (invalidate_request p now r nv nh x db) = jsonb_document db"
    for r nv nh x and db :: "'a content_db_scheme"
    by (simp add: invalidate_request_def record_change_events state_event_def update_request_def uuid4_def)
  then have "collaboration_events (foldl (\<lambda>db x. invalidate_request p now r nv nh x db) db xs) = collaboration_events db
      \<and> jsonb_document (foldl (\<lambda>db x. invalidate_request p now r nv nh x db) db xs) = jsonb_document db"
    for r nv nh xs and db :: "'a content_db_scheme"
    by (induction xs arbitrary: db) simp_all
  then show ?thesis
    by (simp add: make_current_def invalidate_approvals_for_content_change_def Let_def record_change_events
        update_content_row_def)
qed

lemma version_event_succeeds:
  assumes "\<forall>x \<in> set (collaboration_events db). ce_client_operation_id x \<noteq> ''server:'' @ et @ '':'' @ uuid_str (cv_id v)"
  shows "\<exists>db'. version_event now p cid v et ek db = Inr db'"
  using assms by (simp add: version_event_def insert_event_def uuid4_def Let_def list_ex_iff)

lemma version_event_tables: "version_event now p cid v et ek db = Inr db' \<Longrightarrow>
    content_versions db' = content_versions db \<and> contents db' = contents db \<and> jsonb_document db' = jsonb_document db"
  by (auto simp: version_event_def insert_event_def uuid4_def Let_def result_simps job_record_def
      append_audit_log_def add_outbox_event_def split: if_splits)

lemma version_event_operation: "version_event now p cid v et ek db = Inr db' \<Longrightarrow>
    map ce_client_operation_id (collaboration_events db')
      = map ce_client_operation_id (collaboration_events db) @ [''server:'' @ et @ '':'' @ uuid_str (cv_id v)]"
  by (auto simp: version_event_def insert_event_def uuid4_def Let_def result_simps job_record_def
      append_audit_log_def add_outbox_event_def split: if_splits)

lemma run_column1: "jsonb_document run_db1 = (\<lambda>d. d)"
  by (simp add: run_db1_def the_db_def content_ops)

lemma demo_edited: "\<exists>v db. create_version plain_hash 30 editor 100 demo_edit run_db1 = Inr (v, db)
    \<and> v \<in> set (content_versions db) \<and> contents db = [touch_content (set_current 1 v) demo_item]
    \<and> map ce_client_operation_id (collaboration_events db) = [''server:content.version.created:'' @ uuid_str (cv_id v)]
    \<and> jsonb_document db = (\<lambda>d. d)"
proof -
  have none: "collaboration_events run_db1 = []" by (simp add: run_db1_def the_db_def content_ops)
  have title: "length (vc_title demo_edit) \<le> 500" and keys: "distinct (map bi_block_key (vc_document demo_edit))"
    by (simp_all add: demo_edit_def)
  obtain v db1 where a: "append_version plain_hash editor demo_item (vc_title demo_edit) (vc_document demo_edit)
      (vc_change_kind demo_edit) (vc_change_note demo_edit) (vc_source_snapshot_hash demo_edit) no_origin run_db1
      = Inr (v, db1)" "collaboration_events db1 = []" "jsonb_document db1 = (\<lambda>d. d)"
    using append_version_succeeds [OF title keys] none run_column1 by metis
  have "collaboration_events (make_current 30 editor 100 v ''new version'' (set_current 1 v) db1) = []"
    by (simp only: make_current_events a(2))
  then obtain db2 where e: "version_event 30 editor 100 v ''content.version.created'' CollaborationEventKind.VERSION_CREATED
      (make_current 30 editor 100 v ''new version'' (set_current 1 v) db1) = Inr db2"
    using version_event_succeeds [of "make_current 30 editor 100 v ''new version'' (set_current 1 v) db1"
      "''content.version.created''" v 30 editor 100 CollaborationEventKind.VERSION_CREATED] by auto
  have f: "find_content 2 100 False run_db1 = Inr demo_item"
    by (simp add: find_content_def run_tables1 demo_rows)
  have c: "assert_current_version 2 demo_item (vc_expected_current_version_id demo_edit)
      (vc_expected_current_hash demo_edit) run_db1 = Inr (Some demo_version)"
    by (simp add: assert_current_version_def run_tables1 demo_rows demo_edit_def)
  have k: "vc_change_kind demo_edit \<noteq> ContentChangeKind.AI_EDIT" by (simp add: demo_edit_def)
  have "create_version plain_hash 30 editor 100 demo_edit run_db1 = Inr (v, db2)"
    by (simp add: create_version_def f c k a(1) demo_rows(1) e del: One_nat_def)
  moreover have "v \<in> set (content_versions db2)" "contents db2 = [touch_content (set_current 1 v) demo_item]"
    using version_event_tables [OF e] append_version_Inr [OF a(1)]
    by (simp_all add: make_current_def update_content_row_def run_tables1 update_where_def demo_rows)
  moreover have "map ce_client_operation_id (collaboration_events db2) = [''server:content.version.created:'' @ uuid_str (cv_id v)]"
    using version_event_operation [OF e] by (simp add: make_current_events a(2))
  moreover have "jsonb_document db2 = (\<lambda>d. d)"
    using version_event_tables [OF e] by (simp add: make_current_events a(3))
  ultimately show ?thesis by (intro exI conjI)
qed

theorem edits_withdraw_approvals_witness:
  "\<exists>db :: content_db. publish_ready 2 100 101 ''h'' 138 ''web'' db = Inl (app_error ''PUBLISH_READINESS_FAILED'' 409)"
proof -
  obtain v db where "create_version plain_hash 30 editor 100 demo_edit run_db1 = Inr (v, db)"
    using demo_edited by blast
  moreover have "approval_reachable no_repr plain_hash no_rate run_db1"
    by (rule Step [OF Start [OF demo_start] demo_steps(1)])
  ultimately have "publish_ready (workspace_id editor) 100 101 ''h'' 138 ''web'' db
      = Inl (app_error ''PUBLISH_READINESS_FAILED'' 409)"
    using edits_withdraw_approvals [of no_repr plain_hash no_rate run_db1 plain_hash 30 editor 100 demo_edit v db
      0 0 None 101 "''h''" 138 "''web''"] by blast
  then show ?thesis by auto
qed


section \<open>Scores and verdicts\<close>

text \<open>C26. The score is a whole number of cents between 0 and 100, and close to the exact weighted mean.
  When \<open>calculate_quality_score\<close> succeeds the given components are the seven of the formula, and the
  rounded total differs from the exact weighted sum of the scores by at most 7 * (1/200 + 10^-25): half a
  cent for the rounding of each of the seven components, and 10^-25 for its 28-digit product, which can
  lift a value just below a tie onto it.\<close>

theorem quality_score_bounds:
  assumes "calculate_quality_score other scores = Inr q"
  shows "set (map fst scores) = set (map fst QUALITY_COMPONENT_WEIGHTS)
    \<and> (\<exists>t. qs_total q = of_int t / 100 \<and> 0 \<le> t \<and> t \<le> 10000)
    \<and> \<bar>qs_total q - weighted_total scores QUALITY_COMPONENT_WEIGHTS\<bar> \<le> 7 * (1 / 200 + 1 / 10 ^ 25)"
proof -
  have "set (map fst scores) = set (map fst QUALITY_COMPONENT_WEIGHTS)"
    using assms by (simp add: calculate_quality_score_def Let_def split: if_split_asm)
  moreover have "(\<exists>t. qs_total q = of_int t / 100 \<and> 0 \<le> t \<and> t \<le> 10000)
    \<and> \<bar>qs_total q - weighted_total scores QUALITY_COMPONENT_WEIGHTS\<bar> \<le> 7 * (1 / 200 + 1 / 10 ^ 25)"
    by (rule calculate_quality_score_Inr [OF assms]) auto
  ultimately show ?thesis by blast
qed

theorem quality_score_bounds_witness: "0 \<le> qs_total demo_score \<and> qs_total demo_score \<le> 100"
proof -
  obtain t :: int where t: "qs_total demo_score = of_int t / 100" "0 \<le> t" "t \<le> 10000"
    using quality_score_bounds [OF demo_score] by blast
  then have "of_int t \<le> (of_int 10000 :: rat)" by (simp only: of_int_le_iff)
  with t show ?thesis by simp
qed


lemma check_thresholds_iff:
  "check_thresholds scores ms = Inr rest \<Longrightarrow>
     rest = [] \<longleftrightarrow> (\<forall>(k, m) \<in> set ms. \<exists>s. map_of scores k = Some s \<and> m \<le> s)"
proof (induction ms arbitrary: rest)
  case (Cons km ms)
  then show ?case by (cases km) (auto simp: result_simps split: option.splits if_splits)
qed simp

lemma gate_passes_iff:
  assumes "evaluate_quality_gate score mt mc policy = Inr g"
  shows "gate_decision g = AssessmentDecision.PASS \<longleftrightarrow> \<not> policy_blocked policy \<and> mt \<le> qs_total score
      \<and> (\<forall>(k, m) \<in> set mc. \<exists>s. map_of (qs_component_scores score) k = Some s \<and> m \<le> s)"
  using assms check_thresholds_iff [of "qs_component_scores score" mc]
  by (auto simp: evaluate_quality_gate_def result_simps Let_def split: if_splits)

lemma normalized_event:
  "let f = normalize_finding (policy_finding_from_event e) in pf_event_key f = uuid_str (pe_id e)
     \<and> (is_blocking_finding f \<longleftrightarrow> blocks_publication e)
     \<and> (blocks_publication e \<longrightarrow> (pf_override_allowed f \<longleftrightarrow> overridable e))"
  by (auto simp: normalize_finding_def policy_finding_from_event_def is_blocking_finding_def
      blocks_publication_def overridable_def Let_def)

lemma uuid_str_inject: "i < 16 ^ 32 \<Longrightarrow> j < 16 ^ 32 \<Longrightarrow> uuid_str i = uuid_str j \<longleftrightarrow> i = j"
  using the_uuid_str by metis

lemma resolution_blocked_iff:
  assumes ok: "approvals_ok db" and bound: "uuid_supply db \<le> 16 ^ 32"
  shows "policy_blocked (report_resolution ws ids db) \<longleftrightarrow>
    (\<exists>e \<in> set (events_of_reports ws ids db). blocks_publication e \<and> \<not> (overridable e \<and> overridden db ws (pe_id e)))"
proof -
  have small: "pe_id e < 16 ^ 32" if "e \<in> set (policy_events db)" for e
    using ok that bound unfolding approvals_ok_def ids_ok_def by fastforce
  have target: "po_policy_event_id x < 16 ^ 32" if "x \<in> set (policy_overrides db)" for x
    using ok that small unfolding approvals_ok_def override_ok_def by metis
  have sub: "e \<in> set (policy_events db)" if "e \<in> set (events_of_reports ws ids db)" for e
    using that by (simp add: events_of_reports_def)
  let ?ov = "map (\<lambda>x. uuid_str (po_policy_event_id x)) (filter (\<lambda>x. po_workspace_id x = ws
    \<and> po_policy_event_id x \<in> set (map pe_id (events_of_reports ws ids db))) (policy_overrides db))"
  have ov: "uuid_str (pe_id e) \<in> set ?ov \<longleftrightarrow> overridden db ws (pe_id e)"
    if e: "e \<in> set (events_of_reports ws ids db)" for e
  proof -
    have "uuid_str (pe_id e) = uuid_str (po_policy_event_id x) \<longleftrightarrow> po_policy_event_id x = pe_id e"
      if "x \<in> set (policy_overrides db)" for x
      using uuid_str_inject [OF small [OF sub [OF e]] target [OF that]] by auto
    with e show ?thesis by (auto simp: overridden_def image_iff)
  qed
  have "policy_blocked (report_resolution ws ids db) \<longleftrightarrow>
    (\<exists>e \<in> set (events_of_reports ws ids db). let f = normalize_finding (policy_finding_from_event e) in
       is_blocking_finding f \<and> (\<not> pf_override_allowed f \<or> pf_event_key f \<notin> set ?ov))"
    by (auto simp: policy_blocked_def report_resolution_def resolve_policy_findings_def Let_def filter_empty_conv)
  also have "\<dots> \<longleftrightarrow> (\<exists>e \<in> set (events_of_reports ws ids db).
      blocks_publication e \<and> \<not> (overridable e \<and> overridden db ws (pe_id e)))"
  proof (rule bex_cong [OF refl])
    fix e assume "e \<in> set (events_of_reports ws ids db)"
    from normalized_event [of e] ov [OF this]
    show "(let f = normalize_finding (policy_finding_from_event e) in
       is_blocking_finding f \<and> (\<not> pf_override_allowed f \<or> pf_event_key f \<notin> set ?ov))
      \<longleftrightarrow> blocks_publication e \<and> \<not> (overridable e \<and> overridden db ws (pe_id e))"
      by (simp only: Let_def) blast
  qed
  finally show ?thesis .
qed

text \<open>C27. The verdict of an assessment. A new assessment passes exactly when its total and component
  scores reach the thresholds of the configuration it names and every blocking policy event of its
  reports can be overridden and was; so a law, copyright, platform or service block can never pass.\<close>

theorem assessment_passes_iff:
  assumes reach: "approval_reachable other H lr db" and ids: "uuid_supply db \<le> 16 ^ 32"
    and run: "create_assessment repr H' now p d db = Inr (a, db')"
  shows "qa_decision a = AssessmentDecision.PASS \<longleftrightarrow>
    (\<exists>c. find_config (workspace_id p) (ac_quality_config_id d) db = Inr c \<and> meets_thresholds c a)
    \<and> (\<forall>e \<in> set (policy_events db). report_event a e \<longrightarrow> blocks_publication e \<longrightarrow>
         overridable e \<and> overridden db (workspace_id p) (pe_id e))"
proof -
  obtain cn cf and loaded :: "(ReportKind \<times> quality_report \<times> report_detail) list" and sc g
    where c: "find_config (workspace_id p) (ac_quality_config_id d) db = Inr cf"
    and g: "evaluate_quality_gate sc (qc_minimum_total_score cf) (qc_minimum_component_scores cf)
      (report_resolution (workspace_id p) (map qr_id (map (\<lambda>(_, r, _). r) loaded)) db) = Inr g"
    and st: "store_assessment H' now p cn cf (map (\<lambda>(_, r, _). r) loaded) sc g
      (report_resolution (workspace_id p) (map qr_id (map (\<lambda>(_, r, _). r) loaded)) db) db = Inr (a, db')"
    by (rule assessment_loaded [OF run]) blast
  let ?ids = "map qr_id (map (\<lambda>(_, r, _). r) loaded)"
  have a: "qa_decision a = gate_decision g" "qa_report_ids a = ?ids" "qa_workspace_id a = workspace_id p"
    "qa_total_score a = qs_total sc" "qa_component_scores a = qs_component_scores sc"
    by (rule store_assessment_Inr [OF st]; simp add: assessment_row_fields)+
  have "e \<in> set (events_of_reports (workspace_id p) ?ids db) \<longleftrightarrow> e \<in> set (policy_events db) \<and> report_event a e" for e
    by (auto simp: events_of_reports_def report_event_def a)
  then show ?thesis
    using gate_passes_iff [OF g] resolution_blocked_iff [OF reachable_ok [OF reach] ids, of "workspace_id p" ?ids] c
    by (auto simp: a meets_thresholds_def)
qed

theorem assessment_passes_iff_witness: "qa_decision demo_assessment = AssessmentDecision.PASS
  \<and> meets_thresholds demo_qc demo_assessment"
proof -
  have "approval_reachable no_repr plain_hash no_rate run_db8"
    by (rule Step [OF Step [OF Step [OF Step [OF Step [OF Step [OF Step [OF Step [OF
      Start [OF demo_start] demo_steps(1)] demo_steps(2)] demo_steps(3)] demo_steps(4)]
      demo_steps(5)] demo_steps(6)] demo_steps(7)] demo_steps(8)])
  moreover have "uuid_supply run_db8 \<le> 16 ^ 32" by (simp add: run_tables8)
  moreover have "find_config 2 105 run_db8 = Inr demo_qc" by (simp add: find_config_def run_tables8 demo_qc_def)
  ultimately show ?thesis
    using assessment_passes_iff [OF _ _ demo_create9] by (auto simp: demo_assessment_fields demo_assessment_request_def)
qed


section \<open>Overrides\<close>

text \<open>C28. Hard blocks are final. In a reachable state a blocking event of the law, copyright, platform or
  service layer has no override, and \<open>create_policy_override\<close> refuses to create one, whoever asks.\<close>

theorem hard_blocks_are_final:
  assumes reach: "approval_reachable other H lr db" and e: "e \<in> set (policy_events db)"
    and hard: "blocking_event e" "pe_layer e \<in> set NON_OVERRIDEABLE_HARD_BLOCK_LAYERS"
  shows "\<not> overridden db ws (pe_id e)
    \<and> create_policy_override now p (pe_id e) h reason evidence db =
        (if pe_workspace_id e \<noteq> workspace_id p then Inl (not_found ''POLICY_EVENT'')
         else if h \<noteq> pe_event_hash e
         then Inl (AppError ''SNAPSHOT_HASH_CONFLICT'' 409 [(''resource'', ''policy_event''),
                (''expected_hash'', h), (''actual_hash'', pe_event_hash e)] None)
         else Inl (override_forbidden e))"
proof -
  have ok: "approvals_ok db" by (rule reachable_ok [OF reach])
  have uniq: "x = e" if "x \<in> set (policy_events db)" "pe_id x = pe_id e" for x
    using that e ok by (intro distinct_key_eq [of pe_id]) (auto simp: approvals_ok_def ids_ok_def)
  have none: "\<not> overridden db ws (pe_id e)"
    using ok hard uniq unfolding overridden_def approvals_ok_def override_ok_def by metis
  have "find_policy_event (workspace_id p) (pe_id e) db
      = (if pe_workspace_id e = workspace_id p then Inr e else Inl (not_found ''POLICY_EVENT''))"
    using uniq e unfolding find_policy_event_def
    by (auto dest!: find_SomeD simp: find_None_iff split: option.splits)
  with hard none show ?thesis
    by (auto simp: create_policy_override_def assert_hash_def ensure_def)
qed

text \<open>A report on the demonstration content that finds a breach of law.\<close>

definition law_finding :: policy_finding_input where
  "law_finding = \<lparr>fi_event_key = ''k'', fi_layer = PolicyLayer.LAW, fi_rule_code = ''R'',
     fi_action = PolicyAction.BLOCK, fi_severity = FindingSeverity.INFO, fi_hard_block = False,
     fi_override_allowed = True, fi_message = ''m'', fi_evidence = []\<rparr>"

definition law_report :: report_create where
  "law_report = (demo_report (SEOReportCreate (Finite 85) None [] [] [] [] []))\<lparr>rc_hard_blockers := [law_finding]\<rparr>"

lemma law_event: "\<exists>r db' e. create_report plain_hash no_rate 12 editor ReportKind.SEO law_report run_db2 = Inr (r, db')
  \<and> e \<in> set (policy_events db') \<and> blocking_event e \<and> pe_layer e = PolicyLayer.LAW \<and> pe_id e = 110"
proof -
  have content: "exact_content 2 100 101 ''h'' False run_db2 = Inr demo_snap"
    by (simp add: exact_content_def resolve_version_def live_content_def demo_rows demo_snap_def snapshot_of_def run_tables2)
  have config: "latest_config 2 run_db2 = Inr demo_qc"
    by (simp add: latest_config_def latest_config_version_def demo_qc_def run_tables2)
  have rules: "rule_sets_for_report 2 12 [] run_db2 = Inr []"
    by (simp add: rule_sets_for_report_def effective_sets_def by_precedence_def run_tables2)
  show ?thesis
    by (simp add: create_report_def content config rules policy_inputs_def law_report_def demo_report_def
        uuid4_def Let_def run_tables2 new_policy_event_def blocking_event_def law_finding_def normalize_policy_input_def)
qed

theorem hard_blocks_are_final_witness:
  "\<exists>(db :: content_db) e. e \<in> set (policy_events db) \<and> \<not> overridden db 2 (pe_id e)"
proof -
  obtain r db' e where e: "create_report plain_hash no_rate 12 editor ReportKind.SEO law_report run_db2 = Inr (r, db')"
    "e \<in> set (policy_events db')" "blocking_event e" "pe_layer e = PolicyLayer.LAW"
    using law_event by blast
  have "approval_reachable no_repr plain_hash no_rate run_db2"
    by (rule Step [OF Step [OF Start [OF demo_start] demo_steps(1)] demo_steps(2)])
  then have "approval_reachable no_repr plain_hash no_rate db'" by (rule Step [OF _ CreateReport [OF e(1)]])
  then have "\<not> overridden db' 2 (pe_id e)"
    using hard_blocks_are_final [OF _ e(2,3)] e(4) by (simp add: NON_OVERRIDEABLE_HARD_BLOCK_LAYERS_def)
  with e(2) show ?thesis by blast
qed


section \<open>Restoring a version\<close>

lemma find_first:
  assumes "x \<in> set xs" "P x" "\<And>y. y \<in> set xs \<Longrightarrow> P y \<Longrightarrow> y = x"
  shows "List.find P xs = Some x"
proof (cases "List.find P xs")
  case None
  with assms(1,2) show ?thesis by (auto simp: find_None_iff)
next
  case (Some y)
  with assms(3) show ?thesis by (auto dest: find_SomeD)
qed

lemma version_row_fields:
  "cv_id (version_row H p c t bs ck nt sh oo n i) = i"
  "cv_workspace_id (version_row H p c t bs ck nt sh oo n i) = workspace_id p"
  "cv_content_id (version_row H p c t bs ck nt sh oo n i) = ct_id c"
  "cv_title (version_row H p c t bs ck nt sh oo n i) = t"
  "cv_document (version_row H p c t bs ck nt sh oo n i) = map block_json bs"
  "cv_plain_text (version_row H p c t bs ck nt sh oo n i)
    = join_with [char_of (10::nat), char_of (10::nat)] (filter (\<lambda>t. t \<noteq> []) (map bi_plain_text bs))"
  "cv_content_hash (version_row H p c t bs ck nt sh oo n i) = content_document_hash H t (map block_json bs)"
  "cv_restored_from_version_id (version_row H p c t bs ck nt sh oo n i) = vo_restored_from oo"
  "cv_change_kind (version_row H p c t bs ck nt sh oo n i) = ck"
  by (simp_all only: version_row_def Let_def content_version.select_convs)

text \<open>C29. Restoring a version brings it back whole. Take a version created by \<open>create_version\<close> from valid
  blocks, and any later reachable state that still has it and whose JSONB column returns its document
  unchanged (it normalises numbers, so a payload with \<open>1e20\<close> is not covered). Restoring it there, when
  a caller of the same workspace names the current version of a live content and nobody has used the
  server's operation key of the new version, succeeds with a new version of the same title, document,
  text and hash that names its source, and makes it current. The blocks survive being written as JSON and
  parsed again.\<close>

theorem restore_brings_back:
  assumes made: "create_version H now p cid d db1 = Inr (v, db2)" and blocks: "list_all valid_block (vc_document d)"
    and reach: "approval_reachable other H lr db" and kept: "v \<in> set (content_versions db)"
    and live: "find_content (workspace_id p) cid False db = Inr c"
    and cur: "ct_current_version_id c = Some current"
    and fresh: "\<forall>x \<in> set (collaboration_events db). ce_client_operation_id x
      \<noteq> ''server:content.version.restored:'' @ uuid_str (uuid_supply db)"
    and same: "workspace_id q = workspace_id p" and column: "stored_document db v = cv_document v"
  shows "\<exists>w db'. restore_version H later q cid (cv_id v) current nt db = Inr (w, db')
    \<and> cv_title w = cv_title v \<and> cv_document w = cv_document v \<and> cv_plain_text w = cv_plain_text v
    \<and> cv_content_hash w = cv_content_hash v \<and> cv_restored_from_version_id w = Some (cv_id v)
    \<and> cv_id w \<noteq> cv_id v
    \<and> (\<exists>x \<in> set (contents db'). ct_id x = cid \<and> ct_current_version_id x = Some (cv_id w))"
proof -
  have ok: "approvals_ok db" by (rule reachable_ok [OF reach])
  obtain c1 db3 where a1: "append_version H p c1 (vc_title d) (vc_document d) (vc_change_kind d) (vc_change_note d)
      (vc_source_snapshot_hash d) no_origin db1 = Inr (v, db3)"
    and c1: "find_content (workspace_id p) cid False db1 = Inr c1"
    by (rule create_version_Inr [OF made])
  note v = append_version_Inr [OF a1]
  have row: "cv_title v = vc_title d" "cv_document v = map block_json (vc_document d)"
    "cv_plain_text v = join_with [char_of (10::nat), char_of (10::nat)] (filter (\<lambda>t. t \<noteq> []) (map bi_plain_text (vc_document d)))"
    "cv_content_hash v = content_document_hash H (vc_title d) (map block_json (vc_document d))"
    "cv_workspace_id v = workspace_id p" "cv_content_id v = cid"
    by (simp_all add: conjunct1 [OF v] version_row_fields find_content_Inr [OF c1])
  have get: "get_version (workspace_id q) cid (cv_id v) db = Inr v"
    using kept row ok unfolding get_version_def
    by (subst find_first [of v]) (auto simp: same approvals_ok_def ids_ok_def intro: distinct_key_eq)
  let ?o = "no_origin\<lparr>vo_restored_from := Some (cv_id v)\<rparr>"
  obtain w db4 where a: "append_version H q c (cv_title v) (vc_document d) ContentChangeKind.RESTORE nt
      (cv_source_snapshot_hash v) ?o db = Inr (w, db4)" "collaboration_events db4 = collaboration_events db"
    using append_version_succeeds [of "cv_title v" "vc_document d" H q c ContentChangeKind.RESTORE nt
      "cv_source_snapshot_hash v" ?o db] v row(1) by auto
  note w = append_version_Inr [OF a(1)]
  let ?db5 = "make_current later q cid w ''restored version'' (set_current (subject_id q) w) db4"
  have "collaboration_events ?db5 = collaboration_events db" by (simp add: make_current_events a(2))
  moreover have wid: "cv_id w = uuid_supply db" using conjunct1 [OF w] by (simp only: version_row_fields)
  ultimately obtain db' where e: "version_event later q cid w ''content.version.restored''
      CollaborationEventKind.VERSION_RESTORED ?db5 = Inr db'"
    using version_event_succeeds [of ?db5 "''content.version.restored''" w later q cid
      CollaborationEventKind.VERSION_RESTORED] fresh by auto
  have run: "restore_version H later q cid (cv_id v) current nt db = Inr (w, db')"
    using find_content_Inr [OF live] a(1) e get validate_blocks_json [OF blocks]
    by (simp add: restore_version_def live same cur row(2) column)
  have "cv_id v < uuid_supply db" using ok kept by (auto simp: approvals_ok_def ids_ok_def)
  moreover have "\<exists>x \<in> set (contents db'). ct_id x = cid \<and> ct_current_version_id x = Some (cv_id w)"
    using new_version_effect [OF ok _ a(1) e] live same by simp
  moreover have "cv_title w = cv_title v" "cv_document w = cv_document v" "cv_plain_text w = cv_plain_text v"
    "cv_content_hash w = cv_content_hash v" "cv_restored_from_version_id w = Some (cv_id v)"
    using conjunct1 [OF w] row by (simp_all add: version_row_fields)
  ultimately show ?thesis using run wid by auto
qed


theorem restore_brings_back_witness:
  "\<exists>(v :: content_version) db w (db' :: content_db). restore_version plain_hash 40 editor 100 (cv_id v) (cv_id v) None db = Inr (w, db')
     \<and> cv_document w = cv_document v"
proof -
  obtain v db where e: "create_version plain_hash 30 editor 100 demo_edit run_db1 = Inr (v, db)"
    "v \<in> set (content_versions db)" "contents db = [touch_content (set_current 1 v) demo_item]"
    "map ce_client_operation_id (collaboration_events db) = [''server:content.version.created:'' @ uuid_str (cv_id v)]"
    "jsonb_document db = (\<lambda>d. d)"
    using demo_edited by (elim exE conjE) (rule that)
  have column: "stored_document db v = cv_document v" by (simp add: stored_document_def e(5))
  have blocks: "list_all valid_block (vc_document demo_edit)"
    by (simp add: demo_edit_def demo_block_def valid_block_def supported_block_def) (simp add: SUPPORTED_BLOCK_TYPES_def upper_def upper_char_def is_lower_def char_code_def)
  have reach: "approval_reachable no_repr plain_hash no_rate db"
    by (rule Step [OF Step [OF Start [OF demo_start] demo_steps(1)] CreateVersion [OF e(1)]])
  have live: "find_content (workspace_id editor) 100 False db = Inr (touch_content (set_current 1 v) demo_item)"
    by (simp add: find_content_def e(3) set_current_def demo_rows)
  have cur: "ct_current_version_id (touch_content (set_current 1 v) demo_item) = Some (cv_id v)"
    by (simp add: set_current_def)
  have fresh: "\<forall>x \<in> set (collaboration_events db). ce_client_operation_id x
      \<noteq> ''server:content.version.restored:'' @ uuid_str (uuid_supply db)"
  proof
    fix x assume "x \<in> set (collaboration_events db)"
    then have "ce_client_operation_id x \<in> set (map ce_client_operation_id (collaboration_events db))" by simp
    then have "ce_client_operation_id x = ''server:content.version.created:'' @ uuid_str (cv_id v)"
      by (simp only: e(4) list.set insert_iff empty_iff simp_thms)
    then show "ce_client_operation_id x \<noteq> ''server:content.version.restored:'' @ uuid_str (uuid_supply db)"
      by simp
  qed
  obtain w db' where "restore_version plain_hash 40 editor 100 (cv_id v) (cv_id v) None db = Inr (w, db')"
    "cv_document w = cv_document v"
    using restore_brings_back [OF e(1) blocks reach e(2) live cur fresh refl column, of 40 None] by (elim exE conjE) (rule that)
  then show ?thesis by (intro exI conjI)
qed


section \<open>Decisions\<close>

text \<open>The request a decision should lead to, by the decision and the number of approvers so far.\<close>

definition decision_spec ::
  "principal \<Rightarrow> time \<Rightarrow> ApprovalDecisionKind \<Rightarrow> nat \<Rightarrow> approval_request \<Rightarrow> approval_request \<Rightarrow> bool" where
  "decision_spec p now dec approvers r r' \<longleftrightarrow>
     (let stage = ar_approval_stages_snapshot r ! ar_current_stage_index r;
          last_stage = (Suc (ar_current_stage_index r) = length (ar_approval_stages_snapshot r))
      in case dec of
        ApprovalDecisionKind.REJECT \<Rightarrow> ar_status r' = ApprovalRequestStatus.REJECTED
      | ApprovalDecisionKind.REQUEST_CHANGES \<Rightarrow> ar_status r' = ApprovalRequestStatus.CHANGES_REQUESTED
      | ApprovalDecisionKind.APPROVE \<Rightarrow>
          if int approvers < as_required_approvals stage then r' = r
          else if last_stage
          then ar_status r' = ApprovalRequestStatus.APPROVED \<and> ar_approved_by r' = Some (subject_id p)
            \<and> ar_approved_at r' = Some now
          else ar_status r' = ApprovalRequestStatus.PENDING
            \<and> ar_current_stage_index r' = Suc (ar_current_stage_index r)
            \<and> ar_stage_due_at r' = stage_due_at now (ar_approval_stages_snapshot r ! Suc (ar_current_stage_index r)))"

lemma decide_run:
  assumes "decide_approval_request now p i d db = Inr ((r', Some a), db')"
    and "find_request (workspace_id p) i db = Inr r"
  shows "ar_status r = ApprovalRequestStatus.PENDING \<and> dc_expected_lock_version d = ar_lock_version r
    \<and> (\<forall>due. ar_stage_due_at r = Some due \<longrightarrow> now \<le> due)
    \<and> ar_current_stage_index r < length (ar_approval_stages_snapshot r)
    \<and> check_approver p (ar_approval_stages_snapshot r ! ar_current_stage_index r) = Inr ()
    \<and> apply_decision now p d r (ar_approval_stages_snapshot r ! ar_current_stage_index r) db = Inr ((r', Some a), db')"
  using assms
  by (auto simp: decide_approval_request_def decide_in_stage_def result_simps assert_lock_def ensure_def
      Let_def split: if_split_asm option.splits)

lemma pending_stays: "ar_status r = ApprovalRequestStatus.PENDING
    \<Longrightarrow> touch_request (decided p now d False ApprovalRequestStatus.PENDING) r = r"
  by (simp add: touch_request_def decided_def Let_def)

text \<open>C30. What a recorded decision does. When \<open>decide_approval_request\<close> records a decision, the request
  was pending, at the expected lock version and not overdue, the caller was admitted by the current stage
  and had not approved in it before, and the request moved as \<open>decision_spec\<close> says: a rejection or a
  request for changes ends it; an approval below the quorum of distinct approvers changes nothing, one
  that reaches it opens the next stage with its own deadline, and in the last stage approves the request.
  Exactly one decision is appended, of this caller in this stage.\<close>

theorem decision_moves_request:
  assumes run: "decide_approval_request now p i d db = Inr ((r', Some a), db')"
    and r: "find_request (workspace_id p) i db = Inr r"
  shows "let stage = ar_approval_stages_snapshot r ! ar_current_stage_index r;
        prior = prior_approvers (workspace_id p) i (as_key stage) db
      in ar_status r = ApprovalRequestStatus.PENDING \<and> dc_expected_lock_version d = ar_lock_version r
        \<and> (\<forall>due. ar_stage_due_at r = Some due \<longrightarrow> now \<le> due)
        \<and> check_approver p stage = Inr () \<and> subject_id p \<notin> set prior
        \<and> decision_spec p now (dc_decision d) (card (insert (subject_id p) (set prior))) r r'
        \<and> approval_decisions db' = approval_decisions db @ [a] \<and> ad_decided_by a = subject_id p
        \<and> ad_stage_key a = as_key stage \<and> ad_decision a = dc_decision d"
proof -
  let ?stage = "ar_approval_stages_snapshot r ! ar_current_stage_index r"
  let ?prior = "prior_approvers (workspace_id p) i (as_key ?stage) db"
  note dr = decide_run [OF run r] and rr = find_request_Inr [OF r]
  obtain quorum s adv k ix where q: "approval_quorum_reached ?prior (subject_id p) (as_required_approvals ?stage) = Inr quorum"
    and s: "transition_approval (ar_status r) (dc_decision d) quorum
       (Suc (ar_current_stage_index r) = length (ar_approval_stages_snapshot r)) = Inr s"
    and adv: "adv \<longleftrightarrow> dc_decision d = ApprovalDecisionKind.APPROVE \<and> quorum
       \<and> Suc (ar_current_stage_index r) \<noteq> length (ar_approval_stages_snapshot r)"
    and r': "r' = touch_request (decided p now d adv s) r"
    and a: "a = decision_row p now d ?stage ix (ar_status r) s r k"
      "approval_decisions db' = approval_decisions db @ [decision_row p now d ?stage ix (ar_status r) s r k]"
    and new: "subject_id p \<notin> set ?prior"
    by (rule apply_decision_Inr [of now p d r ?stage db r' "Some a" db']) (use dr rr in auto)
  have quorum: "quorum \<longleftrightarrow> as_required_approvals ?stage \<le> int (card (insert (subject_id p) (set ?prior)))"
    using q by (auto simp: approval_quorum_reached_def split: if_splits)
  have "decision_spec p now (dc_decision d) (card (insert (subject_id p) (set ?prior))) r r'"
  proof (cases "dc_decision d")
    case APPROVE
    with s dr have s': "s = (if quorum \<and> Suc (ar_current_stage_index r) = length (ar_approval_stages_snapshot r)
        then ApprovalRequestStatus.APPROVED else ApprovalRequestStatus.PENDING)"
      by (simp add: transition_approval_def)
    show ?thesis
    proof (cases quorum)
      case True
      with APPROVE adv s' quorum show ?thesis
        by (simp add: decision_spec_def Let_def r' touch_approved_by) (simp add: decided_def Let_def touch_request_def)
    next
      case False
      with APPROVE adv s' quorum dr show ?thesis by (simp add: decision_spec_def Let_def r' pending_stays)
    qed
  qed (use s dr in \<open>simp_all add: decision_spec_def transition_approval_def r'\<close>)
  with dr a new show ?thesis by (simp add: Let_def decision_row_def)
qed

theorem decision_moves_request_witness: "ar_status demo_approved = ApprovalRequestStatus.APPROVED
  \<and> approval_decisions run_db11 = [demo_ad]"
proof -
  have "find_request (workspace_id editor) 138 run_db10 = Inr demo_pending"
    by (simp add: find_request_def run_tables10 demo_pending_fields)
  from decision_moves_request [OF demo_create11 this] show ?thesis
    by (simp add: Let_def demo_pending_fields prior_approvers_def run_tables10 decision_spec_def demo_decision_def
        demo_stage_def)
qed

section \<open>Export\<close>

text \<open>C31. The HTML export holds no markup of the author's. The document is the fixed frame around the
  title and the block texts, and these are escaped: no angle bracket, no quote of either kind.\<close>

theorem html_export_escapes:
  assumes "export_content dump other p cid ''html'' db = Inr (body, mime)"
  shows "\<exists>t ts. body = ''<article><h1>'' @ t @ ''</h1>''
      @ join_with newline (map (\<lambda>x. ''<p>'' @ x @ ''</p>'') ts) @ ''</article>''
    \<and> mime = ''text/html'' \<and> (\<forall>x \<in> set (t # ts). \<forall>c \<in> set x. char_code c \<notin> {34, 39, 60, 62})"
proof -
  obtain v :: content_version and ts where v: "body = ''<article><h1>'' @ html_escape (cv_title v) @ ''</h1>''
      @ join_with newline (map (\<lambda>t. ''<p>'' @ html_escape t @ ''</p>'') ts) @ ''</article>''" "mime = ''text/html''"
    using assms by (auto simp: export_content_def result_simps split: option.splits if_splits)
  show ?thesis
    using html_escape_safe
    by (intro exI [of _ "html_escape (cv_title v)"] exI [of _ "map html_escape ts"]) (auto simp: v comp_def)
qed

theorem html_export_escapes_witness: "\<exists>t ts :: string list. ''<article><h1>t</h1><p>text</p></article>''
   = ''<article><h1>'' @ t @ ''</h1>'' @ join_with newline (map (\<lambda>x. ''<p>'' @ x @ ''</p>'') ts) @ ''</article>''"
proof -
  have "export_content no_repr no_repr editor 100 ''html'' run_db1
      = Inr (''<article><h1>t</h1><p>text</p></article>'', ''text/html'')"
    by (simp add: export_content_def find_content_def run_tables1 demo_rows get_version_def stored_document_def
        run_column1)
      (simp add: demo_version_def version_row_fields demo_block_def block_text_def block_json_def html_escape_def
        escape_char_def char_code_def py_str_def)
  from html_export_escapes [OF this] show ?thesis by blast
qed

end
