(* ===== verification/Publish_Rules.thy ===== *)
theory Publish_Rules
  imports Text_Parse
begin

text \<open>
  The vocabularies and the pure rules of publishing, \<^verbatim>\<open>domain/publishing/enums.py\<close> and \<^verbatim>\<open>rules.py\<close>: the retry
  classes, the redaction of metadata, the daily quota, the schedule check and the check of a manually
  published Naver post.

  A time zone is the pair of functions \<^verbatim>\<open>zoneinfo\<close> gives for a name: the instant of a wall clock reading
  with a fold, and the wall clock reading and fold of an instant. The zone database is an argument.
\<close>

section \<open>Vocabularies\<close>

datatype PublishingProvider = WORDPRESS | GHOST | BLOGGER | CUSTOMER_CMS | NAVER_MANUAL

datatype ConnectionState = PENDING | ACTIVE | DEGRADED | EXPIRED | DISCONNECTED

datatype ConnectionOperation = DIAGNOSE | REFRESH | SYNC_SETTINGS | DISCONNECT

datatype PublishOperation = CREATE | UPDATE | DELETE | RECONCILE | ROLLBACK

datatype PublishVisibility = DRAFT | PUBLISH | SCHEDULED | PENDING_REVIEW | PRIVATE

datatype PublishedPostState =
    DRAFT | SCHEDULED | PUBLISHED | PARTIAL | CONFLICT | TRASHED | DELETED | REMOTE_MISSING
  | MANUALLY_CONFIRMED

datatype ConflictAction = ABORT | OVERWRITE | IMPORT_REMOTE

datatype RetryClass = NETWORK | RATE_LIMIT | SERVER | FINAL

datatype SagaStepKind =
    VALIDATE_READINESS | RESERVE_QUOTA | FETCH_REMOTE | SNAPSHOT_REMOTE | UPLOAD_MEDIA
  | UPSERT_TAXONOMY | WRITE_POST | VERIFY_REMOTE | RECONCILE | ROLLBACK | CANCEL_REMOTE | NOTIFY

datatype NaverChecklistState = CHECKED | UNCHECKED

primrec provider_value :: "PublishingProvider \<Rightarrow> string" where
  "provider_value PublishingProvider.WORDPRESS = ''WORDPRESS''"
| "provider_value PublishingProvider.GHOST = ''GHOST''"
| "provider_value PublishingProvider.BLOGGER = ''BLOGGER''"
| "provider_value PublishingProvider.CUSTOMER_CMS = ''CUSTOMER_CMS''"
| "provider_value PublishingProvider.NAVER_MANUAL = ''NAVER_MANUAL''"

primrec connection_state_value :: "ConnectionState \<Rightarrow> string" where
  "connection_state_value ConnectionState.PENDING = ''PENDING''"
| "connection_state_value ConnectionState.ACTIVE = ''ACTIVE''"
| "connection_state_value ConnectionState.DEGRADED = ''DEGRADED''"
| "connection_state_value ConnectionState.EXPIRED = ''EXPIRED''"
| "connection_state_value ConnectionState.DISCONNECTED = ''DISCONNECTED''"

primrec connection_operation_value :: "ConnectionOperation \<Rightarrow> string" where
  "connection_operation_value ConnectionOperation.DIAGNOSE = ''DIAGNOSE''"
| "connection_operation_value ConnectionOperation.REFRESH = ''REFRESH''"
| "connection_operation_value ConnectionOperation.SYNC_SETTINGS = ''SYNC_SETTINGS''"
| "connection_operation_value ConnectionOperation.DISCONNECT = ''DISCONNECT''"

primrec publish_operation_value :: "PublishOperation \<Rightarrow> string" where
  "publish_operation_value PublishOperation.CREATE = ''CREATE''"
| "publish_operation_value PublishOperation.UPDATE = ''UPDATE''"
| "publish_operation_value PublishOperation.DELETE = ''DELETE''"
| "publish_operation_value PublishOperation.RECONCILE = ''RECONCILE''"
| "publish_operation_value PublishOperation.ROLLBACK = ''ROLLBACK''"

primrec visibility_value :: "PublishVisibility \<Rightarrow> string" where
  "visibility_value PublishVisibility.DRAFT = ''DRAFT''"
| "visibility_value PublishVisibility.PUBLISH = ''PUBLISH''"
| "visibility_value PublishVisibility.SCHEDULED = ''SCHEDULED''"
| "visibility_value PublishVisibility.PENDING_REVIEW = ''PENDING_REVIEW''"
| "visibility_value PublishVisibility.PRIVATE = ''PRIVATE''"

primrec conflict_action_value :: "ConflictAction \<Rightarrow> string" where
  "conflict_action_value ConflictAction.ABORT = ''ABORT''"
| "conflict_action_value ConflictAction.OVERWRITE = ''OVERWRITE''"
| "conflict_action_value ConflictAction.IMPORT_REMOTE = ''IMPORT_REMOTE''"

primrec retry_class_value :: "RetryClass \<Rightarrow> string" where
  "retry_class_value RetryClass.NETWORK = ''NETWORK''"
| "retry_class_value RetryClass.RATE_LIMIT = ''RATE_LIMIT''"
| "retry_class_value RetryClass.SERVER = ''SERVER''"
| "retry_class_value RetryClass.FINAL = ''FINAL''"

text \<open>\<open>ConflictAction(v)\<close> of a string value.\<close>

definition conflict_action_of :: "json \<Rightarrow> ConflictAction result" where
  "conflict_action_of v =
     (if v = JStr ''ABORT'' then Inr ConflictAction.ABORT
      else if v = JStr ''OVERWRITE'' then Inr ConflictAction.OVERWRITE
      else if v = JStr ''IMPORT_REMOTE'' then Inr ConflictAction.IMPORT_REMOTE
      else Inl (ValueError ''ConflictAction''))"

lemma conflict_action_of_value [simp]:
  "conflict_action_of (JStr (conflict_action_value a)) = Inr a"
  by (cases a) (simp_all add: conflict_action_of_def)

section \<open>Retry classes\<close>

definition classify_retry :: "bool \<Rightarrow> int option \<Rightarrow> RetryClass" where
  "classify_retry network_error status_code =
     (if network_error then RetryClass.NETWORK
      else case status_code of
        None \<Rightarrow> RetryClass.FINAL
      | Some c \<Rightarrow> if c = 429 then RetryClass.RATE_LIMIT
                  else if 500 \<le> c \<and> c \<le> 599 then RetryClass.SERVER else RetryClass.FINAL)"

definition retry_allowed :: "bool \<Rightarrow> int option \<Rightarrow> bool" where
  "retry_allowed network_error status_code \<longleftrightarrow> classify_retry network_error status_code \<noteq> RetryClass.FINAL"

section \<open>Redaction\<close>

text \<open>The three patterns are matched without regard to (ASCII) case; \<open>m\<close> below is the length of a match at
  the head of the text, \<open>None\<close> where there is none.\<close>

definition starts_ci :: "string \<Rightarrow> string \<Rightarrow> bool" where
  "starts_ci p s \<longleftrightarrow> lower (take (length p) s) = p"

definition api_key_forms :: "string list" where
  "api_key_forms = [''apikey'', ''api-key'', ''api_key'']"

definition SECRET_KEY_WORDS :: "string list" where
  "SECRET_KEY_WORDS = [''authorization'', ''cookie'', ''token'', ''secret'', ''password''] @ api_key_forms
     @ [''credential'']"

fun search_ci :: "string list \<Rightarrow> string \<Rightarrow> bool" where
  "search_ci ws [] = list_ex (\<lambda>w. w = []) ws"
| "search_ci ws (c # s) = (list_ex (\<lambda>w. starts_ci w (c # s)) ws \<or> search_ci ws s)"

definition SECRET_KEY_PATTERN :: "string \<Rightarrow> bool" where
  "SECRET_KEY_PATTERN key = search_ci SECRET_KEY_WORDS key"

definition is_word :: "char \<Rightarrow> bool" where
  "is_word c \<longleftrightarrow> is_alpha c \<or> is_digit c \<or> c = CHR ''_''"

definition match_word :: "string list \<Rightarrow> string \<Rightarrow> nat option" where
  "match_word ws s = map_option length (List.find (\<lambda>w. starts_ci w s) ws)"

definition span_len :: "(char \<Rightarrow> bool) \<Rightarrow> string \<Rightarrow> nat" where
  "span_len P s = length (takeWhile P s)"

definition is_auth_char :: "char \<Rightarrow> bool" where
  "is_auth_char c \<longleftrightarrow> is_alpha c \<or> is_digit c \<or> c \<in> set ''._~+/=-''"

text \<open>\<open>AUTH_VALUE_PATTERN\<close>: the scheme, blanks and a non-empty credential.\<close>

definition match_auth :: "string \<Rightarrow> nat option" where
  "match_auth s =
     (case match_word [''bearer'', ''basic''] s of
        None \<Rightarrow> None
      | Some n \<Rightarrow>
          let blanks = span_len py_isspace (drop n s); value_len = span_len is_auth_char (drop (n + blanks) s)
          in if blanks = 0 \<or> value_len = 0 then None else Some (n + blanks + value_len))"

text \<open>\<open>SECRET_ASSIGNMENT_PATTERN\<close>: the lengths of the part that is kept and of the whole match.\<close>

definition match_assignment :: "string \<Rightarrow> (nat \<times> nat) option" where
  "match_assignment s =
     (case match_word ([''password'', ''token'', ''secret''] @ api_key_forms @ [''cookie'', ''authorization'']) s of
        None \<Rightarrow> None
      | Some n \<Rightarrow>
          let b = n + span_len py_isspace (drop n s) in
          (case drop b s of
             [] \<Rightarrow> None
           | c # _ \<Rightarrow>
               if c \<noteq> CHR '':'' \<and> c \<noteq> CHR ''='' then None
               else let k = b + 1 + span_len py_isspace (drop (b + 1) s);
                        v = span_len (\<lambda>c. \<not> py_isspace c \<and> c \<noteq> CHR '','' \<and> c \<noteq> CHR '';'') (drop k s)
                    in if v = 0 then None else Some (k, k + v)))"

definition REDACTED :: string where "REDACTED = ''[REDACTED]''"

text \<open>\<open>pattern.sub\<close>: from left to right, matches do not overlap; both patterns begin at a word boundary, which
  before a letter means that the character before is no word character (\<open>prev\<close>).\<close>

function sub_auth :: "bool \<Rightarrow> string \<Rightarrow> string" where
  "sub_auth prev [] = []"
| "sub_auth prev (c # s) =
     (case (if prev then None else match_auth (c # s)) of
        Some n \<Rightarrow> REDACTED @ sub_auth (is_word (last (take n (c # s)))) (drop (max 1 n) (c # s))
      | None \<Rightarrow> c # sub_auth (is_word c) s)"
  by pat_completeness auto
termination by (relation "measure (length \<circ> snd)") auto

function sub_assignment :: "bool \<Rightarrow> string \<Rightarrow> string" where
  "sub_assignment prev [] = []"
| "sub_assignment prev (c # s) =
     (case (if prev then None else match_assignment (c # s)) of
        Some (k, n) \<Rightarrow> take k (c # s) @ REDACTED
          @ sub_assignment (is_word (last (take n (c # s)))) (drop (max 1 n) (c # s))
      | None \<Rightarrow> c # sub_assignment (is_word c) s)"
  by pat_completeness auto
termination by (relation "measure (length \<circ> snd)") auto

definition redact_text :: "string \<Rightarrow> string" where
  "redact_text v = sub_assignment False (sub_auth False (take 4000 v))"

text \<open>A key that was cut to 160 characters may meet an earlier one and replaces its value.\<close>

definition dict_of :: "(string \<times> json) list \<Rightarrow> (string \<times> json) list" where
  "dict_of kvs = foldl (\<lambda>d kv. dict_set (fst kv) (snd kv) d) [] kvs"

fun redact_metadata :: "json \<Rightarrow> json"
  and redact_items :: "json list \<Rightarrow> json list"
  and redact_members :: "(string \<times> json) list \<Rightarrow> (string \<times> json) list" where
  "redact_metadata (JDict d) = JDict (dict_of (redact_members d))"
| "redact_metadata (JList xs) = JList (take 1000 (redact_items xs))"
| "redact_metadata (JStr s) = JStr (redact_text s)"
| "redact_metadata JNull = JNull"
| "redact_metadata (JBool b) = JBool b"
| "redact_metadata (JInt i) = JInt i"
| "redact_metadata (JDec r) = JDec r"
| "redact_metadata (JUuid u) = JUuid u"
| "redact_metadata (JTime t) = JTime t"
| "redact_items [] = []"
| "redact_items (x # xs) = redact_metadata x # redact_items xs"
| "redact_members [] = []"
| "redact_members (kv # d) =
     (take 160 (fst kv),
      if SECRET_KEY_PATTERN (take 160 (fst kv)) then JStr REDACTED else redact_metadata (snd kv))
     # redact_members d"

definition redact_dict :: "(string \<times> json) list \<Rightarrow> (string \<times> json) list" where
  "redact_dict d = dict_of (redact_members d)"

section \<open>Schedules\<close>

text \<open>A supplied time: without a zone, or an instant with the UTC offset it was written with.\<close>

datatype supplied_time = NoZone time | WithOffset time int

type_synonym time_zone = "(nat \<Rightarrow> time \<Rightarrow> time) \<times> (time \<Rightarrow> time \<times> nat)"

text \<open>\<open>ZoneInfo\<close>: the zone of a name, \<open>Inr None\<close> for \<open>ZoneInfoNotFoundError\<close>, and \<open>Inl\<close> for the
  exceptions the code does not catch, such as the \<open>ValueError\<close> of a malformed name.\<close>

type_synonym zone_db = "string \<Rightarrow> time_zone option result"

definition date_of :: "time \<Rightarrow> int" where
  "date_of t = t div 86400000000"

record ValidatedSchedule =
  vd_scheduled_at_utc :: time
  vd_scheduled_local :: time
  vd_timezone_name :: string
  vd_fold :: nat
  vd_local_day :: int

definition schedule_candidates :: "time_zone \<Rightarrow> time \<Rightarrow> (nat \<times> time) list" where
  "schedule_candidates z local =
     map (\<lambda>f. (f, fst z f local)) (filter (\<lambda>f. fst (snd z (fst z f local)) = local) [0, 1])"

definition validate_schedule ::
  "zone_db \<Rightarrow> supplied_time \<Rightarrow> supplied_time \<Rightarrow> string \<Rightarrow> nat option \<Rightarrow> ValidatedSchedule result" where
  "validate_schedule zones at_utc at_local timezone_name fold_arg =
     (case at_utc of
        NoZone _ \<Rightarrow> Inl (app_error ''PUBLISH_SCHEDULE_UTC_REQUIRED'' 422)
      | WithOffset utc offset \<Rightarrow>
     if offset \<noteq> 0 then Inl (app_error ''PUBLISH_SCHEDULE_NOT_UTC'' 422)
     else case at_local of
        WithOffset _ _ \<Rightarrow> Inl (app_error ''PUBLISH_LOCAL_TIME_MUST_BE_NAIVE'' 422)
      | NoZone local \<Rightarrow>
     (case zones timezone_name of
        Inl e \<Rightarrow> Inl e
      | Inr None \<Rightarrow> Inl (app_error ''PUBLISH_TIMEZONE_INVALID'' 422)
      | Inr (Some z) \<Rightarrow>
          let candidates = schedule_candidates z local;
              ambiguous = 1 < length (remdups (map snd candidates));
              chosen = (case fold_arg of None \<Rightarrow> 0 | Some f \<Rightarrow> f)
          in if candidates = [] then Inl (app_error ''PUBLISH_DST_NONEXISTENT_TIME'' 422)
             else if ambiguous \<and> fold_arg = None then Inl (app_error ''PUBLISH_DST_FOLD_REQUIRED'' 422)
             else if \<not> ambiguous \<and> fold_arg = Some 1 then Inl (app_error ''PUBLISH_DST_FOLD_INVALID'' 422)
             else case map_of candidates chosen of
               None \<Rightarrow> Inl (app_error ''PUBLISH_DST_FOLD_INVALID'' 422)
             | Some resolved \<Rightarrow>
                 if resolved \<noteq> utc then Inl (app_error ''PUBLISH_SCHEDULE_MISMATCH'' 422)
                 else Inr \<lparr>vd_scheduled_at_utc = utc, vd_scheduled_local = local,
                        vd_timezone_name = timezone_name, vd_fold = chosen, vd_local_day = date_of local\<rparr>))"

section \<open>Quotas\<close>

text \<open>The first of the four keys the policy sets.\<close>

definition quota_keys :: "string \<Rightarrow> string \<Rightarrow> string list" where
  "quota_keys provider channel =
     [provider @ '':'' @ channel, provider, ''channel:'' @ channel, ''default'']"

definition quota_for :: "(string \<times> int) list \<Rightarrow> string \<Rightarrow> string \<Rightarrow> int option result" where
  "quota_for policy provider channel =
     (case List.find (\<lambda>k. map_of policy k \<noteq> None) (quota_keys provider channel) of
        None \<Rightarrow> Inr None
      | Some k \<Rightarrow>
          let v = the (map_of policy k)
          in if v < 1 then Inl (app_error ''PUBLISH_QUOTA_POLICY_INVALID'' 409) else Inr (Some v))"

section \<open>Naver\<close>

definition NAVER_MANUAL_POLICY_VERSION :: string where
  "NAVER_MANUAL_POLICY_VERSION = ''2026-08-23''"

definition POST_ID :: "string \<Rightarrow> bool" where
  "POST_ID s \<longleftrightarrow> 1 \<le> length s \<and> length s \<le> 20 \<and> list_all is_digit s"

definition is_alnum :: "char \<Rightarrow> bool" where
  "is_alnum c \<longleftrightarrow> is_alpha c \<or> is_digit c"

definition NAVER_BLOG_ID :: "string \<Rightarrow> bool" where
  "NAVER_BLOG_ID s \<longleftrightarrow> 2 \<le> length s \<and> length s \<le> 50 \<and> is_alnum (hd s) \<and> is_alnum (last s)
     \<and> list_all (\<lambda>c. is_alnum c \<or> c \<in> set ''_.-'') s"

text \<open>\<open>SplitResult.port\<close>: the text after the host's colon, when there is one.\<close>

definition url_port :: "url_parts \<Rightarrow> int option result" where
  "url_port p =
     (let (_, _, hostinfo) = rpartition_on CHR ''@'' (url_netloc p);
          (_, br, bracketed) = partition_on CHR ''['' hostinfo;
          port = (if br then snd (snd (partition_on CHR '':'' (snd (snd (partition_on CHR '']'' bracketed)))))
                  else snd (snd (partition_on CHR '':'' hostinfo)))
      in if port = [] then Inr None
         else if list_all is_digit port
         then (if nat_of_digits port \<le> 65535 then Inr (Some (int (nat_of_digits port)))
               else Inl (ValueError ''Port out of range 0-65535''))
         else Inl (ValueError ''Port could not be cast to integer value''))"

definition truthy_text :: "string option \<Rightarrow> bool" where
  "truthy_text s \<longleftrightarrow> s \<noteq> None \<and> s \<noteq> Some []"

definition naver_url_error :: "'a result" where
  "naver_url_error = Inl (app_error ''NAVER_POST_URL_INVALID'' 422)"

text \<open>The path of \<open>urlsplit\<close> here still holds the query: a question mark in it is a non-empty query,
  except as its last character.\<close>

definition validate_naver_post :: "(string \<Rightarrow> bool) \<Rightarrow> string \<Rightarrow> string \<Rightarrow> string result" where
  "validate_naver_post bracket_ok v post_id =
     bind_result (urlsplit bracket_ok (strip v)) (\<lambda>parsed.
     let (path, _, query) = partition_on CHR ''?'' (url_path parsed);
         segments = filter (\<lambda>s. s \<noteq> []) (split_on CHR ''/'' path)
     in if url_scheme parsed \<noteq> ''https'' \<or> url_hostname parsed \<noteq> Some ''blog.naver.com'' then naver_url_error
        else if truthy_text (url_username parsed) \<or> truthy_text (url_password parsed) then naver_url_error
        else bind_result (url_port parsed) (\<lambda>port.
        if port \<noteq> None \<and> port \<noteq> Some 443 then naver_url_error
        else if query \<noteq> [] \<or> url_fragment parsed \<noteq> [] then naver_url_error
        else if \<not> POST_ID post_id then Inl (app_error ''NAVER_POST_ID_INVALID'' 422)
        else if length segments \<noteq> 2 \<or> \<not> NAVER_BLOG_ID (segments ! 0) \<or> segments ! 1 \<noteq> post_id
        then Inl (app_error ''NAVER_POST_ID_MISMATCH'' 422)
        else Inr (''https://blog.naver.com/'' @ join_with ''/'' segments)))"

end
