(* ===== verification/Publish_Models.thy ===== *)
theory Publish_Models
  imports Publish_Rules Content_Models
begin

text \<open>
  Tables of publishing (\<^verbatim>\<open>domain/publishing/models.py\<close>), the media rows a publication reads
  (\<^verbatim>\<open>domain/media/models.py\<close>) and the tenant-filtered readers of \<^verbatim>\<open>repository.py\<close>. \<open>publish_db\<close> extends
  the tables of contents and approvals.

  Times are instants (UTC); \<open>scheduled_local\<close> is a wall clock reading. A JSON text of an instant
  (\<open>isoformat\<close>) is the JSON value \<open>JTime\<close>, so equal texts are equal instants. The display text of an error
  (\<open>error_detail\<close>) is not kept, and server-side row timestamps are left out, except where an ordering reads them: a table lists its rows in the order of insertion.
\<close>

section \<open>Connections and policies\<close>

record publishing_connection =
  pc_id :: uuid
  pc_workspace_id :: uuid
  pc_provider :: PublishingProvider
  pc_name :: string
  pc_site_url :: string
  pc_site_timezone :: string
  pc_remote_site_id :: "string option"
  pc_official_contract :: string
  pc_api_version :: string
  pc_api_deprecation_at :: "time option"
  pc_credential_expires_at :: "time option"
  pc_credential_expiry_notified_for :: "time option"
  pc_credential_secret_ref :: string
  pc_state :: ConnectionState
  pc_capabilities :: "string list"
  pc_safe_config_json :: "(string \<times> json) list"
  pc_site_settings_snapshot :: "(string \<times> json) list"
  pc_site_settings_hash :: "string option"
  pc_last_diagnosed_at :: "time option"
  pc_last_success_at :: "time option"
  pc_last_error_code :: "string option"
  pc_disconnected_at :: "time option"
  pc_created_by :: uuid
  pc_lock_version :: int

record connection_job =
  cn_id :: uuid
  cn_workspace_id :: uuid
  cn_connection_id :: uuid
  cn_requested_by :: uuid
  cn_operation :: ConnectionOperation
  cn_state :: JobState
  cn_idempotency_key :: string
  cn_request_hash :: string
  cn_expected_lock_version :: int
  cn_attempt :: int
  cn_max_attempts :: int
  cn_checks_json :: "json list"
  cn_safe_result_json :: "(string \<times> json) list option"
  cn_error_code :: "string option"
  cn_retry_after_seconds :: "int option"
  cn_started_at :: "time option"
  cn_finished_at :: "time option"

record publication_policy =
  pp_id :: uuid
  pp_workspace_id :: uuid
  pp_version :: int
  pp_daily_quotas :: "(string \<times> int) list"
  pp_max_schedule_days :: int
  pp_allowed_providers :: "PublishingProvider list"
  pp_require_media_license :: bool
  pp_allowed_custom_contracts :: "string list"
  pp_naver_policy_version :: string
  pp_snapshot_json :: json
  pp_snapshot_hash :: string
  pp_created_by :: uuid

record quota_usage =
  qu_id :: uuid
  qu_workspace_id :: uuid
  qu_connection_id :: uuid
  qu_policy_id :: uuid
  qu_provider :: PublishingProvider
  qu_channel :: string
  qu_local_day :: int
  qu_timezone_name :: string
  qu_quota_limit :: int
  qu_reserved_count :: int
  qu_completed_count :: int
  qu_lock_version :: int

section \<open>Jobs, steps and attempts\<close>

record publish_job =
  pj_id :: uuid
  pj_workspace_id :: uuid
  pj_requested_by :: uuid
  pj_operation :: PublishOperation
  pj_state :: JobState
  pj_content_id :: uuid
  pj_content_version_id :: uuid
  pj_content_hash :: string
  pj_connection_id :: uuid
  pj_approval_request_id :: uuid
  pj_approval_snapshot_hash :: string
  pj_policy_id :: uuid
  pj_policy_snapshot :: json
  pj_policy_snapshot_hash :: string
  pj_target_published_post_id :: "uuid option"
  pj_visibility :: PublishVisibility
  pj_scheduled_at_utc :: "time option"
  pj_scheduled_local :: "time option"
  pj_site_timezone :: string
  pj_dst_fold :: "nat option"
  pj_idempotency_key :: string
  pj_request_hash :: string
  pj_idempotency_marker :: string
  pj_input_snapshot :: "(string \<times> json) list"
  pj_input_snapshot_hash :: string
  pj_attempt :: int
  pj_max_attempts :: int
  pj_cancel_requested_at :: "time option"
  pj_cancelled_at :: "time option"
  pj_started_at :: "time option"
  pj_finished_at :: "time option"
  pj_retry_after_seconds :: "int option"
  pj_quota_completed_at :: "time option"
  pj_quota_released_at :: "time option"
  pj_error_code :: "string option"
  pj_result_json :: "(string \<times> json) list option"
  pj_lock_version :: int

record saga_step =
  ss_id :: uuid
  ss_workspace_id :: uuid
  ss_job_id :: uuid
  ss_sequence :: int
  ss_step_kind :: SagaStepKind
  ss_state :: StepState
  ss_attempt :: int
  ss_request_metadata :: "(string \<times> json) list"
  ss_response_metadata :: "(string \<times> json) list"
  ss_error_code :: "string option"
  ss_started_at :: "time option"
  ss_finished_at :: "time option"
  ss_lock_version :: int

record publish_attempt =
  pa_id :: uuid
  pa_workspace_id :: uuid
  pa_job_id :: uuid
  pa_step_id :: uuid
  pa_attempt_number :: int
  pa_provider_request_id :: "string option"
  pa_method :: string
  pa_endpoint_path :: string
  pa_request_metadata :: "(string \<times> json) list"
  pa_response_status :: "int option"
  pa_response_metadata :: "(string \<times> json) list"
  pa_retry_class :: RetryClass
  pa_error_code :: "string option"
  pa_remote_id :: "string option"

section \<open>Posts, snapshots and media bindings\<close>

record published_post =
  pt_id :: uuid
  pt_workspace_id :: uuid
  pt_content_id :: uuid
  pt_content_version_id :: uuid
  pt_content_hash :: string
  pt_approval_request_id :: uuid
  pt_connection_id :: "uuid option"
  pt_created_by_job_id :: "uuid option"
  pt_naver_package_id :: "uuid option"
  pt_provider :: PublishingProvider
  pt_remote_site_id :: "string option"
  pt_remote_id :: string
  pt_remote_url :: string
  pt_state :: PublishedPostState
  pt_remote_etag :: "string option"
  pt_remote_hash :: string
  pt_remote_updated_at :: "time option"
  pt_local_snapshot_hash :: string
  pt_last_reconciled_at :: "time option"
  pt_conflict_json :: "(string \<times> json) list option"
  pt_deleted_at :: "time option"
  pt_lock_version :: int

record remote_snapshot =
  sn_id :: uuid
  sn_workspace_id :: uuid
  sn_published_post_id :: uuid
  sn_captured_by_job_id :: uuid
  sn_reason :: string
  sn_snapshot_json :: "(string \<times> json) list"
  sn_snapshot_hash :: string
  sn_remote_etag :: "string option"
  sn_remote_updated_at :: "time option"

record media_binding =
  mb_id :: uuid
  mb_workspace_id :: uuid
  mb_connection_id :: uuid
  mb_media_version_id :: uuid
  mb_media_content_hash :: string
  mb_remote_media_id :: string
  mb_remote_url :: string
  mb_uploaded_by_job_id :: uuid

record publishing_notification =
  pn_id :: uuid
  pn_workspace_id :: uuid
  pn_recipient_id :: uuid
  pn_publish_job_id :: "uuid option"
  pn_naver_package_id :: "uuid option"
  pn_notification_type :: string
  pn_payload_json :: "(string \<times> json) list"
  pn_due_at :: time
  pn_delivered_at :: "time option"

section \<open>Media\<close>

record media_asset =
  ma_id :: uuid
  ma_workspace_id :: uuid
  ma_name :: string
  ma_state :: string
  ma_deleted_at :: "time option"

record media_version =
  mv_id :: uuid
  mv_workspace_id :: uuid
  mv_asset_id :: uuid
  mv_object_ref :: string
  mv_content_hash :: string
  mv_mime_type :: string

record media_license =
  ml_id :: uuid
  ml_workspace_id :: uuid
  ml_asset_id :: uuid
  ml_state :: string
  ml_current_revision_id :: "uuid option"
  ml_valid_until :: "time option"
  ml_revoked_at :: "time option"

record license_revision =
  lv_id :: uuid
  lv_workspace_id :: uuid
  lv_asset_id :: uuid
  lv_state :: string
  lv_license_type :: string
  lv_commercial_allowed :: bool
  lv_editorial_allowed :: bool
  lv_allowed_channels :: "string list"
  lv_allowed_regions :: "string list"
  lv_attribution_required :: bool
  lv_attribution_text :: "string option"
  lv_valid_from :: "time option"
  lv_valid_until :: "time option"
  lv_snapshot_hash :: string

record media_usage =
  mu_id :: uuid
  mu_workspace_id :: uuid
  mu_content_version_id :: uuid
  mu_content_hash :: string
  mu_asset_id :: uuid
  mu_media_version_id :: uuid
  mu_license_revision_id :: uuid
  mu_placement_key :: string
  mu_channel :: string
  mu_usage_mode :: string
  mu_alt_text :: string
  mu_caption :: "string option"
  mu_attribution_text :: "string option"
  mu_rights_snapshot :: json
  mu_rights_snapshot_hash :: string

record publish_db = content_db +
  media_assets :: "media_asset list"
  media_versions :: "media_version list"
  media_licenses :: "media_license list"
  license_revisions :: "license_revision list"
  media_usages :: "media_usage list"
  connections :: "publishing_connection list"
  connection_jobs :: "connection_job list"
  policies :: "publication_policy list"
  quota_usages :: "quota_usage list"
  publish_jobs :: "publish_job list"
  saga_steps :: "saga_step list"
  publish_attempts :: "publish_attempt list"
  published_posts :: "published_post list"
  remote_snapshots :: "remote_snapshot list"
  media_bindings :: "media_binding list"
  publishing_notifications :: "publishing_notification list"

section \<open>Readers\<close>

definition publish_not_found :: "string \<Rightarrow> error" where
  "publish_not_found code = app_error (code @ ''_NOT_FOUND'') 404"

definition find_row :: "string \<Rightarrow> ('r \<Rightarrow> bool) \<Rightarrow> 'r list \<Rightarrow> 'r result" where
  "find_row code P rows =
     (case List.find P rows of None \<Rightarrow> Inl (publish_not_found code) | Some r \<Rightarrow> Inr r)"

definition find_connection ::
  "uuid \<Rightarrow> uuid \<Rightarrow> 'a publish_db_scheme \<Rightarrow> publishing_connection result" where
  "find_connection ws i db =
     find_row ''PUBLISHING_CONNECTION'' (\<lambda>c. pc_workspace_id c = ws \<and> pc_id c = i) (connections db)"

definition find_connection_job :: "uuid \<Rightarrow> uuid \<Rightarrow> 'a publish_db_scheme \<Rightarrow> connection_job result" where
  "find_connection_job ws i db =
     find_row ''PUBLISHING_CONNECTION_JOB'' (\<lambda>j. cn_workspace_id j = ws \<and> cn_id j = i) (connection_jobs db)"

definition find_policy :: "uuid \<Rightarrow> uuid \<Rightarrow> 'a publish_db_scheme \<Rightarrow> publication_policy result" where
  "find_policy ws i db =
     find_row ''PUBLISHING_POLICY'' (\<lambda>p. pp_workspace_id p = ws \<and> pp_id p = i) (policies db)"

definition latest_policy :: "uuid \<Rightarrow> 'a publish_db_scheme \<Rightarrow> publication_policy result" where
  "latest_policy ws db =
     (case sort_key (\<lambda>p. - pp_version p) (filter (\<lambda>p. pp_workspace_id p = ws) (policies db)) of
        [] \<Rightarrow> Inl (app_error ''PUBLISHING_POLICY_REQUIRED'' 409)
      | p # _ \<Rightarrow> Inr p)"

definition find_publish_job :: "uuid \<Rightarrow> uuid \<Rightarrow> 'a publish_db_scheme \<Rightarrow> publish_job result" where
  "find_publish_job ws i db =
     find_row ''PUBLISH_JOB'' (\<lambda>j. pj_workspace_id j = ws \<and> pj_id j = i) (publish_jobs db)"

definition find_published_post :: "uuid \<Rightarrow> uuid \<Rightarrow> 'a publish_db_scheme \<Rightarrow> published_post result" where
  "find_published_post ws i db =
     find_row ''PUBLISHED_POST'' (\<lambda>p. pt_workspace_id p = ws \<and> pt_id p = i) (published_posts db)"

definition find_remote_snapshot :: "uuid \<Rightarrow> uuid \<Rightarrow> 'a publish_db_scheme \<Rightarrow> remote_snapshot result" where
  "find_remote_snapshot ws i db =
     find_row ''REMOTE_SNAPSHOT'' (\<lambda>s. sn_workspace_id s = ws \<and> sn_id s = i) (remote_snapshots db)"

lemma find_row_Inr: "find_row code P rows = Inr r \<Longrightarrow> r \<in> set rows \<and> P r"
  by (auto simp: find_row_def split: option.splits dest!: find_SomeD)

section \<open>Writing rows\<close>

text \<open>The unit of work. The session does not flush before a query (\<^verbatim>\<open>autoflush=False\<close>): a query filters the
  rows as of the last flush, \<open>base\<close>, while the objects it returns carry the changes made since. A flush
  writes every changed row, with the next \<open>lock_version\<close> where the table has one, and inserts the new rows.\<close>

definition flush_rows :: "('r \<Rightarrow> uuid) \<Rightarrow> ('r \<Rightarrow> 'r) \<Rightarrow> 'r list \<Rightarrow> 'r list \<Rightarrow> 'r list" where
  "flush_rows key bump base rows =
     map (\<lambda>r. case List.find (\<lambda>b. key b = key r) base of
                None \<Rightarrow> r | Some b \<Rightarrow> if b = r then r else bump r) rows"

definition update_publish_job ::
  "uuid \<Rightarrow> (publish_job \<Rightarrow> publish_job) \<Rightarrow> 'a publish_db_scheme \<Rightarrow> 'a publish_db_scheme" where
  "update_publish_job i f db = db\<lparr>publish_jobs := update_where (\<lambda>j. pj_id j = i) f (publish_jobs db)\<rparr>"

definition update_saga_step ::
  "uuid \<Rightarrow> (saga_step \<Rightarrow> saga_step) \<Rightarrow> 'a publish_db_scheme \<Rightarrow> 'a publish_db_scheme" where
  "update_saga_step i f db = db\<lparr>saga_steps := update_where (\<lambda>s. ss_id s = i) f (saga_steps db)\<rparr>"

definition update_post ::
  "uuid \<Rightarrow> (published_post \<Rightarrow> published_post) \<Rightarrow> 'a publish_db_scheme \<Rightarrow> 'a publish_db_scheme" where
  "update_post i f db = db\<lparr>published_posts := update_where (\<lambda>p. pt_id p = i) f (published_posts db)\<rparr>"

definition update_quota ::
  "uuid \<Rightarrow> (quota_usage \<Rightarrow> quota_usage) \<Rightarrow> 'a publish_db_scheme \<Rightarrow> 'a publish_db_scheme" where
  "update_quota i f db = db\<lparr>quota_usages := update_where (\<lambda>u. qu_id u = i) f (quota_usages db)\<rparr>"

definition update_connection ::
  "uuid \<Rightarrow> (publishing_connection \<Rightarrow> publishing_connection) \<Rightarrow> 'a publish_db_scheme \<Rightarrow> 'a publish_db_scheme"
  where
  "update_connection i f db = db\<lparr>connections := update_where (\<lambda>c. pc_id c = i) f (connections db)\<rparr>"

definition update_connection_job ::
  "uuid \<Rightarrow> (connection_job \<Rightarrow> connection_job) \<Rightarrow> 'a publish_db_scheme \<Rightarrow> 'a publish_db_scheme" where
  "update_connection_job i f db =
     db\<lparr>connection_jobs := update_where (\<lambda>j. cn_id j = i) f (connection_jobs db)\<rparr>"

definition add_notification ::
  "publishing_notification \<Rightarrow> 'a publish_db_scheme \<Rightarrow> 'a publish_db_scheme" where
  "add_notification n db = db\<lparr>publishing_notifications := publishing_notifications db @ [n]\<rparr>"

text \<open>The constraints of \<^verbatim>\<open>models.py\<close> a run can violate. A null column never equals another.\<close>

definition unique_rows :: "('r \<Rightarrow> 'k option) \<Rightarrow> 'r list \<Rightarrow> bool" where
  "unique_rows key rows \<longleftrightarrow> distinct (filter (\<lambda>k. k \<noteq> None) (map key rows))"

definition publish_constraints :: "'a publish_db_scheme \<Rightarrow> bool" where
  "publish_constraints db \<longleftrightarrow>
     unique_rows (\<lambda>p. map_option (\<lambda>c. (pt_workspace_id p, c, pt_remote_id p)) (pt_connection_id p))
       (published_posts db)
     \<and> unique_rows (\<lambda>p. map_option (\<lambda>j. (pt_workspace_id p, j)) (pt_created_by_job_id p)) (published_posts db)
     \<and> unique_rows (\<lambda>s. Some (sn_workspace_id s, sn_published_post_id s, sn_snapshot_hash s)) (remote_snapshots db)
     \<and> unique_rows (\<lambda>b. Some (mb_workspace_id b, mb_connection_id b, mb_media_version_id b, mb_media_content_hash b))
         (media_bindings db)
     \<and> unique_rows (\<lambda>b. Some (mb_workspace_id b, mb_connection_id b, mb_remote_media_id b)) (media_bindings db)
     \<and> unique_rows (\<lambda>a. Some (pa_workspace_id a, pa_job_id a, pa_step_id a, pa_attempt_number a))
         (publish_attempts db)
     \<and> unique_rows (\<lambda>s. Some (ss_workspace_id s, ss_job_id s, ss_sequence s)) (saga_steps db)
     \<and> list_all (\<lambda>u. 0 \<le> qu_reserved_count u \<and> 0 \<le> qu_completed_count u) (quota_usages db)"

text \<open>The columns that hold provider text have bounded lengths.\<close>

definition opt_within :: "nat \<Rightarrow> string option \<Rightarrow> bool" where
  "opt_within n s \<longleftrightarrow> (case s of None \<Rightarrow> True | Some t \<Rightarrow> length t \<le> n)"

definition publish_lengths :: "'a publish_db_scheme \<Rightarrow> bool" where
  "publish_lengths db \<longleftrightarrow>
     list_all (\<lambda>p. length (pt_remote_id p) \<le> 500 \<and> length (pt_remote_url p) \<le> 2048
       \<and> opt_within 500 (pt_remote_etag p) \<and> length (pt_remote_hash p) \<le> 64) (published_posts db)
     \<and> list_all (\<lambda>s. opt_within 500 (sn_remote_etag s) \<and> length (sn_snapshot_hash s) \<le> 64) (remote_snapshots db)
     \<and> list_all (\<lambda>b. length (mb_remote_media_id b) \<le> 500 \<and> length (mb_remote_url b) \<le> 2048) (media_bindings db)
     \<and> list_all (\<lambda>a. opt_within 500 (pa_provider_request_id a) \<and> length (pa_method a) \<le> 16
         \<and> length (pa_endpoint_path a) \<le> 1000 \<and> opt_within 120 (pa_error_code a) \<and> opt_within 500 (pa_remote_id a))
         (publish_attempts db)
     \<and> list_all (\<lambda>s. opt_within 120 (ss_error_code s)) (saga_steps db)
     \<and> list_all (\<lambda>j. opt_within 120 (pj_error_code j)) (publish_jobs db)"

definition flush_publish :: "'a publish_db_scheme \<Rightarrow> 'a publish_db_scheme \<Rightarrow> 'a publish_db_scheme result" where
  "flush_publish base db =
     (if \<not> publish_lengths db then Inl (DataError ''value too long'')
      else if \<not> publish_constraints db then Inl (IntegrityError ''publishing'')
      else Inr (db\<lparr>
        connections := flush_rows pc_id (\<lambda>c. c\<lparr>pc_lock_version := pc_lock_version c + 1\<rparr>) (connections base) (connections db),
        quota_usages := flush_rows qu_id (\<lambda>u. u\<lparr>qu_lock_version := qu_lock_version u + 1\<rparr>) (quota_usages base) (quota_usages db),
        publish_jobs := flush_rows pj_id (\<lambda>j. j\<lparr>pj_lock_version := pj_lock_version j + 1\<rparr>) (publish_jobs base) (publish_jobs db),
        saga_steps := flush_rows ss_id (\<lambda>s. s\<lparr>ss_lock_version := ss_lock_version s + 1\<rparr>) (saga_steps base) (saga_steps db),
        published_posts := flush_rows pt_id (\<lambda>p. p\<lparr>pt_lock_version := pt_lock_version p + 1\<rparr>) (published_posts base) (published_posts db)\<rparr>))"

text \<open>\<open>PublishingRepository.flush\<close> turns an integrity error into a conflict. (A stale row cannot occur here:
  the run holds the locks on the rows it changes.)\<close>

definition repo_flush :: "string \<Rightarrow> 'a publish_db_scheme \<Rightarrow> 'a publish_db_scheme \<Rightarrow> 'a publish_db_scheme result" where
  "repo_flush resource base db =
     (case flush_publish base db of
        Inl (IntegrityError _) \<Rightarrow> Inl (AppError ''PUBLISHING_CONFLICT'' 409 [(''resource'', resource)] None)
      | r \<Rightarrow> r)"

end
