(* ===== verification/Publish_Readiness.thy ===== *)
theory Publish_Readiness
  imports Publish_Models Approval_Decisions
begin

text \<open>
  What a publication is made from, \<^verbatim>\<open>domain/publishing/references.py\<close>: the approved content of
  \<open>publish_ready\<close> together with the media placed in it, whose licenses must still allow the use.
\<close>

record ReadyMedia =
  rm_asset_id :: uuid
  rm_media_version_id :: uuid
  rm_placement_key :: string
  rm_object_ref :: string
  rm_content_hash :: string
  rm_mime_type :: string
  rm_filename :: string
  rm_alt_text :: string
  rm_caption :: "string option"
  rm_attribution_text :: "string option"
  rm_rights_snapshot_hash :: string

record PublishReadyContent =
  rc_content_id :: uuid
  rc_content_version_id :: uuid
  rc_content_hash :: string
  rc_title :: string
  rc_document :: "json list"
  rc_plain_text :: string
  rc_channel :: string
  rc_language :: string
  rc_tags :: "string list"
  rc_approval_request_id :: uuid
  rc_approval_snapshot_hash :: string
  rc_assessment_id :: uuid
  rc_assessment_hash :: string
  rc_quality_config_hash :: string
  rc_approved_by :: uuid
  rc_approved_at :: time
  rc_media :: "ReadyMedia list"

section \<open>Media rights\<close>

text \<open>The rows of the join: a usage with its asset, version, license and license revision.\<close>

type_synonym media_row = "media_usage \<times> media_asset \<times> media_version \<times> media_license \<times> license_revision"

definition opt_text :: "string option \<Rightarrow> json" where
  "opt_text t = (case t of None \<Rightarrow> JNull | Some s \<Rightarrow> JStr s)"

definition same_instant :: "json \<Rightarrow> time option \<Rightarrow> bool" where
  "same_instant v actual = (case actual of None \<Rightarrow> v = JNull | Some t \<Rightarrow> v = JTime t)"

definition rights_scalars :: "license_revision \<Rightarrow> (string \<times> json) list" where
  "rights_scalars lr =
     [(''license_revision_id'', JStr (uuid_str (lv_id lr))),
      (''license_type'', JStr (lv_license_type lr)), (''state'', JStr (lv_state lr)),
      (''commercial_allowed'', JBool (lv_commercial_allowed lr)),
      (''editorial_allowed'', JBool (lv_editorial_allowed lr)),
      (''allowed_channels'', JList (map JStr (lv_allowed_channels lr))),
      (''allowed_regions'', JList (map JStr (lv_allowed_regions lr))),
      (''attribution_required'', JBool (lv_attribution_required lr)),
      (''attribution_text'', opt_text (lv_attribution_text lr)),
      (''license_snapshot_hash'', JStr (lv_snapshot_hash lr))]"

definition rights_snapshot_matches ::
  "hash_fn \<Rightarrow> media_usage \<Rightarrow> license_revision \<Rightarrow> (string \<times> json) list \<Rightarrow> bool" where
  "rights_snapshot_matches H mu lr snapshot \<longleftrightarrow>
     H (JDict snapshot) = mu_rights_snapshot_hash mu
     \<and> list_all (\<lambda>(k, v). dict_get snapshot k = v) (rights_scalars lr)
     \<and> same_instant (dict_get snapshot ''valid_from'') (lv_valid_from lr)
     \<and> same_instant (dict_get snapshot ''valid_until'') (lv_valid_until lr)"

definition media_usable :: "hash_fn \<Rightarrow> time \<Rightarrow> string \<Rightarrow> media_row \<Rightarrow> bool" where
  "media_usable H now channel = (\<lambda>(mu, ma, mv, ml, lr).
     let snapshot = (case mu_rights_snapshot mu of JDict d \<Rightarrow> d | _ \<Rightarrow> []) in
     ma_state ma = ''READY'' \<and> ma_deleted_at ma = None \<and> ml_state ml = ''ACTIVE'' \<and> lv_state lr = ''ACTIVE''
     \<and> ml_revoked_at ml = None \<and> ml_current_revision_id ml = Some (lv_id lr)
     \<and> rights_snapshot_matches H mu lr snapshot
     \<and> (case ml_valid_until ml of None \<Rightarrow> True | Some t \<Rightarrow> now \<le> t)
     \<and> (case lv_valid_from lr of None \<Rightarrow> True | Some t \<Rightarrow> t \<le> now)
     \<and> (case lv_valid_until lr of None \<Rightarrow> True | Some t \<Rightarrow> now \<le> t)
     \<and> (lv_allowed_channels lr = [] \<or> channel \<in> set (lv_allowed_channels lr))
     \<and> (mu_usage_mode mu \<noteq> ''COMMERCIAL'' \<or> lv_commercial_allowed lr)
     \<and> (mu_usage_mode mu \<noteq> ''EDITORIAL'' \<or> lv_editorial_allowed lr))"

definition media_rows ::
  "uuid \<Rightarrow> uuid \<Rightarrow> string \<Rightarrow> string \<Rightarrow> 'a publish_db_scheme \<Rightarrow> media_row list" where
  "media_rows ws version_id content_hash channel db =
     concat (map (\<lambda>mu.
       concat (map (\<lambda>ma. concat (map (\<lambda>mv. concat (map (\<lambda>ml. map (\<lambda>lr. (mu, ma, mv, ml, lr))
           (filter (\<lambda>lr. lv_workspace_id lr = ws \<and> lv_asset_id lr = mu_asset_id mu
              \<and> lv_id lr = mu_license_revision_id mu) (license_revisions db)))
         (filter (\<lambda>ml. ml_workspace_id ml = ws \<and> ml_asset_id ml = mu_asset_id mu) (media_licenses db))))
         (filter (\<lambda>mv. mv_workspace_id mv = ws \<and> mv_asset_id mv = mu_asset_id mu
            \<and> mv_id mv = mu_media_version_id mu) (media_versions db))))
         (filter (\<lambda>ma. ma_workspace_id ma = ws \<and> ma_id ma = mu_asset_id mu) (media_assets db))))
       (sort_key (\<lambda>mu. (mu_placement_key mu, mu_id mu))
         (filter (\<lambda>mu. mu_workspace_id mu = ws \<and> mu_content_version_id mu = version_id
            \<and> mu_content_hash mu = content_hash \<and> mu_channel mu = channel) (media_usages db))))"

definition ready_media :: "media_row \<Rightarrow> ReadyMedia" where
  "ready_media = (\<lambda>(mu, ma, mv, ml, lr).
     \<lparr>rm_asset_id = mu_asset_id mu, rm_media_version_id = mu_media_version_id mu,
      rm_placement_key = mu_placement_key mu, rm_object_ref = mv_object_ref mv,
      rm_content_hash = mv_content_hash mv, rm_mime_type = mv_mime_type mv, rm_filename = ma_name ma,
      rm_alt_text = mu_alt_text mu, rm_caption = mu_caption mu,
      rm_attribution_text = mu_attribution_text mu,
      rm_rights_snapshot_hash = mu_rights_snapshot_hash mu\<rparr>)"

definition resolve_media ::
  "hash_fn \<Rightarrow> time \<Rightarrow> uuid \<Rightarrow> uuid \<Rightarrow> string \<Rightarrow> string \<Rightarrow> bool \<Rightarrow> 'a publish_db_scheme
   \<Rightarrow> ReadyMedia list result" where
  "resolve_media H now ws version_id content_hash channel require_media_license db =
     (let rows = media_rows ws version_id content_hash channel db;
          failures = (if require_media_license then filter (\<lambda>r. \<not> media_usable H now channel r) rows else [])
      in if failures \<noteq> []
         then Inl (AppError ''PUBLISH_MEDIA_LICENSE_NOT_READY'' 409
                (map (\<lambda>r. (''placement_key'', mu_placement_key (fst r))) failures) None)
         else Inr (map ready_media rows))"

section \<open>Publish-ready content\<close>

definition approval_snapshot :: "approval_request \<Rightarrow> json" where
  "approval_snapshot a = JDict
     [(''approval_request_id'', JStr (uuid_str (ar_id a))),
      (''content_version_id'', opt_uuid (ar_approved_content_version_id a)),
      (''content_hash'', opt_text (ar_approved_content_hash a)),
      (''assessment_id'', JStr (uuid_str (ar_assessment_id a))),
      (''assessment_hash'', JStr (ar_assessment_hash a)),
      (''quality_config_hash'', JStr (ar_quality_config_hash a)),
      (''approval_stages_hash'', JStr (ar_approval_stages_hash a)),
      (''approved_by'', opt_uuid (ar_approved_by a)),
      (''approved_at'', case ar_approved_at a of None \<Rightarrow> JNull | Some t \<Rightarrow> JTime t)]"

definition ready_content ::
  "hash_fn \<Rightarrow> json list \<Rightarrow> content_item \<Rightarrow> content_version \<Rightarrow> approval_request \<Rightarrow> ReadyMedia list
   \<Rightarrow> PublishReadyContent" where
  "ready_content H document c v a media =
     \<lparr>rc_content_id = ct_id c, rc_content_version_id = cv_id v, rc_content_hash = cv_content_hash v,
      rc_title = cv_title v, rc_document = document, rc_plain_text = cv_plain_text v,
      rc_channel = ct_channel c, rc_language = ct_language c,
      rc_tags = (case ct_tags c of None \<Rightarrow> [] | Some ts \<Rightarrow> ts),
      rc_approval_request_id = ar_id a, rc_approval_snapshot_hash = H (approval_snapshot a),
      rc_assessment_id = ar_assessment_id a, rc_assessment_hash = ar_assessment_hash a,
      rc_quality_config_hash = ar_quality_config_hash a, rc_approved_by = the (ar_approved_by a),
      rc_approved_at = the (ar_approved_at a), rc_media = media\<rparr>"

definition resolve_publish_ready ::
  "hash_fn \<Rightarrow> time \<Rightarrow> uuid \<Rightarrow> uuid \<Rightarrow> uuid \<Rightarrow> string \<Rightarrow> uuid \<Rightarrow> string \<Rightarrow> bool \<Rightarrow> 'a publish_db_scheme
   \<Rightarrow> PublishReadyContent result" where
  "resolve_publish_ready H now ws content_id version_id content_hash request_id channel require_media_license db =
     bind_result (publish_ready ws content_id version_id content_hash request_id channel db) (\<lambda>(c, v, a).
     bind_result (resolve_media H now ws version_id content_hash channel require_media_license db) (\<lambda>media.
     Inr (ready_content H (stored_document db v) c v a media)))"

end
