(* ===== verification/Publish_Security.thy ===== *)
theory Publish_Security
  imports Publish_Rules
begin

text \<open>
  Outbound addresses and credential references, \<^verbatim>\<open>domain/publishing/security.py\<close>. What the standard library
  decides with tables of its own is an argument: the IDNA form of a host name, the verdict of \<^verbatim>\<open>ipaddress\<close>
  on a literal address (\<open>None\<close> when the text is no address) and on a bracketed host.
\<close>

record url_env =
  ue_bracket_ok :: "string \<Rightarrow> bool"
  ue_idna :: "string \<Rightarrow> string option"
  ue_public_ip :: "string \<Rightarrow> bool option"

definition BLOCKED_HOSTS :: "string list" where
  "BLOCKED_HOSTS = [''localhost'', ''metadata.google.internal'', ''instance-data'', ''metadata.azure.internal'']"

definition BLOCKED_SUFFIXES :: "string list" where
  "BLOCKED_SUFFIXES = [''.localhost'', ''.local'', ''.internal'', ''.home'', ''.lan'']"

definition SECRET_REF_PREFIXES :: "string list" where
  "SECRET_REF_PREFIXES = [''aws-sm://'', ''gcp-sm://'', ''azure-kv://'', ''vault://'', ''kms://'']"

definition starts_with :: "string \<Rightarrow> string \<Rightarrow> bool" where
  "starts_with p s \<longleftrightarrow> take (length p) s = p"

definition ends_with :: "string \<Rightarrow> string \<Rightarrow> bool" where
  "ends_with p s \<longleftrightarrow> length p \<le> length s \<and> drop (length s - length p) s = p"

record SafeSiteURL =
  su_normalized :: string
  su_hostname :: string
  su_port :: int

definition validate_site_url :: "url_env \<Rightarrow> string \<Rightarrow> bool \<Rightarrow> SafeSiteURL result" where
  "validate_site_url env v require_https =
     (if 2048 < length v then Inl (app_error ''PUBLISH_SITE_URL_TOO_LONG'' 422)
      else bind_result (urlsplit (ue_bracket_ok env) (strip v)) (\<lambda>parsed.
      let scheme = url_scheme parsed; invalid = Inl (app_error ''PUBLISH_SITE_URL_INVALID'' 422);
          private = Inl (app_error ''PUBLISH_SITE_PRIVATE'' 422);
          (path, _, query) = partition_on CHR ''?'' (url_path parsed)
      in if scheme \<noteq> ''https'' \<and> (require_https \<or> scheme \<noteq> ''http'')
         then Inl (app_error ''PUBLISH_SITE_URL_SCHEME'' 422)
         else if truthy_text (url_username parsed) \<or> truthy_text (url_password parsed)
                 \<or> \<not> truthy_text (url_hostname parsed) then invalid
         else if query \<noteq> [] \<or> url_fragment parsed \<noteq> [] then invalid
         else case (ue_idna env (rstrip (\<lambda>c. c = CHR ''.'') (the (url_hostname parsed))), url_port parsed) of
           (Some ascii, Inr port_arg) \<Rightarrow>
             let hostname = lower ascii; expected = (if scheme = ''https'' then 443 else 80 :: int);
                 port = (case port_arg of None \<Rightarrow> expected | Some p \<Rightarrow> if p = 0 then expected else p)
             in if hostname \<in> set BLOCKED_HOSTS \<or> list_ex (\<lambda>x. ends_with x hostname) BLOCKED_SUFFIXES then private
                else if ue_public_ip env hostname = Some False then private
                else if port \<noteq> expected then Inl (app_error ''PUBLISH_SITE_PORT'' 422)
                else let netloc = (if CHR '':'' \<in> set hostname then ''['' @ hostname @ '']'' else hostname)
                     in Inr \<lparr>su_normalized = scheme @ ''://'' @ netloc @ rstrip (\<lambda>c. c = CHR ''/'') path,
                          su_hostname = hostname, su_port = port\<rparr>
         | _ \<Rightarrow> invalid))"

text \<open>Every address the host resolves to must be public; what is no address at all raises.\<close>

fun check_addresses :: "url_env \<Rightarrow> string list \<Rightarrow> bool result" where
  "check_addresses env [] = Inr True"
| "check_addresses env (a # as) =
     (case ue_public_ip env a of
        None \<Rightarrow> Inl (ValueError ''does not appear to be an IPv4 or IPv6 address'')
      | Some public \<Rightarrow> if public then check_addresses env as else Inr False)"

definition validate_resolved_addresses :: "url_env \<Rightarrow> string list \<Rightarrow> unit result" where
  "validate_resolved_addresses env addresses =
     (let blocked = Inl (app_error ''PUBLISH_DNS_REBINDING_BLOCKED'' 422)
      in if addresses = [] then blocked
         else bind_result (check_addresses env addresses) (\<lambda>ok. if ok then Inr () else blocked))"

definition validate_secret_ref :: "string \<Rightarrow> string result" where
  "validate_secret_ref v =
     (let normalized = strip v; invalid = Inl (app_error ''PUBLISH_SECRET_REF_INVALID'' 422)
      in if \<not> list_ex (\<lambda>p. starts_with p normalized) SECRET_REF_PREFIXES \<or> 512 < length normalized then invalid
         else if list_ex py_isspace normalized then invalid
         else Inr normalized)"

end
