(* ===== verification/Publish_Service.thy ===== *)
theory Publish_Service
  imports Publish_Readiness Publish_Security
begin

text \<open>
  The request side of publishing, \<^verbatim>\<open>domain/publishing/service.py\<close>: policies, connections, and the operations
  that validate a request, take a snapshot of its input, reserve the daily quota and enqueue a durable job.
  None of them calls a provider.

  \<open>publish_env\<close> bundles what the service gets from outside: the content hash, the clock, the zone
  database, the text of a float, and the address checks.
\<close>

record publish_env =
  ev_hash :: hash_fn
  ev_now :: time
  ev_zones :: zone_db
  ev_other :: "json \<Rightarrow> string"
  ev_url :: url_env

section \<open>Shared checks\<close>

definition version_conflict :: "string \<Rightarrow> string \<Rightarrow> int \<Rightarrow> int \<Rightarrow> error" where
  "version_conflict code resource expected actual = AppError code 409
     [(resource, ''expected='' @ int_str expected @ '',actual='' @ int_str actual)] None"

definition assert_expected_version :: "string \<Rightarrow> int \<Rightarrow> int \<Rightarrow> unit result" where
  "assert_expected_version resource expected actual =
     ensure (expected = actual) (version_conflict ''VERSION_CONFLICT'' resource expected actual)"

definition assert_row_lock :: "string \<Rightarrow> int \<Rightarrow> int \<Rightarrow> unit result" where
  "assert_row_lock resource expected actual =
     ensure (expected = actual) (version_conflict ''OPTIMISTIC_LOCK_CONFLICT'' resource expected actual)"

definition assert_same_request :: "string \<Rightarrow> string \<Rightarrow> unit result" where
  "assert_same_request actual expected =
     ensure (actual = expected) (app_error ''IDEMPOTENCY_KEY_REUSED'' 409)"

definition assert_connection_active :: "publishing_connection \<Rightarrow> unit result" where
  "assert_connection_active c =
     ensure (pc_state c = ConnectionState.ACTIVE)
       (AppError ''PUBLISH_CONNECTION_NOT_ACTIVE'' 409 [(''state'', connection_state_value (pc_state c))] None)"

primrec required_capability :: "PublishVisibility \<Rightarrow> string" where
  "required_capability PublishVisibility.DRAFT = ''draft''"
| "required_capability PublishVisibility.PUBLISH = ''publish''"
| "required_capability PublishVisibility.SCHEDULED = ''future''"
| "required_capability PublishVisibility.PENDING_REVIEW = ''draft''"
| "required_capability PublishVisibility.PRIVATE = ''publish''"

definition assert_publish_capability :: "publishing_connection \<Rightarrow> PublishVisibility \<Rightarrow> unit result" where
  "assert_publish_capability c visibility =
     (if pc_provider c = PublishingProvider.BLOGGER
         \<and> visibility \<notin> {PublishVisibility.DRAFT, PublishVisibility.PUBLISH, PublishVisibility.SCHEDULED}
      then Inl (app_error ''BLOGGER_VISIBILITY_UNSUPPORTED'' 422)
      else if pc_provider c = PublishingProvider.GHOST \<and> visibility = PublishVisibility.PRIVATE
      then Inl (app_error ''GHOST_PRIVATE_VISIBILITY_UNSUPPORTED'' 422)
      else ensure (required_capability visibility \<in> set (pc_capabilities c))
        (AppError ''PUBLISH_CAPABILITY_MISSING'' 403 [(''capability'', required_capability visibility)] None))"

definition assert_provider_policy :: "publication_policy \<Rightarrow> publishing_connection \<Rightarrow> unit result" where
  "assert_provider_policy policy c =
     (if pc_provider c \<notin> set (pp_allowed_providers policy) then Inl (app_error ''PUBLISH_PROVIDER_NOT_ALLOWED'' 403)
      else ensure (pc_provider c \<noteq> PublishingProvider.CUSTOMER_CMS
          \<or> pc_official_contract c \<in> set (pp_allowed_custom_contracts policy))
        (app_error ''CUSTOMER_CMS_CONTRACT_NOT_ALLOWED'' 403))"

definition assert_remote_expectations ::
  "published_post \<Rightarrow> string option \<Rightarrow> string \<Rightarrow> time option \<Rightarrow> unit result" where
  "assert_remote_expectations post expected_etag expected_hash expected_updated_at =
     (if expected_hash \<noteq> pt_remote_hash post then Inl (app_error ''REMOTE_SNAPSHOT_CONFLICT'' 409)
      else if expected_etag \<noteq> None \<and> expected_etag \<noteq> pt_remote_etag post
      then Inl (app_error ''REMOTE_ETAG_CONFLICT'' 409)
      else if expected_updated_at \<noteq> None \<and> expected_updated_at \<noteq> pt_remote_updated_at post
      then Inl (app_error ''REMOTE_UPDATED_AT_CONFLICT'' 409) else Inr ())"

definition publish_record ::
  "principal \<Rightarrow> time \<Rightarrow> string \<Rightarrow> string \<Rightarrow> uuid \<Rightarrow> (string \<times> json) list \<Rightarrow> 'a publish_db_scheme
   \<Rightarrow> 'a publish_db_scheme" where
  "publish_record p now action target_type target_id details db =
     add_outbox_event (Some (workspace_id p)) target_type (uuid_str target_id) action OUTBOX_SCHEMA_VERSION
       (JDict (merge_dict [(''workspace_id'', JStr (uuid_str (workspace_id p))),
         (''actor_id'', JStr (uuid_str (subject_id p)))] (redact_dict details))) now
       (append_audit_log (Some (workspace_id p)) (Some (subject_id p)) action target_type (uuid_str target_id)
         (Some (JDict (redact_dict details))) None now db)"

section \<open>Policies\<close>

record publication_policy_create =
  py_expected_previous_version :: int
  py_daily_quotas :: "(string \<times> int) list"
  py_max_schedule_days :: int
  py_allowed_providers :: "PublishingProvider list"
  py_require_media_license :: bool
  py_allowed_custom_contracts :: "string list"
  py_naver_policy_version :: string

definition valid_policy_create :: "publication_policy_create \<Rightarrow> bool" where
  "valid_policy_create d \<longleftrightarrow> 0 \<le> py_expected_previous_version d
     \<and> py_daily_quotas d \<noteq> [] \<and> length (py_daily_quotas d) \<le> 1000 \<and> distinct (map fst (py_daily_quotas d))
     \<and> list_all (\<lambda>kv. 1 \<le> snd kv) (py_daily_quotas d)
     \<and> 1 \<le> py_max_schedule_days d \<and> py_max_schedule_days d \<le> 3650
     \<and> py_allowed_providers d \<noteq> [] \<and> distinct (py_allowed_providers d)
     \<and> length (py_allowed_custom_contracts d) \<le> 100 \<and> distinct (py_allowed_custom_contracts d)
     \<and> py_naver_policy_version d \<noteq> [] \<and> length (py_naver_policy_version d) \<le> 80"

definition policy_snapshot :: "int \<Rightarrow> publication_policy_create \<Rightarrow> json" where
  "policy_snapshot version d = JDict
     [(''version'', JInt version),
      (''daily_quotas'', JDict (map (\<lambda>(k, v). (k, JInt v)) (sort_key fst (py_daily_quotas d)))),
      (''max_schedule_days'', JInt (py_max_schedule_days d)),
      (''allowed_providers'',
       JList (map (\<lambda>x. JStr (provider_value x)) (sort_key provider_value (py_allowed_providers d)))),
      (''require_media_license'', JBool (py_require_media_license d)),
      (''allowed_custom_contracts'', JList (map JStr (sort (py_allowed_custom_contracts d)))),
      (''naver_policy_version'', JStr (py_naver_policy_version d))]"

definition latest_policy_version :: "uuid \<Rightarrow> 'a publish_db_scheme \<Rightarrow> int" where
  "latest_policy_version ws db =
     foldl max 0 (map pp_version (filter (\<lambda>p. pp_workspace_id p = ws) (policies db)))"

definition publishing_conflict :: "string \<Rightarrow> error" where
  "publishing_conflict resource = AppError ''PUBLISHING_CONFLICT'' 409 [(''resource'', resource)] None"

definition create_policy ::
  "publish_env \<Rightarrow> principal \<Rightarrow> publication_policy_create \<Rightarrow> 'a publish_db_scheme
   \<Rightarrow> (publication_policy \<times> 'a publish_db_scheme) result" where
  "create_policy env p d db =
     (let latest = latest_policy_version (workspace_id p) db;
          snapshot = policy_snapshot (latest + 1) d in
      bind_result (assert_expected_version ''publishing_policy'' (py_expected_previous_version d) latest) (\<lambda>_.
      let (i, db) = uuid4 db;
          policy = \<lparr>pp_id = i, pp_workspace_id = workspace_id p, pp_version = latest + 1,
            pp_daily_quotas = sort_key fst (py_daily_quotas d), pp_max_schedule_days = py_max_schedule_days d,
            pp_allowed_providers = sort_key provider_value (py_allowed_providers d),
            pp_require_media_license = py_require_media_license d,
            pp_allowed_custom_contracts = sort (py_allowed_custom_contracts d),
            pp_naver_policy_version = py_naver_policy_version d, pp_snapshot_json = snapshot,
            pp_snapshot_hash = ev_hash env snapshot, pp_created_by = subject_id p\<rparr>
      in if list_ex (\<lambda>q. pp_workspace_id q = workspace_id p \<and> pp_snapshot_hash q = pp_snapshot_hash policy) (policies db)
         then Inl (publishing_conflict ''publishing_policy'')
         else Inr (policy, publish_record p (ev_now env) ''publishing.policy.created'' ''publishing_policy'' i
           [(''version'', JInt (pp_version policy)), (''snapshot_hash'', JStr (pp_snapshot_hash policy))]
           (db\<lparr>policies := policies db @ [policy]\<rparr>))))"

section \<open>Connections\<close>

record connection_create =
  ck_provider :: PublishingProvider
  ck_name :: string
  ck_site_url :: string
  ck_site_timezone :: string
  ck_remote_site_id :: "string option"
  ck_official_contract :: string
  ck_api_version :: string
  ck_api_deprecation_at :: "time option"
  ck_credential_secret_ref :: string
  ck_safe_config :: "(string \<times> json) list"

text \<open>The number of connections the plan of a workspace allows comes from its entitlement resolver.\<close>

type_synonym connection_entitlement = "uuid \<Rightarrow> int result"

definition fail_closed_entitlement :: connection_entitlement where
  "fail_closed_entitlement ws = Inl (app_error ''PUBLISH_CONNECTION_ENTITLEMENT_REQUIRED'' 409)"

definition open_connections :: "uuid \<Rightarrow> 'a publish_db_scheme \<Rightarrow> nat" where
  "open_connections ws db =
     length (filter (\<lambda>c. pc_workspace_id c = ws \<and> pc_state c \<noteq> ConnectionState.DISCONNECTED) (connections db))"

definition assert_connection_limit ::
  "connection_entitlement \<Rightarrow> uuid \<Rightarrow> 'a publish_db_scheme \<Rightarrow> unit result" where
  "assert_connection_limit entitlement ws db =
     bind_result (entitlement ws) (\<lambda>limit.
     if limit < 1 then Inl (app_error ''PUBLISH_CONNECTION_ENTITLEMENT_INVALID'' 409)
     else let current = int (open_connections ws db)
          in if limit \<le> current
             then Inl (AppError ''PUBLISH_CONNECTION_PLAN_LIMIT'' 409 []
                    (Some (JDict [(''limit'', JInt limit), (''active_connections'', JInt current)])))
             else Inr ())"

definition new_connection :: "principal \<Rightarrow> connection_create \<Rightarrow> uuid \<Rightarrow> string \<Rightarrow> string \<Rightarrow> publishing_connection"
  where
  "new_connection p d i site_url secret_ref =
     \<lparr>pc_id = i, pc_workspace_id = workspace_id p, pc_provider = ck_provider d, pc_name = ck_name d,
      pc_site_url = site_url, pc_site_timezone = ck_site_timezone d, pc_remote_site_id = ck_remote_site_id d,
      pc_official_contract = ck_official_contract d, pc_api_version = ck_api_version d,
      pc_api_deprecation_at = ck_api_deprecation_at d, pc_credential_expires_at = None,
      pc_credential_expiry_notified_for = None, pc_credential_secret_ref = secret_ref,
      pc_state = ConnectionState.PENDING, pc_capabilities = [], pc_safe_config_json = ck_safe_config d,
      pc_site_settings_snapshot = [], pc_site_settings_hash = None, pc_last_diagnosed_at = None,
      pc_last_success_at = None, pc_last_error_code = None, pc_disconnected_at = None,
      pc_created_by = subject_id p, pc_lock_version = 1\<rparr>"

definition create_connection ::
  "publish_env \<Rightarrow> connection_entitlement \<Rightarrow> principal \<Rightarrow> connection_create \<Rightarrow> 'a publish_db_scheme
   \<Rightarrow> (publishing_connection \<times> 'a publish_db_scheme) result" where
  "create_connection env entitlement p d db =
     bind_result (latest_policy (workspace_id p) db) (\<lambda>policy.
     if ck_provider d \<notin> set (pp_allowed_providers policy) then Inl (app_error ''PUBLISH_PROVIDER_NOT_ALLOWED'' 403)
     else if ck_provider d = PublishingProvider.CUSTOMER_CMS
             \<and> ck_official_contract d \<notin> set (pp_allowed_custom_contracts policy)
     then Inl (app_error ''CUSTOMER_CMS_CONTRACT_NOT_ALLOWED'' 422)
     else bind_result (assert_connection_limit entitlement (workspace_id p) db) (\<lambda>_.
     bind_result (validate_site_url (ev_url env) (ck_site_url d) True) (\<lambda>site.
     bind_result (ev_zones env (ck_site_timezone d)) (\<lambda>zone.
     if zone = None then Inl (app_error ''PUBLISH_TIMEZONE_INVALID'' 422)
     else bind_result (validate_secret_ref (ck_credential_secret_ref d)) (\<lambda>secret_ref.
     let (i, db) = uuid4 db; c = new_connection p d i (su_normalized site) secret_ref
     in if list_ex (\<lambda>x. pc_workspace_id x = workspace_id p \<and> pc_provider x = ck_provider d \<and> pc_name x = ck_name d)
             (connections db)
        then Inl (publishing_conflict ''publishing_connection'')
        else Inr (c, publish_record p (ev_now env) ''publishing.connection.created'' ''publishing_connection'' i
          [(''provider'', JStr (provider_value (pc_provider c))),
           (''official_contract'', JStr (pc_official_contract c)),
           (''site_hostname'', JStr (su_hostname site)), (''credential_ref_present'', JBool True)]
          (db\<lparr>connections := connections db @ [c]\<rparr>)))))))"

definition connection_request_hash :: "hash_fn \<Rightarrow> uuid \<Rightarrow> ConnectionOperation \<Rightarrow> int \<Rightarrow> string" where
  "connection_request_hash H connection_id operation expected_lock = H (JDict
     [(''connection_id'', JStr (uuid_str connection_id)),
      (''operation'', JStr (connection_operation_value operation)),
      (''expected_lock_version'', JInt expected_lock)])"

text \<open>The result is the job and whether this request created it.\<close>

definition create_connection_job ::
  "publish_env \<Rightarrow> principal \<Rightarrow> uuid \<Rightarrow> ConnectionOperation \<Rightarrow> int \<Rightarrow> string \<Rightarrow> 'a publish_db_scheme
   \<Rightarrow> ((connection_job \<times> bool) \<times> 'a publish_db_scheme) result" where
  "create_connection_job env p connection_id operation expected_lock key db =
     (let request_hash = connection_request_hash (ev_hash env) connection_id operation expected_lock in
      case List.find (\<lambda>j. cn_workspace_id j = workspace_id p \<and> cn_requested_by j = subject_id p
              \<and> cn_operation j = operation \<and> cn_idempotency_key j = key) (connection_jobs db) of
        Some existing \<Rightarrow>
          bind_result (assert_same_request (cn_request_hash existing) request_hash) (\<lambda>_. Inr ((existing, False), db))
      | None \<Rightarrow>
          bind_result (find_connection (workspace_id p) connection_id db) (\<lambda>c.
          bind_result (assert_row_lock ''publishing_connection'' expected_lock (pc_lock_version c)) (\<lambda>_.
          if pc_state c = ConnectionState.DISCONNECTED
          then Inl (app_error ''PUBLISH_CONNECTION_DISCONNECTED'' 409)
          else
            let (i, db) = uuid4 db;
                job = \<lparr>cn_id = i, cn_workspace_id = workspace_id p, cn_connection_id = pc_id c,
                  cn_requested_by = subject_id p, cn_operation = operation, cn_state = JobState.QUEUED,
                  cn_idempotency_key = key, cn_request_hash = request_hash,
                  cn_expected_lock_version = expected_lock, cn_attempt = 0, cn_max_attempts = 3,
                  cn_checks_json = [], cn_safe_result_json = None, cn_error_code = None,
                  cn_retry_after_seconds = None, cn_started_at = None,
                  cn_finished_at = None\<rparr>
            in Inr ((job, True), publish_record p (ev_now env) ''publishing.connection.job_queued''
                 ''publishing_connection_job'' i
                 [(''connection_id'', JStr (uuid_str (pc_id c))),
                  (''operation'', JStr (connection_operation_value operation))]
                 (db\<lparr>connection_jobs := connection_jobs db @ [job]\<rparr>)))))"

end
