(* ===== verification/Publish_Requests.thy ===== *)
theory Publish_Requests
  imports Publish_Service
begin

text \<open>
  The requests that create, cancel and retry a publish job, \<^verbatim>\<open>domain/publishing/service.py\<close>:
  \<open>create_publish_job\<close>, \<open>update_published_post\<close>, \<open>delete_published_post\<close>, \<open>reconcile_published_post\<close>,
  \<open>rollback_published_post\<close>, \<open>cancel_publish_job\<close> and \<open>retry_publish_job\<close>, with the daily quota and the
  steps of the saga.
\<close>

section \<open>Schedules and options\<close>

record schedule_request =
  sr_visibility :: PublishVisibility
  sr_scheduled_at_utc :: "supplied_time option"
  sr_scheduled_local :: "supplied_time option"
  sr_site_timezone :: "string option"
  sr_dst_fold :: "nat option"

record publish_schedule =
  sd_scheduled_datetime :: time
  sd_local_datetime :: time
  sd_dst_fold :: "nat option"
  sd_local_day :: int

definition local_reading :: "zone_db \<Rightarrow> string \<Rightarrow> time \<Rightarrow> (time \<times> nat) result" where
  "local_reading zones name t =
     (case zones name of Inl e \<Rightarrow> Inl e | Inr None \<Rightarrow> Inl KeyError | Inr (Some z) \<Rightarrow> Inr (snd z t))"

definition schedule_now :: "publish_env \<Rightarrow> publishing_connection \<Rightarrow> publish_schedule result" where
  "schedule_now env c =
     bind_result (local_reading (ev_zones env) (pc_site_timezone c) (ev_now env)) (\<lambda>(local, fold).
       Inr \<lparr>sd_scheduled_datetime = ev_now env, sd_local_datetime = local, sd_dst_fold = Some fold,
            sd_local_day = date_of local\<rparr>)"

definition days :: "int \<Rightarrow> time" where
  "days n = seconds (86400 * n)"

definition schedule_for ::
  "publish_env \<Rightarrow> publishing_connection \<Rightarrow> publication_policy \<Rightarrow> 'x schedule_request_scheme
   \<Rightarrow> publish_schedule result" where
  "schedule_for env c policy d =
     (if sr_visibility d \<noteq> PublishVisibility.SCHEDULED then schedule_now env c
      else if sr_site_timezone d \<noteq> Some (pc_site_timezone c)
      then Inl (app_error ''PUBLISH_SITE_TIMEZONE_MISMATCH'' 422)
      else case (sr_scheduled_at_utc d, sr_scheduled_local d) of
        (Some at_utc, Some at_local) \<Rightarrow>
          bind_result (validate_schedule (ev_zones env) at_utc at_local (pc_site_timezone c) (sr_dst_fold d)) (\<lambda>v.
          if vd_scheduled_at_utc v \<le> ev_now env then Inl (app_error ''PUBLISH_SCHEDULE_IN_PAST'' 422)
          else if ev_now env + days (pp_max_schedule_days policy) < vd_scheduled_at_utc v
          then Inl (app_error ''PUBLISH_SCHEDULE_TOO_FAR'' 422)
          else Inr \<lparr>sd_scheduled_datetime = vd_scheduled_at_utc v, sd_local_datetime = vd_scheduled_local v,
                 sd_dst_fold = Some (vd_fold v), sd_local_day = vd_local_day v\<rparr>)
      | _ \<Rightarrow> Inl (RuntimeError ''AssertionError''))"

record publish_options =
  op_slug :: "string option"
  op_excerpt :: "string option"
  op_category_ids :: "string list"
  op_category_names :: "string list"
  op_tags :: "string list"
  op_create_missing_taxonomy :: bool
  op_remote_author_id :: "string option"
  op_featured_media_placement :: "string option"
  op_canonical_url :: "string option"
  op_comment_status :: "string option"
  op_newsletter_id :: "string option"
  op_send_newsletter :: bool
  op_member_visibility :: "string option"
  op_tracking :: "(string \<times> string) list"
  op_allowed_meta :: "(string \<times> json) list"
  op_unsupported_block_policy :: string

definition text_list :: "string list \<Rightarrow> json" where
  "text_list xs = JList (map JStr xs)"

definition options_dict :: "publish_options \<Rightarrow> (string \<times> json) list" where
  "options_dict opts =
     [(''slug'', opt_text (op_slug opts)), (''excerpt'', opt_text (op_excerpt opts)),
      (''category_ids'', text_list (op_category_ids opts)), (''category_names'', text_list (op_category_names opts)),
      (''tags'', text_list (op_tags opts)), (''create_missing_taxonomy'', JBool (op_create_missing_taxonomy opts)),
      (''remote_author_id'', opt_text (op_remote_author_id opts)),
      (''featured_media_placement'', opt_text (op_featured_media_placement opts)),
      (''canonical_url'', opt_text (op_canonical_url opts)), (''comment_status'', opt_text (op_comment_status opts)),
      (''newsletter_id'', opt_text (op_newsletter_id opts)), (''send_newsletter'', JBool (op_send_newsletter opts)),
      (''member_visibility'', opt_text (op_member_visibility opts)),
      (''tracking'', JDict (map (\<lambda>(k, v). (k, JStr v)) (op_tracking opts))),
      (''allowed_meta'', JDict (op_allowed_meta opts)),
      (''unsupported_block_policy'', JStr (op_unsupported_block_policy opts))]"

text \<open>\<open>_validate_options\<close>, check by check.\<close>

definition check_meta :: "publish_options \<Rightarrow> publishing_connection \<Rightarrow> unit result" where
  "check_meta opts c =
     (let meta = map fst (op_allowed_meta opts);
          allowlist = (case dict_get (pc_safe_config_json c) ''rest_meta_allowlist'' of JList xs \<Rightarrow> xs | _ \<Rightarrow> []);
          extra = sort (filter (\<lambda>k. JStr k \<notin> set allowlist) (remdups meta))
      in if extra \<noteq> []
         then Inl (AppError ''PUBLISH_META_NOT_ALLOWLISTED'' 422
                (map (\<lambda>k. (''options.allowed_meta'', k)) extra) None)
         else if meta \<noteq> [] \<and> pc_provider c \<notin> {PublishingProvider.WORDPRESS, PublishingProvider.CUSTOMER_CMS}
         then Inl (app_error ''PUBLISH_META_UNSUPPORTED'' 422) else Inr ())"

definition option_capabilities :: "publish_options \<Rightarrow> (string \<times> string option \<times> string) list" where
  "option_capabilities opts =
     [(''remote_author_id'', op_remote_author_id opts, ''authors''),
      (''newsletter_id'', op_newsletter_id opts, ''newsletter''),
      (''member_visibility'', op_member_visibility opts, ''visibility''),
      (''featured_media_placement'', op_featured_media_placement opts, ''media'')]"

definition check_option_capabilities :: "publish_options \<Rightarrow> publishing_connection \<Rightarrow> unit result" where
  "check_option_capabilities opts c =
     (case List.find (\<lambda>(name, v, capability). truthy_text v \<and> capability \<notin> set (pc_capabilities c))
             (option_capabilities opts) of
        None \<Rightarrow> Inr ()
      | Some (name, _, capability) \<Rightarrow>
          Inl (AppError ''PUBLISH_OPTION_CAPABILITY_MISSING'' 403 [(''options.'' @ name, capability)] None))"

definition taxonomy_capability :: "PublishingProvider \<Rightarrow> string option" where
  "taxonomy_capability pr =
     (if pr = PublishingProvider.WORDPRESS \<or> pr = PublishingProvider.GHOST then Some ''tags''
      else if pr = PublishingProvider.BLOGGER then Some ''labels'' else None)"

definition check_taxonomy :: "publish_options \<Rightarrow> publishing_connection \<Rightarrow> unit result" where
  "check_taxonomy opts c =
     (if op_create_missing_taxonomy opts \<and> ''taxonomy_create'' \<notin> set (pc_capabilities c)
      then Inl (app_error ''PUBLISH_TAXONOMY_CREATE_PERMISSION_MISSING'' 403)
      else bind_result (check_option_capabilities opts c) (\<lambda>_.
      if op_tags opts \<noteq> [] \<and> (case taxonomy_capability (pc_provider c) of
             None \<Rightarrow> False | Some k \<Rightarrow> k \<notin> set (pc_capabilities c))
      then Inl (app_error ''PUBLISH_TAXONOMY_CAPABILITY_MISSING'' 403)
      else if (op_category_names opts \<noteq> [] \<or> op_category_ids opts \<noteq> []) \<and> ''categories'' \<notin> set (pc_capabilities c)
      then Inl (app_error ''PUBLISH_CATEGORY_CAPABILITY_MISSING'' 403)
      else if pc_provider c = PublishingProvider.BLOGGER
              \<and> (20 < length (op_tags opts) \<or> 200 < length (concat (op_tags opts)))
      then Inl (app_error ''BLOGGER_LABEL_LIMIT_EXCEEDED'' 422) else Inr ()))"

definition ghost_names :: "(json \<Rightarrow> string) \<Rightarrow> json list \<Rightarrow> string list" where
  "ghost_names other items =
     concat (map (\<lambda>v. case v of
         JDict d \<Rightarrow> [lower (case map_of d ''name'' of None \<Rightarrow> '''' | Some n \<Rightarrow> py_str other n)]
       | _ \<Rightarrow> []) items)"

definition ghost_ids :: "(json \<Rightarrow> string) \<Rightarrow> json list \<Rightarrow> string list" where
  "ghost_ids other items =
     concat (map (\<lambda>v. case v of
         JDict d \<Rightarrow> if py_truthy (dict_get d ''id'') then [py_str other (dict_get d ''id'')] else []
       | _ \<Rightarrow> []) items)"

definition check_ghost_tags :: "(json \<Rightarrow> string) \<Rightarrow> publish_options \<Rightarrow> publishing_connection \<Rightarrow> unit result" where
  "check_ghost_tags other opts c =
     (if op_tags opts = [] then Inr ()
      else case dict_get (pc_site_settings_snapshot c) ''tags'' of
        JList synced \<Rightarrow>
          let missing = filter (\<lambda>t. lower t \<notin> set (ghost_names other synced)) (op_tags opts)
          in if missing \<noteq> [] \<and> \<not> op_create_missing_taxonomy opts
             then Inl (AppError ''GHOST_TAG_NOT_FOUND'' 409 (map (\<lambda>t. (''options.tags'', t)) missing) None)
             else Inr ()
      | _ \<Rightarrow> Inl (app_error ''PUBLISH_SITE_SETTINGS_SYNC_REQUIRED'' 409))"

definition check_ghost_mapping ::
  "(json \<Rightarrow> string) \<Rightarrow> publishing_connection \<Rightarrow> string \<Rightarrow> string \<Rightarrow> string option \<Rightarrow> unit result" where
  "check_ghost_mapping other c option collection requested =
     (if \<not> truthy_text requested then Inr ()
      else case dict_get (pc_site_settings_snapshot c) collection of
        JList synced \<Rightarrow>
          ensure (the requested \<in> set (ghost_ids other synced))
            (AppError ''GHOST_REMOTE_MAPPING_NOT_FOUND'' 422 [(''options.'' @ option, the requested)] None)
      | _ \<Rightarrow> Inl (AppError ''PUBLISH_SITE_SETTINGS_SYNC_REQUIRED'' 409 [(''options.'' @ option, collection)] None))"

definition validate_options :: "publish_env \<Rightarrow> publish_options \<Rightarrow> publishing_connection \<Rightarrow> unit result" where
  "validate_options env opts c =
     bind_result (if truthy_text (op_canonical_url opts)
        then map_sum id (\<lambda>_. ()) (validate_site_url (ev_url env) (the (op_canonical_url opts)) True) else Inr ()) (\<lambda>_.
     bind_result (check_meta opts c) (\<lambda>_.
     bind_result (check_taxonomy opts c) (\<lambda>_.
     if pc_provider c \<noteq> PublishingProvider.GHOST then Inr ()
     else bind_result (check_ghost_tags (ev_other env) opts c) (\<lambda>_.
          bind_result (check_ghost_mapping (ev_other env) c ''remote_author_id'' ''authors'' (op_remote_author_id opts)) (\<lambda>_.
          check_ghost_mapping (ev_other env) c ''newsletter_id'' ''newsletters'' (op_newsletter_id opts))))))"

definition validate_featured_media :: "publish_options \<Rightarrow> PublishReadyContent \<Rightarrow> unit result" where
  "validate_featured_media opts ready =
     ensure (\<not> truthy_text (op_featured_media_placement opts)
         \<or> the (op_featured_media_placement opts) \<in> set (map rm_placement_key (rc_media ready)))
       (app_error ''PUBLISH_FEATURED_MEDIA_NOT_FOUND'' 422)"

definition media_manifest :: "PublishReadyContent \<Rightarrow> json" where
  "media_manifest ready = JList (map (\<lambda>m. JDict
     [(''placement_key'', JStr (rm_placement_key m)), (''asset_id'', JStr (uuid_str (rm_asset_id m))),
      (''media_version_id'', JStr (uuid_str (rm_media_version_id m))), (''object_ref'', JStr (rm_object_ref m)),
      (''content_hash'', JStr (rm_content_hash m)), (''mime_type'', JStr (rm_mime_type m)),
      (''filename'', JStr (rm_filename m)), (''alt_text'', JStr (rm_alt_text m)),
      (''caption'', opt_text (rm_caption m)), (''rights_snapshot_hash'', JStr (rm_rights_snapshot_hash m))])
     (rc_media ready))"

section \<open>Steps and quota\<close>

primrec initial_kinds :: "PublishOperation \<Rightarrow> SagaStepKind list" where
  "initial_kinds PublishOperation.CREATE =
     [SagaStepKind.VALIDATE_READINESS, SagaStepKind.UPLOAD_MEDIA, SagaStepKind.WRITE_POST,
      SagaStepKind.VERIFY_REMOTE, SagaStepKind.SNAPSHOT_REMOTE, SagaStepKind.NOTIFY]"
| "initial_kinds PublishOperation.UPDATE =
     [SagaStepKind.VALIDATE_READINESS, SagaStepKind.FETCH_REMOTE, SagaStepKind.SNAPSHOT_REMOTE,
      SagaStepKind.UPLOAD_MEDIA, SagaStepKind.WRITE_POST, SagaStepKind.VERIFY_REMOTE, SagaStepKind.NOTIFY]"
| "initial_kinds PublishOperation.DELETE =
     [SagaStepKind.FETCH_REMOTE, SagaStepKind.SNAPSHOT_REMOTE, SagaStepKind.WRITE_POST, SagaStepKind.NOTIFY]"
| "initial_kinds PublishOperation.RECONCILE =
     [SagaStepKind.RECONCILE, SagaStepKind.SNAPSHOT_REMOTE, SagaStepKind.UPLOAD_MEDIA,
      SagaStepKind.WRITE_POST, SagaStepKind.VERIFY_REMOTE, SagaStepKind.NOTIFY]"
| "initial_kinds PublishOperation.ROLLBACK =
     [SagaStepKind.FETCH_REMOTE, SagaStepKind.SNAPSHOT_REMOTE, SagaStepKind.ROLLBACK,
      SagaStepKind.VERIFY_REMOTE, SagaStepKind.NOTIFY]"

definition new_saga_step :: "uuid \<Rightarrow> uuid \<Rightarrow> uuid \<Rightarrow> int \<Rightarrow> SagaStepKind \<Rightarrow> saga_step" where
  "new_saga_step i ws job_id index kind_arg =
     \<lparr>ss_id = i, ss_workspace_id = ws, ss_job_id = job_id, ss_sequence = index, ss_step_kind = kind_arg,
      ss_state = StepState.PENDING, ss_attempt = 0, ss_request_metadata = [], ss_response_metadata = [],
      ss_error_code = None, ss_started_at = None, ss_finished_at = None, ss_lock_version = 1\<rparr>"

fun initial_steps ::
  "uuid \<Rightarrow> uuid \<Rightarrow> int \<Rightarrow> SagaStepKind list \<Rightarrow> 'a publish_db_scheme \<Rightarrow> saga_step list \<times> 'a publish_db_scheme"
  where
  "initial_steps ws job_id index [] db = ([], db)"
| "initial_steps ws job_id index (k # ks) db =
     (let (i, db) = uuid4 db; (rows, db) = initial_steps ws job_id (index + 1) ks db
      in (new_saga_step i ws job_id index k # rows, db))"

definition quota_row ::
  "uuid \<Rightarrow> uuid \<Rightarrow> string \<Rightarrow> int \<Rightarrow> quota_usage \<Rightarrow> bool" where
  "quota_row ws connection_id channel day u \<longleftrightarrow> qu_workspace_id u = ws \<and> qu_connection_id u = connection_id
     \<and> qu_channel u = channel \<and> qu_local_day u = day"

definition quota_exceeded :: "int \<Rightarrow> string \<Rightarrow> int \<Rightarrow> error" where
  "quota_exceeded day timezone limit = AppError ''PUBLISH_DAILY_QUOTA_EXCEEDED'' 429 []
     (Some (JDict [(''local_day'', JInt day), (''site_timezone'', JStr timezone), (''quota_limit'', JInt limit)]))"

definition reserve_quota ::
  "uuid \<Rightarrow> publishing_connection \<Rightarrow> publication_policy \<Rightarrow> string \<Rightarrow> int \<Rightarrow> 'a publish_db_scheme
   \<Rightarrow> 'a publish_db_scheme result" where
  "reserve_quota ws c policy channel day db =
     bind_result (quota_for (pp_daily_quotas policy) (provider_value (pc_provider c)) channel) (\<lambda>found.
     case found of
       None \<Rightarrow> Inl (app_error ''PUBLISH_QUOTA_POLICY_MISSING'' 409)
     | Some limit \<Rightarrow>
        (case List.find (\<lambda>u. quota_row ws (pc_id c) channel day u \<and> qu_provider u = pc_provider c) (quota_usages db) of
          None \<Rightarrow>
            let (i, db) = uuid4 db;
                u = \<lparr>qu_id = i, qu_workspace_id = ws, qu_connection_id = pc_id c, qu_policy_id = pp_id policy,
                  qu_provider = pc_provider c, qu_channel = channel, qu_local_day = day,
                  qu_timezone_name = pc_site_timezone c, qu_quota_limit = limit, qu_reserved_count = 0,
                  qu_completed_count = 0, qu_lock_version = 1\<rparr>
            in if limit \<le> qu_reserved_count u then Inl (quota_exceeded day (pc_site_timezone c) limit)
               else Inr (db\<lparr>quota_usages := quota_usages db @ [u\<lparr>qu_reserved_count := qu_reserved_count u + 1\<rparr>]\<rparr>)
        | Some u \<Rightarrow>
            if limit \<le> qu_reserved_count u then Inl (quota_exceeded day (pc_site_timezone c) limit)
            else Inr (update_quota (qu_id u) (\<lambda>u. u\<lparr>qu_policy_id := pp_id policy, qu_quota_limit := limit,
                   qu_reserved_count := qu_reserved_count u + 1\<rparr>) db)))"

end
