(* ===== verification/Publish_Jobs.thy ===== *)
theory Publish_Jobs
  imports Publish_Requests
begin

text \<open>
  Creating, cancelling and retrying publish jobs: the second half of the request side of
  \<^verbatim>\<open>domain/publishing/service.py\<close>. A request hash is the content hash of the whole request; in it a
  supplied time stands for its ISO text, which determines the instant and the offset.
\<close>

definition supplied_json :: "supplied_time option \<Rightarrow> json" where
  "supplied_json t = (case t of
       None \<Rightarrow> JNull | Some (NoZone s) \<Rightarrow> JTime s | Some (WithOffset s offset) \<Rightarrow> JList [JTime s, JInt offset])"

definition opt_time :: "time option \<Rightarrow> json" where
  "opt_time t = (case t of None \<Rightarrow> JNull | Some s \<Rightarrow> JTime s)"

definition opt_nat :: "nat option \<Rightarrow> json" where
  "opt_nat n = (case n of None \<Rightarrow> JNull | Some k \<Rightarrow> JInt (int k))"

definition schedule_request_json :: "'x schedule_request_scheme \<Rightarrow> (string \<times> json) list" where
  "schedule_request_json d =
     [(''visibility'', JStr (visibility_value (sr_visibility d))),
      (''scheduled_at_utc'', supplied_json (sr_scheduled_at_utc d)),
      (''scheduled_local'', supplied_json (sr_scheduled_local d)),
      (''site_timezone'', opt_text (sr_site_timezone d)), (''dst_fold'', opt_nat (sr_dst_fold d))]"

record publish_create = schedule_request +
  pr_content_version_id :: uuid
  pr_content_hash :: string
  pr_approval_request_id :: uuid
  pr_connection_id :: uuid
  pr_options :: publish_options

record post_update = schedule_request +
  up_expected_lock_version :: int
  up_content_version_id :: uuid
  up_content_hash :: string
  up_approval_request_id :: uuid
  up_expected_remote_etag :: "string option"
  up_expected_remote_hash :: string
  up_expected_remote_updated_at :: "time option"
  up_conflict_action :: ConflictAction
  up_options :: publish_options

record post_delete =
  dl_expected_lock_version :: int
  dl_confirm_remote_id :: string
  dl_expected_remote_etag :: "string option"
  dl_expected_remote_hash :: string
  dl_force_delete :: bool

record rollback_create =
  rb_expected_lock_version :: int
  rb_snapshot_id :: uuid
  rb_expected_remote_etag :: "string option"
  rb_expected_remote_hash :: string

section \<open>The job row\<close>

text \<open>The fields of one request: what \<open>_create_job\<close> is called with.\<close>

record job_request =
  jr_operation :: PublishOperation
  jr_ready :: PublishReadyContent
  jr_connection :: publishing_connection
  jr_policy :: publication_policy
  jr_target_post :: "uuid option"
  jr_visibility :: PublishVisibility
  jr_schedule :: publish_schedule
  jr_idempotency_key :: string
  jr_request_hash :: string
  jr_input_snapshot :: "(string \<times> json) list"
  jr_reserve_quota :: bool

definition job_row :: "hash_fn \<Rightarrow> principal \<Rightarrow> job_request \<Rightarrow> uuid \<Rightarrow> publish_job" where
  "job_row H p d i =
     \<lparr>pj_id = i, pj_workspace_id = workspace_id p, pj_requested_by = subject_id p,
      pj_operation = jr_operation d, pj_state = JobState.SCHEDULED, pj_content_id = rc_content_id (jr_ready d),
      pj_content_version_id = rc_content_version_id (jr_ready d), pj_content_hash = rc_content_hash (jr_ready d),
      pj_connection_id = pc_id (jr_connection d), pj_approval_request_id = rc_approval_request_id (jr_ready d),
      pj_approval_snapshot_hash = rc_approval_snapshot_hash (jr_ready d), pj_policy_id = pp_id (jr_policy d),
      pj_policy_snapshot = pp_snapshot_json (jr_policy d), pj_policy_snapshot_hash = pp_snapshot_hash (jr_policy d),
      pj_target_published_post_id = jr_target_post d, pj_visibility = jr_visibility d,
      pj_scheduled_at_utc = Some (sd_scheduled_datetime (jr_schedule d)),
      pj_scheduled_local = Some (sd_local_datetime (jr_schedule d)),
      pj_site_timezone = pc_site_timezone (jr_connection d), pj_dst_fold = sd_dst_fold (jr_schedule d),
      pj_idempotency_key = jr_idempotency_key d, pj_request_hash = jr_request_hash d,
      pj_idempotency_marker = ''blogops-'' @ uuid_str i, pj_input_snapshot = jr_input_snapshot d,
      pj_input_snapshot_hash = H (JDict (jr_input_snapshot d)), pj_attempt = 0, pj_max_attempts = 3,
      pj_cancel_requested_at = None, pj_cancelled_at = None, pj_started_at = None, pj_finished_at = None,
      pj_retry_after_seconds = None, pj_quota_completed_at = None, pj_quota_released_at = None,
      pj_error_code = None, pj_result_json = None, pj_lock_version = 1\<rparr>"

fun notify_all ::
  "(uuid \<Rightarrow> uuid \<Rightarrow> publishing_notification) \<Rightarrow> uuid list \<Rightarrow> 'a publish_db_scheme \<Rightarrow> 'a publish_db_scheme" where
  "notify_all row [] db = db"
| "notify_all row (r # rs) db = (let (i, db) = uuid4 db in notify_all row rs (add_notification (row i r) db))"

definition scheduled_notice ::
  "time \<Rightarrow> publish_job \<Rightarrow> uuid \<Rightarrow> uuid \<Rightarrow> publishing_notification" where
  "scheduled_notice now job i recipient =
     \<lparr>pn_id = i, pn_workspace_id = pj_workspace_id job, pn_recipient_id = recipient,
      pn_publish_job_id = Some (pj_id job), pn_naver_package_id = None,
      pn_notification_type = ''PUBLISHING_JOB_SCHEDULED'',
      pn_payload_json = [(''job_id'', JStr (uuid_str (pj_id job))),
        (''content_id'', JStr (uuid_str (pj_content_id job))),
        (''scheduled_at_utc'', opt_time (pj_scheduled_at_utc job)),
        (''site_timezone'', JStr (pj_site_timezone job))],
      pn_due_at = now, pn_delivered_at = None\<rparr>"

definition find_request_job ::
  "principal \<Rightarrow> PublishOperation \<Rightarrow> string \<Rightarrow> 'a publish_db_scheme \<Rightarrow> publish_job option" where
  "find_request_job p operation key db =
     List.find (\<lambda>j. pj_workspace_id j = workspace_id p \<and> pj_requested_by j = subject_id p
       \<and> pj_operation j = operation \<and> pj_idempotency_key j = key) (publish_jobs db)"

definition existing_publish_job ::
  "principal \<Rightarrow> PublishOperation \<Rightarrow> string \<Rightarrow> string \<Rightarrow> 'a publish_db_scheme \<Rightarrow> publish_job option result" where
  "existing_publish_job p operation key request_hash db =
     (if key = [] \<or> 255 < length key then Inl (app_error ''IDEMPOTENCY_KEY_REQUIRED'' 422)
      else case find_request_job p operation key db of
        None \<Rightarrow> Inr None
      | Some existing \<Rightarrow>
          bind_result (assert_same_request (pj_request_hash existing) request_hash) (\<lambda>_. Inr (Some existing)))"

definition insert_publish_job ::
  "publish_env \<Rightarrow> principal \<Rightarrow> job_request \<Rightarrow> 'a publish_db_scheme
   \<Rightarrow> ((publish_job \<times> bool) \<times> 'a publish_db_scheme) result" where
  "insert_publish_job env p d base =
     bind_result (if jr_reserve_quota d
        then reserve_quota (workspace_id p) (jr_connection d) (jr_policy d) (rc_channel (jr_ready d))
               (sd_local_day (jr_schedule d)) base
        else Inr base) (\<lambda>db.
     let (i, db) = uuid4 db;
         job = job_row (ev_hash env) p d i;
         (steps, db) = initial_steps (workspace_id p) i 1 (initial_kinds (jr_operation d)) db;
         db = db\<lparr>publish_jobs := publish_jobs db @ [job], saga_steps := saga_steps db @ steps\<rparr>;
         db = (if jr_visibility d = PublishVisibility.SCHEDULED
               then notify_all (scheduled_notice (ev_now env) job)
                      (dict_fromkeys [subject_id p, rc_approved_by (jr_ready d)]) db
               else db)
     in bind_result (repo_flush ''publish_job'' base db) (\<lambda>db.
        Inr ((job, True), publish_record p (ev_now env) ''publishing.job.scheduled'' ''publish_job'' i
          [(''operation'', JStr (publish_operation_value (jr_operation d))),
           (''content_id'', JStr (uuid_str (pj_content_id job))),
           (''content_version_id'', JStr (uuid_str (pj_content_version_id job))),
           (''content_hash'', JStr (pj_content_hash job)),
           (''connection_id'', JStr (uuid_str (pj_connection_id job))),
           (''scheduled_at_utc'', opt_time (pj_scheduled_at_utc job)),
           (''request_hash'', JStr (pj_request_hash job))] db)))"

definition create_job ::
  "publish_env \<Rightarrow> principal \<Rightarrow> job_request \<Rightarrow> 'a publish_db_scheme
   \<Rightarrow> ((publish_job \<times> bool) \<times> 'a publish_db_scheme) result" where
  "create_job env p d db =
     bind_result (existing_publish_job p (jr_operation d) (jr_idempotency_key d) (jr_request_hash d) db) (\<lambda>existing.
     case existing of Some job \<Rightarrow> Inr ((job, False), db) | None \<Rightarrow> insert_publish_job env p d db)"

section \<open>Publishing and updating\<close>

definition resolve_ready ::
  "publish_env \<Rightarrow> uuid \<Rightarrow> uuid \<Rightarrow> uuid \<Rightarrow> string \<Rightarrow> uuid \<Rightarrow> publishing_connection \<Rightarrow> publication_policy
   \<Rightarrow> 'a publish_db_scheme \<Rightarrow> PublishReadyContent result" where
  "resolve_ready env ws content_id version_id content_hash request_id c policy db =
     resolve_publish_ready (ev_hash env) (ev_now env) ws content_id version_id content_hash request_id
       (provider_value (pc_provider c)) (pp_require_media_license policy) db"

definition schedule_json :: "publish_schedule \<Rightarrow> publishing_connection \<Rightarrow> (string \<times> json) list" where
  "schedule_json s c =
     [(''scheduled_at_utc'', JTime (sd_scheduled_datetime s)), (''scheduled_local'', JTime (sd_local_datetime s)),
      (''site_timezone'', JStr (pc_site_timezone c)), (''dst_fold'', opt_nat (sd_dst_fold s))]"

definition publish_request_json :: "uuid \<Rightarrow> publish_create \<Rightarrow> json" where
  "publish_request_json content_id d = JDict
     [(''content_id'', JStr (uuid_str content_id)),
      (''request'', JDict ([(''content_version_id'', JStr (uuid_str (pr_content_version_id d))),
         (''content_hash'', JStr (pr_content_hash d)),
         (''approval_request_id'', JStr (uuid_str (pr_approval_request_id d))),
         (''connection_id'', JStr (uuid_str (pr_connection_id d)))] @ schedule_request_json d
         @ [(''options'', JDict (options_dict (pr_options d)))]))]"

definition publish_input ::
  "uuid \<Rightarrow> publish_create \<Rightarrow> PublishReadyContent \<Rightarrow> publishing_connection \<Rightarrow> publish_schedule
   \<Rightarrow> (string \<times> json) list" where
  "publish_input content_id d ready c s =
     [(''content_id'', JStr (uuid_str content_id)),
      (''content_version_id'', JStr (uuid_str (rc_content_version_id ready))),
      (''content_hash'', JStr (rc_content_hash ready)),
      (''approval_request_id'', JStr (uuid_str (rc_approval_request_id ready))),
      (''approved_by'', JStr (uuid_str (rc_approved_by ready))),
      (''connection_id'', JStr (uuid_str (pc_id c))), (''channel'', JStr (rc_channel ready)),
      (''visibility'', JStr (visibility_value (sr_visibility d)))] @ schedule_json s c
     @ [(''options'', JDict (options_dict (pr_options d))), (''media_manifest'', media_manifest ready)]"

definition create_publish_job ::
  "publish_env \<Rightarrow> principal \<Rightarrow> uuid \<Rightarrow> publish_create \<Rightarrow> string \<Rightarrow> 'a publish_db_scheme
   \<Rightarrow> ((publish_job \<times> bool) \<times> 'a publish_db_scheme) result" where
  "create_publish_job env p content_id d key db =
     (let request_hash = ev_hash env (publish_request_json content_id d) in
     bind_result (existing_publish_job p PublishOperation.CREATE key request_hash db) (\<lambda>existing.
     case existing of Some job \<Rightarrow> Inr ((job, False), db) | None \<Rightarrow>
     bind_result (find_connection (workspace_id p) (pr_connection_id d) db) (\<lambda>c.
     bind_result (assert_connection_active c) (\<lambda>_.
     bind_result (assert_publish_capability c (sr_visibility d)) (\<lambda>_.
     bind_result (latest_policy (workspace_id p) db) (\<lambda>policy.
     bind_result (assert_provider_policy policy c) (\<lambda>_.
     bind_result (schedule_for env c policy d) (\<lambda>s.
     bind_result (resolve_ready env (workspace_id p) content_id (pr_content_version_id d) (pr_content_hash d)
        (pr_approval_request_id d) c policy db) (\<lambda>ready.
     bind_result (validate_options env (pr_options d) c) (\<lambda>_.
     bind_result (validate_featured_media (pr_options d) ready) (\<lambda>_.
     create_job env p \<lparr>jr_operation = PublishOperation.CREATE, jr_ready = ready, jr_connection = c,
       jr_policy = policy, jr_target_post = None, jr_visibility = sr_visibility d, jr_schedule = s,
       jr_idempotency_key = key, jr_request_hash = request_hash,
       jr_input_snapshot = publish_input content_id d ready c s, jr_reserve_quota = True\<rparr> db)))))))))))"

definition update_request_json :: "uuid \<Rightarrow> post_update \<Rightarrow> json" where
  "update_request_json post_id d = JDict
     [(''post_id'', JStr (uuid_str post_id)),
      (''request'', JDict ([(''expected_lock_version'', JInt (up_expected_lock_version d)),
         (''content_version_id'', JStr (uuid_str (up_content_version_id d))),
         (''content_hash'', JStr (up_content_hash d)),
         (''approval_request_id'', JStr (uuid_str (up_approval_request_id d)))] @ schedule_request_json d
         @ [(''expected_remote_etag'', opt_text (up_expected_remote_etag d)),
            (''expected_remote_hash'', JStr (up_expected_remote_hash d)),
            (''expected_remote_updated_at'', opt_time (up_expected_remote_updated_at d)),
            (''conflict_action'', JStr (conflict_action_value (up_conflict_action d))),
            (''options'', JDict (options_dict (up_options d)))]))]"

definition update_input ::
  "published_post \<Rightarrow> post_update \<Rightarrow> PublishReadyContent \<Rightarrow> publishing_connection \<Rightarrow> publish_schedule
   \<Rightarrow> (string \<times> json) list" where
  "update_input post d ready c s =
     [(''published_post_id'', JStr (uuid_str (pt_id post))),
      (''expected_remote_etag'', opt_text (up_expected_remote_etag d)),
      (''expected_remote_hash'', JStr (up_expected_remote_hash d)),
      (''expected_remote_updated_at'', opt_time (up_expected_remote_updated_at d)),
      (''conflict_action'', JStr (conflict_action_value (up_conflict_action d))),
      (''content_version_id'', JStr (uuid_str (rc_content_version_id ready))),
      (''content_hash'', JStr (rc_content_hash ready)), (''channel'', JStr (rc_channel ready)),
      (''approval_request_id'', JStr (uuid_str (rc_approval_request_id ready))),
      (''approved_by'', JStr (uuid_str (rc_approved_by ready))),
      (''visibility'', JStr (visibility_value (sr_visibility d)))] @ schedule_json s c
     @ [(''options'', JDict (options_dict (up_options d))), (''media_manifest'', media_manifest ready)]"

definition update_published_post ::
  "publish_env \<Rightarrow> principal \<Rightarrow> uuid \<Rightarrow> post_update \<Rightarrow> string \<Rightarrow> 'a publish_db_scheme
   \<Rightarrow> ((publish_job \<times> bool) \<times> 'a publish_db_scheme) result" where
  "update_published_post env p post_id d key db =
     (let request_hash = ev_hash env (update_request_json post_id d) in
     bind_result (existing_publish_job p PublishOperation.UPDATE key request_hash db) (\<lambda>existing.
     case existing of Some job \<Rightarrow> Inr ((job, False), db) | None \<Rightarrow>
     bind_result (find_published_post (workspace_id p) post_id db) (\<lambda>post.
     bind_result (assert_row_lock ''published_post'' (up_expected_lock_version d) (pt_lock_version post)) (\<lambda>_.
     bind_result (assert_remote_expectations post (up_expected_remote_etag d) (up_expected_remote_hash d)
        (up_expected_remote_updated_at d)) (\<lambda>_.
     case pt_connection_id post of
       None \<Rightarrow> Inl (app_error ''MANUAL_POST_UPDATE_PACKAGE_REQUIRED'' 409)
     | Some connection_id \<Rightarrow>
     bind_result (find_connection (workspace_id p) connection_id db) (\<lambda>c.
     bind_result (assert_connection_active c) (\<lambda>_.
     bind_result (assert_publish_capability c (sr_visibility d)) (\<lambda>_.
     if ''update'' \<notin> set (pc_capabilities c) then Inl (app_error ''PUBLISH_UPDATE_PERMISSION_MISSING'' 403) else
     bind_result (latest_policy (workspace_id p) db) (\<lambda>policy.
     bind_result (assert_provider_policy policy c) (\<lambda>_.
     bind_result (schedule_for env c policy d) (\<lambda>s.
     bind_result (resolve_ready env (workspace_id p) (pt_content_id post) (up_content_version_id d)
        (up_content_hash d) (up_approval_request_id d) c policy db) (\<lambda>ready.
     bind_result (validate_options env (up_options d) c) (\<lambda>_.
     bind_result (validate_featured_media (up_options d) ready) (\<lambda>_.
     create_job env p \<lparr>jr_operation = PublishOperation.UPDATE, jr_ready = ready, jr_connection = c,
       jr_policy = policy, jr_target_post = Some (pt_id post), jr_visibility = sr_visibility d, jr_schedule = s,
       jr_idempotency_key = key, jr_request_hash = request_hash,
       jr_input_snapshot = update_input post d ready c s, jr_reserve_quota = True\<rparr> db))))))))))))))"

section \<open>Operations on an existing post\<close>

text \<open>A request that carries no content of its own; the approval fields are those of the post.\<close>

definition post_content :: "principal \<Rightarrow> time \<Rightarrow> published_post \<Rightarrow> publishing_connection \<Rightarrow> PublishReadyContent" where
  "post_content p now post c =
     \<lparr>rc_content_id = pt_content_id post, rc_content_version_id = pt_content_version_id post,
      rc_content_hash = pt_content_hash post, rc_title = '''', rc_document = [], rc_plain_text = '''',
      rc_channel = provider_value (pc_provider c), rc_language = '''', rc_tags = [],
      rc_approval_request_id = pt_approval_request_id post,
      rc_approval_snapshot_hash = pt_local_snapshot_hash post, rc_assessment_id = 0, rc_assessment_hash = '''',
      rc_quality_config_hash = '''', rc_approved_by = subject_id p, rc_approved_at = now, rc_media = []\<rparr>"

text \<open>The last successful publication of the post; PostgreSQL sorts nulls first in descending order.\<close>

definition source_job_of :: "uuid \<Rightarrow> uuid \<Rightarrow> 'a publish_db_scheme \<Rightarrow> publish_job option" where
  "source_job_of ws post_id db =
     (case sort_key (\<lambda>j. (case pj_finished_at j of None \<Rightarrow> (0::int, 0) | Some t \<Rightarrow> (1, - t), - int (pj_id j)))
             (filter (\<lambda>j. pj_workspace_id j = ws \<and> pj_target_published_post_id j = Some post_id
                \<and> pj_operation j \<in> {PublishOperation.CREATE, PublishOperation.UPDATE}
                \<and> pj_state j \<in> {JobState.SUCCEEDED, JobState.PARTIAL}) (publish_jobs db)) of
        [] \<Rightarrow> None | j # _ \<Rightarrow> Some j)"

definition overwrite_input :: "publish_job \<Rightarrow> PublishReadyContent \<Rightarrow> (string \<times> json) list \<Rightarrow> (string \<times> json) list"
  where
  "overwrite_input source ready input =
     merge_dict (merge_dict (pj_input_snapshot source) input)
       [(''content_version_id'', JStr (uuid_str (rc_content_version_id ready))),
        (''content_hash'', JStr (rc_content_hash ready)),
        (''approval_request_id'', JStr (uuid_str (rc_approval_request_id ready))),
        (''approved_by'', JStr (uuid_str (rc_approved_by ready))), (''channel'', JStr (rc_channel ready)),
        (''media_manifest'', media_manifest ready)]"

definition source_schedule ::
  "publish_env \<Rightarrow> publishing_connection \<Rightarrow> publish_job option \<Rightarrow> PublishVisibility
   \<Rightarrow> (publish_schedule \<times> PublishVisibility) result" where
  "source_schedule env c source visibility =
     (let fresh = bind_result (schedule_now env c) (\<lambda>s.
        Inr (s, if visibility = PublishVisibility.SCHEDULED then PublishVisibility.PUBLISH else visibility)) in
      case source of
        None \<Rightarrow> fresh
      | Some j \<Rightarrow>
          (case (pj_scheduled_at_utc j, pj_scheduled_local j) of
             (Some at_utc, Some local) \<Rightarrow>
               if visibility = PublishVisibility.SCHEDULED \<and> ev_now env < at_utc
               then Inr (\<lparr>sd_scheduled_datetime = at_utc, sd_local_datetime = local, sd_dst_fold = pj_dst_fold j,
                          sd_local_day = date_of local\<rparr>, visibility)
               else fresh
           | _ \<Rightarrow> fresh))"

definition existing_post_job ::
  "publish_env \<Rightarrow> principal \<Rightarrow> published_post \<Rightarrow> PublishOperation \<Rightarrow> string \<Rightarrow> string
   \<Rightarrow> (string \<times> json) list \<Rightarrow> 'a publish_db_scheme \<Rightarrow> ((publish_job \<times> bool) \<times> 'a publish_db_scheme) result" where
  "existing_post_job env p post operation key request_hash input db =
     (case pt_connection_id post of
        None \<Rightarrow> Inl (app_error ''PUBLISH_CONNECTION_REQUIRED'' 409)
      | Some connection_id \<Rightarrow>
     bind_result (find_connection (workspace_id p) connection_id db) (\<lambda>c.
     bind_result (assert_connection_active c) (\<lambda>_.
     bind_result (latest_policy (workspace_id p) db) (\<lambda>policy.
     bind_result (assert_provider_policy policy c) (\<lambda>_.
     bind_result (if operation = PublishOperation.RECONCILE
          \<and> dict_get input ''conflict_action'' = JStr (conflict_action_value ConflictAction.OVERWRITE)
        then bind_result (resolve_ready env (workspace_id p) (pt_content_id post) (pt_content_version_id post)
               (pt_content_hash post) (pt_approval_request_id post) c policy db) (\<lambda>ready.
             case source_job_of (workspace_id p) (pt_id post) db of
               None \<Rightarrow> Inl (app_error ''PUBLISH_LOCAL_SOURCE_SNAPSHOT_MISSING'' 409)
             | Some source \<Rightarrow> Inr (ready, Some source, pj_visibility source, overwrite_input source ready input))
        else Inr (post_content p (ev_now env) post c, None, PublishVisibility.DRAFT, input))
       (\<lambda>(ready, source, visibility, input).
     bind_result (source_schedule env c source visibility) (\<lambda>(s, visibility).
     create_job env p \<lparr>jr_operation = operation, jr_ready = ready, jr_connection = c, jr_policy = policy,
       jr_target_post = Some (pt_id post), jr_visibility = visibility, jr_schedule = s,
       jr_idempotency_key = key, jr_request_hash = request_hash,
       jr_input_snapshot = (if source = None then input
         else merge_dict input ((''visibility'', JStr (visibility_value visibility)) # schedule_json s c)),
       jr_reserve_quota = False\<rparr> db)))))))"

definition post_request_json :: "uuid \<Rightarrow> (string \<times> json) list \<Rightarrow> json" where
  "post_request_json post_id request =
     JDict [(''post_id'', JStr (uuid_str post_id)), (''request'', JDict request)]"

definition delete_published_post ::
  "publish_env \<Rightarrow> principal \<Rightarrow> uuid \<Rightarrow> post_delete \<Rightarrow> string \<Rightarrow> 'a publish_db_scheme
   \<Rightarrow> ((publish_job \<times> bool) \<times> 'a publish_db_scheme) result" where
  "delete_published_post env p post_id d key db =
     (let request_hash = ev_hash env (post_request_json post_id
        [(''expected_lock_version'', JInt (dl_expected_lock_version d)),
         (''confirm_remote_id'', JStr (dl_confirm_remote_id d)),
         (''expected_remote_etag'', opt_text (dl_expected_remote_etag d)),
         (''expected_remote_hash'', JStr (dl_expected_remote_hash d)),
         (''force_delete'', JBool (dl_force_delete d))]) in
     bind_result (existing_publish_job p PublishOperation.DELETE key request_hash db) (\<lambda>existing.
     case existing of Some job \<Rightarrow> Inr ((job, False), db) | None \<Rightarrow>
     bind_result (find_published_post (workspace_id p) post_id db) (\<lambda>post.
     bind_result (assert_row_lock ''published_post'' (dl_expected_lock_version d) (pt_lock_version post)) (\<lambda>_.
     if pt_remote_id post \<noteq> dl_confirm_remote_id d
     then Inl (app_error ''PUBLISH_DELETE_CONFIRMATION_MISMATCH'' 409) else
     bind_result (assert_remote_expectations post (dl_expected_remote_etag d) (dl_expected_remote_hash d) None) (\<lambda>_.
     case pt_connection_id post of
       None \<Rightarrow> Inl (app_error ''MANUAL_POST_DELETE_UNSUPPORTED'' 409)
     | Some connection_id \<Rightarrow>
     bind_result (find_connection (workspace_id p) connection_id db) (\<lambda>c.
     if ''delete'' \<notin> set (pc_capabilities c) then Inl (app_error ''PUBLISH_DELETE_PERMISSION_MISSING'' 403) else
     existing_post_job env p post PublishOperation.DELETE key request_hash
       [(''published_post_id'', JStr (uuid_str (pt_id post))),
        (''confirm_remote_id'', JStr (dl_confirm_remote_id d)),
        (''expected_remote_etag'', opt_text (dl_expected_remote_etag d)),
        (''expected_remote_hash'', JStr (dl_expected_remote_hash d)),
        (''force_delete'', JBool (dl_force_delete d)),
        (''conflict_action'', JStr (conflict_action_value ConflictAction.ABORT))] db))))))"

definition reconcile_published_post ::
  "publish_env \<Rightarrow> principal \<Rightarrow> uuid \<Rightarrow> int \<Rightarrow> ConflictAction \<Rightarrow> string \<Rightarrow> 'a publish_db_scheme
   \<Rightarrow> ((publish_job \<times> bool) \<times> 'a publish_db_scheme) result" where
  "reconcile_published_post env p post_id expected_lock action key db =
     (let request_hash = ev_hash env (post_request_json post_id
        [(''expected_lock_version'', JInt expected_lock),
         (''conflict_action'', JStr (conflict_action_value action))]) in
     bind_result (existing_publish_job p PublishOperation.RECONCILE key request_hash db) (\<lambda>existing.
     case existing of Some job \<Rightarrow> Inr ((job, False), db) | None \<Rightarrow>
     bind_result (find_published_post (workspace_id p) post_id db) (\<lambda>post.
     bind_result (assert_row_lock ''published_post'' expected_lock (pt_lock_version post)) (\<lambda>_.
     if pt_connection_id post = None then Inl (app_error ''MANUAL_RECONCILE_UNSUPPORTED'' 409) else
     existing_post_job env p post PublishOperation.RECONCILE key request_hash
       [(''published_post_id'', JStr (uuid_str (pt_id post))),
        (''expected_remote_etag'', opt_text (pt_remote_etag post)),
        (''expected_remote_hash'', JStr (pt_remote_hash post)),
        (''expected_remote_updated_at'', opt_time (pt_remote_updated_at post)),
        (''conflict_action'', JStr (conflict_action_value action))] db))))"

definition rollback_published_post ::
  "publish_env \<Rightarrow> principal \<Rightarrow> uuid \<Rightarrow> rollback_create \<Rightarrow> string \<Rightarrow> 'a publish_db_scheme
   \<Rightarrow> ((publish_job \<times> bool) \<times> 'a publish_db_scheme) result" where
  "rollback_published_post env p post_id d key db =
     (let request_hash = ev_hash env (post_request_json post_id
        [(''expected_lock_version'', JInt (rb_expected_lock_version d)),
         (''snapshot_id'', JStr (uuid_str (rb_snapshot_id d))),
         (''expected_remote_etag'', opt_text (rb_expected_remote_etag d)),
         (''expected_remote_hash'', JStr (rb_expected_remote_hash d))]) in
     bind_result (existing_publish_job p PublishOperation.ROLLBACK key request_hash db) (\<lambda>existing.
     case existing of Some job \<Rightarrow> Inr ((job, False), db) | None \<Rightarrow>
     bind_result (find_published_post (workspace_id p) post_id db) (\<lambda>post.
     bind_result (assert_row_lock ''published_post'' (rb_expected_lock_version d) (pt_lock_version post)) (\<lambda>_.
     bind_result (assert_remote_expectations post (rb_expected_remote_etag d) (rb_expected_remote_hash d) None) (\<lambda>_.
     bind_result (find_remote_snapshot (workspace_id p) (rb_snapshot_id d) db) (\<lambda>snapshot.
     if sn_published_post_id snapshot \<noteq> pt_id post then Inl (app_error ''ROLLBACK_SNAPSHOT_POST_MISMATCH'' 422)
     else if pt_connection_id post = None then Inl (app_error ''MANUAL_ROLLBACK_UNSUPPORTED'' 409) else
     existing_post_job env p post PublishOperation.ROLLBACK key request_hash
       [(''published_post_id'', JStr (uuid_str (pt_id post))),
        (''snapshot_id'', JStr (uuid_str (sn_id snapshot))), (''snapshot_hash'', JStr (sn_snapshot_hash snapshot)),
        (''expected_remote_etag'', opt_text (rb_expected_remote_etag d)),
        (''expected_remote_hash'', JStr (rb_expected_remote_hash d)),
        (''conflict_action'', JStr (conflict_action_value ConflictAction.ABORT))] db))))))"

section \<open>Cancelling and retrying\<close>

text \<open>The post a job may still be cancelled for: the remote schedule has not taken effect.\<close>

definition cancellable :: "uuid \<Rightarrow> publish_job \<Rightarrow> 'a publish_db_scheme \<Rightarrow> bool result" where
  "cancellable ws job db =
     (case (pj_state job \<in> {JobState.RETRYABLE_FAILED, JobState.SUCCEEDED}, pj_target_published_post_id job) of
        (True, Some post_id) \<Rightarrow>
          bind_result (find_published_post ws post_id db) (\<lambda>post. Inr (pt_state post = PublishedPostState.SCHEDULED))
      | _ \<Rightarrow> Inr (pj_state job = JobState.SCHEDULED \<and> pj_started_at job = None))"

definition cancel_publish_job ::
  "time \<Rightarrow> principal \<Rightarrow> uuid \<Rightarrow> int \<Rightarrow> string \<Rightarrow> 'a publish_db_scheme
   \<Rightarrow> (publish_job \<times> 'a publish_db_scheme) result" where
  "cancel_publish_job now p job_id expected_lock reason base =
     bind_result (find_publish_job (workspace_id p) job_id base) (\<lambda>job.
     bind_result (assert_row_lock ''publish_job'' expected_lock (pj_lock_version job)) (\<lambda>_.
     bind_result (cancellable (workspace_id p) job base) (\<lambda>ok.
     if \<not> ok then Inl (app_error ''PUBLISH_JOB_NOT_CANCELLABLE'' 409) else
     bind_result (repo_flush ''publish_job'' base (update_publish_job job_id (\<lambda>j. j\<lparr>pj_state := JobState.CANCEL_REQUESTED,
         pj_cancel_requested_at := Some now, pj_result_json := Some [(''cancellation_reason'', JStr reason)]\<rparr>) base)) (\<lambda>db.
     bind_result (find_publish_job (workspace_id p) job_id db) (\<lambda>job.
     Inr (job, publish_record p now ''publishing.job.cancel_requested'' ''publish_job'' job_id
       [(''reason'', JStr reason)] db))))))"

definition retryable_media_failure :: "json \<Rightarrow> bool" where
  "retryable_media_failure v = (case v of
       JDict d \<Rightarrow> dict_get d ''retry_class'' \<in> {JStr ''NETWORK'', JStr ''RATE_LIMIT'', JStr ''SERVER''}
     | _ \<Rightarrow> False)"

definition partial_retryable :: "publish_job \<Rightarrow> bool" where
  "partial_retryable job \<longleftrightarrow>
     (case dict_get (case pj_result_json job of None \<Rightarrow> [] | Some d \<Rightarrow> d) ''media_failures'' of
        JList items \<Rightarrow> list_ex retryable_media_failure items | _ \<Rightarrow> False)"

definition retry_publish_job ::
  "time \<Rightarrow> principal \<Rightarrow> uuid \<Rightarrow> int \<Rightarrow> string \<Rightarrow> 'a publish_db_scheme
   \<Rightarrow> (publish_job \<times> 'a publish_db_scheme) result" where
  "retry_publish_job now p job_id expected_lock reason base =
     bind_result (find_publish_job (workspace_id p) job_id base) (\<lambda>job.
     bind_result (assert_row_lock ''publish_job'' expected_lock (pj_lock_version job)) (\<lambda>_.
     if pj_state job \<notin> {JobState.PARTIAL, JobState.RETRYABLE_FAILED}
     then Inl (app_error ''PUBLISH_JOB_NOT_RETRYABLE'' 409)
     else if pj_state job = JobState.PARTIAL \<and> \<not> partial_retryable job
     then Inl (app_error ''PUBLISH_PARTIAL_FAILURE_NOT_RETRYABLE'' 409)
     else if pj_max_attempts job \<le> pj_attempt job
     then Inl (app_error ''PUBLISH_MAX_ATTEMPTS_REACHED'' 409) else
     bind_result (repo_flush ''publish_job'' base (update_publish_job job_id (\<lambda>j. j\<lparr>pj_state := JobState.SCHEDULED,
         pj_finished_at := None, pj_retry_after_seconds := None, pj_error_code := None,
         pj_result_json := Some [(''retry_reason'', JStr reason)]\<rparr>) base)) (\<lambda>db.
     bind_result (find_publish_job (workspace_id p) job_id db) (\<lambda>job.
     Inr (job, publish_record p now ''publishing.job.retry_scheduled'' ''publish_job'' job_id
       [(''reason'', JStr reason), (''next_attempt'', JInt (pj_attempt job + 1))] db)))))"

end
