(* ===== verification/Publish_Saga.thy ===== *)
theory Publish_Saga
  imports Publish_Jobs
begin

text \<open>
  The worker of publishing, \<^verbatim>\<open>domain/publishing/saga.py\<close>, with the provider contract of \<^verbatim>\<open>providers.py\<close>.

  A run threads two things: the database session and the world outside (the remote sites, the secret
  store, the media store), which keeps every effect a provider call had even when the run fails. A call
  returns a value, raises \<open>ProviderFailure\<close> or raises something else (\<open>Raised\<close>): handlers catch the
  former and \<open>AppError\<close>, everything else ends the run and rolls its transaction back. The session keeps
  the rows as of the last flush (\<open>rn_base\<close>) beside the rows with the pending changes (\<open>rn_db\<close>): a query
  selects by the former and returns objects that show the latter.
\<close>

section \<open>Provider contract\<close>

record provider_failure =
  pf_code :: string
  pf_retry_class :: RetryClass
  pf_status_code :: "int option"
  pf_retry_after_seconds :: "int option"
  pf_method :: string
  pf_endpoint_path :: string
  pf_request_metadata :: "(string \<times> json) list"
  pf_response_metadata :: "(string \<times> json) list"

datatype 'r outcome = Value 'r | Failed provider_failure | Raised error

text \<open>The constructor of \<open>ProviderFailure\<close> with its defaults: the path is cut.\<close>

definition final_provider_failure :: "string \<Rightarrow> int option \<Rightarrow> string \<Rightarrow> string \<Rightarrow> provider_failure" where
  "final_provider_failure code status method path =
     \<lparr>pf_code = code, pf_retry_class = RetryClass.FINAL, pf_status_code = status,
      pf_retry_after_seconds = None, pf_method = method, pf_endpoint_path = take 1000 path,
      pf_request_metadata = [], pf_response_metadata = []\<rparr>"

type_synonym secret_material = "(string \<times> string) list"

record connection_context =
  cx_provider :: PublishingProvider
  cx_site_url :: string
  cx_site_timezone :: string
  cx_remote_site_id :: "string option"
  cx_official_contract :: string
  cx_api_version :: string
  cx_safe_config :: "(string \<times> json) list"
  cx_site_settings :: "(string \<times> json) list"

definition context_of :: "publishing_connection \<Rightarrow> connection_context" where
  "context_of c =
     \<lparr>cx_provider = pc_provider c, cx_site_url = pc_site_url c, cx_site_timezone = pc_site_timezone c,
      cx_remote_site_id = pc_remote_site_id c, cx_official_contract = pc_official_contract c,
      cx_api_version = pc_api_version c, cx_safe_config = pc_safe_config_json c,
      cx_site_settings = pc_site_settings_snapshot c\<rparr>"

record publish_document =
  dc_title :: string
  dc_html :: string
  dc_plain_text :: string
  dc_visibility :: PublishVisibility
  dc_scheduled_at_utc :: "time option"
  dc_idempotency_marker :: string
  dc_options :: "(string \<times> json) list"
  dc_media_urls :: "(string \<times> string) list"

record remote_post =
  rp_remote_id :: string
  rp_remote_url :: string
  rp_state :: string
  rp_etag :: "string option"
  rp_updated_at :: "time option"
  rp_snapshot :: "(string \<times> json) list"
  rp_remote_hash :: string

record media_binary =
  mx_placement_key :: string
  mx_filename :: string
  mx_mime_type :: string
  mx_content :: string
  mx_alt_text :: string
  mx_caption :: "string option"

record uploaded_media =
  um_remote_id :: string
  um_remote_url :: string
  um_placement_key :: string

record 'r provider_call =
  cl_value :: 'r
  cl_method :: string
  cl_endpoint_path :: string
  cl_status_code :: int
  cl_provider_request_id :: "string option"
  cl_request_metadata :: "(string \<times> json) list"
  cl_response_metadata :: "(string \<times> json) list"

type_synonym ('w, 'r) world_op = "'w \<Rightarrow> 'r outcome \<times> 'w"
type_synonym ('w, 'r) cms_op = "connection_context \<Rightarrow> secret_material \<Rightarrow> ('w, 'r provider_call) world_op"

record 'w cms =
  cms_find_by_marker :: "string \<Rightarrow> ('w, remote_post option) cms_op"
  cms_create_post :: "publish_document \<Rightarrow> ('w, remote_post) cms_op"
  cms_get_post :: "string \<Rightarrow> ('w, remote_post) cms_op"
  cms_update_post :: "remote_post \<Rightarrow> publish_document \<Rightarrow> ('w, remote_post) cms_op"
  cms_delete_post :: "remote_post \<Rightarrow> bool \<Rightarrow> ('w, remote_post) cms_op"
  cms_cancel_scheduled :: "remote_post \<Rightarrow> ('w, remote_post) cms_op"
  cms_upload_media :: "media_binary \<Rightarrow> ('w, uploaded_media) cms_op"
  cms_restore_snapshot :: "remote_post \<Rightarrow> (string \<times> json) list \<Rightarrow> ('w, remote_post) cms_op"

record rendered_content =
  rx_html :: string
  rx_unsupported :: "(string \<times> json) list list"

text \<open>\<open>sg_registry\<close> is \<open>ProviderRegistry.require\<close> without its error; \<open>sg_render\<close> is \<open>render_for_cms\<close> of
  \<^verbatim>\<open>rendering.py\<close> on a document, the media URLs, the tracking parameters and the attributions.\<close>

record 'w saga_env = publish_env +
  sg_registry :: "PublishingProvider \<Rightarrow> string \<Rightarrow> 'w cms option"
  sg_resolve_secret :: "string \<Rightarrow> ('w, secret_material) world_op"
  sg_resolve_media :: "string \<Rightarrow> string \<Rightarrow> ('w, string) world_op"
  sg_render :: "json list \<Rightarrow> (string \<times> string) list \<Rightarrow> (string \<times> json) list \<Rightarrow> string list \<Rightarrow> rendered_content"

section \<open>Runs\<close>

record ('d, 'w) run_state =
  rn_base :: 'd
  rn_db :: 'd
  rn_world :: 'w

type_synonym ('a, 'w, 'r) saga =
  "('a publish_db_scheme, 'w) run_state \<Rightarrow> 'r outcome \<times> ('a publish_db_scheme, 'w) run_state"

definition sg_return :: "'r \<Rightarrow> 's \<Rightarrow> 'r outcome \<times> 's" where
  "sg_return x s = (Value x, s)"

definition sg_bind :: "('s \<Rightarrow> 'r outcome \<times> 's) \<Rightarrow> ('r \<Rightarrow> 's \<Rightarrow> 'q outcome \<times> 's) \<Rightarrow> 's \<Rightarrow> 'q outcome \<times> 's" where
  "sg_bind m f s = (case m s of
      (Value x, s') \<Rightarrow> f x s' | (Failed e, s') \<Rightarrow> (Failed e, s') | (Raised e, s') \<Rightarrow> (Raised e, s'))"

abbreviation sg_then :: "('s \<Rightarrow> 'r outcome \<times> 's) \<Rightarrow> ('s \<Rightarrow> 'q outcome \<times> 's) \<Rightarrow> 's \<Rightarrow> 'q outcome \<times> 's" where
  "sg_then m n \<equiv> sg_bind m (\<lambda>_. n)"

definition sg_fail :: "provider_failure \<Rightarrow> 's \<Rightarrow> 'r outcome \<times> 's" where
  "sg_fail e s = (Failed e, s)"

definition sg_raise :: "error \<Rightarrow> 's \<Rightarrow> 'r outcome \<times> 's" where
  "sg_raise e s = (Raised e, s)"

definition sg_lift :: "'r result \<Rightarrow> 's \<Rightarrow> 'r outcome \<times> 's" where
  "sg_lift r s = (case r of Inl e \<Rightarrow> (Raised e, s) | Inr x \<Rightarrow> (Value x, s))"

definition sg_gets :: "('s \<Rightarrow> 'r) \<Rightarrow> 's \<Rightarrow> 'r outcome \<times> 's" where
  "sg_gets f s = (Value (f s), s)"

text \<open>\<open>except ProviderFailure\<close> and \<open>except AppError\<close>: the handler runs on the state the failure left.\<close>

definition sg_catch_failure ::
  "('s \<Rightarrow> 'r outcome \<times> 's) \<Rightarrow> (provider_failure \<Rightarrow> 's \<Rightarrow> 'r outcome \<times> 's) \<Rightarrow> 's \<Rightarrow> 'r outcome \<times> 's" where
  "sg_catch_failure m h s = (case m s of (Failed e, s') \<Rightarrow> h e s' | r \<Rightarrow> r)"

definition sg_try ::
  "('s \<Rightarrow> 'r outcome \<times> 's) \<Rightarrow> (provider_failure \<Rightarrow> 's \<Rightarrow> 'r outcome \<times> 's)
   \<Rightarrow> (string \<Rightarrow> 's \<Rightarrow> 'r outcome \<times> 's) \<Rightarrow> 's \<Rightarrow> 'r outcome \<times> 's" where
  "sg_try m on_failure on_app_error s = (case m s of
      (Failed e, s') \<Rightarrow> on_failure e s'
    | (Raised (AppError code status paths remediation), s') \<Rightarrow> on_app_error code s'
    | r \<Rightarrow> r)"

definition modify_db ::
  "('a publish_db_scheme \<Rightarrow> 'a publish_db_scheme) \<Rightarrow> ('a, 'w, unit) saga" where
  "modify_db f s = (Value (), s\<lparr>rn_db := f (rn_db s)\<rparr>)"

definition fresh_id :: "('a, 'w, uuid) saga" where
  "fresh_id s = (let (i, db) = uuid4 (rn_db s) in (Value i, s\<lparr>rn_db := db\<rparr>))"

definition outside :: "('w, 'r) world_op \<Rightarrow> ('a, 'w, 'r) saga" where
  "outside c s = (let (r, w) = c (rn_world s) in (r, s\<lparr>rn_world := w\<rparr>))"

text \<open>\<open>session.flush\<close>, and the flush of the repository that turns an integrity error into a conflict.\<close>

definition flush_with ::
  "('a publish_db_scheme \<Rightarrow> 'a publish_db_scheme \<Rightarrow> 'a publish_db_scheme result) \<Rightarrow> ('a, 'w, unit) saga" where
  "flush_with fl s = (case fl (rn_base s) (rn_db s) of
      Inl e \<Rightarrow> (Raised e, s) | Inr db \<Rightarrow> (Value (), s\<lparr>rn_base := db, rn_db := db\<rparr>))"

definition sg_flush :: "('a, 'w, unit) saga" where
  "sg_flush = flush_with flush_publish"

definition sg_repo_flush :: "string \<Rightarrow> ('a, 'w, unit) saga" where
  "sg_repo_flush resource = flush_with (repo_flush resource)"

text \<open>The current attributes of an object the run holds.\<close>

definition current :: "('r \<Rightarrow> uuid) \<Rightarrow> 'r list \<Rightarrow> 'r \<Rightarrow> 'r" where
  "current key rows r = (case List.find (\<lambda>x. key x = key r) rows of None \<Rightarrow> r | Some x \<Rightarrow> x)"

definition the_job :: "publish_job \<Rightarrow> ('a, 'w, publish_job) saga" where
  "the_job job = sg_gets (\<lambda>s. current pj_id (publish_jobs (rn_db s)) job)"

definition the_post :: "published_post \<Rightarrow> ('a, 'w, published_post) saga" where
  "the_post post = sg_gets (\<lambda>s. current pt_id (published_posts (rn_db s)) post)"

definition set_job :: "publish_job \<Rightarrow> (publish_job \<Rightarrow> publish_job) \<Rightarrow> ('a, 'w, unit) saga" where
  "set_job job f = modify_db (update_publish_job (pj_id job) f)"

definition set_step :: "saga_step \<Rightarrow> (saga_step \<Rightarrow> saga_step) \<Rightarrow> ('a, 'w, unit) saga" where
  "set_step step f = modify_db (update_saga_step (ss_id step) f)"

definition set_post :: "published_post \<Rightarrow> (published_post \<Rightarrow> published_post) \<Rightarrow> ('a, 'w, unit) saga" where
  "set_post post f = modify_db (update_post (pt_id post) f)"

section \<open>Steps and attempts\<close>

definition step_of :: "publish_job \<Rightarrow> saga_step \<Rightarrow> bool" where
  "step_of job t \<longleftrightarrow> ss_workspace_id t = pj_workspace_id job \<and> ss_job_id t = pj_id job"

definition step_missing :: provider_failure where
  "step_missing = final_provider_failure ''PUBLISH_SAGA_STEP_MISSING'' None ''UNKNOWN'' ''''"

definition find_or_add_step :: "publish_job \<Rightarrow> SagaStepKind \<Rightarrow> ('a, 'w, saga_step) saga" where
  "find_or_add_step job kind_arg =
     sg_bind (sg_gets (\<lambda>s. filter (step_of job) (saga_steps (rn_base s)))) (\<lambda>steps.
     case List.find (\<lambda>t. ss_step_kind t = kind_arg) steps of
       Some t \<Rightarrow> sg_return t
     | None \<Rightarrow>
         if kind_arg \<noteq> SagaStepKind.CANCEL_REMOTE then sg_fail step_missing
         else sg_bind fresh_id (\<lambda>i.
              let t = new_saga_step i (pj_workspace_id job) (pj_id job) (foldl max 0 (map ss_sequence steps) + 1) kind_arg
              in sg_then (modify_db (\<lambda>db. db\<lparr>saga_steps := saga_steps db @ [t]\<rparr>)) (sg_return t)))"

definition running_step :: "'w saga_env \<Rightarrow> publish_job \<Rightarrow> SagaStepKind \<Rightarrow> ('a, 'w, saga_step) saga" where
  "running_step env job kind_arg =
     sg_bind (find_or_add_step job kind_arg) (\<lambda>t.
     sg_then (set_step t (\<lambda>t. t\<lparr>ss_state := StepState.RUNNING, ss_attempt := ss_attempt t + 1,
         ss_started_at := Some (ev_now env), ss_error_code := None\<rparr>))
       (sg_return t))"

definition succeed_local_step ::
  "'w saga_env \<Rightarrow> publish_job \<Rightarrow> SagaStepKind \<Rightarrow> (string \<times> json) list \<Rightarrow> ('a, 'w, unit) saga" where
  "succeed_local_step env job kind_arg metadata =
     sg_bind (running_step env job kind_arg) (\<lambda>t.
     set_step t (\<lambda>t. t\<lparr>ss_state := StepState.SUCCEEDED, ss_response_metadata := redact_dict metadata,
       ss_finished_at := Some (ev_now env)\<rparr>))"

definition finish_step :: "'w saga_env \<Rightarrow> saga_step \<Rightarrow> 'r provider_call \<Rightarrow> ('a, 'w, unit) saga" where
  "finish_step env t call =
     set_step t (\<lambda>t. t\<lparr>ss_state := StepState.SUCCEEDED,
       ss_request_metadata := redact_dict (cl_request_metadata call),
       ss_response_metadata := redact_dict (cl_response_metadata call), ss_finished_at := Some (ev_now env)\<rparr>)"

definition next_attempt_number :: "publish_job \<Rightarrow> saga_step \<Rightarrow> 'a publish_db_scheme \<Rightarrow> int" where
  "next_attempt_number job t db =
     foldl max 0 (map pa_attempt_number (filter (\<lambda>a. pa_workspace_id a = pj_workspace_id job
       \<and> pa_job_id a = pj_id job \<and> pa_step_id a = ss_id t) (publish_attempts db))) + 1"

definition add_attempt :: "publish_job \<Rightarrow> saga_step \<Rightarrow> (uuid \<Rightarrow> int \<Rightarrow> publish_attempt) \<Rightarrow> ('a, 'w, unit) saga" where
  "add_attempt job t row =
     sg_bind fresh_id (\<lambda>i.
     modify_db (\<lambda>db. db\<lparr>publish_attempts := publish_attempts db @ [row i (next_attempt_number job t db)]\<rparr>))"

text \<open>\<open>remote_id\<close> is that of the call's value, when it has one.\<close>

definition record_call ::
  "publish_job \<Rightarrow> saga_step \<Rightarrow> 'r provider_call \<Rightarrow> string option \<Rightarrow> ('a, 'w, unit) saga" where
  "record_call job t call remote_id =
     add_attempt job t (\<lambda>i n. \<lparr>pa_id = i, pa_workspace_id = pj_workspace_id job, pa_job_id = pj_id job,
       pa_step_id = ss_id t, pa_attempt_number = n, pa_provider_request_id = cl_provider_request_id call,
       pa_method = cl_method call, pa_endpoint_path = cl_endpoint_path call,
       pa_request_metadata = redact_dict (cl_request_metadata call),
       pa_response_status = Some (cl_status_code call),
       pa_response_metadata = redact_dict (cl_response_metadata call), pa_retry_class = RetryClass.FINAL,
       pa_error_code = None, pa_remote_id = remote_id\<rparr>)"

text \<open>The step a failure is recorded on: the given one, else by the states of the last flush the last
  running step, else the first pending one.\<close>

definition failed_step :: "publish_job \<Rightarrow> 'a publish_db_scheme \<Rightarrow> saga_step option" where
  "failed_step job base =
     (let steps = filter (step_of job) (saga_steps base);
          running = sort_key (\<lambda>t. - ss_sequence t) (filter (\<lambda>t. ss_state t = StepState.RUNNING) steps);
          pending = sort_key ss_sequence (filter (\<lambda>t. ss_state t = StepState.PENDING) steps)
      in case running @ pending of [] \<Rightarrow> None | t # _ \<Rightarrow> Some t)"

definition mark_failed_step :: "'w saga_env \<Rightarrow> provider_failure \<Rightarrow> saga_step \<Rightarrow> saga_step" where
  "mark_failed_step env e t =
     t\<lparr>ss_state := (if pf_retry_class e \<noteq> RetryClass.FINAL then StepState.RETRYING else StepState.FAILED),
       ss_error_code := Some (pf_code e), ss_response_metadata := pf_response_metadata e,
       ss_finished_at := Some (ev_now env)\<rparr>"

definition record_provider_failure ::
  "'w saga_env \<Rightarrow> publish_job \<Rightarrow> provider_failure \<Rightarrow> saga_step option \<Rightarrow> ('a, 'w, unit) saga" where
  "record_provider_failure env job e step_arg =
     sg_bind (sg_gets (\<lambda>s. case step_arg of Some t \<Rightarrow> Some t | None \<Rightarrow> failed_step job (rn_base s))) (\<lambda>selected.
     case selected of
       None \<Rightarrow> sg_return ()
     | Some t \<Rightarrow>
         sg_then (set_step t (mark_failed_step env e))
         (add_attempt job t (\<lambda>i n. \<lparr>pa_id = i, pa_workspace_id = pj_workspace_id job, pa_job_id = pj_id job,
            pa_step_id = ss_id t, pa_attempt_number = n, pa_provider_request_id = None,
            pa_method = pf_method e, pa_endpoint_path = pf_endpoint_path e,
            pa_request_metadata = pf_request_metadata e, pa_response_status = pf_status_code e,
            pa_response_metadata = pf_response_metadata e, pa_retry_class = pf_retry_class e,
            pa_error_code = Some (pf_code e), pa_remote_id = None\<rparr>)))"

text \<open>Steps still pending, both in the last flush and now, are skipped; a local failure first marks the
  first running, else the first pending step of the last flush.\<close>

definition update_pending ::
  "publish_job \<Rightarrow> (StepState \<Rightarrow> bool) \<Rightarrow> (saga_step \<Rightarrow> saga_step) \<Rightarrow> ('a, 'w, unit) saga" where
  "update_pending job P f s =
     (let ids = map ss_id (filter (\<lambda>t. step_of job t \<and> P (ss_state t)) (saga_steps (rn_base s)))
      in modify_db (\<lambda>db. db\<lparr>saga_steps :=
           update_where (\<lambda>t. ss_id t \<in> set ids \<and> P (ss_state t)) f (saga_steps db)\<rparr>) s)"

definition skip_pending_steps :: "'w saga_env \<Rightarrow> publish_job \<Rightarrow> ('a, 'w, unit) saga" where
  "skip_pending_steps env job =
     sg_bind (the_job job) (\<lambda>j.
     update_pending job (\<lambda>st. st = StepState.PENDING) (\<lambda>t. t\<lparr>ss_state := StepState.SKIPPED,
       ss_finished_at := (case pj_finished_at j of None \<Rightarrow> Some (ev_now env) | Some t \<Rightarrow> Some t)\<rparr>))"

definition cancel_pending_steps :: "publish_job \<Rightarrow> ('a, 'w, unit) saga" where
  "cancel_pending_steps job =
     sg_bind (the_job job) (\<lambda>j.
     update_pending job (\<lambda>st. st = StepState.PENDING \<or> st = StepState.RETRYING)
       (\<lambda>t. t\<lparr>ss_state := StepState.CANCELLED, ss_finished_at := pj_finished_at j\<rparr>))"

definition record_local_failure :: "'w saga_env \<Rightarrow> publish_job \<Rightarrow> string \<Rightarrow> ('a, 'w, unit) saga" where
  "record_local_failure env job code =
     sg_bind (sg_gets (\<lambda>s.
       let steps = sort_key ss_sequence (filter (step_of job) (saga_steps (rn_base s)))
       in filter (\<lambda>t. ss_state t = StepState.RUNNING) steps @ filter (\<lambda>t. ss_state t = StepState.PENDING) steps)) (\<lambda>ts.
     sg_then (case ts of
         [] \<Rightarrow> sg_return ()
       | t # _ \<Rightarrow> set_step t (\<lambda>t. t\<lparr>ss_state := StepState.FAILED, ss_error_code := Some code,
                  ss_finished_at := Some (ev_now env)\<rparr>))
     (skip_pending_steps env job))"

section \<open>Notifications\<close>

definition audit_outbox ::
  "'w saga_env \<Rightarrow> uuid \<Rightarrow> uuid \<Rightarrow> string \<Rightarrow> string \<Rightarrow> uuid \<Rightarrow> (string \<times> json) list \<Rightarrow> ('a, 'w, unit) saga" where
  "audit_outbox env ws actor action target_type target_id details =
     sg_then (modify_db (append_audit_log (Some ws) (Some actor) action target_type (uuid_str target_id)
        (Some (JDict (redact_dict details))) None (ev_now env)))
     (sg_then sg_flush
     (sg_then (modify_db (add_outbox_event (Some ws) target_type (uuid_str target_id) action
        OUTBOX_SCHEMA_VERSION (JDict (merge_dict [(''workspace_id'', JStr (uuid_str ws)),
          (''actor_id'', JStr (uuid_str actor))] (redact_dict details))) (ev_now env)))
     sg_flush))"

definition recipients_of :: "(json \<Rightarrow> string) \<Rightarrow> publish_job \<Rightarrow> uuid list" where
  "recipients_of other job =
     (let approved_by = dict_get (pj_input_snapshot job) ''approved_by'' in
      dict_fromkeys (pj_requested_by job #
        (if py_truthy approved_by
         then (case parse_uuid (py_str other approved_by) of None \<Rightarrow> [] | Some u \<Rightarrow> [u]) else [])))"

definition job_notice ::
  "time \<Rightarrow> publish_job \<Rightarrow> string \<Rightarrow> (string \<times> json) list \<Rightarrow> uuid \<Rightarrow> uuid \<Rightarrow> publishing_notification" where
  "job_notice now job action details i recipient =
     \<lparr>pn_id = i, pn_workspace_id = pj_workspace_id job, pn_recipient_id = recipient,
      pn_publish_job_id = Some (pj_id job), pn_naver_package_id = None,
      pn_notification_type = replace_char CHR ''.'' CHR ''_'' (upper action),
      pn_payload_json = merge_dict [(''job_id'', JStr (uuid_str (pj_id job))),
        (''state'', JStr (job_state_value (pj_state job)))] (redact_dict details),
      pn_due_at = now, pn_delivered_at = None\<rparr>"

definition notify_and_emit ::
  "'w saga_env \<Rightarrow> publish_job \<Rightarrow> string \<Rightarrow> (string \<times> json) list \<Rightarrow> ('a, 'w, unit) saga" where
  "notify_and_emit env job action details =
     sg_bind (the_job job) (\<lambda>j.
     sg_then (modify_db (notify_all (job_notice (ev_now env) j action details) (recipients_of (ev_other env) j)))
     (audit_outbox env (pj_workspace_id job) (pj_requested_by job) action ''publish_job'' (pj_id job)
       (merge_dict [(''state'', JStr (job_state_value (pj_state j)))] (redact_dict details))))"

section \<open>Quota\<close>

definition quota_operation :: "publish_job \<Rightarrow> bool" where
  "quota_operation job \<longleftrightarrow> pj_operation job = PublishOperation.CREATE \<or> pj_operation job = PublishOperation.UPDATE"

definition quota_day :: "time \<Rightarrow> publish_job \<Rightarrow> int" where
  "quota_day now job = (case pj_scheduled_local job of None \<Rightarrow> date_of now | Some t \<Rightarrow> date_of t)"

definition job_channel :: "(json \<Rightarrow> string) \<Rightarrow> publish_job \<Rightarrow> string" where
  "job_channel other job =
     (case map_of (pj_input_snapshot job) ''channel'' of None \<Rightarrow> '''' | Some v \<Rightarrow> py_str other v)"

definition job_usage :: "'w saga_env \<Rightarrow> publish_job \<Rightarrow> ('a, 'w, quota_usage option) saga" where
  "job_usage env job = sg_gets (\<lambda>s.
     map_option (current qu_id (quota_usages (rn_db s)))
       (List.find (quota_row (pj_workspace_id job) (pj_connection_id job) (job_channel (ev_other env) job)
          (quota_day (ev_now env) job)) (quota_usages (rn_base s))))"

definition complete_quota :: "'w saga_env \<Rightarrow> publish_job \<Rightarrow> ('a, 'w, unit) saga" where
  "complete_quota env job =
     sg_bind (the_job job) (\<lambda>j.
     if \<not> quota_operation job \<or> pj_quota_completed_at j \<noteq> None then sg_return ()
     else if pj_quota_released_at j \<noteq> None then sg_raise (app_error ''PUBLISH_QUOTA_ALREADY_RELEASED'' 409)
     else sg_bind (job_usage env job) (\<lambda>found.
     case found of
       None \<Rightarrow> sg_raise (app_error ''PUBLISH_QUOTA_RESERVATION_MISSING'' 409)
     | Some u \<Rightarrow>
         sg_then (modify_db (update_quota (qu_id u) (\<lambda>u. u\<lparr>qu_completed_count := qu_completed_count u + 1\<rparr>)))
           (set_job job (\<lambda>j. j\<lparr>pj_quota_completed_at := Some (ev_now env)\<rparr>))))"

definition release_quota :: "'w saga_env \<Rightarrow> publish_job \<Rightarrow> bool \<Rightarrow> ('a, 'w, unit) saga" where
  "release_quota env job reverse_completed =
     sg_bind (the_job job) (\<lambda>j.
     if \<not> quota_operation job \<or> pj_quota_released_at j \<noteq> None then sg_return ()
     else sg_bind (job_usage env job) (\<lambda>found.
     case found of
       None \<Rightarrow> sg_return ()
     | Some u \<Rightarrow>
         if reverse_completed \<and> pj_quota_completed_at j \<noteq> None
         then sg_then (modify_db (update_quota (qu_id u) (\<lambda>u. u\<lparr>qu_completed_count := max 0 (qu_completed_count u - 1),
                qu_reserved_count := max 0 (qu_reserved_count u - 1)\<rparr>)))
              (set_job job (\<lambda>j. j\<lparr>pj_quota_released_at := Some (ev_now env)\<rparr>))
         else if pj_quota_completed_at j = None \<and> qu_completed_count u < qu_reserved_count u
         then sg_then (modify_db (update_quota (qu_id u) (\<lambda>u. u\<lparr>qu_reserved_count := qu_reserved_count u - 1\<rparr>)))
              (set_job job (\<lambda>j. j\<lparr>pj_quota_released_at := Some (ev_now env)\<rparr>))
         else sg_return ()))"

end
