(* ===== verification/Publish_Run.thy ===== *)
theory Publish_Run
  imports Publish_Saga
begin

text \<open>
  The operations of the publishing saga, \<^verbatim>\<open>domain/publishing/saga.py\<close>: writing, updating, deleting,
  reconciling and rolling back a remote post, cancelling a job, and one run of the job task,
  \<open>process_publish_job\<close>.
\<close>

section \<open>Remote posts\<close>

definition fail_final :: "string \<Rightarrow> int option \<Rightarrow> 's \<Rightarrow> 'r outcome \<times> 's" where
  "fail_final code status = sg_fail (final_provider_failure code status ''UNKNOWN'' '''')"

definition intact :: "hash_fn \<Rightarrow> remote_post \<Rightarrow> bool" where
  "intact H remote \<longleftrightarrow> H (JDict (rp_snapshot remote)) = rp_remote_hash remote"

definition assert_remote_integrity :: "'w saga_env \<Rightarrow> remote_post \<Rightarrow> 's \<Rightarrow> unit outcome \<times> 's" where
  "assert_remote_integrity env remote =
     (if intact (ev_hash env) remote then sg_return ()
      else fail_final ''PUBLISH_REMOTE_SNAPSHOT_HASH_MISMATCH'' None)"

definition post_state :: "string \<Rightarrow> bool \<Rightarrow> PublishedPostState" where
  "post_state remote_state partial =
     (let normalized = lower remote_state in
      if partial then PublishedPostState.PARTIAL
      else if normalized \<in> {''published'', ''publish'', ''live''} then PublishedPostState.PUBLISHED
      else if normalized \<in> {''scheduled'', ''future''} then PublishedPostState.SCHEDULED
      else if normalized = ''deleted'' then PublishedPostState.DELETED
      else PublishedPostState.DRAFT)"

definition applied_remote :: "time \<Rightarrow> remote_post \<Rightarrow> bool \<Rightarrow> published_post \<Rightarrow> published_post" where
  "applied_remote now remote partial post =
     post\<lparr>pt_remote_id := rp_remote_id remote, pt_remote_url := rp_remote_url remote,
       pt_remote_etag := rp_etag remote, pt_remote_hash := rp_remote_hash remote,
       pt_remote_updated_at := rp_updated_at remote, pt_last_reconciled_at := Some now,
       pt_state := post_state (rp_state remote) partial\<rparr>"

definition apply_remote :: "'w saga_env \<Rightarrow> published_post \<Rightarrow> remote_post \<Rightarrow> bool \<Rightarrow> ('a, 'w, unit) saga" where
  "apply_remote env post remote partial =
     sg_then (assert_remote_integrity env remote)
     (sg_bind (the_post post) (\<lambda>p.
     if pt_remote_id p \<noteq> [] \<and> pt_remote_id p \<noteq> rp_remote_id remote
     then fail_final ''PUBLISH_REMOTE_ID_CHANGED'' None
     else set_post post (applied_remote (ev_now env) remote partial)))"

definition remote_conflict :: "'w saga_env \<Rightarrow> publish_job \<Rightarrow> remote_post \<Rightarrow> 's \<Rightarrow> bool outcome \<times> 's" where
  "remote_conflict env job remote =
     sg_then (assert_remote_integrity env remote)
     (let input = pj_input_snapshot job;
          expected_hash = (case map_of input ''expected_remote_hash'' of None \<Rightarrow> '''' | Some v \<Rightarrow> py_str (ev_other env) v);
          expected_etag = dict_get input ''expected_remote_etag'';
          expected_updated_at = dict_get input ''expected_remote_updated_at''
      in sg_return (rp_remote_hash remote \<noteq> expected_hash
           \<or> (expected_etag \<noteq> JNull \<and> opt_text (rp_etag remote) \<noteq> expected_etag)
           \<or> (expected_updated_at \<noteq> JNull \<and> (rp_updated_at remote = None \<or> opt_time (rp_updated_at remote) \<noteq> expected_updated_at))))"

definition stale_target :: "publish_job \<Rightarrow> published_post \<Rightarrow> string option" where
  "stale_target job post =
     (let input = pj_input_snapshot job;
          expected_hash = dict_get input ''expected_remote_hash'';
          expected_etag = dict_get input ''expected_remote_etag'';
          expected_updated_at = dict_get input ''expected_remote_updated_at''
      in if expected_hash \<noteq> JNull \<and> JStr (pt_remote_hash post) \<noteq> expected_hash
         then Some ''PUBLISH_LOCAL_REMOTE_SNAPSHOT_STALE''
         else if expected_etag \<noteq> JNull \<and> opt_text (pt_remote_etag post) \<noteq> expected_etag
         then Some ''PUBLISH_LOCAL_ETAG_STALE''
         else if expected_updated_at \<noteq> JNull
           \<and> (pt_remote_updated_at post = None \<or> opt_time (pt_remote_updated_at post) \<noteq> expected_updated_at)
         then Some ''PUBLISH_LOCAL_UPDATED_AT_STALE'' else None)"

definition load_post :: "uuid \<Rightarrow> uuid \<Rightarrow> ('a, 'w, published_post) saga" where
  "load_post ws i =
     sg_bind (\<lambda>s. sg_lift (find_published_post ws i (rn_base s)) s) the_post"

definition target_post :: "publish_job \<Rightarrow> ('a, 'w, published_post) saga" where
  "target_post job =
     sg_bind (the_job job) (\<lambda>j.
     case pj_target_published_post_id j of
       None \<Rightarrow> fail_final ''PUBLISH_TARGET_POST_REQUIRED'' None
     | Some i \<Rightarrow>
         sg_bind (load_post (pj_workspace_id job) i) (\<lambda>post.
         case stale_target job post of
           None \<Rightarrow> sg_return post | Some code \<Rightarrow> fail_final code (Some 409)))"

definition fetch_remote ::
  "'w saga_env \<Rightarrow> 'w cms \<Rightarrow> connection_context \<Rightarrow> secret_material \<Rightarrow> publish_job \<Rightarrow> SagaStepKind \<Rightarrow> string
   \<Rightarrow> ('a, 'w, remote_post) saga" where
  "fetch_remote env cms ctx secret job kind_arg remote_id =
     sg_bind (running_step env job kind_arg) (\<lambda>t.
     sg_bind (outside (cms_get_post cms remote_id ctx secret)) (\<lambda>call.
     sg_then (record_call job t call (Some (rp_remote_id (cl_value call))))
     (sg_then (finish_step env t call) (sg_return (cl_value call)))))"

definition snapshot_remote ::
  "'w saga_env \<Rightarrow> publish_job \<Rightarrow> published_post \<Rightarrow> remote_post \<Rightarrow> string \<Rightarrow> ('a, 'w, unit) saga" where
  "snapshot_remote env job post remote reason =
     sg_then (assert_remote_integrity env remote)
     (sg_bind (sg_gets (\<lambda>s. List.find (\<lambda>n. sn_workspace_id n = pj_workspace_id job
          \<and> sn_published_post_id n = pt_id post \<and> sn_snapshot_hash n = rp_remote_hash remote)
          (remote_snapshots (rn_base s)))) (\<lambda>existing.
     case existing of
       Some n \<Rightarrow> succeed_local_step env job SagaStepKind.SNAPSHOT_REMOTE
                  [(''snapshot_id'', JStr (uuid_str (sn_id n))), (''reused'', JBool True)]
     | None \<Rightarrow>
         sg_bind fresh_id (\<lambda>i.
         sg_then (modify_db (\<lambda>db. db\<lparr>remote_snapshots := remote_snapshots db @
           [\<lparr>sn_id = i, sn_workspace_id = pj_workspace_id job, sn_published_post_id = pt_id post,
             sn_captured_by_job_id = pj_id job, sn_reason = reason, sn_snapshot_json = rp_snapshot remote,
             sn_snapshot_hash = rp_remote_hash remote, sn_remote_etag = rp_etag remote,
             sn_remote_updated_at = rp_updated_at remote\<rparr>]\<rparr>))
         (succeed_local_step env job SagaStepKind.SNAPSHOT_REMOTE
            [(''snapshot_id'', JStr (uuid_str i)), (''snapshot_hash'', JStr (rp_remote_hash remote))]))))"

definition IGNORED_SNAPSHOT_KEYS :: "string list" where
  "IGNORED_SNAPSHOT_KEYS =
     [''date_gmt'', ''modified_gmt'', ''published_at'', ''updated_at'', ''published'', ''updated'', ''status'', ''url'']"

definition snapshot_body :: "(string \<times> json) list \<Rightarrow> json" where
  "snapshot_body d = JDict (filter (\<lambda>kv. fst kv \<notin> set IGNORED_SNAPSHOT_KEYS) d)"

definition expected_scheduled_transition ::
  "'w saga_env \<Rightarrow> published_post \<Rightarrow> remote_post \<Rightarrow> ('a, 'w, bool) saga" where
  "expected_scheduled_transition env post remote =
     sg_bind (the_post post) (\<lambda>p.
     if pt_state p \<noteq> PublishedPostState.SCHEDULED \<or> post_state (rp_state remote) False \<noteq> PublishedPostState.PUBLISHED
     then sg_return False
     else sg_gets (\<lambda>s. case List.find (\<lambda>n. sn_workspace_id n = pt_workspace_id p \<and> sn_published_post_id n = pt_id p
              \<and> sn_snapshot_hash n = pt_remote_hash p) (remote_snapshots (rn_base s)) of
            None \<Rightarrow> False
          | Some n \<Rightarrow> ev_hash env (snapshot_body (sn_snapshot_json n)) = ev_hash env (snapshot_body (rp_snapshot remote))))"

section \<open>The document\<close>

definition resolve_ready_job ::
  "'w saga_env \<Rightarrow> publish_job \<Rightarrow> publishing_connection \<Rightarrow> publication_policy \<Rightarrow> ('a, 'w, PublishReadyContent) saga"
  where
  "resolve_ready_job env job c policy =
     sg_bind (\<lambda>s. sg_lift (resolve_publish_ready (ev_hash env) (ev_now env) (pj_workspace_id job)
        (pj_content_id job) (pj_content_version_id job) (pj_content_hash job) (pj_approval_request_id job)
        (provider_value (pc_provider c)) (pp_require_media_license policy) (rn_base s)) s) (\<lambda>ready.
     if rc_approval_snapshot_hash ready \<noteq> pj_approval_snapshot_hash job
     then sg_raise (app_error ''PUBLISH_APPROVAL_SNAPSHOT_MISMATCH'' 409) else sg_return ready)"

definition assoc_set :: "string \<Rightarrow> 'v \<Rightarrow> (string \<times> 'v) list \<Rightarrow> (string \<times> 'v) list" where
  "assoc_set k v d =
     (if k \<in> set (map fst d) then map (\<lambda>e. if fst e = k then (k, v) else e) d else d @ [(k, v)])"

definition retryable :: "provider_failure \<Rightarrow> bool" where
  "retryable e \<longleftrightarrow> pf_retry_class e \<in> {RetryClass.NETWORK, RetryClass.RATE_LIMIT, RetryClass.SERVER}"

type_synonym upload_state = "(string \<times> uploaded_media) list \<times> json list"

definition upload_new ::
  "'w saga_env \<Rightarrow> 'w cms \<Rightarrow> connection_context \<Rightarrow> secret_material \<Rightarrow> publish_job \<Rightarrow> saga_step \<Rightarrow> ReadyMedia
   \<Rightarrow> ('a, 'w, uploaded_media) saga" where
  "upload_new env cms ctx secret job t item =
     sg_bind (outside (sg_resolve_media env (rm_object_ref item) (rm_content_hash item))) (\<lambda>content.
     sg_bind (outside (cms_upload_media cms
        \<lparr>mx_placement_key = rm_placement_key item, mx_filename = rm_filename item, mx_mime_type = rm_mime_type item,
         mx_content = content, mx_alt_text = rm_alt_text item, mx_caption = rm_caption item\<rparr> ctx secret)) (\<lambda>call.
     sg_then (record_call job t call (Some (um_remote_id (cl_value call))))
     (sg_bind fresh_id (\<lambda>i.
     sg_then (modify_db (\<lambda>db. db\<lparr>media_bindings := media_bindings db @
        [\<lparr>mb_id = i, mb_workspace_id = pj_workspace_id job, mb_connection_id = pj_connection_id job,
          mb_media_version_id = rm_media_version_id item, mb_media_content_hash = rm_content_hash item,
          mb_remote_media_id = um_remote_id (cl_value call), mb_remote_url = um_remote_url (cl_value call),
          mb_uploaded_by_job_id = pj_id job\<rparr>]\<rparr>))
     (sg_return (cl_value call))))))"

definition upload_item ::
  "'w saga_env \<Rightarrow> 'w cms \<Rightarrow> connection_context \<Rightarrow> secret_material \<Rightarrow> publish_job \<Rightarrow> saga_step \<Rightarrow> ReadyMedia
   \<Rightarrow> upload_state \<Rightarrow> ('a, 'w, upload_state) saga" where
  "upload_item env cms ctx secret job t item acc =
     sg_catch_failure
       (sg_bind (sg_gets (\<lambda>s. List.find (\<lambda>b. mb_workspace_id b = pj_workspace_id job
            \<and> mb_connection_id b = pj_connection_id job \<and> mb_media_version_id b = rm_media_version_id item
            \<and> mb_media_content_hash b = rm_content_hash item) (media_bindings (rn_base s)))) (\<lambda>binding.
        case binding of
          Some b \<Rightarrow> sg_return (assoc_set (rm_placement_key item)
             \<lparr>um_remote_id = mb_remote_media_id b, um_remote_url = mb_remote_url b,
              um_placement_key = rm_placement_key item\<rparr> (fst acc), snd acc)
        | None \<Rightarrow>
            sg_bind (upload_new env cms ctx secret job t item) (\<lambda>u.
            sg_return (assoc_set (rm_placement_key item) u (fst acc), snd acc))))
       (\<lambda>e. if retryable e then sg_fail e
            else sg_then (record_provider_failure env job e (Some t))
                 (sg_return (fst acc, snd acc @ [JDict
                    [(''placement_key'', JStr (rm_placement_key item)), (''error_code'', JStr (pf_code e)),
                     (''retry_class'', JStr (retry_class_value (pf_retry_class e)))]])))"

fun upload_items ::
  "'w saga_env \<Rightarrow> 'w cms \<Rightarrow> connection_context \<Rightarrow> secret_material \<Rightarrow> publish_job \<Rightarrow> saga_step \<Rightarrow> ReadyMedia list
   \<Rightarrow> upload_state \<Rightarrow> ('a, 'w, upload_state) saga" where
  "upload_items env cms ctx secret job t [] acc = sg_return acc"
| "upload_items env cms ctx secret job t (item # items) acc =
     sg_bind (upload_item env cms ctx secret job t item acc) (upload_items env cms ctx secret job t items)"

definition upload_media ::
  "'w saga_env \<Rightarrow> 'w cms \<Rightarrow> connection_context \<Rightarrow> secret_material \<Rightarrow> publish_job \<Rightarrow> ReadyMedia list
   \<Rightarrow> ('a, 'w, upload_state) saga" where
  "upload_media env cms ctx secret job media =
     (if media = [] then sg_then (succeed_local_step env job SagaStepKind.UPLOAD_MEDIA [(''count'', JInt 0)])
                          (sg_return ([], []))
      else sg_bind (running_step env job SagaStepKind.UPLOAD_MEDIA) (\<lambda>t.
           sg_bind (upload_items env cms ctx secret job t media ([], [])) (\<lambda>(uploads, failures).
           sg_then (set_step t (\<lambda>t. t\<lparr>ss_state := (if failures = [] then StepState.SUCCEEDED else StepState.FAILED),
              ss_response_metadata := [(''uploaded'', JInt (int (length uploads))), (''failed'', JInt (int (length failures)))],
              ss_finished_at := Some (ev_now env)\<rparr>))
           (sg_return (uploads, failures)))))"

definition dict_or_empty :: "json \<Rightarrow> (string \<times> json) list" where
  "dict_or_empty v = (case v of JDict d \<Rightarrow> d | _ \<Rightarrow> [])"

definition featured_options ::
  "PublishReadyContent \<Rightarrow> (string \<times> uploaded_media) list \<Rightarrow> (string \<times> json) list \<Rightarrow> (string \<times> json) list" where
  "featured_options ready uploads options =
     (case dict_get options ''featured_media_placement'' of
        JStr featured \<Rightarrow>
          (case (featured = [], map_of uploads featured) of
             (False, Some u) \<Rightarrow>
               merge_dict options ([(''featured_media_remote_id'', JStr (um_remote_id u)),
                 (''featured_media_url'', JStr (um_remote_url u))] @
                 (case List.find (\<lambda>m. rm_placement_key m = featured) (rc_media ready) of
                    None \<Rightarrow> []
                  | Some m \<Rightarrow> [(''featured_media_alt'', JStr (rm_alt_text m)),
                               (''featured_media_caption'', opt_text (rm_caption m))]))
           | _ \<Rightarrow> options)
      | _ \<Rightarrow> options)"

definition document_of ::
  "'w saga_env \<Rightarrow> publish_job \<Rightarrow> PublishReadyContent \<Rightarrow> (string \<times> uploaded_media) list \<Rightarrow> publish_document result"
  where
  "document_of env job ready uploads =
     (let options = dict_or_empty (dict_get (pj_input_snapshot job) ''options'');
          media_urls = map (\<lambda>(k, u). (k, um_remote_url u)) uploads;
          rendered = sg_render env (rc_document ready) media_urls
            (dict_or_empty (dict_get options ''tracking''))
            (concat (map (\<lambda>m. case rm_attribution_text m of None \<Rightarrow> [] | Some t \<Rightarrow> if t = [] then [] else [t])
               (rc_media ready)));
          options = featured_options ready uploads options
      in if rx_unsupported rendered \<noteq> [] \<and> dict_get options ''unsupported_block_policy'' = JStr ''REJECT''
         then Inl (AppError ''PUBLISH_UNSUPPORTED_BLOCK'' 409
                (map (\<lambda>d. (''block'', py_str (ev_other env) (dict_get d ''block_key''))) (rx_unsupported rendered)) None)
         else Inr \<lparr>dc_title = rc_title ready, dc_html = rx_html rendered, dc_plain_text = rc_plain_text ready,
                dc_visibility = pj_visibility job,
                dc_scheduled_at_utc = (if pj_visibility job = PublishVisibility.SCHEDULED then pj_scheduled_at_utc job else None),
                dc_idempotency_marker = pj_idempotency_marker job, dc_options = options, dc_media_urls = media_urls\<rparr>)"

definition INTERNAL_OPTIONS :: "string list" where
  "INTERNAL_OPTIONS =
     [''featured_media_remote_id'', ''featured_media_url'', ''featured_media_alt'', ''featured_media_caption'']"

definition empty_option :: "json \<Rightarrow> bool" where
  "empty_option v \<longleftrightarrow> v = JNull \<or> v = JList [] \<or> v = JDict [] \<or> py_eq v (JBool False)"

definition supported_options :: "PublishingProvider \<Rightarrow> string list option" where
  "supported_options pr =
     (if pr = PublishingProvider.WORDPRESS
      then Some [''excerpt'', ''category_ids'', ''category_names'', ''tags'', ''create_missing_taxonomy'',
        ''remote_author_id'', ''featured_media_placement'', ''comment_status'', ''tracking'', ''allowed_meta'',
        ''unsupported_block_policy'']
      else if pr = PublishingProvider.GHOST
      then Some [''tags'', ''create_missing_taxonomy'', ''remote_author_id'', ''featured_media_placement'',
        ''canonical_url'', ''newsletter_id'', ''send_newsletter'', ''member_visibility'', ''tracking'',
        ''unsupported_block_policy'']
      else if pr = PublishingProvider.BLOGGER
      then Some [''tags'', ''tracking'', ''unsupported_block_policy''] else None)"

definition unsupported_options :: "publishing_connection \<Rightarrow> (string \<times> json) list \<Rightarrow> string list" where
  "unsupported_options c options =
     (let present = map fst (filter (\<lambda>(k, v). \<not> empty_option v \<and> k \<notin> set INTERNAL_OPTIONS) options)
      in case supported_options (pc_provider c) of
           None \<Rightarrow> [] | Some ks \<Rightarrow> sort (filter (\<lambda>k. k \<notin> set ks) (remdups present)))"

definition media_remediation :: "json list \<Rightarrow> json" where
  "media_remediation failures =
     (if failures = [] then JNull
      else if list_ex retryable_media_failure failures then JStr ''RETRY_JOB''
      else JStr ''EDIT_CONTENT_OR_UPLOAD_MEDIA_MANUALLY'')"

text \<open>Readiness and upload, then the document: the common start of the operations that write content.\<close>

definition prepared_document ::
  "'w saga_env \<Rightarrow> 'w cms \<Rightarrow> connection_context \<Rightarrow> secret_material \<Rightarrow> publish_job \<Rightarrow> PublishReadyContent
   \<Rightarrow> ('a, 'w, publish_document \<times> json list) saga" where
  "prepared_document env cms ctx secret job ready =
     sg_bind (upload_media env cms ctx secret job (rc_media ready)) (\<lambda>(uploads, failures).
     sg_bind (sg_lift (document_of env job ready uploads)) (\<lambda>document. sg_return (document, failures)))"

definition write_result ::
  "publishing_connection \<Rightarrow> published_post \<Rightarrow> publish_document \<Rightarrow> json list \<Rightarrow> (string \<times> json) list" where
  "write_result c post document failures =
     [(''published_post_id'', JStr (uuid_str (pt_id post))), (''remote_id'', JStr (pt_remote_id post)),
      (''remote_url'', JStr (pt_remote_url post)), (''media_failures'', JList failures),
      (''media_remediation'', media_remediation failures),
      (''unsupported_options'', text_list (unsupported_options c (dc_options document)))]"

end
