(* ===== verification/Publish_Process.thy ===== *)
theory Publish_Process
  imports Publish_Run
begin

text \<open>
  The five operations of a publish job, the cancellation, and \<open>process_publish_job\<close>, of
  \<^verbatim>\<open>domain/publishing/saga.py\<close>; \<open>run_publish_task\<close> is the transaction the task of \<^verbatim>\<open>tasks.py\<close> wraps around it.
\<close>

section \<open>Operations\<close>

text \<open>What a run holds: the provider with its context and credential, and the rows it loaded.\<close>

record 'w publish_context =
  pu_cms :: "'w cms"
  pu_context :: connection_context
  pu_secret :: secret_material
  pu_job :: publish_job
  pu_connection :: publishing_connection
  pu_policy :: publication_policy

definition found_or_created ::
  "'w publish_context \<Rightarrow> saga_step \<Rightarrow> publish_document \<Rightarrow> 'w saga_env \<Rightarrow> ('a, 'w, remote_post provider_call) saga" where
  "found_or_created r t document env =
     sg_bind (outside (cms_find_by_marker (pu_cms r) (pj_idempotency_marker (pu_job r)) (pu_context r) (pu_secret r)))
       (\<lambda>found.
     sg_then (record_call (pu_job r) t found (map_option rp_remote_id (cl_value found)))
     (case cl_value found of
        None \<Rightarrow> outside (cms_create_post (pu_cms r) document (pu_context r) (pu_secret r))
      | Some remote \<Rightarrow>
          sg_then (assert_remote_integrity env remote)
          (outside (cms_update_post (pu_cms r) remote document (pu_context r) (pu_secret r)))))"

definition new_post ::
  "'w saga_env \<Rightarrow> 'w publish_context \<Rightarrow> remote_post \<Rightarrow> bool \<Rightarrow> uuid \<Rightarrow> published_post" where
  "new_post env r remote partial i =
     \<lparr>pt_id = i, pt_workspace_id = pj_workspace_id (pu_job r), pt_content_id = pj_content_id (pu_job r),
      pt_content_version_id = pj_content_version_id (pu_job r), pt_content_hash = pj_content_hash (pu_job r),
      pt_approval_request_id = pj_approval_request_id (pu_job r),
      pt_connection_id = Some (pj_connection_id (pu_job r)), pt_created_by_job_id = Some (pj_id (pu_job r)),
      pt_naver_package_id = None, pt_provider = pc_provider (pu_connection r),
      pt_remote_site_id = pc_remote_site_id (pu_connection r), pt_remote_id = rp_remote_id remote,
      pt_remote_url = rp_remote_url remote, pt_state = post_state (rp_state remote) partial,
      pt_remote_etag = rp_etag remote, pt_remote_hash = rp_remote_hash remote,
      pt_remote_updated_at = rp_updated_at remote,
      pt_local_snapshot_hash = pj_input_snapshot_hash (pu_job r), pt_last_reconciled_at = Some (ev_now env),
      pt_conflict_json = None, pt_deleted_at = None, pt_lock_version = 1\<rparr>"

definition created_post ::
  "'w saga_env \<Rightarrow> 'w publish_context \<Rightarrow> remote_post \<Rightarrow> bool \<Rightarrow> ('a, 'w, published_post) saga" where
  "created_post env r remote partial =
     sg_bind (sg_gets (\<lambda>s. List.find (\<lambda>p. pt_workspace_id p = pj_workspace_id (pu_job r)
        \<and> pt_created_by_job_id p = Some (pj_id (pu_job r))) (published_posts (rn_base s)))) (\<lambda>existing.
     case existing of
       Some post \<Rightarrow> sg_then (apply_remote env post remote partial) (sg_return post)
     | None \<Rightarrow>
         sg_bind fresh_id (\<lambda>i.
         let post = new_post env r remote partial i
         in sg_then (modify_db (\<lambda>db. db\<lparr>published_posts := published_posts db @ [post]\<rparr>)) (sg_return post)))"

definition set_result :: "publish_job \<Rightarrow> (string \<times> json) list \<Rightarrow> ('a, 'w, unit) saga" where
  "set_result job d = set_job job (\<lambda>j. j\<lparr>pj_result_json := Some d\<rparr>)"

definition fetch :: "'w saga_env \<Rightarrow> 'w publish_context \<Rightarrow> SagaStepKind \<Rightarrow> string \<Rightarrow> ('a, 'w, remote_post) saga" where
  "fetch env r kind_arg remote_id =
     fetch_remote env (pu_cms r) (pu_context r) (pu_secret r) (pu_job r) kind_arg remote_id"

text \<open>After the write: read the post back, store what the site shows, take a snapshot.\<close>

definition verified_post ::
  "'w saga_env \<Rightarrow> 'w publish_context \<Rightarrow> published_post \<Rightarrow> string \<Rightarrow> (published_post \<Rightarrow> published_post) \<Rightarrow> bool \<Rightarrow> string
   \<Rightarrow> ('a, 'w, published_post) saga" where
  "verified_post env r post remote_id f partial reason =
     sg_bind (fetch env r SagaStepKind.VERIFY_REMOTE remote_id) (\<lambda>verified.
     sg_then (set_post post f)
     (sg_then (apply_remote env post verified partial)
     (sg_then (snapshot_remote env (pu_job r) post verified reason)
     (the_post post))))"

definition create_remote :: "'w saga_env \<Rightarrow> 'w publish_context \<Rightarrow> ('a, 'w, bool) saga" where
  "create_remote env r =
     sg_bind (resolve_ready_job env (pu_job r) (pu_connection r) (pu_policy r)) (\<lambda>ready.
     sg_then (succeed_local_step env (pu_job r) SagaStepKind.VALIDATE_READINESS
        [(''approval_snapshot_hash'', JStr (rc_approval_snapshot_hash ready))])
     (sg_bind (prepared_document env (pu_cms r) (pu_context r) (pu_secret r) (pu_job r) ready) (\<lambda>(document, failures).
     sg_bind (running_step env (pu_job r) SagaStepKind.WRITE_POST) (\<lambda>t.
     sg_bind (found_or_created r t document env) (\<lambda>call.
     let remote = cl_value call; partial = failures \<noteq> [] in
     sg_then (record_call (pu_job r) t call (Some (rp_remote_id remote)))
     (sg_then (finish_step env t call)
     (sg_then (assert_remote_integrity env remote)
     (sg_bind (created_post env r remote partial) (\<lambda>post.
     sg_then (set_job (pu_job r) (\<lambda>j. j\<lparr>pj_target_published_post_id := Some (pt_id post)\<rparr>))
     (sg_bind (verified_post env r post (rp_remote_id remote) id partial ''AFTER_CREATE'') (\<lambda>post.
     sg_then (set_result (pu_job r) (write_result (pu_connection r) post document failures))
     (sg_then (complete_quota env (pu_job r)) (sg_return partial)))))))))))))"

definition job_action :: "publish_job \<Rightarrow> ConflictAction result" where
  "job_action job =
     (case map_of (pj_input_snapshot job) ''conflict_action'' of
        None \<Rightarrow> Inr ConflictAction.ABORT | Some v \<Rightarrow> conflict_action_of v)"

definition remote_conflict_failure :: "'s \<Rightarrow> 'r outcome \<times> 's" where
  "remote_conflict_failure = fail_final ''PUBLISH_REMOTE_CONFLICT'' (Some 409)"

definition write_update ::
  "'w saga_env \<Rightarrow> 'w publish_context \<Rightarrow> remote_post \<Rightarrow> publish_document \<Rightarrow> ('a, 'w, unit) saga" where
  "write_update env r remote document =
     sg_bind (running_step env (pu_job r) SagaStepKind.WRITE_POST) (\<lambda>t.
     sg_bind (outside (cms_update_post (pu_cms r) remote document (pu_context r) (pu_secret r))) (\<lambda>call.
     sg_then (record_call (pu_job r) t call (Some (rp_remote_id (cl_value call)))) (finish_step env t call)))"

definition import_remote ::
  "'w saga_env \<Rightarrow> 'w publish_context \<Rightarrow> published_post \<Rightarrow> remote_post \<Rightarrow> string \<Rightarrow> ('a, 'w, bool) saga" where
  "import_remote env r post remote hash_key =
     sg_then (apply_remote env post remote False)
     (sg_then (set_post post (\<lambda>p. p\<lparr>pt_state := PublishedPostState.CONFLICT,
        pt_conflict_json := Some [(''resolution'', JStr ''IMPORT_REMOTE_SNAPSHOT''),
          (hash_key, JStr (rp_remote_hash remote))]\<rparr>))
     (sg_then (set_result (pu_job r) [(''published_post_id'', JStr (uuid_str (pt_id post))),
        (''remote_imported'', JBool True)])
     (sg_return False)))"

definition updated_version :: "PublishReadyContent \<Rightarrow> publish_job \<Rightarrow> published_post \<Rightarrow> published_post" where
  "updated_version ready job p =
     p\<lparr>pt_content_version_id := rc_content_version_id ready, pt_content_hash := rc_content_hash ready,
       pt_approval_request_id := rc_approval_request_id ready,
       pt_local_snapshot_hash := pj_input_snapshot_hash job, pt_conflict_json := None\<rparr>"

definition update_remote :: "'w saga_env \<Rightarrow> 'w publish_context \<Rightarrow> ('a, 'w, bool) saga" where
  "update_remote env r =
     sg_bind (resolve_ready_job env (pu_job r) (pu_connection r) (pu_policy r)) (\<lambda>ready.
     sg_then (succeed_local_step env (pu_job r) SagaStepKind.VALIDATE_READINESS
        [(''approval_snapshot_hash'', JStr (rc_approval_snapshot_hash ready))])
     (sg_bind (target_post (pu_job r)) (\<lambda>post.
     sg_bind (fetch env r SagaStepKind.FETCH_REMOTE (pt_remote_id post)) (\<lambda>remote.
     sg_bind (sg_lift (job_action (pu_job r))) (\<lambda>action.
     sg_bind (remote_conflict env (pu_job r) remote) (\<lambda>conflict.
     if conflict \<and> action = ConflictAction.ABORT then remote_conflict_failure
     else sg_then (snapshot_remote env (pu_job r) post remote ''BEFORE_UPDATE'')
     (if conflict \<and> action = ConflictAction.IMPORT_REMOTE then import_remote env r post remote ''snapshot_hash''
     else sg_bind (prepared_document env (pu_cms r) (pu_context r) (pu_secret r) (pu_job r) ready) (\<lambda>(document, failures).
     let partial = failures \<noteq> [] in
     sg_then (write_update env r remote document)
     (sg_bind (verified_post env r post (pt_remote_id post) (updated_version ready (pu_job r)) partial ''AFTER_UPDATE'')
        (\<lambda>post.
     sg_then (set_result (pu_job r) (write_result (pu_connection r) post document failures))
     (sg_then (complete_quota env (pu_job r)) (sg_return partial))))))))))))"

text \<open>A 404 of the fetch is the answer that the post is gone: the failure is recorded, and the step that
  fetched counts as done.\<close>

definition missing_step :: "'w saga_env \<Rightarrow> publish_job \<Rightarrow> SagaStepKind \<Rightarrow> provider_failure \<Rightarrow> ('a, 'w, unit) saga" where
  "missing_step env job kind_arg e =
     sg_then (record_provider_failure env job e None)
     (sg_bind (sg_gets (\<lambda>s. List.find (\<lambda>t. step_of job t \<and> ss_step_kind t = kind_arg) (saga_steps (rn_base s)))) (\<lambda>found.
     case found of
       None \<Rightarrow> sg_return ()
     | Some t \<Rightarrow> set_step t (\<lambda>t. t\<lparr>ss_state := StepState.SUCCEEDED, ss_error_code := None,
         ss_response_metadata := [(''remote_missing'', JBool True), (''status'', JInt 404)],
         ss_finished_at := Some (ev_now env)\<rparr>)))"

definition fetch_or_missing ::
  "'w saga_env \<Rightarrow> 'w publish_context \<Rightarrow> SagaStepKind \<Rightarrow> published_post \<Rightarrow> ('a, 'w, remote_post option) saga" where
  "fetch_or_missing env r kind_arg post =
     sg_catch_failure
       (sg_bind (fetch env r kind_arg (pt_remote_id post)) (\<lambda>remote. sg_return (Some remote)))
       (\<lambda>e. if pf_status_code e \<noteq> Some 404 then sg_fail e
            else sg_then (missing_step env (pu_job r) kind_arg e) (sg_return None))"

definition force_delete :: "publish_job \<Rightarrow> bool" where
  "force_delete job \<longleftrightarrow> py_truthy (dict_get (pj_input_snapshot job) ''force_delete'')"

definition delete_remote :: "'w saga_env \<Rightarrow> 'w publish_context \<Rightarrow> ('a, 'w, bool) saga" where
  "delete_remote env r =
     sg_bind (target_post (pu_job r)) (\<lambda>post.
     sg_bind (fetch_or_missing env r SagaStepKind.FETCH_REMOTE post) (\<lambda>found.
     case found of
       None \<Rightarrow>
         sg_then (set_post post (\<lambda>p. p\<lparr>pt_state := PublishedPostState.DELETED, pt_deleted_at := Some (ev_now env),
            pt_last_reconciled_at := Some (ev_now env)\<rparr>))
         (sg_then (set_result (pu_job r) [(''published_post_id'', JStr (uuid_str (pt_id post))),
            (''remote_id'', JStr (pt_remote_id post)), (''deleted'', JBool True), (''already_missing'', JBool True)])
         (sg_return False))
     | Some remote \<Rightarrow>
         sg_bind (remote_conflict env (pu_job r) remote) (\<lambda>conflict.
         if conflict then remote_conflict_failure
         else sg_then (snapshot_remote env (pu_job r) post remote ''BEFORE_DELETE'')
         (sg_bind (running_step env (pu_job r) SagaStepKind.WRITE_POST) (\<lambda>t.
         sg_bind (outside (cms_delete_post (pu_cms r) remote (force_delete (pu_job r)) (pu_context r) (pu_secret r))) (\<lambda>call.
         sg_then (record_call (pu_job r) t call (Some (rp_remote_id (cl_value call))))
         (sg_then (finish_step env t call)
         (sg_then (set_post post (\<lambda>p. p\<lparr>pt_state := (if force_delete (pu_job r)
               then PublishedPostState.DELETED else PublishedPostState.TRASHED),
            pt_deleted_at := Some (ev_now env), pt_last_reconciled_at := Some (ev_now env)\<rparr>))
         (sg_then (set_result (pu_job r) [(''published_post_id'', JStr (uuid_str (pt_id post))),
            (''remote_id'', JStr (pt_remote_id post)), (''deleted'', JBool True),
            (''force'', JBool (force_delete (pu_job r)))])
         (sg_return False))))))))))"

definition overwrite_remote ::
  "'w saga_env \<Rightarrow> 'w publish_context \<Rightarrow> published_post \<Rightarrow> remote_post \<Rightarrow> ('a, 'w, bool) saga" where
  "overwrite_remote env r post remote =
     sg_bind (resolve_ready_job env (pu_job r) (pu_connection r) (pu_policy r)) (\<lambda>ready.
     sg_bind (prepared_document env (pu_cms r) (pu_context r) (pu_secret r) (pu_job r) ready) (\<lambda>(document, failures).
     let partial = failures \<noteq> [] in
     sg_then (write_update env r remote document)
     (sg_bind (verified_post env r post (pt_remote_id post) id partial ''AFTER_RECONCILE_OVERWRITE'') (\<lambda>_.
     sg_then (set_post post (\<lambda>p. p\<lparr>pt_conflict_json := None\<rparr>))
     (sg_then (set_result (pu_job r) [(''published_post_id'', JStr (uuid_str (pt_id post))),
        (''remote_overwritten'', JBool True), (''media_failures'', JList failures),
        (''media_remediation'', media_remediation failures),
        (''unsupported_options'', text_list (unsupported_options (pu_connection r) (dc_options document)))])
     (sg_return partial))))))"

definition reconcile_remote :: "'w saga_env \<Rightarrow> 'w publish_context \<Rightarrow> ('a, 'w, bool) saga" where
  "reconcile_remote env r =
     sg_bind (target_post (pu_job r)) (\<lambda>post.
     let post_key = (''published_post_id'', JStr (uuid_str (pt_id post))) in
     sg_bind (fetch_or_missing env r SagaStepKind.RECONCILE post) (\<lambda>found.
     case found of
       None \<Rightarrow>
         sg_then (set_post post (\<lambda>p. p\<lparr>pt_state := PublishedPostState.REMOTE_MISSING,
            pt_conflict_json := Some [(''remote_missing'', JBool True)], pt_last_reconciled_at := Some (ev_now env)\<rparr>))
         (sg_then (set_result (pu_job r) [post_key, (''remote_missing'', JBool True)]) (sg_return False))
     | Some remote \<Rightarrow>
         sg_bind (remote_conflict env (pu_job r) remote) (\<lambda>conflict.
         if \<not> conflict then
           sg_then (set_post post (\<lambda>p. p\<lparr>pt_last_reconciled_at := Some (ev_now env)\<rparr>))
           (sg_then (set_result (pu_job r) [post_key, (''in_sync'', JBool True)]) (sg_return False))
         else sg_bind (expected_scheduled_transition env post remote) (\<lambda>transition.
         if transition then
           sg_then (snapshot_remote env (pu_job r) post remote ''SCHEDULE_TRANSITION'')
           (sg_then (apply_remote env post remote False)
           (sg_then (set_post post (\<lambda>p. p\<lparr>pt_conflict_json := None\<rparr>))
           (sg_then (set_result (pu_job r) [post_key, (''scheduled_transition'', JBool True),
              (''remote_state'', JStr (rp_state remote))]) (sg_return False))))
         else sg_then (snapshot_remote env (pu_job r) post remote ''RECONCILIATION_CONFLICT'')
         (sg_bind (sg_lift (job_action (pu_job r))) (\<lambda>action.
         if action = ConflictAction.ABORT then
           sg_then (set_post post (\<lambda>p. p\<lparr>pt_state := PublishedPostState.CONFLICT,
              pt_conflict_json := Some [(''remote_hash'', JStr (rp_remote_hash remote)),
                (''remote_etag'', opt_text (rp_etag remote))]\<rparr>))
           remote_conflict_failure
         else if action = ConflictAction.IMPORT_REMOTE then import_remote env r post remote ''remote_hash''
         else overwrite_remote env r post remote))))))"

definition rollback_snapshot :: "'w saga_env \<Rightarrow> publish_job \<Rightarrow> published_post \<Rightarrow> ('a, 'w, remote_snapshot) saga" where
  "rollback_snapshot env job post =
     (case map_of (pj_input_snapshot job) ''snapshot_id'' of
        None \<Rightarrow> sg_raise KeyError
      | Some v \<Rightarrow>
          (case parse_uuid (py_str (ev_other env) v) of
             None \<Rightarrow> sg_raise (ValueError ''badly formed hexadecimal UUID string'')
           | Some i \<Rightarrow>
               sg_bind (\<lambda>s. sg_lift (find_remote_snapshot (pj_workspace_id job) i (rn_base s)) s) (\<lambda>n.
               if sn_published_post_id n \<noteq> pt_id post
                  \<or> JStr (sn_snapshot_hash n) \<noteq> dict_get (pj_input_snapshot job) ''snapshot_hash''
                  \<or> ev_hash env (JDict (sn_snapshot_json n)) \<noteq> sn_snapshot_hash n
               then fail_final ''ROLLBACK_SNAPSHOT_MISMATCH'' None else sg_return n)))"

definition rollback_remote :: "'w saga_env \<Rightarrow> 'w publish_context \<Rightarrow> ('a, 'w, bool) saga" where
  "rollback_remote env r =
     sg_bind (target_post (pu_job r)) (\<lambda>post.
     sg_bind (fetch env r SagaStepKind.FETCH_REMOTE (pt_remote_id post)) (\<lambda>remote.
     sg_bind (remote_conflict env (pu_job r) remote) (\<lambda>conflict.
     if conflict then remote_conflict_failure
     else sg_then (snapshot_remote env (pu_job r) post remote ''BEFORE_ROLLBACK'')
     (sg_bind (rollback_snapshot env (pu_job r) post) (\<lambda>n.
     sg_bind (running_step env (pu_job r) SagaStepKind.ROLLBACK) (\<lambda>t.
     sg_bind (outside (cms_restore_snapshot (pu_cms r) remote (sn_snapshot_json n) (pu_context r) (pu_secret r))) (\<lambda>call.
     sg_then (record_call (pu_job r) t call (Some (rp_remote_id (cl_value call))))
     (sg_then (finish_step env t call)
     (sg_bind (verified_post env r post (pt_remote_id post) id False ''AFTER_ROLLBACK'') (\<lambda>_.
     sg_then (set_post post (\<lambda>p. p\<lparr>pt_conflict_json := None\<rparr>))
     (sg_then (set_result (pu_job r) [(''published_post_id'', JStr (uuid_str (pt_id post))),
        (''restored_snapshot_id'', JStr (uuid_str (sn_id n)))])
     (sg_return False))))))))))))"

definition run_operation :: "'w saga_env \<Rightarrow> 'w publish_context \<Rightarrow> ('a, 'w, bool) saga" where
  "run_operation env r =
     (case pj_operation (pu_job r) of
        PublishOperation.CREATE \<Rightarrow> create_remote env r
      | PublishOperation.UPDATE \<Rightarrow> update_remote env r
      | PublishOperation.DELETE \<Rightarrow> delete_remote env r
      | PublishOperation.RECONCILE \<Rightarrow> reconcile_remote env r
      | PublishOperation.ROLLBACK \<Rightarrow> rollback_remote env r)"

section \<open>Ends of a run\<close>

type_synonym run_result = "JobState \<times> int option"

definition job_result_of :: "publish_job \<Rightarrow> ('a, 'w, run_result) saga" where
  "job_result_of job =
     sg_bind (the_job job) (\<lambda>j. sg_return (pj_state j, pj_retry_after_seconds j))"

definition complete_job :: "'w saga_env \<Rightarrow> publish_job \<Rightarrow> bool \<Rightarrow> ('a, 'w, unit) saga" where
  "complete_job env job partial =
     sg_then (set_job job (\<lambda>j. j\<lparr>pj_state := (if partial then JobState.PARTIAL else JobState.SUCCEEDED),
        pj_finished_at := Some (ev_now env)\<rparr>))
     (sg_bind (the_job job) (\<lambda>j.
     sg_then (notify_and_emit env job (if partial then ''publishing.job.partial'' else ''publishing.job.succeeded'')
        [(''result'', JDict (redact_dict (case pj_result_json j of None \<Rightarrow> [] | Some d \<Rightarrow> d)))])
     (sg_then (succeed_local_step env job SagaStepKind.NOTIFY
        [(''notification_type'', JStr (if partial then ''PARTIAL'' else ''SUCCEEDED''))])
     (skip_pending_steps env job))))"

definition opt_int :: "int option \<Rightarrow> json" where
  "opt_int n = (case n of None \<Rightarrow> JNull | Some i \<Rightarrow> JInt i)"

definition retry_delay :: "provider_failure \<Rightarrow> int \<Rightarrow> int" where
  "retry_delay e attempt =
     (case pf_retry_after_seconds e of
        Some n \<Rightarrow> if n \<noteq> 0 then n else capped_exponential_delay 5 3600 (attempt - 1)
      | None \<Rightarrow> capped_exponential_delay 5 3600 (attempt - 1))"

text \<open>The end of a run that failed at the provider, for a publication and for a cancellation: a retry while
  attempts are left, else the final failure; \<open>finish\<close> is what a final failure does beyond its steps.\<close>

definition end_failed ::
  "'w saga_env \<Rightarrow> publish_job \<Rightarrow> provider_failure \<Rightarrow> ('a, 'w, unit) saga \<Rightarrow> string \<Rightarrow> string \<Rightarrow> ('a, 'w, unit) saga"
  where
  "end_failed env job e finish retry_event final_event =
     sg_then (record_provider_failure env job e None)
     (sg_bind (the_job job) (\<lambda>j.
     sg_then (if retryable e \<and> pj_attempt j < pj_max_attempts j
        then set_job job (\<lambda>j. j\<lparr>pj_state := JobState.RETRYABLE_FAILED,
               pj_retry_after_seconds := Some (retry_delay e (pj_attempt j))\<rparr>)
        else sg_then (set_job job (\<lambda>j. j\<lparr>pj_state := JobState.FINAL_FAILED, pj_finished_at := Some (ev_now env)\<rparr>))
             (sg_then (skip_pending_steps env job) finish))
     (sg_then (set_job job (\<lambda>j. j\<lparr>pj_error_code := Some (pf_code e)\<rparr>))
     (sg_bind (the_job job) (\<lambda>j.
     notify_and_emit env job (if pj_state j = JobState.RETRYABLE_FAILED then retry_event else final_event)
       [(''error_code'', JStr (pf_code e)), (''retry_class'', JStr (retry_class_value (pf_retry_class e))),
        (''retry_after_seconds'', opt_int (pj_retry_after_seconds j))])))))"

definition release_uncompleted :: "'w saga_env \<Rightarrow> publish_job \<Rightarrow> ('a, 'w, unit) saga" where
  "release_uncompleted env job =
     sg_bind (the_job job) (\<lambda>j.
     if quota_operation job \<and> pj_quota_completed_at j = None then release_quota env job False else sg_return ())"

definition final_failure :: "'w saga_env \<Rightarrow> publish_job \<Rightarrow> string \<Rightarrow> ('a, 'w, unit) saga" where
  "final_failure env job code =
     sg_then (set_job job (\<lambda>j. j\<lparr>pj_state := JobState.FINAL_FAILED, pj_error_code := Some code,
        pj_finished_at := Some (ev_now env)\<rparr>))
     (sg_then (record_local_failure env job code)
     (sg_then (release_uncompleted env job)
     (notify_and_emit env job ''publishing.job.final_failed''
        [(''error_code'', JStr code), (''retry_class'', JStr (retry_class_value RetryClass.FINAL))])))"

section \<open>Cancelling\<close>

definition set_cancelled :: "'w saga_env \<Rightarrow> publish_job \<Rightarrow> ('a, 'w, unit) saga" where
  "set_cancelled env job =
     sg_then (set_job job (\<lambda>j. j\<lparr>pj_state := JobState.CANCELLED, pj_cancelled_at := Some (ev_now env),
        pj_finished_at := Some (ev_now env)\<rparr>))
     (cancel_pending_steps job)"

definition cancel_local_job :: "'w saga_env \<Rightarrow> publish_job \<Rightarrow> ('a, 'w, run_result) saga" where
  "cancel_local_job env job =
     sg_then (set_cancelled env job)
     (sg_then (release_quota env job False)
     (sg_then (notify_and_emit env job ''publishing.job.cancelled'' [(''remote_cancelled'', JBool False)])
     (sg_then (sg_repo_flush ''publish_job_cancellation'')
     (sg_bind (the_job job) (\<lambda>j. sg_return (pj_state j, None))))))"

text \<open>Taking a scheduled post back: (remote_cancelled, schedule_released).\<close>

definition cancel_scheduled_post ::
  "'w saga_env \<Rightarrow> 'w publish_context \<Rightarrow> published_post \<Rightarrow> ('a, 'w, bool \<times> bool) saga" where
  "cancel_scheduled_post env r post =
     sg_bind (running_step env (pu_job r) SagaStepKind.CANCEL_REMOTE) (\<lambda>t.
     sg_bind (outside (cms_get_post (pu_cms r) (pt_remote_id post) (pu_context r) (pu_secret r))) (\<lambda>call.
     let remote = cl_value call; remote_state = lower (rp_state remote) in
     sg_then (record_call (pu_job r) t call (Some (rp_remote_id remote)))
     (if remote_state = ''draft'' then
        sg_then (finish_step env t call) (sg_then (apply_remote env post remote False) (sg_return (False, True)))
      else if remote_state \<in> {''scheduled'', ''future''} then
        sg_bind (outside (cms_cancel_scheduled (pu_cms r) remote (pu_context r) (pu_secret r))) (\<lambda>call.
        sg_then (record_call (pu_job r) t call (Some (rp_remote_id (cl_value call))))
        (sg_then (finish_step env t call)
        (sg_then (apply_remote env post (cl_value call) False) (sg_return (True, True)))))
      else sg_fail (final_provider_failure ''PUBLISH_SCHEDULE_ALREADY_EFFECTIVE'' (Some 409) ''GET''
             (cl_endpoint_path call)))))"

definition cancel_job :: "'w saga_env \<Rightarrow> 'w publish_context \<Rightarrow> ('a, 'w, run_result) saga" where
  "cancel_job env r =
     sg_bind (the_job (pu_job r)) (\<lambda>j.
     sg_bind (case pj_target_published_post_id j of
         None \<Rightarrow> sg_return (False, False)
       | Some i \<Rightarrow>
           sg_bind (load_post (pj_workspace_id j) i) (\<lambda>post.
           if pt_state post = PublishedPostState.SCHEDULED then cancel_scheduled_post env r post
           else sg_return (False, False))) (\<lambda>(remote_cancelled, schedule_released).
     sg_then (set_cancelled env (pu_job r))
     (sg_then (release_quota env (pu_job r) schedule_released)
     (sg_then (notify_and_emit env (pu_job r) ''publishing.job.cancelled''
        [(''remote_cancelled'', JBool remote_cancelled), (''schedule_released'', JBool schedule_released)])
     (sg_then (sg_repo_flush ''publish_job_cancellation'')
     (sg_bind (the_job (pu_job r)) (\<lambda>j. sg_return (pj_state j, None))))))))"

section \<open>One run of the task\<close>

definition settled :: "publish_job \<Rightarrow> bool" where
  "settled job \<longleftrightarrow> pj_state job \<in> {JobState.PARTIAL, JobState.FINAL_FAILED, JobState.CANCELLED}
     \<or> pj_state job = JobState.SUCCEEDED \<and> pj_cancel_requested_at job = None"

definition snapshots_valid :: "'w saga_env \<Rightarrow> publish_job \<Rightarrow> publication_policy \<Rightarrow> bool" where
  "snapshots_valid env job policy \<longleftrightarrow>
     ev_hash env (pp_snapshot_json policy) = pp_snapshot_hash policy
     \<and> pp_snapshot_hash policy = pj_policy_snapshot_hash job \<and> pj_policy_snapshot job = pp_snapshot_json policy
     \<and> ev_hash env (JDict (pj_input_snapshot job)) = pj_input_snapshot_hash job"

definition end_final :: "'w saga_env \<Rightarrow> publish_job \<Rightarrow> string \<Rightarrow> ('a, 'w, run_result) saga" where
  "end_final env job code =
     sg_then (final_failure env job code)
     (sg_then (sg_repo_flush ''publish_job'')
     (sg_bind (the_job job) (\<lambda>j. sg_return (pj_state j, None))))"

definition acquire_provider :: "'w saga_env \<Rightarrow> publishing_connection \<Rightarrow> ('a, 'w, 'w cms \<times> secret_material) saga" where
  "acquire_provider env c =
     (case sg_registry env (pc_provider c) (pc_official_contract c) of
        None \<Rightarrow> sg_raise (AppError ''PUBLISH_PROVIDER_UNAVAILABLE'' 503
          [(''provider'', provider_value (pc_provider c)), (''official_contract'', pc_official_contract c)] None)
      | Some cms \<Rightarrow>
          sg_bind (outside (sg_resolve_secret env (pc_credential_secret_ref c))) (\<lambda>secret. sg_return (cms, secret)))"

definition cancel_run :: "'w saga_env \<Rightarrow> 'w publish_context \<Rightarrow> ('a, 'w, run_result) saga" where
  "cancel_run env r =
     sg_then (set_job (pu_job r) (\<lambda>j. j\<lparr>pj_attempt := pj_attempt j + 1\<rparr>))
     (sg_catch_failure (cancel_job env r) (\<lambda>e.
        sg_then (end_failed env (pu_job r) e (sg_return ()) ''publishing.job.cancel_retryable_failed''
          ''publishing.job.cancel_final_failed'')
        (sg_then (sg_repo_flush ''publish_job_cancellation'') (job_result_of (pu_job r)))))"

definition publish_run :: "'w saga_env \<Rightarrow> 'w publish_context \<Rightarrow> ('a, 'w, run_result) saga" where
  "publish_run env r =
     sg_then (set_job (pu_job r) (\<lambda>j. j\<lparr>pj_state := JobState.PUBLISHING,
        pj_started_at := (case pj_started_at j of None \<Rightarrow> Some (ev_now env) | Some t \<Rightarrow> Some t),
        pj_attempt := pj_attempt j + 1, pj_error_code := None, pj_retry_after_seconds := None\<rparr>))
     (sg_then
       (sg_try (sg_bind (run_operation env r) (complete_job env (pu_job r)))
         (\<lambda>e. end_failed env (pu_job r) e (release_uncompleted env (pu_job r)) ''publishing.job.retryable_failed''
            ''publishing.job.final_failed'')
         (\<lambda>code. final_failure env (pu_job r) code))
     (sg_then (sg_repo_flush ''publish_job'') (job_result_of (pu_job r))))"

definition start_run :: "'w saga_env \<Rightarrow> publish_job \<Rightarrow> publishing_connection \<Rightarrow> publication_policy \<Rightarrow> ('a, 'w, run_result) saga"
  where
  "start_run env job c policy =
     sg_bind (sg_try (sg_bind (acquire_provider env c) (\<lambda>x. sg_return (Inr x))) sg_fail
               (\<lambda>code. sg_bind (end_final env job code) (\<lambda>x. sg_return (Inl x)))) (\<lambda>acquired.
     case acquired of
       Inl result \<Rightarrow> sg_return result
     | Inr (cms, secret) \<Rightarrow>
         let r = \<lparr>pu_cms = cms, pu_context = context_of c, pu_secret = secret, pu_job = job, pu_connection = c,
                  pu_policy = policy\<rparr>
         in if pj_cancel_requested_at job \<noteq> None
               \<and> pj_state job \<in> {JobState.CANCEL_REQUESTED, JobState.RETRYABLE_FAILED}
            then cancel_run env r else publish_run env r)"

definition process_publish_job :: "'w saga_env \<Rightarrow> uuid \<Rightarrow> uuid \<Rightarrow> ('a, 'w, run_result) saga" where
  "process_publish_job env ws job_id =
     sg_bind (\<lambda>s. sg_lift (find_publish_job ws job_id (rn_base s)) s) (\<lambda>job.
     if settled job then sg_return (pj_state job, pj_retry_after_seconds job)
     else if pj_cancel_requested_at job \<noteq> None \<and> pj_state job = JobState.CANCEL_REQUESTED \<and> pj_started_at job = None
     then sg_then (set_job job (\<lambda>j. j\<lparr>pj_attempt := pj_attempt j + 1\<rparr>)) (cancel_local_job env job)
     else
     sg_bind (\<lambda>s. sg_lift (find_connection ws (pj_connection_id job) (rn_base s)) s) (\<lambda>c.
     sg_bind (\<lambda>s. sg_lift (find_policy ws (pj_policy_id job) (rn_base s)) s) (\<lambda>policy.
     if \<not> snapshots_valid env job policy then end_final env job ''PUBLISH_JOB_SNAPSHOT_MISMATCH''
     else start_run env job c policy)))"

text \<open>The transaction around a run. It commits when the run returns (\<open>commits\<close> is false when the commit itself
  does not happen: the worker dies, the connection breaks) and is rolled back otherwise; what was done outside
  stays done.\<close>

definition run_publish_task ::
  "'w saga_env \<Rightarrow> bool \<Rightarrow> uuid \<Rightarrow> uuid \<Rightarrow> 'a publish_db_scheme \<times> 'w
   \<Rightarrow> run_result option \<times> ('a publish_db_scheme \<times> 'w)" where
  "run_publish_task env commits ws job_id = (\<lambda>(db, w).
     case process_publish_job env ws job_id \<lparr>rn_base = db, rn_db = db, rn_world = w\<rparr> of
       (Value x, s) \<Rightarrow> if commits then (Some x, (rn_db s, rn_world s)) else (None, (db, rn_world s))
     | (_, s) \<Rightarrow> (None, (db, rn_world s)))"

end
