(* ===== verification/Publish_Frames.thy ===== *)
theory Publish_Frames
  imports Publish_Process
begin

text \<open>
  What the parts of a publishing run leave alone. \<open>sg_valid P m Q E\<close> is the Hoare triple of a run: from a
  state with \<open>P\<close>, a value ends in \<open>Q\<close> and a failure in \<open>E\<close>. The locales \<open>run_reads\<close>, \<open>run_writes\<close> and
  \<open>run_creates\<close> prove once that a predicate the calls to the provider preserve is preserved by every
  operation of the worker; the life of a job, \<open>lives\<close>, is the first such predicate.
\<close>

section \<open>Triples\<close>

definition sg_valid ::
  "('s \<Rightarrow> bool) \<Rightarrow> ('s \<Rightarrow> 'r outcome \<times> 's) \<Rightarrow> ('r \<Rightarrow> 's \<Rightarrow> bool) \<Rightarrow> ('s \<Rightarrow> bool) \<Rightarrow> bool" where
  "sg_valid P m Q E \<longleftrightarrow> (\<forall>s. P s \<longrightarrow> (case m s of
      (Value x, s') \<Rightarrow> Q x s' | (Failed e, s') \<Rightarrow> E s' | (Raised e, s') \<Rightarrow> E s'))"

definition sg_keeps :: "('s \<Rightarrow> bool) \<Rightarrow> ('s \<Rightarrow> 'r outcome \<times> 's) \<Rightarrow> bool" where
  "sg_keeps I m \<longleftrightarrow> sg_valid I m (\<lambda>_. I) I"

named_theorems run_keeps \<open>what keeps a predicate of the run\<close>

lemma sg_keepsI: "(\<And>s. I s \<Longrightarrow> I (snd (m s))) \<Longrightarrow> sg_keeps I m"
  by (auto simp: sg_keeps_def sg_valid_def split: prod.splits outcome.splits) (metis snd_conv)+

lemma sg_valid_snd: "sg_valid P m (\<lambda>_. I) I \<Longrightarrow> P s \<Longrightarrow> I (snd (m s))"
  by (auto simp: sg_valid_def split: prod.splits outcome.splits)
    (metis outcome.exhaust snd_conv surj_pair)

lemma sg_keepsD: "sg_keeps I m \<Longrightarrow> I s \<Longrightarrow> I (snd (m s))"
  unfolding sg_keeps_def by (rule sg_valid_snd)

lemma sg_validD:
  assumes "sg_valid P m Q E" "P s" "m s = (o', s')"
  shows "case o' of Value x \<Rightarrow> Q x s' | Failed e \<Rightarrow> E s' | Raised e \<Rightarrow> E s'"
  using assms by (auto simp: sg_valid_def split: outcome.splits)

lemma sg_valid_pre: "sg_valid P m Q E \<Longrightarrow> (\<And>s. P' s \<Longrightarrow> P s) \<Longrightarrow> sg_valid P' m Q E"
  by (auto simp: sg_valid_def)

lemma sg_valid_post:
  "sg_valid P m Q E \<Longrightarrow> (\<And>x s. Q x s \<Longrightarrow> Q' x s) \<Longrightarrow> (\<And>s. E s \<Longrightarrow> E' s) \<Longrightarrow> sg_valid P m Q' E'"
  by (fastforce simp: sg_valid_def split: prod.splits outcome.splits)

lemma sg_valid_bind:
  "sg_valid P m R E \<Longrightarrow> (\<And>x. sg_valid (R x) (f x) Q E) \<Longrightarrow> sg_valid P (sg_bind m f) Q E"
  by (fastforce simp: sg_valid_def sg_bind_def split: prod.splits outcome.splits)

lemma sg_valid_keeps: "sg_keeps I m \<Longrightarrow> sg_valid I m (\<lambda>_. I) I"
  by (simp add: sg_keeps_def)

lemma sg_valid_catch:
  "sg_valid P m Q R \<Longrightarrow> (\<And>s. R s \<Longrightarrow> E s) \<Longrightarrow> (\<And>e. sg_valid R (h e) Q E) \<Longrightarrow> sg_valid P (sg_catch_failure m h) Q E"
  by (fastforce simp: sg_valid_def sg_catch_failure_def split: prod.splits outcome.splits)

lemma sg_valid_try:
  "sg_valid P m Q R \<Longrightarrow> (\<And>s. R s \<Longrightarrow> E s) \<Longrightarrow> (\<And>e. sg_valid R (h e) Q E) \<Longrightarrow> (\<And>c. sg_valid R (g c) Q E)
   \<Longrightarrow> sg_valid P (sg_try m h g) Q E"
  by (fastforce simp: sg_valid_def sg_try_def split: prod.splits outcome.splits error.splits)

lemma sg_valid_modify: "(\<And>s. P s \<Longrightarrow> Q () (s\<lparr>rn_db := f (rn_db s)\<rparr>)) \<Longrightarrow> sg_valid P (modify_db f) Q E"
  by (simp add: sg_valid_def modify_db_def)

lemma sg_valid_return: "(\<And>s. P s \<Longrightarrow> Q x s) \<Longrightarrow> sg_valid P (sg_return x) Q E"
  by (simp add: sg_valid_def sg_return_def)

lemma sg_valid_gets: "(\<And>s. P s \<Longrightarrow> Q (f s) s) \<Longrightarrow> sg_valid P (sg_gets f) Q E"
  by (simp add: sg_valid_def sg_gets_def)

lemma sg_valid_if:
  "(b \<Longrightarrow> sg_valid P m Q E) \<Longrightarrow> (\<not> b \<Longrightarrow> sg_valid P n Q E) \<Longrightarrow> sg_valid P (if b then m else n) Q E"
  by simp

lemma sg_valid_outside:
  "(\<And>s x w. P s \<Longrightarrow> c (rn_world s) = (x, w) \<Longrightarrow>
      (case x of Value v \<Rightarrow> Q v (s\<lparr>rn_world := w\<rparr>) | _ \<Rightarrow> E (s\<lparr>rn_world := w\<rparr>)))
    \<Longrightarrow> sg_valid P (outside c) Q E"
  by (fastforce simp: sg_valid_def outside_def Let_def split: prod.splits outcome.splits)

section \<open>What keeps a predicate\<close>

lemma keep_return [run_keeps]: "sg_keeps I (sg_return x)"
  and keep_fail [run_keeps]: "sg_keeps I (sg_fail e)"
  and keep_raise [run_keeps]: "sg_keeps I (sg_raise e')"
  and keep_gets [run_keeps]: "sg_keeps I (sg_gets f)"
  and keep_lift [run_keeps]: "sg_keeps I (\<lambda>s. sg_lift (g s) s)"
  by (auto intro!: sg_keepsI simp: sg_return_def sg_fail_def sg_raise_def sg_gets_def sg_lift_def split: sum.splits)

lemma keep_bind [run_keeps]: "sg_keeps I m \<Longrightarrow> (\<And>x. sg_keeps I (f x)) \<Longrightarrow> sg_keeps I (sg_bind m f)"
  unfolding sg_keeps_def by (rule sg_valid_bind)

lemma keep_catch [run_keeps]: "sg_keeps I m \<Longrightarrow> (\<And>e. sg_keeps I (h e)) \<Longrightarrow> sg_keeps I (sg_catch_failure m h)"
  unfolding sg_keeps_def by (rule sg_valid_catch)

lemma keep_try [run_keeps]:
  "sg_keeps I m \<Longrightarrow> (\<And>e. sg_keeps I (h e)) \<Longrightarrow> (\<And>c. sg_keeps I (g c)) \<Longrightarrow> sg_keeps I (sg_try m h g)"
  unfolding sg_keeps_def by (rule sg_valid_try)

lemma keep_if [run_keeps]: "sg_keeps I m \<Longrightarrow> sg_keeps I n \<Longrightarrow> sg_keeps I (if b then m else n)"
  by simp

lemma keep_option [run_keeps]: "sg_keeps I m \<Longrightarrow> (\<And>x. sg_keeps I (f x)) \<Longrightarrow> sg_keeps I (case_option m f y)"
  by (simp split: option.splits)

lemma keep_list [run_keeps]: "sg_keeps I m \<Longrightarrow> (\<And>x xs. sg_keeps I (f x xs)) \<Longrightarrow> sg_keeps I (case_list m f ys)"
  by (simp split: list.splits)

lemma keep_sum [run_keeps]: "(\<And>x. sg_keeps I (f x)) \<Longrightarrow> (\<And>x. sg_keeps I (g x)) \<Longrightarrow> sg_keeps I (case_sum f g y)"
  by (simp split: sum.splits)

lemma keep_prod [run_keeps]: "(\<And>x y. sg_keeps I (f x y)) \<Longrightarrow> sg_keeps I (case_prod f p)"
  by (simp split: prod.splits)

definition calls_keep :: "(('d, 'w) run_state \<Rightarrow> bool) \<Rightarrow> ('w, 'r) world_op \<Rightarrow> bool" where
  "calls_keep I c \<longleftrightarrow> (\<forall>s. I s \<longrightarrow> I (s\<lparr>rn_world := snd (c (rn_world s))\<rparr>))"

lemma keep_outside [run_keeps]: "calls_keep I c \<Longrightarrow> sg_keeps I (outside c)"
  by (auto intro!: sg_keepsI simp: calls_keep_def outside_def Let_def split: prod.splits) (metis snd_conv)

section \<open>The life of a job\<close>

text \<open>What the life cycle of a job depends on.\<close>

record job_life =
  lf_state :: JobState
  lf_attempt :: int
  lf_max_attempts :: int
  lf_asked :: bool

definition life :: "publish_job \<Rightarrow> job_life" where
  "life j = \<lparr>lf_state = pj_state j, lf_attempt = pj_attempt j, lf_max_attempts = pj_max_attempts j,
     lf_asked = (pj_cancel_requested_at j \<noteq> None)\<rparr>"

definition lives :: "'a publish_db_scheme \<Rightarrow> uuid \<Rightarrow> job_life option" where
  "lives db i = map_option life (List.find (\<lambda>j. pj_id j = i) (publish_jobs db))"

lemma find_map: "List.find P (map f xs) = map_option f (List.find (P \<circ> f) xs)"
  by (induction xs) auto

lemma lives_cong: "publish_jobs db = publish_jobs db' \<Longrightarrow> lives db = lives db'"
  by (simp add: lives_def fun_eq_iff)

lemma lives_map:
  assumes "publish_jobs db' = map f (publish_jobs db)" "\<And>j. pj_id (f j) = pj_id j" "\<And>j. life (f j) = life j"
  shows "lives db' = lives db"
  using assms(2,3) by (simp add: lives_def fun_eq_iff assms(1) find_map o_def option.map_comp)

lemma lives_flush_publish:
  assumes "flush_publish base db = Inr db'"
  shows "lives db' = lives db"
proof (rule lives_map)
  show "publish_jobs db' = map (\<lambda>j. case List.find (\<lambda>b. pj_id b = pj_id j) (publish_jobs base) of None \<Rightarrow> j
      | Some b \<Rightarrow> if b = j then j else j\<lparr>pj_lock_version := pj_lock_version j + 1\<rparr>) (publish_jobs db)"
    using assms by (auto simp: flush_publish_def flush_rows_def split: if_splits)
qed (simp_all add: life_def split: option.splits)

lemma lives_update:
  assumes "\<And>j. pj_id (f j) = pj_id j" "\<And>j. life (f j) = g (life j)"
  shows "lives (update_publish_job i f db) = (lives db)(i := map_option g (lives db i))"
proof -
  have "publish_jobs (update_publish_job i f db) = map (\<lambda>j. if pj_id j = i then f j else j) (publish_jobs db)"
    by (simp add: update_publish_job_def update_where_def)
  moreover have "(\<lambda>j. pj_id j = k) \<circ> (\<lambda>j. if pj_id j = i then f j else j) = (\<lambda>j. pj_id j = k)" for k
    using assms(1) by (auto simp: fun_eq_iff)
  ultimately have "lives (update_publish_job i f db) k =
      map_option (\<lambda>j. life (if pj_id j = i then f j else j)) (List.find (\<lambda>j. pj_id j = k) (publish_jobs db))" for k
    by (simp add: lives_def find_map option.map_comp o_def)
  then show ?thesis
    by (auto simp: fun_eq_iff lives_def assms(2) option.map_comp o_def dest!: find_SomeD
        intro!: option.map_cong0 split: option.split)
qed

lemma lives_same:
  assumes "\<And>j. pj_id (f j) = pj_id j" "\<And>j. life (f j) = life j"
  shows "lives (update_publish_job i f db) = lives db"
  using lives_update [of f id i db] assms by (simp add: option.map_id fun_upd_idem)

end
