(* ===== verification/Publish_Connections.thy ===== *)
theory Publish_Connections
  imports Publish_Frames
begin

text \<open>
  The worker of connection jobs, \<open>process_connection_job\<close> of \<^verbatim>\<open>domain/publishing/saga.py\<close>, and its task: a job
  diagnoses a connection, refreshes its credential, synchronises the settings of the site, or disconnects it.
\<close>

section \<open>Providers and secrets\<close>

record provider_diagnostic =
  dg_checks :: "(string \<times> json) list list"
  dg_capabilities :: "string list"
  dg_site_settings :: "(string \<times> json) list"

text \<open>The operations of \<open>CMSProvider\<close> on a connection, and of \<open>SecretResolver\<close> beyond \<open>resolve\<close>.\<close>

record 'w connection_provider =
  cp_diagnose :: "('w, provider_diagnostic) cms_op"
  cp_refresh :: "('w, provider_diagnostic) cms_op"
  cp_sync_settings :: "('w, provider_diagnostic) cms_op"

record 'w connection_env =
  ce_saga :: "'w saga_env"
  ce_registry :: "PublishingProvider \<Rightarrow> string \<Rightarrow> 'w connection_provider option"
  ce_refresh_secret :: "string \<Rightarrow> ('w, secret_material) world_op"
  ce_revoke_secret :: "string \<Rightarrow> ('w, unit) world_op"
  ce_fromisoformat :: "string \<Rightarrow> datetime option"

abbreviation ce_now :: "'w connection_env \<Rightarrow> time" where
  "ce_now ce \<equiv> ev_now (ce_saga ce)"

text \<open>\<open>SecretMaterial.expires_at\<close>; \<open>ce_fromisoformat\<close> is \<open>datetime.fromisoformat\<close>, \<open>None\<close> its \<open>ValueError\<close>.\<close>

definition expiry_invalid :: provider_failure where
  "expiry_invalid = final_provider_failure ''PUBLISH_CREDENTIAL_EXPIRY_INVALID'' None ''UNKNOWN'' ''''"

definition expires_at :: "'w connection_env \<Rightarrow> secret_material \<Rightarrow> ('a, 'w, time option) saga" where
  "expires_at ce secret =
     (case map_of secret ''expires_at'' of
        None \<Rightarrow> sg_return None
      | Some v \<Rightarrow>
          if v = '''' then sg_return None
          else (case ce_fromisoformat ce (concat (map (\<lambda>c. if c = CHR ''Z'' then ''+00:00'' else [c]) v)) of
                  None \<Rightarrow> sg_fail expiry_invalid
                | Some (Naive _) \<Rightarrow> sg_fail expiry_invalid
                | Some (Aware t) \<Rightarrow> sg_return (Some t)))"

definition past :: "time \<Rightarrow> time option \<Rightarrow> bool" where
  "past now t \<longleftrightarrow> (case t of None \<Rightarrow> False | Some t \<Rightarrow> t \<le> now)"

section \<open>A diagnosis\<close>

definition lifecycle_checks :: "time \<Rightarrow> publishing_connection \<Rightarrow> time option \<Rightarrow> json list" where
  "lifecycle_checks now c expires =
     (case expires of None \<Rightarrow> [] | Some t \<Rightarrow>
        [JDict [(''key'', JStr ''credential_lifecycle''), (''ok'', JBool (\<not> past now expires)), (''expires_at'', JTime t)]])
     @ (case pc_api_deprecation_at c of None \<Rightarrow> [] | Some t \<Rightarrow>
        [JDict [(''key'', JStr ''api_version_lifecycle''), (''ok'', JBool (\<not> past now (pc_api_deprecation_at c))),
           (''api_version'', JStr (pc_api_version c)), (''deprecation_at'', JTime t)]])"

definition CRITICAL_KEYS :: "string list" where
  "CRITICAL_KEYS = [''authentication'', ''oauth_scope'', ''api'', ''api_index'', ''blog'', ''timezone'']"

text \<open>The membership test raises on a key that is not hashable.\<close>

fun critical_failed :: "json list \<Rightarrow> bool result" where
  "critical_failed [] = Inr False"
| "critical_failed (item # items) =
     (case item of
        JDict d \<Rightarrow>
          bind_result (py_in_set (dict_get d ''key'') (map JStr CRITICAL_KEYS)) (\<lambda>critical.
          if critical \<and> \<not> py_truthy (dict_get d ''ok'') then Inr True else critical_failed items)
      | _ \<Rightarrow> critical_failed items)"

definition diagnostic_checks :: "time \<Rightarrow> publishing_connection \<Rightarrow> time option \<Rightarrow> provider_diagnostic \<Rightarrow> json list" where
  "diagnostic_checks now c expires dg =
     take 1000 (redact_items (map JDict (dg_checks dg))) @ lifecycle_checks now c expires"

definition diagnostic_result ::
  "(json \<Rightarrow> string) \<Rightarrow> publishing_connection \<Rightarrow> provider_diagnostic provider_call \<Rightarrow> (string \<times> json) list" where
  "diagnostic_result H c call =
     (let dg = cl_value call; settings_hash = H (JDict (dg_site_settings dg)) in
     [(''capabilities'', JList (map JStr (dg_capabilities dg))), (''site_settings_hash'', JStr settings_hash),
      (''previous_site_settings_hash'', opt_text (pc_site_settings_hash c)),
      (''settings_changed'', JBool (pc_site_settings_hash c \<noteq> Some settings_hash)),
      (''provider_status'', JInt (cl_status_code call))])"

definition expiry_warning :: "time \<Rightarrow> publishing_connection \<Rightarrow> time option \<Rightarrow> bool" where
  "expiry_warning now c expires \<longleftrightarrow>
     (case expires of None \<Rightarrow> False
      | Some t \<Rightarrow> t \<le> now + seconds (7 * 86400) \<and> pc_credential_expiry_notified_for c \<noteq> Some t)"

definition diagnosed ::
  "(json \<Rightarrow> string) \<Rightarrow> time \<Rightarrow> time option \<Rightarrow> bool \<Rightarrow> provider_diagnostic \<Rightarrow> publishing_connection \<Rightarrow> publishing_connection"
  where
  "diagnosed H now expires critical dg c =
     (let settings = redact_dict (dg_site_settings dg) in
     c\<lparr>pc_capabilities := dg_capabilities dg, pc_site_settings_snapshot := settings,
       pc_site_settings_hash := Some (H (JDict settings)), pc_last_diagnosed_at := Some now,
       pc_last_success_at := Some now, pc_credential_expires_at := expires,
       pc_credential_expiry_notified_for := (if expires = None then None
         else if expiry_warning now c expires then expires else pc_credential_expiry_notified_for c),
       pc_last_error_code := (if past now expires then Some ''PUBLISH_CREDENTIAL_EXPIRED''
         else if critical then Some ''PUBLISH_DIAGNOSTIC_CRITICAL_CHECK_FAILED'' else None),
       pc_state := (if past now (pc_api_deprecation_at c) \<or> past now expires then ConnectionState.EXPIRED
         else if critical then ConnectionState.DEGRADED else ConnectionState.ACTIVE)\<rparr>)"

section \<open>Running a connection job\<close>

definition set_connection ::
  "publishing_connection \<Rightarrow> (publishing_connection \<Rightarrow> publishing_connection) \<Rightarrow> ('a, 'w, unit) saga" where
  "set_connection c f = modify_db (update_connection (pc_id c) f)"

definition set_connection_job :: "connection_job \<Rightarrow> (connection_job \<Rightarrow> connection_job) \<Rightarrow> ('a, 'w, unit) saga" where
  "set_connection_job job f = modify_db (update_connection_job (cn_id job) f)"

definition the_connection :: "publishing_connection \<Rightarrow> ('a, 'w, publishing_connection) saga" where
  "the_connection c = sg_gets (\<lambda>s. current pc_id (connections (rn_db s)) c)"

definition the_connection_job :: "connection_job \<Rightarrow> ('a, 'w, connection_job) saga" where
  "the_connection_job job = sg_gets (\<lambda>s. current cn_id (connection_jobs (rn_db s)) job)"

definition connection_notice ::
  "'w connection_env \<Rightarrow> publishing_connection \<Rightarrow> string \<Rightarrow> (string \<times> json) list \<Rightarrow> ('a, 'w, unit) saga" where
  "connection_notice ce c notification_type payload =
     sg_bind fresh_id (\<lambda>i. modify_db (add_notification
       \<lparr>pn_id = i, pn_workspace_id = pc_workspace_id c, pn_recipient_id = pc_created_by c, pn_publish_job_id = None,
        pn_naver_package_id = None, pn_notification_type = notification_type,
        pn_payload_json = (''connection_id'', JStr (uuid_str (pc_id c))) # payload,
        pn_due_at = ce_now ce, pn_delivered_at = None\<rparr>))"

definition connection_event ::
  "'w connection_env \<Rightarrow> connection_job \<Rightarrow> publishing_connection \<Rightarrow> string \<Rightarrow> (string \<times> json) list \<Rightarrow> ('a, 'w, unit) saga" where
  "connection_event ce job c action details =
     audit_outbox (ce_saga ce) (cn_workspace_id job) (cn_requested_by job) action ''publishing_connection_job'' (cn_id job)
       ([(''connection_id'', JStr (uuid_str (pc_id c))),
         (''operation'', JStr (connection_operation_value (cn_operation job)))] @ details)"

definition disconnect :: "'w connection_env \<Rightarrow> connection_job \<Rightarrow> publishing_connection \<Rightarrow> ('a, 'w, unit) saga" where
  "disconnect ce job c =
     sg_then (outside (ce_revoke_secret ce (pc_credential_secret_ref c)))
     (sg_then (set_connection c (\<lambda>c. c\<lparr>pc_state := ConnectionState.DISCONNECTED,
        pc_disconnected_at := Some (ce_now ce), pc_last_error_code := None\<rparr>))
     (set_connection_job job (\<lambda>j. j\<lparr>cn_checks_json :=
          [JDict [(''key'', JStr ''credential_revocation''), (''ok'', JBool True)],
           JDict [(''key'', JStr ''new_publish_disabled''), (''ok'', JBool True)]],
        cn_safe_result_json := Some [(''existing_post_links_preserved'', JBool True)]\<rparr>)))"

definition require_connection_provider ::
  "'w connection_env \<Rightarrow> publishing_connection \<Rightarrow> ('a, 'w, 'w connection_provider) saga" where
  "require_connection_provider ce c =
     (case ce_registry ce (pc_provider c) (pc_official_contract c) of
        None \<Rightarrow> sg_raise (AppError ''PUBLISH_PROVIDER_UNAVAILABLE'' 503
          [(''provider'', provider_value (pc_provider c)), (''official_contract'', pc_official_contract c)] None)
      | Some pr \<Rightarrow> sg_return pr)"

definition credential_expired_failure :: provider_failure where
  "credential_expired_failure = final_provider_failure ''PUBLISH_CREDENTIAL_EXPIRED'' None ''UNKNOWN'' ''''"

definition diagnose_call ::
  "ConnectionOperation \<Rightarrow> 'w connection_provider \<Rightarrow> ('w, provider_diagnostic) cms_op" where
  "diagnose_call operation pr =
     (if operation = ConnectionOperation.DIAGNOSE then cp_diagnose pr
      else if operation = ConnectionOperation.REFRESH then cp_refresh pr else cp_sync_settings pr)"

definition record_diagnosis ::
  "'w connection_env \<Rightarrow> connection_job \<Rightarrow> publishing_connection \<Rightarrow> time option \<Rightarrow> provider_diagnostic provider_call
   \<Rightarrow> ('a, 'w, unit) saga" where
  "record_diagnosis ce job c expires call =
     (let dg = cl_value call; checks = diagnostic_checks (ce_now ce) c expires dg in
     sg_then (set_connection_job job (\<lambda>j. j\<lparr>cn_checks_json := checks\<rparr>))
     (sg_bind (\<lambda>s. sg_lift (critical_failed checks) s) (\<lambda>critical.
     sg_then (set_connection_job job (\<lambda>j. j\<lparr>cn_safe_result_json :=
        Some (diagnostic_result (ev_hash (ce_saga ce)) c call)\<rparr>))
     (sg_then (if expiry_warning (ce_now ce) c expires
        then connection_notice ce c ''PUBLISHING_CREDENTIAL_EXPIRING'' [(''expires_at'', opt_time expires)]
        else sg_return ())
     (set_connection c (diagnosed (ev_hash (ce_saga ce)) (ce_now ce) expires critical dg))))))"

definition diagnose ::
  "'w connection_env \<Rightarrow> connection_job \<Rightarrow> publishing_connection \<Rightarrow> ('a, 'w, unit) saga" where
  "diagnose ce job c =
     sg_bind (require_connection_provider ce c) (\<lambda>pr.
     sg_bind (outside (if cn_operation job = ConnectionOperation.REFRESH
        then ce_refresh_secret ce (pc_credential_secret_ref c)
        else sg_resolve_secret (ce_saga ce) (pc_credential_secret_ref c))) (\<lambda>secret.
     sg_bind (expires_at ce secret) (\<lambda>expires.
     sg_then (set_connection c (\<lambda>c. c\<lparr>pc_credential_expires_at := expires\<rparr>))
     (if past (ce_now ce) expires then sg_fail credential_expired_failure
      else sg_bind (outside (diagnose_call (cn_operation job) pr (context_of c) secret)) (record_diagnosis ce job c expires)))))"

definition connection_succeeds ::
  "'w connection_env \<Rightarrow> connection_job \<Rightarrow> publishing_connection \<Rightarrow> ('a, 'w, unit) saga" where
  "connection_succeeds ce job c =
     sg_then (if cn_operation job = ConnectionOperation.DISCONNECT then disconnect ce job c else diagnose ce job c)
     (sg_then (set_connection_job job (\<lambda>j. j\<lparr>cn_state := JobState.SUCCEEDED, cn_finished_at := Some (ce_now ce)\<rparr>))
     (connection_event ce job c ''publishing.connection.job_succeeded'' []))"

text \<open>The ends of a run that failed: at the provider with a retry while attempts are left, or with an \<open>AppError\<close>.\<close>

definition connection_retry_delay :: "provider_failure \<Rightarrow> int \<Rightarrow> int" where
  "connection_retry_delay e attempt =
     (case pf_retry_after_seconds e of
        Some n \<Rightarrow> if n \<noteq> 0 then n else capped_exponential_delay 5 3600 attempt
      | None \<Rightarrow> capped_exponential_delay 5 3600 attempt)"

definition connection_failed ::
  "'w connection_env \<Rightarrow> connection_job \<Rightarrow> publishing_connection \<Rightarrow> provider_failure \<Rightarrow> ('a, 'w, unit) saga" where
  "connection_failed ce job c e =
     sg_then (set_connection c (\<lambda>c. c\<lparr>pc_last_error_code := Some (pf_code e),
        pc_state := (if pf_code e = ''PUBLISH_CREDENTIAL_EXPIRED'' then ConnectionState.EXPIRED
          else ConnectionState.DEGRADED)\<rparr>))
     (sg_then (set_connection_job job (\<lambda>j. (if retryable e \<and> cn_attempt j < cn_max_attempts j
          then j\<lparr>cn_state := JobState.RETRYABLE_FAILED, cn_retry_after_seconds := Some (connection_retry_delay e (cn_attempt j))\<rparr>
          else j\<lparr>cn_state := JobState.FINAL_FAILED, cn_finished_at := Some (ce_now ce)\<rparr>)
            \<lparr>cn_error_code := Some (pf_code e)\<rparr>))
     (sg_bind (the_connection_job job) (\<lambda>j.
     connection_event ce job c (if cn_state j = JobState.RETRYABLE_FAILED
          then ''publishing.connection.job_retryable_failed'' else ''publishing.connection.job_final_failed'')
       [(''error_code'', JStr (pf_code e)), (''retry_class'', JStr (retry_class_value (pf_retry_class e)))])))"

definition connection_refused ::
  "'w connection_env \<Rightarrow> connection_job \<Rightarrow> publishing_connection \<Rightarrow> string \<Rightarrow> ('a, 'w, unit) saga" where
  "connection_refused ce job c code =
     sg_then (set_connection_job job (\<lambda>j. j\<lparr>cn_state := JobState.FINAL_FAILED, cn_error_code := Some code,
        cn_finished_at := Some (ce_now ce)\<rparr>))
     (sg_then (set_connection c (\<lambda>c. c\<lparr>pc_last_error_code := Some code, pc_state := ConnectionState.DEGRADED\<rparr>))
     (connection_event ce job c ''publishing.connection.job_final_failed''
       [(''error_code'', JStr code), (''retry_class'', JStr (retry_class_value RetryClass.FINAL))]))"

text \<open>\<open>c\<close> is the connection as the run found it.\<close>

definition state_changed_notice :: "'w connection_env \<Rightarrow> publishing_connection \<Rightarrow> ('a, 'w, unit) saga" where
  "state_changed_notice ce c =
     sg_bind (the_connection c) (\<lambda>now.
     if pc_state now = pc_state c then sg_return ()
     else connection_notice ce c ''PUBLISHING_CONNECTION_STATE_CHANGED''
       [(''previous_state'', JStr (connection_state_value (pc_state c))),
        (''state'', JStr (connection_state_value (pc_state now))), (''error_code'', opt_text (pc_last_error_code now))])"

definition connection_settled :: "connection_job \<Rightarrow> bool" where
  "connection_settled job \<longleftrightarrow> cn_state job \<in> {JobState.SUCCEEDED, JobState.FINAL_FAILED}"

definition process_connection_job :: "'w connection_env \<Rightarrow> uuid \<Rightarrow> uuid \<Rightarrow> ('a, 'w, run_result) saga" where
  "process_connection_job ce ws job_id =
     sg_bind (\<lambda>s. sg_lift (find_connection_job ws job_id (rn_base s)) s) (\<lambda>job.
     if connection_settled job then sg_return (cn_state job, cn_retry_after_seconds job)
     else
     sg_bind (\<lambda>s. sg_lift (find_connection ws (cn_connection_id job) (rn_base s)) s) (\<lambda>c.
     sg_then (set_connection_job job (\<lambda>j. j\<lparr>cn_state := JobState.VALIDATING,
        cn_started_at := (case cn_started_at j of None \<Rightarrow> Some (ce_now ce) | Some t \<Rightarrow> Some t),
        cn_attempt := cn_attempt j + 1, cn_error_code := None, cn_retry_after_seconds := None\<rparr>))
     (sg_then (sg_try (connection_succeeds ce job c) (connection_failed ce job c) (connection_refused ce job c))
     (sg_then (state_changed_notice ce c)
     (sg_then (sg_repo_flush ''publishing_connection_job'')
     (sg_bind (the_connection_job job) (\<lambda>j. sg_return (cn_state j, cn_retry_after_seconds j))))))))"

definition run_connection_task ::
  "'w connection_env \<Rightarrow> bool \<Rightarrow> uuid \<Rightarrow> uuid \<Rightarrow> 'a publish_db_scheme \<times> 'w
   \<Rightarrow> run_result option \<times> ('a publish_db_scheme \<times> 'w)" where
  "run_connection_task ce commits ws job_id = (\<lambda>(db, w).
     case process_connection_job ce ws job_id \<lparr>rn_base = db, rn_db = db, rn_world = w\<rparr> of
       (Value x, s) \<Rightarrow> if commits then (Some x, (rn_db s, rn_world s)) else (None, (db, rn_world s))
     | (_, s) \<Rightarrow> (None, (db, rn_world s)))"

text \<open>\<open>process_connection_job_task\<close>: one delivery and at most three retries, as for a publish job.\<close>

fun deliver_connection ::
  "'w connection_env \<Rightarrow> uuid \<Rightarrow> uuid \<Rightarrow> (time \<times> bool) list \<Rightarrow> 'a publish_db_scheme \<times> 'w
   \<Rightarrow> run_result option list \<times> ('a publish_db_scheme \<times> 'w)" where
  "deliver_connection ce ws job_id [] s = ([], s)"
| "deliver_connection ce ws job_id ((now, commits) # moments) s =
     (case run_connection_task (ce\<lparr>ce_saga := (ce_saga ce)\<lparr>ev_now := now\<rparr>\<rparr>) commits ws job_id s of
        (Some (state, retry_after), s) \<Rightarrow>
          if state = JobState.RETRYABLE_FAILED
          then (let (rs, s) = deliver_connection ce ws job_id moments s in (Some (state, retry_after) # rs, s))
          else ([Some (state, retry_after)], s)
      | (None, s) \<Rightarrow> (let (rs, s) = deliver_connection ce ws job_id moments s in (None # rs, s)))"

definition process_connection_job_task ::
  "'w connection_env \<Rightarrow> uuid \<Rightarrow> uuid \<Rightarrow> (time \<times> bool) list \<Rightarrow> 'a publish_db_scheme \<times> 'w
   \<Rightarrow> run_result option list \<times> ('a publish_db_scheme \<times> 'w)" where
  "process_connection_job_task ce ws job_id moments s = deliver_connection ce ws job_id (take 4 moments) s"


section \<open>The end of a connection job\<close>

definition job_holds :: "uuid \<Rightarrow> (connection_job \<Rightarrow> bool) \<Rightarrow> ('a publish_db_scheme, 'w) run_state \<Rightarrow> bool" where
  "job_holds i P s \<longleftrightarrow> (\<exists>j. List.find (\<lambda>j. cn_id j = i) (connection_jobs (rn_db s)) = Some j \<and> P j)"

lemma job_holds_mono: "job_holds i P s \<Longrightarrow> (\<And>j. P j \<Longrightarrow> Q j) \<Longrightarrow> job_holds i Q s"
  by (auto simp: job_holds_def)

lemma keep_connection_jobs:
  "(\<And>db. connection_jobs (f db) = connection_jobs db) \<Longrightarrow> sg_keeps (job_holds i P) (modify_db f)"
  by (rule sg_keepsI) (simp add: modify_db_def job_holds_def)

lemma flush_connection_jobs: "flush_publish base db = Inr db' \<Longrightarrow> connection_jobs db' = connection_jobs db"
  by (auto simp: flush_publish_def split: if_splits)

lemma set_connection_job_holds:
  assumes "cn_id job = i" "\<And>j. cn_id (f j) = cn_id j" "\<And>j. P j \<Longrightarrow> Q (f j)"
  shows "sg_valid (job_holds i P) (set_connection_job job f) (\<lambda>_. job_holds i Q) E"
proof -
  have "(\<lambda>j. cn_id j = i) \<circ> (\<lambda>j. if cn_id j = i then f j else j) = (\<lambda>j. cn_id j = i)"
    using assms(2) by (auto simp: fun_eq_iff)
  then have find: "List.find (\<lambda>j. cn_id j = i) (update_where (\<lambda>j. cn_id j = i) f js) =
      map_option f (List.find (\<lambda>j. cn_id j = i) js)" for js
    by (cases "List.find (\<lambda>j. cn_id j = i) js") (auto simp: update_where_def find_map dest: find_SomeD)
  show ?thesis
    unfolding set_connection_job_def
    by (intro sg_valid_modify) (auto simp: job_holds_def update_connection_job_def find assms(1) intro: assms(3))
qed

lemma keep_connection_rows [run_keeps]:
  shows "sg_keeps (job_holds i P) (set_connection c f)" "sg_keeps (job_holds i P) (the_connection c)"
    "sg_keeps (job_holds i P) (the_connection_job job)" "sg_keeps (job_holds i P) fresh_id"
    "sg_keeps (job_holds i P) (outside op)" "sg_keeps (job_holds i P) (flush_with flush_publish)"
    "sg_keeps (job_holds i P) (flush_with (repo_flush res))"
proof -
  show "sg_keeps (job_holds i P) (set_connection c f)"
    unfolding set_connection_def by (rule keep_connection_jobs) (simp add: update_connection_def)
  show "sg_keeps (job_holds i P) (the_connection c)" "sg_keeps (job_holds i P) (the_connection_job job)"
    unfolding the_connection_def the_connection_job_def by (rule keep_gets)+
  show "sg_keeps (job_holds i P) fresh_id"
    by (rule sg_keepsI) (simp add: fresh_id_def uuid4_def job_holds_def)
  show "sg_keeps (job_holds i P) (outside op)" by (rule keep_outside) (simp add: calls_keep_def job_holds_def)
  show "sg_keeps (job_holds i P) (flush_with flush_publish)"
    by (rule sg_keepsI) (auto simp: flush_with_def job_holds_def dest: flush_connection_jobs split: sum.splits)
  show "sg_keeps (job_holds i P) (flush_with (repo_flush res))"
    by (rule sg_keepsI) (auto simp: flush_with_def job_holds_def repo_flush_def dest: flush_connection_jobs
        split: sum.splits error.splits)
qed

lemma keep_events [run_keeps]:
  shows "sg_keeps (job_holds i P) (connection_event ce job c action details)"
    "sg_keeps (job_holds i P) (connection_notice ce c ty payload)" "sg_keeps (job_holds i P) (state_changed_notice ce c)"
    "sg_keeps (job_holds i P) (expires_at ce secret)" "sg_keeps (job_holds i P) (require_connection_provider ce c)"
proof -
  show "sg_keeps (job_holds i P) (connection_event ce job c action details)"
    unfolding connection_event_def audit_outbox_def sg_flush_def
    by (intro run_keeps keep_connection_jobs) (simp_all add: append_audit_log_def add_outbox_event_def uuid4_def Let_def)
  show n: "sg_keeps (job_holds i P) (connection_notice ce c ty payload)" for ty payload
    unfolding connection_notice_def by (intro run_keeps keep_connection_jobs) (simp add: add_notification_def)
  show "sg_keeps (job_holds i P) (state_changed_notice ce c)"
    unfolding state_changed_notice_def by (intro run_keeps n)
  show "sg_keeps (job_holds i P) (expires_at ce secret)"
    unfolding expires_at_def by (auto intro!: run_keeps split: option.split datetime.split)
  show "sg_keeps (job_holds i P) (require_connection_provider ce c)"
    unfolding require_connection_provider_def by (intro run_keeps)
qed

definition attempt_of :: "connection_job \<Rightarrow> uuid \<times> int \<times> int" where
  "attempt_of j = (cn_workspace_id j, cn_attempt j, cn_max_attempts j)"

lemma keep_attempt:
  assumes "cn_id job = i" "\<And>j. cn_id (f j) = cn_id j" "\<And>j. attempt_of (f j) = attempt_of j"
  shows "sg_keeps (job_holds i (\<lambda>j. attempt_of j = a)) (set_connection_job job f)"
  unfolding sg_keeps_def by (rule set_connection_job_holds) (simp_all add: assms)

lemma keep_diagnose:
  assumes "cn_id job = i"
  shows "sg_keeps (job_holds i (\<lambda>j. attempt_of j = a)) (disconnect ce job c)"
    "sg_keeps (job_holds i (\<lambda>j. attempt_of j = a)) (diagnose ce job c)"
  unfolding disconnect_def diagnose_def record_diagnosis_def Let_def
  by (intro run_keeps keep_attempt assms; simp add: attempt_of_def)+

definition end_state :: "uuid \<times> int \<times> int \<Rightarrow> connection_job \<Rightarrow> bool" where
  "end_state a j \<longleftrightarrow> attempt_of j = a
     \<and> (cn_state j \<in> {JobState.SUCCEEDED, JobState.FINAL_FAILED}
        \<or> cn_state j = JobState.RETRYABLE_FAILED \<and> cn_attempt j < cn_max_attempts j)"

lemma connection_run_end:
  fixes ce :: "'w connection_env"
  assumes i: "cn_id job = i"
  shows "sg_valid (job_holds i (\<lambda>j. attempt_of j = a))
    (sg_try (connection_succeeds ce job c) (connection_failed ce job c) (connection_refused ce job c))
    (\<lambda>_ (s :: ('a publish_db_scheme, 'w) run_state). job_holds i (end_state a) s) (\<lambda>_. True)"
proof (rule sg_valid_try [where R = "job_holds i (\<lambda>j. attempt_of j = a)"])
  let ?J = "job_holds i (\<lambda>j. attempt_of j = a) :: ('a publish_db_scheme, 'w) run_state \<Rightarrow> bool"
  have keep: "sg_valid (job_holds i (end_state a)) m (\<lambda>_. job_holds i (end_state a)) (job_holds i (\<lambda>j. attempt_of j = a))"
    if "sg_keeps (job_holds i (end_state a)) m" for m :: "('a, 'w, unit) saga"
    using sg_valid_keeps [OF that] by (rule sg_valid_post) (auto elim: job_holds_mono simp: end_state_def)
  show "sg_valid ?J (connection_succeeds ce job c) (\<lambda>_. job_holds i (end_state a)) ?J"
    unfolding connection_succeeds_def
  proof (rule sg_valid_bind [OF sg_valid_keeps], goal_cases)
    case 1
    show ?case by (intro run_keeps keep_diagnose i)
  next
    case (2 x)
    show ?case
      by (rule sg_valid_bind [OF set_connection_job_holds [OF i, where Q = "end_state a"] keep [OF keep_events(1)]])
        (simp_all add: end_state_def attempt_of_def)
  qed
  show "sg_valid ?J (connection_refused ce job c code) (\<lambda>_. job_holds i (end_state a)) (\<lambda>_. True)" for code
    unfolding connection_refused_def
    by (rule sg_valid_bind [OF set_connection_job_holds [where Q = "end_state a"]])
      (auto simp: i end_state_def attempt_of_def intro!: sg_valid_post [OF sg_valid_keeps] run_keeps)
  show "sg_valid ?J (connection_failed ce job c e) (\<lambda>_. job_holds i (end_state a)) (\<lambda>_. True)" for e
    unfolding connection_failed_def
    by (rule sg_valid_bind [OF sg_valid_post [OF sg_valid_keeps]], intro run_keeps, assumption, rule TrueI,
        rule sg_valid_bind [OF set_connection_job_holds [where Q = "end_state a"]])
      (auto simp: i end_state_def attempt_of_def intro!: sg_valid_post [OF sg_valid_keeps] run_keeps)
qed simp

lemma keep_before:
  "sg_keeps J m \<Longrightarrow> sg_valid J n Q (\<lambda>_. True) \<Longrightarrow> sg_valid J (sg_then m n) Q (\<lambda>_. True)"
  by (rule sg_valid_bind [where R = "\<lambda>_. J"], rule sg_valid_post [OF sg_valid_keeps]) simp_all

lemma run_bind_simps:
  "sg_bind (\<lambda>s. sg_lift (g s) s) f s = (case g s of Inl e \<Rightarrow> (Raised e, s) | Inr x \<Rightarrow> f x s)"
  "sg_then (set_connection_job job h) m s = m (s\<lparr>rn_db := update_connection_job (cn_id job) h (rn_db s)\<rparr>)"
  by (simp_all add: sg_bind_def sg_lift_def set_connection_job_def modify_db_def split: sum.split)

text \<open>A run that commits reports the state it leaves the job in: settled, or retryable with attempts left.\<close>

lemma run_connection_report:
  assumes run: "run_connection_task ce commits ws i (db, w) = (Some (st, after), (db', w'))"
    and job: "find_connection_job ws i db = Inr job" "List.find (\<lambda>j. cn_id j = i) (connection_jobs db) = Some job"
    and unsettled: "\<not> connection_settled job"
  shows "\<exists>j. List.find (\<lambda>j. cn_id j = i) (connection_jobs db') = Some j \<and> cn_state j = st
    \<and> end_state (ws, cn_attempt job + 1, cn_max_attempts job) j"
proof -
  let ?s = "\<lparr>rn_base = db, rn_db = db, rn_world = w\<rparr>" and ?a = "(ws, cn_attempt job + 1, cn_max_attempts job)"
  have id: "cn_id job = i" "cn_workspace_id job = ws"
    using job(1) by (auto simp: find_connection_job_def dest: find_row_Inr)
  obtain s where p: "process_connection_job ce ws i ?s = (Value (st, after), s)" and s: "db' = rn_db s"
    using run by (auto simp: run_connection_task_def split: prod.splits outcome.splits if_splits)
  let ?rest = "\<lambda>c. sg_then (sg_try (connection_succeeds ce job c) (connection_failed ce job c) (connection_refused ce job c))
     (sg_then (state_changed_notice ce c)
     (sg_then (sg_repo_flush ''publishing_connection_job'')
     (sg_bind (the_connection_job job) (\<lambda>j. sg_return (cn_state j, cn_retry_after_seconds j)))))"
  have rest: "sg_valid (job_holds i (\<lambda>j. attempt_of j = ?a)) (?rest c)
    (\<lambda>r. job_holds i (\<lambda>j. end_state ?a j \<and> cn_state j = fst r)) (\<lambda>_. True)" for c
    unfolding sg_repo_flush_def
    by (intro sg_valid_bind [OF connection_run_end [OF id(1)]] keep_before run_keeps)
      (auto simp: the_connection_job_def sg_valid_def sg_bind_def sg_gets_def sg_return_def job_holds_def current_def id)
  obtain c s0 where start: "job_holds i (\<lambda>j. attempt_of j = ?a) s0" "?rest c s0 = (Value (st, after), s)"
  proof -
    have "job_holds i (\<lambda>j. attempt_of j = attempt_of job) ?s" using job(2) by (simp add: job_holds_def)
    then have "job_holds i (\<lambda>j. attempt_of j = ?a) (snd (set_connection_job job (\<lambda>j. j\<lparr>cn_state := JobState.VALIDATING,
        cn_started_at := (case cn_started_at j of None \<Rightarrow> Some (ce_now ce) | Some t \<Rightarrow> Some t),
        cn_attempt := cn_attempt j + 1, cn_error_code := None, cn_retry_after_seconds := None\<rparr>) ?s))"
      by (intro sg_valid_snd [OF set_connection_job_holds]) (auto simp: id attempt_of_def)
    with p unsettled job(1) show thesis
      unfolding process_connection_job_def run_bind_simps
      by (cases "find_connection ws (cn_connection_id job) db")
        (auto simp: run_bind_simps set_connection_job_def modify_db_def intro: that)
  qed
  from sg_validD [OF rest start] s show ?thesis by (auto simp: job_holds_def)
qed


text \<open>So the deliveries of a job end with the job settled, when no run is rolled back and there are as many
  deliveries as attempts left; the task makes four, and a job has three attempts.\<close>

lemma find_connection_job_id:
  assumes "List.find (\<lambda>j. cn_id j = i) (connection_jobs db) = Some job" "cn_workspace_id job = ws"
  shows "find_connection_job ws i db = Inr job"
proof -
  have "List.find (\<lambda>j. cn_workspace_id j = ws \<and> cn_id j = i) js = Some job"
    if "List.find (\<lambda>j. cn_id j = i) js = Some job" for js
    using that assms(2) by (induction js) (auto split: if_splits)
  then show ?thesis using assms(1) by (simp add: find_connection_job_def find_row_def)
qed

lemma run_connection_settled:
  assumes "find_connection_job ws i db = Inr job" "connection_settled job"
  shows "run_connection_task ce commits ws i (db, w)
    = (if commits then Some (cn_state job, cn_retry_after_seconds job) else None, (db, w))"
  using assms by (simp add: run_connection_task_def process_connection_job_def run_bind_simps sg_return_def)

lemma connection_deliveries_end:
  assumes "List.find (\<lambda>j. cn_id j = i) (connection_jobs (fst s)) = Some job" "cn_workspace_id job = ws"
    and "deliver_connection ce ws i moments s = (rs, s')" "None \<notin> set rs"
    and "moments \<noteq> []" "nat (cn_max_attempts job - cn_attempt job) \<le> length moments"
  shows "rs \<noteq> [] \<and> (\<exists>j. List.find (\<lambda>j. cn_id j = i) (connection_jobs (fst s')) = Some j
    \<and> connection_settled j \<and> fst (the (last rs)) = cn_state j)"
  using assms
proof (induction moments arbitrary: s job rs)
  case (Cons m moments)
  obtain now commits where m: "m = (now, commits)" by (rule prod.exhaust)
  obtain db w where s: "s = (db, w)" by (rule prod.exhaust)
  let ?ce = "ce\<lparr>ce_saga := (ce_saga ce)\<lparr>ev_now := now\<rparr>\<rparr>"
  have job: "find_connection_job ws i db = Inr job"
    using Cons.prems(1,2) by (intro find_connection_job_id) (simp_all add: s)
  obtain r db1 w1 where r: "run_connection_task ?ce commits ws i s = (r, (db1, w1))" by (rule prod_cases3)
  with Cons.prems(3,4) have "r \<noteq> None" by (cases r) (auto simp: m split: prod.splits)
  with r obtain st after where run: "run_connection_task ?ce commits ws i s = (Some (st, after), (db1, w1))" by (cases r) auto
  show ?case
  proof (cases "connection_settled job")
    case True
    then have "st = cn_state job" "db1 = db" using run by (simp_all add: s run_connection_settled [OF job True] split: if_splits)
    with True Cons.prems run show ?thesis by (auto simp: m s connection_settled_def)
  next
    case False
    from run_connection_report [OF run [unfolded s] job _ False] Cons.prems(1)
    obtain j where j: "List.find (\<lambda>j. cn_id j = i) (connection_jobs db1) = Some j" "cn_state j = st"
      "end_state (ws, cn_attempt job + 1, cn_max_attempts job) j" by (auto simp: s)
    then have same: "cn_workspace_id j = ws" "cn_attempt j = cn_attempt job + 1" "cn_max_attempts j = cn_max_attempts job"
      by (simp_all add: end_state_def attempt_of_def)
    show ?thesis
    proof (cases "st = JobState.RETRYABLE_FAILED")
      case True
      then have left: "cn_attempt j < cn_max_attempts j" using j by (auto simp: end_state_def)
      obtain rs1 where d: "deliver_connection ce ws i moments (db1, w1) = (rs1, s')" "rs = Some (st, after) # rs1"
        using Cons.prems(3) run True by (auto simp: m split: prod.splits)
      have "moments \<noteq> []" "nat (cn_max_attempts j - cn_attempt j) \<le> length moments"
        using left same Cons.prems(6) by auto
      with Cons.IH [OF _ same(1) d(1)] j(1) d(2) Cons.prems(4) show ?thesis by auto
    next
      case False
      then have "rs = [Some (st, after)]" "s' = (db1, w1)" using Cons.prems(3) run by (auto simp: m)
      with j False show ?thesis by (auto simp: end_state_def connection_settled_def)
    qed
  qed
qed simp

section \<open>A repeated diagnosis\<close>

text \<open>A diagnosis compares the hash of the settings as the provider gave them with the stored hash of their
  redacted form: it reports a change although the site has the same settings, whenever redaction changes their hash.\<close>

lemma unchanged_settings_reported:
  assumes "dg_site_settings (cl_value call) = dg_site_settings dg"
  shows "map_of (diagnostic_result H (diagnosed H now expires critical dg c) call) ''settings_changed''
    = Some (JBool (H (JDict (redact_dict (dg_site_settings dg))) \<noteq> H (JDict (dg_site_settings dg))))"
  using assms by (simp add: diagnostic_result_def diagnosed_def Let_def)

end
