(* ===== verification/Publish_Keeps.thy ===== *)
theory Publish_Keeps
  imports Publish_Frames
begin

text \<open>
  Quiet changes of a publishing run, and the locales that carry a predicate through the operations of
  \<^verbatim>\<open>domain/publishing/saga.py\<close>: from calls that only read at the provider to calls that write.
\<close>

section \<open>Quiet changes\<close>

text \<open>What the daily quota and the answer to a repeated request depend on: the counters and, of a job, the fields
  \<open>complete_quota\<close>, \<open>release_quota\<close> and the lookup of a request look at. A change is quiet when it touches
  neither this nor a life nor the world.\<close>

type_synonym request_id = "uuid \<times> uuid \<times> uuid \<times> PublishOperation \<times> string \<times> string \<times> string"

definition request_of :: "publish_job \<Rightarrow> request_id" where
  "request_of j = (pj_id j, pj_workspace_id j, pj_requested_by j, pj_operation j, pj_idempotency_key j, pj_request_hash j,
     pj_idempotency_marker j)"

type_synonym quota_fields =
  "request_id \<times> uuid \<times> time option \<times> (string \<times> json) list \<times> time option \<times> time option"

definition quota_part :: "publish_job \<Rightarrow> quota_fields" where
  "quota_part j = (request_of j, pj_connection_id j, pj_scheduled_local j,
     pj_input_snapshot j, pj_quota_completed_at j, pj_quota_released_at j)"

definition quota_view :: "'a publish_db_scheme \<Rightarrow> quota_usage list \<times> quota_fields list" where
  "quota_view db = (map (\<lambda>u. u\<lparr>qu_lock_version := 0\<rparr>) (quota_usages db), map quota_part (publish_jobs db))"

definition same_jobs :: "'a publish_db_scheme \<Rightarrow> 'a publish_db_scheme \<Rightarrow> bool" where
  "same_jobs db db' \<longleftrightarrow> lives db' = lives db \<and> quota_view db' = quota_view db \<and> uuid_supply db \<le> uuid_supply db'"

definition quiet_change :: "('a publish_db_scheme, 'w) run_state \<Rightarrow> ('a publish_db_scheme, 'w) run_state \<Rightarrow> bool" where
  "quiet_change s s' \<longleftrightarrow> rn_world s' = rn_world s \<and> same_jobs (rn_db s) (rn_db s')
     \<and> (rn_base s' = rn_base s \<or> rn_base s' = rn_db s')"

lemma same_jobs_tables:
  "publish_jobs db' = publish_jobs db \<Longrightarrow> quota_usages db' = quota_usages db
   \<Longrightarrow> uuid_supply db \<le> uuid_supply db' \<Longrightarrow> same_jobs db db'"
  by (simp add: same_jobs_def quota_view_def lives_def fun_eq_iff)

lemma same_jobs_update:
  assumes "\<And>j. life (f j) = life j" "\<And>j. quota_part (f j) = quota_part j"
  shows "same_jobs db (update_publish_job i f db)"
proof -
  have "pj_id (f j) = pj_id j" for j using assms(2) [of j] by (simp add: quota_part_def request_of_def)
  then show ?thesis
    using assms by (simp add: same_jobs_def lives_same)
      (simp add: quota_view_def update_publish_job_def update_where_def)
qed

lemma flush_rows_view:
  assumes "\<And>r. v (bump r) = v r"
  shows "map v (flush_rows key bump base rows) = map v rows"
  using assms by (simp add: flush_rows_def split: option.splits)

lemma same_jobs_flush: "flush_publish base db = Inr db' \<Longrightarrow> same_jobs db db'"
  using lives_flush_publish [of base db db']
  by (auto simp: same_jobs_def quota_view_def flush_publish_def flush_rows_view quota_part_def request_of_def split: if_splits)

lemma repo_flush_Inr: "repo_flush resource base db = Inr db' \<Longrightarrow> flush_publish base db = Inr db'"
  by (auto simp: repo_flush_def split: sum.splits error.splits)

lemma same_jobs_notify: "same_jobs db (notify_all row rs db)"
proof -
  have "publish_jobs (notify_all row rs db) = publish_jobs db \<and> quota_usages (notify_all row rs db) = quota_usages db
      \<and> uuid_supply db \<le> uuid_supply (notify_all row rs db)"
  proof (induction rs arbitrary: db)
    case (Cons r rs)
    show ?case
      using Cons.IH [of "db\<lparr>uuid_supply := Suc (uuid_supply db),
        publishing_notifications := publishing_notifications db @ [row (uuid_supply db) r]\<rparr>"]
      by (simp add: uuid4_def add_notification_def)
  qed simp
  then show ?thesis by (simp add: same_jobs_tables)
qed

lemmas quiet_tables = same_jobs_tables append_audit_log_def add_outbox_event_def uuid4_def Let_def
  update_saga_step_def update_post_def

section \<open>Operations of the worker\<close>

text \<open>\<open>I\<close> survives quiet changes and the two quota operations: what works on the database alone.\<close>

locale run_quiet =
  fixes env :: "'w saga_env" and I :: "('a publish_db_scheme, 'w) run_state \<Rightarrow> bool"
  assumes quiet: "I s \<Longrightarrow> quiet_change s s' \<Longrightarrow> I s'"
    and completes [run_keeps]: "sg_keeps I (complete_quota env job)"
    and releases [run_keeps]: "sg_keeps I (release_quota env job reverse)"
begin

lemma keep_modify: "(\<And>db. same_jobs db (f db)) \<Longrightarrow> sg_keeps I (modify_db f)"
  by (rule sg_keepsI, erule quiet) (simp add: modify_db_def quiet_change_def)

lemma keep_set_job: "(\<And>j. life (f j) = life j) \<Longrightarrow> (\<And>j. quota_part (f j) = quota_part j) \<Longrightarrow> sg_keeps I (set_job job f)"
  unfolding set_job_def by (intro keep_modify same_jobs_update)

lemma keep_rows [run_keeps]:
  shows "sg_keeps I (set_step t g)" "sg_keeps I (set_post post h)" "sg_keeps I fresh_id"
    "sg_keeps I (the_job job)" "sg_keeps I (the_post post)" "sg_keeps I (load_post ws i)"
    "sg_keeps I (update_pending job Q g)"
proof -
  show f: "sg_keeps I fresh_id"
    by (rule sg_keepsI, erule quiet) (simp add: fresh_id_def quiet_change_def quiet_tables)
  show "sg_keeps I (update_pending job Q g)"
    by (rule sg_keepsI, erule quiet) (simp add: update_pending_def modify_db_def quiet_change_def quiet_tables)
  show "sg_keeps I (set_step t g)" "sg_keeps I (set_post post h)"
    unfolding set_step_def set_post_def by (intro keep_modify; simp add: quiet_tables)+
  show "sg_keeps I (the_job job)" "sg_keeps I (the_post post)"
    unfolding the_job_def the_post_def by (intro run_keeps)+
  show "sg_keeps I (load_post ws i)"
    unfolding load_post_def the_post_def by (intro run_keeps)
qed

lemma keep_flush [run_keeps]: "sg_keeps I sg_flush" "sg_keeps I (sg_repo_flush resource)"
proof -
  have keep: "sg_keeps I (flush_with fl)" if "\<And>base db db'. fl base db = Inr db' \<Longrightarrow> same_jobs db db'"
    for fl :: "'a publish_db_scheme \<Rightarrow> 'a publish_db_scheme \<Rightarrow> 'a publish_db_scheme result"
    by (rule sg_keepsI) (auto simp: flush_with_def quiet_change_def that split: sum.splits elim!: quiet)
  show "sg_keeps I sg_flush" "sg_keeps I (sg_repo_flush resource)"
    unfolding sg_flush_def sg_repo_flush_def by (rule keep, blast intro: same_jobs_flush repo_flush_Inr)+
qed

lemma keep_added [run_keeps]:
  shows "sg_keeps I (modify_db (\<lambda>db. db\<lparr>saga_steps := x1 db\<rparr>))"
    "sg_keeps I (modify_db (\<lambda>db. db\<lparr>publish_attempts := x2 db\<rparr>))"
    "sg_keeps I (modify_db (\<lambda>db. db\<lparr>published_posts := x3 db\<rparr>))"
    "sg_keeps I (modify_db (\<lambda>db. db\<lparr>remote_snapshots := x4 db\<rparr>))"
    "sg_keeps I (modify_db (\<lambda>db. db\<lparr>media_bindings := x5 db\<rparr>))"
    "sg_keeps I (modify_db (notify_all row rs))"
    "sg_keeps I (modify_db (append_audit_log a1 a2 a3 a4 a5 a6 a7 a8))"
    "sg_keeps I (modify_db (add_outbox_event b1 b2 b3 b4 b5 b6 b7))"
  by (intro keep_modify same_jobs_notify; simp add: quiet_tables)+

lemma keep_job_fields [run_keeps]:
  shows "sg_keeps I (set_job job (\<lambda>j. j\<lparr>pj_target_published_post_id := Some i\<rparr>))"
    "sg_keeps I (set_job job (\<lambda>j. j\<lparr>pj_error_code := e\<rparr>))"
    "sg_keeps I (set_result job d)"
  by (auto simp: set_result_def life_def quota_part_def request_of_def intro!: keep_set_job)

lemma keep_steps [run_keeps]:
  shows "sg_keeps I (running_step env job k)" "sg_keeps I (finish_step env t call)"
    "sg_keeps I (record_call job t call' rid)" "sg_keeps I (record_provider_failure env job e so)"
    "sg_keeps I (skip_pending_steps env job)" "sg_keeps I (cancel_pending_steps job)"
  unfolding running_step_def find_or_add_step_def finish_step_def record_call_def add_attempt_def
    record_provider_failure_def skip_pending_steps_def cancel_pending_steps_def Let_def
  by (intro run_keeps)+

lemma keep_local_steps [run_keeps]:
  shows "sg_keeps I (succeed_local_step env job k d)" "sg_keeps I (record_local_failure env job code)"
    "sg_keeps I (notify_and_emit env job action d)"
  unfolding succeed_local_step_def record_local_failure_def notify_and_emit_def audit_outbox_def
  by (intro run_keeps)+

lemma keep_integrity [run_keeps]:
  "sg_keeps I (assert_remote_integrity env remote)" "sg_keeps I (fail_final code status)"
  "sg_keeps I remote_conflict_failure" "sg_keeps I (remote_conflict env job remote)"
  unfolding assert_remote_integrity_def fail_final_def remote_conflict_failure_def remote_conflict_def Let_def
  by (intro run_keeps)+

lemma keep_remote [run_keeps]:
  shows "sg_keeps I (apply_remote env post remote partial)" "sg_keeps I (target_post job)"
    "sg_keeps I (snapshot_remote env job post remote reason)" "sg_keeps I (expected_scheduled_transition env post remote)"
    "sg_keeps I (resolve_ready_job env job c policy)"
  unfolding apply_remote_def target_post_def snapshot_remote_def expected_scheduled_transition_def resolve_ready_job_def Let_def
  by (intro run_keeps)+

lemma keep_db_ends [run_keeps]:
  shows "sg_keeps I (release_uncompleted env job)" "sg_keeps I (created_post env r remote partial)"
    "sg_keeps I (import_remote env r post remote hk)" "sg_keeps I (rollback_snapshot env job post)"
  unfolding release_uncompleted_def created_post_def import_remote_def rollback_snapshot_def Let_def
  by (intro run_keeps)+

end

text \<open>\<open>I\<close> also survives the calls that only read at the provider, and the upload of media.\<close>

locale run_reads = run_quiet env I
  for env :: "'w saga_env" and r :: "'w publish_context" and I :: "('a publish_db_scheme, 'w) run_state \<Rightarrow> bool" +
  assumes get_post: "calls_keep I (cms_get_post (pu_cms r) remote_id cx secret)"
    and find_by_marker: "calls_keep I (cms_find_by_marker (pu_cms r) marker cx secret)"
    and upload: "calls_keep I (cms_upload_media (pu_cms r) binary cx secret)"
    and resolve_media: "calls_keep I (sg_resolve_media env object_ref content_hash)"
begin

lemmas [run_keeps] = keep_outside [OF get_post] keep_outside [OF find_by_marker] keep_outside [OF upload]
  keep_outside [OF resolve_media]

lemma keep_upload_items: "sg_keeps I (upload_items env (pu_cms r) cx secret job t items acc)"
proof (induction items arbitrary: acc)
  case (Cons item items)
  show ?case
    unfolding upload_items.simps upload_item_def upload_new_def by (intro run_keeps Cons.IH)
qed (simp add: keep_return)

lemma keep_documents [run_keeps]:
  shows "sg_keeps I (fetch env r k rid)" "sg_keeps I (prepared_document env (pu_cms r) cx secret job ready)"
  unfolding fetch_def fetch_remote_def prepared_document_def upload_media_def
  by (intro run_keeps keep_upload_items)+

lemma keep_verified [run_keeps]:
  shows "sg_keeps I (verified_post env r post rid g partial reason)" "sg_keeps I (fetch_or_missing env r k post)"
  unfolding verified_post_def fetch_or_missing_def missing_step_def Let_def
  by (intro run_keeps)+

end

text \<open>\<open>I\<close> also survives the calls that change an existing remote post.\<close>

locale run_writes = run_reads +
  assumes update_post: "calls_keep I (cms_update_post (pu_cms r) remote document cx secret)"
    and delete_post: "calls_keep I (cms_delete_post (pu_cms r) remote force cx secret)"
    and cancel_scheduled: "calls_keep I (cms_cancel_scheduled (pu_cms r) remote cx secret)"
    and restore_snapshot: "calls_keep I (cms_restore_snapshot (pu_cms r) remote snapshot cx secret)"
begin

lemmas [run_keeps] = keep_outside [OF update_post] keep_outside [OF delete_post] keep_outside [OF cancel_scheduled]
  keep_outside [OF restore_snapshot]

lemma keep_update [run_keeps]: "sg_keeps I (update_remote env r)"
  unfolding update_remote_def write_update_def Let_def by (intro run_keeps)

lemma keep_delete [run_keeps]: "sg_keeps I (delete_remote env r)"
  unfolding delete_remote_def by (intro run_keeps)

lemma keep_reconcile [run_keeps]: "sg_keeps I (reconcile_remote env r)"
  unfolding reconcile_remote_def overwrite_remote_def write_update_def Let_def by (intro run_keeps)

lemma keep_rollback [run_keeps]: "sg_keeps I (rollback_remote env r)"
  unfolding rollback_remote_def by (intro run_keeps)

lemma keep_cancel_scheduled [run_keeps]: "sg_keeps I (cancel_scheduled_post env r post)"
  unfolding cancel_scheduled_post_def Let_def by (intro run_keeps)

lemma keep_cancel_job:
  assumes "\<And>f job. (\<And>j. quota_part (f j) = quota_part j) \<Longrightarrow> sg_keeps I (set_job job f)"
  shows "sg_keeps I (cancel_job env r)"
proof -
  have "sg_keeps I (set_cancelled env job)" for job
    unfolding set_cancelled_def by (intro run_keeps assms) (simp add: quota_part_def request_of_def)
  then show ?thesis unfolding cancel_job_def by (intro run_keeps)
qed

end

text \<open>\<open>I\<close> survives every call.\<close>

locale run_creates = run_writes +
  assumes create_post: "calls_keep I (cms_create_post (pu_cms r) document cx secret)"
begin

lemmas [run_keeps] = keep_outside [OF create_post]

lemma keep_create [run_keeps]: "sg_keeps I (create_remote env r)"
  unfolding create_remote_def found_or_created_def Let_def by (intro run_keeps)

lemma keep_operation: "sg_keeps I (run_operation env r)"
  by (cases "pj_operation (pu_job r)") (simp_all add: run_operation_def run_keeps)

end

section \<open>A run keeps the life of a job\<close>

text \<open>Whatever the provider does, the operations of a run do not touch the life of any job: only the start
  and the end of a run do.\<close>

lemma lives_quota:
  shows "sg_keeps (\<lambda>s. R (lives (rn_db s))) (complete_quota env job)"
    "sg_keeps (\<lambda>s. R (lives (rn_db s))) (release_quota env job reverse)"
proof -
  have keep: "sg_keeps (\<lambda>s. R (lives (rn_db s))) (modify_db f)" if "\<And>db. lives (f db) = lives db" for f
    by (rule sg_keepsI) (simp add: modify_db_def that)
  have u: "sg_keeps (\<lambda>s. R (lives (rn_db s))) (modify_db (update_quota i f))" for i f
    by (rule keep) (simp add: update_quota_def lives_def fun_eq_iff)
  have j: "sg_keeps (\<lambda>s. R (lives (rn_db s))) (set_job job f)"
    if "\<And>j. pj_id (f j) = pj_id j" "\<And>j. life (f j) = life j" for f
    unfolding set_job_def by (rule keep) (simp add: lives_same that)
  show "sg_keeps (\<lambda>s. R (lives (rn_db s))) (complete_quota env job)"
    unfolding complete_quota_def job_usage_def the_job_def by (intro run_keeps u j) (simp_all add: life_def)
  show "sg_keeps (\<lambda>s. R (lives (rn_db s))) (release_quota env job reverse)"
    unfolding release_quota_def job_usage_def the_job_def by (intro run_keeps u j) (simp_all add: life_def)
qed

interpretation lives: run_creates env r "\<lambda>s. R (lives (rn_db s))"
  for env :: "'w saga_env" and r M
  by unfold_locales (simp_all add: quiet_change_def same_jobs_def calls_keep_def lives_quota)


section \<open>A whole run\<close>

text \<open>\<open>I\<close> survives a run of the job \<open>i\<close> that starts on the database \<open>db\<close>: the fields the start and the end of a
  run change are none the quota depends on; what the operation and the cancellation do is assumed.\<close>

locale run_process = run_quiet +
  fixes db :: "'a publish_db_scheme" and ws :: uuid and i :: uuid
  assumes operations: "find_publish_job ws i db = Inr (pu_job r) \<Longrightarrow> sg_registry env pr k = Some (pu_cms r)
      \<Longrightarrow> sg_valid (\<lambda>s. I s \<and> rn_base s = db) (run_operation env r) (\<lambda>_. I) I"
    and cancels: "find_publish_job ws i db = Inr (pu_job r) \<Longrightarrow> sg_registry env pr k = Some (pu_cms r)
      \<Longrightarrow> pj_cancel_requested_at (pu_job r) \<noteq> None \<Longrightarrow> sg_keeps I (cancel_job env r)"
    and secret: "calls_keep I (sg_resolve_secret env ref)"
    and ends: "(\<And>j. quota_part (f j) = quota_part j) \<Longrightarrow> sg_keeps I (set_job job f)"
begin

lemma keep_starts [run_keeps]:
  shows "sg_keeps I (set_job job (\<lambda>j. j\<lparr>pj_attempt := pj_attempt j + 1\<rparr>))"
    "sg_keeps I (set_cancelled env job)" "sg_keeps I (complete_job env job partial)"
    "sg_keeps I (final_failure env job code)"
  unfolding set_cancelled_def complete_job_def final_failure_def
  by (intro run_keeps ends; simp add: quota_part_def request_of_def)+

lemma keep_end_failed: "sg_keeps I finish \<Longrightarrow> sg_keeps I (end_failed env job e finish a b)"
  unfolding end_failed_def by (intro run_keeps ends) (simp_all add: quota_part_def request_of_def)

lemma start_set_job:
  assumes "\<And>j. quota_part (f j) = quota_part j"
  shows "sg_valid (\<lambda>s. I s \<and> rn_base s = db) (set_job job f) (\<lambda>_ s. I s \<and> rn_base s = db) I"
  using sg_keepsD [OF ends [OF assms], of _ job] by (auto simp: sg_valid_def set_job_def modify_db_def)

lemma keep_publish_run:
  assumes "find_publish_job ws i db = Inr (pu_job r)" "sg_registry env pr k = Some (pu_cms r)"
  shows "sg_valid (\<lambda>s. I s \<and> rn_base s = db) (publish_run env r) (\<lambda>_. I) I"
proof -
  have op: "sg_valid (\<lambda>s. I s \<and> rn_base s = db) (sg_try (sg_bind (run_operation env r) (complete_job env (pu_job r)))
      (\<lambda>e. end_failed env (pu_job r) e (release_uncompleted env (pu_job r)) a b) (\<lambda>code. final_failure env (pu_job r) code))
      (\<lambda>_. I) I" for a b
    by (rule sg_valid_try [OF sg_valid_bind [OF operations [OF assms]]])
      (auto intro!: sg_valid_keeps run_keeps keep_end_failed)
  show ?thesis
    unfolding publish_run_def job_result_of_def
    by (rule sg_valid_bind [OF start_set_job sg_valid_bind [OF op]])
      (auto simp: quota_part_def request_of_def intro!: sg_valid_keeps run_keeps)
qed

lemma keep_cancel_run:
  assumes "find_publish_job ws i db = Inr (pu_job r)" "sg_registry env pr k = Some (pu_cms r)"
    "pj_cancel_requested_at (pu_job r) \<noteq> None"
  shows "sg_keeps I (cancel_run env r)"
  unfolding cancel_run_def job_result_of_def by (intro run_keeps keep_end_failed cancels [OF assms])

lemma acquired:
  "sg_valid (\<lambda>s. I s \<and> rn_base s = db) (acquire_provider env c)
     (\<lambda>(cms, _) s. I s \<and> rn_base s = db \<and> (\<exists>pr k. sg_registry env pr k = Some cms)) I"
proof (cases "sg_registry env (pc_provider c) (pc_official_contract c)")
  case None
  then show ?thesis by (simp add: acquire_provider_def sg_valid_def sg_raise_def)
next
  case (Some cms)
  then show ?thesis
    using secret [of "pc_credential_secret_ref c"]
    by (auto simp: acquire_provider_def sg_valid_def sg_bind_def outside_def calls_keep_def sg_return_def Let_def
        split: prod.splits outcome.splits)
qed

lemma keep_start_run:
  assumes "find_publish_job ws i db = Inr job"
  shows "sg_valid (\<lambda>s. I s \<and> rn_base s = db) (start_run env job c policy) (\<lambda>_. I) I"
  unfolding start_run_def
proof (rule sg_valid_bind [where R = "\<lambda>a s. I s \<and> (case a of Inl _ \<Rightarrow> True
      | Inr (cms, _) \<Rightarrow> rn_base s = db \<and> (\<exists>pr k. sg_registry env pr k = Some cms))"], goal_cases)
  case 1
  have "sg_keeps I (end_final env job code)" for code
    unfolding end_final_def by (intro run_keeps)
  then have fin: "sg_valid I (sg_bind (end_final env job code) (\<lambda>x. sg_return (Inl x)))
      (\<lambda>a s. I s \<and> (case a of Inl _ \<Rightarrow> True
        | Inr (cms, _) \<Rightarrow> rn_base s = db \<and> (\<exists>pr k. sg_registry env pr k = Some cms))) I" for code
    by (intro sg_valid_bind [OF sg_valid_keeps]) (auto intro: sg_valid_return)
  show ?case
    by (intro sg_valid_try [where R = I] sg_valid_bind [OF acquired] fin) (auto simp: sg_valid_def sg_return_def sg_fail_def)
next
  case (2 a)
  show ?case
  proof (cases a)
    case (Inr x)
    obtain cms secret where x: "x = (cms, secret)" by (cases x)
    show ?thesis
    proof (cases "\<exists>pr k. sg_registry env pr k = Some cms")
      case True
      then obtain pr k where "sg_registry env pr k = Some cms" by blast
      then have run: "pu_cms r = cms \<Longrightarrow> pu_job r = job \<Longrightarrow> sg_valid (\<lambda>s. I s \<and> rn_base s = db) (publish_run env r) (\<lambda>_. I) I"
          "pu_cms r = cms \<Longrightarrow> pu_job r = job \<Longrightarrow> pj_cancel_requested_at job \<noteq> None
            \<Longrightarrow> sg_valid (\<lambda>s. I s \<and> rn_base s = db) (cancel_run env r) (\<lambda>_. I) I" for r
        using keep_publish_run [of r pr k] keep_cancel_run [of r pr k] assms
        by (auto intro: sg_valid_pre [OF sg_valid_keeps])
      show ?thesis
        using True by (simp add: Inr x Let_def run)
    qed (simp add: Inr x sg_valid_def)
  qed (simp add: sg_valid_return)
qed

lemma keep_process:
  assumes "I s" "rn_base s = db"
  shows "I (snd (process_publish_job env ws i s))"
proof (cases "find_publish_job ws i db")
  case (Inl e)
  with assms show ?thesis by (simp add: process_publish_job_def sg_bind_def sg_lift_def)
next
  case (Inr job)
  let ?rest = "if settled job then sg_return (pj_state job, pj_retry_after_seconds job)
     else if pj_cancel_requested_at job \<noteq> None \<and> pj_state job = JobState.CANCEL_REQUESTED \<and> pj_started_at job = None
     then sg_then (set_job job (\<lambda>j. j\<lparr>pj_attempt := pj_attempt j + 1\<rparr>)) (cancel_local_job env job)
     else sg_bind (\<lambda>s. sg_lift (find_connection ws (pj_connection_id job) (rn_base s)) s) (\<lambda>c.
     sg_bind (\<lambda>s. sg_lift (find_policy ws (pj_policy_id job) (rn_base s)) s) (\<lambda>policy.
     if \<not> snapshots_valid env job policy then end_final env job ''PUBLISH_JOB_SNAPSHOT_MISMATCH''
     else start_run env job c policy))"
  have fin: "sg_keeps I (end_final env job code)" "sg_keeps I (cancel_local_job env job)" for code
    unfolding end_final_def cancel_local_job_def by (intro run_keeps)+
  have read: "sg_valid (\<lambda>s. I s \<and> rn_base s = db) (\<lambda>s. sg_lift (g s) s) (\<lambda>_ s. I s \<and> rn_base s = db) I" for g :: "_ \<Rightarrow> 'r result"
    by (simp add: sg_valid_def sg_lift_def split: sum.splits)
  have "sg_valid (\<lambda>s. I s \<and> rn_base s = db) ?rest (\<lambda>_. I) I"
    by (intro sg_valid_if sg_valid_bind [OF read] keep_start_run [OF Inr] sg_valid_pre [OF sg_valid_keeps] run_keeps fin) simp_all
  moreover have "process_publish_job env ws i s = ?rest s"
    using Inr assms(2) by (simp add: process_publish_job_def sg_bind_def sg_lift_def)
  ultimately show ?thesis using sg_valid_snd [of "\<lambda>s. I s \<and> rn_base s = db" ?rest I s] assms by simp
qed

end

end
