(* ===== verification/Publish_Life.thy ===== *)
theory Publish_Life
  imports Publish_Keeps
begin

text \<open>
  The life cycle of a publish job, abstractly: what one run of the worker, a cancellation and a retry do to
  its state, its attempts and the request to cancel it; and the proof that \<open>run_publish_task\<close>,
  \<open>cancel_publish_job\<close>, \<open>retry_publish_job\<close> and the creation of a job do just that.
\<close>

section \<open>The abstract life cycle\<close>

definition life_settled :: "job_life \<Rightarrow> bool" where
  "life_settled l \<longleftrightarrow> lf_state l \<in> {JobState.PARTIAL, JobState.FINAL_FAILED, JobState.CANCELLED}
     \<or> lf_state l = JobState.SUCCEEDED \<and> \<not> lf_asked l"

definition withdrawing :: "job_life \<Rightarrow> bool" where
  "withdrawing l \<longleftrightarrow> lf_asked l \<and> lf_state l \<in> {JobState.CANCEL_REQUESTED, JobState.RETRYABLE_FAILED}"

text \<open>The end of an attempt; \<open>done_states\<close> are the good ends.\<close>

definition attempt_end :: "JobState set \<Rightarrow> job_life \<Rightarrow> job_life \<Rightarrow> bool" where
  "attempt_end done_states l l' \<longleftrightarrow>
     (\<exists>st. l' = l\<lparr>lf_state := st\<rparr> \<and> (st \<in> done_states \<or> st = JobState.FINAL_FAILED
        \<or> st = JobState.RETRYABLE_FAILED \<and> lf_attempt l < lf_max_attempts l))"

definition next_attempt :: "job_life \<Rightarrow> job_life" where
  "next_attempt l = l\<lparr>lf_attempt := lf_attempt l + 1\<rparr>"

definition run_life :: "job_life \<Rightarrow> job_life \<Rightarrow> bool" where
  "run_life l l' \<longleftrightarrow>
     (if life_settled l then l' = l
      else l' = l\<lparr>lf_state := JobState.FINAL_FAILED\<rparr>
        \<or> attempt_end (if withdrawing l then {JobState.CANCELLED} else {JobState.SUCCEEDED, JobState.PARTIAL})
            (next_attempt l) l')"

inductive life_step :: "job_life \<Rightarrow> job_life \<Rightarrow> bool" where
  Run: "run_life l l' \<Longrightarrow> life_step l l'"
| Ask: "lf_state l \<in> {JobState.SCHEDULED, JobState.RETRYABLE_FAILED, JobState.SUCCEEDED}
    \<Longrightarrow> life_step l (l\<lparr>lf_state := JobState.CANCEL_REQUESTED, lf_asked := True\<rparr>)"
| Retry: "lf_state l \<in> {JobState.PARTIAL, JobState.RETRYABLE_FAILED} \<Longrightarrow> lf_attempt l < lf_max_attempts l
    \<Longrightarrow> life_step l (l\<lparr>lf_state := JobState.SCHEDULED\<rparr>)"

definition new_life :: job_life where
  "new_life = \<lparr>lf_state = JobState.SCHEDULED, lf_attempt = 0, lf_max_attempts = 3, lf_asked = False\<rparr>"

section \<open>Triples about lives\<close>

lemma sg_valid_then:
  "sg_valid P m (\<lambda>_. R) E \<Longrightarrow> sg_valid R n Q E \<Longrightarrow> sg_valid P (sg_then m n) Q E"
  by (rule sg_valid_bind)

lemma sg_valid_keep_then:
  "sg_keeps P m \<Longrightarrow> (\<And>x. sg_valid P (f x) Q E) \<Longrightarrow> (\<And>s. P s \<Longrightarrow> E s) \<Longrightarrow> sg_valid P (sg_bind m f) Q E"
  by (rule sg_valid_bind [OF sg_valid_post [OF sg_valid_keeps]])

lemma sg_valid_last:
  "sg_keeps P m \<Longrightarrow> (\<And>s. P s \<Longrightarrow> E s) \<Longrightarrow> sg_valid P m (\<lambda>_. P) E"
  by (rule sg_valid_post [OF sg_valid_keeps])

definition at_life :: "(uuid \<Rightarrow> job_life option) \<Rightarrow> publish_job \<Rightarrow> job_life \<Rightarrow> (uuid \<Rightarrow> job_life option) \<Rightarrow> bool" where
  "at_life M job l N \<longleftrightarrow> N = M(pj_id job \<mapsto> l)"

abbreviation living where
  "living M job l s \<equiv> at_life M job l (lives (rn_db s))"

lemma set_job_life:
  assumes "\<And>j. pj_id (f j) = pj_id j" "\<And>j. life (f j) = g (life j)"
  shows "sg_valid (living M job l) (set_job job f) (\<lambda>_. living M job (g l)) E"
  unfolding set_job_def
  by (rule sg_valid_modify) (simp add: at_life_def lives_update [where g = g, OF assms])

lemma the_job_life:
  "sg_valid (living M job l) (the_job job) (\<lambda>j s. living M job l s \<and> life j = l) E"
  by (auto simp: the_job_def current_def at_life_def lives_def fun_eq_iff split: option.splits if_splits
      intro!: sg_valid_gets dest: spec [of _ "pj_id job"])


section \<open>The ends of a run\<close>

text \<open>\<open>ended\<close>: some life with the property has replaced the job's.\<close>

definition ended :: "(uuid \<Rightarrow> job_life option) \<Rightarrow> publish_job \<Rightarrow> (job_life \<Rightarrow> bool) \<Rightarrow> (uuid \<Rightarrow> job_life option) \<Rightarrow> bool" where
  "ended M job Q N \<longleftrightarrow> (\<exists>l. Q l \<and> N = M(pj_id job \<mapsto> l))"

abbreviation ended_in where
  "ended_in M job Q s \<equiv> ended M job Q (lives (rn_db s))"

lemma ended_at: "at_life M job l N \<Longrightarrow> Q l \<Longrightarrow> ended M job Q N"
  by (auto simp: at_life_def ended_def)

lemma ended_mono: "ended M job Q N \<Longrightarrow> (\<And>l. Q l \<Longrightarrow> Q' l) \<Longrightarrow> ended M job Q' N"
  by (auto simp: ended_def)

lemma ended_last: "sg_keeps (ended_in M job Q) m \<Longrightarrow> sg_valid (ended_in M job Q) m (\<lambda>_. ended_in M job Q) (\<lambda>_. True)"
  by (rule sg_valid_last) simp_all

lemma the_job_result: "sg_valid P (job_result_of job) (\<lambda>_. P) (\<lambda>_. True)"
  by (simp add: sg_valid_def job_result_of_def the_job_def sg_bind_def sg_gets_def sg_return_def)

lemma set_state_ended:
  assumes "Q (l\<lparr>lf_state := st\<rparr>)" "\<And>j. pj_id (f j) = pj_id j" "\<And>j. life (f j) = (life j)\<lparr>lf_state := st\<rparr>"
  shows "sg_valid (living M job l) (set_job job f) (\<lambda>_. ended_in M job Q) (\<lambda>_. True)"
  by (rule sg_valid_post [OF set_job_life [where g = "\<lambda>l. l\<lparr>lf_state := st\<rparr>"]])
    (use assms in \<open>auto intro: ended_at\<close>)

lemma set_state_then:
  assumes "Q (l\<lparr>lf_state := st\<rparr>)" "\<And>j. pj_id (f j) = pj_id j" "\<And>j. life (f j) = (life j)\<lparr>lf_state := st\<rparr>"
    and "sg_keeps (ended_in M job Q) m"
  shows "sg_valid (living M job l) (sg_then (set_job job f) m) (\<lambda>_. ended_in M job Q) (\<lambda>_. True)"
  by (rule sg_valid_then [OF set_state_ended [where Q = Q and st = st] ended_last]) (use assms in simp_all)

lemma end_failed_life:
  fixes finish :: "('a, 'w, unit) saga"
  assumes finish: "\<And>R. sg_keeps (\<lambda>s. R (lives (rn_db s))) finish"
  shows "sg_valid (living M job l) (end_failed env job e finish a b) (\<lambda>_. ended_in M job (attempt_end good l)) (\<lambda>_. True)"
  unfolding end_failed_def
proof (rule sg_valid_keep_then, goal_cases)
  case (2 x)
  show ?case
  proof (rule sg_valid_bind [OF the_job_life], 
      rule sg_valid_then [where R = "ended_in M job (attempt_end good l)"], goal_cases)
    case (1 j)
    show ?case
    proof (cases "life j = l")
      case True
      then have n: "pj_attempt j = lf_attempt l" "pj_max_attempts j = lf_max_attempts l" by (auto simp: life_def)
      show ?thesis
      proof (rule sg_valid_pre [where P = "living M job l :: ('a publish_db_scheme, 'w) run_state \<Rightarrow> bool"], rule sg_valid_if)
        assume "retryable e \<and> pj_attempt j < pj_max_attempts j"
        then show "sg_valid (living M job l :: ('a publish_db_scheme, 'w) run_state \<Rightarrow> bool) (set_job job (\<lambda>j'. j'\<lparr>pj_state := JobState.RETRYABLE_FAILED,
            pj_retry_after_seconds := Some (retry_delay e (pj_attempt j'))\<rparr>))
            (\<lambda>_. ended_in M job (attempt_end good l)) (\<lambda>_. True)"
          by (intro set_state_ended) (auto simp: attempt_end_def life_def n)
      next
        show "sg_valid (living M job l) (sg_then (set_job job (\<lambda>j. j\<lparr>pj_state := JobState.FINAL_FAILED,
            pj_finished_at := Some (ev_now env)\<rparr>)) (sg_then (skip_pending_steps env job) finish))
            (\<lambda>_. ended_in M job (attempt_end good l)) (\<lambda>_. True)"
          by (rule set_state_then [where st = JobState.FINAL_FAILED])
            (auto simp: attempt_end_def life_def intro!: run_keeps finish)
      qed simp
    qed (simp add: sg_valid_def)
  next
    case (2 j)
    show ?case by (intro ended_last run_keeps)
  qed
qed (intro run_keeps, simp)


text \<open>A failure inside an attempt leaves the life at some state of the same attempt; the handlers only look at
  the attempt.\<close>

definition any_state :: "job_life \<Rightarrow> job_life \<Rightarrow> bool" where
  "any_state l l' \<longleftrightarrow> (\<exists>st. l' = l\<lparr>lf_state := st\<rparr>)"

abbreviation caught where
  "caught M job l \<equiv> ended_in M job (any_state l)"

lemma living_caught: "living M job l s \<Longrightarrow> caught M job l s"
  by (rule ended_at, assumption) (auto simp: any_state_def intro: exI [of _ "lf_state l"])

lemma ended_caught: "ended_in M job (attempt_end good l) s \<Longrightarrow> caught M job l s"
  by (auto simp: ended_def attempt_end_def any_state_def)

lemma attempt_end_state: "attempt_end good (l\<lparr>lf_state := st\<rparr>) = attempt_end good l"
  by (simp add: attempt_end_def fun_eq_iff)

lemma sg_valid_caught:
  fixes m :: "('a, 'w, 'q) saga"
  assumes "\<And>st. sg_valid (living M job (l\<lparr>lf_state := st\<rparr>)) m Q E"
  shows "sg_valid (caught M job l) m Q E"
  unfolding sg_valid_def
proof (intro allI impI)
  fix s :: "('a publish_db_scheme, 'w) run_state"
  assume "caught M job l s"
  then obtain st where "living M job (l\<lparr>lf_state := st\<rparr>) s" by (auto simp: ended_def any_state_def at_life_def)
  with assms [of st] show "case m s of (Value x, s') \<Rightarrow> Q x s' | (Failed e, s') \<Rightarrow> E s' | (Raised e, s') \<Rightarrow> E s'"
    by (simp add: sg_valid_def)
qed

lemma caught_end_failed:
  "(\<And>R. sg_keeps (\<lambda>s. R (lives (rn_db s))) finish)
   \<Longrightarrow> sg_valid (caught M job l) (end_failed env job e finish a b) (\<lambda>_. ended_in M job (attempt_end good l)) (\<lambda>_. True)"
  using end_failed_life [of finish M job "l\<lparr>lf_state := st\<rparr>" env e a b good for st]
  by (intro sg_valid_caught) (simp add: attempt_end_state)

lemma set_state_keeps:
  assumes "Q (l\<lparr>lf_state := st\<rparr>)" "\<And>j. pj_id (f j) = pj_id j" "\<And>j. life (f j) = (life j)\<lparr>lf_state := st\<rparr>"
    "\<And>R. sg_keeps (\<lambda>s. R (lives (rn_db s))) m" "\<And>l'. Q l' \<Longrightarrow> any_state l l'"
  shows "sg_valid (living M job l) (sg_then (set_job job f) m) (\<lambda>_. ended_in M job Q) (caught M job l)"
  by (rule sg_valid_then [OF sg_valid_post [OF set_job_life [where g = "\<lambda>l. l\<lparr>lf_state := st\<rparr>"]
        ended_at [where Q = Q]] sg_valid_last])
    (use assms in \<open>auto intro: living_caught ended_mono\<close>)

lemma any_state_state: "any_state (l\<lparr>lf_state := st\<rparr>) = any_state l"
  by (simp add: any_state_def fun_eq_iff)

lemma attempt_end_any: "attempt_end good l l' \<Longrightarrow> any_state l l'"
  by (auto simp: attempt_end_def any_state_def)

lemma complete_job_life:
  "sg_valid (living M job l) (complete_job env job partial)
     (\<lambda>_. ended_in M job (attempt_end {JobState.SUCCEEDED, JobState.PARTIAL} l)) (caught M job l)"
  unfolding complete_job_def
  by (rule set_state_keeps [where st = "if partial then JobState.PARTIAL else JobState.SUCCEEDED"])
    (auto simp: attempt_end_def life_def any_state_def intro!: run_keeps)

definition failed_for_good :: "job_life \<Rightarrow> job_life \<Rightarrow> bool" where
  "failed_for_good l l' \<longleftrightarrow> l' = l\<lparr>lf_state := JobState.FINAL_FAILED\<rparr>"

lemma final_failure_life:
  "sg_valid (caught M job l) (final_failure env job code) (\<lambda>_. ended_in M job (failed_for_good l)) (\<lambda>_. True)"
proof (rule sg_valid_caught)
  fix st
  have "sg_valid (living M job (l\<lparr>lf_state := st\<rparr>)) (final_failure env job code)
      (\<lambda>_. ended_in M job (failed_for_good l)) (caught M job (l\<lparr>lf_state := st\<rparr>))"
    unfolding final_failure_def
    by (rule set_state_keeps [where st = JobState.FINAL_FAILED])
      (auto simp: failed_for_good_def life_def any_state_def intro!: run_keeps)
  then show "sg_valid (living M job (l\<lparr>lf_state := st\<rparr>)) (final_failure env job code)
      (\<lambda>_. ended_in M job (failed_for_good l)) (\<lambda>_. True)"
    by (rule sg_valid_post) simp_all
qed

lemma end_final_life:
  "sg_valid (living M job l) (end_final env job code) (\<lambda>_. ended_in M job (failed_for_good l)) (\<lambda>_. True)"
  unfolding end_final_def the_job_def
  by (rule sg_valid_then [OF sg_valid_pre [OF final_failure_life [of M job l]] ended_last])
    (auto intro: living_caught intro!: run_keeps)

lemma set_cancelled_life:
  "sg_valid (living M job l) (set_cancelled env job) (\<lambda>_. ended_in M job (attempt_end {JobState.CANCELLED} l)) (caught M job l)"
  unfolding set_cancelled_def
  by (rule set_state_keeps [where st = JobState.CANCELLED])
    (auto simp: attempt_end_def life_def any_state_def intro!: run_keeps)

lemma set_cancelled_then:
  assumes "\<And>R. sg_keeps (\<lambda>s. R (lives (rn_db s))) m"
  shows "sg_valid (living M job l) (sg_then (set_cancelled env job) m)
    (\<lambda>_. ended_in M job (attempt_end {JobState.CANCELLED} l)) (caught M job l)"
  by (rule sg_valid_then [OF set_cancelled_life sg_valid_last]) (use assms in \<open>auto intro: ended_caught\<close>)

lemma cancel_local_job_life:
  "sg_valid (living M job l) (cancel_local_job env job) (\<lambda>_. ended_in M job (attempt_end {JobState.CANCELLED} l)) (caught M job l)"
  unfolding cancel_local_job_def by (intro set_cancelled_then run_keeps)

lemma cancel_job_life:
  "sg_valid (living M (pu_job r) l) (cancel_job env r)
     (\<lambda>_. ended_in M (pu_job r) (attempt_end {JobState.CANCELLED} l)) (caught M (pu_job r) l)"
  unfolding cancel_job_def
proof (rule sg_valid_keep_then, goal_cases)
  case (2 j)
  show ?case
  proof (rule sg_valid_keep_then, goal_cases)
    case (2 x)
    show ?case by (cases x) (simp, intro set_cancelled_then run_keeps)
  qed (intro run_keeps, rule living_caught)
qed (intro run_keeps, rule living_caught)


section \<open>A run of the task\<close>

lemma failed_for_good_end: "failed_for_good l l' \<Longrightarrow> attempt_end good l l'"
  by (auto simp: failed_for_good_def attempt_end_def)

lemma ended_then_result:
  assumes "sg_valid P m (\<lambda>_. ended_in M job Q) (\<lambda>_. True)"
  shows "sg_valid P (sg_then m (sg_then (sg_repo_flush resource) (job_result_of job)))
    (\<lambda>_. ended_in M job Q) (\<lambda>_. True)"
  unfolding job_result_of_def the_job_def
  by (rule sg_valid_then [OF assms ended_last]) (intro run_keeps)

lemma publish_run_life:
  "sg_valid (living M (pu_job r) l) (publish_run env r)
     (\<lambda>_. ended_in M (pu_job r) (attempt_end {JobState.SUCCEEDED, JobState.PARTIAL} (next_attempt l))) (\<lambda>_. True)"
  unfolding publish_run_def
proof (rule sg_valid_then, rule set_job_life [where g = "\<lambda>l. (next_attempt l)\<lparr>lf_state := JobState.PUBLISHING\<rparr>"], goal_cases)
  case 3
  show ?case
  proof (rule ended_then_result, rule sg_valid_try [where R = "caught M (pu_job r) (next_attempt l)"], goal_cases)
    case 1
    show ?case
    proof (rule sg_valid_keep_then, rule lives.keep_operation, goal_cases)
      case (1 x)
      show ?case
        using complete_job_life [of M "pu_job r" "(next_attempt l)\<lparr>lf_state := JobState.PUBLISHING\<rparr>" env x]
        by (simp add: attempt_end_state any_state_state)
    next
      case (2 s)
      then show ?case by (rule ended_at) (auto simp: any_state_def)
    qed
  qed (auto intro!: caught_end_failed run_keeps
      sg_valid_post [OF final_failure_life] intro: ended_mono failed_for_good_end)
qed (simp_all add: life_def next_attempt_def)

lemma cancel_run_life:
  "sg_valid (living M (pu_job r) l) (cancel_run env r)
     (\<lambda>_. ended_in M (pu_job r) (attempt_end {JobState.CANCELLED} (next_attempt l))) (\<lambda>_. True)"
  unfolding cancel_run_def
proof (rule sg_valid_then, rule set_job_life [where g = next_attempt], goal_cases)
  case 3
  show ?case
    by (rule sg_valid_catch [OF cancel_job_life])
      (auto intro!: ended_then_result caught_end_failed run_keeps)
qed (simp_all add: life_def next_attempt_def)


lemma acquire_provider_keeps: "sg_keeps (\<lambda>s. R (lives (rn_db s))) (acquire_provider env c)"
proof -
  have "calls_keep (\<lambda>s. R (lives (rn_db s))) (sg_resolve_secret env ref)" for ref
    by (simp add: calls_keep_def)
  then show ?thesis unfolding acquire_provider_def by (intro run_keeps)
qed

lemma withdrawing_job:
  "life job = l \<Longrightarrow> withdrawing l \<longleftrightarrow> pj_cancel_requested_at job \<noteq> None
     \<and> pj_state job \<in> {JobState.CANCEL_REQUESTED, JobState.RETRYABLE_FAILED}"
  by (auto simp: withdrawing_def life_def)

lemma settled_job: "life job = l \<Longrightarrow> life_settled l \<longleftrightarrow> settled job"
  by (auto simp: life_settled_def settled_def life_def)

lemma start_run_life:
  fixes env :: "'w saga_env"
  assumes l: "life job = l" "\<not> life_settled l"
  shows "sg_valid (living M job l :: ('a publish_db_scheme, 'w) run_state \<Rightarrow> bool) (start_run env job c policy) (\<lambda>_. ended_in M job (run_life l)) (\<lambda>_. True)"
  unfolding start_run_def
proof (rule sg_valid_bind [where R = "\<lambda>a. case a of Inl _ \<Rightarrow> ended_in M job (run_life l) | Inr _ \<Rightarrow> living M job l"], goal_cases)
  case 1
  have fin: "sg_valid (living M job l :: ('a publish_db_scheme, 'w) run_state \<Rightarrow> bool) (end_final env job code) (\<lambda>_. ended_in M job (run_life l)) (\<lambda>_. True)" for code
    by (rule sg_valid_post [OF end_final_life]) (use l in \<open>auto simp: failed_for_good_def run_life_def intro: ended_mono\<close>)
  show ?case
  proof (rule sg_valid_try [where R = "living M job l"], goal_cases)
    case 1
    show ?case
      by (rule sg_valid_keep_then [OF acquire_provider_keeps]) (auto intro: sg_valid_return)
  next
    case (4 code)
    show ?case by (rule sg_valid_bind [OF fin]) (auto intro: sg_valid_return)
  qed (simp_all add: sg_valid_def sg_fail_def)
next
  case (2 a)
  have good: "ended M job (run_life l) N"
    if "ended M job (attempt_end (if withdrawing l then {JobState.CANCELLED} else {JobState.SUCCEEDED, JobState.PARTIAL})
      (next_attempt l)) N" for N
    using that l(2) by (auto simp: run_life_def intro: ended_mono)
  show ?case
  proof (cases a)
    case (Inl x)
    then show ?thesis by (simp add: sg_valid_return)
  next
    case (Inr x)
    obtain cms secret where x: "x = (cms, secret)" by (cases x)
    let ?r = "\<lparr>pu_cms = cms, pu_context = context_of c, pu_secret = secret, pu_job = job, pu_connection = c, pu_policy = policy\<rparr>"
    have run: "sg_valid (living M job l :: ('a publish_db_scheme, 'w) run_state \<Rightarrow> bool) (cancel_run env ?r) (\<lambda>_. ended_in M job (run_life l)) (\<lambda>_. True)"
      if "withdrawing l"
      by (rule sg_valid_post [OF cancel_run_life [where r = ?r, simplified]]) (use that good in auto)
    have publish: "sg_valid (living M job l :: ('a publish_db_scheme, 'w) run_state \<Rightarrow> bool) (publish_run env ?r) (\<lambda>_. ended_in M job (run_life l)) (\<lambda>_. True)"
      if "\<not> withdrawing l"
      by (rule sg_valid_post [OF publish_run_life [where r = ?r, simplified]]) (use that good in auto)
    show ?thesis
      using run publish by (simp add: Inr x Let_def withdrawing_job [OF l(1)])
  qed
qed

lemma process_life:
  fixes env :: "'w saga_env" and db :: "'a publish_db_scheme"
  assumes "find_publish_job ws i db = Inr job" "life job = l"
  shows "sg_valid (\<lambda>s. living M job l s \<and> rn_base s = db) (process_publish_job env ws i)
    (\<lambda>_. ended_in M job (run_life l)) (\<lambda>_. True)"
proof -
  have keep: "living M job l s \<Longrightarrow> life_settled l \<Longrightarrow> ended_in M job (run_life l) s" for s :: "('a publish_db_scheme, 'w) run_state"
    by (rule ended_at) (auto simp: run_life_def)
  have loc: "sg_valid (living M job l :: ('a publish_db_scheme, 'w) run_state \<Rightarrow> bool) (sg_then (set_job job (\<lambda>j. j\<lparr>pj_attempt := pj_attempt j + 1\<rparr>)) (cancel_local_job env job))
      (\<lambda>_. ended_in M job (run_life l)) (\<lambda>_. True)" if "withdrawing l" "\<not> life_settled l"
    by (rule sg_valid_then [OF set_job_life [where g = next_attempt] sg_valid_post [OF cancel_local_job_life]])
      (use that in \<open>auto simp: life_def next_attempt_def run_life_def intro: ended_mono\<close>)
  have fin: "sg_valid (living M job l :: ('a publish_db_scheme, 'w) run_state \<Rightarrow> bool) (end_final env job code) (\<lambda>_. ended_in M job (run_life l)) (\<lambda>_. True)"
    if "\<not> life_settled l" for code
    by (rule sg_valid_post [OF end_final_life]) (use that in \<open>auto simp: failed_for_good_def run_life_def intro: ended_mono\<close>)
  let ?main = "if settled job then sg_return (pj_state job, pj_retry_after_seconds job)
     else if pj_cancel_requested_at job \<noteq> None \<and> pj_state job = JobState.CANCEL_REQUESTED \<and> pj_started_at job = None
     then sg_then (set_job job (\<lambda>j. j\<lparr>pj_attempt := pj_attempt j + 1\<rparr>)) (cancel_local_job env job)
     else sg_bind (\<lambda>s. sg_lift (find_connection ws (pj_connection_id job) (rn_base s)) s) (\<lambda>c.
     sg_bind (\<lambda>s. sg_lift (find_policy ws (pj_policy_id job) (rn_base s)) s) (\<lambda>policy.
     if \<not> snapshots_valid env job policy then end_final env job ''PUBLISH_JOB_SNAPSHOT_MISMATCH''
     else start_run env job c policy))"
  have main: "sg_valid (living M job l :: ('a publish_db_scheme, 'w) run_state \<Rightarrow> bool) ?main (\<lambda>_. ended_in M job (run_life l)) (\<lambda>_. True)"
  proof (cases "life_settled l")
    case True
    then show ?thesis using settled_job [OF assms(2)] keep by (simp add: sg_valid_return)
  next
    case False
    have "withdrawing l" if "pj_cancel_requested_at job \<noteq> None" "pj_state job = JobState.CANCEL_REQUESTED"
      using that withdrawing_job [OF assms(2)] by simp
    with False show ?thesis
      using settled_job [OF assms(2)]
      by (auto intro!: sg_valid_if sg_valid_keep_then [OF keep_lift] loc fin start_run_life assms(2))
  qed
  have "process_publish_job env ws i s = ?main s" if "rn_base s = db" for s
    using that assms(1) by (simp add: process_publish_job_def sg_bind_def sg_lift_def)
  with main show ?thesis by (simp add: sg_valid_def)
qed

theorem run_publish_task_life:
  assumes "run_publish_task env True ws i (db, w) = (Some x, (db', w'))" "distinct (map pj_id (publish_jobs db))"
  obtains l l' where "lives db i = Some l" "run_life l l'" "lives db' = (lives db)(i \<mapsto> l')"
proof -
  let ?s = "\<lparr>rn_base = db, rn_db = db, rn_world = w\<rparr>"
  obtain x' s' where p: "process_publish_job env ws i ?s = (Value x', s')" "rn_db s' = db'"
    using assms(1) by (auto simp: run_publish_task_def split: prod.splits outcome.splits)
  then obtain job where j: "find_publish_job ws i db = Inr job"
    by (auto simp: process_publish_job_def sg_bind_def sg_lift_def split: sum.splits)
  then have job: "job \<in> set (publish_jobs db)" "pj_id job = i" by (auto simp: find_publish_job_def dest: find_row_Inr)
  then have "List.find (\<lambda>j. pj_id j = i) (publish_jobs db) = Some job"
    using assms(2) by (auto simp: find_Some_iff in_set_conv_nth distinct_conv_nth)
  then have l: "lives db i = Some (life job)" by (simp add: lives_def)
  then have "living (lives db) job (life job) ?s" using job(2) by (simp add: at_life_def fun_upd_idem)
  with sg_validD [OF process_life [OF j refl] _ p(1), of "lives db"] p(2) job(2) l that show ?thesis
    by (auto simp: ended_def)
qed

end
