(* ===== verification/Publish_Reach.thy ===== *)
theory Publish_Reach
  imports Publish_Life
begin

text \<open>
  Histories of the publishing domain: requests of \<^verbatim>\<open>service.py\<close>, runs of the worker that commit or do not, and
  anything other services do to their own tables, in any order. Every step moves the life of at most one
  job, along the abstract life cycle.
\<close>

section \<open>Requests\<close>

lemma existing_publish_job_Inr:
  "existing_publish_job p op key h db = Inr (Some job) \<Longrightarrow> find_request_job p op key db = Some job \<and> pj_request_hash job = h"
  by (auto simp: existing_publish_job_def result_simps assert_same_request_def ensure_def split: if_splits option.splits)

definition request_outcome ::
  "publish_env \<Rightarrow> principal \<Rightarrow> PublishOperation \<Rightarrow> string \<Rightarrow> 'a publish_db_scheme \<Rightarrow> publish_job \<times> bool \<Rightarrow> 'a publish_db_scheme \<Rightarrow> bool" where
  "request_outcome env p op key db x db' \<longleftrightarrow>
     (\<exists>job. x = (job, False) \<and> db' = db \<and> find_request_job p op key db = Some job)
     \<or> (\<exists>d. jr_operation d = op \<and> jr_idempotency_key d = key \<and> find_request_job p op key db = None
          \<and> insert_publish_job env p d db = Inr (x, db'))"

lemma create_job_outcome:
  "create_job env p d db = Inr (x, db') \<Longrightarrow> request_outcome env p (jr_operation d) (jr_idempotency_key d) db x db'"
  by (auto simp: create_job_def request_outcome_def existing_publish_job_def result_simps split: option.splits if_splits)

lemma replay_outcome:
  "existing_publish_job p op key h db = Inr (Some job) \<Longrightarrow> request_outcome env p op key db (job, False) db"
  by (simp add: request_outcome_def existing_publish_job_Inr)

lemma create_publish_job_outcome:
  "create_publish_job env p cid d key db = Inr (x, db') \<Longrightarrow> request_outcome env p PublishOperation.CREATE key db x db'"
  by (auto simp: create_publish_job_def Let_def result_simps split: option.splits
      dest!: create_job_outcome dest: replay_outcome)

lemma update_published_post_outcome:
  "update_published_post env p pid d key db = Inr (x, db') \<Longrightarrow> request_outcome env p PublishOperation.UPDATE key db x db'"
  by (auto simp: update_published_post_def Let_def result_simps split: option.splits if_splits
      dest!: create_job_outcome dest: replay_outcome)

lemma existing_post_job_outcome:
  "existing_post_job env p post op key h input db = Inr (x, db') \<Longrightarrow> request_outcome env p op key db x db'"
  by (auto simp: existing_post_job_def result_simps split: option.splits prod.splits dest!: create_job_outcome)

lemma delete_published_post_outcome:
  "delete_published_post env p pid d key db = Inr (x, db') \<Longrightarrow> request_outcome env p PublishOperation.DELETE key db x db'"
  by (auto simp: delete_published_post_def Let_def result_simps split: option.splits if_splits
      dest!: existing_post_job_outcome dest: replay_outcome)

lemma reconcile_published_post_outcome:
  "reconcile_published_post env p pid n a key db = Inr (x, db') \<Longrightarrow> request_outcome env p PublishOperation.RECONCILE key db x db'"
  by (auto simp: reconcile_published_post_def Let_def result_simps split: option.splits if_splits
      dest!: existing_post_job_outcome dest: replay_outcome)

lemma rollback_published_post_outcome:
  "rollback_published_post env p pid d key db = Inr (x, db') \<Longrightarrow> request_outcome env p PublishOperation.ROLLBACK key db x db'"
  by (auto simp: rollback_published_post_def Let_def result_simps split: option.splits if_splits
      dest!: existing_post_job_outcome dest: replay_outcome)

section \<open>What a request does to the jobs\<close>

lemma publish_record_jobs:
  "publish_jobs (publish_record p now a tt ti ds db) = publish_jobs db"
  "quota_usages (publish_record p now a tt ti ds db) = quota_usages db"
  "uuid_supply db \<le> uuid_supply (publish_record p now a tt ti ds db)"
  by (simp_all add: publish_record_def append_audit_log_def add_outbox_event_def uuid4_def Let_def)

lemma reserve_quota_jobs:
  "reserve_quota ws c policy channel day db = Inr db' \<Longrightarrow> publish_jobs db' = publish_jobs db \<and> uuid_supply db \<le> uuid_supply db'"
  unfolding reserve_quota_def bind_result_eq_Inr
  by (elim exE conjE, rename_tac found, case_tac found)
    (auto simp: Let_def uuid4_def update_quota_def split: option.splits if_splits)

lemma initial_steps_jobs:
  "initial_steps ws i n ks db = (rows, db') \<Longrightarrow>
    publish_jobs db' = publish_jobs db \<and> quota_usages db' = quota_usages db \<and> uuid_supply db \<le> uuid_supply db'"
  by (induction ks arbitrary: n db rows) (fastforce simp: uuid4_def Let_def split: prod.splits dest: Suc_leD)+

lemma notify_all_jobs:
  "publish_jobs (notify_all row rs db) = publish_jobs db \<and> quota_usages (notify_all row rs db) = quota_usages db
    \<and> uuid_supply db \<le> uuid_supply (notify_all row rs db)"
proof (induction rs arbitrary: db)
  case (Cons r rs)
  show ?case
    using Cons.IH [of "db\<lparr>uuid_supply := Suc (uuid_supply db),
      publishing_notifications := publishing_notifications db @ [row (uuid_supply db) r]\<rparr>"]
    by (simp add: uuid4_def add_notification_def)
qed simp

text \<open>Rows as the flush leaves them: at most the lock version differs.\<close>

lemma flush_jobs:
  assumes "repo_flush resource base db = Inr db'"
  shows "map pj_id (publish_jobs db') = map pj_id (publish_jobs db)" "uuid_supply db' = uuid_supply db"
    "lives db' = lives db" "quota_view db' = quota_view db"
  using repo_flush_Inr [OF assms] same_jobs_flush [OF repo_flush_Inr [OF assms]]
  by (auto simp: flush_publish_def flush_rows_view same_jobs_def split: if_splits)


lemma quota_view_requests:
  assumes "quota_view db' = quota_view db"
  shows "map request_of (publish_jobs db') = map request_of (publish_jobs db)"
proof -
  have "map fst (snd (quota_view db')) = map fst (snd (quota_view db))" using assms by simp
  then show ?thesis by (simp add: quota_view_def quota_part_def o_def)
qed

lemma quota_view_ids:
  assumes "quota_view db' = quota_view db"
  shows "map pj_id (publish_jobs db') = map pj_id (publish_jobs db)"
proof -
  have "map fst (map request_of (publish_jobs db')) = map fst (map request_of (publish_jobs db))"
    by (simp only: quota_view_requests [OF assms])
  then show ?thesis by (simp add: request_of_def o_def)
qed

lemma insert_publish_job_Inr:
  assumes "insert_publish_job env p d db = Inr (x, db')"
  obtains i where "x = (job_row (ev_hash env) p d i, True)" "uuid_supply db \<le> i" "i < uuid_supply db'"
    "map pj_id (publish_jobs db') = map pj_id (publish_jobs db) @ [i]"
    "lives db' = lives (db\<lparr>publish_jobs := publish_jobs db @ [job_row (ev_hash env) p d i]\<rparr>)"
    "map request_of (publish_jobs db') = map request_of (publish_jobs db) @ [request_of (job_row (ev_hash env) p d i)]"
    "\<exists>db1. (if jr_reserve_quota d
        then reserve_quota (workspace_id p) (jr_connection d) (jr_policy d) (rc_channel (jr_ready d))
               (sd_local_day (jr_schedule d)) db
        else Inr db) = Inr db1 \<and> fst (quota_view db') = fst (quota_view db1) \<and> uuid_supply db1 \<le> uuid_supply db'"
proof -
  from assms obtain db1 where r: "(if jr_reserve_quota d
        then reserve_quota (workspace_id p) (jr_connection d) (jr_policy d) (rc_channel (jr_ready d))
               (sd_local_day (jr_schedule d)) db
        else Inr db) = Inr db1"
    by (auto simp: insert_publish_job_def bind_result_eq_Inr)
  have q: "publish_jobs db1 = publish_jobs db" "uuid_supply db \<le> uuid_supply db1"
    using r by (auto dest: reserve_quota_jobs split: if_splits)
  define i where "i = uuid_supply db1"
  let ?job = "job_row (ev_hash env) p d i"
  obtain steps db2 where s: "initial_steps (workspace_id p) i 1 (initial_kinds (jr_operation d))
      (db1\<lparr>uuid_supply := Suc i\<rparr>) = (steps, db2)" by fastforce
  note s' = initial_steps_jobs [OF s]
  define db3 where "db3 = db2\<lparr>publish_jobs := publish_jobs db2 @ [?job], saga_steps := saga_steps db2 @ steps\<rparr>"
  define db4 where "db4 = (if jr_visibility d = PublishVisibility.SCHEDULED
      then notify_all (scheduled_notice (ev_now env) ?job) (dict_fromkeys [subject_id p, rc_approved_by (jr_ready d)]) db3
      else db3)"
  have j4: "publish_jobs db4 = publish_jobs db @ [?job]" "i < uuid_supply db4"
    using notify_all_jobs [of "scheduled_notice (ev_now env) ?job" _ db3] s' q
    by (auto simp: db4_def db3_def) (metis Suc_le_lessD le_trans)
  have "insert_publish_job env p d db = bind_result (repo_flush ''publish_job'' db db4) (\<lambda>db.
      Inr ((?job, True), publish_record p (ev_now env) ''publishing.job.scheduled'' ''publish_job'' i
          [(''operation'', JStr (publish_operation_value (jr_operation d))),
           (''content_id'', JStr (uuid_str (pj_content_id ?job))),
           (''content_version_id'', JStr (uuid_str (pj_content_version_id ?job))),
           (''content_hash'', JStr (pj_content_hash ?job)),
           (''connection_id'', JStr (uuid_str (pj_connection_id ?job))),
           (''scheduled_at_utc'', opt_time (pj_scheduled_at_utc ?job)),
           (''request_hash'', JStr (pj_request_hash ?job))] db))"
    unfolding insert_publish_job_def r bind_result_Inr Let_def uuid4_def prod.case i_def [symmetric] s
      db4_def db3_def by (rule refl)
  with assms obtain db5 ds where f: "repo_flush ''publish_job'' db db4 = Inr db5" and x: "x = (?job, True)"
    and db': "db' = publish_record p (ev_now env) ''publishing.job.scheduled'' ''publish_job'' i ds db5"
    by (auto simp only: bind_result_eq_Inr sum.inject prod.inject)
  note f' = flush_jobs [OF f]
  show ?thesis
  proof (rule that [OF x])
    show "uuid_supply db \<le> i" by (simp add: i_def q)
    show "i < uuid_supply db'" using j4 f' publish_record_jobs(3) [of db5] db' by (simp add: less_le_trans)
    show "map pj_id (publish_jobs db') = map pj_id (publish_jobs db) @ [i]"
      using f' j4 by (simp add: db' publish_record_jobs job_row_def)
    have "lives db' = lives db5" unfolding db' by (rule lives_cong) (rule publish_record_jobs(1))
    moreover have "lives db4 = lives (db\<lparr>publish_jobs := publish_jobs db @ [?job]\<rparr>)"
      by (rule lives_cong) (simp add: j4)
    ultimately show "lives db' = lives (db\<lparr>publish_jobs := publish_jobs db @ [?job]\<rparr>)" using f' by simp
    have "map request_of (publish_jobs db5) = map request_of (publish_jobs db4)"
      using quota_view_requests [OF f'(4)] .
    then show "map request_of (publish_jobs db') = map request_of (publish_jobs db) @ [request_of ?job]"
      by (simp add: db' publish_record_jobs j4)
    have "quota_usages db4 = quota_usages db1"
      using notify_all_jobs [of "scheduled_notice (ev_now env) ?job" _ db3] s' by (simp add: db4_def db3_def)
    moreover have "uuid_supply db1 \<le> uuid_supply db4" using j4(2) by (simp add: i_def)
    ultimately have "fst (quota_view db5) = fst (quota_view db1)" "uuid_supply db1 \<le> uuid_supply db5"
      using f' by (simp_all add: quota_view_def)
    then show "\<exists>db1. (if jr_reserve_quota d
        then reserve_quota (workspace_id p) (jr_connection d) (jr_policy d) (rc_channel (jr_ready d))
               (sd_local_day (jr_schedule d)) db
        else Inr db) = Inr db1 \<and> fst (quota_view db') = fst (quota_view db1) \<and> uuid_supply db1 \<le> uuid_supply db'"
      using r publish_record_jobs(3) [where db = db5]
      by (auto simp: db' quota_view_def publish_record_jobs intro: le_trans)
  qed
qed

lemma job_row_id: "pj_id (job_row H p d i) = i"
  by (simp add: job_row_def)

lemma life_job_row: "life (job_row H p d i) = new_life"
  by (simp add: life_def job_row_def new_life_def)

section \<open>Histories\<close>

inductive publish_step ::
  "'w saga_env \<Rightarrow> 'a publish_db_scheme \<times> 'w \<Rightarrow> 'a publish_db_scheme \<times> 'w \<Rightarrow> bool" for env :: "'w saga_env" where
  Create: "create_publish_job e p cid d key db = Inr (x, db') \<Longrightarrow> publish_step env (db, w) (db', w)"
| Update: "update_published_post e p pid u key db = Inr (x, db') \<Longrightarrow> publish_step env (db, w) (db', w)"
| Delete: "delete_published_post e p pid del key db = Inr (x, db') \<Longrightarrow> publish_step env (db, w) (db', w)"
| Reconcile: "reconcile_published_post e p pid n a key db = Inr (x, db') \<Longrightarrow> publish_step env (db, w) (db', w)"
| Rollback: "rollback_published_post e p pid b key db = Inr (x, db') \<Longrightarrow> publish_step env (db, w) (db', w)"
| Cancel: "cancel_publish_job t p i n reason db = Inr (job, db') \<Longrightarrow> publish_step env (db, w) (db', w)"
| Retry: "retry_publish_job t p i n reason db = Inr (job, db') \<Longrightarrow> publish_step env (db, w) (db', w)"
| Run: "run_publish_task (env\<lparr>ev_now := t\<rparr>) commits ws i (db, w) = (outcome, s) \<Longrightarrow> publish_step env (db, w) s"
| Elsewhere: "publish_jobs db' = publish_jobs db \<Longrightarrow> quota_usages db' = quota_usages db
    \<Longrightarrow> uuid_supply db \<le> uuid_supply db' \<Longrightarrow> publish_step env (db, w) (db', w)"

inductive publish_reachable :: "'w saga_env \<Rightarrow> 'a publish_db_scheme \<times> 'w \<Rightarrow> bool" for env :: "'w saga_env" where
  Start: "publish_jobs db = [] \<Longrightarrow> quota_usages db = [] \<Longrightarrow> publish_reachable env (db, w)"
| Step: "publish_reachable env s \<Longrightarrow> publish_step env s s' \<Longrightarrow> publish_reachable env s'"

section \<open>Identities\<close>

definition jobs_fresh :: "'a publish_db_scheme \<Rightarrow> bool" where
  "jobs_fresh db \<longleftrightarrow> distinct (map pj_id (publish_jobs db)) \<and> (\<forall>i \<in> set (map pj_id (publish_jobs db)). i < uuid_supply db)"

definition same_ids :: "uuid list \<Rightarrow> nat \<Rightarrow> ('a publish_db_scheme, 'w) run_state \<Rightarrow> bool" where
  "same_ids ids n s \<longleftrightarrow> map pj_id (publish_jobs (rn_db s)) = ids \<and> n \<le> uuid_supply (rn_db s)"

lemma update_publish_job_ids:
  "(\<And>j. pj_id (f j) = pj_id j) \<Longrightarrow> map pj_id (publish_jobs (update_publish_job i f db)) = map pj_id (publish_jobs db)"
  by (simp add: update_publish_job_def update_where_def)

lemma same_ids_keeps:
  shows "sg_keeps (same_ids ids n) (modify_db (update_quota i g))"
    "(\<And>j. pj_id (f j) = pj_id j) \<Longrightarrow> sg_keeps (same_ids ids n) (set_job job f)"
  by (auto intro!: sg_keepsI simp: same_ids_def modify_db_def update_quota_def set_job_def update_publish_job_ids)
    (simp_all add: update_publish_job_def)

lemma same_ids_quota:
  "sg_keeps (same_ids ids n) (complete_quota env job)" "sg_keeps (same_ids ids n) (release_quota env job reverse)"
  unfolding complete_quota_def release_quota_def job_usage_def the_job_def
  by (intro run_keeps same_ids_keeps; simp)+


interpretation same_ids: run_creates env r "same_ids ids n" for env :: "'w saga_env" and r ids n
  by unfold_locales
    (auto simp: quiet_change_def same_jobs_def same_ids_def calls_keep_def same_ids_quota [unfolded same_ids_def]
      dest: quota_view_ids intro: same_ids_quota)

interpretation same_ids: run_process env "same_ids ids n" db ws i for env :: "'w saga_env" and ids n db ws i
proof unfold_locales
  show set: "sg_keeps (same_ids ids n) (set_job job f)" if "\<And>j. quota_part (f j) = quota_part j" for f job
    by (rule same_ids_keeps(2)) (use that in \<open>simp add: quota_part_def request_of_def\<close>)
  show "sg_keeps (same_ids ids n) (cancel_job env r)" for r by (rule same_ids.keep_cancel_job [OF set])
  show "sg_valid (\<lambda>s. same_ids ids n s \<and> rn_base s = db) (run_operation env r) (\<lambda>_. same_ids ids n) (same_ids ids n)" for r
    by (rule sg_valid_pre [OF sg_valid_keeps [OF same_ids.keep_operation]]) simp
qed (simp_all add: calls_keep_def same_ids_def)

lemma run_publish_task_committed:
  "run_publish_task env commits ws i (db, w) = (outcome, (db', w')) \<Longrightarrow> db' = db \<or>
   (\<exists>x. run_publish_task env True ws i (db, w) = (Some x, (db', w')))"
  by (auto simp: run_publish_task_def split: prod.splits outcome.splits if_splits)

lemma run_publish_task_keeps:
  assumes "run_publish_task env commits ws i (db, w) = (outcome, (db', w'))"
  obtains "db' = db" | s where "rn_db s = db'" "rn_world s = w'"
    "process_publish_job env ws i \<lparr>rn_base = db, rn_db = db, rn_world = w\<rparr> = (Value (the outcome), s)"
  using assms by (auto simp: run_publish_task_def split: prod.splits outcome.splits if_splits)

lemma run_jobs_fresh:
  assumes "run_publish_task env commits ws i (db, w) = (outcome, (db', w'))" "jobs_fresh db"
  shows "jobs_fresh db'"
proof (cases rule: run_publish_task_keeps [OF assms(1)])
  case (2 s)
  let ?s = "\<lparr>rn_base = db, rn_db = db, rn_world = w\<rparr>"
  have "same_ids (map pj_id (publish_jobs db)) (uuid_supply db) ?s" by (simp add: same_ids_def)
  from same_ids.keep_process [OF this, of db env ws i] 2
  have "map pj_id (publish_jobs db') = map pj_id (publish_jobs db)" "uuid_supply db \<le> uuid_supply db'"
    by (auto simp: same_ids_def)
  with assms(2) show ?thesis unfolding jobs_fresh_def by (simp only:) (blast intro: less_le_trans)
qed (use assms in simp)

section \<open>Refinement\<close>

text \<open>One step of the abstract machine: nothing, a new life, or one step of one life.\<close>

definition lives_step :: "(uuid \<Rightarrow> job_life option) \<Rightarrow> (uuid \<Rightarrow> job_life option) \<Rightarrow> bool" where
  "lives_step M N \<longleftrightarrow> N = M \<or> (\<exists>i. M i = None \<and> N = M(i \<mapsto> new_life))
     \<or> (\<exists>i l l'. M i = Some l \<and> life_step l l' \<and> N = M(i \<mapsto> l'))"

lemma lives_append:
  assumes "pj_id job \<notin> set (map pj_id (publish_jobs db))"
  shows "lives (db\<lparr>publish_jobs := publish_jobs db @ [job]\<rparr>) = (lives db)(pj_id job \<mapsto> life job)"
proof -
  have "List.find (\<lambda>j. pj_id j = pj_id job) (publish_jobs db) = None"
    using assms by (simp add: find_None_iff) (metis imageI)
  then show ?thesis
    by (auto simp: lives_def fun_eq_iff find_append split: option.split)
qed

lemma lives_None: "lives db i = None \<longleftrightarrow> i \<notin> set (map pj_id (publish_jobs db))"
  by (auto simp: lives_def find_None_iff)

lemma request_step:
  assumes "request_outcome env p op key db x db'" "jobs_fresh db"
  shows "jobs_fresh db' \<and> lives_step (lives db) (lives db')"
  using assms(1) unfolding request_outcome_def
proof (elim disjE exE conjE)
  fix job assume "x = (job, False)" "db' = db"
  with assms(2) show ?thesis by (simp add: lives_step_def)
next
  fix d assume "insert_publish_job env p d db = Inr (x, db')"
  then obtain i where i: "uuid_supply db \<le> i" "i < uuid_supply db'"
    "map pj_id (publish_jobs db') = map pj_id (publish_jobs db) @ [i]"
    "lives db' = lives (db\<lparr>publish_jobs := publish_jobs db @ [job_row (ev_hash env) p d i]\<rparr>)"
    by (rule insert_publish_job_Inr)
  have fresh: "i \<notin> set (map pj_id (publish_jobs db))" using assms(2) i(1) by (auto simp: jobs_fresh_def)
  have "jobs_fresh db'"
    using assms(2) i fresh unfolding jobs_fresh_def by (auto intro: less_le_trans)
  moreover have "lives db' = (lives db)(i \<mapsto> new_life)"
    using lives_append [of "job_row (ev_hash env) p d i" db] fresh i(4) by (simp add: life_job_row job_row_id)
  moreover have "lives db i = None" using fresh by (simp only: lives_None not_False_eq_True)
  ultimately show ?thesis by (auto simp: lives_step_def)
qed

lemma find_publish_job_life:
  assumes "find_publish_job ws i db = Inr job" "distinct (map pj_id (publish_jobs db))"
  shows "pj_id job = i" "lives db i = Some (life job)"
proof -
  have job: "job \<in> set (publish_jobs db)" "pj_id job = i" using assms(1) by (auto simp: find_publish_job_def dest: find_row_Inr)
  show "pj_id job = i" by (rule job(2))
  from job have "List.find (\<lambda>j. pj_id j = i) (publish_jobs db) = Some job"
    using assms(2) by (auto simp: find_Some_iff in_set_conv_nth distinct_conv_nth)
  then show "lives db i = Some (life job)" by (simp add: lives_def)
qed

lemma job_update_step:
  assumes "jobs_fresh db" "lives db i = Some l" "life_step l (g l)"
    "repo_flush resource db (update_publish_job i f db) = Inr db1"
    "\<And>j. pj_id (f j) = pj_id j" "\<And>j. life (f j) = g (life j)"
    "publish_jobs db' = publish_jobs db1" "uuid_supply db1 \<le> uuid_supply db'"
  shows "jobs_fresh db' \<and> lives_step (lives db) (lives db')"
proof -
  note f = flush_jobs [OF assms(4)]
  have "lives db' = (lives db)(i \<mapsto> g l)"
    using f(3) lives_cong [OF assms(7)] lives_update [of f g i db, OF assms(5,6)] assms(2) by simp
  moreover have "map pj_id (publish_jobs db') = map pj_id (publish_jobs db)" "uuid_supply db \<le> uuid_supply db'"
    using f assms(5,7,8) by (simp_all add: update_publish_job_ids) (simp add: update_publish_job_def)
  ultimately show ?thesis
    using assms(1-3) unfolding jobs_fresh_def lives_step_def by (simp only:) (blast intro: less_le_trans)
qed

lemma cancel_step:
  assumes "cancel_publish_job t p i n reason db = Inr (job, db')" "jobs_fresh db"
  shows "jobs_fresh db' \<and> lives_step (lives db) (lives db')"
proof -
  from assms(1) obtain j db1 job1 ds where j: "find_publish_job (workspace_id p) i db = Inr j"
    and ok: "cancellable (workspace_id p) j db = Inr True"
    and f: "repo_flush ''publish_job'' db (update_publish_job i (\<lambda>j. j\<lparr>pj_state := JobState.CANCEL_REQUESTED,
       pj_cancel_requested_at := Some t, pj_result_json := Some [(''cancellation_reason'', JStr reason)]\<rparr>) db) = Inr db1"
    and db': "db' = publish_record p t ''publishing.job.cancel_requested'' ''publish_job'' i ds db1"
    by (auto simp: cancel_publish_job_def bind_result_eq_Inr split: if_splits)
  have "lf_state (life j) \<in> {JobState.SCHEDULED, JobState.RETRYABLE_FAILED, JobState.SUCCEEDED}"
    using ok by (auto simp: cancellable_def life_def split: option.splits if_splits prod.splits bool.splits)
  then have st: "life_step (life j) ((life j)\<lparr>lf_state := JobState.CANCEL_REQUESTED, lf_asked := True\<rparr>)" by (rule life_step.Ask)
  have pl: "lives db i = Some (life j)" using find_publish_job_life [OF j] assms(2) by (simp add: jobs_fresh_def)
  show ?thesis
    by (rule job_update_step [where g = "\<lambda>l. l\<lparr>lf_state := JobState.CANCEL_REQUESTED, lf_asked := True\<rparr>", OF assms(2) pl st f])
      (simp_all add: life_def db' publish_record_jobs)
qed

lemma retry_step:
  assumes "retry_publish_job t p i n reason db = Inr (job, db')" "jobs_fresh db"
  shows "jobs_fresh db' \<and> lives_step (lives db) (lives db')"
proof -
  from assms(1) obtain j db1 job1 ds where j: "find_publish_job (workspace_id p) i db = Inr j"
    and ok: "pj_state j \<in> {JobState.PARTIAL, JobState.RETRYABLE_FAILED}" "pj_attempt j < pj_max_attempts j"
    and f: "repo_flush ''publish_job'' db (update_publish_job i (\<lambda>j. j\<lparr>pj_state := JobState.SCHEDULED,
         pj_finished_at := None, pj_retry_after_seconds := None, pj_error_code := None,
         pj_result_json := Some [(''retry_reason'', JStr reason)]\<rparr>) db) = Inr db1"
    and db': "db' = publish_record p t ''publishing.job.retry_scheduled'' ''publish_job'' i ds db1"
    by (auto simp: retry_publish_job_def bind_result_eq_Inr split: if_splits)
  have st: "life_step (life j) ((life j)\<lparr>lf_state := JobState.SCHEDULED\<rparr>)"
    by (rule life_step.Retry) (use ok in \<open>simp_all add: life_def\<close>)
  have pl: "lives db i = Some (life j)" using find_publish_job_life [OF j] assms(2) by (simp add: jobs_fresh_def)
  show ?thesis
    by (rule job_update_step [where g = "\<lambda>l. l\<lparr>lf_state := JobState.SCHEDULED\<rparr>", OF assms(2) pl st f])
      (simp_all add: life_def db' publish_record_jobs)
qed

lemma run_step:
  assumes "run_publish_task env commits ws i (db, w) = (outcome, (db', w'))" "jobs_fresh db"
  shows "jobs_fresh db' \<and> lives_step (lives db) (lives db')"
proof -
  have "lives_step (lives db) (lives db')"
    using run_publish_task_committed [OF assms(1)]
  proof (elim disjE exE)
    fix x assume "run_publish_task env True ws i (db, w) = (Some x, (db', w'))"
    moreover have "distinct (map pj_id (publish_jobs db))" using assms(2) by (simp add: jobs_fresh_def)
    ultimately obtain l l' where "lives db i = Some l" "run_life l l'" "lives db' = (lives db)(i \<mapsto> l')"
      by (rule run_publish_task_life)
    then show ?thesis unfolding lives_step_def by (blast intro: life_step.Run)
  qed (simp add: lives_step_def)
  with run_jobs_fresh [OF assms] show ?thesis by simp
qed

lemma publish_step_refines:
  assumes "publish_step env s s'" "jobs_fresh (fst s)"
  shows "jobs_fresh (fst s') \<and> lives_step (lives (fst s)) (lives (fst s'))"
  using assms
proof (induction rule: publish_step.induct)
  case (Run t commits ws i db w outcome s)
  then show ?case by (cases s) (auto dest: run_step)
next
  case (Elsewhere db' db w)
  then have "jobs_fresh db'" by (auto simp: jobs_fresh_def intro: less_le_trans)
  with Elsewhere show ?case by (simp add: lives_cong [of db' db] lives_step_def)
qed (auto dest: create_publish_job_outcome update_published_post_outcome delete_published_post_outcome
    reconcile_published_post_outcome rollback_published_post_outcome request_step cancel_step retry_step)

lemma publish_reachable_fresh: "publish_reachable env s \<Longrightarrow> jobs_fresh (fst s)"
  by (induction rule: publish_reachable.induct) (auto simp: jobs_fresh_def publish_step_refines dest: publish_step_refines)

end
