(* ===== verification/Publish_Tasks.thy ===== *)
theory Publish_Tasks
  imports Publish_Process
begin

text \<open>
  The background tasks of publishing, \<^verbatim>\<open>domain/publishing/tasks.py\<close>: the delivery of a job with its retries, the
  monitors that queue diagnoses and reconciliations, and the emission of due notifications. A monitor is one
  transaction: an error of the service it calls rolls everything back.
\<close>

section \<open>Delivering a job\<close>

text \<open>Celery runs the task once and retries it at most three times, after an exception or when the job is left
  for a retry. A moment is the time of a delivery and whether its transaction commits.\<close>

definition max_retries :: nat where
  "max_retries = 3"

fun deliver ::
  "'w saga_env \<Rightarrow> uuid \<Rightarrow> uuid \<Rightarrow> (time \<times> bool) list \<Rightarrow> 'a publish_db_scheme \<times> 'w
   \<Rightarrow> run_result option list \<times> ('a publish_db_scheme \<times> 'w)" where
  "deliver env ws job_id [] s = ([], s)"
| "deliver env ws job_id ((now, commits) # moments) s =
     (case run_publish_task (env\<lparr>ev_now := now\<rparr>) commits ws job_id s of
        (Some (state, retry_after), s) \<Rightarrow>
          if state = JobState.RETRYABLE_FAILED
          then (let (rs, s) = deliver env ws job_id moments s in (Some (state, retry_after) # rs, s))
          else ([Some (state, retry_after)], s)
      | (None, s) \<Rightarrow> (let (rs, s) = deliver env ws job_id moments s in (None # rs, s)))"

definition process_publish_job_task ::
  "'w saga_env \<Rightarrow> uuid \<Rightarrow> uuid \<Rightarrow> (time \<times> bool) list \<Rightarrow> 'a publish_db_scheme \<times> 'w
   \<Rightarrow> run_result option list \<times> ('a publish_db_scheme \<times> 'w)" where
  "process_publish_job_task env ws job_id moments s = deliver env ws job_id (take (Suc max_retries) moments) s"

section \<open>Monitors\<close>

definition monitor_principal :: "string \<Rightarrow> uuid \<Rightarrow> uuid \<Rightarrow> principal" where
  "monitor_principal method subject ws =
     \<lparr>subject_id = subject, workspace_id = ws, session_id = None, permissions = [],
      authentication_method = method, kind = PrincipalKind.UNKNOWN, mfa_verified_at = None\<rparr>"

text \<open>The date of a day since the epoch in the Gregorian calendar, and \<open>strftime("%Y%m%d%H%M")\<close>.\<close>

definition civil_of_days :: "int \<Rightarrow> int \<times> int \<times> int" where
  "civil_of_days n =
     (let z = n + 719468; era = z div 146097; doe = z mod 146097;
          yoe = (doe - doe div 1460 + doe div 36524 - doe div 146096) div 365;
          doy = doe - (365 * yoe + yoe div 4 - yoe div 100); mp = (5 * doy + 2) div 153;
          month = (if mp < 10 then mp + 3 else mp - 9)
      in (yoe + era * 400 + (if month \<le> 2 then 1 else 0), month, doy - (153 * mp + 2) div 5 + 1))"

definition minute_bucket :: "time \<Rightarrow> string" where
  "minute_bucket now =
     (let (year, month, day) = civil_of_days (date_of now); minute = (now div 60000000) mod 1440
      in nat_str (nat year) @ zero_pad 2 (nat month) @ zero_pad 2 (nat day)
         @ zero_pad 2 (nat (minute div 60)) @ zero_pad 2 (nat (minute mod 60)))"

definition nulls_first :: "time option \<Rightarrow> int \<times> time" where
  "nulls_first t = (case t of None \<Rightarrow> (0, 0) | Some t \<Rightarrow> (1, t))"

definition stale :: "time \<Rightarrow> time option \<Rightarrow> bool" where
  "stale cutoff t \<longleftrightarrow> (case t of None \<Rightarrow> True | Some t \<Rightarrow> t \<le> cutoff)"

definition monitored_connections ::
  "uuid \<Rightarrow> time \<Rightarrow> nat \<Rightarrow> 'a publish_db_scheme \<Rightarrow> publishing_connection list" where
  "monitored_connections ws cutoff limit db =
     take limit (sort_key (\<lambda>c. (nulls_first (pc_last_diagnosed_at c), pc_id c))
       (filter (\<lambda>c. pc_workspace_id c = ws
          \<and> pc_state c \<in> {ConnectionState.ACTIVE, ConnectionState.DEGRADED, ConnectionState.EXPIRED}
          \<and> stale cutoff (pc_last_diagnosed_at c)) (connections db)))"

definition has_active_diagnosis :: "uuid \<Rightarrow> uuid \<Rightarrow> 'a publish_db_scheme \<Rightarrow> bool" where
  "has_active_diagnosis ws connection_id db \<longleftrightarrow> list_ex (\<lambda>j. cn_workspace_id j = ws \<and> cn_connection_id j = connection_id
     \<and> cn_state j \<in> {JobState.QUEUED, JobState.VALIDATING, JobState.RETRYABLE_FAILED}) (connection_jobs db)"

fun queue_diagnoses ::
  "publish_env \<Rightarrow> uuid \<Rightarrow> publishing_connection list \<Rightarrow> 'a publish_db_scheme
   \<Rightarrow> (uuid list \<times> 'a publish_db_scheme) result" where
  "queue_diagnoses env ws [] db = Inr ([], db)"
| "queue_diagnoses env ws (c # cs) db =
     (if has_active_diagnosis ws (pc_id c) db then queue_diagnoses env ws cs db
      else bind_result (create_connection_job env (monitor_principal ''worker-monitor'' (pc_created_by c) ws) (pc_id c)
             ConnectionOperation.DIAGNOSE (pc_lock_version c)
             (''monitor:'' @ uuid_str (pc_id c) @ '':'' @ minute_bucket (ev_now env)) db) (\<lambda>((job, created), db).
           bind_result (queue_diagnoses env ws cs db) (\<lambda>(queued, db).
           Inr (if created then cn_id job # queued else queued, db))))"

definition schedule_connection_monitors ::
  "publish_env \<Rightarrow> uuid \<Rightarrow> int \<Rightarrow> nat \<Rightarrow> 'a publish_db_scheme \<Rightarrow> (uuid list \<times> 'a publish_db_scheme) result" where
  "schedule_connection_monitors env ws stale_minutes limit db =
     queue_diagnoses env ws (monitored_connections ws (ev_now env - seconds (60 * stale_minutes)) limit db) db"

text \<open>A post with the requester of the job that created it; posts of no job are not reconciled.\<close>

definition reconcilable_posts ::
  "uuid \<Rightarrow> time \<Rightarrow> nat \<Rightarrow> 'a publish_db_scheme \<Rightarrow> (published_post \<times> uuid) list" where
  "reconcilable_posts ws cutoff limit db =
     take limit (sort_key (\<lambda>(p, _). (nulls_first (pt_last_reconciled_at p), pt_id p))
       (concat (map (\<lambda>p. map (\<lambda>j. (p, pj_requested_by j))
            (filter (\<lambda>j. pj_workspace_id j = pt_workspace_id p \<and> Some (pj_id j) = pt_created_by_job_id p) (publish_jobs db)))
          (filter (\<lambda>p. pt_workspace_id p = ws \<and> pt_connection_id p \<noteq> None
             \<and> pt_state p \<notin> {PublishedPostState.DELETED, PublishedPostState.TRASHED}
             \<and> stale cutoff (pt_last_reconciled_at p)) (published_posts db)))))"

definition has_active_reconciliation :: "uuid \<Rightarrow> uuid \<Rightarrow> 'a publish_db_scheme \<Rightarrow> bool" where
  "has_active_reconciliation ws post_id db \<longleftrightarrow> list_ex (\<lambda>j. pj_workspace_id j = ws
     \<and> pj_target_published_post_id j = Some post_id \<and> pj_operation j = PublishOperation.RECONCILE
     \<and> pj_state j \<in> {JobState.SCHEDULED, JobState.PUBLISHING, JobState.RETRYABLE_FAILED}) (publish_jobs db)"

fun queue_reconciliations ::
  "publish_env \<Rightarrow> uuid \<Rightarrow> (published_post \<times> uuid) list \<Rightarrow> 'a publish_db_scheme
   \<Rightarrow> (uuid list \<times> 'a publish_db_scheme) result" where
  "queue_reconciliations env ws [] db = Inr ([], db)"
| "queue_reconciliations env ws ((p, requested_by) # ps) db =
     (if has_active_reconciliation ws (pt_id p) db then queue_reconciliations env ws ps db
      else bind_result (reconcile_published_post env (monitor_principal ''worker-reconcile'' requested_by ws) (pt_id p)
             (pt_lock_version p) ConflictAction.ABORT
             (''reconcile:'' @ uuid_str (pt_id p) @ '':'' @ minute_bucket (ev_now env)) db) (\<lambda>((job, created), db).
           bind_result (queue_reconciliations env ws ps db) (\<lambda>(queued, db).
           Inr (if created then pj_id job # queued else queued, db))))"

definition schedule_reconciliations ::
  "publish_env \<Rightarrow> uuid \<Rightarrow> int \<Rightarrow> nat \<Rightarrow> 'a publish_db_scheme \<Rightarrow> (uuid list \<times> 'a publish_db_scheme) result" where
  "schedule_reconciliations env ws stale_minutes limit db =
     queue_reconciliations env ws (reconcilable_posts ws (ev_now env - seconds (60 * stale_minutes)) limit db) db"

section \<open>Notifications\<close>

definition due_notifications ::
  "uuid \<Rightarrow> time \<Rightarrow> nat \<Rightarrow> 'a publish_db_scheme \<Rightarrow> publishing_notification list" where
  "due_notifications ws now limit db =
     take limit (sort_key pn_due_at (filter (\<lambda>n. pn_workspace_id n = ws \<and> pn_due_at n \<le> now \<and> pn_delivered_at n = None)
       (publishing_notifications db)))"

definition emit_notification :: "time \<Rightarrow> uuid \<Rightarrow> publishing_notification \<Rightarrow> 'a publish_db_scheme \<Rightarrow> 'a publish_db_scheme" where
  "emit_notification now ws n db =
     (let db = add_outbox_event (Some ws) ''publishing_notification'' (uuid_str (pn_id n)) ''publishing.notification.due''
            ''1'' (JDict (merge_dict [(''workspace_id'', JStr (uuid_str ws)),
              (''recipient_id'', JStr (uuid_str (pn_recipient_id n))),
              (''notification_type'', JStr (pn_notification_type n))] (pn_payload_json n))) now db
      in db\<lparr>publishing_notifications := update_where (\<lambda>m. pn_id m = pn_id n) (\<lambda>m. m\<lparr>pn_delivered_at := Some now\<rparr>)
            (publishing_notifications db)\<rparr>)"

definition emit_due_notifications :: "time \<Rightarrow> uuid \<Rightarrow> nat \<Rightarrow> 'a publish_db_scheme \<Rightarrow> nat \<times> 'a publish_db_scheme" where
  "emit_due_notifications now ws limit db =
     (let due = due_notifications ws now limit db
      in (length due, foldl (\<lambda>db n. emit_notification now ws n db) db due))"

end
