(* ===== verification/Publish_Delivery.thy ===== *)
theory Publish_Delivery
  imports Publish_Reach Publish_Tasks
begin

text \<open>
  What a delivery reports is the state it leaves the job in; the abstract life cycle bounds the attempts of a job
  nobody asked to cancel, and so the deliveries until it is settled.
\<close>

section \<open>The reported state\<close>

definition reports :: "uuid \<Rightarrow> run_result \<Rightarrow> 'a publish_db_scheme \<Rightarrow> bool" where
  "reports i x db \<longleftrightarrow> map_option lf_state (lives db i) = Some (fst x)"

lemma keep_then:
  "sg_keeps P m \<Longrightarrow> (\<And>x. sg_valid P (f x) Q P) \<Longrightarrow> sg_valid P (sg_bind m f) Q P"
  by (rule sg_valid_keep_then)

lemma final_report:
  assumes "pj_id job \<in> set ids"
  shows "sg_valid (same_ids ids n) (sg_bind (the_job job) (\<lambda>j. sg_return (pj_state j, g j)))
    (\<lambda>x s. reports (pj_id job) x (rn_db s)) (same_ids ids n)"
proof -
  have "reports (pj_id job) (pj_state j, k) (rn_db s)"
    if "same_ids ids n s" "j = current pj_id (publish_jobs (rn_db s)) job" for s :: "('a publish_db_scheme, 'b) run_state" and j k
  proof -
    have "lives (rn_db s) (pj_id job) \<noteq> None"
      using that(1) assms by (simp only: lives_None same_ids_def) simp
    then show ?thesis
      using that(2) by (auto simp: reports_def lives_def current_def life_def split: option.splits)
  qed
  then show ?thesis
    by (auto simp: sg_valid_def sg_bind_def the_job_def sg_gets_def sg_return_def)
qed

lemma final_job_result:
  "pj_id job \<in> set ids \<Longrightarrow> sg_valid (same_ids ids n) (job_result_of job)
    (\<lambda>x s. reports (pj_id job) x (rn_db s)) (same_ids ids n)"
  unfolding job_result_of_def by (rule final_report)

lemma run_reports:
  assumes "pj_id (pu_job r) \<in> set ids"
  shows "sg_valid (same_ids ids n) (publish_run env r) (\<lambda>x s. reports (pj_id (pu_job r)) x (rn_db s)) (same_ids ids n)"
    "sg_valid (same_ids ids n) (cancel_run env r) (\<lambda>x s. reports (pj_id (pu_job r)) x (rn_db s)) (same_ids ids n)"
proof -
  have ef: "sg_keeps (same_ids ids n) (end_failed env job e fin a b)" if "sg_keeps (same_ids ids n) fin" for job e fin a b
    by (rule same_ids.keep_end_failed [OF that])
  show "sg_valid (same_ids ids n) (publish_run env r) (\<lambda>x s. reports (pj_id (pu_job r)) x (rn_db s)) (same_ids ids n)"
    unfolding publish_run_def
    by (intro keep_then final_job_result assms run_keeps same_ids.keep_operation ef same_ids_keeps(2)) simp
  have c: "sg_valid (same_ids ids n) (cancel_job env r) (\<lambda>x s. reports (pj_id (pu_job r)) x (rn_db s)) (same_ids ids n)"
    unfolding cancel_job_def
    apply (intro keep_then final_report assms run_keeps ef same_ids_keeps(2))
    subgoal for j x by (cases x) (simp, intro keep_then final_report assms run_keeps)
    done
  show "sg_valid (same_ids ids n) (cancel_run env r) (\<lambda>x s. reports (pj_id (pu_job r)) x (rn_db s)) (same_ids ids n)"
    unfolding cancel_run_def
    by (intro keep_then sg_valid_catch [OF c] final_job_result assms run_keeps ef same_ids_keeps(2)) simp_all
qed


lemma start_run_reports:
  fixes env :: "'w saga_env"
  assumes "pj_id job \<in> set ids"
  shows "sg_valid (same_ids ids n :: ('a publish_db_scheme, 'w) run_state \<Rightarrow> bool) (start_run env job c policy) (\<lambda>x s. reports (pj_id job) x (rn_db s)) (same_ids ids n)"
  unfolding start_run_def
proof (rule sg_valid_bind [where R = "\<lambda>a s. case a of Inl x \<Rightarrow> reports (pj_id job) x (rn_db s) | Inr _ \<Rightarrow> same_ids ids n s"],
    goal_cases)
  case 1
  have a: "sg_keeps (same_ids ids n) (acquire_provider env c)"
  proof -
    have "calls_keep (same_ids ids n) (sg_resolve_secret env ref)" for ref by (simp add: calls_keep_def same_ids_def)
    then show ?thesis unfolding acquire_provider_def by (intro run_keeps)
  qed
  have f: "sg_valid (same_ids ids n) (end_final env job code) (\<lambda>x s. reports (pj_id job) x (rn_db s)) (same_ids ids n)" for code
    unfolding end_final_def by (intro keep_then final_report assms run_keeps)
  show ?case
  proof (rule sg_valid_try [where R = "same_ids ids n"], goal_cases)
    case 1
    show ?case by (rule keep_then [OF a]) (simp add: sg_valid_return)
  next
    case (4 code)
    show ?case by (rule sg_valid_bind [OF f]) (simp add: sg_valid_return)
  qed (simp_all add: sg_valid_def sg_fail_def)
next
  case (2 a)
  show ?case
  proof (cases a)
    case (Inr x)
    obtain cms secret where x: "x = (cms, secret)" by (cases x)
    let ?r = "\<lparr>pu_cms = cms, pu_context = context_of c, pu_secret = secret, pu_job = job, pu_connection = c, pu_policy = policy\<rparr>"
    have "sg_valid (same_ids ids n :: ('a publish_db_scheme, 'w) run_state \<Rightarrow> bool) (publish_run env ?r) (\<lambda>x s. reports (pj_id job) x (rn_db s)) (same_ids ids n)"
      "sg_valid (same_ids ids n :: ('a publish_db_scheme, 'w) run_state \<Rightarrow> bool) (cancel_run env ?r) (\<lambda>x s. reports (pj_id job) x (rn_db s)) (same_ids ids n)"
      using run_reports [of ?r ids n env] assms by simp_all
    then show ?thesis by (simp add: Inr x Let_def)
  qed (simp add: sg_valid_return)
qed

lemma process_reports:
  assumes "find_publish_job ws i db = Inr job" "distinct (map pj_id (publish_jobs db))"
    and "process_publish_job env ws i \<lparr>rn_base = db, rn_db = db, rn_world = w\<rparr> = (Value x, s)"
  shows "reports i x (rn_db s)"
proof -
  let ?ids = "map pj_id (publish_jobs db)" and ?n = "uuid_supply db" and ?s = "\<lparr>rn_base = db, rn_db = db, rn_world = w\<rparr>"
  note job = find_publish_job_life [OF assms(1,2)]
  have i: "pj_id job \<in> set ?ids" using assms(1) by (auto simp: find_publish_job_def dest!: find_row_Inr)
  have start: "same_ids ?ids ?n ?s" by (simp add: same_ids_def)
  have f: "sg_valid (same_ids ?ids ?n) (end_final env job code) (\<lambda>x s. reports (pj_id job) x (rn_db s)) (same_ids ?ids ?n)" for code
    unfolding end_final_def by (intro keep_then final_report i run_keeps)
  have l: "sg_valid (same_ids ?ids ?n) (cancel_local_job env job) (\<lambda>x s. reports (pj_id job) x (rn_db s)) (same_ids ?ids ?n)"
    unfolding cancel_local_job_def by (intro keep_then final_report i run_keeps)
  show ?thesis
  proof (cases "settled job")
    case True
    then have "x = (pj_state job, pj_retry_after_seconds job)" "s = ?s"
      using assms(1,3) by (simp_all add: process_publish_job_def sg_bind_def sg_lift_def sg_return_def)
    then show ?thesis using job by (simp add: reports_def life_def)
  next
    case False
    let ?rest = "if pj_cancel_requested_at job \<noteq> None \<and> pj_state job = JobState.CANCEL_REQUESTED \<and> pj_started_at job = None
     then sg_then (set_job job (\<lambda>j. j\<lparr>pj_attempt := pj_attempt j + 1\<rparr>)) (cancel_local_job env job)
     else sg_bind (\<lambda>s. sg_lift (find_connection ws (pj_connection_id job) (rn_base s)) s) (\<lambda>c.
     sg_bind (\<lambda>s. sg_lift (find_policy ws (pj_policy_id job) (rn_base s)) s) (\<lambda>policy.
     if \<not> snapshots_valid env job policy then end_final env job ''PUBLISH_JOB_SNAPSHOT_MISMATCH''
     else start_run env job c policy))"
    have "sg_valid (same_ids ?ids ?n) ?rest (\<lambda>x s. reports (pj_id job) x (rn_db s)) (same_ids ?ids ?n)"
      by (intro sg_valid_if keep_then f l start_run_reports i run_keeps)
    moreover have "?rest ?s = (Value x, s)"
      using assms(1,3) False by (simp add: process_publish_job_def sg_bind_def sg_lift_def)
    ultimately show ?thesis using start job(1) by (auto simp: sg_valid_def)
  qed
qed

lemma run_publish_task_reports:
  assumes "run_publish_task env commits ws i (db, w) = (Some x, (db', w'))" "distinct (map pj_id (publish_jobs db))"
  shows "reports i x db'"
proof -
  obtain s where p: "process_publish_job env ws i \<lparr>rn_base = db, rn_db = db, rn_world = w\<rparr> = (Value x, s)" "rn_db s = db'"
    using assms(1) by (auto simp: run_publish_task_def split: prod.splits outcome.splits if_splits)
  then obtain job where "find_publish_job ws i db = Inr job"
    by (auto simp: process_publish_job_def sg_bind_def sg_lift_def split: sum.splits)
  from process_reports [OF this assms(2) p(1)] p(2) show ?thesis by simp
qed

section \<open>Bounded attempts\<close>

definition life_ok :: "job_life \<Rightarrow> bool" where
  "life_ok l \<longleftrightarrow> lf_max_attempts l = 3 \<and> 0 \<le> lf_attempt l
     \<and> lf_state l \<in> {JobState.SCHEDULED, JobState.SUCCEEDED, JobState.PARTIAL, JobState.RETRYABLE_FAILED,
         JobState.FINAL_FAILED, JobState.CANCEL_REQUESTED, JobState.CANCELLED}
     \<and> (lf_state l \<in> {JobState.CANCEL_REQUESTED, JobState.CANCELLED} \<longrightarrow> lf_asked l)
     \<and> (lf_state l = JobState.RETRYABLE_FAILED \<longrightarrow> lf_attempt l < 3)
     \<and> (\<not> lf_asked l \<longrightarrow> lf_attempt l \<le> 3 \<and> (lf_state l = JobState.SCHEDULED \<longrightarrow> lf_attempt l < 3))"

lemma unasked_waits: "life_ok l \<Longrightarrow> \<not> lf_asked l \<Longrightarrow> \<not> life_settled l \<Longrightarrow> lf_attempt l < 3"
  by (auto simp: life_ok_def life_settled_def)

lemma attempt_end_ok:
  assumes "attempt_end good l l'" "life_ok l" "\<not> lf_asked l \<Longrightarrow> lf_attempt l \<le> 3"
    and "good \<subseteq> {JobState.SUCCEEDED, JobState.PARTIAL} \<or> good = {JobState.CANCELLED} \<and> lf_asked l"
  shows "life_ok l'"
proof -
  obtain st where l': "l' = l\<lparr>lf_state := st\<rparr>"
    and st: "st \<in> good \<or> st = JobState.FINAL_FAILED \<or> st = JobState.RETRYABLE_FAILED \<and> lf_attempt l < lf_max_attempts l"
    using assms(1) by (auto simp: attempt_end_def)
  have "st \<in> {JobState.SUCCEEDED, JobState.PARTIAL, JobState.FINAL_FAILED} \<or> st = JobState.CANCELLED \<and> lf_asked l
      \<or> st = JobState.RETRYABLE_FAILED \<and> lf_attempt l < lf_max_attempts l"
    using st assms(4) by auto
  then show ?thesis using assms(2,3) by (elim disjE) (auto simp: l' life_ok_def)
qed

lemma next_attempt_ok:
  assumes "life_ok l" "\<not> lf_asked l \<Longrightarrow> \<not> life_settled l" "attempt_end good (next_attempt l) l'"
    and "good \<subseteq> {JobState.SUCCEEDED, JobState.PARTIAL} \<or> good = {JobState.CANCELLED} \<and> lf_asked l"
  shows "life_ok l'"
proof -
  let ?l = "(next_attempt l)\<lparr>lf_state := JobState.SUCCEEDED\<rparr>"
  have n: "lf_attempt l \<le> 2" if "\<not> lf_asked l" using unasked_waits [OF assms(1) that assms(2) [OF that]] by simp
  have "attempt_end good ?l l'" using assms(3) by (simp add: attempt_end_state)
  moreover have "life_ok ?l" using assms(1) n by (auto simp: life_ok_def next_attempt_def)
  ultimately show ?thesis
    by (rule attempt_end_ok) (use assms(4) n in \<open>auto simp: next_attempt_def\<close>)
qed

lemma run_life_ok:
  assumes "run_life l l'" "life_ok l"
  shows "life_ok l'"
proof (cases "life_settled l")
  case False
  then consider "l' = l\<lparr>lf_state := JobState.FINAL_FAILED\<rparr>"
    | "attempt_end (if withdrawing l then {JobState.CANCELLED} else {JobState.SUCCEEDED, JobState.PARTIAL}) (next_attempt l) l'"
    using assms(1) by (auto simp: run_life_def)
  then show ?thesis
  proof cases
    case 1
    with assms(2) show ?thesis by (auto simp: life_ok_def)
  next
    case 2
    then show ?thesis
      by (rule next_attempt_ok [OF assms(2) _, rotated]) (use False in \<open>auto simp: withdrawing_def\<close>)
  qed
qed (use assms in \<open>simp add: run_life_def\<close>)

lemma new_life_ok: "life_ok new_life"
  by (simp add: life_ok_def new_life_def)

lemma life_step_ok: "life_step l l' \<Longrightarrow> life_ok l \<Longrightarrow> life_ok l'"
proof (induction rule: life_step.induct)
  case (Ask l)
  then show ?case by (simp add: life_ok_def)
next
  case (Retry l)
  then show ?case by (simp add: life_ok_def)
qed (rule run_life_ok)

lemma lives_step_ok:
  assumes "lives_step M N" "\<And>i l. M i = Some l \<Longrightarrow> life_ok l" "N i = Some l"
  shows "life_ok l"
  using assms(1) unfolding lives_step_def
proof (elim disjE exE conjE)
  fix k l1 l' assume "M k = Some l1" "life_step l1 l'" "N = M(k \<mapsto> l')"
  then show ?thesis using assms(2,3) life_step_ok by (auto split: if_splits)
qed (use assms(2,3) new_life_ok in \<open>auto split: if_splits\<close>)

lemma reachable_life_ok: "publish_reachable env s \<Longrightarrow> lives (fst s) i = Some l \<Longrightarrow> life_ok l"
proof (induction arbitrary: i l rule: publish_reachable.induct)
  case (Step s s')
  have "lives_step (lives (fst s)) (lives (fst s'))"
    using publish_step_refines [OF Step.hyps(2) publish_reachable_fresh [OF Step.hyps(1)]] by simp
  from lives_step_ok [OF this] Step.IH Step.prems show ?case by blast
qed (simp add: lives_def)


section \<open>Deliveries end\<close>

lemma run_publish_task_commits: "run_publish_task env commits ws i (db, w) = (Some x, s) \<Longrightarrow> commits"
  by (auto simp: run_publish_task_def split: prod.splits outcome.splits if_splits)

lemma settled_run:
  assumes "find_publish_job ws i db = Inr job" "settled job"
  shows "run_publish_task env commits ws i (db, w) =
    (if commits then Some (pj_state job, pj_retry_after_seconds job) else None, (db, w))"
  using assms by (simp add: run_publish_task_def process_publish_job_def sg_bind_def sg_lift_def sg_return_def)

lemma run_life_unasked:
  assumes "run_life l l'" "life_ok l" "\<not> lf_asked l"
  shows "\<not> lf_asked l'" "life_settled l' \<or> lf_state l' = JobState.RETRYABLE_FAILED \<and> lf_attempt l' = lf_attempt l + 1"
  using assms by (auto simp: run_life_def attempt_end_def next_attempt_def life_settled_def withdrawing_def split: if_splits)

lemma settled_not_retryable: "life_settled l \<Longrightarrow> lf_state l \<noteq> JobState.RETRYABLE_FAILED"
  by (auto simp: life_settled_def)

text \<open>The deliveries \<open>rs\<close> left the job settled: the last one reported the state it is in.\<close>

definition left_settled :: "uuid \<Rightarrow> run_result option list \<Rightarrow> 'a publish_db_scheme \<Rightarrow> bool" where
  "left_settled i rs db \<longleftrightarrow> (\<exists>l x. lives db i = Some l \<and> life_settled l \<and> rs \<noteq> [] \<and> last rs = Some x
     \<and> fst x = lf_state l)"

definition committed :: "run_result option list \<Rightarrow> nat" where
  "committed rs = length (filter (\<lambda>r. r \<noteq> None) rs)"

lemma left_settled_Cons: "left_settled i rs db \<Longrightarrow> left_settled i (r # rs) db"
  by (auto simp: left_settled_def)

lemma run_publish_task_lost: "run_publish_task env commits ws i (db, w) = (None, s) \<Longrightarrow> fst s = db"
  by (auto simp: run_publish_task_def split: prod.splits outcome.splits if_splits)

text \<open>A delivery that commits settles the job or uses up an attempt; one that is rolled back does neither.\<close>

lemma deliver_settles:
  assumes "publish_reachable env s" "lives (fst s) i = Some l" "\<not> lf_asked l"
    and "deliver env ws i moments s = (rs, s')"
  shows "length rs \<le> length moments \<and> committed rs \<le> max 1 (nat (3 - lf_attempt l))
    \<and> (left_settled i rs (fst s')
       \<or> length rs = length moments \<and> (committed rs = 0 \<or> lf_attempt l + int (committed rs) < 3))"
  using assms
proof (induction moments arbitrary: s l rs)
  case (Cons m ms)
  obtain now commits where m: "m = (now, commits)" by (cases m)
  obtain db w where s: "s = (db, w)" by (cases s)
  obtain r s1 where run: "run_publish_task (env\<lparr>ev_now := now\<rparr>) commits ws i (db, w) = (r, s1)"
    by (rule that [OF prod.collapse [symmetric]])
  obtain db1 w1 where s1: "s1 = (db1, w1)" by (cases s1)
  have reach: "publish_reachable env s1"
    using publish_reachable.Step [OF Cons.prems(1)] publish_step.Run [OF run] by (simp add: s)
  show ?case
  proof (cases r)
    case None
    obtain rs1 where rs1: "deliver env ws i ms s1 = (rs1, s')" "rs = None # rs1"
      using Cons.prems(4) by (auto simp: m s run None split: prod.splits)
    have "lives (fst s1) i = Some l"
      using run_publish_task_lost [OF run [unfolded None]] Cons.prems(2) by (simp add: s)
    from Cons.IH [OF reach this Cons.prems(3) rs1(1)] rs1(2) show ?thesis
      by (auto simp: committed_def left_settled_Cons)
  next
    case (Some x)
    obtain st ra where x: "x = (st, ra)" by (cases x)
    have commit: commits using run by (auto simp: Some dest: run_publish_task_commits)
    have dist: "distinct (map pj_id (publish_jobs db))"
      using publish_reachable_fresh [OF Cons.prems(1)] by (simp add: s jobs_fresh_def)
    obtain l0 l1 where l01: "lives db i = Some l0" "run_life l0 l1" "lives db1 = (lives db)(i \<mapsto> l1)"
      using run commit dist by (auto simp: Some s1 elim: run_publish_task_life)
    then have l1: "run_life l l1" "lives db1 i = Some l1" using Cons.prems(2) by (simp_all add: s)
    have "reports i (st, ra) db1" using run_publish_task_reports [OF run [unfolded Some x s1] dist] .
    then have st: "lf_state l1 = st" using l1(2) by (simp add: reports_def)
    have ok: "life_ok l" using reachable_life_ok [OF Cons.prems(1,2)] .
    note next_life = run_life_unasked [OF l1(1) ok Cons.prems(3)]
    show ?thesis
    proof (cases "st = JobState.RETRYABLE_FAILED")
      case False
      then have "rs = [Some (st, ra)]" "s' = s1" using Cons.prems(4) by (simp_all add: m s run Some x)
      moreover have "life_settled l1" using next_life(2) st False by simp
      ultimately show ?thesis using l1(2) st by (simp add: s1 left_settled_def committed_def)
    next
      case True
      have n: "lf_attempt l1 = lf_attempt l + 1" "lf_attempt l1 < 3"
        using next_life(2) st True settled_not_retryable [of l1] reachable_life_ok [OF reach, of i l1] l1(2)
        by (auto simp: s1 life_ok_def)
      obtain rs1 where rs1: "deliver env ws i ms s1 = (rs1, s')" "rs = Some (st, ra) # rs1"
        using Cons.prems(4) True by (auto simp: m s run Some x split: prod.splits)
      from Cons.IH [OF reach _ next_life(1) rs1(1)] l1(2) rs1(2) n show ?thesis
        by (auto simp: s1 committed_def left_settled_Cons)
    qed
  qed
qed (simp add: committed_def)

section \<open>Ends that cannot fail\<close>

text \<open>A flush of rows that meet the constraints succeeds and leaves them so: the triples with the failure
  condition \<open>False\<close> say that a value is returned.\<close>

definition storable :: "'a publish_db_scheme \<Rightarrow> bool" where
  "storable db \<longleftrightarrow> publish_lengths db \<and> publish_constraints db"

lemma flush_rows_all: "(\<And>r. P (bump r) = P r) \<Longrightarrow> list_all P (flush_rows key bump base rows) = list_all P rows"
  by (induction rows) (auto simp: flush_rows_def split: option.splits)

lemma storable_flush:
  assumes "storable db"
  shows "\<exists>db'. flush_publish base db = Inr db' \<and> storable db' \<and> lives db' = lives db"
proof -
  obtain db' where db': "flush_publish base db = Inr db'" using assms by (auto simp: flush_publish_def storable_def)
  have "storable db'"
    using db' assms by (auto simp: flush_publish_def storable_def publish_lengths_def publish_constraints_def unique_rows_def
       flush_rows_all flush_rows_view)
  with db' show ?thesis by (simp add: lives_flush_publish)
qed

lemma flush_total:
  "sg_valid (\<lambda>s :: ('a publish_db_scheme, 'c) run_state. storable (rn_db s) \<and> lives (rn_db s) = M) sg_flush (\<lambda>_ s. storable (rn_db s) \<and> lives (rn_db s) = M) (\<lambda>_. False)"
  "sg_valid (\<lambda>s :: ('a publish_db_scheme, 'c) run_state. storable (rn_db s) \<and> lives (rn_db s) = M) (sg_repo_flush r) (\<lambda>_ s. storable (rn_db s) \<and> lives (rn_db s) = M) (\<lambda>_. False)"
proof -
  have f: "sg_valid (\<lambda>s :: ('a publish_db_scheme, 'c) run_state. storable (rn_db s) \<and> lives (rn_db s) = M) (flush_with fl) (\<lambda>_ s. storable (rn_db s) \<and> lives (rn_db s) = M) (\<lambda>_. False)"
    if fl: "\<And>base db :: 'a publish_db_scheme. fl base db = flush_publish base db \<or> fl base db = repo_flush r base db"
    for fl :: "'a publish_db_scheme \<Rightarrow> 'a publish_db_scheme \<Rightarrow> 'a publish_db_scheme result"
  proof -
    have ok: "\<exists>db'. fl base db = Inr db' \<and> storable db' \<and> lives db' = lives db" if st: "storable db" for base db
      using storable_flush [OF st, of base] fl [of base db] by (auto simp: repo_flush_def)
    show ?thesis
      unfolding sg_valid_def
    proof (intro allI impI, elim conjE)
      fix s :: "('a publish_db_scheme, 'c) run_state" assume s: "storable (rn_db s)" "lives (rn_db s) = M"
      from ok [OF s(1), of "rn_base s"] s(2)
      show "case flush_with fl s of
          (Value x, s') \<Rightarrow> storable (rn_db s') \<and> lives (rn_db s') = M | (Failed e, s') \<Rightarrow> False | (Raised e, s') \<Rightarrow> False"
        by (auto simp: flush_with_def)
    qed
  qed
  show "sg_valid (\<lambda>s :: ('a publish_db_scheme, 'c) run_state. storable (rn_db s) \<and> lives (rn_db s) = M) sg_flush (\<lambda>_ s. storable (rn_db s) \<and> lives (rn_db s) = M) (\<lambda>_. False)"
    "sg_valid (\<lambda>s :: ('a publish_db_scheme, 'c) run_state. storable (rn_db s) \<and> lives (rn_db s) = M) (sg_repo_flush r) (\<lambda>_ s. storable (rn_db s) \<and> lives (rn_db s) = M) (\<lambda>_. False)"
    unfolding sg_flush_def sg_repo_flush_def by (rule f, simp)+
qed

lemma storable_tables: "saga_steps db' = saga_steps db \<Longrightarrow> publish_jobs db' = publish_jobs db \<Longrightarrow> quota_usages db' = quota_usages db
  \<Longrightarrow> published_posts db' = published_posts db \<Longrightarrow> remote_snapshots db' = remote_snapshots db \<Longrightarrow> media_bindings db' = media_bindings db
  \<Longrightarrow> publish_attempts db' = publish_attempts db \<Longrightarrow> storable db \<Longrightarrow> storable db'"
  by (simp add: storable_def publish_lengths_def publish_constraints_def)


lemma tail_total:
  "sg_valid (\<lambda>s :: ('a publish_db_scheme, 'w) run_state. storable (rn_db s) \<and> lives (rn_db s) = M)
     (sg_then (notify_and_emit env job a d) (sg_then (sg_repo_flush r) (sg_bind (the_job job) (\<lambda>j. sg_return (pj_state j, None)))))
     (\<lambda>x s. \<forall>l. M (pj_id job) = Some l \<longrightarrow> x = (lf_state l, None)) (\<lambda>_. False)"
proof -
  let ?I = "\<lambda>s :: ('a publish_db_scheme, 'w) run_state. storable (rn_db s) \<and> lives (rn_db s) = M"
  have m: "sg_valid ?I (modify_db f) (\<lambda>_. ?I) (\<lambda>_. False)" if "\<And>db. storable db \<Longrightarrow> storable (f db) \<and> lives (f db) = lives db" for f
    by (rule sg_valid_modify) (use that in auto)
  have n: "storable (notify_all row rs db)" if "storable db" for row rs and db :: "'a publish_db_scheme"
    using that
  proof (induction rs arbitrary: db)
    case (Cons r rs)
    show ?case unfolding notify_all.simps uuid4_def Let_def prod.case
      by (rule Cons.IH) (rule storable_tables [OF _ _ _ _ _ _ _ Cons.prems], simp_all add: add_notification_def)
  qed simp
  have nl: "lives (notify_all row rs db) = lives db" for row rs and db :: "'a publish_db_scheme"
    by (rule lives_cong) (use notify_all_jobs in blast)
  have al: "storable (append_audit_log b1 b2 b3 b4 b5 b6 b7 b8 db) \<and> lives (append_audit_log b1 b2 b3 b4 b5 b6 b7 b8 db) = lives db"
    "storable (add_outbox_event c1 c2 c3 c4 c5 c6 c7 db) \<and> lives (add_outbox_event c1 c2 c3 c4 c5 c6 c7 db) = lives db"
    if "storable db" for b1 b2 b3 b4 b5 b6 b7 b8 c1 c2 c3 c4 c5 c6 c7 and db :: "'a publish_db_scheme"
    by (rule conjI [OF storable_tables lives_cong]; use that in \<open>simp add: append_audit_log_def add_outbox_event_def uuid4_def Let_def\<close>)+
  have "sg_valid ?I (notify_and_emit env job a d) (\<lambda>_. ?I) (\<lambda>_. False)"
    unfolding notify_and_emit_def the_job_def audit_outbox_def
    by (rule sg_valid_bind [OF sg_valid_gets [where Q = "\<lambda>_. ?I"]])
      (auto intro!: sg_valid_bind [OF m] sg_valid_bind [OF flush_total(1)] flush_total n nl al)
  then show ?thesis
    apply (rule sg_valid_bind)
    apply (rule sg_valid_bind [OF flush_total(2)])
    apply (auto simp: the_job_def sg_valid_def sg_bind_def sg_gets_def sg_return_def current_def lives_def life_def split: option.splits)
    done
qed

lemma sg_bind_assoc: "sg_bind (sg_bind m f) g = sg_bind m (\<lambda>x. sg_bind (f x) g)"
  by (auto simp: fun_eq_iff sg_bind_def split: prod.splits outcome.splits)

lemma sg_bind_value: "m s = (Value x, s') \<Longrightarrow> sg_bind m f s = f x s'"
  by (simp add: sg_bind_def)

end
