(* ===== verification/Publish_Safety.thy ===== *)
theory Publish_Safety
  imports Publish_Reach
begin

text \<open>
  What a run of the worker does outside: it asks for a post only right after a search for its marker found
  none, it never writes over a remote post that changed, and it writes no content whose approval is gone. A call to a provider may fail
  after it took effect, and a run may be rolled back after its calls.
\<close>

section \<open>Predicates on the world\<close>

lemma world_quota:
  "sg_keeps (\<lambda>s. P (rn_world s)) (complete_quota env job)" "sg_keeps (\<lambda>s. P (rn_world s)) (release_quota env job reverse)"
proof -
  have m: "sg_keeps (\<lambda>s. P (rn_world s)) (modify_db f)" "sg_keeps (\<lambda>s. P (rn_world s)) (set_job job g)" for f g
    by (auto intro!: sg_keepsI simp: modify_db_def set_job_def)
  show "sg_keeps (\<lambda>s. P (rn_world s)) (complete_quota env job)"
    unfolding complete_quota_def job_usage_def the_job_def by (intro run_keeps m)
  show "sg_keeps (\<lambda>s. P (rn_world s)) (release_quota env job reverse)"
    unfolding release_quota_def job_usage_def the_job_def by (intro run_keeps m)
qed

interpretation world: run_quiet env "\<lambda>s. P (rn_world s)" for env :: "'w saga_env" and P
  by unfold_locales (simp_all add: quiet_change_def world_quota)

lemma world_set_job: "sg_keeps (\<lambda>s. P (rn_world s)) (set_job job f)"
  by (rule sg_keepsI) (simp add: modify_db_def set_job_def)

text \<open>A call that relates the world before and after.\<close>

definition leaves :: "('w \<Rightarrow> 'w \<Rightarrow> bool) \<Rightarrow> ('w, 'r) world_op \<Rightarrow> bool" where
  "leaves R c \<longleftrightarrow> (\<forall>w. R w (snd (c w)))"

lemma calls_keep_leaves: "leaves R c \<Longrightarrow> (\<And>w w'. P w \<Longrightarrow> R w w' \<Longrightarrow> P w') \<Longrightarrow> calls_keep (\<lambda>s. P (rn_world s)) c"
  by (auto simp: calls_keep_def leaves_def)

definition reads_leave :: "('w \<Rightarrow> 'w \<Rightarrow> bool) \<Rightarrow> 'w saga_env \<Rightarrow> 'w cms \<Rightarrow> bool" where
  "reads_leave R env cms \<longleftrightarrow>
     (\<forall>i cx k. leaves R (cms_get_post cms i cx k)) \<and> (\<forall>m cx k. leaves R (cms_find_by_marker cms m cx k))
     \<and> (\<forall>b cx k. leaves R (cms_upload_media cms b cx k)) \<and> (\<forall>ref h. leaves R (sg_resolve_media env ref h))
     \<and> (\<forall>ref. leaves R (sg_resolve_secret env ref))"

definition writes_leave :: "('w \<Rightarrow> 'w \<Rightarrow> bool) \<Rightarrow> 'w cms \<Rightarrow> bool" where
  "writes_leave R cms \<longleftrightarrow>
     (\<forall>p d cx k. leaves R (cms_update_post cms p d cx k)) \<and> (\<forall>p f cx k. leaves R (cms_delete_post cms p f cx k))
     \<and> (\<forall>p cx k. leaves R (cms_cancel_scheduled cms p cx k)) \<and> (\<forall>p n cx k. leaves R (cms_restore_snapshot cms p n cx k))"

lemma run_reads_world:
  assumes "reads_leave R env (pu_cms r)" "\<And>w w'. P w \<Longrightarrow> R w w' \<Longrightarrow> P w'"
  shows "run_reads env r (\<lambda>s :: ('a publish_db_scheme, 'w) run_state. P (rn_world s))"
  by unfold_locales
    (use assms(1) in \<open>auto simp: reads_leave_def intro!: calls_keep_leaves [where R = R] elim: assms(2)\<close>)

lemma run_writes_world:
  assumes "reads_leave R env (pu_cms r)" "writes_leave R (pu_cms r)" "\<And>w w'. P w \<Longrightarrow> R w w' \<Longrightarrow> P w'"
  shows "run_writes env r (\<lambda>s :: ('a publish_db_scheme, 'w) run_state. P (rn_world s))"
  by (intro run_writes.intro run_reads_world [OF assms(1,3)] run_writes_axioms.intro)
    (use assms(2) in \<open>auto simp: writes_leave_def intro!: calls_keep_leaves [where R = R] elim: assms(3)\<close>)

lemma run_task_world:
  assumes "\<And>s. s = \<lparr>rn_base = db, rn_db = db, rn_world = w\<rparr> \<Longrightarrow> P (rn_world (snd (process_publish_job env ws i s)))"
  shows "P (snd (snd (run_publish_task env commits ws i (db, w))))"
  using assms [OF refl] by (auto simp: run_publish_task_def split: prod.splits outcome.splits)

section \<open>Searching before creating\<close>

text \<open>What the log of a provider's calls records: a search for a marker at a site with its answer (\<open>None\<close> when
  the call failed), and a request to create a post, whether it was answered or not.\<close>

datatype call_event = Searched string string "bool option" | Created string string

definition search_answer :: "remote_post option provider_call outcome \<Rightarrow> bool option" where
  "search_answer x = (case x of Value call \<Rightarrow> Some (cl_value call \<noteq> None) | _ \<Rightarrow> None)"

text \<open>Any provider with such a log: every call does what it does, and the log is written beside it.\<close>

definition logging ::
  "('r outcome \<Rightarrow> call_event list) \<Rightarrow> ('w, 'r) world_op \<Rightarrow> ('w \<times> call_event list, 'r) world_op" where
  "logging ev c = (\<lambda>(w, es). let (x, w') = c w in (x, (w', es @ ev x)))"

definition logging_cms :: "'w cms \<Rightarrow> ('w \<times> call_event list) cms" where
  "logging_cms c =
     \<lparr>cms_find_by_marker = (\<lambda>m cx k.
        logging (\<lambda>x. [Searched (cx_site_url cx) m (search_answer x)]) (cms_find_by_marker c m cx k)),
      cms_create_post = (\<lambda>d cx k.
        logging (\<lambda>_. [Created (cx_site_url cx) (dc_idempotency_marker d)]) (cms_create_post c d cx k)),
      cms_get_post = (\<lambda>i cx k. logging (\<lambda>_. []) (cms_get_post c i cx k)),
      cms_update_post = (\<lambda>p d cx k. logging (\<lambda>_. []) (cms_update_post c p d cx k)),
      cms_delete_post = (\<lambda>p b cx k. logging (\<lambda>_. []) (cms_delete_post c p b cx k)),
      cms_cancel_scheduled = (\<lambda>p cx k. logging (\<lambda>_. []) (cms_cancel_scheduled c p cx k)),
      cms_upload_media = (\<lambda>b cx k. logging (\<lambda>_. []) (cms_upload_media c b cx k)),
      cms_restore_snapshot = (\<lambda>p n cx k. logging (\<lambda>_. []) (cms_restore_snapshot c p n cx k))\<rparr>"

definition logging_env :: "'w saga_env \<Rightarrow> ('w \<times> call_event list) saga_env" where
  "logging_env e =
     \<lparr>ev_hash = ev_hash e, ev_now = ev_now e, ev_zones = ev_zones e, ev_other = ev_other e, ev_url = ev_url e,
      sg_registry = (\<lambda>pr k. map_option logging_cms (sg_registry e pr k)),
      sg_resolve_secret = (\<lambda>ref. logging (\<lambda>_. []) (sg_resolve_secret e ref)),
      sg_resolve_media = (\<lambda>ref h. logging (\<lambda>_. []) (sg_resolve_media e ref h)), sg_render = sg_render e\<rparr>"

text \<open>Every creation directly follows a search for the same marker at the same site that found nothing.\<close>

fun searched_first :: "call_event list \<Rightarrow> bool" where
  "searched_first [] = True"
| "searched_first (Created site m # es) = False"
| "searched_first (Searched site m a # Created site' m' # es) =
     (site' = site \<and> m' = m \<and> a = Some False \<and> searched_first es)"
| "searched_first (Searched site m a # es) = searched_first es"

text \<open>No search after a creation overlooked the post.\<close>

fun searches_see :: "call_event list \<Rightarrow> bool" where
  "searches_see [] = True"
| "searches_see (Searched site m a # es) = searches_see es"
| "searches_see (Created site m # es) = (Searched site m (Some False) \<notin> set es \<and> searches_see es)"

lemma searched_first_append: "searched_first xs \<Longrightarrow> searched_first ys \<Longrightarrow> searched_first (xs @ ys)"
proof (induction xs rule: searched_first.induct, goal_cases)
  case (4 site m a)
  then show ?case by (cases ys rule: searched_first.cases) auto
qed auto

lemma created_searched: "searched_first es \<Longrightarrow> Created site m \<in> set es \<Longrightarrow> Searched site m (Some False) \<in> set es"
  by (induction es rule: searched_first.induct) auto

lemma created_once: "searched_first es \<Longrightarrow> searches_see es \<Longrightarrow> count_list es (Created site m) \<le> 1"
proof (induction es rule: searched_first.induct)
  case (3 site' m' a site'' m'' es)
  have "count_list es (Created site m) = 0" if "site = site'" "m = m'"
    using 3 created_searched [of es site m] that by (auto simp: count_list_0_iff)
  with 3 show ?case by auto
qed auto

text \<open>The calls since the log was \<open>es\<close>.\<close>

definition logs_on :: "call_event list \<Rightarrow> 'w \<times> call_event list \<Rightarrow> bool" where
  "logs_on es w \<longleftrightarrow> (\<exists>new. snd w = es @ new \<and> searched_first new)"

definition harmless :: "'w \<times> call_event list \<Rightarrow> 'w \<times> call_event list \<Rightarrow> bool" where
  "harmless w w' \<longleftrightarrow> logs_on (snd w) w'"

lemma logs_on_trans: "logs_on es w \<Longrightarrow> harmless w w' \<Longrightarrow> logs_on es w'"
  unfolding harmless_def logs_on_def by (metis append_assoc searched_first_append)

lemma logging_harmless: "(\<And>x. searched_first (ev x)) \<Longrightarrow> leaves harmless (logging ev c)"
  by (auto simp: leaves_def logging_def harmless_def logs_on_def split: prod.splits)

lemma logging_cms_harmless:
  "reads_leave harmless (logging_env e) (logging_cms c)" "writes_leave harmless (logging_cms c)"
  "leaves harmless (sg_resolve_secret (logging_env e) ref)"
  by (simp_all add: reads_leave_def writes_leave_def logging_cms_def logging_env_def logging_harmless)

lemma found_or_created_logged:
  fixes env :: "('w \<times> call_event list) saga_env"
  assumes c: "pu_cms r = logging_cms c" and m: "dc_idempotency_marker document = pj_idempotency_marker (pu_job r)"
  shows "sg_keeps (\<lambda>s. logs_on es (rn_world s)) (found_or_created r t document env)"
proof -
  let ?site = "cx_site_url (pu_context r)" and ?m = "pj_idempotency_marker (pu_job r)"
  let ?asked = "\<lambda>v w. \<exists>new. snd w = es @ new @ [Searched ?site ?m (Some (v \<noteq> None))] \<and> searched_first new"
  have asked: "logs_on es w" if "?asked v w" for v and w :: "'w \<times> call_event list"
    using that searched_first_append [of _ "[Searched ?site ?m (Some (v \<noteq> None))]"] by (auto simp: logs_on_def)
  have find: "sg_valid (\<lambda>s. logs_on es (rn_world s))
      (outside (cms_find_by_marker (pu_cms r) ?m (pu_context r) (pu_secret r)))
      (\<lambda>call s. ?asked (cl_value call) (rn_world s)) (\<lambda>s. logs_on es (rn_world s))"
  proof (rule sg_valid_outside)
    fix s x w assume s: "logs_on es (rn_world s)"
      and f: "cms_find_by_marker (pu_cms r) ?m (pu_context r) (pu_secret r) (rn_world s) = (x, w)"
    obtain new where new: "snd (rn_world s) = es @ new" "searched_first new" using s by (auto simp: logs_on_def)
    have w: "snd w = es @ new @ [Searched ?site ?m (search_answer x)]"
      using f new(1) by (auto simp: c logging_cms_def logging_def split: prod.splits)
    then have "logs_on es w"
      using searched_first_append [OF new(2), of "[Searched ?site ?m (search_answer x)]"] by (simp add: logs_on_def)
    with w new(2) show "case x of Value call \<Rightarrow> ?asked (cl_value call) (rn_world (s\<lparr>rn_world := w\<rparr>))
        | Failed _ \<Rightarrow> logs_on es (rn_world (s\<lparr>rn_world := w\<rparr>))
        | Raised _ \<Rightarrow> logs_on es (rn_world (s\<lparr>rn_world := w\<rparr>))"
      by (auto simp: search_answer_def split: outcome.split)
  qed
  have create: "sg_valid (\<lambda>s. ?asked None (rn_world s))
      (outside (cms_create_post (pu_cms r) document (pu_context r) (pu_secret r)))
      (\<lambda>_ s. logs_on es (rn_world s)) (\<lambda>s. logs_on es (rn_world s))"
  proof (rule sg_valid_outside)
    fix s x w assume s: "?asked None (rn_world s)"
      and f: "cms_create_post (pu_cms r) document (pu_context r) (pu_secret r) (rn_world s) = (x, w)"
    obtain new where new: "snd (rn_world s) = es @ new @ [Searched ?site ?m (Some False)]" "searched_first new"
      using s by auto
    have "snd w = es @ new @ [Searched ?site ?m (Some False), Created ?site ?m]"
      using f new(1) m by (auto simp: c logging_cms_def logging_def split: prod.splits)
    then have "logs_on es w"
      using searched_first_append [OF new(2), of "[Searched ?site ?m (Some False), Created ?site ?m]"]
      by (simp add: logs_on_def)
    then show "case x of Value _ \<Rightarrow> logs_on es (rn_world (s\<lparr>rn_world := w\<rparr>))
        | Failed _ \<Rightarrow> logs_on es (rn_world (s\<lparr>rn_world := w\<rparr>))
        | Raised _ \<Rightarrow> logs_on es (rn_world (s\<lparr>rn_world := w\<rparr>))"
      by (simp split: outcome.split)
  qed
  have update: "calls_keep (\<lambda>s. logs_on es (rn_world s))
      (cms_update_post (pu_cms r) remote document (pu_context r) (pu_secret r))" for remote
    using logging_cms_harmless(2) [of c] logs_on_trans
    by (auto simp: c writes_leave_def intro!: calls_keep_leaves [where R = harmless])
  show ?thesis
    unfolding found_or_created_def sg_keeps_def
  proof (rule sg_valid_bind [OF find], rule sg_valid_keep_then, rule world.keep_steps(3), goal_cases)
    case (1 call u)
    show ?case
    proof (cases "cl_value call")
      case (Some remote)
      have "sg_keeps (\<lambda>s. logs_on es (rn_world s)) (sg_then (assert_remote_integrity env remote)
          (outside (cms_update_post (pu_cms r) remote document (pu_context r) (pu_secret r))))"
        by (intro keep_bind world.keep_integrity keep_outside update)
      note keeps = sg_valid_keeps [OF this]
      show ?thesis unfolding Some option.case by (rule sg_valid_pre [OF keeps]) (erule asked)
    qed (use create in simp)
  qed (rule asked)
qed

lemma document_marker:
  assumes "sg_keeps I (prepared_document env cms cx secret job ready)"
  shows "sg_valid I (prepared_document env cms cx secret job ready)
    (\<lambda>x s. I s \<and> dc_idempotency_marker (fst x) = pj_idempotency_marker job) I"
proof -
  have d: "dc_idempotency_marker d = pj_idempotency_marker job" if "document_of env job ready u = Inr d" for d u
    using that by (auto simp: document_of_def Let_def split: if_splits)
  have "\<exists>u. document_of env job ready u = Inr (fst x)"
    if "prepared_document env cms cx secret job ready s = (Value x, s')" for s s' x
    using that by (auto simp: prepared_document_def sg_bind_def sg_lift_def sg_return_def split: prod.splits outcome.splits sum.splits)
  with d have "dc_idempotency_marker (fst x) = pj_idempotency_marker job"
    if "prepared_document env cms cx secret job ready s = (Value x, s')" for s s' x
    using that by blast
  moreover have "I s'" if "I s" "prepared_document env cms cx secret job ready s = (x, s')" for s x s'
    using sg_keepsD [OF assms that(1)] that(2) by simp
  ultimately show ?thesis
    by (fastforce simp: sg_valid_def split: prod.splits outcome.splits)
qed

lemma keep_bind_value:
  "sg_valid I m (\<lambda>x s. I s \<and> Q x) I \<Longrightarrow> (\<And>x. Q x \<Longrightarrow> sg_keeps I (f x)) \<Longrightarrow> sg_keeps I (sg_bind m f)"
  unfolding sg_keeps_def by (erule sg_valid_bind) (auto simp: sg_valid_def)

lemma create_logged:
  fixes env :: "('w \<times> call_event list) saga_env"
  assumes c: "pu_cms r = logging_cms c" and reads: "reads_leave harmless env (pu_cms r)"
  shows "sg_keeps (\<lambda>s :: ('a publish_db_scheme, 'w \<times> call_event list) run_state. logs_on es (rn_world s)) (create_remote env r)"
proof -
  let ?I = "\<lambda>s :: ('a publish_db_scheme, 'w \<times> call_event list) run_state. logs_on es (rn_world s)"
  have "run_reads env r ?I" by (rule run_reads_world [OF reads logs_on_trans])
  note reads = run_reads.keep_documents [OF this] run_reads.keep_verified [OF this]
  note found = found_or_created_logged [OF c]
  have doc: "sg_valid ?I (prepared_document env (pu_cms r) (pu_context r) (pu_secret r) (pu_job r) ready)
      (\<lambda>x s. ?I s \<and> dc_idempotency_marker (fst x) = pj_idempotency_marker (pu_job r)) ?I" for ready
    by (rule document_marker) (rule reads)
  show ?thesis
    unfolding create_remote_def
    apply (rule keep_bind [OF world.keep_remote(5)], rule keep_bind [OF world.keep_local_steps(1)])
    apply (rule keep_bind_value [OF doc])
    apply (simp only: Let_def split_beta)
    apply (intro keep_bind run_keeps world_set_job reads found)
     apply simp_all
    done
qed

lemma operation_logged:
  fixes env :: "('w \<times> call_event list) saga_env" and es :: "call_event list"
  assumes c: "pu_cms r = logging_cms c" and reads: "reads_leave harmless env (pu_cms r)"
  defines "I \<equiv> \<lambda>s :: ('a publish_db_scheme, 'w \<times> call_event list) run_state. logs_on es (rn_world s)"
  shows "sg_keeps I (run_operation env r)" "sg_keeps I (cancel_job env r)"
proof -
  have w: "run_writes env r I" unfolding I_def
    by (rule run_writes_world [OF reads _ logs_on_trans]) (simp_all add: c logging_cms_harmless)
  show "sg_keeps I (run_operation env r)"
    unfolding run_operation_def
    by (cases "pj_operation (pu_job r)")
      (simp_all add: create_logged [OF c reads, where 'a = 'a and es = es, folded I_def] run_writes.keep_update [OF w]
        run_writes.keep_delete [OF w] run_writes.keep_reconcile [OF w] run_writes.keep_rollback [OF w])
  show "sg_keeps I (cancel_job env r)"
    by (rule run_writes.keep_cancel_job [OF w]) (simp add: I_def world_set_job)
qed

lemma run_logged:
  fixes db :: "'a publish_db_scheme" and w :: "'w \<times> call_event list"
  shows "logs_on (snd w) (snd (snd (run_publish_task ((logging_env e)\<lparr>ev_now := t\<rparr>) commits ws i (db, w))))"
proof (rule run_task_world)
  let ?env = "(logging_env e)\<lparr>ev_now := t\<rparr>"
  fix s assume s: "s = \<lparr>rn_base = db, rn_db = db, rn_world = w\<rparr>"
  let ?I = "\<lambda>s :: ('a publish_db_scheme, 'w \<times> call_event list) run_state. logs_on (snd w) (rn_world s)"
  have cms: "\<exists>c. pu_cms r = logging_cms c \<and> reads_leave harmless ?env (pu_cms r)"
    if "sg_registry ?env pr k = Some (pu_cms r)" for pr k r
  proof -
    from that obtain c where "logging_cms c = pu_cms r" by (auto simp: logging_env_def)
    from this [symmetric] show ?thesis using logging_cms_harmless(1) [of e c] by (auto simp: reads_leave_def logging_env_def)
  qed
  have "run_process ?env ?I db ws i"
  proof (intro run_process.intro world.run_quiet_axioms run_process_axioms.intro, goal_cases)
    case (1 r pr k)
    obtain c where "pu_cms r = logging_cms c" "reads_leave harmless ?env (pu_cms r)" using cms [OF 1(2)] by blast
    then show ?case by (intro sg_valid_pre [OF sg_valid_keeps [OF operation_logged(1)]]) simp_all
  next
    case (2 r pr k)
    obtain c where "pu_cms r = logging_cms c" "reads_leave harmless ?env (pu_cms r)" using cms [OF 2(2)] by blast
    then show ?case by (rule operation_logged(2))
  next
    case (3 ref)
    have "leaves harmless (sg_resolve_secret ?env ref)"
      using logging_cms_harmless(3) [of e ref] by (simp add: logging_env_def)
    then show ?case by (rule calls_keep_leaves) (rule logs_on_trans)
  qed (rule world_set_job)
  moreover have "logs_on (snd w) w" by (simp add: logs_on_def)
  ultimately show "logs_on (snd w) (rn_world (snd (process_publish_job ?env ws i s)))"
    using run_process.keep_process [of ?env ?I db ws i s] by (simp add: s)
qed

lemma step_logged: "publish_step (logging_env e) s s' \<Longrightarrow> harmless (snd s) (snd s')"
proof (induction rule: publish_step.induct)
  case (Run t commits ws i db w outcome s)
  then show ?case using run_logged [where w = w and e = e and t = t and commits = commits and ws = ws and i = i and db = db] by (simp add: harmless_def)
qed (simp_all add: harmless_def logs_on_def)

lemma steps_logged: "(publish_step (logging_env e))\<^sup>*\<^sup>* s s' \<Longrightarrow> logs_on (snd (snd s)) (snd s')"
  by (induction rule: rtranclp_induct) (auto simp: logs_on_def [of _ "snd s"] intro: logs_on_trans step_logged)

section \<open>A remote post that changed\<close>

text \<open>\<open>observe\<close> is what a reader of the world sees of the remote posts. What the job expects of the post is the
  hash its request recorded.\<close>

definition expected_hash :: "'w saga_env \<Rightarrow> publish_job \<Rightarrow> string" where
  "expected_hash env job =
     (case map_of (pj_input_snapshot job) ''expected_remote_hash'' of None \<Rightarrow> '''' | Some v \<Rightarrow> py_str (ev_other env) v)"

abbreviation same_view :: "('w \<Rightarrow> 'v) \<Rightarrow> 'w \<Rightarrow> 'w \<Rightarrow> bool" where
  "same_view observe w w' \<equiv> observe w' = observe w"

definition remote_changed :: "('w \<Rightarrow> 'v) \<Rightarrow> 'v \<Rightarrow> string \<Rightarrow> 'w cms \<Rightarrow> bool" where
  "remote_changed observe v h cms \<longleftrightarrow>
     (\<forall>rid cx k. leaves (same_view observe) (cms_get_post cms rid cx k)
        \<and> (\<forall>w call w'. observe w = v \<longrightarrow> cms_get_post cms rid cx k w = (Value call, w') \<longrightarrow> rp_remote_hash (cl_value call) \<noteq> h))"

lemma sg_valid_bind_value:
  "sg_valid I m (\<lambda>x s. I s \<and> Q x) E \<Longrightarrow> (\<And>x. Q x \<Longrightarrow> sg_valid I (f x) R E) \<Longrightarrow> sg_valid I (sg_bind m f) R E"
  by (erule sg_valid_bind) (auto simp: sg_valid_def)

text \<open>What the database does keeps a view, and so do the reads of the post.\<close>

lemma view_db [run_keeps]:
  "sg_keeps (\<lambda>s. observe (rn_world s) = v) (snapshot_remote env job post remote reason)"
  "sg_keeps (\<lambda>s. observe (rn_world s) = v) (expected_scheduled_transition env post remote)"
  "sg_keeps (\<lambda>s. observe (rn_world s) = v) (apply_remote env post remote partial)"
  "sg_keeps (\<lambda>s. observe (rn_world s) = v) (import_remote env r post remote hash_key)"
  by (intro world.keep_remote world.keep_db_ends)+

lemma sg_valid_fail: "(\<And>s. P s \<Longrightarrow> E s) \<Longrightarrow> sg_valid P (sg_fail e) Q E"
  by (simp add: sg_valid_def sg_fail_def)

lemma fetch_changed:
  fixes env :: "'w saga_env" and observe :: "'w \<Rightarrow> 'v"
  assumes "remote_changed observe v h (pu_cms r)"
  shows "sg_valid (\<lambda>s :: ('a publish_db_scheme, 'w) run_state. observe (rn_world s) = v) (fetch env r k rid)
    (\<lambda>remote s. observe (rn_world s) = v \<and> rp_remote_hash remote \<noteq> h) (\<lambda>s. observe (rn_world s) = v)"
proof -
  let ?I = "\<lambda>s :: ('a publish_db_scheme, 'w) run_state. observe (rn_world s) = v"
  have get: "sg_valid ?I (outside (cms_get_post (pu_cms r) rid (pu_context r) (pu_secret r)))
      (\<lambda>call s. ?I s \<and> rp_remote_hash (cl_value call) \<noteq> h) ?I"
  proof (rule sg_valid_outside)
    fix s :: "('a publish_db_scheme, 'w) run_state" and x w
    assume s: "?I s" and c: "cms_get_post (pu_cms r) rid (pu_context r) (pu_secret r) (rn_world s) = (x, w)"
    have "observe w = v" using assms s c unfolding remote_changed_def leaves_def by (metis snd_conv)
    moreover have "rp_remote_hash (cl_value call) \<noteq> h" if "x = Value call" for call
      using assms s c that unfolding remote_changed_def by blast
    ultimately show "case x of Value call \<Rightarrow> ?I (s\<lparr>rn_world := w\<rparr>) \<and> rp_remote_hash (cl_value call) \<noteq> h
        | Failed _ \<Rightarrow> ?I (s\<lparr>rn_world := w\<rparr>) | Raised _ \<Rightarrow> ?I (s\<lparr>rn_world := w\<rparr>)"
      by (simp split: outcome.split)
  qed
  show ?thesis
    unfolding fetch_def fetch_remote_def
    by (rule sg_valid_keep_then [OF world.keep_steps(1) sg_valid_bind_value [OF get]])
      (auto intro!: sg_valid_keep_then world.keep_steps sg_valid_return)
qed

lemma fetch_or_missing_changed:
  fixes env :: "'w saga_env" and observe :: "'w \<Rightarrow> 'v"
  assumes "remote_changed observe v h (pu_cms r)"
  shows "sg_valid (\<lambda>s :: ('a publish_db_scheme, 'w) run_state. observe (rn_world s) = v) (fetch_or_missing env r k post)
    (\<lambda>found s. observe (rn_world s) = v \<and> (\<forall>remote. found = Some remote \<longrightarrow> rp_remote_hash remote \<noteq> h))
    (\<lambda>s. observe (rn_world s) = v)"
  unfolding fetch_or_missing_def missing_step_def
  by (rule sg_valid_catch [where R = "\<lambda>s. observe (rn_world s) = v"])
    (auto intro!: sg_valid_bind_value [OF fetch_changed [OF assms]] sg_valid_return sg_valid_if sg_valid_keep_then
      sg_valid_fail sg_valid_keeps run_keeps)

lemma conflict_changed:
  fixes env :: "'w saga_env" and observe :: "'w \<Rightarrow> 'v"
  assumes "rp_remote_hash remote \<noteq> expected_hash env job"
  shows "sg_valid (\<lambda>s :: ('a publish_db_scheme, 'w) run_state. observe (rn_world s) = v) (remote_conflict env job remote)
    (\<lambda>c s. observe (rn_world s) = v \<and> c) (\<lambda>s. observe (rn_world s) = v)"
  using assms unfolding remote_conflict_def expected_hash_def Let_def
  by (intro sg_valid_keep_then [OF world.keep_integrity(1)]) (auto intro: sg_valid_return)

lemma lift_value: "sg_valid P (sg_lift x) (\<lambda>a s. P s \<and> x = Inr a) P"
  by (simp add: sg_valid_def sg_lift_def split: sum.splits)

lemma operation_unwritten:
  fixes env :: "'w saga_env" and observe :: "'w \<Rightarrow> 'v"
  assumes changed: "remote_changed observe v (expected_hash env (pu_job r)) (pu_cms r)"
    and op: "pj_operation (pu_job r) \<noteq> PublishOperation.CREATE"
    and act: "pj_operation (pu_job r) \<in> {PublishOperation.UPDATE, PublishOperation.RECONCILE}
      \<Longrightarrow> job_action (pu_job r) \<noteq> Inr ConflictAction.OVERWRITE"
  shows "sg_keeps (\<lambda>s :: ('a publish_db_scheme, 'w) run_state. observe (rn_world s) = v) (run_operation env r)"
proof -
  let ?I = "\<lambda>s :: ('a publish_db_scheme, 'w) run_state. observe (rn_world s) = v"
  note fetched = sg_valid_bind_value [OF fetch_changed [OF changed, where 'a = 'a]]
    and found = sg_valid_bind_value [OF fetch_or_missing_changed [OF changed, where 'a = 'a]]
    and conflict = sg_valid_bind_value [OF conflict_changed [where 'a = 'a]]
    and target = sg_valid_keep_then [OF world.keep_remote(2) _ refl [THEN iffD1]]
    and chosen = sg_valid_bind_value [OF lift_value]
  show ?thesis
  proof (cases "pj_operation (pu_job r)")
    case UPDATE
    have "sg_valid ?I (update_remote env r) (\<lambda>_. ?I) ?I"
      unfolding update_remote_def
    proof (intro sg_valid_keep_then [OF world.keep_remote(5)] sg_valid_keep_then [OF world.keep_local_steps(1)]
        target fetched chosen conflict, assumption, goal_cases)
      case (1 ready u post remote action c)
      then show ?case using act UPDATE
        by (cases action) (auto intro!: sg_valid_keeps run_keeps world.keep_remote)
    qed simp_all
    then show ?thesis by (simp add: run_operation_def UPDATE sg_keeps_def)
  next
    case DELETE
    have "sg_valid ?I (delete_remote env r) (\<lambda>_. ?I) ?I"
      unfolding delete_remote_def
    proof (intro target found, goal_cases)
      case (1 post found)
      show ?case
      proof (cases found)
        case (Some remote)
        with 1 have "rp_remote_hash remote \<noteq> expected_hash env (pu_job r)" by simp
        then show ?thesis unfolding Some option.case
          by (rule conflict) (auto intro!: sg_valid_keeps run_keeps)
      qed (auto intro!: sg_valid_keeps run_keeps)
    qed
    then show ?thesis by (simp add: run_operation_def DELETE sg_keeps_def)
  next
    case RECONCILE
    have "sg_valid ?I (reconcile_remote env r) (\<lambda>_. ?I) ?I"
      unfolding reconcile_remote_def Let_def
    proof (intro target found, goal_cases)
      case (1 post found)
      have a: "sg_valid ?I (sg_bind (sg_lift (job_action (pu_job r))) f) (\<lambda>_. ?I) ?I"
        if "\<And>action. action = ConflictAction.ABORT \<or> action = ConflictAction.IMPORT_REMOTE \<Longrightarrow> sg_keeps ?I (f action)"
        for f :: "_ \<Rightarrow> ('a, 'w, bool) saga"
      proof (rule chosen, rule sg_valid_keeps, rule that)
        show "action = ConflictAction.ABORT \<or> action = ConflictAction.IMPORT_REMOTE" if "job_action (pu_job r) = Inr action" for action
          using act RECONCILE that by (cases action) simp_all
      qed
      show ?case
      proof (cases found)
        case (Some remote)
        with 1 have "rp_remote_hash remote \<noteq> expected_hash env (pu_job r)" by simp
        then show ?thesis unfolding Some option.case
        proof (rule conflict, goal_cases)
          case (1 c)
          then show ?case
            by (simp, intro sg_valid_keep_then [OF view_db(2)] sg_valid_if sg_valid_keep_then [OF view_db(1)] a)
              (auto intro!: sg_valid_keeps run_keeps)
        qed
      qed (auto intro!: sg_valid_keeps run_keeps)
    qed
    then show ?thesis by (simp add: run_operation_def RECONCILE sg_keeps_def)
  next
    case ROLLBACK
    have "sg_valid ?I (rollback_remote env r) (\<lambda>_. ?I) ?I"
      unfolding rollback_remote_def
      by (intro target fetched conflict, assumption) (auto intro!: sg_valid_keeps run_keeps)
    then show ?thesis by (simp add: run_operation_def ROLLBACK sg_keeps_def)
  qed (use op in simp)
qed

section \<open>Whole runs that write nothing\<close>

lemma run_unseen:
  fixes db :: "'a publish_db_scheme" and env :: "'w saga_env" and observe :: "'w \<Rightarrow> 'v"
  assumes job: "find_publish_job ws i db = Inr job" and unasked: "pj_cancel_requested_at job = None"
    and secret: "\<And>ref. leaves (same_view observe) (sg_resolve_secret env ref)"
    and op: "\<And>r pr k. pu_job r = job \<Longrightarrow> sg_registry env pr k = Some (pu_cms r)
      \<Longrightarrow> sg_valid (\<lambda>s :: ('a publish_db_scheme, 'w) run_state. observe (rn_world s) = observe w \<and> rn_base s = db)
            (run_operation env r) (\<lambda>_ s. observe (rn_world s) = observe w) (\<lambda>s. observe (rn_world s) = observe w)"
  shows "observe (snd (snd (run_publish_task env commits ws i (db, w)))) = observe w"
proof (rule run_task_world [where P = "\<lambda>w'. observe w' = observe w"])
  fix s assume s: "s = \<lparr>rn_base = db, rn_db = db, rn_world = w\<rparr>"
  have "run_process env (\<lambda>s :: ('a publish_db_scheme, 'w) run_state. observe (rn_world s) = observe w) db ws i"
  proof (intro run_process.intro world.run_quiet_axioms run_process_axioms.intro, goal_cases)
    case (1 r pr k)
    then show ?case using op [of r pr k] job by simp
  next
    case (2 r pr k)
    then show ?case using job unasked by simp
  next
    case (3 ref)
    show ?case by (rule calls_keep_leaves [where R = "same_view observe"]) (simp_all add: secret)
  qed (rule world_set_job)
  from run_process.keep_process [OF this] show "observe (rn_world (snd (process_publish_job env ws i s))) = observe w"
    by (simp add: s)
qed

lemma run_changed_unwritten:
  fixes w :: 'b
  assumes "find_publish_job ws i db = Inr job" "pj_cancel_requested_at job = None"
    and "\<And>ref. leaves (same_view observe) (sg_resolve_secret env ref)"
    and changed: "\<And>pr k cms. sg_registry env pr k = Some cms \<Longrightarrow> remote_changed observe (observe w) (expected_hash env job) cms"
    and op: "pj_operation job \<noteq> PublishOperation.CREATE"
    and act: "pj_operation job \<in> {PublishOperation.UPDATE, PublishOperation.RECONCILE} \<Longrightarrow> job_action job \<noteq> Inr ConflictAction.OVERWRITE"
  shows "observe (snd (snd (run_publish_task env commits ws i (db, w)))) = observe w"
proof (rule run_unseen [OF assms(1-3)])
  fix r :: "'b publish_context" and pr k assume r: "pu_job r = job" "sg_registry env pr k = Some (pu_cms r)"
  show "sg_valid (\<lambda>s. observe (rn_world s) = observe w \<and> rn_base s = db) (run_operation env r)
      (\<lambda>_ s. observe (rn_world s) = observe w) (\<lambda>s. observe (rn_world s) = observe w)"
    by (rule sg_valid_pre [OF sg_valid_keeps [OF operation_unwritten]]) (use r changed op act in auto)
qed

lemma run_unapproved_unwritten:
  fixes w :: 'b
  assumes "find_publish_job ws i db = Inr job" "pj_cancel_requested_at job = None"
    and "\<And>ref. leaves (same_view observe) (sg_resolve_secret env ref)"
    and unready: "\<And>ch. \<exists>e. publish_ready (pj_workspace_id job) (pj_content_id job) (pj_content_version_id job) (pj_content_hash job)
        (pj_approval_request_id job) ch db = Inl e"
    and op: "pj_operation job \<in> {PublishOperation.CREATE, PublishOperation.UPDATE}"
  shows "observe (snd (snd (run_publish_task env commits ws i (db, w)))) = observe w"
proof (rule run_unseen [OF assms(1-3)])
  fix r :: "'b publish_context" assume r: "pu_job r = job"
  have "resolve_publish_ready (ev_hash env) (ev_now env) (pj_workspace_id job) (pj_content_id job) (pj_content_version_id job)
      (pj_content_hash job) (pj_approval_request_id job) ch media db \<noteq> Inr ready" for ch media ready
    using unready [of ch] by (auto simp: resolve_publish_ready_def)
  then have "sg_valid (\<lambda>s. observe (rn_world s) = observe w \<and> rn_base s = db)
      (sg_bind (resolve_ready_job env job (pu_connection r) (pu_policy r)) f)
      (\<lambda>_ s. observe (rn_world s) = observe w) (\<lambda>s. observe (rn_world s) = observe w)" for f
    by (simp add: resolve_ready_job_def sg_valid_def sg_bind_def sg_lift_def split: sum.splits)
  then show "sg_valid (\<lambda>s. observe (rn_world s) = observe w \<and> rn_base s = db) (run_operation env r)
      (\<lambda>_ s. observe (rn_world s) = observe w) (\<lambda>s. observe (rn_world s) = observe w)"
    using op r by (auto simp: run_operation_def create_remote_def update_remote_def)
qed

end
