(* ===== verification/Publish_Keys.thy ===== *)
theory Publish_Keys
  imports Publish_Reach
begin

text \<open>
  Two invariants of the histories of the publishing domain: a request key is answered by one job for ever,
  and a daily counter stays within its limit.
\<close>

section \<open>Predicates every call keeps\<close>

lemma run_process_creates:
  fixes env :: "'w saga_env" and I :: "('a publish_db_scheme, 'w) run_state \<Rightarrow> bool"
  assumes c: "\<And>r :: 'w publish_context. run_creates env r I"
    and e: "\<And>f job. (\<And>j. quota_part (f j) = quota_part j) \<Longrightarrow> sg_keeps I (set_job job f)"
    and s: "\<And>ref. calls_keep I (sg_resolve_secret env ref)"
  shows "run_process env I db ws i"
proof (intro run_process.intro run_process_axioms.intro e s)
  note w = run_creates.axioms(1) [OF c]
  show "run_quiet env I" by (rule run_reads.axioms(1) [OF run_writes.axioms(1) [OF w]])
  show "sg_valid (\<lambda>s. I s \<and> rn_base s = db) (run_operation env r) (\<lambda>_. I) I" for r :: "'w publish_context"
    by (rule sg_valid_pre [OF sg_valid_keeps [OF run_creates.keep_operation [OF c]]]) simp
  show "sg_keeps I (cancel_job env r)" for r :: "'w publish_context" by (rule run_writes.keep_cancel_job [OF w e])
qed

lemma run_keeps_invariant:
  fixes db :: "'a publish_db_scheme" and w :: 'w
  assumes "run_process env (\<lambda>s :: ('a publish_db_scheme, 'w) run_state. P (rn_db s)) db ws i"
    and "run_publish_task env commits ws i (db, w) = (outcome, (db', w'))" "P db"
  shows "P db'"
proof (cases rule: run_publish_task_keeps [OF assms(2)])
  case (2 s)
  with run_process.keep_process [OF assms(1), of "\<lparr>rn_base = db, rn_db = db, rn_world = w\<rparr>"] assms(3) show ?thesis by simp
qed (use assms(3) in simp)

section \<open>Requests\<close>

definition same_requests :: "request_id list \<Rightarrow> 'a publish_db_scheme \<Rightarrow> bool" where
  "same_requests rs db \<longleftrightarrow> map request_of (publish_jobs db) = rs"

lemma update_job_requests:
  "(\<And>j. request_of (f j) = request_of j) \<Longrightarrow> map request_of (publish_jobs (update_publish_job i f db)) = map request_of (publish_jobs db)"
  by (simp add: update_publish_job_def update_where_def)

lemma same_requests_keeps:
  shows "sg_keeps (\<lambda>s. same_requests rs (rn_db s)) (modify_db (update_quota i g))"
    "(\<And>j. request_of (f j) = request_of j) \<Longrightarrow> sg_keeps (\<lambda>s. same_requests rs (rn_db s)) (set_job job f)"
  by (auto intro!: sg_keepsI simp: same_requests_def modify_db_def update_quota_def set_job_def update_job_requests)

lemma same_requests_quota:
  "sg_keeps (\<lambda>s. same_requests rs (rn_db s)) (complete_quota env job)"
  "sg_keeps (\<lambda>s. same_requests rs (rn_db s)) (release_quota env job reverse)"
  unfolding complete_quota_def release_quota_def job_usage_def the_job_def
  by (intro run_keeps same_requests_keeps; simp add: request_of_def)+

interpretation same_requests: run_creates env r "\<lambda>s. same_requests rs (rn_db s)" for env :: "'w saga_env" and r rs
  by unfold_locales
    (simp_all add: same_requests_quota calls_keep_def, auto simp: quiet_change_def same_jobs_def same_requests_def
      dest: quota_view_requests)

lemma run_requests:
  assumes "run_publish_task env commits ws i (db, w) = (outcome, (db', w'))"
  shows "map request_of (publish_jobs db') = map request_of (publish_jobs db)"
proof -
  have "request_of (f j) = request_of j" if "\<And>j. quota_part (f j) = quota_part j" for f and j :: publish_job
    using that [of j] by (simp add: quota_part_def)
  then have "run_process env (\<lambda>s :: ('a publish_db_scheme, 'w) run_state. same_requests (map request_of (publish_jobs db)) (rn_db s)) db ws i"
    for env :: "'w saga_env" and db :: "'a publish_db_scheme"
    by (intro run_process_creates same_requests.run_creates_axioms same_requests_keeps) (simp_all add: calls_keep_def)
  from run_keeps_invariant [OF this assms] show ?thesis by (simp add: same_requests_def)
qed

definition request_ident :: "request_id \<Rightarrow> uuid \<times> uuid \<times> PublishOperation \<times> string" where
  "request_ident = (\<lambda>(i, ws, u, op, k, h, m). (ws, u, op, k))"

lemma find_request:
  "map_option request_of (find_request_job p op key db) =
     List.find (\<lambda>q. request_ident q = (workspace_id p, subject_id p, op, key)) (map request_of (publish_jobs db))"
  by (simp add: find_request_job_def find_map o_def request_ident_def request_of_def)

definition keys_unique :: "'a publish_db_scheme \<Rightarrow> bool" where
  "keys_unique db \<longleftrightarrow> distinct (map (request_ident \<circ> request_of) (publish_jobs db))"

lemma outcome_requests:
  assumes "request_outcome env p op key db x db'"
  shows "\<exists>new. map request_of (publish_jobs db') = map request_of (publish_jobs db) @ new
    \<and> (\<forall>q \<in> set new. request_ident q = (workspace_id p, subject_id p, op, key) \<and> find_request_job p op key db = None) \<and> length new \<le> 1"
  using assms unfolding request_outcome_def
proof (elim disjE exE conjE)
  fix d assume d: "jr_operation d = op" "jr_idempotency_key d = key" "find_request_job p op key db = None"
    and "insert_publish_job env p d db = Inr (x, db')"
  then obtain i where "map request_of (publish_jobs db') = map request_of (publish_jobs db) @ [request_of (job_row (ev_hash env) p d i)]"
    by (elim insert_publish_job_Inr)
  then show ?thesis using d by (auto simp: request_of_def request_ident_def job_row_def)
qed auto

lemma changed_requests:
  assumes "repo_flush resource db (update_publish_job i f db) = Inr db1" "\<And>j. request_of (f j) = request_of j"
    "publish_jobs db' = publish_jobs db1"
  shows "map request_of (publish_jobs db') = map request_of (publish_jobs db)"
  using quota_view_requests [OF flush_jobs(4) [OF assms(1)]] assms(2,3) by (simp add: update_job_requests)

lemma cancel_requests:
  "cancel_publish_job t p i n reason db = Inr (job, db') \<Longrightarrow> map request_of (publish_jobs db') = map request_of (publish_jobs db)"
  by (auto simp: cancel_publish_job_def bind_result_eq_Inr request_of_def publish_record_jobs split: if_splits
      elim!: changed_requests)

lemma retry_requests:
  "retry_publish_job t p i n reason db = Inr (job, db') \<Longrightarrow> map request_of (publish_jobs db') = map request_of (publish_jobs db)"
  by (auto simp: retry_publish_job_def bind_result_eq_Inr request_of_def publish_record_jobs split: if_splits
      elim!: changed_requests)

lemma outcome_keys:
  assumes "request_outcome e p op key db x db'"
  shows "(\<exists>new. map request_of (publish_jobs db') = map request_of (publish_jobs db) @ new) \<and> (keys_unique db \<longrightarrow> keys_unique db')"
proof -
  obtain new where new: "map request_of (publish_jobs db') = map request_of (publish_jobs db) @ new"
    "\<And>q. q \<in> set new \<Longrightarrow> request_ident q = (workspace_id p, subject_id p, op, key) \<and> find_request_job p op key db = None"
    "length new \<le> 1" using outcome_requests [OF assms] by metis
  have old: "request_ident q \<notin> request_ident ` request_of ` set (publish_jobs db)" if "q \<in> set new" for q
  proof -
    have "find_request_job p op key db = None" and q: "request_ident q = (workspace_id p, subject_id p, op, key)"
      using new(2) [OF that] by simp_all
    with find_request [of p op key db, symmetric]
    have "List.find (\<lambda>q. request_ident q = (workspace_id p, subject_id p, op, key)) (map request_of (publish_jobs db)) = None"
      by simp
    then have "\<forall>j \<in> set (publish_jobs db). request_ident (request_of j) \<noteq> (workspace_id p, subject_id p, op, key)"
      by (simp add: find_map find_None_iff del: split_paired_All)
    then show ?thesis unfolding q by force
  qed
  have "keys_unique db'" if "keys_unique db"
    using that new(1,3) old by (cases new) (auto simp: keys_unique_def simp flip: map_map)
  with new(1) show ?thesis by blast
qed

lemma same_keys:
  "map request_of (publish_jobs db') = map request_of (publish_jobs db)
   \<Longrightarrow> (\<exists>new. map request_of (publish_jobs db') = map request_of (publish_jobs db) @ new) \<and> (keys_unique db \<longrightarrow> keys_unique db')"
  by (simp add: keys_unique_def flip: map_map)

lemma publish_step_requests:
  assumes "publish_step env s s'"
  shows "(\<exists>new. map request_of (publish_jobs (fst s')) = map request_of (publish_jobs (fst s)) @ new)
    \<and> (keys_unique (fst s) \<longrightarrow> keys_unique (fst s'))"
  using assms
proof (induction rule: publish_step.induct)
  case (Run t commits ws i db w outcome s)
  show ?case unfolding fst_conv by (rule same_keys) (use Run in \<open>cases s, auto dest: run_requests\<close>)
next
  case (Elsewhere db' db w)
  show ?case unfolding fst_conv by (rule same_keys) (simp add: Elsewhere)
qed (simp_all only: fst_conv, (rule outcome_keys same_keys;
    erule create_publish_job_outcome update_published_post_outcome delete_published_post_outcome
      reconcile_published_post_outcome rollback_published_post_outcome cancel_requests retry_requests)+)

lemma publish_reachable_keys: "publish_reachable env s \<Longrightarrow> keys_unique (fst s)"
proof (induction rule: publish_reachable.induct)
  case (Start db w)
  then show ?case by (simp add: keys_unique_def)
qed (auto dest: publish_step_requests)

lemma publish_steps_requests:
  "(publish_step env)\<^sup>*\<^sup>* s s' \<Longrightarrow>
     \<exists>new. map request_of (publish_jobs (fst s')) = map request_of (publish_jobs (fst s)) @ new"
  by (induction rule: rtranclp_induct) (auto dest!: publish_step_requests)

lemma request_stays:
  assumes "(publish_step env)\<^sup>*\<^sup>* s s'" "find_request_job p op key (fst s) = Some job"
  obtains job' where "find_request_job p op key (fst s') = Some job'" "request_of job' = request_of job"
proof -
  from publish_steps_requests [OF assms(1)]
  have "map_option request_of (find_request_job p op key (fst s')) = Some (request_of job)"
    using find_request [of p op key "fst s", symmetric] assms(2) by (auto simp: find_request find_append)
  then show ?thesis by (auto intro: that)
qed

section \<open>Daily counters\<close>

definition counter_ok :: "quota_usage \<Rightarrow> bool" where
  "counter_ok u \<longleftrightarrow> 0 \<le> qu_completed_count u \<and> 0 \<le> qu_reserved_count u \<and> qu_reserved_count u \<le> qu_quota_limit u"

definition counters_ok :: "'a publish_db_scheme \<Rightarrow> bool" where
  "counters_ok db \<longleftrightarrow> (\<forall>u \<in> set (quota_usages db). counter_ok u \<and> qu_id u < uuid_supply db)
     \<and> distinct (map qu_id (quota_usages db))"

lemma counters_view:
  assumes "counters_ok db" "fst (quota_view db') = fst (quota_view db)" "uuid_supply db \<le> uuid_supply db'"
  shows "counters_ok db'"
proof -
  let ?v = "\<lambda>u. u\<lparr>qu_lock_version := 0\<rparr>"
  have m: "map ?v (quota_usages db') = map ?v (quota_usages db)" using assms(2) by (simp add: quota_view_def)
  then have "map qu_id (map ?v (quota_usages db')) = map qu_id (map ?v (quota_usages db))" by simp
  then have ids: "map qu_id (quota_usages db') = map qu_id (quota_usages db)" by (simp add: o_def)
  have "\<exists>u0 \<in> set (quota_usages db). ?v u = ?v u0" if "u \<in> set (quota_usages db')" for u
    using that m by (metis (no_types, lifting) image_iff list.set_map)
  moreover have "counter_ok u \<and> qu_id u = qu_id u0" if "?v u = ?v u0" "counter_ok u0" for u u0
    using that by (simp add: counter_ok_def) (metis quota_usage.select_convs quota_usage.surjective quota_usage.update_convs(12))
  ultimately show ?thesis using assms(1,3) ids unfolding counters_ok_def by (metis less_le_trans)
qed

lemma counters_update:
  assumes "counters_ok db" "\<And>u. qu_id (f u) = qu_id u"
    "\<And>u. u \<in> set (quota_usages db) \<Longrightarrow> qu_id u = i \<Longrightarrow> counter_ok u \<Longrightarrow> counter_ok (f u)"
  shows "counters_ok (update_quota i f db)"
proof -
  have "map qu_id (quota_usages (update_quota i f db)) = map qu_id (quota_usages db)"
    using assms(2) by (simp add: update_quota_def map_update_where)
  then have "distinct (map qu_id (quota_usages (update_quota i f db)))" using assms(1) by (simp add: counters_ok_def)
  with assms show ?thesis unfolding counters_ok_def by (auto simp: update_quota_def set_update_where)
qed

lemma counters_keeps:
  shows "(\<And>u. qu_id (f u) = qu_id u) \<Longrightarrow> (\<And>u. counter_ok u \<Longrightarrow> counter_ok (f u))
      \<Longrightarrow> sg_keeps (\<lambda>s. counters_ok (rn_db s)) (modify_db (update_quota i f))"
    "sg_keeps (\<lambda>s. counters_ok (rn_db s)) (set_job job g)"
  by (auto intro!: sg_keepsI counters_update simp: modify_db_def set_job_def)
    (simp add: counters_ok_def update_publish_job_def)

lemma job_usage_current:
  "sg_valid (\<lambda>s. counters_ok (rn_db s)) (job_usage env job)
    (\<lambda>found s. counters_ok (rn_db s) \<and> (\<forall>u. found = Some u \<longrightarrow> (\<forall>v \<in> set (quota_usages (rn_db s)). qu_id v = qu_id u \<longrightarrow> v = u)))
    (\<lambda>s. counters_ok (rn_db s))"
proof -
  have "v = current qu_id (quota_usages db) b"
    if "counters_ok db" "v \<in> set (quota_usages db)" "qu_id v = qu_id (current qu_id (quota_usages db) b)"
    for db :: "'a publish_db_scheme" and v b
  proof (cases "List.find (\<lambda>x. qu_id x = qu_id b) (quota_usages db)")
    case None
    with that show ?thesis by (auto simp: current_def find_None_iff)
  next
    case (Some x)
    then have "x \<in> set (quota_usages db)" by (auto dest: find_SomeD)
    with that Some show ?thesis by (auto simp: current_def counters_ok_def distinct_map dest: inj_onD)
  qed
  then show ?thesis unfolding job_usage_def by (intro sg_valid_gets) auto
qed

lemma counters_quota:
  "sg_keeps (\<lambda>s. counters_ok (rn_db s)) (complete_quota env job)"
  "sg_keeps (\<lambda>s. counters_ok (rn_db s)) (release_quota env job reverse)"
proof -
  let ?I = "\<lambda>s. counters_ok (rn_db s)"
  show "sg_keeps ?I (complete_quota env job)"
    unfolding complete_quota_def job_usage_def the_job_def
    by (intro run_keeps counters_keeps) (simp_all add: counter_ok_def)
  have less: "sg_valid (\<lambda>s. ?I s \<and> (\<forall>v \<in> set (quota_usages (rn_db s)). qu_id v = qu_id u \<longrightarrow> v = u))
      (sg_then (modify_db (update_quota (qu_id u) (\<lambda>u. u\<lparr>qu_reserved_count := qu_reserved_count u - 1\<rparr>))) (set_job job g)) (\<lambda>_. ?I) ?I"
    if "qu_completed_count u < qu_reserved_count u" for u g
  proof (rule sg_valid_bind [where R = "\<lambda>_. ?I", OF sg_valid_modify])
    show "counters_ok (rn_db (s\<lparr>rn_db := update_quota (qu_id u) (\<lambda>u. u\<lparr>qu_reserved_count := qu_reserved_count u - 1\<rparr>) (rn_db s)\<rparr>))"
      if s: "?I s \<and> (\<forall>v \<in> set (quota_usages (rn_db s)). qu_id v = qu_id u \<longrightarrow> v = u)" for s
    proof -
      have "counter_ok (v\<lparr>qu_reserved_count := qu_reserved_count v - 1\<rparr>)"
        if "v \<in> set (quota_usages (rn_db s))" "qu_id v = qu_id u" "counter_ok v" for v
        using s that \<open>qu_completed_count u < qu_reserved_count u\<close> by (auto simp: counter_ok_def)
      with s show ?thesis by (auto intro: counters_update)
    qed
  qed (rule sg_valid_keeps [OF counters_keeps(2)])
  have reverse: "sg_keeps ?I (modify_db (update_quota i (\<lambda>u. u\<lparr>qu_completed_count := max 0 (qu_completed_count u - 1),
      qu_reserved_count := max 0 (qu_reserved_count u - 1)\<rparr>)))" for i
    by (intro counters_keeps) (auto simp: counter_ok_def)
  show "sg_keeps ?I (release_quota env job reverse)"
    unfolding release_quota_def the_job_def
    apply (rule keep_bind [OF keep_gets], rule keep_if [OF keep_return])
    unfolding sg_keeps_def
    apply (rule sg_valid_bind [OF job_usage_current])
    subgoal for j found
      by (cases found)
        (auto intro!: sg_valid_return sg_valid_pre [OF sg_valid_keeps [OF keep_bind [OF reverse counters_keeps(2)]]]
          sg_valid_pre [OF less])
    done
qed

interpretation counters: run_creates env r "\<lambda>s. counters_ok (rn_db s)" for env :: "'w saga_env" and r
proof unfold_locales
  show "counters_ok (rn_db s')" if "counters_ok (rn_db s)" "quiet_change s s'" for s s' :: "('a publish_db_scheme, 'w) run_state"
    by (rule counters_view [OF that(1)]) (use that(2) in \<open>auto simp: quiet_change_def same_jobs_def\<close>)
qed (simp_all add: counters_quota calls_keep_def)

lemma run_counters:
  assumes "run_publish_task env commits ws i (db, w) = (outcome, (db', w'))" "counters_ok db"
  shows "counters_ok db'"
proof -
  have "run_process env (\<lambda>s :: ('a publish_db_scheme, 'w) run_state. counters_ok (rn_db s)) db ws i"
    for env :: "'w saga_env" and db :: "'a publish_db_scheme"
    by (intro run_process_creates counters.run_creates_axioms counters_keeps) (simp add: calls_keep_def)
  from run_keeps_invariant [OF this assms] show ?thesis .
qed

lemma counters_cong:
  "quota_usages db' = quota_usages db \<Longrightarrow> uuid_supply db \<le> uuid_supply db' \<Longrightarrow> counters_ok db \<Longrightarrow> counters_ok db'"
  by (erule counters_view) (simp_all add: quota_view_def)

lemma reserve_counters:
  assumes "reserve_quota ws c policy channel day db = Inr db'" "counters_ok db"
  shows "counters_ok db'"
proof -
  obtain limit where q: "quota_for (pp_daily_quotas policy) (provider_value (pc_provider c)) channel = Inr (Some limit)"
    using assms(1) unfolding reserve_quota_def bind_result_eq_Inr by (elim exE conjE, rename_tac found, case_tac found) auto
  then have "0 < limit" by (auto simp: quota_for_def Let_def split: option.splits if_splits)
  note r = assms(1) [unfolded reserve_quota_def q bind_result_Inr option.case]
  show ?thesis
  proof (cases "List.find (\<lambda>u. quota_row ws (pc_id c) channel day u \<and> qu_provider u = pc_provider c) (quota_usages db)")
    case None
    have "uuid_supply db \<notin> qu_id ` set (quota_usages db)" using assms(2) by (force simp: counters_ok_def)
    with None r \<open>0 < limit\<close> assms(2) show ?thesis
      unfolding counters_ok_def by (auto simp: uuid4_def Let_def counter_ok_def less_SucI)
  next
    case (Some u)
    then have u: "u \<in> set (quota_usages db)" by (auto dest: find_SomeD)
    have "v = u" if "v \<in> set (quota_usages db)" "qu_id v = qu_id u" for v
      using that u assms(2) by (auto simp: counters_ok_def distinct_map dest: inj_onD)
    then have "counter_ok (v\<lparr>qu_policy_id := pp_id policy, qu_quota_limit := limit, qu_reserved_count := qu_reserved_count v + 1\<rparr>)"
      if "v \<in> set (quota_usages db)" "qu_id v = qu_id u" "counter_ok v" for v
      using that r Some by (force simp: counter_ok_def split: if_splits)
    then show ?thesis
      using r Some assms(2) by (auto split: if_splits intro: counters_update)
  qed
qed

lemma outcome_counters:
  assumes "request_outcome e p op key db x db'" "counters_ok db"
  shows "counters_ok db'"
  using assms(1) unfolding request_outcome_def
proof (elim disjE exE conjE)
  fix d assume "insert_publish_job e p d db = Inr (x, db')"
  then obtain db1 where "(if jr_reserve_quota d
        then reserve_quota (workspace_id p) (jr_connection d) (jr_policy d) (rc_channel (jr_ready d))
               (sd_local_day (jr_schedule d)) db
        else Inr db) = Inr db1" "fst (quota_view db') = fst (quota_view db1)" "uuid_supply db1 \<le> uuid_supply db'"
    by (elim insert_publish_job_Inr) auto
  then show ?thesis using assms(2) by (auto split: if_splits intro: counters_view reserve_counters)
qed (use assms(2) in simp)

lemma changed_counters:
  assumes "repo_flush resource db (update_publish_job i f db) = Inr db1" "counters_ok db"
    "quota_usages db' = quota_usages db1" "uuid_supply db1 \<le> uuid_supply db'"
  shows "counters_ok db'"
proof -
  have "counters_ok (update_publish_job i f db)" by (rule counters_cong [OF _ _ assms(2)]) (simp_all add: update_publish_job_def)
  then have "counters_ok db1" by (rule counters_view) (use flush_jobs [OF assms(1)] in simp_all)
  then show ?thesis by (rule counters_cong [OF assms(3,4)])
qed

lemma cancel_counters: "cancel_publish_job t p i n reason db = Inr (job, db') \<Longrightarrow> counters_ok db \<Longrightarrow> counters_ok db'"
  by (auto simp: cancel_publish_job_def bind_result_eq_Inr publish_record_jobs split: if_splits elim!: changed_counters)

lemma retry_counters: "retry_publish_job t p i n reason db = Inr (job, db') \<Longrightarrow> counters_ok db \<Longrightarrow> counters_ok db'"
  by (auto simp: retry_publish_job_def bind_result_eq_Inr publish_record_jobs split: if_splits elim!: changed_counters)

lemma publish_step_counters:
  assumes "publish_step env s s'" "counters_ok (fst s)"
  shows "counters_ok (fst s')"
  using assms
proof (induction rule: publish_step.induct)
  case (Run t commits ws i db w outcome s)
  then show ?case by (cases s) (auto dest: run_counters)
next
  case (Elsewhere db' db w)
  then show ?case by (auto intro: counters_cong)
qed (simp_all only: fst_conv, (assumption | erule (1) cancel_counters retry_counters | rule outcome_counters,
    erule create_publish_job_outcome update_published_post_outcome delete_published_post_outcome
      reconcile_published_post_outcome rollback_published_post_outcome)+)

lemma publish_reachable_counters: "publish_reachable env s \<Longrightarrow> counters_ok (fst s)"
proof (induction rule: publish_reachable.induct)
  case (Start db w)
  then show ?case by (simp add: counters_ok_def)
qed (rule publish_step_counters)

section \<open>Answers to a repeated request\<close>

lemma request_replayed:
  assumes "find_request_job p PublishOperation.CREATE key db = Some job" "key \<noteq> []" "length key \<le> 255"
  shows "create_publish_job e p cid d key db =
    (if ev_hash e (publish_request_json cid d) = pj_request_hash job then Inr ((job, False), db)
     else Inl (app_error ''IDEMPOTENCY_KEY_REUSED'' 409))"
  using assms by (auto simp: create_publish_job_def existing_publish_job_def assert_same_request_def ensure_def Let_def)

lemma request_accepted:
  assumes "create_publish_job e p cid d key db = Inr ((job, new), db')"
  shows "key \<noteq> [] \<and> length key \<le> 255 \<and> pj_request_hash job = ev_hash e (publish_request_json cid d)
    \<and> (\<exists>job'. find_request_job p PublishOperation.CREATE key db' = Some job' \<and> request_of job' = request_of job)"
proof -
  let ?h = "ev_hash e (publish_request_json cid d)"
  obtain found where ex: "existing_publish_job p PublishOperation.CREATE key ?h db = Inr found"
    using assms by (auto simp: create_publish_job_def bind_result_eq_Inr Let_def)
  then have key: "key \<noteq> []" "length key \<le> 255" by (auto simp: existing_publish_job_def split: if_splits)
  show ?thesis
  proof (cases found)
    case (Some old)
    then have "job = old" "db' = db" using assms ex by (simp_all add: create_publish_job_def Let_def)
    with existing_publish_job_Inr [OF ex [unfolded Some]] key show ?thesis by blast
  next
    case None
    then have none: "find_request_job p PublishOperation.CREATE key db = None"
      using ex key by (auto simp: existing_publish_job_def bind_result_eq_Inr split: option.splits)
    have "\<exists>r. create_job e p r db = Inr ((job, new), db') \<and> jr_operation r = PublishOperation.CREATE
        \<and> jr_idempotency_key r = key \<and> jr_request_hash r = ?h"
      using assms ex None unfolding create_publish_job_def Let_def
      by (simp add: bind_result_eq_Inr) (elim exE conjE, rule exI, rule conjI, assumption, simp)
    then obtain r where r: "jr_operation r = PublishOperation.CREATE" "jr_idempotency_key r = key" "jr_request_hash r = ?h"
      and "create_job e p r db = Inr ((job, new), db')" by blast
    then have "insert_publish_job e p r db = Inr ((job, new), db')" using ex None by (simp add: create_job_def)
    then obtain i where i: "(job, new) = (job_row (ev_hash e) p r i, True)"
      "map request_of (publish_jobs db') = map request_of (publish_jobs db) @ [request_of (job_row (ev_hash e) p r i)]"
      by (elim insert_publish_job_Inr)
    have "request_ident (request_of job) = (workspace_id p, subject_id p, PublishOperation.CREATE, key)"
      using i(1) r by (simp add: request_ident_def request_of_def job_row_def)
    then have "map_option request_of (find_request_job p PublishOperation.CREATE key db') = Some (request_of job)"
      using i find_request [of p PublishOperation.CREATE key db, symmetric] none by (simp add: find_request find_append)
    then show ?thesis using key i(1) r by (auto simp: job_row_def)
  qed
qed

end
