(* ===== verification/Publish_Demo.thy ===== *)
theory Publish_Demo
  imports Publish_Delivery Publish_Safety Publish_Keys Approval_Properties
begin

text \<open>
  A concrete site for the witnesses of the publishing properties: an approved content, an active connection,
  a policy, a provider that keeps the posts it created, one request to publish, and a run of its job that
  ends at once because the recorded snapshots do not match.
\<close>

section \<open>Provider and environment\<close>

definition demo_post :: remote_post where
  "demo_post = \<lparr>rp_remote_id = ''7'', rp_remote_url = ''https://b.example/7'', rp_state = ''publish'', rp_etag = None,
     rp_updated_at = None, rp_snapshot = [], rp_remote_hash = ''h''\<rparr>"

definition demo_call :: "'r \<Rightarrow> 'r provider_call" where
  "demo_call v = \<lparr>cl_value = v, cl_method = ''POST'', cl_endpoint_path = ''/posts'', cl_status_code = 200,
     cl_provider_request_id = None, cl_request_metadata = [], cl_response_metadata = []\<rparr>"

type_synonym demo_world = "(string \<times> string) list"

definition answers :: "'r \<Rightarrow> (demo_world, 'r) cms_op" where
  "answers v = (\<lambda>cx secret w. (Value (demo_call v), w))"

definition demo_cms :: "demo_world cms" where
  "demo_cms = \<lparr>
     cms_find_by_marker = (\<lambda>m cx secret w. (Value (demo_call (if (cx_site_url cx, m) \<in> set w then Some demo_post else None)), w)),
     cms_create_post = (\<lambda>d cx secret w. (Value (demo_call demo_post), w @ [(cx_site_url cx, dc_idempotency_marker d)])),
     cms_get_post = (\<lambda>i. answers demo_post), cms_update_post = (\<lambda>p d. answers demo_post),
     cms_delete_post = (\<lambda>p f. answers demo_post), cms_cancel_scheduled = (\<lambda>p. answers demo_post),
     cms_upload_media = (\<lambda>b. answers \<lparr>um_remote_id = ''m'', um_remote_url = ''https://b.example/m'', um_placement_key = ''k''\<rparr>),
     cms_restore_snapshot = (\<lambda>p n. answers demo_post)\<rparr>"

definition utc :: zone_db where
  "utc name = Inr (Some (\<lambda>f t. t, \<lambda>t. (t, 0)))"

definition demo_env :: "demo_world saga_env" where
  "demo_env = \<lparr>ev_hash = plain_hash, ev_now = 50, ev_zones = utc, ev_other = no_repr,
     ev_url = \<lparr>ue_bracket_ok = (\<lambda>s. True), ue_idna = Some, ue_public_ip = (\<lambda>s. None)\<rparr>,
     sg_registry = (\<lambda>pr k. Some demo_cms), sg_resolve_secret = (\<lambda>ref w. (Value [], w)),
     sg_resolve_media = (\<lambda>ref h w. (Value [], w)), sg_render = (\<lambda>d u t a. \<lparr>rx_html = [], rx_unsupported = []\<rparr>)\<rparr>"

section \<open>Tables\<close>

definition demo_connection :: publishing_connection where
  "demo_connection = \<lparr>pc_id = 20, pc_workspace_id = 2, pc_provider = PublishingProvider.WORDPRESS, pc_name = ''blog'',
     pc_site_url = ''https://b.example'', pc_site_timezone = ''UTC'', pc_remote_site_id = None,
     pc_official_contract = ''wp'', pc_api_version = ''2'', pc_api_deprecation_at = None, pc_credential_expires_at = None,
     pc_credential_expiry_notified_for = None, pc_credential_secret_ref = ''vault://k'', pc_state = ConnectionState.ACTIVE,
     pc_capabilities = [''publish''], pc_safe_config_json = [], pc_site_settings_snapshot = [],
     pc_site_settings_hash = None, pc_last_diagnosed_at = None, pc_last_success_at = None, pc_last_error_code = None,
     pc_disconnected_at = None, pc_created_by = 1, pc_lock_version = 1\<rparr>"

definition demo_policy :: publication_policy where
  "demo_policy = \<lparr>pp_id = 21, pp_workspace_id = 2, pp_version = 1, pp_daily_quotas = [(''default'', 3)],
     pp_max_schedule_days = 30, pp_allowed_providers = [PublishingProvider.WORDPRESS], pp_require_media_license = True,
     pp_allowed_custom_contracts = [], pp_naver_policy_version = ''1'', pp_snapshot_json = JNull, pp_snapshot_hash = ''h'',
     pp_created_by = 1\<rparr>"

definition site_item :: content_item where
  "site_item = demo_item\<lparr>ct_channel := ''WORDPRESS''\<rparr>"

definition site_db :: publish_db where
  "site_db = \<lparr>uuid_supply = 200, request_id_context = None, audit_logs = [], outbox_events = [],
     idempotency_records = [], contents = [site_item], input_snapshots = [], generation_jobs = [],
     generation_job_steps = [], generation_job_commands = [], model_runs = [], content_versions = [demo_version],
     content_blocks = [], collaboration_events = [], feedbacks = [], templates = [],
     template_versions = [], active_members = [(2, 1)], quality_configs = [], rule_sets = [],
     quality_reports = [], report_details = [], quality_assessments = [demo_assessment], policy_events = [],
     policy_overrides = [], approval_requests = [demo_approved], approval_decisions = [],
     approval_state_events = [], quality_activities = [], jsonb_document = (\<lambda>d. d),
     media_assets = [], media_versions = [], media_licenses = [], license_revisions = [], media_usages = [],
     connections = [demo_connection], connection_jobs = [], policies = [demo_policy], quota_usages = [],
     publish_jobs = [], saga_steps = [], publish_attempts = [], published_posts = [], remote_snapshots = [],
     media_bindings = [], publishing_notifications = []\<rparr>"

definition demo_options :: publish_options where
  "demo_options = \<lparr>op_slug = None, op_excerpt = None, op_category_ids = [], op_category_names = [], op_tags = [],
     op_create_missing_taxonomy = False, op_remote_author_id = None, op_featured_media_placement = None,
     op_canonical_url = None, op_comment_status = None, op_newsletter_id = None, op_send_newsletter = False,
     op_member_visibility = None, op_tracking = [], op_allowed_meta = [], op_unsupported_block_policy = ''REJECT''\<rparr>"

definition demo_create :: publish_create where
  "demo_create = \<lparr>sr_visibility = PublishVisibility.PUBLISH, sr_scheduled_at_utc = None, sr_scheduled_local = None,
     sr_site_timezone = None, sr_dst_fold = None, pr_content_version_id = 101, pr_content_hash = ''h'',
     pr_approval_request_id = 138, pr_connection_id = 20, pr_options = demo_options\<rparr>"

section \<open>The request\<close>

lemma site_ready: "publish_ready 2 100 101 ''h'' 138 ''WORDPRESS'' site_db = Inr (site_item, demo_version, demo_approved)"
  by (simp add: publish_ready_def live_content_def site_db_def site_item_def demo_rows approval_ready_def
      assessment_of_approval_def demo_assessment_fields demo_approved_def demo_pending_fields decided_def Let_def
      touch_config_hash)

definition site_content :: PublishReadyContent where
  "site_content = ready_content plain_hash (cv_document demo_version) site_item demo_version demo_approved []"

definition demo_penv :: publish_env where
  "demo_penv = publish_env.truncate demo_env"

lemma penv: "ev_hash demo_penv = plain_hash" "ev_now demo_penv = 50" "ev_zones demo_penv = utc" 
  by (simp_all add: demo_penv_def demo_env_def publish_env.truncate_def)

lemma site_resolved: "resolve_ready demo_penv 2 100 101 ''h'' 138 demo_connection demo_policy site_db = Inr site_content"
  by (simp add: resolve_ready_def resolve_publish_ready_def demo_connection_def demo_policy_def penv site_ready
     resolve_media_def media_rows_def Let_def site_content_def) (simp add: site_db_def stored_document_def)

lemma site_rows: "find_connection 2 20 site_db = Inr demo_connection" "latest_policy 2 site_db = Inr demo_policy"
  "find_request_job editor op key site_db = None"
  by (simp_all add: find_connection_def latest_policy_def find_row_def site_db_def demo_connection_def demo_policy_def find_request_job_def)

definition demo_schedule :: publish_schedule where
  "demo_schedule = \<lparr>sd_scheduled_datetime = 50, sd_local_datetime = 50, sd_dst_fold = Some 0, sd_local_day = 0\<rparr>"

lemma site_schedule: "schedule_for demo_penv demo_connection demo_policy demo_create = Inr demo_schedule"
  by (simp add: schedule_for_def demo_create_def schedule_now_def local_reading_def penv utc_def demo_schedule_def date_of_def)

definition demo_job_request :: job_request where
  "demo_job_request = \<lparr>jr_operation = PublishOperation.CREATE, jr_ready = site_content, jr_connection = demo_connection,
       jr_policy = demo_policy, jr_target_post = None, jr_visibility = PublishVisibility.PUBLISH, jr_schedule = demo_schedule,
       jr_idempotency_key = ''k'', jr_request_hash = ''h'',
       jr_input_snapshot = publish_input 100 demo_create site_content demo_connection demo_schedule, jr_reserve_quota = True\<rparr>"

definition demo_job :: publish_job where
  "demo_job = job_row plain_hash editor demo_job_request 201"

definition demo_usage :: quota_usage where
  "demo_usage = \<lparr>qu_id = 200, qu_workspace_id = 2, qu_connection_id = 20, qu_policy_id = 21,
                  qu_provider = PublishingProvider.WORDPRESS, qu_channel = ''WORDPRESS'', qu_local_day = 0,
                  qu_timezone_name = ''UTC'', qu_quota_limit = 3, qu_reserved_count = 1,
                  qu_completed_count = 0, qu_lock_version = 1\<rparr>"

lemma site_channel: "rc_channel site_content = ''WORDPRESS''" 
  by (simp add: site_content_def ready_content_def site_item_def)

definition demo_steps :: "saga_step list" where
  "demo_steps = fst (initial_steps 2 201 1 (initial_kinds PublishOperation.CREATE) (site_db\<lparr>uuid_supply := 202\<rparr>))"

definition job_db :: publish_db where
  "job_db = site_db\<lparr>quota_usages := [demo_usage], uuid_supply := 208, publish_jobs := [demo_job], saga_steps := demo_steps\<rparr>"

lemma site_reserved: "reserve_quota 2 demo_connection demo_policy ''WORDPRESS'' 0 site_db =
   Inr (site_db\<lparr>uuid_supply := 201, quota_usages := [demo_usage]\<rparr>)"
  by (simp add: reserve_quota_def quota_for_def quota_keys_def demo_policy_def demo_connection_def Let_def)
   (simp add: site_db_def uuid4_def demo_usage_def)

lemma site_tables: "publish_jobs site_db = []" "saga_steps site_db = []" "uuid_supply site_db = 200"
  by (simp_all add: site_db_def)

lemma site_inserted: "\<exists>ds. insert_publish_job demo_penv editor demo_job_request site_db =
   Inr ((demo_job, True), publish_record editor 50 ''publishing.job.scheduled'' ''publish_job'' 201 ds job_db)"
proof -
  have steps: "initial_steps 2 201 1 (initial_kinds PublishOperation.CREATE) (site_db\<lparr>quota_usages := [demo_usage], uuid_supply := 202\<rparr>)
    = (demo_steps, site_db\<lparr>quota_usages := [demo_usage], uuid_supply := 208\<rparr>)"
    by (simp add: demo_steps_def uuid4_def Let_def)
  have flush: "repo_flush ''publish_job'' site_db job_db = Inr job_db"
    by (simp add: repo_flush_def flush_publish_def flush_rows_def publish_lengths_def publish_constraints_def unique_rows_def
        job_db_def demo_steps_def uuid4_def Let_def site_db_def new_saga_step_def opt_within_def demo_job_def job_row_def demo_usage_def)
  have reserved: "reserve_quota (workspace_id editor) (jr_connection demo_job_request) (jr_policy demo_job_request)
      (rc_channel (jr_ready demo_job_request)) (sd_local_day (jr_schedule demo_job_request)) site_db
      = Inr (site_db\<lparr>uuid_supply := 201, quota_usages := [demo_usage]\<rparr>)"
    by (simp add: demo_job_request_def site_channel demo_schedule_def site_reserved)
  have job: "job_row plain_hash editor demo_job_request 201 = demo_job" by (simp add: demo_job_def)
  have fields: "jr_reserve_quota demo_job_request" "jr_operation demo_job_request = PublishOperation.CREATE"
    "jr_visibility demo_job_request = PublishVisibility.PUBLISH" by (simp_all add: demo_job_request_def)
  show ?thesis
    unfolding insert_publish_job_def if_P [OF fields(1)] reserved bind_result_Inr fields
    using flush
    by (simp add: uuid4_def job steps penv Let_def job_db_def site_tables del: initial_kinds.simps)
      (rule exI, rule refl)
qed

lemma site_checks:
  "assert_connection_active demo_connection = Inr ()" "assert_publish_capability demo_connection PublishVisibility.PUBLISH = Inr ()"
  "assert_provider_policy demo_policy demo_connection = Inr ()" "validate_options demo_penv demo_options demo_connection = Inr ()"
  "validate_featured_media demo_options site_content = Inr ()"
  by (simp_all add: assert_connection_active_def assert_publish_capability_def assert_provider_policy_def validate_options_def
      check_meta_def check_taxonomy_def check_option_capabilities_def option_capabilities_def validate_featured_media_def
      ensure_def truthy_text_def demo_connection_def demo_policy_def demo_options_def Let_def)

lemma demo_create_fields: "pr_connection_id demo_create = 20" "sr_visibility demo_create = PublishVisibility.PUBLISH"
  "pr_content_version_id demo_create = 101" "pr_content_hash demo_create = ''h''" "pr_approval_request_id demo_create = 138"
  "pr_options demo_create = demo_options"
  by (simp_all add: demo_create_def)

lemma site_created: "\<exists>ds. create_publish_job demo_penv editor 100 demo_create ''k'' site_db =
   Inr ((demo_job, True), publish_record editor 50 ''publishing.job.scheduled'' ''publish_job'' 201 ds job_db)"
proof -
  have "create_publish_job demo_penv editor 100 demo_create ''k'' site_db = insert_publish_job demo_penv editor demo_job_request site_db"
    by (simp add: create_publish_job_def existing_publish_job_def site_rows penv Let_def site_checks demo_create_fields
       site_schedule site_resolved create_job_def demo_job_request_def plain_hash_def)
  with site_inserted show ?thesis by simp
qed

definition created_db :: publish_db where
  "created_db = (case create_publish_job demo_penv editor 100 demo_create ''k'' site_db of Inr (x, db) \<Rightarrow> db | Inl e \<Rightarrow> site_db)"

lemma demo_created: "create_publish_job demo_penv editor 100 demo_create ''k'' site_db = Inr ((demo_job, True), created_db)"
  using site_created by (auto simp: created_db_def)

lemma record_tables:
  "publish_jobs (publish_record p now a tt ti ds db) = publish_jobs db"
  "quota_usages (publish_record p now a tt ti ds db) = quota_usages db"
  "saga_steps (publish_record p now a tt ti ds db) = saga_steps db"
  "connections (publish_record p now a tt ti ds db) = connections db"
  "policies (publish_record p now a tt ti ds db) = policies db"
  "published_posts (publish_record p now a tt ti ds db) = published_posts db"
  "remote_snapshots (publish_record p now a tt ti ds db) = remote_snapshots db"
  "media_bindings (publish_record p now a tt ti ds db) = media_bindings db"
  "publish_attempts (publish_record p now a tt ti ds db) = publish_attempts db"
  by (simp_all add: publish_record_def append_audit_log_def add_outbox_event_def uuid4_def Let_def)

lemma created_tables:
  "publish_jobs created_db = [demo_job]" "quota_usages created_db = [demo_usage]" "saga_steps created_db = demo_steps"
  "connections created_db = [demo_connection]" "policies created_db = [demo_policy]"
  "published_posts created_db = []" "remote_snapshots created_db = []" "media_bindings created_db = []" "publish_attempts created_db = []"
  using site_created by (auto simp: created_db_def record_tables job_db_def site_db_def)

section \<open>A run that ends\<close>

definition fail_env :: "demo_world saga_env" where
  "fail_env = demo_env\<lparr>ev_hash := (\<lambda>j. ''x'')\<rparr>"

lemma demo_job_fields: "pj_id demo_job = 201" "pj_workspace_id demo_job = 2" "pj_requested_by demo_job = 1" "pj_state demo_job = JobState.SCHEDULED"
   "pj_cancel_requested_at demo_job = None" "pj_connection_id demo_job = 20" "pj_policy_id demo_job = 21"
   "pj_operation demo_job = PublishOperation.CREATE" "pj_scheduled_local demo_job = Some 50"
   "pj_quota_completed_at demo_job = None" "pj_quota_released_at demo_job = None" "pj_finished_at demo_job = None"
   "pj_attempt demo_job = 0" "pj_max_attempts demo_job = 3" "pj_error_code demo_job = None"
   "map_of (pj_input_snapshot demo_job) ''channel'' = Some (JStr ''WORDPRESS'')"
  by (simp_all add: demo_job_def job_row_def demo_job_request_def demo_schedule_def demo_connection_def demo_policy_def publish_input_def site_channel)

lemma demo_steps: "demo_steps = map (\<lambda>(n, k). new_saga_step (201 + n) 2 201 (int n) k)
   [(1, SagaStepKind.VALIDATE_READINESS), (2, SagaStepKind.UPLOAD_MEDIA), (3, SagaStepKind.WRITE_POST),
      (4, SagaStepKind.VERIFY_REMOTE), (5, SagaStepKind.SNAPSHOT_REMOTE), (6, SagaStepKind.NOTIFY)]"
  by (simp add: demo_steps_def uuid4_def Let_def)

definition bare_db :: publish_db where
  "bare_db = created_db\<lparr>saga_steps := [], audit_logs := [], outbox_events := []\<rparr>"

lemma bare_tables:
  "publish_jobs bare_db = [demo_job]" "quota_usages bare_db = [demo_usage]" "saga_steps bare_db = []"
  "connections bare_db = [demo_connection]" "policies bare_db = [demo_policy]" "publish_attempts bare_db = []"
  "published_posts bare_db = []" "remote_snapshots bare_db = []" "media_bindings bare_db = []"
  by (simp_all add: bare_db_def created_tables)

lemma not_valid: "\<not> snapshots_valid fail_env demo_job demo_policy"
  by (simp add: snapshots_valid_def fail_env_def demo_policy_def)

definition failed_job :: publish_job where
  "failed_job = demo_job\<lparr>pj_state := JobState.FINAL_FAILED, pj_error_code := Some ''PUBLISH_JOB_SNAPSHOT_MISMATCH'', pj_finished_at := Some 50,
     pj_quota_released_at := Some 50\<rparr>"

definition failed_db :: publish_db where
  "failed_db = bare_db\<lparr>quota_usages := [demo_usage\<lparr>qu_reserved_count := 0\<rparr>], publish_jobs := [failed_job]\<rparr>"

lemma env_fields: "ev_now fail_env = 50" "ev_other fail_env = no_repr"
  by (simp_all add: fail_env_def demo_env_def)

lemma fail_local:
  "set_job demo_job (\<lambda>j. j\<lparr>pj_state := JobState.FINAL_FAILED, pj_error_code := Some ''PUBLISH_JOB_SNAPSHOT_MISMATCH'',
        pj_finished_at := Some (ev_now fail_env)\<rparr>) \<lparr>rn_base = bare_db, rn_db = bare_db, rn_world = w\<rparr>
    = (Value (), \<lparr>rn_base = bare_db, rn_db = bare_db\<lparr>publish_jobs := [failed_job\<lparr>pj_quota_released_at := None\<rparr>]\<rparr>, rn_world = w\<rparr>)"
  "record_local_failure fail_env demo_job code \<lparr>rn_base = bare_db, rn_db = bare_db\<lparr>publish_jobs := [failed_job\<lparr>pj_quota_released_at := None\<rparr>]\<rparr>, rn_world = w\<rparr>
    = (Value (), \<lparr>rn_base = bare_db, rn_db = bare_db\<lparr>publish_jobs := [failed_job\<lparr>pj_quota_released_at := None\<rparr>], saga_steps := []\<rparr>, rn_world = w\<rparr>)"
  "release_uncompleted fail_env demo_job \<lparr>rn_base = bare_db, rn_db = bare_db\<lparr>publish_jobs := [failed_job\<lparr>pj_quota_released_at := None\<rparr>], saga_steps := []\<rparr>, rn_world = w\<rparr>
    = (Value (), \<lparr>rn_base = bare_db, rn_db = failed_db\<lparr>saga_steps := []\<rparr>, rn_world = w\<rparr>)"
  apply (simp add: set_job_def modify_db_def update_publish_job_def bare_tables demo_job_fields failed_job_def env_fields)
  apply (simp add: record_local_failure_def sg_bind_def sg_gets_def bare_tables sg_return_def skip_pending_steps_def the_job_def update_pending_def modify_db_def)
  apply (simp add: release_uncompleted_def sg_bind_def the_job_def sg_gets_def quota_operation_def demo_job_fields failed_job_def current_def
    release_quota_def job_usage_def quota_row_def bare_tables demo_usage_def job_channel_def py_str_def quota_day_def date_of_def update_quota_def modify_db_def
    set_job_def update_publish_job_def env_fields failed_db_def)
  done

lemma run_fails: "fst (run_publish_task fail_env True 2 201 (bare_db, w)) = Some (JobState.FINAL_FAILED, None)"
proof -
  let ?s = "\<lparr>rn_base = bare_db, rn_db = bare_db, rn_world = w\<rparr>"
  let ?t = "\<lparr>rn_base = bare_db, rn_db = failed_db\<lparr>saga_steps := []\<rparr>, rn_world = w\<rparr>"
  let ?tail = "sg_then (notify_and_emit fail_env demo_job ''publishing.job.final_failed''
        [(''error_code'', JStr ''PUBLISH_JOB_SNAPSHOT_MISMATCH''), (''retry_class'', JStr (retry_class_value RetryClass.FINAL))])
      (sg_then (sg_repo_flush ''publish_job'') (sg_bind (the_job demo_job) (\<lambda>j. sg_return (pj_state j, None :: int option))))"
  have "process_publish_job fail_env 2 201 ?s = end_final fail_env demo_job ''PUBLISH_JOB_SNAPSHOT_MISMATCH'' ?s"
    by (simp add: process_publish_job_def sg_bind_def sg_lift_def sg_return_def find_publish_job_def find_row_def
      bare_tables demo_job_fields settled_def find_connection_def find_policy_def not_valid)
      (simp add: demo_connection_def demo_policy_def)
  also have "\<dots> = ?tail ?t"
    unfolding end_final_def final_failure_def sg_bind_assoc
    by (subst sg_bind_value, rule fail_local, subst sg_bind_value, rule fail_local, subst sg_bind_value, rule fail_local, rule refl)
  finally have run: "process_publish_job fail_env 2 201 ?s = ?tail ?t" .
  have st: "storable (rn_db ?t)"
    by (simp add: storable_def publish_lengths_def publish_constraints_def unique_rows_def failed_db_def bare_tables opt_within_def
      failed_job_def demo_usage_def)
  have l: "lives (rn_db ?t) 201 = Some (life failed_job)" by (simp add: lives_def failed_db_def failed_job_def demo_job_fields)
  obtain o' s' where ts: "?tail ?t = (o', s')" by (rule prod.exhaust)
  have "case o' of Value x \<Rightarrow> \<forall>l. lives (rn_db ?t) (pj_id demo_job) = Some l \<longrightarrow> x = (lf_state l, None) | Failed e \<Rightarrow> False | Raised e \<Rightarrow> False"
    by (rule sg_validD [OF tail_total _ ts]) (use st in simp)
  then have "o' = Value (JobState.FINAL_FAILED, None)"
    using l by (cases o') (simp_all add: demo_job_fields life_def failed_job_def)
  then show ?thesis using ts by (simp add: run_publish_task_def run)
qed
section \<open>An edit after the request\<close>

definition draft_db :: publish_db where
  "draft_db = site_db\<lparr>uuid_supply := 100, contents := [], content_versions := [], quality_assessments := [],
     approval_requests := [], publish_jobs := [demo_job]\<rparr>"

definition drafted_db :: publish_db where
  "drafted_db = (case create_content plain_hash 10 editor demo_content draft_db of Inr (c, db) \<Rightarrow> db | Inl e \<Rightarrow> draft_db)"

lemma draft_created: "create_content plain_hash 10 editor demo_content draft_db = Inr (demo_item, drafted_db)"
  by (simp add: drafted_db_def draft_db_def site_db_def content_ops demo_item_def)

lemma drafted_tables: "contents drafted_db = [demo_item]" "content_versions drafted_db = [demo_version]"
  "approval_requests drafted_db = []" "collaboration_events drafted_db = []" "publish_jobs drafted_db = [demo_job]"
  by (simp_all add: drafted_db_def draft_db_def site_db_def content_ops demo_item_def demo_version_def)

lemma draft_edited:
  "\<exists>v db. create_version plain_hash 30 editor 100 demo_edit drafted_db = Inr (v, db) \<and> publish_jobs db = [demo_job]"
proof -
  have f: "find_content 2 100 False drafted_db = Inr demo_item"
    by (simp add: find_content_def drafted_tables demo_rows)
  have c: "assert_current_version 2 demo_item (vc_expected_current_version_id demo_edit)
      (vc_expected_current_hash demo_edit) drafted_db = Inr (Some demo_version)"
    by (simp add: assert_current_version_def drafted_tables demo_rows demo_edit_def)
  have k: "vc_change_kind demo_edit \<noteq> ContentChangeKind.AI_EDIT" by (simp add: demo_edit_def)
  obtain v db1 where a: "append_version plain_hash editor demo_item (vc_title demo_edit) (vc_document demo_edit)
      (vc_change_kind demo_edit) (vc_change_note demo_edit) (vc_source_snapshot_hash demo_edit) no_origin drafted_db
      = Inr (v, db1)" "collaboration_events db1 = []" "publish_jobs db1 = [demo_job]" "approval_requests db1 = []"
    by (simp add: append_version_def demo_edit_def demo_block_def uuid4_def Let_def block_row_def drafted_tables)
  have m: "make_current 30 editor 100 v ''new version'' (set_current 1 v) db1 = update_content_row 100 (set_current 1 v) db1"
    by (simp add: make_current_def invalidate_approvals_for_content_change_def Let_def update_content_row_def a)
  show ?thesis
    by (simp add: create_version_def f c k a demo_rows(1) m version_event_def insert_event_def uuid4_def Let_def
        update_content_row_def job_record_def append_audit_log_def add_outbox_event_def del: One_nat_def)
qed

end
