(* ===== verification/Publish_Properties.thy ===== *)
theory Publish_Properties
  imports Publish_Demo
begin

text \<open>
  Properties of publishing: the states a job can be in, its abstract life cycle, the end of its deliveries,
  what a run does to the remote site, the answer to a repeated request, the daily quota, and schedules. The
  witnesses apply them to the site of \<open>Publish_Demo\<close>.
\<close>

section \<open>The life of a job\<close>

text \<open>C32. Publish jobs are well-formed. In every state a history of requests, worker runs (that commit or
  not) and changes elsewhere reaches, a job is in one of the seven states of publishing, \<open>max_attempts\<close> is 3,
  a job is retryable only with attempts left, is being or was cancelled only on request, and without a
  request for cancellation has made at most 3 attempts, and fewer while it waits.\<close>

theorem publish_jobs_typed:
  assumes "publish_reachable env s" "find_publish_job ws i (fst s) = Inr job"
  shows "pj_state job \<in> {JobState.SCHEDULED, JobState.SUCCEEDED, JobState.PARTIAL, JobState.RETRYABLE_FAILED,
      JobState.FINAL_FAILED, JobState.CANCEL_REQUESTED, JobState.CANCELLED}
    \<and> pj_max_attempts job = 3 \<and> 0 \<le> pj_attempt job
    \<and> (pj_state job = JobState.RETRYABLE_FAILED \<longrightarrow> pj_attempt job < 3)
    \<and> (pj_state job \<in> {JobState.CANCEL_REQUESTED, JobState.CANCELLED} \<longrightarrow> pj_cancel_requested_at job \<noteq> None)
    \<and> (pj_cancel_requested_at job = None \<longrightarrow>
         pj_attempt job \<le> 3 \<and> (pj_state job = JobState.SCHEDULED \<longrightarrow> pj_attempt job < 3))"
proof -
  have "distinct (map pj_id (publish_jobs (fst s)))"
    using publish_reachable_fresh [OF assms(1)] by (simp add: jobs_fresh_def)
  then have "lives (fst s) i = Some (life job)" using find_publish_job_life(2) [OF assms(2)] by simp
  from reachable_life_ok [OF assms(1) this] show ?thesis by (auto simp: life_ok_def life_def)
qed

text \<open>The histories of the witnesses.\<close>

lemma created_reachable: "publish_reachable env (created_db, w)"
proof (rule publish_reachable.Step [OF publish_reachable.Start publish_step.Create [OF demo_created]])
  show "publish_jobs site_db = []" "quota_usages site_db = []" by (simp_all add: site_db_def)
qed

lemma bare_reachable: "publish_reachable env (bare_db, w)"
  by (rule publish_reachable.Step [OF created_reachable publish_step.Elsewhere]) (simp_all add: bare_db_def)

lemma created_job: "find_publish_job 2 201 created_db = Inr demo_job" "find_publish_job 2 201 bare_db = Inr demo_job"
  by (simp_all add: find_publish_job_def find_row_def created_tables bare_tables demo_job_fields)

theorem publish_jobs_typed_witness: "pj_max_attempts demo_job = 3 \<and> pj_attempt demo_job \<le> 3"
  using publish_jobs_typed [of demo_env "(created_db, [])" 2 201 demo_job] created_reachable created_job(1)
  by (simp add: demo_job_fields)

text \<open>C33. The code refines the abstract life cycle of a job. Seen through \<open>lives\<close> (of each job its state, its
  attempts and whether a cancellation was asked), every step of a history leaves all jobs alone, adds a new
  job, or moves one job along the abstract cycle: a run, a request for cancellation, a retry.\<close>

theorem publish_step_simulates:
  assumes "publish_reachable env s" "publish_step env s s'"
  shows "lives (fst s') = lives (fst s)
    \<or> (\<exists>i. lives (fst s) i = None \<and> lives (fst s') = (lives (fst s))(i \<mapsto> new_life))
    \<or> (\<exists>i l l'. lives (fst s) i = Some l \<and> life_step l l' \<and> lives (fst s') = (lives (fst s))(i \<mapsto> l'))"
  using publish_step_refines [OF assms(2) publish_reachable_fresh [OF assms(1)]] by (simp add: lives_step_def)

theorem publish_step_simulates_witness:
  "\<exists>i l'. lives created_db i = Some new_life \<and> life_step new_life l'"
proof -
  have reach: "publish_reachable demo_env (site_db, [])" by (rule publish_reachable.Start) (simp_all add: site_db_def)
  have none: "lives site_db i = None" for i by (simp add: lives_def site_db_def)
  have "lives created_db 201 \<noteq> None" by (simp add: lives_def created_tables demo_job_fields)
  then obtain i where "lives created_db i = Some new_life"
    using publish_step_simulates [OF reach publish_step.Create [OF demo_created, of demo_env "[]"]] none
    by (auto simp: fun_eq_iff)
  moreover have "life_step new_life (new_life\<lparr>lf_state := JobState.CANCEL_REQUESTED, lf_asked := True\<rparr>)"
    by (rule life_step.Ask) (simp add: new_life_def)
  ultimately show ?thesis by blast
qed

text \<open>C34. The deliveries of a job end. The task delivers a job at most four times; of a job nobody asked to
  cancel at most three runs commit. Whatever the provider answers, the deliveries leave it settled
  (succeeded, partial or finally failed) with the last report being the state the database holds, unless at
  least two of the four runs were rolled back: by a failed commit, an exception the run does not handle, or
  an answer the columns refuse, such as a remote id that is too long or taken.\<close>

theorem deliveries_settle:
  assumes reach: "publish_reachable env s" and job: "find_publish_job ws i (fst s) = Inr job"
    and unasked: "pj_cancel_requested_at job = None"
    and run: "process_publish_job_task env ws i moments s = (rs, s')" and enough: "4 \<le> length moments"
  shows "length rs \<le> 4 \<and> length (filter (\<lambda>r. r \<noteq> None) rs) \<le> 3
    \<and> ((\<exists>l x. lives (fst s') i = Some l \<and> life_settled l \<and> rs \<noteq> [] \<and> last rs = Some x \<and> fst x = lf_state l)
       \<or> length rs = 4 \<and> 2 \<le> length (filter (\<lambda>r. r = None) rs))"
proof -
  have "distinct (map pj_id (publish_jobs (fst s)))"
    using publish_reachable_fresh [OF reach] by (simp add: jobs_fresh_def)
  then have l: "lives (fst s) i = Some (life job)" using find_publish_job_life(2) [OF job] by simp
  have n: "0 \<le> lf_attempt (life job)" using reachable_life_ok [OF reach l] by (simp add: life_ok_def)
  have four: "length (take (Suc max_retries) moments) = 4" using enough by (simp add: max_retries_def)
  have "\<not> lf_asked (life job)" using unasked by (simp add: life_def)
  from deliver_settles [OF reach l this run [unfolded process_publish_job_task_def], unfolded four] n
  have rs: "length rs \<le> 4" "committed rs \<le> 3"
      "left_settled i rs (fst s') \<or> length rs = 4 \<and> committed rs \<le> 2" by auto
  have "length (filter (\<lambda>r. r = None) rs) = length rs - committed rs"
    using sum_length_filter_compl [of "\<lambda>r. r = None" rs] by (simp add: committed_def)
  with rs show ?thesis by (auto simp: left_settled_def committed_def)
qed

lemma fail_env_now: "fail_env\<lparr>ev_now := 50\<rparr> = fail_env"
  by (simp add: fail_env_def demo_env_def)

theorem deliveries_settle_witness:
  "\<exists>l. lives (fst (snd (process_publish_job_task fail_env 2 201 [(50, True), (50, True), (50, True), (50, True)] (bare_db, [])))) 201 = Some l
    \<and> life_settled l"
proof -
  let ?moments = "[(50, True), (50, True), (50, True), (50, True)] :: (time \<times> bool) list"
  obtain r s where run: "run_publish_task fail_env True 2 201 (bare_db, []) = (r, s)" by (rule prod.exhaust)
  then have "r = Some (JobState.FINAL_FAILED, None)" using run_fails [of "[]"] by simp
  with run have "process_publish_job_task fail_env 2 201 ?moments (bare_db, []) = ([Some (JobState.FINAL_FAILED, None)], s)"
    by (simp add: process_publish_job_task_def max_retries_def fail_env_now)
  then show ?thesis
    using deliveries_settle [OF bare_reachable [of fail_env "[]"], of 2 201 demo_job ?moments] created_job(2)
    by (auto simp: demo_job_fields)
qed

section \<open>The remote site\<close>




text \<open>C36. A remote post that changed is not overwritten. Let the provider answer every fetch with a post
  whose hash is not the one the job's request recorded, as long as the site looks as it does now. Then a run
  of a delete or rollback job, or of an update or reconcile job that was not asked to overwrite, leaves the
  site as it is: it changes no post, whatever else it reads and however it ends.\<close>

theorem changed_posts_survive:
  assumes job: "find_publish_job ws i db = Inr job" and unasked: "pj_cancel_requested_at job = None"
    and secret: "\<forall>ref. leaves (same_view site) (sg_resolve_secret env ref)"
    and changed: "\<forall>provider contract cms. sg_registry env provider contract = Some cms \<longrightarrow>
      remote_changed site (site w) (expected_hash env job) cms"
    and op: "pj_operation job \<in> {PublishOperation.DELETE, PublishOperation.ROLLBACK}
      \<or> pj_operation job \<in> {PublishOperation.UPDATE, PublishOperation.RECONCILE} \<and> job_action job \<noteq> Inr ConflictAction.OVERWRITE"
  shows "site (snd (snd (run_publish_task env commits ws i (db, w)))) = site w"
  by (rule run_changed_unwritten [OF job unasked]) (use secret changed op in auto)

text \<open>A delete of a post with the hash \<open>old\<close>, which the site shows with another.\<close>

definition delete_job :: publish_job where
  "delete_job = demo_job\<lparr>pj_operation := PublishOperation.DELETE,
     pj_input_snapshot := [(''expected_remote_hash'', JStr ''old'')]\<rparr>"

theorem changed_posts_survive_witness:
  "snd (snd (run_publish_task demo_env True 2 201 (site_db\<lparr>publish_jobs := [delete_job]\<rparr>, [(''https://b.example'', ''m'')])))
     = [(''https://b.example'', ''m'')]"
  by (rule changed_posts_survive [where site = "\<lambda>w. w" and job = delete_job])
    (auto simp: find_publish_job_def find_row_def delete_job_def demo_job_fields demo_env_def leaves_def remote_changed_def
      demo_cms_def answers_def demo_call_def expected_hash_def py_str_def demo_post_def)

text \<open>C37. An edit stops the publication. After a successful edit of a content in a reachable state of the
  approvals, a run of any unfinished job that would create or update a post from that content calls no
  provider: of the world outside it uses nothing but the secret of the connection, so whatever reading
  secrets leaves alone is as before, however the run ends.\<close>

theorem edits_stop_publication:
  assumes reach: "approval_reachable other H lr db"
    and edit: "create_version H' now p cid d db = Inr (v, db')"
    and job: "find_publish_job (workspace_id p) i db' = Inr job" "pj_content_id job = cid"
      "pj_operation job \<in> {PublishOperation.CREATE, PublishOperation.UPDATE}" "pj_cancel_requested_at job = None"
    and secret: "\<forall>ref. leaves (same_view site) (sg_resolve_secret env ref)"
  shows "site (snd (snd (run_publish_task env commits (workspace_id p) i (db', w)))) = site w"
proof -
  have "\<forall>r \<in> set (approval_requests db'). ar_workspace_id r = workspace_id p \<longrightarrow> ar_content_id r = cid \<longrightarrow> \<not> active_approval r"
    using edit by (rule create_version_Inr) (use new_version_effect [OF reachable_ok [OF reach]] in blast)
  moreover have "pj_workspace_id job = workspace_id p"
    using job(1) by (auto simp: find_publish_job_def dest: find_row_Inr)
  ultimately have "\<exists>e. publish_ready (pj_workspace_id job) (pj_content_id job) (pj_content_version_id job)
      (pj_content_hash job) (pj_approval_request_id job) ch db' = Inl e" for ch
    using publish_ready_needs_active [of db' "workspace_id p" cid] by (auto simp: job(2))
  with secret show ?thesis by (intro run_unapproved_unwritten [OF job(1,4) _ _ job(3)]) auto
qed

theorem edits_stop_publication_witness:
  "\<exists>v db. create_version plain_hash 30 editor 100 demo_edit drafted_db = Inr (v, db)
    \<and> find_publish_job 2 201 db = Inr demo_job \<and> snd (snd (run_publish_task demo_env True 2 201 (db, []))) = []"
proof -
  obtain v db where e: "create_version plain_hash 30 editor 100 demo_edit drafted_db = Inr (v, db)"
    and j: "publish_jobs db = [demo_job]" using draft_edited by blast
  have "approval_reachable no_repr plain_hash no_rate drafted_db"
    by (rule approval_reachable.Step [OF approval_reachable.Start approval_step.CreateContent [OF draft_created]])
      (simp add: empty_content_def draft_db_def site_db_def)
  moreover have f: "find_publish_job 2 201 db = Inr demo_job"
    by (simp add: find_publish_job_def find_row_def j demo_job_fields)
  moreover have "pj_content_id demo_job = 100"
    by (simp add: demo_job_def job_row_def demo_job_request_def site_content_def ready_content_def site_item_def demo_rows)
  ultimately have "snd (snd (run_publish_task demo_env True (workspace_id editor) 201 (db, []))) = []"
    using e by (intro edits_stop_publication [where site = "\<lambda>w. w" and job = demo_job]) (simp_all add: demo_job_fields demo_env_def leaves_def)
  with e f show ?thesis by auto
qed

section \<open>Requests and quotas\<close>

text \<open>C38. A request is answered once. When \<open>create_publish_job\<close> accepted a request with an idempotency key,
  then after any further history the same principal's request with that key and the same hash is answered by
  the same job and changes nothing, and with another hash it is refused; no other job ever has the key.\<close>

theorem requests_answered_once:
  assumes reach: "publish_reachable env s"
    and accepted: "create_publish_job e p cid d key (fst s) = Inr ((job, new), db)"
    and history: "(publish_step env)\<^sup>*\<^sup>* (db, snd s) s'"
  shows "\<exists>job'. request_of job' = request_of job
    \<and> (\<forall>e' cid' d'. create_publish_job e' p cid' d' key (fst s') =
         (if ev_hash e' (publish_request_json cid' d') = ev_hash e (publish_request_json cid d)
          then Inr ((job', False), fst s') else Inl (app_error ''IDEMPOTENCY_KEY_REUSED'' 409)))
    \<and> (\<forall>j \<in> set (publish_jobs (fst s')). request_ident (request_of j) = request_ident (request_of job) \<longrightarrow> j = job')"
proof -
  from request_accepted [OF accepted] obtain old where key: "key \<noteq> []" "length key \<le> 255"
    and hash: "pj_request_hash job = ev_hash e (publish_request_json cid d)"
    and old: "find_request_job p PublishOperation.CREATE key (fst (db, snd s)) = Some old" "request_of old = request_of job" by auto
  obtain job' where j: "find_request_job p PublishOperation.CREATE key (fst s') = Some job'" "request_of job' = request_of old"
    by (rule request_stays [OF history old(1)])
  have step: "publish_step env s (db, snd s)" using publish_step.Create [OF accepted, of env "snd s"] by simp
  from history have "publish_reachable env s'"
  proof (induction rule: rtranclp_induct)
    case base
    from reach step show ?case by (rule publish_reachable.Step)
  next
    case (step a b)
    from step.IH step.hyps(2) show ?case by (rule publish_reachable.Step)
  qed
  then have unique: "keys_unique (fst s')" by (rule publish_reachable_keys)
  have "job' \<in> set (publish_jobs (fst s'))" using j(1) by (auto simp: find_request_job_def dest: find_SomeD)
  moreover have "inj_on (request_ident \<circ> request_of) (set (publish_jobs (fst s')))"
    using unique by (simp add: keys_unique_def distinct_map)
  ultimately have "j = job'" if "j \<in> set (publish_jobs (fst s'))" "request_ident (request_of j) = request_ident (request_of job)" for j
    using that j(2) old(2) inj_onD [of "request_ident \<circ> request_of" "set (publish_jobs (fst s'))" j job'] by simp
  moreover have "pj_request_hash job' = ev_hash e (publish_request_json cid d)"
    using j(2) old(2) hash by (simp add: request_of_def)
  ultimately show ?thesis
    using request_replayed [OF j(1) key] j(2) old(2) by (intro exI [of _ job']) simp
qed

theorem requests_answered_once_witness:
  "\<exists>job' db. create_publish_job demo_penv editor 100 demo_create ''k'' (fst (snd (run_publish_task demo_env True 2 201 (created_db, []))))
     = Inr ((job', False), db) \<and> request_of job' = request_of demo_job"
proof -
  obtain db1 w1 where s1: "snd (run_publish_task demo_env True 2 201 (created_db, [])) = (db1, w1)" by (rule prod.exhaust)
  have "demo_env\<lparr>ev_now := 50\<rparr> = demo_env" by (simp add: demo_env_def)
  then have "publish_step demo_env (created_db, []) (db1, w1)"
    by (intro publish_step.Run [where t = 50 and commits = True and ws = 2 and i = 201
          and outcome = "fst (run_publish_task demo_env True 2 201 (created_db, []))"]) (simp add: s1 [symmetric])
  then have history: "(publish_step demo_env)\<^sup>*\<^sup>* (created_db, snd (site_db, [])) (db1, w1)" by auto
  have reach: "publish_reachable demo_env (site_db, [])" by (rule publish_reachable.Start) (simp_all add: site_db_def)
  from requests_answered_once [OF reach _ history, of demo_penv editor 100 demo_create "''k''" demo_job True] demo_created
  show ?thesis by (auto simp: s1)
qed

text \<open>C39. The counters of the daily quota stay within bounds. In every reachable state each counter of a
  connection, channel and local day has non-negative counts, and no more reservations than the limit in
  force when the last one was made.\<close>

theorem daily_quota_bounded:
  assumes "publish_reachable env s" "u \<in> set (quota_usages (fst s))"
  shows "0 \<le> qu_completed_count u \<and> 0 \<le> qu_reserved_count u \<and> qu_reserved_count u \<le> qu_quota_limit u"
  using publish_reachable_counters [OF assms(1)] assms(2) by (auto simp: counters_ok_def counter_ok_def)

theorem daily_quota_bounded_witness: "demo_usage \<in> set (quota_usages created_db) \<and> qu_reserved_count demo_usage \<le> 3"
  using daily_quota_bounded [of demo_env "(created_db, [])" demo_usage] created_reachable
  by (auto simp: created_tables demo_usage_def)

section \<open>Schedules\<close>

text \<open>What \<^verbatim>\<open>zoneinfo\<close> promises of a zone (PEP 495): the reading of an instant is its local time and a fold
  that leads back to it, and a reading with fold 1 is the second of two instants with that local time.\<close>

definition zone_law :: "time_zone \<Rightarrow> bool" where
  "zone_law z \<longleftrightarrow> (\<forall>u l f. snd z u = (l, f) \<longrightarrow> f \<in> {0, 1} \<and> fst z f l = u
     \<and> (f = 1 \<longrightarrow> fst z 0 l \<noteq> u \<and> fst (snd z (fst z 0 l)) = l))"

definition ambiguous_local :: "time_zone \<Rightarrow> time \<Rightarrow> bool" where
  "ambiguous_local z l \<longleftrightarrow> fst z 0 l \<noteq> fst z 1 l \<and> fst (snd z (fst z 0 l)) = l \<and> fst (snd z (fst z 1 l)) = l"

text \<open>The schedules the code accepts.\<close>

lemma schedule_candidates_cases:
  "schedule_candidates z l = (if fst (snd z (fst z 0 l)) = l then [(0, fst z 0 l)] else [])
     @ (if fst (snd z (fst z 1 l)) = l then [(1, fst z 1 l)] else [])"
  by (simp add: schedule_candidates_def)

lemma schedule_ambiguous:
  "1 < length (remdups (map snd (schedule_candidates z l))) \<longleftrightarrow> ambiguous_local z l"
  by (auto simp: schedule_candidates_cases ambiguous_local_def)

lemma schedule_candidate:
  "map_of (schedule_candidates z l) g = Some t \<longleftrightarrow>
     g \<in> {0, 1} \<and> fst z g l = t \<and> fst (snd z (fst z g l)) = l"
  by (auto simp: schedule_candidates_cases)

lemma validate_schedule_Inr:
  assumes "zones name = Inr (Some z)"
  shows "validate_schedule zones (WithOffset u off) (NoZone l) name fa = Inr v \<longleftrightarrow>
    off = 0 \<and> (if ambiguous_local z l then fa \<noteq> None else fa \<noteq> Some 1)
    \<and> (let g = (case fa of None \<Rightarrow> 0 | Some g \<Rightarrow> g) in
         g \<in> {0, 1} \<and> fst z g l = u \<and> fst (snd z (fst z g l)) = l
         \<and> v = \<lparr>vd_scheduled_at_utc = u, vd_scheduled_local = l, vd_timezone_name = name, vd_fold = g, vd_local_day = date_of l\<rparr>)"
proof -
  define g where "g = (case fa of None \<Rightarrow> 0 | Some g \<Rightarrow> g)"
  have chosen: "map_of (schedule_candidates z l) g \<noteq> None \<Longrightarrow> schedule_candidates z l \<noteq> []" by auto
  have "validate_schedule zones (WithOffset u off) (NoZone l) name fa = Inr v \<longleftrightarrow>
    off = 0 \<and> (if ambiguous_local z l then fa \<noteq> None else fa \<noteq> Some 1) \<and> map_of (schedule_candidates z l) g = Some u
    \<and> v = \<lparr>vd_scheduled_at_utc = u, vd_scheduled_local = l, vd_timezone_name = name, vd_fold = g, vd_local_day = date_of l\<rparr>"
    unfolding validate_schedule_def Let_def assms supplied_time.case option.case sum.case schedule_ambiguous g_def [symmetric]
    using chosen by (cases "map_of (schedule_candidates z l) g") auto
  then show ?thesis by (simp add: schedule_candidate Let_def g_def [symmetric])
qed

text \<open>C40. A schedule is accepted exactly when its two times agree. For a zone that keeps the law of its
  library, a UTC instant, a local time and an optional fold are accepted iff the instant is given in UTC, the
  local time is what clocks in the zone show at that instant, and the fold is the one of that reading, or
  absent where the local time is not ambiguous; the result holds the given times, that fold and the local day.
  So the reading of any instant is accepted with its own fold.\<close>

theorem schedule_roundtrip:
  assumes zone: "zones name = Inr (Some z)" "zone_law z"
  shows "validate_schedule zones (WithOffset u off) (NoZone l) name fa = Inr v \<longleftrightarrow>
    off = 0 \<and> fst (snd z u) = l \<and> (fa = Some (snd (snd z u)) \<or> fa = None \<and> \<not> ambiguous_local z l)
    \<and> v = \<lparr>vd_scheduled_at_utc = u, vd_scheduled_local = l, vd_timezone_name = name, vd_fold = snd (snd z u),
             vd_local_day = date_of l\<rparr>"
proof -
  let ?there = "fst (snd z u) = l" and ?a = "fst z 0 l" and ?b = "fst z 1 l"
  let ?ok = "\<lambda>t. fst (snd z t) = l" and ?amb = "ambiguous_local z l"
  have here: "snd (snd z u) = 0 \<and> ?a = u \<or> snd (snd z u) = 1 \<and> ?b = u \<and> ?a \<noteq> u \<and> ?ok ?a" if ?there
    using zone(2) that unfolding zone_law_def by (cases "snd z u") auto
  have amb: "?amb \<longleftrightarrow> ?a \<noteq> ?b \<and> ?ok ?a \<and> ?ok ?b" by (simp add: ambiguous_local_def)
  note accepted = validate_schedule_Inr [of zones name z, OF zone(1)]
  show ?thesis
  proof (cases ?there)
    case True
    from here [OF True] show ?thesis
      by (elim disjE conjE) (use True in \<open>auto simp: accepted amb Let_def split: option.splits\<close>)
  next
    case False
    then have "\<not> (?ok ?a \<and> ?a = u)" "\<not> (?ok ?b \<and> ?b = u)" by auto
    with False show ?thesis by (auto simp: accepted Let_def split: option.splits)
  qed
qed

definition overlap_zone :: time_zone where
  "overlap_zone = (\<lambda>f l. if f = 0 then (if l < 100 then l + 10 else l + 20) else (if l < 90 then l + 10 else l + 20),
     \<lambda>t. if t < 110 then (t - 10, 0) else (t - 20, if t < 120 then 1 else 0))"

theorem schedule_roundtrip_witness:
  "(\<exists>v. validate_schedule (\<lambda>_. Inr (Some overlap_zone)) (WithOffset 113 0) (NoZone 93) ''Zone'' (Some 1) = Inr v)
    \<and> (\<nexists>v. validate_schedule (\<lambda>_. Inr (Some overlap_zone)) (WithOffset 113 0) (NoZone 93) ''Zone'' None = Inr v)"
proof -
  have "zone_law overlap_zone" by (auto simp: zone_law_def overlap_zone_def split: if_splits)
  note valid = schedule_roundtrip [OF refl this]
  show ?thesis unfolding valid by (simp add: overlap_zone_def ambiguous_local_def)
qed

end
