(* ===== verification/Spec2Isabelle.thy ===== *)
theory Spec2Isabelle
  imports Billing_Properties Billing_Pricing Payment_Properties Foundation_Properties
    Generation_Properties Generation_Pipeline Budget_Adapter
    Approval_Properties Publish_Connections Publish_Properties
begin

text \<open>
  A verification library for the BlogOps service (\<^verbatim>\<open>src/blogops\<close>): a multi-tenant service that plans,
  generates, reviews and publishes blog content and charges for it in prepaid credits.

  \<^bold>\<open>How the program works.\<close> Every request or background task is one database transaction: it opens a session
  scoped to a workspace, a service reads and writes its tables, and audit and outbox rows are written with it.
  A paid job is created by a domain service, which first reserves credits through a budget adapter (a credit
  hold of the billing ledger); workers then drive the job along the shared job state machine, and its terminal
  event settles the hold. A content has versions; reports and an assessment judge one version, an approval
  request pins it, and publishing takes only an approved current version. A publish job is enqueued with
  snapshots of all it was checked against, and its worker repeats the checks before it calls the provider.

  \<^bold>\<open>How it is modelled.\<close> A table is a list of records with the columns of the model class (server-side
  timestamps that nothing reads are left out); a database is a record of tables, extensible so that a service
  sees only its own. A service operation is a function from the current time, the principal, the request and
  the database to \<open>error + value \<times> database\<close>: \<open>Inl\<close> is the raised \<open>AppError\<close> (or the violated constraint of the
  flush) and means that the transaction is rolled back. A handler keeps the order of the checks of the code.
  Identifiers come from a supply in the database. Python's integers are \<open>int\<close>, its decimals rationals with the
  28-digit context of \<open>Decimal28\<close> where the code computes in it, its strings lists of 8-bit characters, a JSON
  value the datatype \<open>json\<close>. Digests, clocks, time zones, \<open>repr\<close> of a float, what PostgreSQL's JSONB returns for
  a stored document (the other JSON columns return what was stored), the providers and the other services are
  parameters. The lengths of key columns and the
  NUMERIC(19,6) range of balances, ledger amounts and usage costs are checked where the flush checks them. What models code computes; no loop needs fuel: the recursions are structural or have a measure,
  and a worker's repeated delivery is a list of moments.

  \<^bold>\<open>Foundation.\<close>
  \<^item> \<open>Prelude\<close>, \<open>Text_Util\<close>, \<open>Text_Parse\<close>, \<open>Decimal28\<close>: values, results, tables, Python's strings and decimals.
  \<^item> \<open>State_Machine\<close> (interfaces of a transition table), \<open>Job_State\<close> (\<^verbatim>\<open>domain/jobs/state.py\<close>), \<open>Foundation\<close>
    (\<^verbatim>\<open>core/context.py\<close>, \<^verbatim>\<open>core/permissions.py\<close>, \<^verbatim>\<open>core/retries.py\<close>, \<^verbatim>\<open>db/session.py\<close>, \<^verbatim>\<open>services/audit.py\<close>,
    \<^verbatim>\<open>services/outbox.py\<close>, \<^verbatim>\<open>services/idempotency.py\<close>). \<open>Foundation_Properties\<close>: a job can always end and stays
    ended, nothing is published unreviewed, platform scope needs MFA, idempotency records replay.

  \<^bold>\<open>Billing\<close> (\<^verbatim>\<open>domain/billing\<close>).
  \<^item> \<open>Billing_Rules\<close> (\<^verbatim>\<open>rules.py\<close>, \<^verbatim>\<open>enums.py\<close>), \<open>Billing_Models\<close> (\<^verbatim>\<open>models.py\<close>, \<^verbatim>\<open>schemas.py\<close>), \<open>Billing_Ledger\<close> and
    \<open>Billing_Settlement\<close> (the credit operations of \<^verbatim>\<open>service.py\<close>), \<open>Billing_Payments\<close> (payment commands, provider
    events and the worker of \<^verbatim>\<open>tasks.py\<close>), \<open>Budget_Resolver\<close> and \<open>Budget_Adapter\<close> (\<^verbatim>\<open>adapters.py\<close>).
  \<^item> \<open>Billing_Invariant\<close>, \<open>Billing_Safety\<close>: the accounting invariant and its preservation; \<open>Billing_Reach\<close>: committed
    transactions as steps; \<open>Billing_Range\<close>: the balances stay in the range of their columns; \<open>Billing_Replay\<close>: the interface \<open>idempotent_command\<close>, implemented by eight operations;
    \<open>Billing_Properties\<close>, \<open>Billing_Pricing\<close>, \<open>Payment_Properties\<close>: balances, conservation, settlement, exactly-once
    delivery, order of spending, bounds on reversals and prices, the end of a payment command.

  \<^bold>\<open>Generation\<close> (\<^verbatim>\<open>domain/generation\<close>).
  \<^item> \<open>Generation_Rules\<close> (\<^verbatim>\<open>rules.py\<close>, \<^verbatim>\<open>enums.py\<close>), \<open>Generation_Models\<close>, \<open>Generation_Service\<close> (the job operations of
    \<^verbatim>\<open>service.py\<close>), \<open>Generation_Worker\<close> (\<^verbatim>\<open>tasks.py\<close>). The budget gateway is the interface \<open>budget_port\<close>.
  \<^item> \<open>Generation_Invariant\<close>, \<open>Generation_Pipeline\<close>: what holds of jobs and steps in every history, and that a plan
    can be carried out step by step; \<open>Generation_Properties\<close>: admission and what a provider is shown.

  \<^bold>\<open>Contents, quality, approvals\<close> (\<^verbatim>\<open>domain/generation/service.py\<close>, \<^verbatim>\<open>domain/quality\<close>).
  \<^item> \<open>Content_Models\<close>, \<open>Content_Service\<close>, \<open>Content_Library\<close>: versions, blocks, templates, the export;
    \<open>Quality_Rules\<close>, \<open>Quality_Reports\<close>: reports, assessments, the gate; \<open>Approval_Service\<close>, \<open>Approval_Decisions\<close>:
    overrides, requests, decisions, invalidation and the proof of an approval.
  \<^item> \<open>Content_Frames\<close>, \<open>Approval_Invariant\<close>, \<open>Approval_Preservation\<close>, \<open>Approval_Steps\<close>, \<open>Assessment_Steps\<close>,
    \<open>Approval_Requests\<close>, \<open>Approval_Operations\<close>, \<open>Approval_Reach\<close>: an active request is about the current version,
    its passed stages had their quorum, its assessment is clear; \<open>Quality_Scores\<close>: the error of the score;
    \<open>Approval_Properties\<close>: what publishing can rely on, what an edit withdraws, scores, verdicts, decisions.

  \<^bold>\<open>Publishing\<close> (\<^verbatim>\<open>domain/publishing\<close>).
  \<^item> \<open>Publish_Rules\<close> (\<^verbatim>\<open>rules.py\<close>, \<^verbatim>\<open>enums.py\<close>), \<open>Publish_Security\<close> (\<^verbatim>\<open>security.py\<close>), \<open>Publish_Models\<close> (\<^verbatim>\<open>models.py\<close>,
    \<^verbatim>\<open>repository.py\<close>), \<open>Publish_Readiness\<close> (\<^verbatim>\<open>references.py\<close>), \<open>Publish_Service\<close>, \<open>Publish_Requests\<close> and
    \<open>Publish_Jobs\<close> (\<^verbatim>\<open>service.py\<close>), \<open>Publish_Saga\<close>, \<open>Publish_Run\<close> and \<open>Publish_Process\<close> (\<^verbatim>\<open>saga.py\<close>),
    \<open>Publish_Tasks\<close> (\<^verbatim>\<open>tasks.py\<close>), \<open>Publish_Connections\<close> (the worker of connection jobs, whose deliveries end).
  \<^item> A run of the worker threads the session and the world outside: an effect at a provider stays when the
    transaction is rolled back, a call may fail after it took effect, and a query sees the last flush.
  \<^item> \<open>Publish_Frames\<close>, \<open>Publish_Keeps\<close>: Hoare triples of a run and the locales that carry a predicate from reading
    to writing calls; \<open>Publish_Life\<close>, \<open>Publish_Reach\<close>: the abstract life cycle of a job and the simulation;
    \<open>Publish_Delivery\<close>: the deliveries of a job end; \<open>Publish_Safety\<close>: what a run does outside, by a log of
    the searches and creations sent to arbitrary providers, and by what a reader sees of the remote posts; \<open>Publish_Keys\<close>:
    request keys and quota counters; \<open>Publish_Properties\<close> states the results. The task makes at most four
    deliveries and a job at most three attempts, so four moments are enough; two rolled back runs can exhaust
    them.

  The theories \<open>Billing_Demo\<close>, \<open>Approval_Demo\<close> and \<open>Publish_Demo\<close> hold the concrete runs of the witnesses.

  \<^bold>\<open>Not modelled.\<close> The HTTP routers, configuration, logging, migrations, the web client: they hold no rule of
  their own. The provider adapters and the HTML renderer of publishing, the executor of generation steps and
  the payment gateway call services outside and are parameters. Subscription, price and invoice administration,
  comments, previews, Naver packages and the filtered lists are left out of the services they belong to. The
  remaining domains (identity, research, keywords, media, bulk import, repurposing, knowledge, analytics,
  operations and others) are not part of the library; where a modelled service reads one of their tables, the
  rows are modelled. Concurrent transactions are interleaved as whole steps: the code takes row locks, and a
  transaction that loses a race fails and is retried.
\<close>

end
